(* ===== verification/JsPrelude.thy ===== *)
theory JsPrelude
  imports Complex_Main
begin

text \<open>
  The JavaScript values and library operations every component of the admin client uses:
  strings as lists of UTF-16 code units, the string and array methods the sources call,
  property lookup in object literals (which falls back on Object.prototype), insertion
  ordered maps, comparator sorts, and the error monad that carries a thrown exception.
\<close>

named_theorems js_defs \<open>definitions to unfold when a closed call is evaluated\<close>

section \<open>Strings\<close>

text \<open>
  A JavaScript string is a sequence of UTF-16 code units. A code unit is an integer (0 to
  65535). \<open>lit\<close> embeds an ASCII literal; \<open>ulit\<close> also reads the \<open>%uXXXX\<close> notation of the
  legacy \<open>unescape\<close> function, which is how the Chinese literals of the sources are written.
\<close>

type_synonym jchar = int
type_synonym jstr = "jchar list"

definition lit :: "string \<Rightarrow> jstr" where
  "lit s = map of_char s"

definition hex_digit :: "char \<Rightarrow> int" where
  "hex_digit c = (let n = of_char c :: int in
     if 48 \<le> n \<and> n \<le> 57 then n - 48 else if 65 \<le> n \<and> n \<le> 70 then n - 55 else n - 87)"

fun ulit :: "string \<Rightarrow> jstr" where
  "ulit [] = []"
| "ulit (x # s) =
     (if x = CHR ''%'' then
        (case s of
           _ # a # b # c # d # r \<Rightarrow>
             (((hex_digit a * 16 + hex_digit b) * 16 + hex_digit c) * 16 + hex_digit d) # ulit r
         | _ \<Rightarrow> [of_char x])
      else of_char x # ulit s)"

declare ulit.simps [simp del]

lemma lit_Nil [simp]: "lit [] = []" and lit_eq_Nil [simp]: "lit s = [] \<longleftrightarrow> s = []"
  and Nil_eq_lit [simp]: "[] = lit s \<longleftrightarrow> s = []"
  by (auto simp: lit_def)

lemma lit_inject [simp]: "lit s = lit t \<longleftrightarrow> s = t"
  by (auto simp: lit_def inj_map_eq_map [OF inj_of_char])

lemma ulit_eq_Nil [simp]: "ulit s = [] \<longleftrightarrow> s = []" and Nil_eq_ulit [simp]: "[] = ulit s \<longleftrightarrow> s = []"
proof -
  show *: "ulit s = [] \<longleftrightarrow> s = []" by (cases s) (auto simp: ulit.simps split: list.split)
  then show "[] = ulit s \<longleftrightarrow> s = []" by auto
qed

lemma length_lit [simp]: "length (lit s) = length s"
  by (simp add: lit_def)

lemma lit_append: "lit (s @ t) = lit s @ lit t"
  by (simp add: lit_def)

lemma lit_Cons: "lit (c # s) = of_char c # lit s"
  by (simp add: lit_def)

lemma of_char_in_lit: "of_char c \<in> set (lit s) \<longleftrightarrow> c \<in> set s"
  by (auto simp: lit_def)

lemma slash_in_lit [simp]: "47 \<in> set (lit s) \<longleftrightarrow> CHR ''/'' \<in> set s"
  using of_char_in_lit [of "CHR ''/''" s] by simp

lemma colon_in_lit [simp]: "58 \<in> set (lit s) \<longleftrightarrow> CHR '':'' \<in> set s"
  using of_char_in_lit [of "CHR '':''" s] by simp

lemma dash_in_lit [simp]: "45 \<in> set (lit s) \<longleftrightarrow> CHR ''-'' \<in> set s"
  using of_char_in_lit [of "CHR ''-''" s] by simp

lemma lit_colon: "lit s @ 58 # lit t = lit (s @ '':'' @ t)"
  by (simp add: lit_def)

subsection \<open>Truthiness and the logical operators on strings\<close>

text \<open>\<open>a || b\<close> on strings, \<open>a ?? b\<close> on optional values.\<close>

definition or_str :: "jstr \<Rightarrow> jstr \<Rightarrow> jstr" where
  "or_str a b = (if a = [] then b else a)"

definition opt_str :: "jstr option \<Rightarrow> jstr" where
  "opt_str x = (case x of None \<Rightarrow> [] | Some s \<Rightarrow> s)"

definition nullish :: "'a option \<Rightarrow> 'a \<Rightarrow> 'a" where
  "nullish x d = (case x of None \<Rightarrow> d | Some v \<Rightarrow> v)"

lemma nullish_simps [simp]: "nullish None d = d" "nullish (Some v) d = v"
  by (simp_all add: nullish_def)

lemma opt_str_simps [simp]: "opt_str None = []" "opt_str (Some s) = s"
  by (simp_all add: opt_str_def)

subsection \<open>split, join, trim, case conversion, search\<close>

fun js_split :: "jchar \<Rightarrow> jstr \<Rightarrow> jstr list" where
  "js_split sep [] = [[]]"
| "js_split sep (c # s) =
     (if c = sep then [] # js_split sep s
      else case js_split sep s of [] \<Rightarrow> [[c]] | w # ws \<Rightarrow> (c # w) # ws)"

fun js_join :: "jstr \<Rightarrow> jstr list \<Rightarrow> jstr" where
  "js_join sep [] = []"
| "js_join sep [x] = x"
| "js_join sep (x # y # ys) = x @ sep @ js_join sep (y # ys)"

lemma js_split_nonempty [simp]: "js_split sep s \<noteq> []"
  by (induction s) (auto split: list.splits)

lemma js_split_no_sep: "sep \<notin> set s \<Longrightarrow> js_split sep s = [s]"
  by (induction s) auto

lemma js_split_append: "sep \<notin> set s \<Longrightarrow> js_split sep (s @ sep # t) = s # js_split sep t"
  by (induction s) auto

lemma js_join_split: "js_join [sep] (js_split sep s) = s"
proof (induction s)
  case Nil
  then show ?case by simp
next
  case (Cons c s)
  then show ?case
    by (cases "js_split sep s"; cases "tl (js_split sep s)") auto
qed

lemma js_join_inject:
  assumes "length xs = length ys" "\<forall>x \<in> set xs. sep \<notin> set x" "\<forall>y \<in> set ys. sep \<notin> set y"
    and "js_join [sep] xs = js_join [sep] ys"
  shows "xs = ys"
proof -
  have split_join: "js_split sep (js_join [sep] zs) = zs"
    if "zs \<noteq> []" "\<forall>z \<in> set zs. sep \<notin> set z" for zs
    using that by (induction "[sep]" zs rule: js_join.induct)
      (auto simp: js_split_no_sep js_split_append)
  show ?thesis
  proof (cases "xs = []")
    case False
    with assms(1) have "ys \<noteq> []" by auto
    with False assms show ?thesis by (metis split_join)
  qed (use assms(1) in auto)
qed

text \<open>White space and line terminators of the ECMAScript grammar, as \<open>trim\<close> uses them.\<close>

definition is_space :: "jchar \<Rightarrow> bool" where
  "is_space c \<longleftrightarrow> (9 \<le> c \<and> c \<le> 13) \<or> c = 32 \<or> c = 0xA0 \<or> c = 0x1680 \<or>
     (0x2000 \<le> c \<and> c \<le> 0x200A) \<or> c = 0x2028 \<or> c = 0x2029 \<or> c = 0x202F \<or> c = 0x205F \<or>
     c = 0x3000 \<or> c = 0xFEFF"

definition trim :: "jstr \<Rightarrow> jstr" where
  "trim s = rev (dropWhile is_space (rev (dropWhile is_space s)))"

lemma trim_Nil [simp]: "trim [] = []"
  by (simp add: trim_def)

lemma trim_empty_iff: "trim s = [] \<longleftrightarrow> (\<forall>c \<in> set s. is_space c)"
  by (auto simp: trim_def dest: set_dropWhileD)
     (metis dropWhile_eq_Nil_conv hd_dropWhile list.set_sel(1))+

text \<open>
  Case conversion of one code unit: ASCII and Latin-1, and the two other code units whose
  lower case contains an ASCII letter (U+0130 becomes i and a combining dot, the Kelvin sign
  U+212A becomes k). The lower case of every other code unit has no ASCII letter in it; it is
  left as it is.
\<close>

definition lower_char :: "jchar \<Rightarrow> jstr" where
  "lower_char c =
     (if (65 \<le> c \<and> c \<le> 90) \<or> (0xC0 \<le> c \<and> c \<le> 0xDE \<and> c \<noteq> 0xD7) then [c + 32]
      else if c = 0x130 then [105, 0x307]
      else if c = 0x212A then [107]
      else [c])"

definition to_lower :: "jstr \<Rightarrow> jstr" where
  "to_lower s = concat (map lower_char s)"

text \<open>
  Upper case likewise: ASCII and Latin-1 (with sharp s and y-diaeresis), and the code units
  outside Latin-1 whose upper case is ASCII (dotless i, long s, and the Latin ligatures).
\<close>

definition upper_char :: "jchar \<Rightarrow> jstr" where
  "upper_char c =
     (if (97 \<le> c \<and> c \<le> 122) \<or> (0xE0 \<le> c \<and> c \<le> 0xFE \<and> c \<noteq> 0xF7) then [c - 32]
      else if c = 0xDF then [83, 83]
      else if c = 0xFF then [0x178]
      else if c = 0xB5 then [0x39C]
      else if c = 0x131 then [73]
      else if c = 0x17F then [83]
      else if c = 0xFB00 then [70, 70]
      else if c = 0xFB01 then [70, 73]
      else if c = 0xFB02 then [70, 76]
      else if c = 0xFB03 then [70, 70, 73]
      else if c = 0xFB04 then [70, 70, 76]
      else if c = 0xFB05 \<or> c = 0xFB06 then [83, 84]
      else [c])"

definition to_upper :: "jstr \<Rightarrow> jstr" where
  "to_upper s = concat (map upper_char s)"

fun starts_with :: "jstr \<Rightarrow> jstr \<Rightarrow> bool" where
  "starts_with s [] = True"
| "starts_with [] (p # ps) = False"
| "starts_with (c # s) (p # ps) = (c = p \<and> starts_with s ps)"

definition ends_with :: "jstr \<Rightarrow> jstr \<Rightarrow> bool" where
  "ends_with s t = starts_with (rev s) (rev t)"

fun str_includes :: "jstr \<Rightarrow> jstr \<Rightarrow> bool" where
  "str_includes [] t = (t = [])"
| "str_includes (c # s) t = (starts_with (c # s) t \<or> str_includes s t)"

text \<open>\<open>s.replace(pattern, replacement)\<close> with a string pattern: the first occurrence only.\<close>

fun replace_first :: "jstr \<Rightarrow> jstr \<Rightarrow> jstr \<Rightarrow> jstr" where
  "replace_first [] p r = (if p = [] then r else [])"
| "replace_first (c # s) p r =
     (if starts_with (c # s) p then r @ drop (length p) (c # s) else c # replace_first s p r)"

lemma starts_with_iff: "starts_with s t \<longleftrightarrow> (\<exists>r. s = t @ r)"
  by (induction s t rule: starts_with.induct) auto

lemma ends_with_iff: "ends_with s t \<longleftrightarrow> (\<exists>r. s = r @ t)"
proof -
  have "(\<exists>r. rev s = rev t @ r) \<longleftrightarrow> (\<exists>r. s = r @ t)"
    by (metis rev_append rev_rev_ident)
  then show ?thesis by (simp add: ends_with_def starts_with_iff)
qed

lemma str_includes_iff: "str_includes s t \<longleftrightarrow> (\<exists>a b. s = a @ t @ b)"
proof (induction s)
  case Nil
  then show ?case by auto
next
  case (Cons c s)
  have "(\<exists>a b. c # s = a @ t @ b) \<longleftrightarrow> (\<exists>b. c # s = t @ b) \<or> (\<exists>a b. s = a @ t @ b)"
    by (metis append_Cons append_Nil list.exhaust list.inject)
  with Cons show ?case by (simp add: starts_with_iff)
qed

subsection \<open>Code points\<close>

text \<open>
  \<open>Array.from(value)\<close> walks a string by code points: a high surrogate followed by a low one is
  a single element.
\<close>

definition high_surrogate :: "jchar \<Rightarrow> bool" where
  "high_surrogate c \<longleftrightarrow> 0xD800 \<le> c \<and> c \<le> 0xDBFF"

definition low_surrogate :: "jchar \<Rightarrow> bool" where
  "low_surrogate c \<longleftrightarrow> 0xDC00 \<le> c \<and> c \<le> 0xDFFF"

fun code_points :: "jstr \<Rightarrow> jstr list" where
  "code_points [] = []"
| "code_points [c] = [[c]]"
| "code_points (c # d # s) =
     (if high_surrogate c \<and> low_surrogate d then [c, d] # code_points s
      else [c] # code_points (d # s))"

subsection \<open>Numbers as strings\<close>

fun nat_digits :: "nat \<Rightarrow> jstr" where
  "nat_digits n = (if n < 10 then [48 + int n] else nat_digits (n div 10) @ [48 + int (n mod 10)])"

declare nat_digits.simps [simp del]

definition num_str :: "int \<Rightarrow> jstr" where
  "num_str n = (if n < 0 then 45 # nat_digits (nat (- n)) else nat_digits (nat n))"

lemma nat_digits_range: "c \<in> set (nat_digits n) \<Longrightarrow> 48 \<le> c \<and> c \<le> 57"
proof (induction n rule: nat_digits.induct)
  case (1 n)
  then show ?case
    by (cases "n < 10") (auto simp: nat_digits.simps [of n])
qed

lemma nat_digits_nonempty [simp]: "nat_digits n \<noteq> []"
  by (subst nat_digits.simps) simp

definition digits_value :: "jstr \<Rightarrow> nat" where
  "digits_value s = foldl (\<lambda>a c. 10 * a + nat (c - 48)) 0 s"

lemma digits_value_nat_digits: "digits_value (nat_digits n) = n"
proof (induction n rule: nat_digits.induct)
  case (1 n)
  show ?case
  proof (cases "n < 10")
    case True
    then show ?thesis by (simp add: digits_value_def nat_digits.simps [of n])
  next
    case False
    with 1 have "digits_value (nat_digits (n div 10)) = n div 10" by simp
    with False show ?thesis
      by (simp add: digits_value_def nat_digits.simps [of n])
  qed
qed

lemma nat_digits_inject: "nat_digits m = nat_digits n \<longleftrightarrow> m = n"
  by (metis digits_value_nat_digits)

lemma minus_nat_digits: "45 # x \<noteq> nat_digits k"
proof
  assume "45 # x = nat_digits k"
  then have "45 \<in> set (nat_digits k)" by (metis list.set_intros(1))
  then show False by (auto dest: nat_digits_range)
qed

lemma num_str_inject: "num_str m = num_str n \<longleftrightarrow> m = n"
  using minus_nat_digits minus_nat_digits [symmetric]
  by (auto simp: num_str_def nat_digits_inject split: if_splits)

lemma num_str_chars: "c \<in> set (num_str n) \<Longrightarrow> c = 45 \<or> 48 \<le> c \<and> c \<le> 57"
  by (auto simp: num_str_def dest: nat_digits_range split: if_splits)

lemma num_str_nonempty [simp]: "num_str n \<noteq> []"
  by (simp add: num_str_def)


section \<open>Errors\<close>

text \<open>
  What can go wrong at run time: a thrown \<open>Error\<close> with its message, a \<open>TypeError\<close> (a property
  of undefined, a call of a value that is no function), a \<open>RangeError\<close> (the text of an invalid
  date), and a value that is not the string or
  object the types promise because a property lookup fell back on Object.prototype.
\<close>

datatype js_error =
  ErrorMessage jstr
| TypeError
| RangeError
| InheritedProperty jstr

type_synonym 'a res = "js_error + 'a"

definition bindr :: "'a res \<Rightarrow> ('a \<Rightarrow> 'b res) \<Rightarrow> 'b res" where
  "bindr x f = (case x of Inl e \<Rightarrow> Inl e | Inr v \<Rightarrow> f v)"

lemma bindr_simps [simp]: "bindr (Inl e) f = Inl e" "bindr (Inr v) f = f v"
  by (simp_all add: bindr_def)

lemma bindr_Inr_iff: "bindr x f = Inr y \<longleftrightarrow> (\<exists>v. x = Inr v \<and> f v = Inr y)"
  by (cases x) auto

fun mapr :: "('a \<Rightarrow> 'b res) \<Rightarrow> 'a list \<Rightarrow> 'b list res" where
  "mapr f [] = Inr []"
| "mapr f (x # xs) = bindr (f x) (\<lambda>y. bindr (mapr f xs) (\<lambda>ys. Inr (y # ys)))"

section \<open>Object literals\<close>

text \<open>
  \<open>obj[key]\<close> and \<open>key in obj\<close> on an object literal also see the properties of
  Object.prototype. \<open>obj_get\<close> is the own value, \<open>None\<close> for undefined, or the error that says
  the value found is an inherited one.
\<close>

definition object_prototype_keys :: "jstr list" where
  "object_prototype_keys = map lit
     [''constructor'', ''__defineGetter__'', ''__defineSetter__'', ''hasOwnProperty'',
      ''__lookupGetter__'', ''__lookupSetter__'', ''isPrototypeOf'', ''propertyIsEnumerable'',
      ''toString'', ''valueOf'', ''__proto__'', ''toLocaleString'']"

definition obj_get :: "(jstr \<times> 'a) list \<Rightarrow> jstr \<Rightarrow> 'a option res" where
  "obj_get t k = (case map_of t k of
       Some v \<Rightarrow> Inr (Some v)
     | None \<Rightarrow> if k \<in> set object_prototype_keys then Inl (InheritedProperty k) else Inr None)"

definition obj_has :: "(jstr \<times> 'a) list \<Rightarrow> jstr \<Rightarrow> bool" where
  "obj_has t k \<longleftrightarrow> k \<in> fst ` set t \<or> k \<in> set object_prototype_keys"

lemma obj_get_own: "map_of t k = Some v \<Longrightarrow> obj_get t k = Inr (Some v)"
  by (simp add: obj_get_def)

lemma obj_get_Inl_iff:
  "obj_get t k = Inl e \<longleftrightarrow>
     map_of t k = None \<and> k \<in> set object_prototype_keys \<and> e = InheritedProperty k"
  by (auto simp: obj_get_def split: option.splits)

lemma obj_get_None: "map_of t k = None \<Longrightarrow> k \<notin> set object_prototype_keys \<Longrightarrow> obj_get t k = Inr None"
  by (simp add: obj_get_def)

section \<open>Arrays\<close>

text \<open>\<open>[...new Set(xs)]\<close>: the first occurrences, in order.\<close>

fun dedup :: "'a list \<Rightarrow> 'a list" where
  "dedup [] = []"
| "dedup (x # xs) = x # filter (\<lambda>y. y \<noteq> x) (dedup xs)"

lemma set_dedup [simp]: "set (dedup xs) = set xs"
  by (induction xs) auto

lemma distinct_dedup [simp]: "distinct (dedup xs)"
  by (induction xs) auto

lemma find_value:
  "distinct (map f xs) \<Longrightarrow> x \<in> set xs \<Longrightarrow> find (\<lambda>y. f y = f x) xs = Some x"
  by (induction xs) auto

text \<open>\<open>indexOf\<close>: -1 when absent.\<close>

fun index_of :: "'a list \<Rightarrow> 'a \<Rightarrow> int" where
  "index_of [] x = -1"
| "index_of (y # ys) x = (if x = y then 0 else let i = index_of ys x in if i < 0 then -1 else i + 1)"

text \<open>\<open>xs.slice(i, j)\<close> for bounds that are not negative.\<close>

definition slice :: "nat \<Rightarrow> nat \<Rightarrow> 'a list \<Rightarrow> 'a list" where
  "slice i j xs = take (j - i) (drop i xs)"

lemma set_slice: "set (slice i j xs) \<subseteq> set xs"
  by (auto simp: slice_def dest: in_set_takeD in_set_dropD)

lemma length_slice: "length (slice i j xs) = min (j - i) (length xs - i)"
  by (simp add: slice_def)

section \<open>Array.prototype.sort with a comparator\<close>

text \<open>
  The sort is stable (ECMAScript 2019). For a consistent comparator the stable result is
  unique, so insertion from the right computes what any engine returns.
\<close>

fun ins_by :: "('a \<Rightarrow> 'a \<Rightarrow> int) \<Rightarrow> 'a \<Rightarrow> 'a list \<Rightarrow> 'a list" where
  "ins_by cmp x [] = [x]"
| "ins_by cmp x (y # ys) = (if cmp x y \<le> 0 then x # y # ys else y # ins_by cmp x ys)"

definition js_sort :: "('a \<Rightarrow> 'a \<Rightarrow> int) \<Rightarrow> 'a list \<Rightarrow> 'a list" where
  "js_sort cmp xs = foldr (ins_by cmp) xs []"

lemma js_sort_simps [simp]: "js_sort cmp [] = []" "js_sort cmp (x # xs) = ins_by cmp x (js_sort cmp xs)"
  by (simp_all add: js_sort_def)

lemma set_ins_by [simp]: "set (ins_by cmp x xs) = insert x (set xs)"
  by (induction xs) auto

lemma set_js_sort [simp]: "set (js_sort cmp xs) = set xs"
  by (induction xs) auto

lemma length_ins_by [simp]: "length (ins_by cmp x xs) = Suc (length xs)"
  by (induction xs) auto

lemma length_js_sort [simp]: "length (js_sort cmp xs) = length xs"
  by (induction xs) auto

lemma distinct_ins_by [simp]: "distinct (ins_by cmp x xs) \<longleftrightarrow> x \<notin> set xs \<and> distinct xs"
  by (induction xs) auto

lemma distinct_js_sort [simp]: "distinct (js_sort cmp xs) \<longleftrightarrow> distinct xs"
  by (induction xs) auto

locale comparator =
  fixes cmp :: "'a \<Rightarrow> 'a \<Rightarrow> int"
  assumes cmp_flip: "cmp a b < 0 \<longleftrightarrow> 0 < cmp b a"
    and cmp_trans: "cmp a b \<le> 0 \<Longrightarrow> cmp b c \<le> 0 \<Longrightarrow> cmp a c \<le> 0"
begin

lemma cmp_total: "\<not> cmp a b \<le> 0 \<Longrightarrow> cmp b a \<le> 0"
  using cmp_flip [of b a] by linarith

lemma sorted_ins_by:
  "sorted_wrt (\<lambda>a b. cmp a b \<le> 0) xs \<Longrightarrow> sorted_wrt (\<lambda>a b. cmp a b \<le> 0) (ins_by cmp x xs)"
  by (induction xs) (auto intro: cmp_trans dest: cmp_total)

lemma sorted_js_sort: "sorted_wrt (\<lambda>a b. cmp a b \<le> 0) (js_sort cmp xs)"
  by (induction xs) (auto intro: sorted_ins_by)

lemma cmp_zero_sym: "cmp a b = 0 \<longleftrightarrow> cmp b a = 0"
  using cmp_flip [of a b] cmp_flip [of b a] by linarith

lemma filter_ins_by:
  "filter (\<lambda>y. cmp k y = 0) (ins_by cmp x xs) =
     (if cmp k x = 0 then x # filter (\<lambda>y. cmp k y = 0) xs else filter (\<lambda>y. cmp k y = 0) xs)"
proof (induction xs)
  case (Cons y ys)
  have "cmp k x = 0 \<Longrightarrow> cmp k y = 0 \<Longrightarrow> cmp x y \<le> 0"
    using cmp_trans [of x k y] cmp_zero_sym [of k x] by linarith
  with Cons show ?case by auto
qed simp

text \<open>Stability: elements the comparator does not tell apart keep their order.\<close>

lemma js_sort_stable: "filter (\<lambda>y. cmp k y = 0) (js_sort cmp xs) = filter (\<lambda>y. cmp k y = 0) xs"
  by (induction xs) (auto simp: filter_ins_by)

end

text \<open>\<open>cmp1 || cmp2\<close> and a key difference, the two shapes the sources use.\<close>

definition cmp_or :: "('a \<Rightarrow> 'a \<Rightarrow> int) \<Rightarrow> ('a \<Rightarrow> 'a \<Rightarrow> int) \<Rightarrow> 'a \<Rightarrow> 'a \<Rightarrow> int" where
  "cmp_or f g a b = (if f a b \<noteq> 0 then f a b else g a b)"

text \<open>The default order of strings, by code units.\<close>

fun code_unit_cmp :: "jstr \<Rightarrow> jstr \<Rightarrow> int" where
  "code_unit_cmp [] [] = 0"
| "code_unit_cmp [] (b # bs) = -1"
| "code_unit_cmp (a # as) [] = 1"
| "code_unit_cmp (a # as) (b # bs) = (if a < b then -1 else if b < a then 1 else code_unit_cmp as bs)"

lemma comparator_key: "comparator (\<lambda>a b. k a - k b)"
  by unfold_locales auto

lemma comparator_or:
  assumes f: "comparator f" and g: "comparator g"
  shows "comparator (cmp_or f g)"
proof
  note ff = comparator.cmp_flip [OF f] and gf = comparator.cmp_flip [OF g]
  fix a b c
  show "cmp_or f g a b < 0 \<longleftrightarrow> 0 < cmp_or f g b a"
    using ff [of a b] ff [of b a] gf [of a b] by (auto simp: cmp_or_def)
  assume ab: "cmp_or f g a b \<le> 0" and bc: "cmp_or f g b c \<le> 0"
  then have "f a b \<le> 0" "f b c \<le> 0" by (auto simp: cmp_or_def split: if_splits)
  then have ac: "f a c \<le> 0" by (rule comparator.cmp_trans [OF f])
  show "cmp_or f g a c \<le> 0"
  proof (cases "f a c = 0")
    case True
    then have "f c a \<le> 0" using ff [of a c] ff [of c a] by linarith
    with \<open>f a b \<le> 0\<close> \<open>f b c \<le> 0\<close> have "f c b \<le> 0" "f b a \<le> 0"
      by (metis comparator.cmp_trans [OF f])+
    then have "f a b = 0" "f b c = 0"
      using \<open>f a b \<le> 0\<close> \<open>f b c \<le> 0\<close> ff [of a b] ff [of b a] ff [of b c] ff [of c b] by linarith+
    with ab bc True show ?thesis
      using comparator.cmp_trans [OF g, of a b c] by (auto simp: cmp_or_def)
  qed (use ac in \<open>simp add: cmp_or_def\<close>)
qed

section \<open>Insertion ordered maps\<close>

text \<open>
  A JavaScript Map keeps its entries in insertion order; setting a key that is present keeps
  its place. It is a list of entries with distinct keys. The locale is what the clients of a
  Map rely on.
\<close>

type_synonym ('k, 'v) jmap = "('k \<times> 'v) list"

fun map_set :: "'k \<Rightarrow> 'v \<Rightarrow> ('k, 'v) jmap \<Rightarrow> ('k, 'v) jmap" where
  "map_set k v [] = [(k, v)]"
| "map_set k v ((k', v') # m) = (if k' = k then (k, v) # m else (k', v') # map_set k v m)"

definition map_delete :: "'k \<Rightarrow> ('k, 'v) jmap \<Rightarrow> ('k, 'v) jmap" where
  "map_delete k m = filter (\<lambda>e. fst e \<noteq> k) m"

definition map_keys :: "('k, 'v) jmap \<Rightarrow> 'k list" where
  "map_keys m = map fst m"

definition map_values :: "('k, 'v) jmap \<Rightarrow> 'v list" where
  "map_values m = map snd m"

definition map_has :: "('k, 'v) jmap \<Rightarrow> 'k \<Rightarrow> bool" where
  "map_has m k \<longleftrightarrow> k \<in> set (map_keys m)"

definition jmap_ok :: "('k, 'v) jmap \<Rightarrow> bool" where
  "jmap_ok m \<longleftrightarrow> distinct (map_keys m)"

locale ordered_map =
  fixes empty :: 'm
    and put :: "'k \<Rightarrow> 'v \<Rightarrow> 'm \<Rightarrow> 'm"
    and del :: "'k \<Rightarrow> 'm \<Rightarrow> 'm"
    and look :: "'m \<Rightarrow> 'k \<Rightarrow> 'v option"
    and ks :: "'m \<Rightarrow> 'k list"
    and ok :: "'m \<Rightarrow> bool"
  assumes ok_empty: "ok empty"
    and ok_put: "ok m \<Longrightarrow> ok (put k v m)"
    and ok_del: "ok m \<Longrightarrow> ok (del k m)"
    and look_empty: "look empty k = None"
    and look_put: "look (put k v m) = (look m)(k \<mapsto> v)"
    and look_del: "look (del k m) = (look m)(k := None)"
    and ks_put: "ks (put k v m) = (if k \<in> set (ks m) then ks m else ks m @ [k])"
    and ks_del: "ks (del k m) = filter (\<lambda>j. j \<noteq> k) (ks m)"
    and ks_look: "set (ks m) = dom (look m)"
    and ks_distinct: "ok m \<Longrightarrow> distinct (ks m)"
begin

text \<open>Storing a whole list, and deleting one, element by element.\<close>

lemma ok_fold_put: "ok m \<Longrightarrow> ok (fold (\<lambda>x. put (f x) (g x)) xs m)"
  by (induction xs arbitrary: m) (auto intro: ok_put)

lemma ok_fold_del: "ok m \<Longrightarrow> ok (fold (\<lambda>x. del (f x)) xs m)"
  by (induction xs arbitrary: m) (auto intro: ok_del)

lemma ks_fold_put: "set (ks (fold (\<lambda>x. put (f x) (g x)) xs m)) = set (ks m) \<union> f ` set xs"
  by (induction xs arbitrary: m) (auto simp: ks_put)

lemma look_fold_put_other:
  "k \<notin> f ` set xs \<Longrightarrow> look (fold (\<lambda>x. put (f x) (g x)) xs m) k = look m k"
  by (induction xs arbitrary: m) (auto simp: look_put)

lemma ks_fold_del: "ks (fold (\<lambda>x. del (f x)) xs m) = filter (\<lambda>j. j \<notin> f ` set xs) (ks m)"
  by (induction xs arbitrary: m) (auto simp: ks_del intro: filter_cong)

lemma look_fold_del:
  "look (fold (\<lambda>x. del (f x)) xs m) k = (if k \<in> f ` set xs then None else look m k)"
  by (induction xs arbitrary: m) (auto simp: look_del)

lemma put_del_look: "look m k = None \<Longrightarrow> look (del k (put k v m)) = look m"
  by (auto simp: look_put look_del)

end

lemma map_of_map_set: "map_of (map_set k v m) = (map_of m)(k \<mapsto> v)"
  by (induction k v m rule: map_set.induct) auto

lemma map_keys_map_set: "map_keys (map_set k v m) = (if k \<in> set (map_keys m) then map_keys m else map_keys m @ [k])"
  by (induction k v m rule: map_set.induct) (auto simp: map_keys_def)

lemma map_keys_map_delete: "map_keys (map_delete k m) = filter (\<lambda>j. j \<noteq> k) (map_keys m)"
  by (induction m) (auto simp: map_keys_def map_delete_def)

lemma map_of_map_delete: "map_of (map_delete k m) = (map_of m)(k := None)"
  by (induction m) (auto simp: map_delete_def)

lemma set_map_keys: "set (map_keys m) = dom (map_of m)"
  by (simp add: map_keys_def dom_map_of_conv_image_fst)

interpretation jmap: ordered_map "[]" map_set map_delete map_of map_keys jmap_ok
proof unfold_locales
  show "jmap_ok []" by (simp add: jmap_ok_def map_keys_def)
qed (auto simp: jmap_ok_def map_keys_map_set map_keys_map_delete map_of_map_set map_of_map_delete
      set_map_keys)

lemma map_has_iff: "map_has m k \<longleftrightarrow> map_of m k \<noteq> None"
  by (auto simp: map_has_def set_map_keys)

section \<open>Machines that keep an invariant\<close>

text \<open>
  The contract of a form or another stateful component: every allowed event keeps what holds of
  its state, so it holds after any sequence of them.
\<close>

locale guarded_machine =
  fixes step :: "'s \<Rightarrow> 'e \<Rightarrow> 's"
    and ok :: "'s \<Rightarrow> bool"
    and allowed :: "'e \<Rightarrow> bool"
  assumes ok_step: "ok s \<Longrightarrow> allowed e \<Longrightarrow> ok (step s e)"
begin

lemma ok_run: "ok s \<Longrightarrow> list_all allowed es \<Longrightarrow> ok (foldl step s es)"
  by (induction es arbitrary: s) (simp_all add: ok_step)

lemma ok_after:
  assumes "ok (foldl step s es)" "list_all allowed es'"
  shows "ok (foldl step s (es @ es'))"
  using assms by (simp add: ok_run)

end

end
