(* ===== verification/Paging.thy ===== *)
theory Paging
  imports JsPrelude
begin

text \<open>
  Paged tables: the page arithmetic the list pages share and the component
  components/ui/pagination.tsx that moves between pages.
\<close>

text \<open>\<open>Math.max(1, Math.ceil(total / pageSize))\<close> for whole numbers.\<close>

definition totalPages :: "nat \<Rightarrow> nat \<Rightarrow> nat" where
  "totalPages n per = max 1 ((n + per - 1) div per)"

definition pageSlice :: "nat \<Rightarrow> nat \<Rightarrow> 'a list \<Rightarrow> 'a list" where
  "pageSlice page per xs = slice ((page - 1) * per) (page * per) xs"

text \<open>The effect of the list pages that pulls the page back when the table shrinks.\<close>

definition clampPage :: "nat \<Rightarrow> nat \<Rightarrow> nat" where
  "clampPage page pages = (if pages < page then pages else page)"

text \<open>The controls of the component: what is shown, and which buttons can be pressed.\<close>

record pagination_view =
  shown_page :: nat
  previous_enabled :: bool
  next_enabled :: bool
  offered_sizes :: "nat list"

definition Pagination :: "nat \<Rightarrow> nat \<Rightarrow> nat list option \<Rightarrow> bool \<Rightarrow> pagination_view" where
  "Pagination page pages sizes busy =
     \<lparr>shown_page = min page pages,
      previous_enabled = (\<not> (busy \<or> page \<le> 1)),
      next_enabled = (\<not> (busy \<or> pages \<le> page)),
      offered_sizes = nullish sizes [10, 20, 40]\<rparr>"

datatype page_action = PressPrevious | PressNext | ChoosePageSize nat

text \<open>
  The page state of a list: the pressed control calls \<open>onPage\<close> or \<open>onPageSize\<close>; choosing a
  page size also returns to the first page. A disabled button does nothing.
\<close>

fun page_step :: "nat \<Rightarrow> bool \<Rightarrow> nat \<times> nat \<Rightarrow> page_action \<Rightarrow> nat \<times> nat" where
  "page_step n busy (page, per) PressPrevious =
     (if previous_enabled (Pagination page (totalPages n per) None busy) then (page - 1, per) else (page, per))"
| "page_step n busy (page, per) PressNext =
     (if next_enabled (Pagination page (totalPages n per) None busy) then (page + 1, per) else (page, per))"
| "page_step n busy (page, per) (ChoosePageSize k) = (1, k)"

lemma totalPages_pos [simp]:
  "0 < totalPages n per" "Suc 0 \<le> totalPages n per" "totalPages n per \<noteq> 0"
  by (simp_all add: totalPages_def)

lemma totalPages_covers:
  assumes "0 < per" shows "n \<le> totalPages n per * per"
proof -
  let ?m = "n + per - 1"
  have "?m = ?m div per * per + ?m mod per" by simp
  moreover have "?m mod per \<le> per - 1" using assms by (simp add: less_Suc_eq_le [symmetric])
  ultimately have "n \<le> ?m div per * per" using assms by linarith
  also have "\<dots> \<le> totalPages n per * per" by (simp add: totalPages_def)
  finally show ?thesis .
qed

lemma slice_append: "i \<le> j \<Longrightarrow> j \<le> k \<Longrightarrow> slice i j xs @ slice j k xs = slice i k xs"
proof -
  assume "i \<le> j" "j \<le> k"
  then have "slice i k xs = take (j - i + (k - j)) (drop i xs)" by (simp add: slice_def)
  also have "\<dots> = take (j - i) (drop i xs) @ take (k - j) (drop (j - i) (drop i xs))"
    by (rule take_add)
  finally show ?thesis using \<open>i \<le> j\<close> by (simp add: slice_def)
qed

lemma concat_pageSlice: "concat (map (\<lambda>p. pageSlice p per xs) [1..<Suc k]) = take (k * per) xs"
proof (induction k)
  case (Suc k)
  then have "concat (map (\<lambda>p. pageSlice p per xs) [1..<Suc (Suc k)])
      = slice 0 (k * per) xs @ slice (k * per) (Suc k * per) xs"
    by (simp add: slice_def pageSlice_def)
  also have "\<dots> = slice 0 (Suc k * per) xs" by (rule slice_append) simp_all
  finally show ?case by (simp add: slice_def)
qed (simp add: pageSlice_def slice_def)

text \<open>Paging loses nothing: for a page size above zero, the pages 1 to totalPages, one after
  the other, are the whole list.\<close>

theorem pages_cover_list:
  assumes "0 < per"
  shows "concat (map (\<lambda>p. pageSlice p per xs) [1..<Suc (totalPages (length xs) per)]) = xs"
  unfolding concat_pageSlice using totalPages_covers [OF assms, of "length xs"] by simp

theorem pages_cover_list_witness:
  "concat (map (\<lambda>p. pageSlice p 2 [7, 8, 9 :: nat]) [1..<Suc (totalPages (length [7, 8, 9 :: nat]) 2)])
     = [7, 8, 9]"
  by (rule pages_cover_list) simp

text \<open>The page a table is on stays between 1 and totalPages whatever control is pressed, the
  page shown is then that page, and when the list has meanwhile changed its length the clamping
  effect brings the page back between 1 and the new totalPages.\<close>

theorem page_step_in_range:
  assumes "1 \<le> page" "page \<le> totalPages n per"
    and "page_step n busy (page, per) a = (page', per')"
  shows "1 \<le> page' \<and> page' \<le> totalPages n per' \<and>
         shown_page (Pagination page' (totalPages n per') sizes busy') = page' \<and>
         1 \<le> clampPage page' (totalPages n' per') \<and>
         clampPage page' (totalPages n' per') \<le> totalPages n' per'"
  using assms by (cases a) (auto simp: Pagination_def clampPage_def min_def split: if_splits)

theorem page_step_in_range_witness:
  "page_step 45 False (2, 20) PressNext = (3, 20) \<and> 3 \<le> totalPages 45 20 \<and>
   clampPage 3 (totalPages 30 20) = 2"
proof -
  have step: "page_step 45 False (2, 20) PressNext = (3, 20)"
    by (simp add: Pagination_def totalPages_def)
  have "2 \<le> totalPages 45 20" by (simp add: totalPages_def)
  with step page_step_in_range [of 2 45 20 False PressNext 3 20 None True 30] show ?thesis
    by (simp add: clampPage_def totalPages_def)
qed

end
