(* ===== verification/Json.thy ===== *)
theory Json
  imports JsPrelude
begin

text \<open>
  Parsed JSON, the values typed \<open>unknown\<close> in the sources. An object is the list of its entries
  in order; \<open>JSON.parse\<close> itself is a library function and stays outside.
\<close>

datatype json =
  JNull
| JBool bool
| JNum rat
| JStr jstr
| JArr "json list"
| JObj "(jstr \<times> json) list"

text \<open>A property of a JSON value; other properties than own ones are undefined here.\<close>

definition json_field :: "json \<Rightarrow> jstr \<Rightarrow> json option" where
  "json_field v k = (case v of JObj fs \<Rightarrow> map_of fs k | _ \<Rightarrow> None)"

text \<open>\<open>Boolean(v)\<close>.\<close>

definition truthy :: "json \<Rightarrow> bool" where
  "truthy v = (case v of JNull \<Rightarrow> False | JBool b \<Rightarrow> b | JNum n \<Rightarrow> n \<noteq> 0 | JStr s \<Rightarrow> s \<noteq> []
     | JArr _ \<Rightarrow> True | JObj _ \<Rightarrow> True)"

text \<open>\<open>typeof v === "object"\<close> of a truthy value.\<close>

definition is_object :: "json \<Rightarrow> bool" where
  "is_object v = (case v of JArr _ \<Rightarrow> True | JObj _ \<Rightarrow> True | _ \<Rightarrow> False)"

end
