(* ===== verification/Types.thy ===== *)
theory Types
  imports Json
begin

text \<open>
  The data exchanged with the gateway, as shared/types.ts declares it: one record per type,
  an optional field as an option. Counts, slots and ids are integers; token and money amounts,
  which may be fractional, are rationals.
\<close>

datatype MediaKind = Image | Video | Audio

definition kind_name :: "MediaKind \<Rightarrow> jstr" where
  "kind_name k = (case k of Image \<Rightarrow> lit ''image'' | Video \<Rightarrow> lit ''video'' | Audio \<Rightarrow> lit ''audio'')"

definition all_kinds :: "MediaKind list" where
  "all_kinds = [Image, Video, Audio]"

lemma kind_name_inject [simp]: "kind_name a = kind_name b \<longleftrightarrow> a = b"
  by (cases a; cases b) (simp_all add: kind_name_def)

lemma set_all_kinds [simp]: "k \<in> set all_kinds"
  by (cases k) (simp_all add: all_kinds_def)

record Account =
  acc_id :: jstr
  acc_provider_id :: jstr
  acc_name :: jstr
  acc_email :: jstr
  acc_plan :: jstr
  acc_subscription_tokens :: rat
  acc_rollover_tokens :: rat
  acc_paid_tokens :: rat
  acc_proxy_url :: jstr
  acc_reserved_tokens :: rat
  acc_available_tokens :: rat
  acc_active_reservations :: int
  acc_queued_tasks :: int
  acc_status :: jstr
  acc_generation_permission_status :: jstr
  acc_generation_permission_checked_at :: "jstr option"
  acc_generation_permission_model :: "jstr option"
  acc_generation_permission_error_code :: "jstr option"
  acc_generation_permission_error :: "jstr option"
  acc_image_concurrency :: int
  acc_queue_capacity :: int
  acc_routing_role :: jstr
  acc_protected_tokens :: int
  acc_video_reserved_slots :: int
  acc_access_token_expires_at :: "jstr option"
  acc_last_checked_at :: "jstr option"
  acc_last_error :: "jstr option"
  acc_session_refresh_enabled :: bool
  acc_browser_worker_group :: jstr
  acc_session_refresh_last_at :: "jstr option"
  acc_session_refresh_last_method :: "jstr option"
  acc_session_refresh_last_duration_ms :: "rat option"
  acc_session_refresh_failures :: int
  acc_session_refresh_job_stage :: "jstr option"
  acc_session_refresh_job_status :: "jstr option"
  acc_session_refresh_job_next_attempt_at :: "jstr option"
  acc_has_login_credentials :: bool
  acc_has_complete_cookie_json :: bool
  acc_has_pending_cookie_json :: bool

record AccountsPage =
  acp_data :: "Account list"
  acp_total :: int
  acp_page :: int
  acp_page_size :: int

record ProviderOverview =
  pov_provider_id :: jstr
  pov_display_name :: jstr
  pov_enabled :: bool
  pov_credit_unit :: jstr
  pov_capabilities :: "jstr list"
  pov_accounts :: int
  pov_active_accounts :: int
  pov_attention_accounts :: int
  pov_total_credits :: rat
  pov_reserved_credits :: rat
  pov_available_credits :: rat
  pov_execution_slots :: int
  pov_queue_slots :: int
  pov_executing_tasks :: int
  pov_queued_tasks :: int
  pov_failed_last_hour :: int
  pov_submission_uncertain :: int
  pov_task_total :: int
  pov_task_counts :: "(jstr \<times> int) list"
  pov_video_protected_credits :: "rat option"
  pov_video_ready_720p_15s :: "int option"
  pov_video_ready_1080p_8s :: "int option"
  pov_video_ready_1080p_10s :: "int option"

record Provider =
  prov_id :: jstr
  prov_display_name :: jstr
  prov_enabled :: bool
  prov_adapter_registered :: "bool option"
  prov_auth_type :: jstr
  prov_credit_unit :: jstr
  prov_capabilities :: "jstr list"
  prov_catalog_sync :: bool
  prov_models :: "MediaKind \<Rightarrow> jstr list option"

record PlatformModel =
  pm_id :: jstr
  pm_type :: "jstr option"
  pm_model_id :: jstr
  pm_name :: jstr
  pm_provider :: jstr
  pm_description :: jstr
  pm_production_api :: bool
  pm_cost_type :: "jstr option"
  pm_base_token_cost :: "int option"
  pm_quality_options :: "jstr list option"
  pm_default_quality :: "jstr option"
  pm_default_quantity :: "rat option"
  pm_maximum_quantity :: "rat option"
  pm_duration_options :: "int list option"
  pm_default_duration :: "int option"
  pm_resolution_modes :: "jstr list option"

record ModelCostRecord =
  mcr_provider_id :: jstr
  mcr_model :: jstr
  mcr_kind :: jstr
  mcr_size :: "jstr option"
  mcr_quality :: "jstr option"
  mcr_resolution :: "jstr option"
  mcr_duration :: "jstr option"
  mcr_samples :: int
  mcr_average :: rat
  mcr_minimum :: rat
  mcr_maximum :: rat
  mcr_upstream_reported_samples :: rat
  mcr_upstream_reported_average :: "rat option"
  mcr_upstream_reported_minimum :: "rat option"
  mcr_upstream_reported_maximum :: "rat option"
  mcr_last_used_at :: jstr

record CostRule =
  cr_id :: int
  cr_provider_id :: jstr
  cr_kind :: MediaKind
  cr_model :: jstr
  cr_size :: jstr
  cr_quality :: jstr
  cr_resolution :: jstr
  cr_duration :: int
  cr_unit_tokens :: rat
  cr_enabled :: bool
  cr_price_version :: jstr
  cr_source :: jstr
  cr_drifted :: "bool option"
  cr_drift_reason :: "jstr option"
  cr_verified_at :: "jstr option"
  cr_created_at :: jstr
  cr_updated_at :: jstr

record SalePricingProfile =
  spp_provider_id :: jstr
  spp_currency :: jstr
  spp_account_cost :: rat
  spp_included_credits :: rat
  spp_usable_credit_rate :: rat
  spp_overhead_rate :: rat
  spp_payment_fee_rate :: rat
  spp_target_margin :: rat
  spp_rounding_step :: rat

record SaleMonetaryQuote =
  smq_credits :: rat
  smq_cost :: rat
  smq_price :: rat
  smq_payment_fee :: rat
  smq_profit :: rat
  smq_margin :: rat

record SalePricingItemQuote =
  spi_rule_id :: int
  spi_available :: bool
  spi_error :: "jstr option"
  spi_base_credits :: rat
  spi_effective_credits :: rat
  spi_applied_modifiers :: "jstr list"
  spi_quote :: "SaleMonetaryQuote option"

record SalePricingVideoRateQuote =
  spv_model :: jstr
  spv_resolution :: jstr
  spv_available :: bool
  spv_error :: "jstr option"
  spv_durations :: "int list"
  spv_base_credits_per_second :: rat
  spv_effective_credits_per_second :: rat
  spv_applied_modifiers :: "jstr list"
  spv_quote :: "SaleMonetaryQuote option"

record EstimateRow =
  er_label :: jstr
  er_values :: "rat option list"

record PlatformEstimate =
  pe_model :: jstr
  pe_columns :: "jstr list"
  pe_rows :: "EstimateRow list"
  pe_note :: jstr

record ImageSizeGroup =
  isg_ratio :: jstr
  isg_small :: "jstr option"
  isg_medium :: jstr
  isg_large :: jstr

record PlaygroundOutput =
  out_id :: "jstr option"
  out_url :: "jstr option"
  out_b64_json :: "jstr option"
  out_media_type :: "jstr option"
  out_duration :: "int option"
  out_width :: "int option"
  out_height :: "int option"
  out_nsfw :: "bool option"
  out_moderation_classifications :: "jstr list option"

record TaskNote =
  tn_noteType :: "jstr option"
  tn_notePayload :: "json option"
  tn_failureReason :: "(jstr \<times> json) list option"

record TaskErrorDetails =
  ted_source :: "jstr option"
  ted_media_type :: "jstr option"
  ted_generation_id :: "jstr option"
  ted_upstream_status :: "jstr option"
  ted_provider_error_code :: "jstr option"
  ted_nsfw :: "bool option"
  ted_detail_error :: "jstr option"
  ted_notes :: "TaskNote list option"
  ted_prompt_moderations :: "json option list option"

record PlaygroundResultData =
  prd_created :: "rat option"
  prd_nsfw :: "bool option"
  prd_moderation_classifications :: "jstr list option"
  prd_data :: "PlaygroundOutput list option"

record PlaygroundTask =
  pt_id :: jstr
  pt_kind :: jstr
  pt_status :: jstr
  pt_progress :: int
  pt_model :: jstr
  pt_prompt :: jstr
  pt_generation_id :: "jstr option"
  pt_result :: "PlaygroundResultData option"
  pt_error_code :: "jstr option"
  pt_error_message :: "jstr option"
  pt_error_details :: "TaskErrorDetails option"

record TaskOutput =
  to_id :: "jstr option"
  to_url :: "jstr option"
  to_media_type :: "jstr option"
  to_width :: "int option"
  to_height :: "int option"
  to_duration :: "rat option"
  to_nsfw :: "bool option"
  to_moderation_classifications :: "jstr list option"

record TaskResult =
  tr_created :: "rat option"
  tr_nsfw :: "bool option"
  tr_moderation_classifications :: "jstr list option"
  tr_data :: "TaskOutput list option"

record TaskEvent =
  te_id :: int
  te_status :: jstr
  te_message :: "jstr option"
  te_created_at :: jstr

record Task =
  task_id :: jstr
  task_provider_id :: jstr
  task_account_id :: "jstr option"
  task_kind :: jstr
  task_status :: jstr
  task_progress :: int
  task_queue_position :: "rat option"
  task_model :: jstr
  task_prompt :: jstr
  task_upstream_request :: "(jstr \<times> json) list option"
  task_generation_id :: "jstr option"
  task_result :: "TaskResult option"
  task_error_code :: "jstr option"
  task_error_message :: "jstr option"
  task_error_details :: "TaskErrorDetails option"
  task_retry_count :: "int option"
  task_tokens_before :: "rat option"
  task_tokens_after :: "rat option"
  task_estimated_tokens :: "rat option"
  task_settled_tokens :: "rat option"
  task_upstream_reported_cost :: "rat option"
  task_reservation_state :: "jstr option"
  task_reservation_release_reason :: "jstr option"
  task_created_at :: jstr
  task_updated_at :: jstr
  task_started_at :: "jstr option"
  task_completed_at :: "jstr option"
  task_events :: "TaskEvent list option"

end
