(* ===== verification/Providers.thy ===== *)
theory Providers
  imports Types
begin

text \<open>
  The provider registry and the model naming rules of shared/providers.ts: which provider a
  model id belongs to, the id shown for it, the route sent to the gateway, and the fallback
  presentation of providers the registry does not know. Lookups with a key that comes from
  outside also see Object.prototype (see the prelude), so these functions return a result.
\<close>

record ProviderPresentation =
  pp_id :: jstr
  pp_displayName :: jstr
  pp_shortName :: jstr
  pp_description :: jstr
  pp_capabilities :: "MediaKind list"
  pp_modelAliases :: "(jstr \<times> jstr) list"
  pp_models :: "MediaKind \<Rightarrow> jstr list"

section \<open>The registry\<close>

definition creativefabrica_image_models :: "jstr list" where
  "creativefabrica_image_models = map lit
     [''creativefabrica:flux-2-max'', ''creativefabrica:flux-2-pro'',
      ''creativefabrica:flux-2-klein'', ''creativefabrica:grok'',
      ''creativefabrica:ideogram-p-image'', ''creativefabrica:ideogram-v4'',
      ''creativefabrica:kling-image-o1'', ''creativefabrica:kling-v2-1-image'',
      ''creativefabrica:kling-v3-image'', ''creativefabrica:kling-v3-omni-image'',
      ''creativefabrica:nano-banana'', ''creativefabrica:nano-banana-2'',
      ''creativefabrica:nano-banana-flash-lite'', ''creativefabrica:nano-banana-pro'',
      ''creativefabrica:openai-gpt-image-2'', ''creativefabrica:qwen-image-2-0-pro'',
      ''creativefabrica:qwen-image-3'', ''creativefabrica:qwen-image-3-pro'',
      ''creativefabrica:qwen-image-edit-spicy'', ''creativefabrica:recraft-v4'',
      ''creativefabrica:recraft-v4-svg'', ''creativefabrica:seedream-4-0'',
      ''creativefabrica:seedream-4-5'', ''creativefabrica:seedream-5-lite'',
      ''creativefabrica:seedream-5-pro'', ''creativefabrica:wan-2-7-pro-image'',
      ''creativefabrica:z-image-spicy'', ''creativefabrica:quiverai-arrow-1-1'']"

definition creativefabrica_video_models :: "jstr list" where
  "creativefabrica_video_models = map lit
     [''creativefabrica:alibaba_happy_horse_v1'', ''creativefabrica:alibaba_happy_horse_v1_1'',
      ''creativefabrica:alibaba_wan_2_7'', ''creativefabrica:berry_1_0'',
      ''creativefabrica:berry_1_0_pro'', ''creativefabrica:fal_ltx_2_3'',
      ''creativefabrica:fal_pixverse_c1'', ''creativefabrica:fal_pixverse_v6'',
      ''creativefabrica:flux_3'', ''creativefabrica:gemini_omni_flash'',
      ''creativefabrica:gemini_omni_flash_1_1'',
      ''creativefabrica:gemini_omni_flash_1_1_video_extended'',
      ''creativefabrica:grok_imagine_video'', ''creativefabrica:grok_imagine_video_1_5'',
      ''creativefabrica:heygen_avatar_5'', ''creativefabrica:kling_ai_v3'',
      ''creativefabrica:kling_ai_v3_motion_control'', ''creativefabrica:kling_ai_v3_turbo'',
      ''creativefabrica:kling_v3_omni'', ''creativefabrica:luma_ray_2'',
      ''creativefabrica:luma_ray_3_2'', ''creativefabrica:minimax_hailuo_v3'',
      ''creativefabrica:minimax_hailuo_v3_max'', ''creativefabrica:mulerouter_wan_2_7_spicy'',
      ''creativefabrica:pika_v2_5'', ''creativefabrica:runway_gen_4_5'',
      ''creativefabrica:seedance_one_five_pro'', ''creativefabrica:seedance_two_point_zero'',
      ''creativefabrica:seedance_v2_5'', ''creativefabrica:seedance_v2_fast'',
      ''creativefabrica:seedance_v2_mini'', ''creativefabrica:veo_31_fast_generate_preview'',
      ''creativefabrica:wan_3_0'', ''creativefabrica:wan_3_0_prime'']"

definition leonardo :: ProviderPresentation where
  "leonardo = \<lparr>pp_id = lit ''leonardo'', pp_displayName = lit ''Leonardo AI'', pp_shortName = lit ''Leonardo'',
     pp_description = ulit ''Leonardo %u8D26%u53F7%u6C60%u3001Schema %u76EE%u5F55%u4E0E%u672C%u5730%u79EF%u5206%u8D26%u672C'',
     pp_capabilities = [Image, Video, Audio],
     pp_modelAliases = [],
     pp_models = (\<lambda>k. case k of
         Image \<Rightarrow> map lit
           [''gpt-image-2'', ''nano-banana-2'', ''nano-banana-pro'', ''seedream-5.0-pro'']
       | Video \<Rightarrow> map lit
           [''gemini-omni-flash'', ''happy-horse-1.1'', ''kling-3.0'', ''kling-3.0-turbo'',
            ''kling-o3-omni'', ''hailuo-2.3'', ''wan-2.7'']
       | Audio \<Rightarrow> map lit
           [''dialogue-v3'', ''music-v1'', ''sound-effects-v2''])\<rparr>"

definition adobe :: ProviderPresentation where
  "adobe = \<lparr>pp_id = lit ''adobe'', pp_displayName = lit ''Adobe Firefly'', pp_shortName = lit ''Adobe'',
     pp_description = ulit ''Adobe Firefly %u591A%u4F9B%u5E94%u5546%u751F%u6210%u63A5%u53E3%u4E0E%u72EC%u7ACB BKS %u8BA1%u4EF7'',
     pp_capabilities = [Image, Video],
     pp_modelAliases =
       [(lit ''adobe:gpt-image-2'', lit ''gpt-image-2''),
        (lit ''adobe:nano-banana-2'', lit ''nano-banana-2''),
        (lit ''adobe:kling-3.0-omni'', lit ''kling-3.0-omni''),
        (lit ''adobe:veo-3.1'', lit ''veo-3.1''),
        (lit ''adobe:veo-3.1-fast'', lit ''veo-3.1-fast''),
        (lit ''adobe:seedance-2.0'', lit ''seedance-2.0''),
        (lit ''adobe:seedance-2.0-fast'', lit ''seedance-2.0-fast'')],
     pp_models = (\<lambda>k. case k of
         Image \<Rightarrow> map lit
           [''adobe:gpt-image-2'', ''adobe:nano-banana-2'']
       | Video \<Rightarrow> map lit
           [''adobe:kling-3.0-omni'', ''adobe:veo-3.1'', ''adobe:veo-3.1-fast'', ''adobe:seedance-2.0'',
            ''adobe:seedance-2.0-fast'']
       | Audio \<Rightarrow> [])\<rparr>"

definition creativefabrica :: ProviderPresentation where
  "creativefabrica = \<lparr>pp_id = lit ''creativefabrica'', pp_displayName = lit ''Creative Fabrica Studio'',
     pp_shortName = lit ''Creative Fabrica'',
     pp_description = ulit ''Creative Fabrica Studio %u8D26%u53F7%u6C60%u3001Flow/Media Matrix %u5F02%u6B65%u751F%u6210%u4E0E Coins %u8D26%u672C'',
     pp_capabilities = [Image, Video],
     pp_modelAliases = [],
     pp_models = (\<lambda>k. case k of
         Image \<Rightarrow> creativefabrica_image_models
       | Video \<Rightarrow> creativefabrica_video_models
       | Audio \<Rightarrow> [])\<rparr>"

definition providerRegistry :: "(jstr \<times> ProviderPresentation) list" where
  "providerRegistry =
     [(lit ''leonardo'', leonardo), (lit ''adobe'', adobe), (lit ''creativefabrica'', creativefabrica)]"

section \<open>Lookups\<close>

definition isRegisteredProviderID :: "jstr option \<Rightarrow> bool" where
  "isRegisteredProviderID value = (case value of
       None \<Rightarrow> False
     | Some v \<Rightarrow> v \<noteq> [] \<and> obj_has providerRegistry v)"

definition mediaLabels :: "(jstr \<times> jstr) list" where
  "mediaLabels =
     [(lit ''image'', ulit ''%u56FE%u50CF''), (lit ''video'', ulit ''%u89C6%u9891''),
      (lit ''audio'', ulit ''%u97F3%u9891'')]"

definition media_kind_of :: "jstr \<Rightarrow> MediaKind option" where
  "media_kind_of s = find (\<lambda>k. kind_name k = s) all_kinds"

definition providerDefinition :: "jstr \<Rightarrow> Provider option \<Rightarrow> ProviderPresentation res" where
  "providerDefinition providerID provider =
     bindr (obj_get providerRegistry providerID) (\<lambda>known. case known of
       Some p \<Rightarrow> Inr p
     | None \<Rightarrow>
         let name = (case provider of None \<Rightarrow> providerID
                     | Some p \<Rightarrow> or_str (prov_display_name p) providerID) in
         Inr \<lparr>pp_id = providerID, pp_displayName = name, pp_shortName = name,
              pp_description =
                ulit ''%u5DF2%u6CE8%u518C%u7684%u5916%u90E8%u751F%u6210%u5E73%u53F0'',
              pp_capabilities = (case provider of None \<Rightarrow> []
                | Some p \<Rightarrow> List.map_filter media_kind_of (prov_capabilities p)),
              pp_modelAliases = [],
              pp_models = (\<lambda>_. [])\<rparr>)"

definition providerDisplayName :: "jstr \<Rightarrow> Provider list \<Rightarrow> jstr res" where
  "providerDisplayName providerID providers =
     bindr (providerDefinition providerID (find (\<lambda>p. prov_id p = providerID) providers))
       (\<lambda>p. Inr (pp_displayName p))"

text \<open>
  The loop over the providers returns the first alias of the model. An alias found on
  Object.prototype is a function or an object, which is truthy, and is returned as it is.
\<close>

fun first_alias :: "ProviderPresentation list \<Rightarrow> jstr \<Rightarrow> jstr option res" where
  "first_alias [] model = Inr None"
| "first_alias (p # ps) model =
     bindr (obj_get (pp_modelAliases p) model) (\<lambda>canonical. case canonical of
       Some c \<Rightarrow> if c \<noteq> [] then Inr (Some c) else first_alias ps model
     | None \<Rightarrow> first_alias ps model)"

text \<open>\<open>provider/model\<close> and \<open>provider:model\<close> ids: the part after the separator, if it counts.\<close>

definition public_model_part :: "jstr \<Rightarrow> jstr option" where
  "public_model_part model = (case js_split 47 model of
       [a, b] \<Rightarrow> if a \<noteq> [] \<and> b \<noteq> [] then Some b else None
     | _ \<Rightarrow> None)"

definition qualified_model_part :: "jstr \<Rightarrow> jstr option" where
  "qualified_model_part model = (case js_split 58 model of
       [a, b] \<Rightarrow> if isRegisteredProviderID (Some a) \<and> b \<noteq> [] then Some b else None
     | _ \<Rightarrow> None)"

definition modelDisplayID :: "jstr \<Rightarrow> jstr res" where
  "modelDisplayID model =
     (case public_model_part model of
        Some b \<Rightarrow> Inr b
      | None \<Rightarrow> (case qualified_model_part model of
          Some b \<Rightarrow> Inr b
        | None \<Rightarrow> bindr (first_alias (map snd providerRegistry) model) (\<lambda>c. Inr (nullish c model))))"

definition registered :: "jstr \<Rightarrow> ProviderPresentation res" where
  "registered providerID = bindr (obj_get providerRegistry providerID) (\<lambda>p. case p of
       Some p \<Rightarrow> Inr p | None \<Rightarrow> Inl TypeError)"

definition providerPublicModels :: "jstr \<Rightarrow> MediaKind \<Rightarrow> jstr list res" where
  "providerPublicModels providerID kind =
     bindr (registered providerID) (\<lambda>p. mapr modelDisplayID (pp_models p kind))"

definition providerInternalModel :: "jstr \<Rightarrow> MediaKind \<Rightarrow> jstr \<Rightarrow> jstr option res" where
  "providerInternalModel providerID kind publicModel =
     bindr (registered providerID) (\<lambda>p.
       Inr (find (\<lambda>model. modelDisplayID model = Inr publicModel) (pp_models p kind)))"

text \<open>
  \<open>mediaLabels[kind] || kind\<close> for every capability, joined; no capability gives the fallback.
\<close>

definition capability_label :: "jstr \<Rightarrow> jstr res" where
  "capability_label kind = bindr (obj_get mediaLabels kind) (\<lambda>label. Inr (nullish label kind))"

definition providerCapabilityText :: "jstr list \<Rightarrow> jstr res" where
  "providerCapabilityText capabilities =
     bindr (mapr capability_label capabilities) (\<lambda>labels.
       Inr (or_str (js_join (ulit '' %u00B7 '') labels)
              (ulit ''%u672A%u5F00%u653E%u751F%u6210%u80FD%u529B'')))"

definition providerSupports :: "jstr list option \<Rightarrow> MediaKind \<Rightarrow> bool" where
  "providerSupports capabilities kind =
     (case capabilities of None \<Rightarrow> False | Some cs \<Rightarrow> kind_name kind \<in> set cs)"

definition provider_models :: "ProviderPresentation \<Rightarrow> jstr list" where
  "provider_models p = pp_models p Image @ pp_models p Video @ pp_models p Audio"

definition public_provider_part :: "jstr \<Rightarrow> jstr option" where
  "public_provider_part model = (case js_split 47 model of
       [a, b] \<Rightarrow> if isRegisteredProviderID (Some a) then Some a else None
     | _ \<Rightarrow> None)"

definition qualified_provider_part :: "jstr \<Rightarrow> jstr option" where
  "qualified_provider_part model = (case js_split 58 model of
       [a, b] \<Rightarrow> if isRegisteredProviderID (Some a) then Some a else None
     | _ \<Rightarrow> None)"

definition modelProviderID :: "jstr \<Rightarrow> jstr" where
  "modelProviderID model =
     (case public_provider_part model of
        Some a \<Rightarrow> a
      | None \<Rightarrow> (case qualified_provider_part model of
          Some a \<Rightarrow> a
        | None \<Rightarrow> (case find (\<lambda>p. model \<in> set (provider_models p)) (map snd providerRegistry) of
            Some p \<Rightarrow> pp_id p
          | None \<Rightarrow> [])))"

definition modelsForProvider :: "jstr list \<Rightarrow> jstr \<Rightarrow> jstr list" where
  "modelsForProvider models providerID = filter (\<lambda>m. modelProviderID m = providerID) models"

record GenerationRoute =
  gr_provider :: jstr
  gr_model :: jstr
  gr_internalModel :: jstr

text \<open>
  An inherited \<open>providerDefinition\<close> has no \<open>modelAliases\<close>, and indexing undefined throws a
  TypeError. The alias, when it is the empty string or undefined, gives way to the display id.
\<close>

definition generationRoute :: "jstr \<Rightarrow> GenerationRoute res" where
  "generationRoute model =
     (let providerID = modelProviderID model in
      case providerDefinition providerID None of
        Inl _ \<Rightarrow> Inl TypeError
      | Inr provider \<Rightarrow>
          bindr (obj_get (pp_modelAliases provider) model) (\<lambda>alias.
          bindr (case alias of Some c \<Rightarrow> if c \<noteq> [] then Inr c else modelDisplayID model
                 | None \<Rightarrow> modelDisplayID model) (\<lambda>canonicalModel.
          Inr \<lparr>gr_provider = providerID,
               gr_model = providerID @ lit ''/'' @ canonicalModel,
               gr_internalModel = model\<rparr>)))"

record KeyModelGroup =
  kmg_provider_id :: jstr
  kmg_label :: jstr
  kmg_kind :: MediaKind
  kmg_models :: "jstr list"

definition kind_label :: "MediaKind \<Rightarrow> jstr" where
  "kind_label k = (case map_of mediaLabels (kind_name k) of None \<Rightarrow> [] | Some l \<Rightarrow> l)"

definition group_label :: "jstr \<Rightarrow> MediaKind \<Rightarrow> jstr" where
  "group_label shortName kind = shortName @ ulit '' %u00B7 '' @ kind_label kind"

definition configured_groups :: "Provider \<Rightarrow> KeyModelGroup list res" where
  "configured_groups provider =
     bindr (providerDefinition (prov_id provider) (Some provider)) (\<lambda>presentation.
       Inr (map (\<lambda>kind. \<lparr>kmg_provider_id = prov_id provider,
                          kmg_label = group_label (pp_shortName presentation) kind,
                          kmg_kind = kind,
                          kmg_models = nullish (prov_models provider kind) []\<rparr>)
              (filter (\<lambda>kind. nullish (prov_models provider kind) [] \<noteq> []) all_kinds)))"

definition default_groups :: "ProviderPresentation \<Rightarrow> KeyModelGroup list" where
  "default_groups provider =
     map (\<lambda>kind. \<lparr>kmg_provider_id = pp_id provider,
                   kmg_label = group_label (pp_shortName provider) kind,
                   kmg_kind = kind,
                   kmg_models = map (\<lambda>model. case map_of (pp_modelAliases provider) model of
                       Some c \<Rightarrow> or_str c model | None \<Rightarrow> model) (pp_models provider kind)\<rparr>)
       (filter (\<lambda>kind. pp_models provider kind \<noteq> []) all_kinds)"

definition providerModelGroups :: "Provider list \<Rightarrow> KeyModelGroup list res" where
  "providerModelGroups configured =
     (if configured \<noteq> []
      then bindr (mapr configured_groups configured) (\<lambda>gs. Inr (concat gs))
      else Inr (concat (map (default_groups \<circ> snd) providerRegistry)))"

text \<open>
  The unit credits are shown in. The callers pass records that have an \<open>id\<close>, a
  \<open>provider_id\<close> or both.
\<close>

record CreditProvider =
  cp_id :: "jstr option"
  cp_provider_id :: "jstr option"
  cp_credit_unit :: jstr

definition credit_provider_key :: "CreditProvider \<Rightarrow> jstr option" where
  "credit_provider_key p =
     (if opt_str (cp_id p) \<noteq> [] then cp_id p else cp_provider_id p)"

definition providerCreditUnit :: "jstr \<Rightarrow> CreditProvider list \<Rightarrow> jstr" where
  "providerCreditUnit providerID providers =
     (let raw = (case find (\<lambda>p. credit_provider_key p = Some providerID) providers of
                   None \<Rightarrow> lit ''credits''
                 | Some p \<Rightarrow> or_str (cp_credit_unit p) (lit ''credits''));
          normalized = to_lower (trim raw) in
      if normalized = lit ''bks'' then lit ''BKS''
      else if normalized = lit ''credits'' \<or> normalized = lit ''tokens'' then ulit ''%u79EF%u5206''
      else or_str (trim raw) (ulit ''%u79EF%u5206''))"

section \<open>The registry's keys and models\<close>

lemma registry_map_of:
  "map_of providerRegistry k = Some P \<longleftrightarrow>
     k = lit ''leonardo'' \<and> P = leonardo \<or> k = lit ''adobe'' \<and> P = adobe \<or>
     k = lit ''creativefabrica'' \<and> P = creativefabrica"
  by (auto simp: providerRegistry_def)

lemma registry_pp_id: "map_of providerRegistry k = Some P \<Longrightarrow> pp_id P = k"
  by (auto simp: registry_map_of leonardo_def adobe_def creativefabrica_def)

lemma registry_keys: "fst ` set providerRegistry = {k. map_of providerRegistry k \<noteq> None}"
  by (simp add: map_of_eq_None_iff)

lemma prototype_keys_chars:
  "k \<in> set object_prototype_keys \<Longrightarrow> 47 \<notin> set k \<and> 58 \<notin> set k \<and> k \<noteq> []"
  by (auto simp: object_prototype_keys_def lit_def)

lemma registry_key_chars:
  "map_of providerRegistry k = Some P \<Longrightarrow> 47 \<notin> set k \<and> 58 \<notin> set k \<and> k \<noteq> []"
  by (auto simp: registry_map_of lit_def)

lemma isRegisteredProviderID_Some:
  "isRegisteredProviderID (Some k) \<longleftrightarrow>
     k \<in> set object_prototype_keys \<or> (\<exists>P. map_of providerRegistry k = Some P)"
proof -
  have "k \<noteq> []" if "k \<in> set object_prototype_keys \<or> map_of providerRegistry k \<noteq> None"
    using that prototype_keys_chars registry_key_chars by fastforce
  then show ?thesis
    by (auto simp: isRegisteredProviderID_def obj_has_def registry_keys)
qed

lemma registry_not_prototype: "map_of providerRegistry k = Some P \<Longrightarrow> k \<notin> set object_prototype_keys"
  by (auto simp: registry_map_of object_prototype_keys_def)

lemma adobe_alias: "map_of (pp_modelAliases adobe) m = Some c \<Longrightarrow> m = lit ''adobe'' @ 58 # c \<and> c \<noteq> []"
  by (auto simp: adobe_def lit_def split: if_splits)

lemma provider_alias:
  assumes "map_of providerRegistry k = Some P" "map_of (pp_modelAliases P) m = Some c"
  shows "m = k @ 58 # c \<and> c \<noteq> []"
  using assms adobe_alias by (auto simp: registry_map_of leonardo_def creativefabrica_def)

section \<open>How ids split\<close>

lemma split_qualified:
  "58 \<notin> set p \<Longrightarrow> 58 \<notin> set x \<Longrightarrow> js_split 58 (p @ 58 # x) = [p, x]"
  by (simp add: js_split_append js_split_no_sep)

lemma split_public:
  "47 \<notin> set p \<Longrightarrow> 47 \<notin> set x \<Longrightarrow> js_split 47 (p @ 47 # x) = [p, x]"
  by (simp add: js_split_append js_split_no_sep)

lemma qualified_id:
  assumes "map_of providerRegistry p = Some P" "x \<noteq> []" "47 \<notin> set x" "58 \<notin> set x"
  shows "modelProviderID (p @ 58 # x) = p" and "modelDisplayID (p @ 58 # x) = Inr x"
proof -
  note k = registry_key_chars [OF assms(1)]
  have "isRegisteredProviderID (Some p)" using assms(1) by (auto simp: isRegisteredProviderID_Some)
  moreover have "js_split 47 (p @ 58 # x) = [p @ 58 # x]" using k assms by (simp add: js_split_no_sep)
  ultimately show "modelProviderID (p @ 58 # x) = p" "modelDisplayID (p @ 58 # x) = Inr x"
    using k assms
    by (simp_all add: modelProviderID_def modelDisplayID_def public_provider_part_def
        public_model_part_def qualified_provider_part_def qualified_model_part_def split_qualified)
qed

lemma public_id:
  assumes "map_of providerRegistry p = Some P" "x \<noteq> []" "47 \<notin> set x"
  shows "modelProviderID (p @ 47 # x) = p" and "modelDisplayID (p @ 47 # x) = Inr x"
proof -
  note k = registry_key_chars [OF assms(1)]
  have "isRegisteredProviderID (Some p)" using assms(1) by (auto simp: isRegisteredProviderID_Some)
  then show "modelProviderID (p @ 47 # x) = p" "modelDisplayID (p @ 47 # x) = Inr x"
    using k assms
    by (simp_all add: modelProviderID_def modelDisplayID_def public_provider_part_def
        public_model_part_def split_public)
qed

lemma lit_slash: "lit ''/'' = [47]"
  by (simp add: lit_def)

lemma providerDefinition_known: "map_of providerRegistry k = Some P \<Longrightarrow> providerDefinition k q = Inr P"
  by (simp add: providerDefinition_def obj_get_own)

lemma providerDefinition_Inl_iff:
  "(\<exists>e. providerDefinition k q = Inl e) \<longleftrightarrow> k \<in> set object_prototype_keys"
proof (cases "map_of providerRegistry k")
  case None
  then show ?thesis by (simp add: providerDefinition_def obj_get_def Let_def)
next
  case (Some P)
  then show ?thesis using registry_not_prototype by (simp add: providerDefinition_known)
qed

lemma first_alias_Inl:
  "first_alias ps m = Inl e \<Longrightarrow> m \<in> set object_prototype_keys"
  by (induction ps) (auto simp: obj_get_def bindr_def split: option.splits sum.splits if_splits)

lemma modelDisplayID_Inl: "modelDisplayID m = Inl e \<Longrightarrow> m \<in> set object_prototype_keys"
  by (auto simp: modelDisplayID_def bindr_def split: option.splits sum.splits dest: first_alias_Inl)

lemma prototype_display: "m \<in> set object_prototype_keys \<Longrightarrow> modelDisplayID m = Inl (InheritedProperty m)"
proof -
  assume m: "m \<in> set object_prototype_keys"
  note c = prototype_keys_chars [OF m]
  have "pp_modelAliases leonardo = []" by (simp add: leonardo_def)
  then have "first_alias (map snd providerRegistry) m = Inl (InheritedProperty m)"
    using m by (simp add: providerRegistry_def obj_get_def)
  with c show ?thesis
    by (simp add: modelDisplayID_def public_model_part_def qualified_model_part_def js_split_no_sep)
qed

section \<open>Listed models\<close>

text \<open>What the registry's models look like: the ids of Leonardo are bare, the others qualified.\<close>

definition listed_as :: "jstr \<Rightarrow> jstr \<Rightarrow> jstr \<Rightarrow> bool" where
  "listed_as p m d \<longleftrightarrow> modelDisplayID m = Inr d \<and> modelProviderID m = p \<and>
     generationRoute m = Inr \<lparr>gr_provider = p, gr_model = p @ 47 # d, gr_internalModel = m\<rparr>"

lemma qualified_listed_as:
  assumes "map_of providerRegistry p = Some P" "x \<noteq> []" "47 \<notin> set x" "58 \<notin> set x"
  shows "listed_as p (p @ 58 # x) x"
proof -
  have no_proto: "p @ 58 # x \<notin> set object_prototype_keys"
    using prototype_keys_chars by fastforce
  have "generationRoute (p @ 58 # x)
      = Inr \<lparr>gr_provider = p, gr_model = p @ 47 # x, gr_internalModel = p @ 58 # x\<rparr>"
  proof (cases "map_of (pp_modelAliases P) (p @ 58 # x)")
    case None
    with assms no_proto show ?thesis
      by (simp add: generationRoute_def qualified_id providerDefinition_known obj_get_None Let_def lit_slash)
  next
    case (Some c)
    with provider_alias [OF assms(1) Some] assms show ?thesis
      by (simp add: generationRoute_def qualified_id providerDefinition_known obj_get_own Let_def lit_slash)
  qed
  with assms show ?thesis by (simp add: listed_as_def qualified_id)
qed

lemma creativefabrica_models_qualified:
  "\<forall>m \<in> set (provider_models creativefabrica). \<exists>t.
     m = lit (''creativefabrica'' @ '':'' @ t) \<and> t \<noteq> [] \<and> CHR ''/'' \<notin> set t \<and> CHR '':'' \<notin> set t"
  by (simp add: provider_models_def creativefabrica_def creativefabrica_image_models_def
      creativefabrica_video_models_def)

lemma adobe_models_qualified:
  "\<forall>m \<in> set (provider_models adobe). \<exists>t.
     m = lit (''adobe'' @ '':'' @ t) \<and> t \<noteq> [] \<and> CHR ''/'' \<notin> set t \<and> CHR '':'' \<notin> set t"
  by (simp add: provider_models_def adobe_def)

lemma leonardo_models_bare:
  "\<forall>m \<in> set (provider_models leonardo). 47 \<notin> set m \<and> 58 \<notin> set m \<and> m \<notin> set object_prototype_keys"
  by (simp add: provider_models_def leonardo_def object_prototype_keys_def)

lemma set_provider_models: "m \<in> set (pp_models P k) \<Longrightarrow> m \<in> set (provider_models P)"
  by (cases k) (auto simp: provider_models_def)

lemma leonardo_listed_as:
  assumes "m \<in> set (provider_models leonardo)"
  shows "listed_as (lit ''leonardo'') m m"
proof -
  have m: "47 \<notin> set m" "58 \<notin> set m" "m \<notin> set object_prototype_keys"
    using leonardo_models_bare assms by auto
  have leo: "map_of providerRegistry (lit ''leonardo'') = Some leonardo" by (simp add: providerRegistry_def)
  have no_alias: "map_of (pp_modelAliases P) m = None" if "map_of providerRegistry p = Some P" for p P
    using provider_alias [OF that] m by (cases "map_of (pp_modelAliases P) m") fastforce+
  have "first_alias (map snd providerRegistry) m = Inr None"
  proof -
    have "map snd providerRegistry = [leonardo, adobe, creativefabrica]"
      by (simp add: providerRegistry_def)
    moreover have "obj_get (pp_modelAliases P) m = Inr None" if "P \<in> {leonardo, adobe, creativefabrica}" for P
      using that m no_alias by (auto intro!: obj_get_None simp: registry_map_of)
    ultimately show ?thesis by simp
  qed
  then have display: "modelDisplayID m = Inr m"
    using m by (simp add: modelDisplayID_def public_model_part_def qualified_model_part_def js_split_no_sep)
  have provider: "modelProviderID m = lit ''leonardo''"
    using m assms by (simp add: modelProviderID_def public_provider_part_def qualified_provider_part_def
        js_split_no_sep providerRegistry_def) (simp add: leonardo_def)
  show ?thesis
    using display provider leo no_alias [OF leo] m
    by (simp add: listed_as_def generationRoute_def providerDefinition_known obj_get_None Let_def lit_slash)
qed

lemma modelProviderID_prototype_iff:
  assumes "m \<in> set object_prototype_keys" shows "modelProviderID m = []"
proof -
  note c = prototype_keys_chars [OF assms]
  have "m \<notin> set (provider_models P)" if "P \<in> snd ` set providerRegistry" for P
    using that assms c leonardo_models_bare adobe_models_qualified creativefabrica_models_qualified
    by (fastforce simp: providerRegistry_def)
  then have "find (\<lambda>p. m \<in> set (provider_models p)) (map snd providerRegistry) = None"
    by (auto simp: find_None_iff)
  with c show ?thesis
    by (simp add: modelProviderID_def public_provider_part_def qualified_provider_part_def js_split_no_sep)
qed

definition bare_id :: "jstr \<Rightarrow> jstr \<Rightarrow> jstr" where
  "bare_id p m = (if p = lit ''leonardo'' then m else drop (Suc (length p)) m)"

lemma qualified_model:
  assumes "map_of providerRegistry p = Some P" "p \<noteq> lit ''leonardo''" "m \<in> set (pp_models P k)"
  shows "\<exists>x. m = p @ 58 # x \<and> x \<noteq> [] \<and> 47 \<notin> set x \<and> 58 \<notin> set x"
proof -
  have "p = lit ''adobe'' \<and> P = adobe \<or> p = lit ''creativefabrica'' \<and> P = creativefabrica"
    using assms(1,2) by (auto simp: registry_map_of)
  then obtain t where "m = p @ 58 # lit t" "t \<noteq> []" "CHR ''/'' \<notin> set t" "CHR '':'' \<notin> set t"
    using creativefabrica_models_qualified adobe_models_qualified set_provider_models [OF assms(3)]
    by (metis lit_colon)
  then show ?thesis by (metis lit_eq_Nil slash_in_lit colon_in_lit)
qed

lemma listed_model_bare:
  assumes "map_of providerRegistry p = Some P" "m \<in> set (pp_models P k)"
  shows "listed_as p m (bare_id p m) \<and> (p \<noteq> lit ''leonardo'' \<longrightarrow> m = p @ 58 # bare_id p m)"
proof (cases "p = lit ''leonardo''")
  case True
  then have "P = leonardo" using assms(1) by (auto simp: registry_map_of)
  with True set_provider_models [OF assms(2)] show ?thesis
    by (simp add: leonardo_listed_as bare_id_def)
next
  case False
  then obtain x where "m = p @ 58 # x" "x \<noteq> []" "47 \<notin> set x" "58 \<notin> set x"
    using qualified_model [OF assms(1) _ assms(2)] by blast
  with False qualified_listed_as [OF assms(1)] show ?thesis by (simp add: bare_id_def)
qed

lemma listed_model:
  "map_of providerRegistry p = Some P \<Longrightarrow> m \<in> set (pp_models P k) \<Longrightarrow> \<exists>d. listed_as p m d"
  using listed_model_bare by blast

lemma display_inj:
  assumes "map_of providerRegistry p = Some P" "m \<in> set (pp_models P k)" "n \<in> set (pp_models P k)"
    and "modelDisplayID m = modelDisplayID n"
  shows "m = n"
proof -
  note m = listed_model_bare [OF assms(1,2)] and n = listed_model_bare [OF assms(1,3)]
  have "bare_id p m = bare_id p n" using m n assms(4) by (simp add: listed_as_def)
  with m n show ?thesis by (cases "p = lit ''leonardo''") (simp add: bare_id_def, metis)
qed

lemma find_unique:
  assumes "x \<in> set xs" "Q x" "\<And>y. y \<in> set xs \<Longrightarrow> Q y \<Longrightarrow> y = x"
  shows "find Q xs = Some x"
proof -
  obtain y where y: "find Q xs = Some y" using assms(1,2) by (cases "find Q xs") (auto simp: find_None_iff)
  then have "y \<in> set xs" "Q y" by (auto simp: find_Some_iff)
  with assms(3) y show ?thesis by blast
qed

lemma providerInternalModel_listed:
  assumes P: "map_of providerRegistry p = Some P" and m: "m \<in> set (pp_models P k)"
    and d: "modelDisplayID m = Inr d"
  shows "providerInternalModel p k d = Inr (Some m)"
proof -
  have "find (\<lambda>n. modelDisplayID n = Inr d) (pp_models P k) = Some m"
    by (rule find_unique) (use display_inj [OF P] m d in auto)
  with P show ?thesis by (simp add: providerInternalModel_def registered_def obj_get_own)
qed

section \<open>Properties\<close>

text \<open>A qualified id \<open>p:x\<close> of a registered provider routes to the public id \<open>p/x\<close>, and the
  public id is read back as the same provider and the same model: routing an id and parsing the
  route again loses nothing.\<close>

theorem generationRoute_roundtrip:
  assumes "map_of providerRegistry p = Some P" "x \<noteq> []" "47 \<notin> set x" "58 \<notin> set x"
  shows "\<exists>r. generationRoute (p @ 58 # x) = Inr r \<and> gr_provider r = p \<and> gr_model r = p @ 47 # x \<and>
             gr_internalModel r = p @ 58 # x \<and>
             modelProviderID (gr_model r) = modelProviderID (p @ 58 # x) \<and>
             modelDisplayID (gr_model r) = modelDisplayID (p @ 58 # x)"
  using qualified_listed_as [OF assms] assms by (simp add: listed_as_def public_id)

theorem generationRoute_roundtrip_witness:
  "\<exists>r. generationRoute (lit ''adobe'' @ 58 # lit ''veo-3.1'') = Inr r \<and>
       gr_model r = lit ''adobe'' @ 47 # lit ''veo-3.1''"
proof -
  have "map_of providerRegistry (lit ''adobe'') = Some adobe" by (simp add: providerRegistry_def)
  moreover have "47 \<notin> set (lit ''veo-3.1'')" "58 \<notin> set (lit ''veo-3.1'')" by (simp_all add: lit_def)
  ultimately show ?thesis
    using generationRoute_roundtrip [of "lit ''adobe''" adobe "lit ''veo-3.1''"] by auto
qed

text \<open>C21: For every model the registry lists, the id shown for it leads back to it:
  \<open>providerInternalModel\<close> finds the listed model from its display id, the model is attributed to
  the provider that lists it, and its route is that provider's public id for it.\<close>

theorem registry_models_roundtrip:
  "\<forall>(p, P) \<in> set providerRegistry. \<forall>kind. \<forall>m \<in> set (pp_models P kind). \<exists>d.
     modelDisplayID m = Inr d \<and> providerInternalModel p kind d = Inr (Some m) \<and>
     modelProviderID m = p \<and>
     generationRoute m = Inr \<lparr>gr_provider = p, gr_model = p @ lit ''/'' @ d, gr_internalModel = m\<rparr>"
proof (clarify, goal_cases)
  case (1 p P kind m)
  then have P: "map_of providerRegistry p = Some P" by (auto simp: providerRegistry_def)
  obtain d where d: "listed_as p m d" using listed_model [OF P 1(2)] by blast
  have "providerInternalModel p kind d = Inr (Some m)"
    using providerInternalModel_listed [OF P 1(2)] d by (simp add: listed_as_def)
  with d show ?case by (auto simp: listed_as_def lit_slash)
qed

theorem registry_models_roundtrip_witness:
  "\<exists>d. modelDisplayID (lit ''adobe:veo-3.1'') = Inr d \<and>
       providerInternalModel (lit ''adobe'') Video d = Inr (Some (lit ''adobe:veo-3.1''))"
proof -
  have "(lit ''adobe'', adobe) \<in> set providerRegistry" by (simp add: providerRegistry_def)
  moreover have "lit ''adobe:veo-3.1'' \<in> set (pp_models adobe Video)" by (simp add: adobe_def)
  ultimately show ?thesis using registry_models_roundtrip by fast
qed

text \<open>Exactly when routing fails: with a TypeError when the provider part of the id is a
  property of Object.prototype (as in \<open>constructor/x\<close>, which \<open>isRegisteredProviderID\<close> lets
  through because it uses the \<open>in\<close> operator), with a value that is no string when the whole id is
  such a property, and for no other string.\<close>

theorem generationRoute_failures:
  "(generationRoute m = Inl TypeError \<longleftrightarrow> modelProviderID m \<in> set object_prototype_keys) \<and>
   (generationRoute m = Inl (InheritedProperty m) \<longleftrightarrow> m \<in> set object_prototype_keys) \<and>
   ((\<exists>r. generationRoute m = Inr r) \<longleftrightarrow>
      modelProviderID m \<notin> set object_prototype_keys \<and> m \<notin> set object_prototype_keys)"
proof (cases "modelProviderID m \<in> set object_prototype_keys")
  case True
  then obtain e where "providerDefinition (modelProviderID m) None = Inl e"
    using providerDefinition_Inl_iff by metis
  moreover have "m \<notin> set object_prototype_keys"
    using True modelProviderID_prototype_iff prototype_keys_chars by metis
  ultimately show ?thesis using True by (simp add: generationRoute_def Let_def)
next
  case False
  then obtain P where P: "providerDefinition (modelProviderID m) None = Inr P"
    using providerDefinition_Inl_iff by (metis obj_sumE)
  show ?thesis
  proof (cases "m \<in> set object_prototype_keys")
    case True
    then have "P = \<lparr>pp_id = [], pp_displayName = [], pp_shortName = [],
        pp_description = ulit ''%u5DF2%u6CE8%u518C%u7684%u5916%u90E8%u751F%u6210%u5E73%u53F0'',
        pp_capabilities = [], pp_modelAliases = [], pp_models = (\<lambda>_. [])\<rparr>"
      using P by (simp add: modelProviderID_prototype_iff providerDefinition_def obj_get_def
          providerRegistry_def object_prototype_keys_def)
    then have "pp_modelAliases P = []" by simp
    with True False P show ?thesis
      by (simp add: generationRoute_def Let_def obj_get_def)
  next
    case no: False
    then obtain d where "modelDisplayID m = Inr d" using modelDisplayID_Inl by (metis obj_sumE)
    with no False P show ?thesis
      by (auto simp: generationRoute_def Let_def obj_get_def split: option.splits)
  qed
qed

lemma prototype_provider_crash: "generationRoute (lit ''constructor/x'') = Inl TypeError"
  by code_simp

text \<open>The unit credits are shown in is never empty, and providers whose unit is BKS in any
  case and with any surrounding white space are shown as BKS.\<close>

theorem providerCreditUnit_total:
  "providerCreditUnit providerID providers \<noteq> [] \<and>
   (find (\<lambda>p. credit_provider_key p = Some providerID) providers = Some p \<longrightarrow>
    to_lower (trim (cp_credit_unit p)) = lit ''bks'' \<longrightarrow>
    providerCreditUnit providerID providers = lit ''BKS'')"
proof
  have "ulit ''%u79EF%u5206'' \<noteq> []" by (simp add: ulit.simps)
  then show "providerCreditUnit providerID providers \<noteq> []"
    by (auto simp: providerCreditUnit_def Let_def or_str_def)
  show "find (\<lambda>p. credit_provider_key p = Some providerID) providers = Some p \<longrightarrow>
    to_lower (trim (cp_credit_unit p)) = lit ''bks'' \<longrightarrow>
    providerCreditUnit providerID providers = lit ''BKS''"
    by (auto simp: providerCreditUnit_def Let_def or_str_def to_lower_def)
qed

theorem providerCreditUnit_total_witness:
  "providerCreditUnit (lit ''adobe'')
     [\<lparr>cp_id = Some (lit ''adobe''), cp_provider_id = None, cp_credit_unit = lit '' Bks ''\<rparr>] = lit ''BKS''"
proof -
  have "to_lower (trim (lit '' Bks '')) = lit ''bks''" by code_simp
  with providerCreditUnit_total [of "lit ''adobe''"
      "[\<lparr>cp_id = Some (lit ''adobe''), cp_provider_id = None, cp_credit_unit = lit '' Bks ''\<rparr>]"]
  show ?thesis by (simp add: credit_provider_key_def)
qed

end
