(* ===== verification/JsDate.thy ===== *)
theory JsDate
  imports JsPrelude
begin

text \<open>
  \<open>new Date(text).getTime()\<close> for the ECMAScript date time format (which RFC 3339 timestamps
  of the gateway follow), and \<open>Number.parseInt(text, 10)\<close>. \<open>None\<close> is NaN. A time without an
  offset is local time: the environment's conversion to UTC is the parameter \<open>utc\<close>. Strings
  in other formats, which engines may read as they like, count as invalid.
\<close>

definition is_digit :: "jchar \<Rightarrow> bool" where
  "is_digit c \<longleftrightarrow> 48 \<le> c \<and> c \<le> 57"

text \<open>Exactly \<open>n\<close> digits, and what follows them.\<close>

fun digits :: "nat \<Rightarrow> int \<Rightarrow> jstr \<Rightarrow> (int \<times> jstr) option" where
  "digits 0 acc s = Some (acc, s)"
| "digits (Suc n) acc [] = None"
| "digits (Suc n) acc (c # s) =
     (if is_digit c then digits n (10 * acc + (c - 48)) s else None)"

definition char_then :: "jchar \<Rightarrow> (jstr \<Rightarrow> 'a option) \<Rightarrow> jstr \<Rightarrow> 'a option" where
  "char_then c k s = (case s of [] \<Rightarrow> None | d # r \<Rightarrow> if d = c then k r else None)"

text \<open>Days since 1970-01-01 in the proleptic Gregorian calendar.\<close>

definition days_from_civil :: "int \<Rightarrow> int \<Rightarrow> int \<Rightarrow> int" where
  "days_from_civil y m d =
     (let y' = (if m \<le> 2 then y - 1 else y); era = y' div 400; yoe = y' mod 400;
          doy = (153 * (if 2 < m then m - 3 else m + 9) + 2) div 5 + d - 1;
          doe = yoe * 365 + yoe div 4 - yoe div 100 + doy in
      era * 146097 + doe - 719468)"

definition leap_year :: "int \<Rightarrow> bool" where
  "leap_year y \<longleftrightarrow> y mod 4 = 0 \<and> (y mod 100 \<noteq> 0 \<or> y mod 400 = 0)"

definition days_in_month :: "int \<Rightarrow> int \<Rightarrow> int" where
  "days_in_month y m = (if m = 2 then (if leap_year y then 29 else 28)
     else if m = 4 \<or> m = 6 \<or> m = 9 \<or> m = 11 then 30 else 31)"

definition make_day :: "int \<Rightarrow> int \<Rightarrow> int \<Rightarrow> int option" where
  "make_day y m d = (if 1 \<le> m \<and> m \<le> 12 \<and> 1 \<le> d \<and> d \<le> days_in_month y m
     then Some (days_from_civil y m d * 86400000) else None)"

text \<open>\<open>YYYY\<close>, \<open>YYYY-MM\<close> or \<open>YYYY-MM-DD\<close>: the start of the day in milliseconds.\<close>

definition parse_day :: "jstr \<Rightarrow> (int \<times> jstr) option" where
  "parse_day s = (case digits 4 0 s of None \<Rightarrow> None | Some (y, s1) \<Rightarrow>
     (case char_then 45 (digits 2 0) s1 of
        None \<Rightarrow> map_option (\<lambda>t. (t, s1)) (make_day y 1 1)
      | Some (m, s2) \<Rightarrow>
        (case char_then 45 (digits 2 0) s2 of
           None \<Rightarrow> map_option (\<lambda>t. (t, s2)) (make_day y m 1)
         | Some (d, s3) \<Rightarrow> map_option (\<lambda>t. (t, s3)) (make_day y m d))))"

text \<open>The fraction of a second, to the millisecond; further digits are cut.\<close>

definition parse_fraction :: "jstr \<Rightarrow> int \<times> jstr" where
  "parse_fraction s = (case s of
       c # r \<Rightarrow>
         (let ds = takeWhile is_digit r in
          if c = 46 \<and> ds \<noteq> [] then
            (foldl (\<lambda>a d. 10 * a + (d - 48)) 0 (take 3 (ds @ [48, 48])), dropWhile is_digit r)
          else (0, s))
     | [] \<Rightarrow> (0, s))"

text \<open>\<open>HH:mm\<close>, with optional seconds and fraction: milliseconds since midnight.\<close>

definition parse_clock :: "jstr \<Rightarrow> (int \<times> jstr) option" where
  "parse_clock s = (case digits 2 0 s of None \<Rightarrow> None | Some (h, s1) \<Rightarrow>
     (case char_then 58 (digits 2 0) s1 of None \<Rightarrow> None | Some (mi, s2) \<Rightarrow>
       (let (sec, ms, s3) = (case char_then 58 (digits 2 0) s2 of
              None \<Rightarrow> (0, 0, s2)
            | Some (sec, r) \<Rightarrow> let (ms, r') = parse_fraction r in (sec, ms, r'));
            t = ((h * 60 + mi) * 60 + sec) * 1000 + ms in
        if mi \<le> 59 \<and> sec \<le> 59 \<and> (h \<le> 23 \<or> t = 86400000) then Some (t, s3) else None)))"

text \<open>The offset in minutes: \<open>Z\<close>, \<open>+HH:mm\<close> or \<open>-HH:mm\<close> at the end of the text, or none.\<close>

definition parse_offset :: "jstr \<Rightarrow> int option option" where
  "parse_offset s = (case s of
       [] \<Rightarrow> Some None
     | c # r \<Rightarrow>
         if c = 90 \<and> r = [] then Some (Some 0)
         else if c = 43 \<or> c = 45 then
           (case digits 2 0 r of None \<Rightarrow> None | Some (h, r1) \<Rightarrow>
             (case char_then 58 (digits 2 0) r1 of
                Some (mi, []) \<Rightarrow>
                  if h \<le> 23 \<and> mi \<le> 59 then Some (Some ((if c = 43 then 1 else -1) * (h * 60 + mi)))
                  else None
              | _ \<Rightarrow> None))
         else None)"

definition date_time :: "(int \<Rightarrow> int) \<Rightarrow> jstr \<Rightarrow> int option" where
  "date_time utc s = (case parse_day s of
       None \<Rightarrow> None
     | Some (day, []) \<Rightarrow> Some day
     | Some (day, c # r) \<Rightarrow>
         if c \<noteq> 84 then None
         else (case parse_clock r of None \<Rightarrow> None | Some (clock, r1) \<Rightarrow>
           (case parse_offset r1 of
              None \<Rightarrow> None
            | Some None \<Rightarrow> Some (utc (day + clock))
            | Some (Some offset) \<Rightarrow> Some (day + clock - offset * 60000))))"

lemma date_time_examples:
  "date_time utc (lit ''1970-01-01T00:00:00Z'') = Some 0"
  "date_time utc (lit ''2024-02-29T12:30:45.678901+08:00'') = Some 1709181045678"
  "date_time utc (lit ''2023-02-29'') = None"
  by code_simp+

section \<open>parseInt\<close>

text \<open>Leading white space, a sign, and the longest run of digits.\<close>

definition parse_int :: "jstr \<Rightarrow> int option" where
  "parse_int s =
     (let t = dropWhile is_space s;
          (sign, u) = (case t of
              c # r \<Rightarrow> if c = 45 then (-1, r) else if c = 43 then (1, r) else (1, t)
            | [] \<Rightarrow> (1, t));
          ds = takeWhile is_digit u in
      if ds = [] then None else Some (sign * foldl (\<lambda>a d. 10 * a + (d - 48)) 0 ds))"

text \<open>Comparing numbers by their difference: a NaN result leaves the order to the next key.\<close>

definition diff_cmp :: "int option \<Rightarrow> int option \<Rightarrow> int" where
  "diff_cmp a b = (case (a, b) of (Some x, Some y) \<Rightarrow> x - y | _ \<Rightarrow> 0)"

lemma js_sort_cong:
  assumes "\<And>a b. a \<in> set xs \<Longrightarrow> b \<in> set xs \<Longrightarrow> f a b = g a b"
  shows "js_sort f xs = js_sort g xs"
  using assms
proof (induction xs)
  case (Cons x xs)
  have "ins_by f x ys = ins_by g x ys" if "set ys \<subseteq> set xs" for ys
    using that Cons.prems by (induction ys) auto
  with Cons show ?case by simp
qed simp

lemma diff_cmp_defined: "x \<noteq> None \<Longrightarrow> y \<noteq> None \<Longrightarrow> diff_cmp x y = the x - the y"
  by (auto simp: diff_cmp_def)

lemma js_sort_sorted_key:
  assumes "\<forall>x \<in> set xs. k x \<noteq> None"
  shows "sorted_wrt (\<lambda>a b. the (k a) \<le> the (k b)) (js_sort (\<lambda>a b. diff_cmp (k a) (k b)) xs)"
proof -
  have "js_sort (\<lambda>a b. diff_cmp (k a) (k b)) xs = js_sort (\<lambda>a b. the (k a) - the (k b)) xs"
    using assms by (intro js_sort_cong diff_cmp_defined) blast+
  then show ?thesis
    using comparator.sorted_js_sort [OF comparator_key [of "\<lambda>x. the (k x)"], of xs] by simp
qed

end
