(* ===== verification/StatusText.thy ===== *)
theory StatusText
  imports Providers JsDate
begin

text \<open>
  The texts of shared/status.ts and shared/text.ts and the account state of
  components/account-status.tsx. The current time and the locale's number format belong to the
  environment and are parameters: \<open>now\<close> in milliseconds, \<open>loc\<close> for \<open>toLocaleString\<close>.
\<close>

section \<open>Task texts\<close>

definition status_labels :: "(jstr \<times> jstr) list" where
  "status_labels =
     [(lit ''active'', ulit ''%u53EF%u7528''), (lit ''disabled'', ulit ''%u5DF2%u7981%u7528''), (lit ''invalid'', ulit ''%u767B%u5F55%u51ED%u636E%u5931%u6548''),
      (lit ''rate_limited'', ulit ''429 %u4E34%u65F6%u98CE%u63A7''), (lit ''cooldown'', ulit ''%u4E34%u65F6%u6545%u969C%uFF0C%u7B49%u5F85%u91CD%u8BD5''),
      (lit ''queued'', ulit ''%u6392%u961F%u4E2D''), (lit ''processing'', ulit ''%u5904%u7406%u4E2D''), (lit ''reserving'', ulit ''%u5206%u914D%u8D26%u53F7''),
      (lit ''uploading'', ulit ''%u4E0A%u4F20%u4E2D''), (lit ''submitted'', ulit ''%u4E0A%u6E38%u5904%u7406%u4E2D''), (lit ''polling'', ulit ''%u4E0A%u6E38%u5904%u7406%u4E2D''),
      (lit ''succeeded'', ulit ''%u6210%u529F''), (lit ''failed'', ulit ''%u5931%u8D25''), (lit ''cancelled'', ulit ''%u5DF2%u53D6%u6D88''),
      (lit ''submission_uncertain'', ulit ''%u63D0%u4EA4%u72B6%u6001%u672A%u77E5'')]"

definition statusText :: "jstr \<Rightarrow> jstr res" where
  "statusText status = bindr (obj_get status_labels status) (\<lambda>l. Inr (or_str (opt_str l) status))"

definition tokenCost :: "(rat \<Rightarrow> jstr) \<Rightarrow> Task \<Rightarrow> jstr" where
  "tokenCost loc task = (case task_settled_tokens task of
       Some n \<Rightarrow> loc n
     | None \<Rightarrow> (case task_estimated_tokens task of
         Some n \<Rightarrow> if task_reservation_state task = Some (lit ''held'') then loc n @ ulit '' %u9884%u7559'' else ulit ''%u2014''
       | None \<Rightarrow> ulit ''%u2014''))"

definition taskCreditUnit :: "Task \<Rightarrow> CreditProvider list \<Rightarrow> jstr" where
  "taskCreditUnit task providers = providerCreditUnit (task_provider_id task) providers"

definition reservation_labels :: "(jstr \<times> jstr) list" where
  "reservation_labels = [(lit ''held'', ulit ''%u5DF2%u9884%u7559''), (lit ''released'', ulit ''%u5DF2%u91CA%u653E''), (lit ''consumed'', ulit ''%u5DF2%u7ED3%u7B97'')]"

definition reservationText :: "jstr option \<Rightarrow> jstr option \<Rightarrow> jstr res" where
  "reservationText state reason =
     (if opt_str state = [] then Inr (ulit ''%u65E7%u4EFB%u52A1%uFF0C%u65E0%u9884%u7559%u8BB0%u5F55'')
      else bindr (obj_get reservation_labels (opt_str state)) (\<lambda>l.
        let label = or_str (opt_str l) (opt_str state) in
        Inr (if opt_str reason \<noteq> [] then label @ ulit '' %u00B7 '' @ opt_str reason else label)))"

text \<open>
  \<open>toFixed(1)\<close>: the tenths nearest to the value, the larger of two; a negative value is the
  negated text of its absolute value. Values at or above \<open>10 ^ 21\<close> print as \<open>String\<close> does, outside
  the range of credits.
\<close>

definition to_fixed_1 :: "rat \<Rightarrow> jstr" where
  "to_fixed_1 x = (let n = \<lfloor>10 * \<bar>x\<bar> + 1 / 2\<rfloor> in
     (if x < 0 then lit ''-'' else []) @ num_str (n div 10) @ lit ''.'' @ num_str (n mod 10))"

definition formatTokens :: "(rat \<Rightarrow> jstr) \<Rightarrow> rat \<Rightarrow> jstr" where
  "formatTokens loc value = (if value = of_int \<lfloor>value\<rfloor> then loc value else to_fixed_1 value)"

definition formatOptionalTokens :: "(rat \<Rightarrow> jstr) \<Rightarrow> rat option \<Rightarrow> jstr" where
  "formatOptionalTokens loc value = (case value of None \<Rightarrow> ulit ''%u2014'' | Some v \<Rightarrow> formatTokens loc v)"

text \<open>\<open>Math.round\<close> rounds halves up; \<open>seconds % 3600\<close> of a value that is not negative.\<close>

definition math_round :: "rat \<Rightarrow> int" where
  "math_round x = \<lfloor>x + 1 / 2\<rfloor>"

definition rat_mod :: "rat \<Rightarrow> int \<Rightarrow> rat" where
  "rat_mod x n = x - of_int (n * \<lfloor>x / of_int n\<rfloor>)"

definition formatCapacityWait :: "rat \<Rightarrow> jstr" where
  "formatCapacityWait seconds =
     (if seconds < 1 then ulit ''0 %u79D2''
      else if seconds < 60 then num_str (math_round seconds) @ ulit '' %u79D2''
      else if seconds < 3600 then num_str \<lfloor>seconds / 60\<rfloor> @ ulit '' %u5206''
      else num_str \<lfloor>seconds / 3600\<rfloor> @ ulit '' %u65F6 '' @ num_str \<lfloor>rat_mod seconds 3600 / 60\<rfloor> @ ulit '' %u5206'')"

section \<open>Prompt length\<close>

definition unicodeCharacterCount :: "jstr \<Rightarrow> nat" where
  "unicodeCharacterCount value = length (code_points value)"

definition assertPromptLength :: "(rat \<Rightarrow> jstr) \<Rightarrow> jstr \<Rightarrow> jstr \<Rightarrow> int \<Rightarrow> unit res" where
  "assertPromptLength loc prompt model maxCharacters =
     (let actualCharacters = unicodeCharacterCount prompt in
      if maxCharacters < int actualCharacters then
        Inl (ErrorMessage (model @ ulit '' %u63D0%u793A%u8BCD%u6700%u591A '' @ loc (of_int maxCharacters) @
          ulit '' %u4E2A Unicode %u5B57%u7B26%uFF0C%u5F53%u524D '' @ loc (of_nat actualCharacters) @ ulit '' %u4E2A''))
      else Inr ())"

section \<open>The state of an account\<close>

definition sessionRefreshText :: "Account \<Rightarrow> jstr" where
  "sessionRefreshText account =
     (if opt_str (acc_session_refresh_job_status account) \<noteq> [] then
        (if acc_session_refresh_job_stage account = Some (lit ''browser'') then ulit ''%u6D4F%u89C8%u5668'' else lit ''Cookie'') @ ulit '' %u00B7 '' @
        (if acc_session_refresh_job_status account = Some (lit ''leased'') then ulit ''%u5237%u65B0%u4E2D'' else ulit ''%u7B49%u5F85%u5237%u65B0'')
      else if opt_str (acc_session_refresh_last_method account) \<noteq> [] then
        (if acc_session_refresh_last_method account = Some (lit ''browser'') then ulit ''%u6D4F%u89C8%u5668'' else lit ''Cookie'') @
        ulit '' %u00B7 %u6700%u8FD1%u6210%u529F''
      else if acc_session_refresh_enabled account then ulit ''%u7B49%u5F85%u9996%u6B21%u8C03%u5EA6'' else ulit ''%u81EA%u52A8%u5237%u65B0%u5173%u95ED'')"

record OperationalState =
  os_className :: jstr
  os_label :: jstr
  os_detail :: "jstr option"

definition non_empty :: "jstr option \<Rightarrow> jstr option" where
  "non_empty s = (if opt_str s = [] then None else s)"

text \<open>The expiry time; no time stamp is the epoch, and \<open>None\<close> is NaN, which is never \<open><= now\<close>.\<close>

definition expires_at :: "(int \<Rightarrow> int) \<Rightarrow> Account \<Rightarrow> int option" where
  "expires_at utc account =
     (if opt_str (acc_access_token_expires_at account) = [] then Some 0
      else date_time utc (opt_str (acc_access_token_expires_at account)))"

definition expired :: "(int \<Rightarrow> int) \<Rightarrow> int \<Rightarrow> Account \<Rightarrow> bool" where
  "expired utc now account = (case expires_at utc account of None \<Rightarrow> False | Some t \<Rightarrow> t \<le> now)"

definition accountOperationalState :: "(int \<Rightarrow> int) \<Rightarrow> int \<Rightarrow> Account \<Rightarrow> OperationalState res" where
  "accountOperationalState utc now account =
     (if acc_generation_permission_status account = lit ''blocked'' then
        Inr \<lparr>os_className = lit ''invalid'', os_label = ulit ''%u751F%u6210%u6743%u9650%u5931%u6548'',
             os_detail = Some (or_str (opt_str (acc_generation_permission_error account))
               (ulit ''%u4E0A%u6E38%u62D2%u7EDD%u8BE5%u8D26%u53F7%u7684%u751F%u6210%u8BF7%u6C42''))\<rparr>
      else if acc_status account \<noteq> lit ''active'' then
        bindr (statusText (acc_status account)) (\<lambda>label.
          Inr \<lparr>os_className = acc_status account, os_label = label,
               os_detail = non_empty (acc_last_error account)\<rparr>)
      else if acc_provider_id account = lit ''leonardo'' \<and>
              acc_generation_permission_status account \<noteq> lit ''verified'' then
        Inr \<lparr>os_className = lit ''queued'', os_label = ulit ''%u751F%u6210%u6743%u9650%u5F85%u68C0%u6D4B'',
             os_detail = Some (or_str (opt_str (acc_generation_permission_error account))
               (ulit ''%u4F1A%u8BDD%u6709%u6548%uFF0C%u7B49%u5F85%u751F%u6210%u6743%u9650%u63A2%u9488%u5B8C%u6210''))\<rparr>
      else if expired utc now account then
        (if acc_provider_id account = lit ''adobe'' \<and> \<not> acc_session_refresh_enabled account then
           Inr \<lparr>os_className = lit ''invalid'', os_label = ulit ''AT %u5DF2%u8FC7%u671F'',
                os_detail = Some (ulit ''%u5BFC%u5165%u65B0%u7684 Adobe Access Token%uFF0C%u6216%u5BFC%u5165%u5B8C%u6574 Cookie %u5F00%u542F%u81EA%u52A8%u7EED%u671F'')\<rparr>
         else
           Inr \<lparr>os_className = lit ''cooldown'',
                os_label = (if acc_session_refresh_job_status account = Some (lit ''leased'')
                            then ulit ''%u4F1A%u8BDD%u5237%u65B0%u4E2D'' else ulit ''%u4F1A%u8BDD%u7B49%u5F85%u6062%u590D''),
                os_detail = Some (sessionRefreshText account)\<rparr>)
      else bindr (statusText (lit ''active'')) (\<lambda>label.
        Inr \<lparr>os_className = lit ''active'', os_label = label, os_detail = None\<rparr>))"

record StatusCell =
  sc_title :: "jstr option"
  sc_className :: jstr
  sc_label :: jstr
  sc_permissionClass :: jstr
  sc_permissionLabel :: jstr

definition AccountStatusCell :: "(int \<Rightarrow> int) \<Rightarrow> int \<Rightarrow> Account \<Rightarrow> StatusCell res" where
  "AccountStatusCell utc now account =
     bindr (accountOperationalState utc now account) (\<lambda>state.
       let permission = or_str (acc_generation_permission_status account) (lit ''unknown'') in
       Inr \<lparr>sc_title = (if opt_str (os_detail state) \<noteq> [] then os_detail state
                        else non_empty (acc_generation_permission_error account)),
            sc_className = os_className state, sc_label = os_label state,
            sc_permissionClass =
              (if permission = lit ''verified'' then lit ''verified''
               else if permission = lit ''blocked'' then lit ''blocked'' else lit ''pending''),
            sc_permissionLabel =
              (if permission = lit ''verified'' then ulit ''%u751F%u6210%u6743%u9650%u5DF2%u9A8C%u8BC1''
               else if permission = lit ''blocked'' then ulit ''%u751F%u6210%u6743%u9650%u5931%u6548''
               else if permission = lit ''rate_limited'' then ulit ''%u751F%u6210%u6743%u9650%u68C0%u6D4B%u9047%u5230 429''
               else if permission = lit ''error'' then ulit ''%u751F%u6210%u6743%u9650%u5F85%u91CD%u8BD5'' else ulit ''%u751F%u6210%u6743%u9650%u5F85%u68C0%u6D4B'')\<rparr>)"

text \<open>
  \<open>Math.max(1, Math.ceil(remaining / 60000))\<close>; a date that cannot be read gives NaN, which is
  neither \<open><= 0\<close> nor \<open>>= 60\<close> and prints as \<open>NaN\<close>.
\<close>

definition sessionExpiryText :: "(int \<Rightarrow> int) \<Rightarrow> int \<Rightarrow> jstr option \<Rightarrow> jstr \<Rightarrow> jstr" where
  "sessionExpiryText utc now expiresAt tokenLabel =
     (if opt_str expiresAt = [] then tokenLabel @ ulit '' %u672A%u83B7%u53D6''
      else (case date_time utc (opt_str expiresAt) of
          None \<Rightarrow> tokenLabel @ ulit '' NaN %u5206''
        | Some t \<Rightarrow>
            if t - now \<le> 0 then tokenLabel @ ulit '' %u5DF2%u8FC7%u671F''
            else (let minutes = max 1 ((t - now + 59999) div 60000) in
              if 60 \<le> minutes
              then tokenLabel @ lit '' '' @ num_str (minutes div 60) @ ulit ''%u65F6'' @ num_str (minutes mod 60) @ ulit ''%u5206''
              else tokenLabel @ lit '' '' @ num_str minutes @ ulit '' %u5206'')))"

lemma status_labels_no_key: "s \<in> set object_prototype_keys \<Longrightarrow> map_of status_labels s = None"
proof -
  have "list_all (\<lambda>s. map_of status_labels s = None) object_prototype_keys" by code_simp
  then show "s \<in> set object_prototype_keys \<Longrightarrow> map_of status_labels s = None" by (simp add: list_all_iff)
qed

lemma active_no_key: "lit ''active'' \<notin> set object_prototype_keys"
  by (simp add: object_prototype_keys_def)

lemma statusText_cases:
  "if s \<in> set object_prototype_keys then statusText s = Inl (InheritedProperty s)
   else \<exists>l. statusText s = Inr l"
proof (cases "s \<in> set object_prototype_keys")
  case True
  then show ?thesis by (simp add: statusText_def obj_get_def status_labels_no_key)
next
  case False
  then show ?thesis by (simp add: statusText_def obj_get_def split: option.splits)
qed

section \<open>Properties\<close>

text \<open>An account is shown as active exactly when its status is active, generation is not
  blocked (and is verified, for Leonardo), and its token has not expired; a token date that cannot
  be read counts as not expired.\<close>

theorem shown_active_iff:
  "(\<exists>st. accountOperationalState utc now account = Inr st \<and> os_className st = lit ''active'') \<longleftrightarrow>
     acc_status account = lit ''active'' \<and> acc_generation_permission_status account \<noteq> lit ''blocked'' \<and>
     (acc_provider_id account = lit ''leonardo'' \<longrightarrow> acc_generation_permission_status account = lit ''verified'') \<and>
     \<not> expired utc now account"
proof -
  have "\<exists>l. statusText (lit ''active'') = Inr l"
    using statusText_cases [of "lit ''active''"] by (simp add: active_no_key)
  then show ?thesis
    by (auto simp: accountOperationalState_def bindr_Inr_iff)
qed

text \<open>The label of an account fails to be a string only for an account that is neither active
  nor blocked and whose status is a property of Object.prototype; every other account has a state,
  and its permission class is one of the three the style sheet knows.\<close>

theorem account_cell_total:
  "(\<exists>cell. AccountStatusCell utc now account = Inr cell \<and>
      sc_permissionClass cell \<in> {lit ''verified'', lit ''blocked'', lit ''pending''}) \<longleftrightarrow>
   acc_generation_permission_status account = lit ''blocked'' \<or>
   acc_status account \<notin> set object_prototype_keys"
proof -
  have "(\<exists>s. accountOperationalState utc now account = Inr s) \<longleftrightarrow>
      acc_generation_permission_status account = lit ''blocked'' \<or>
      acc_status account \<notin> set object_prototype_keys"
  proof (cases "acc_status account = lit ''active''")
    case True
    obtain l where "statusText (lit ''active'') = Inr l" using statusText_cases by (metis active_no_key)
    with True active_no_key show ?thesis by (simp add: accountOperationalState_def)
  next
    case False
    then show ?thesis
      using statusText_cases [of "acc_status account"]
      by (auto simp: accountOperationalState_def)
  qed
  moreover have "(\<exists>cell. AccountStatusCell utc now account = Inr cell \<and>
      sc_permissionClass cell \<in> {lit ''verified'', lit ''blocked'', lit ''pending''}) \<longleftrightarrow>
      (\<exists>s. accountOperationalState utc now account = Inr s)"
    by (cases "accountOperationalState utc now account")
       (simp_all add: AccountStatusCell_def Let_def)
  ultimately show ?thesis by simp
qed

lemma code_points_concat: "concat (code_points s) = s"
  by (induction s rule: code_points.induct) auto

lemma length_code_points:
  "length (code_points s) \<le> length s" "length s \<le> 2 * length (code_points s)"
  by (induction s rule: code_points.induct) auto

text \<open>A prompt is accepted exactly when its number of code points is within the limit; every
  prompt of at most the limit in UTF-16 units is, and none of more than twice the limit.\<close>

theorem prompt_length_accepted:
  "(assertPromptLength loc prompt model m = Inr () \<longleftrightarrow> int (unicodeCharacterCount prompt) \<le> m) \<and>
   (int (length prompt) \<le> m \<longrightarrow> assertPromptLength loc prompt model m = Inr ()) \<and>
   (2 * m < int (length prompt) \<longrightarrow> (\<exists>msg. assertPromptLength loc prompt model m = Inl (ErrorMessage msg)))"
  using length_code_points [of prompt]
  by (auto simp: assertPromptLength_def unicodeCharacterCount_def Let_def)

theorem prompt_length_accepted_witness:
  "assertPromptLength (\<lambda>_. []) (lit ''a cat'') (lit ''m'') 9 = Inr () \<and>
   (\<exists>msg. assertPromptLength (\<lambda>_. []) (lit ''a cat'') (lit ''m'') 2 = Inl (ErrorMessage msg))"
  using prompt_length_accepted [of "\<lambda>_. []" "lit ''a cat''" "lit ''m''" 9]
    prompt_length_accepted [of "\<lambda>_. []" "lit ''a cat''" "lit ''m''" 2] by simp

text \<open>A wait of an hour or more is shown in whole hours and minutes that bracket it: less than
  a minute is lost, and the minutes are below 60.\<close>

theorem capacity_wait_bracket:
  assumes "3600 \<le> seconds"
  shows "\<exists>h m. formatCapacityWait seconds = num_str h @ ulit '' %u65F6 '' @ num_str m @ ulit '' %u5206'' \<and>
    0 \<le> m \<and> m < 60 \<and> of_int (3600 * h + 60 * m) \<le> seconds \<and> seconds < of_int (3600 * h + 60 * m + 60)"
proof -
  define h where "h = \<lfloor>seconds / 3600\<rfloor>"
  define r where "r = rat_mod seconds 3600"
  define m where "m = \<lfloor>r / 60\<rfloor>"
  have r: "r = seconds - 3600 * of_int h" by (simp add: r_def h_def rat_mod_def)
  have "of_int h \<le> seconds / 3600" "seconds / 3600 < of_int h + 1"
    unfolding h_def by linarith+
  then have r_bounds: "0 \<le> r" "r < 3600" by (auto simp: r field_simps)
  have m_bounds: "of_int m \<le> r / 60" "r / 60 < of_int m + 1" unfolding m_def by linarith+
  have "0 \<le> m" using r_bounds(1) by (simp add: m_def)
  moreover have "r / 60 < 60" using r_bounds(2) by simp
  then have "m < 60" unfolding m_def by (simp add: floor_less_iff)
  moreover have "of_int (3600 * h + 60 * m) \<le> seconds \<and> seconds < of_int (3600 * h + 60 * m + 60)"
    using m_bounds r by (auto simp: field_simps)
  moreover have "formatCapacityWait seconds = num_str h @ ulit '' %u65F6 '' @ num_str m @ ulit '' %u5206''"
    using assms by (simp add: formatCapacityWait_def h_def m_def r_def)
  ultimately show ?thesis by blast
qed

theorem capacity_wait_bracket_witness:
  "\<exists>h m. formatCapacityWait 7325 = num_str h @ ulit '' %u65F6 '' @ num_str m @ ulit '' %u5206'' \<and> m < 60"
  using capacity_wait_bracket [of 7325] by auto

end
