(* ===== verification/UrlParams.thy ===== *)
theory UrlParams
  imports JsPrelude
begin

text \<open>
  URLSearchParams: a list of name and value pairs. \<open>get\<close> reads the first value, \<open>set\<close> replaces it
  and drops the others, \<open>delete\<close> drops them all.
\<close>

type_synonym params = "(jstr \<times> jstr) list"

definition param_get :: "params \<Rightarrow> jstr \<Rightarrow> jstr option" where
  "param_get ps k = map_of ps k"

definition param_delete :: "jstr \<Rightarrow> params \<Rightarrow> params" where
  "param_delete k ps = filter (\<lambda>p. fst p \<noteq> k) ps"

fun param_set :: "jstr \<Rightarrow> jstr \<Rightarrow> params \<Rightarrow> params" where
  "param_set k v [] = [(k, v)]"
| "param_set k v (p # ps) = (if fst p = k then (k, v) # param_delete k ps else p # param_set k v ps)"

lemma param_get_delete: "param_get (param_delete k ps) j = (if j = k then None else param_get ps j)"
  by (induction ps) (auto simp: param_get_def param_delete_def)

lemma param_get_set: "param_get (param_set k v ps) j = (if j = k then Some v else param_get ps j)"
proof (induction k v ps rule: param_set.induct)
  case (2 k v p ps)
  then show ?case
    using param_get_delete [of k ps j] by (cases p) (auto simp: param_get_def)
qed (simp add: param_get_def)

end
