(* ===== verification/Batches.thy ===== *)
theory Batches
  imports Paging
begin

text \<open>
  What the list pages share when they act on many rows: cutting a list of ids into batches, sending
  the batches one after the other while adding up the answers, and the loop that collects the rows of
  a filter page by page. The pages differ in the records they use, so these are functions of the
  operations on those records; the locale states what the operations must satisfy for the totals to
  be right.
\<close>

section \<open>Batches\<close>

fun chunks :: "nat \<Rightarrow> 'a list \<Rightarrow> 'a list list" where
  "chunks n [] = []"
| "chunks n (x # xs) = (if n = 0 then [] else take n (x # xs) # chunks n (drop n (x # xs)))"

lemma concat_chunks: "0 < n \<Longrightarrow> concat (chunks n xs) = xs"
  by (induction n xs rule: chunks.induct) auto

lemma chunks_bounds: "0 < n \<Longrightarrow> c \<in> set (chunks n xs) \<Longrightarrow> c \<noteq> [] \<and> length c \<le> n"
  by (induction n xs rule: chunks.induct) auto

lemma length_chunks: "0 < n \<Longrightarrow> length (chunks n xs) = (length xs + n - 1) div n"
proof (induction n xs rule: chunks.induct)
  case (2 n x xs)
  have "length (chunks n (x # xs)) = Suc ((length (drop n (x # xs)) + n - 1) div n)"
    using 2 by simp
  also have "\<dots> = (length (x # xs) + n - 1) div n"
  proof (cases "length (x # xs) \<le> n")
    case True
    then have "(length (x # xs) + n - 1) div n = 1"
      using \<open>0 < n\<close> by (intro div_nat_eqI) auto
    moreover have "length (drop n (x # xs)) = 0" using True by simp
    ultimately show ?thesis using \<open>0 < n\<close> by (simp del: length_drop)
  next
    case False
    then have e: "length (x # xs) + n - 1 = (length (drop n (x # xs)) + n - 1) + n"
      using \<open>0 < n\<close> by simp
    show ?thesis unfolding e using \<open>0 < n\<close> by (metis Suc_eq_plus1 add.commute div_add_self1 not_gr_zero)
  qed
  finally show ?case .
qed simp

section \<open>Sending batches\<close>

text \<open>
  The loop over the batches. The gateway \<open>srv\<close> maps its state and a batch to the next state and the
  answer, \<open>None\<close> when the request fails; \<open>merge\<close> adds an answer to what was combined so far, \<open>miss\<close>
  a batch whose request failed.
\<close>

fun run_batches ::
    "('s \<Rightarrow> 'b list \<Rightarrow> 's \<times> 'r option) \<Rightarrow> ('r \<Rightarrow> 'c \<Rightarrow> 'c) \<Rightarrow> ('b list \<Rightarrow> 'c \<Rightarrow> 'c) \<Rightarrow>
     'b list list \<Rightarrow> 's \<Rightarrow> 'c \<Rightarrow> 's \<times> 'c" where
  "run_batches srv merge miss [] s combined = (s, combined)"
| "run_batches srv merge miss (batch # batches) s combined =
     (let (s', answer) = srv s batch in
      run_batches srv merge miss batches s' (case answer of
          Some result \<Rightarrow> merge result combined
        | None \<Rightarrow> miss batch combined))"

text \<open>
  An answer lists the ids of the batch as entries, each done or not, with the two counts; the
  combination keeps the entries, the counts, and how many ids were in failed requests.
\<close>

locale batch_report =
  fixes merge :: "'r \<Rightarrow> 'c \<Rightarrow> 'c" and miss :: "'b list \<Rightarrow> 'c \<Rightarrow> 'c"
    and entry_id :: "'e \<Rightarrow> 'b" and entry_done :: "'e \<Rightarrow> bool"
    and r_done :: "'r \<Rightarrow> int" and r_open :: "'r \<Rightarrow> int" and r_entries :: "'r \<Rightarrow> 'e list"
    and c_done :: "'c \<Rightarrow> int" and c_open :: "'c \<Rightarrow> int" and c_missed :: "'c \<Rightarrow> int"
    and c_entries :: "'c \<Rightarrow> 'e list"
  assumes merge_counts: "c_done (merge r c) = c_done c + r_done r" "c_open (merge r c) = c_open c + r_open r"
      "c_missed (merge r c) = c_missed c" "c_entries (merge r c) = c_entries c @ r_entries r"
    and miss_counts: "c_done (miss b c) = c_done c" "c_open (miss b c) = c_open c + int (length b)"
      "c_missed (miss b c) = c_missed c + int (length b)" "c_entries (miss b c) = c_entries c"
begin

text \<open>A gateway that accounts for every id of a batch it answers.\<close>

definition accounts_for :: "('s \<Rightarrow> 'b list \<Rightarrow> 's \<times> 'r option) \<Rightarrow> bool" where
  "accounts_for srv \<longleftrightarrow> (\<forall>s batch s' r. srv s batch = (s', Some r) \<longrightarrow>
     map entry_id (r_entries r) = batch \<and> r_done r = int (length (filter entry_done (r_entries r))) \<and>
     r_open r = int (length (filter (\<lambda>e. \<not> entry_done e) (r_entries r))))"

text \<open>What the combined answer of a list of ids means.\<close>

definition reports :: "'c \<Rightarrow> 'b list \<Rightarrow> bool" where
  "reports c ids \<longleftrightarrow>
     c_done c = int (length (filter entry_done (c_entries c))) \<and>
     c_open c = c_missed c + int (length (filter (\<lambda>e. \<not> entry_done e) (c_entries c))) \<and>
     0 \<le> c_missed c \<and> c_done c + c_open c = int (length ids) \<and>
     set (map entry_id (c_entries c)) \<subseteq> set ids"

lemma reports_done: "reports c ids \<Longrightarrow> c_missed c = 0 \<Longrightarrow> length (c_entries c) = length ids"
  unfolding reports_def using sum_length_filter_compl [of entry_done "c_entries c"] by linarith

lemma reports_merge:
  assumes "reports c ids" "accounts_for srv" "srv s batch = (s', Some r)"
  shows "reports (merge r c) (ids @ batch)"
proof -
  have r: "map entry_id (r_entries r) = batch" "r_done r = int (length (filter entry_done (r_entries r)))"
    "r_open r = int (length (filter (\<lambda>e. \<not> entry_done e) (r_entries r)))"
    using assms(2,3) unfolding accounts_for_def by blast+
  then have "r_done r + r_open r = int (length batch)"
    using sum_length_filter_compl [of entry_done "r_entries r"] by (metis length_map of_nat_add)
  then show ?thesis using assms(1) r by (auto simp: reports_def merge_counts)
qed

lemma reports_miss: "reports c ids \<Longrightarrow> reports (miss batch c) (ids @ batch)"
  by (auto simp: reports_def miss_counts)

lemma run_reports:
  assumes "accounts_for srv"
  shows "reports c ids \<Longrightarrow> run_batches srv merge miss batches s c = (s', c') \<Longrightarrow> reports c' (ids @ concat batches)"
proof (induction batches arbitrary: s c ids)
  case (Cons batch batches)
  obtain t answer where srv: "srv s batch = (t, answer)" by force
  have "reports (case answer of Some r \<Rightarrow> merge r c | None \<Rightarrow> miss batch c) (ids @ batch)"
    using Cons.prems(1) reports_merge [OF _ assms] srv reports_miss by (cases answer) auto
  from Cons.IH [OF this] Cons.prems(2) srv show ?case by (simp add: Let_def)
qed simp

end

section \<open>Collecting rows page by page\<close>

text \<open>
  The do-while loop of the scans: rows are collected by key until a page is empty or as many
  different keys are there as the gateway reports in total. \<open>fetch page\<close> is the answer for a page,
  its rows and the total, or the error of the request; \<open>None\<close> is a loop that never ends.
\<close>

partial_function (option) scan_loop ::
    "('a \<Rightarrow> 'k) \<Rightarrow> (nat \<Rightarrow> 'e + 'a list \<times> int) \<Rightarrow> nat \<Rightarrow> ('k, 'a) jmap \<Rightarrow> ('e + ('k, 'a) jmap) option" where
  "scan_loop key fetch currentPage found =
     (case fetch currentPage of
        Inl e \<Rightarrow> Some (Inl e)
      | Inr (rows, expectedTotal) \<Rightarrow>
          let found' = fold (\<lambda>row. map_set (key row) row) rows found in
          if rows = [] then Some (Inr found')
          else if int (length found') < expectedTotal then scan_loop key fetch (currentPage + 1) found'
          else Some (Inr found'))"

abbreviation keyed :: "('a \<Rightarrow> 'k) \<Rightarrow> 'a list \<Rightarrow> ('k, 'a) jmap" where
  "keyed key \<equiv> map (\<lambda>a. (key a, a))"

lemma map_set_fresh: "k \<notin> fst ` set m \<Longrightarrow> map_set k v m = m @ [(k, v)]"
  by (induction k v m rule: map_set.induct) auto

lemma fold_put_fresh:
  "distinct (map fst m @ map key xs) \<Longrightarrow> fold (\<lambda>a. map_set (key a) a) xs m = m @ keyed key xs"
proof (induction xs arbitrary: m)
  case (Cons x xs)
  then have "map_set (key x) x m = m @ [(key x, x)]" by (auto intro: map_set_fresh)
  moreover have "distinct (map fst (m @ [(key x, x)]) @ map key xs)" using Cons.prems by auto
  ultimately show ?case using Cons.IH by simp
qed simp

text \<open>A gateway that pages through a list.\<close>

definition pages_through :: "nat \<Rightarrow> 'a list \<Rightarrow> (nat \<Rightarrow> 'e + 'a list \<times> int) \<Rightarrow> bool" where
  "pages_through per L fetch \<longleftrightarrow> (\<forall>p \<ge> 1. fetch p = Inr (pageSlice p per L, int (length L)))"

lemma scan_loop_all:
  assumes L: "distinct (map key L)" and pages: "pages_through per L fetch" and per: "0 < per"
  shows "k * per \<le> length L \<Longrightarrow>
    scan_loop key fetch (Suc k) (keyed key (take (k * per) L)) = Some (Inr (keyed key L))"
proof (induction "length L - k * per" arbitrary: k rule: less_induct)
  case less
  obtain rows where r: "fetch (Suc k) = Inr (rows, int (length L))" and rows: "rows = take per (drop (k * per) L)"
    using pages by (simp add: pages_through_def pageSlice_def slice_def)
  have split: "take (k * per) L @ take per (drop (k * per) L) = take (Suc k * per) L"
    by (metis add.commute mult_Suc take_add)
  have "distinct (map fst (keyed key (take (k * per) L)) @ map key (take per (drop (k * per) L)))"
  proof -
    have "map fst (keyed key (take (k * per) L)) @ map key (take per (drop (k * per) L)) =
        map key (take (Suc k * per) L)"
      unfolding split [symmetric] map_append by (simp add: comp_def)
    also have "\<dots> = take (Suc k * per) (map key L)" by (rule take_map [symmetric])
    finally show ?thesis using L by (simp only: distinct_take)
  qed
  then have found: "fold (\<lambda>a. map_set (key a) a) rows (keyed key (take (k * per) L)) =
      keyed key (take (Suc k * per) L)"
    unfolding rows split [symmetric] map_append by (rule fold_put_fresh)
  show ?case
  proof (cases "Suc k * per < length L")
    case True
    then have "scan_loop key fetch (Suc (Suc k)) (keyed key (take (Suc k * per) L)) = Some (Inr (keyed key L))"
      using less.hyps [of "Suc k"] per by simp
    moreover have "rows \<noteq> []" using True per by (simp add: rows)
    moreover have "int per + int k * int per < int (length L)"
      using True by (metis mult_Suc of_nat_add of_nat_less_iff of_nat_mult)
    ultimately show ?thesis
      using True by (subst scan_loop.simps) (simp add: r found Let_def)
  next
    case False
    then have "fold (\<lambda>a. map_set (key a) a) rows (keyed key (take (k * per) L)) = keyed key L"
      using found by simp
    then show ?thesis by (subst scan_loop.simps) (auto simp: r Let_def)
  qed
qed

lemma scan_loop_returns:
  assumes "k \<le> N" "case fetch N of Inl _ \<Rightarrow> True | Inr (rows, _) \<Rightarrow> rows = []"
  shows "\<exists>res. scan_loop key fetch k found = Some res"
  using assms
proof (induction "N - k" arbitrary: k found)
  case 0
  then show ?case by (subst scan_loop.simps) (auto split: sum.splits simp: Let_def)
next
  case (Suc n)
  then have "\<exists>res. scan_loop key fetch (k + 1) found' = Some res" for found' by auto
  then show ?case by (subst scan_loop.simps) (auto split: sum.splits prod.splits simp: Let_def)
qed

lemma scan_loop_repeats:
  "scan_loop key fetch k found = Some res \<Longrightarrow> \<forall>p. fetch p = Inr ([a], 2) \<Longrightarrow>
   found = [] \<or> found = [(key a, a)] \<Longrightarrow> False"
  by (induction key fetch k found res rule: scan_loop.raw_induct [rotated 1, consumes 1, case_names step])
    (auto simp: Let_def, blast+)

end
