(* ===== verification/Accounts.thy ===== *)
theory Accounts
  imports StatusText UrlParams Batches
begin

text \<open>
  The account list of pages/account-pages.tsx: the texts of a row, the validation of cookie
  files, the selection that survives paging, archiving in batches, the scan for invalid
  accounts, and the list of files of a bulk import. The gateway is a parameter of the
  operations that call it.
\<close>

section \<open>Texts of a row\<close>

definition MAX_BULK_COOKIE_FILES :: nat where "MAX_BULK_COOKIE_FILES = 50"
definition MAX_COOKIE_FILE_BYTES :: nat where "MAX_COOKIE_FILE_BYTES = 512 * 1024"
definition ARCHIVE_BATCH_SIZE :: nat where "ARCHIVE_BATCH_SIZE = 100"
definition COOKIE_IMPORT_CONCURRENCY :: nat where "COOKIE_IMPORT_CONCURRENCY = 4"

definition accountBalanceUnavailable :: "Account \<Rightarrow> bool" where
  "accountBalanceUnavailable account \<longleftrightarrow>
     acc_provider_id account = lit ''creativefabrica'' \<and> acc_status account = lit ''invalid''"

text \<open>\<open>/\.json$/i\<close> on code units: without the u flag only ASCII letters fold to ASCII.\<close>

definition ascii_lower :: "jchar \<Rightarrow> jchar" where
  "ascii_lower c = (if 65 \<le> c \<and> c \<le> 90 then c + 32 else c)"

definition drop_json_suffix :: "jstr \<Rightarrow> jstr" where
  "drop_json_suffix s =
     (if 5 \<le> length s \<and> map ascii_lower (drop (length s - 5) s) = lit ''.json''
      then take (length s - 5) s else s)"

definition accountNameFromFile :: "jstr \<Rightarrow> jstr" where
  "accountNameFromFile fileName =
     take 200 (or_str (trim (drop_json_suffix fileName)) (lit ''provider-account''))"

definition accountSessionExpiryText :: "(int \<Rightarrow> int) \<Rightarrow> int \<Rightarrow> Account \<Rightarrow> jstr" where
  "accountSessionExpiryText utc now account =
     sessionExpiryText utc now (acc_access_token_expires_at account)
       (if acc_provider_id account = lit ''adobe'' then lit ''AT''
        else if acc_provider_id account = lit ''creativefabrica'' then lit ''RPC'' else lit ''JWT'')"

definition accountCredentialText :: "Account \<Rightarrow> bool \<Rightarrow> jstr" where
  "accountCredentialText account short =
     (if acc_has_pending_cookie_json account then ulit ''%u5B8C%u6574 Cookie %u5F85%u9A8C%u8BC1''
      else if acc_has_complete_cookie_json account then
        (if acc_provider_id account = lit ''adobe'' then
           if short then ulit ''Cookie %u81EA%u52A8%u7EED%u671F'' else ulit ''%u5B8C%u6574 Cookie %u00B7 %u81EA%u52A8%u7EED%u671F''
         else if acc_provider_id account = lit ''creativefabrica'' then
           if short then ulit ''Cookie %u00B7 RPC %u81EA%u52A8%u7EED%u671F'' else ulit ''%u5B8C%u6574 Cookie %u00B7 RPC %u81EA%u52A8%u7EED%u671F''
         else if short then ulit ''%u5B8C%u6574 Cookie'' else ulit ''%u5B8C%u6574 Cookie %u5DF2%u4FDD%u5B58'')
      else if acc_has_login_credentials account then
        if short then ulit ''%u81EA%u52A8%u767B%u5F55'' else ulit ''%u81EA%u52A8%u767B%u5F55%u5DF2%u914D%u7F6E''
      else if acc_provider_id account = lit ''adobe'' then ulit ''%u4EC5 Access Token''
      else if acc_provider_id account = lit ''creativefabrica'' then ulit ''%u4EC5 RPC Token''
      else sessionRefreshText account)"

definition providerConcurrencyMaximum :: "jstr \<Rightarrow> int" where
  "providerConcurrencyMaximum providerID =
     (if providerID = lit ''adobe'' then 100 else if providerID = lit ''creativefabrica'' then 10 else 5)"

definition providerSupportsCookie :: "Provider \<Rightarrow> bool" where
  "providerSupportsCookie provider \<longleftrightarrow> prov_enabled provider \<and>
     prov_adapter_registered provider \<noteq> Some False \<and>
     str_includes (to_lower (prov_auth_type provider)) (lit ''cookie'')"

text \<open>What one row of the table shows, apart from its buttons and the status cell.\<close>

record AccountRow =
  row_selected :: bool
  row_name :: jstr
  row_role :: jstr
  row_email :: jstr
  row_plan :: jstr
  row_balance :: jstr
  row_book :: jstr
  row_reserved :: jstr
  row_unit :: jstr
  row_slots :: jstr
  row_queue :: jstr
  row_expiry :: jstr
  row_credential :: jstr

definition account_row ::
    "(rat \<Rightarrow> jstr) \<Rightarrow> (int \<Rightarrow> int) \<Rightarrow> int \<Rightarrow> CreditProvider list \<Rightarrow> (jstr, Account) jmap \<Rightarrow> Account \<Rightarrow> AccountRow" where
  "account_row loc utc now providers selectedAccounts a =
     \<lparr>row_selected = map_has selectedAccounts (acc_id a),
      row_name = acc_name a,
      row_role = (if acc_routing_role a = lit ''video_reserved''
        then ulit ''%u89C6%u9891%u4FDD%u7559 %u00B7 '' @ loc (of_int (acc_protected_tokens a))
        else ulit ''%u901A%u7528 %u00B7 '' @ take 8 (acc_id a)),
      row_email = or_str (acc_email a) (ulit ''%u672A%u586B%u5199%u90AE%u7BB1''),
      row_plan = or_str (acc_plan a) (ulit ''%u672A%u77E5''),
      row_balance = (if accountBalanceUnavailable a then ulit ''%u2014'' else loc (acc_available_tokens a)),
      row_book = (if accountBalanceUnavailable a then ulit ''%u4F59%u989D%u672A%u6838%u5B9E''
        else ulit ''%u8D26%u9762 '' @ loc (acc_subscription_tokens a + acc_rollover_tokens a + acc_paid_tokens a)),
      row_reserved = loc (acc_reserved_tokens a),
      row_unit = providerCreditUnit (acc_provider_id a) providers,
      row_slots = num_str (acc_active_reservations a) @ lit ''/'' @ num_str (acc_image_concurrency a),
      row_queue = num_str (acc_queued_tasks a) @ lit ''/'' @ num_str (acc_queue_capacity a),
      row_expiry = accountSessionExpiryText utc now a,
      row_credential = accountCredentialText a False\<rparr>"

section \<open>Filters in the address bar\<close>

definition filter_value :: "params \<Rightarrow> jstr \<Rightarrow> jstr" where
  "filter_value ps key = or_str (opt_str (param_get ps key)) (lit ''all'')"

text \<open>\<open>setAccountFilter\<close>: the new search parameters, and the page goes back to 1.\<close>

definition setAccountFilter :: "jstr \<Rightarrow> jstr \<Rightarrow> params \<times> nat \<Rightarrow> params \<times> nat" where
  "setAccountFilter key value st =
     ((if value = [] \<or> value = lit ''all'' then param_delete key (fst st) else param_set key value (fst st)), 1)"

definition clearFilters :: "params \<times> nat \<Rightarrow> params \<times> nat" where
  "clearFilters st = ([], 1)"

definition hasFilters :: "params \<Rightarrow> bool" where
  "hasFilters ps \<longleftrightarrow> opt_str (param_get ps (lit ''search'')) \<noteq> [] \<or> filter_value ps (lit ''status'') \<noteq> lit ''all'' \<or>
     filter_value ps (lit ''role'') \<noteq> lit ''all'' \<or> filter_value ps (lit ''provider'') \<noteq> lit ''all''"

text \<open>The query of the account list, for the current page and the filters that are not \<open>all\<close>.\<close>

definition accounts_query :: "nat \<Rightarrow> nat \<Rightarrow> params \<Rightarrow> params" where
  "accounts_query page pageSize ps =
     (let add = (\<lambda>key value q. if value \<noteq> lit ''all'' then param_set key value q else q);
          search = trim (opt_str (param_get ps (lit ''search'')));
          q0 = [(lit ''page'', num_str (int page)), (lit ''page_size'', num_str (int pageSize))];
          q1 = (if search \<noteq> [] then param_set (lit ''search'') search q0 else q0) in
      add (lit ''provider'') (filter_value ps (lit ''provider''))
        (add (lit ''role'') (filter_value ps (lit ''role''))
          (add (lit ''status'') (filter_value ps (lit ''status'')) q1)))"

section \<open>Cookie files\<close>

definition cookie_name :: "json \<Rightarrow> jstr" where
  "cookie_name cookie =
     (if \<not> truthy cookie \<or> \<not> is_object cookie then []
      else (case json_field cookie (lit ''name'') of
          Some (JStr name) \<Rightarrow> to_lower (trim name)
        | _ \<Rightarrow> []))"

definition strip_dot :: "jstr \<Rightarrow> jstr" where
  "strip_dot s = (case s of c # r \<Rightarrow> if c = 46 then r else s | [] \<Rightarrow> [])"

definition cookie_domain :: "json \<Rightarrow> jstr" where
  "cookie_domain cookie = (case json_field cookie (lit ''domain'') of
       Some (JStr d) \<Rightarrow> to_lower (strip_dot d) | _ \<Rightarrow> [])"

text \<open>\<open>new URL(text).hostname\<close> is the parameter \<open>hostname\<close>; it throws when it gives \<open>None\<close>.\<close>

definition cookie_host :: "(jstr \<Rightarrow> jstr option) \<Rightarrow> json \<Rightarrow> jstr" where
  "cookie_host hostname cookie = (case json_field cookie (lit ''url'') of
       Some (JStr u) \<Rightarrow> (case hostname u of Some h \<Rightarrow> to_lower h | None \<Rightarrow> [])
     | _ \<Rightarrow> [])"

definition under_domain :: "jstr \<Rightarrow> jstr \<Rightarrow> bool" where
  "under_domain domain value \<longleftrightarrow> value = domain \<or> ends_with value (lit ''.'' @ domain)"

definition platform_domains :: "jstr \<Rightarrow> jstr list" where
  "platform_domains providerID =
     (if providerID = lit ''adobe'' then [lit ''adobe.com'', lit ''adobelogin.com''] else [lit ''creativefabrica.com''])"

definition invalid_scope :: "(jstr \<Rightarrow> jstr option) \<Rightarrow> jstr \<Rightarrow> json \<Rightarrow> bool" where
  "invalid_scope hostname providerID cookie \<longleftrightarrow>
     \<not> (\<exists>value \<in> set [cookie_domain cookie, cookie_host hostname cookie].
          \<exists>domain \<in> set (platform_domains providerID). under_domain domain value)"

text \<open>The error text; the empty string accepts the file.\<close>

definition validateCookieJSON :: "(jstr \<Rightarrow> jstr option) \<Rightarrow> json \<Rightarrow> jstr \<Rightarrow> jstr" where
  "validateCookieJSON hostname value providerID =
     (case value of
        JArr cookies \<Rightarrow>
          (let maximum = (if providerID = lit ''leonardo'' then 64 else 128);
               minimum = (if providerID = lit ''leonardo'' then 2 else 1);
               names = map cookie_name cookies in
           if length cookies < minimum \<or> maximum < length cookies then
             ulit ''Cookie %u6570%u91CF%u5FC5%u987B%u5728 '' @ num_str (int minimum) @ ulit '' %u5230 '' @ num_str (int maximum) @ ulit '' %u6761%u4E4B%u95F4''
           else if \<exists>name \<in> set names. name = [] then ulit ''%u6BCF%u6761 Cookie %u90FD%u5FC5%u987B%u5305%u542B name''
           else if providerID = lit ''adobe'' \<or> providerID = lit ''creativefabrica'' then
             (if \<exists>cookie \<in> set cookies. invalid_scope hostname providerID cookie
              then (if providerID = lit ''adobe'' then lit ''Adobe'' else lit ''Creative Fabrica'') @ ulit '' Cookie %u6587%u4EF6%u5305%u542B%u975E%u5E73%u53F0%u57DF%u540D''
              else [])
           else if \<not> (\<exists>name \<in> set names. str_includes name (lit ''session_token'')) \<or>
                   \<not> (\<exists>name \<in> set names. str_includes name (lit ''session_data'')) then
             ulit ''%u7F3A%u5C11 Leonardo session_token %u6216 session_data''
           else [])
      | _ \<Rightarrow> ulit ''%u5FC5%u987B%u662F%u6D4F%u89C8%u5668%u5BFC%u51FA%u7684 Cookie JSON %u6570%u7EC4'')"

section \<open>The selection\<close>

type_synonym selection = "(jstr, Account) jmap"

definition toggleAccount :: "Account \<Rightarrow> bool \<Rightarrow> selection \<Rightarrow> selection" where
  "toggleAccount account checked sel =
     (if checked then map_set (acc_id account) account sel else map_delete (acc_id account) sel)"

definition togglePage :: "Account list \<Rightarrow> bool \<Rightarrow> selection \<Rightarrow> selection" where
  "togglePage filteredData checked sel = fold (\<lambda>account. toggleAccount account checked) filteredData sel"

definition pageSelected :: "Account list \<Rightarrow> selection \<Rightarrow> Account list" where
  "pageSelected filteredData sel = filter (\<lambda>account. map_has sel (acc_id account)) filteredData"

definition allPageSelected :: "Account list \<Rightarrow> selection \<Rightarrow> bool" where
  "allPageSelected filteredData sel \<longleftrightarrow>
     0 < length filteredData \<and> length (pageSelected filteredData sel) = length filteredData"

definition somePageSelected :: "Account list \<Rightarrow> selection \<Rightarrow> bool" where
  "somePageSelected filteredData sel \<longleftrightarrow>
     0 < length (pageSelected filteredData sel) \<and> \<not> allPageSelected filteredData sel"

section \<open>Archiving\<close>

definition chunkAccountIDs :: "jstr list \<Rightarrow> jstr list list" where
  "chunkAccountIDs ids = chunks ARCHIVE_BATCH_SIZE ids"

record ArchiveResult =
  ar_id :: jstr
  ar_archived :: bool
  ar_error_code :: "jstr option"
  ar_error_message :: "jstr option"

record ArchiveAccountsResponse =
  aar_archived :: int
  aar_failed :: int
  aar_results :: "ArchiveResult list"

record ArchiveBatchResponse = ArchiveAccountsResponse +
  abr_requestFailed :: int

text \<open>Adding an answer, or a batch whose request failed, to what was combined so far.\<close>

definition archive_merge :: "ArchiveAccountsResponse \<Rightarrow> ArchiveBatchResponse \<Rightarrow> ArchiveBatchResponse" where
  "archive_merge result combined =
     combined\<lparr>aar_archived := aar_archived combined + aar_archived result,
       aar_failed := aar_failed combined + aar_failed result,
       aar_results := aar_results combined @ aar_results result\<rparr>"

definition archive_miss :: "jstr list \<Rightarrow> ArchiveBatchResponse \<Rightarrow> ArchiveBatchResponse" where
  "archive_miss batch combined =
     combined\<lparr>aar_failed := aar_failed combined + int (length batch),
       abr_requestFailed := abr_requestFailed combined + int (length batch)\<rparr>"

definition archive ::
    "('s \<Rightarrow> jstr list \<Rightarrow> 's \<times> ArchiveAccountsResponse option) \<Rightarrow> jstr list \<Rightarrow> 's \<Rightarrow>
     's \<times> ArchiveBatchResponse" where
  "archive srv ids s = run_batches srv archive_merge archive_miss (chunkAccountIDs ids) s
     \<lparr>aar_archived = 0, aar_failed = 0, aar_results = [], abr_requestFailed = 0\<rparr>"

definition archived_selection :: "ArchiveBatchResponse \<Rightarrow> selection \<Rightarrow> selection" where
  "archived_selection result sel =
     fold (\<lambda>id. map_delete id)
       (dedup (map ar_id (filter ar_archived (aar_results result)))) sel"

definition archive_feedback :: "ArchiveBatchResponse \<Rightarrow> jstr" where
  "archive_feedback result =
     (if abr_requestFailed result \<noteq> 0 then
        ulit ''%u5DF2%u5F52%u6863 '' @ num_str (aar_archived result) @ ulit '' %u4E2A%u8D26%u53F7%uFF1B'' @ num_str (abr_requestFailed result) @
        ulit '' %u4E2A%u8D26%u53F7%u8BF7%u6C42%u5931%u8D25%uFF0C%u4ECD%u4FDD%u7559%u5728%u5F53%u524D%u9009%u62E9%u4E2D%uFF0C%u53EF%u7A0D%u540E%u91CD%u8BD5%u3002''
      else if aar_failed result \<noteq> 0 then
        ulit ''%u5DF2%u5F52%u6863 '' @ num_str (aar_archived result) @ ulit '' %u4E2A%u8D26%u53F7%uFF1B'' @ num_str (aar_failed result) @
        ulit '' %u4E2A%u8D26%u53F7%u4ECD%u6709%u4EFB%u52A1%u6216%u9884%u7559%uFF0C%u5DF2%u4FDD%u7559%u5728%u8D26%u53F7%u6C60%u3002''
      else ulit ''%u5DF2%u4ECE%u8FD0%u8425%u6C60%u5F52%u6863 '' @ num_str (aar_archived result) @ ulit '' %u4E2A%u8D26%u53F7%uFF0C%u5386%u53F2%u4EFB%u52A1%u4E0E%u8D26%u672C%u8BB0%u5F55%u4FDD%u6301%u4E0D%u53D8%u3002'')"

section \<open>The scan for invalid accounts\<close>

text \<open>
  \<open>fetch page\<close> is the gateway's answer for a page of invalid accounts, or the message of the Error the
  client throws.
\<close>

definition scan_pages ::
    "(nat \<Rightarrow> jstr + AccountsPage) \<Rightarrow> nat \<Rightarrow> selection \<Rightarrow> (jstr + selection) option" where
  "scan_pages fetch currentPage invalidAccounts =
     scan_loop acc_id (\<lambda>page. map_sum id (\<lambda>result. (acp_data result, acp_total result)) (fetch page))
       currentPage invalidAccounts"

record ScanOutcome =
  scan_selected :: "selection option"
  scan_open :: bool
  scan_feedback :: jstr
  scan_error :: jstr

definition scanInvalidAccounts :: "(nat \<Rightarrow> jstr + AccountsPage) \<Rightarrow> ScanOutcome option" where
  "scanInvalidAccounts fetch = map_option (\<lambda>r. case r of
       Inl message \<Rightarrow>
         \<lparr>scan_selected = None, scan_open = False, scan_feedback = [], scan_error = message\<rparr>
     | Inr found \<Rightarrow>
         if found = [] then
           \<lparr>scan_selected = None, scan_open = False,
            scan_feedback = ulit ''%u5F53%u524D%u6CA1%u6709%u51ED%u8BC1%u5931%u6548%u8D26%u53F7%uFF0C%u65E0%u9700%u6E05%u7406%u3002'', scan_error = []\<rparr>
         else \<lparr>scan_selected = Some found, scan_open = True, scan_feedback = [], scan_error = []\<rparr>)
     (scan_pages fetch 1 [])"

section \<open>Lemmas\<close>

abbreviation entries :: "Account list \<Rightarrow> selection" where
  "entries \<equiv> keyed acc_id"

lemma togglePage_True: "togglePage d True sel = fold (\<lambda>a. map_set (acc_id a) a) d sel"
  and togglePage_False: "togglePage d False sel = fold (\<lambda>a. map_delete (acc_id a)) d sel"
  by (simp_all add: togglePage_def toggleAccount_def [abs_def])

text \<open>A gateway that pages through a list of accounts.\<close>

definition pages_of :: "Account list \<Rightarrow> (nat \<Rightarrow> jstr + AccountsPage) \<Rightarrow> bool" where
  "pages_of L fetch \<longleftrightarrow> (\<forall>p \<ge> 1. \<exists>r. fetch p = Inr r \<and> acp_data r = pageSlice p ARCHIVE_BATCH_SIZE L \<and>
     acp_total r = int (length L))"

lemma pages_of_through:
  "pages_of L fetch \<Longrightarrow>
    pages_through 100 L (\<lambda>page. map_sum id (\<lambda>result. (acp_data result, acp_total result)) (fetch page))"
  by (force simp: pages_of_def pages_through_def ARCHIVE_BATCH_SIZE_def)

section \<open>Properties\<close>

text \<open>A cookie file is accepted exactly when it is an array of the allowed length in which every
  cookie has a name that is not blank and, for Adobe and Creative Fabrica, every cookie's domain or
  the host of its URL is one of the platform's domains or a subdomain of one; for any other
  provider some name contains \<open>session_token\<close> and some name contains \<open>session_data\<close>.\<close>

theorem cookie_file_accepted_iff:
  "validateCookieJSON hostname parsed providerID = [] \<longleftrightarrow>
   (\<exists>cookies. parsed = JArr cookies \<and>
      (if providerID = lit ''leonardo'' then 2 \<le> length cookies \<and> length cookies \<le> 64
       else 1 \<le> length cookies \<and> length cookies \<le> 128) \<and>
      (\<forall>c \<in> set cookies. cookie_name c \<noteq> []) \<and>
      (if providerID = lit ''adobe'' \<or> providerID = lit ''creativefabrica'' then
         (\<forall>c \<in> set cookies. \<exists>d \<in> set (platform_domains providerID). \<exists>sub.
           cookie_domain c = d \<or> cookie_domain c = sub @ lit ''.'' @ d \<or>
           cookie_host hostname c = d \<or> cookie_host hostname c = sub @ lit ''.'' @ d)
       else (\<exists>c \<in> set cookies. \<exists>a b. cookie_name c = a @ lit ''session_token'' @ b) \<and>
            (\<exists>c \<in> set cookies. \<exists>a b. cookie_name c = a @ lit ''session_data'' @ b)))"
proof (cases parsed)
  case (JArr cookies)
  let ?platform = "providerID = lit ''adobe'' \<or> providerID = lit ''creativefabrica''"
  have scope: "(\<exists>c \<in> set cookies. invalid_scope hostname providerID c) \<longleftrightarrow>
    \<not> (\<forall>c \<in> set cookies. \<exists>d \<in> set (platform_domains providerID). \<exists>sub.
           cookie_domain c = d \<or> cookie_domain c = sub @ lit ''.'' @ d \<or>
           cookie_host hostname c = d \<or> cookie_host hostname c = sub @ lit ''.'' @ d)"
    by (auto simp: invalid_scope_def under_domain_def ends_with_iff)
  have "validateCookieJSON hostname parsed providerID = [] \<longleftrightarrow>
    (if providerID = lit ''leonardo'' then 2 \<le> length cookies \<and> length cookies \<le> 64
       else 1 \<le> length cookies \<and> length cookies \<le> 128) \<and>
    \<not> (\<exists>c \<in> set cookies. cookie_name c = []) \<and>
    (if ?platform then \<not> (\<exists>c \<in> set cookies. invalid_scope hostname providerID c)
     else (\<exists>c \<in> set cookies. str_includes (cookie_name c) (lit ''session_token'')) \<and>
          (\<exists>c \<in> set cookies. str_includes (cookie_name c) (lit ''session_data'')))"
    unfolding JArr validateCookieJSON_def json.case Let_def set_map bex_simps(7)
    by (simp only: if_split [of "\<lambda>x. x = []"]) (simp add: not_less cong: conj_cong)
  then show ?thesis
    unfolding scope str_includes_iff by (simp add: JArr)
qed (simp_all add: validateCookieJSON_def)

text \<open>Archiving sends every selected id exactly once, in order, in requests of at most 100.\<close>

theorem archive_batches_cover:
  "concat (chunkAccountIDs ids) = ids \<and>
   (\<forall>batch \<in> set (chunkAccountIDs ids). batch \<noteq> [] \<and> length batch \<le> 100) \<and>
   length (chunkAccountIDs ids) = (length ids + 99) div 100"
  using chunks_bounds [of 100 _ ids] length_chunks [of 100 ids]
  by (auto simp: chunkAccountIDs_def ARCHIVE_BATCH_SIZE_def concat_chunks)

theorem archive_batches_cover_witness:
  "length (chunkAccountIDs (replicate 250 (lit ''x''))) = 3"
  using archive_batches_cover [of "replicate 250 (lit ''x'')"] by simp

lemma cookie_example:
  "validateCookieJSON (\<lambda>_. None)
     (JArr [JObj [(lit ''name'', JStr (lit ''ims_sid'')), (lit ''domain'', JStr (lit ''.Auth.Services.Adobe.com''))]]) (lit ''adobe'') = []"
  by code_simp

theorem cookie_file_accepted_iff_witness:
  "validateCookieJSON (\<lambda>_. None) (JArr []) (lit ''adobe'') \<noteq> [] \<and>
   validateCookieJSON (\<lambda>_. None)
     (JArr [JObj [(lit ''name'', JStr (lit ''ims_sid'')), (lit ''domain'', JStr (lit ''.Auth.Services.Adobe.com''))]]) (lit ''adobe'') = []"
  using cookie_file_accepted_iff [of "\<lambda>_. None" "JArr []" "lit ''adobe''"] cookie_example by simp

interpretation archiving: batch_report archive_merge archive_miss ar_id ar_archived
  aar_archived aar_failed aar_results aar_archived aar_failed abr_requestFailed aar_results
  by unfold_locales (simp_all add: archive_merge_def archive_miss_def)

text \<open>When the gateway accounts for every id of the batches it answers, archiving accounts for
  every selected account: the archived and the failed add up to the selection, failed requests are
  among the failed, only selected ids are reported, and the accounts reported as archived are the
  ones counted.\<close>

theorem archive_accounts_for_selection:
  assumes "archiving.accounts_for srv" "archive srv ids s = (s', r)"
  shows "aar_archived r + aar_failed r = int (length ids) \<and> abr_requestFailed r \<le> aar_failed r \<and>
    set (map ar_id (aar_results r)) \<subseteq> set ids \<and>
    aar_archived r = int (length (filter ar_archived (aar_results r)))"
proof -
  have "archiving.reports r ([] @ concat (chunkAccountIDs ids))"
    by (rule archiving.run_reports [OF assms(1) _ assms(2) [unfolded archive_def]])
      (simp add: archiving.reports_def)
  then show ?thesis
    by (simp add: archiving.reports_def chunkAccountIDs_def ARCHIVE_BATCH_SIZE_def concat_chunks)
qed

definition sample_gateway :: "nat \<Rightarrow> jstr list \<Rightarrow> nat \<times> ArchiveAccountsResponse option" where
  "sample_gateway n batch = (n + 1, if n = 1 then None else
     Some \<lparr>aar_archived = int (length batch), aar_failed = 0,
           aar_results = map (\<lambda>i. \<lparr>ar_id = i, ar_archived = True, ar_error_code = None,
             ar_error_message = None\<rparr>) batch\<rparr>)"

theorem archive_accounts_for_selection_witness:
  "\<exists>s' r. archive sample_gateway (replicate 250 (lit ''x'')) 0 = (s', r) \<and>
     aar_archived r + aar_failed r = 250"
proof -
  have "archiving.accounts_for sample_gateway"
    by (auto simp: archiving.accounts_for_def sample_gateway_def comp_def split: if_splits)
  moreover obtain s' r where "archive sample_gateway (replicate 250 (lit ''x'')) 0 = (s', r)" by force
  ultimately show ?thesis using archive_accounts_for_selection [of sample_gateway] by fastforce
qed

text \<open>After archiving, exactly the accounts reported as archived have left the selection: every
  other account stays selected, in its place.\<close>

theorem archived_leave_selection:
  "map_keys (archived_selection r sel) =
     filter (\<lambda>i. \<not> (\<exists>x \<in> set (aar_results r). ar_archived x \<and> ar_id x = i)) (map_keys sel) \<and>
   map_of (archived_selection r sel) i =
     (if \<exists>x \<in> set (aar_results r). ar_archived x \<and> ar_id x = i then None else map_of sel i)"
  unfolding archived_selection_def
  using jmap.ks_fold_del [of "\<lambda>x. x" "dedup (map ar_id (filter ar_archived (aar_results r)))" sel]
    jmap.look_fold_del [of "\<lambda>x. x" "dedup (map ar_id (filter ar_archived (aar_results r)))" sel i]
  by (auto simp: image_iff intro!: filter_cong)

text \<open>Ticking the page box selects every account of the page (so that the box is shown ticked,
  unless the page is empty), clearing it deselects them all, and neither touches the accounts
  selected on other pages; the selection never holds an account twice.\<close>

theorem togglePage_selects_page:
  assumes "jmap_ok sel"
  shows "jmap_ok (togglePage d checked sel) \<and>
    (allPageSelected d (togglePage d True sel) \<longleftrightarrow> d \<noteq> []) \<and>
    pageSelected d (togglePage d False sel) = [] \<and>
    (i \<notin> acc_id ` set d \<longrightarrow> map_of (togglePage d checked sel) i = map_of sel i)"
proof -
  have keys: "map_has (togglePage d True sel) j \<longleftrightarrow> map_has sel j \<or> j \<in> acc_id ` set d" for j
    using jmap.ks_fold_put [of acc_id "\<lambda>a. a" d sel] by (auto simp: togglePage_True map_has_def)
  have "pageSelected d (togglePage d True sel) = d"
    by (simp add: pageSelected_def keys filter_id_conv)
  then have "allPageSelected d (togglePage d True sel) \<longleftrightarrow> d \<noteq> []" by (simp add: allPageSelected_def)
  moreover have "pageSelected d (togglePage d False sel) = []"
    using jmap.look_fold_del [of acc_id d sel]
    by (auto simp: pageSelected_def filter_empty_conv map_has_iff togglePage_False)
  moreover have "jmap_ok (togglePage d checked sel)"
    using jmap.ok_fold_put [OF assms, of acc_id "\<lambda>a. a" d] jmap.ok_fold_del [OF assms, of acc_id d]
    by (cases checked) (simp_all add: togglePage_True togglePage_False)
  moreover have "map_of (togglePage d checked sel) i = map_of sel i" if "i \<notin> acc_id ` set d"
    using that jmap.look_fold_put_other [OF that, of "\<lambda>a. a" sel] jmap.look_fold_del [of acc_id d sel i]
    by (cases checked) (simp_all add: togglePage_True togglePage_False)
  ultimately show ?thesis by blast
qed

theorem togglePage_selects_page_witness: "jmap_ok (togglePage [] True [])"
proof -
  have "jmap_ok ([] :: selection)" by (rule jmap.ok_empty)
  then show ?thesis using togglePage_selects_page by blast
qed

text \<open>When the gateway pages through a fixed list of invalid accounts, the scan finds them all,
  in order, and opens the archive dialog with them, or reports that there is none.\<close>

theorem scan_finds_all_invalid:
  assumes "distinct (map acc_id L)" "pages_of L fetch"
  shows "scanInvalidAccounts fetch = Some (if L = []
     then \<lparr>scan_selected = None, scan_open = False,
           scan_feedback = ulit ''%u5F53%u524D%u6CA1%u6709%u51ED%u8BC1%u5931%u6548%u8D26%u53F7%uFF0C%u65E0%u9700%u6E05%u7406%u3002'', scan_error = []\<rparr>
     else \<lparr>scan_selected = Some (entries L), scan_open = True, scan_feedback = [], scan_error = []\<rparr>)"
  using scan_loop_all [OF assms(1) pages_of_through [OF assms(2)], of 0]
  by (simp add: scanInvalidAccounts_def scan_pages_def)

theorem scan_finds_all_invalid_witness:
  "\<exists>st. scanInvalidAccounts (\<lambda>p. Inr \<lparr>acp_data = [], acp_total = 0, acp_page = 1, acp_page_size = 100\<rparr>)
     = Some st \<and> scan_selected st = None"
proof -
  have "pages_of [] (\<lambda>p. Inr \<lparr>acp_data = [], acp_total = 0, acp_page = 1, acp_page_size = 100\<rparr>)"
    by (simp add: pages_of_def pageSlice_def slice_def)
  then show ?thesis using scan_finds_all_invalid [of "[]"] by simp
qed



text \<open>Setting a filter is read back from the address bar, changes no other filter, and returns
  to the first page; clearing leaves none.\<close>

theorem account_filter_roundtrip:
  "filter_value (fst (setAccountFilter key v st)) k =
     (if k = key then or_str v (lit ''all'') else filter_value (fst st) k) \<and>
   snd (setAccountFilter key v st) = 1 \<and> \<not> hasFilters (fst (clearFilters st))"
  by (auto simp: setAccountFilter_def filter_value_def param_get_set param_get_delete or_str_def
      clearFilters_def hasFilters_def) (simp_all add: param_get_def)

end
