(* ===== verification/BulkImport.thy ===== *)
theory BulkImport
  imports Accounts
begin

text \<open>
  The bulk import of cookie files of pages/account-pages.tsx: the list of files, filled by
  asynchronous parses, and the pool of at most four workers that sends them.
\<close>

section \<open>The list of files\<close>

datatype ImportStatus = ImportReady | ImportInvalid | ImportImporting | ImportSubmitted | ImportFailed

record BulkCookieImportItem =
  bi_id :: jstr
  bi_fileName :: jstr
  bi_name :: jstr
  bi_cookieJSON :: "json option"
  bi_status :: ImportStatus
  bi_error :: jstr

text \<open>A chosen file: its name, size, and what \<open>JSON.parse\<close> makes of its text, if it does.\<close>

record CookieFile =
  cf_name :: jstr
  cf_size :: nat
  cf_parsed :: "json option"

definition parse_file :: "(jstr \<Rightarrow> jstr option) \<Rightarrow> jstr \<Rightarrow> jstr \<Rightarrow> CookieFile \<Rightarrow> BulkCookieImportItem" where
  "parse_file hostname provider uid f =
     (let item = (\<lambda>json st err. \<lparr>bi_id = uid, bi_fileName = cf_name f,
            bi_name = accountNameFromFile (cf_name f), bi_cookieJSON = json, bi_status = st, bi_error = err\<rparr>) in
      if MAX_COOKIE_FILE_BYTES < cf_size f then item None ImportInvalid (ulit ''%u6587%u4EF6%u8D85%u8FC7 512 KB'')
      else (case cf_parsed f of
          None \<Rightarrow> item None ImportInvalid (ulit ''%u6587%u4EF6%u4E0D%u662F%u6709%u6548 JSON'')
        | Some cookieJSON \<Rightarrow>
            let err = validateCookieJSON hostname cookieJSON provider in
            if err \<noteq> [] then item None ImportInvalid err else item (Some cookieJSON) ImportReady []))"

record ImportConfig =
  ic_imageConcurrency :: rat
  ic_queueCapacity :: rat
  ic_workerGroup :: jstr

record BulkImport =
  bk_provider :: jstr
  bk_items :: "BulkCookieImportItem list"
  bk_parses :: "BulkCookieImportItem list list"
  bk_summary :: jstr
  bk_config :: ImportConfig

text \<open>
  What the dialog can do while no import runs. A drop reads the number of files listed when it
  happens; its files join the list only when they are all parsed, in the next \<open>ParsesDone\<close>.
  Every file gets a fresh id.
\<close>

datatype bulk_event =
  DropFiles "(jstr \<times> CookieFile) list"
| ParsesDone
| ChooseImportProvider jstr
| RenameItem jstr jstr
| RemoveItem jstr

definition limit_concurrency :: "jstr \<Rightarrow> ImportConfig \<Rightarrow> ImportConfig" where
  "limit_concurrency provider c = c\<lparr>ic_imageConcurrency :=
     min (of_int (providerConcurrencyMaximum provider))
       (if ic_imageConcurrency c = 0 then 5 else ic_imageConcurrency c)\<rparr>"

fun bulk_step :: "(jstr \<Rightarrow> jstr option) \<Rightarrow> BulkImport \<Rightarrow> bulk_event \<Rightarrow> BulkImport" where
  "bulk_step hostname st (DropFiles files) =
     (let remaining = MAX_BULK_COOKIE_FILES - length (bk_items st) in
      st\<lparr>bk_summary := (if remaining < length files
           then ulit ''%u5355%u6B21%u6700%u591A%u5BFC%u5165 50 %u4E2A%u6587%u4EF6%uFF0C%u8D85%u51FA%u7684%u6587%u4EF6%u672A%u52A0%u5165%u3002'' else []),
         bk_parses := bk_parses st @
           [map (\<lambda>(uid, f). parse_file hostname (bk_provider st) uid f) (take remaining files)]\<rparr>)"
| "bulk_step hostname st ParsesDone =
     (case bk_parses st of
        [] \<Rightarrow> st
      | parsed # rest \<Rightarrow> st\<lparr>bk_items := bk_items st @ parsed, bk_parses := rest\<rparr>)"
| "bulk_step hostname st (ChooseImportProvider provider) =
     st\<lparr>bk_provider := provider, bk_items := [], bk_summary := [],
        bk_config := limit_concurrency provider (bk_config st)\<rparr>"
| "bulk_step hostname st (RenameItem uid name) =
     st\<lparr>bk_items := map (\<lambda>entry. if bi_id entry = uid then entry\<lparr>bi_name := name,
          bi_error := (if bi_status entry = ImportFailed then [] else bi_error entry)\<rparr> else entry)
        (bk_items st)\<rparr>"
| "bulk_step hostname st (RemoveItem uid) =
     st\<lparr>bk_items := filter (\<lambda>entry. bi_id entry \<noteq> uid) (bk_items st)\<rparr>"

text \<open>\<open>openBulkImport\<close>: the provider of the filter, else the last one, else the first that works.\<close>

definition openBulkImport :: "jstr list \<Rightarrow> jstr \<Rightarrow> BulkImport \<Rightarrow> BulkImport" where
  "openBulkImport availableIDs providerFilter st =
     (let nextProvider = (if providerFilter \<in> set availableIDs then providerFilter
            else if bk_provider st \<in> set availableIDs then bk_provider st
            else (case availableIDs of [] \<Rightarrow> lit ''leonardo'' | i # _ \<Rightarrow> or_str i (lit ''leonardo''))) in
      st\<lparr>bk_provider := nextProvider, bk_config := limit_concurrency nextProvider (bk_config st),
         bk_items := [], bk_summary := []\<rparr>)"

text \<open>\<open>/^[A-Za-z0-9._-]{1,100}$/\<close>.\<close>

definition worker_group_char :: "jchar \<Rightarrow> bool" where
  "worker_group_char c \<longleftrightarrow> (65 \<le> c \<and> c \<le> 90) \<or> (97 \<le> c \<and> c \<le> 122) \<or> (48 \<le> c \<and> c \<le> 57) \<or>
     c = 46 \<or> c = 95 \<or> c = 45"

definition worker_group_ok :: "jstr \<Rightarrow> bool" where
  "worker_group_ok s \<longleftrightarrow> 1 \<le> length s \<and> length s \<le> 100 \<and> (\<forall>c \<in> set s. worker_group_char c)"

definition bulkImportConfigValid :: "BulkImport \<Rightarrow> bool" where
  "bulkImportConfigValid st \<longleftrightarrow>
     1 \<le> ic_imageConcurrency (bk_config st) \<and>
     ic_imageConcurrency (bk_config st) \<le> of_int (providerConcurrencyMaximum (bk_provider st)) \<and>
     1 \<le> ic_queueCapacity (bk_config st) \<and> ic_queueCapacity (bk_config st) \<le> 1000 \<and>
     (bk_provider st \<noteq> lit ''leonardo'' \<or> worker_group_ok (trim (ic_workerGroup (bk_config st))))"

definition importable :: "BulkCookieImportItem \<Rightarrow> bool" where
  "importable item \<longleftrightarrow> (bi_status item = ImportReady \<or> bi_status item = ImportFailed) \<and>
     (case bi_cookieJSON item of None \<Rightarrow> False | Some j \<Rightarrow> truthy j) \<and> trim (bi_name item) \<noteq> []"

definition importableCount :: "BulkImport \<Rightarrow> nat" where
  "importableCount st = length (filter importable (bk_items st))"

text \<open>The body of the request for one item.\<close>

definition import_body :: "BulkImport \<Rightarrow> BulkCookieImportItem \<Rightarrow> (jstr \<times> json) list" where
  "import_body st item =
     [(lit ''provider_id'', JStr (bk_provider st)), (lit ''name'', JStr (trim (bi_name item))),
      (lit ''email'', JStr []), (lit ''password'', JStr []),
      (lit ''cookie_json'', nullish (bi_cookieJSON item) JNull), (lit ''proxy_url'', JStr []),
      (lit ''image_concurrency'', JNum (ic_imageConcurrency (bk_config st))),
      (lit ''queue_capacity'', JNum (ic_queueCapacity (bk_config st))),
      (lit ''routing_role'', JStr (lit ''general'')), (lit ''protected_tokens'', JNum 0),
      (lit ''video_reserved_slots'', JNum 0)] @
     (if bk_provider st = lit ''leonardo''
      then [(lit ''browser_worker_group'', JStr (trim (ic_workerGroup (bk_config st))))] else [])"

section \<open>The pool of workers\<close>

text \<open>
  \<open>pendingItems\<close> is fixed when the import starts. A worker takes the next index, marks its item
  and sends it; when the answer arrives it marks the item again and takes the next index at
  once. Every worker waits for one answer, so the workers that have not ended are the requests
  in flight.
\<close>

record pool =
  pl_next :: nat
  pl_flight :: "nat list"
  pl_sent :: "nat list"
  pl_succeeded :: nat
  pl_failed :: nat
  pl_items :: "BulkCookieImportItem list"

definition mark :: "jstr \<Rightarrow> ImportStatus \<Rightarrow> jstr \<Rightarrow> BulkCookieImportItem list \<Rightarrow> BulkCookieImportItem list" where
  "mark uid st err items = map (\<lambda>entry. if bi_id entry = uid
     then entry\<lparr>bi_status := st, bi_error := err\<rparr> else entry) items"

definition take_next :: "BulkCookieImportItem list \<Rightarrow> pool \<Rightarrow> pool" where
  "take_next pending s =
     (if pl_next s < length pending then
        s\<lparr>pl_next := pl_next s + 1, pl_flight := pl_flight s @ [pl_next s],
          pl_sent := pl_sent s @ [pl_next s],
          pl_items := mark (bi_id (pending ! pl_next s)) ImportImporting [] (pl_items s)\<rparr>
      else s)"

text \<open>The answer to the request for an index: accepted, or rejected with a message.\<close>

definition answer :: "BulkCookieImportItem list \<Rightarrow> nat \<Rightarrow> jstr option \<Rightarrow> pool \<Rightarrow> pool" where
  "answer pending i err s =
     take_next pending
       (case err of
          None \<Rightarrow> s\<lparr>pl_flight := filter (\<lambda>j. j \<noteq> i) (pl_flight s), pl_succeeded := pl_succeeded s + 1,
             pl_items := mark (bi_id (pending ! i)) ImportSubmitted [] (pl_items s)\<rparr>
        | Some message \<Rightarrow> s\<lparr>pl_flight := filter (\<lambda>j. j \<noteq> i) (pl_flight s), pl_failed := pl_failed s + 1,
             pl_items := mark (bi_id (pending ! i)) ImportFailed message (pl_items s)\<rparr>)"

definition start_pool :: "BulkCookieImportItem list \<Rightarrow> pool" where
  "start_pool items =
     (let pending = filter importable items in
      (take_next pending ^^ min COOKIE_IMPORT_CONCURRENCY (length pending))
        \<lparr>pl_next = 0, pl_flight = [], pl_sent = [], pl_succeeded = 0, pl_failed = 0, pl_items = items\<rparr>)"

inductive pool_step :: "BulkCookieImportItem list \<Rightarrow> pool \<Rightarrow> pool \<Rightarrow> bool" for pending where
  answered: "i \<in> set (pl_flight s) \<Longrightarrow> pool_step pending s (answer pending i err s)"

inductive_cases pool_stepE: "pool_step pending s t"

definition import_summary :: "pool \<Rightarrow> jstr" where
  "import_summary s =
     (if pl_failed s \<noteq> 0
      then ulit ''%u5DF2%u5BFC%u5165 '' @ num_str (int (pl_succeeded s)) @ ulit '' %u4E2A%u8D26%u53F7%uFF0C'' @ num_str (int (pl_failed s)) @ ulit '' %u4E2A%u5931%u8D25%u3002''
      else ulit ''%u5DF2%u5BFC%u5165 '' @ num_str (int (pl_succeeded s)) @ ulit '' %u4E2A%u8D26%u53F7%u3002'')"

section \<open>The invariant of the pool\<close>

definition item_status :: "pool \<Rightarrow> jstr \<Rightarrow> ImportStatus option" where
  "item_status s uid = map_option bi_status (find (\<lambda>e. bi_id e = uid) (pl_items s))"

definition status_ok :: "BulkCookieImportItem list \<Rightarrow> pool \<Rightarrow> nat \<Rightarrow> bool" where
  "status_ok pending s i \<longleftrightarrow> item_status s (bi_id (pending ! i)) \<in>
     (if i \<in> set (pl_flight s) then {Some ImportImporting}
      else if i < pl_next s then {Some ImportSubmitted, Some ImportFailed}
      else {Some (bi_status (pending ! i))})"

text \<open>After \<open>k\<close> answers: \<open>k\<close> requests are answered, the others sent are in flight, and each
  item's status says which it is.\<close>

definition pool_inv :: "BulkCookieImportItem list \<Rightarrow> nat \<Rightarrow> pool \<Rightarrow> bool" where
  "pool_inv pending k s \<longleftrightarrow>
     pl_sent s = [0..<pl_next s] \<and> pl_next s \<le> length pending \<and>
     distinct (pl_flight s) \<and> set (pl_flight s) \<subseteq> {..<pl_next s} \<and>
     length (pl_flight s) + k = pl_next s \<and> pl_succeeded s + pl_failed s = k \<and>
     (\<forall>i < length pending. status_ok pending s i)"

lemma item_status_mark:
  "map_option bi_status (find (\<lambda>e. bi_id e = uid) (mark v st err items)) =
     (if uid = v then map_option (\<lambda>_. st) (find (\<lambda>e. bi_id e = uid) items)
      else map_option bi_status (find (\<lambda>e. bi_id e = uid) items))"
  by (induction items) (auto simp: mark_def)

lemma item_status_update:
  "item_status (s\<lparr>pl_items := mark v st err (pl_items s)\<rparr>) uid =
     (if uid = v then map_option (\<lambda>_. st) (item_status s uid) else item_status s uid)"
  by (simp add: item_status_def item_status_mark option.map_comp comp_def)

lemma item_status_more:
  "item_status (s\<lparr>pl_next := n, pl_flight := f, pl_sent := l\<rparr>) uid = item_status s uid"
  "item_status (s\<lparr>pl_flight := f, pl_succeeded := m\<rparr>) uid = item_status s uid"
  "item_status (s\<lparr>pl_flight := f, pl_failed := m\<rparr>) uid = item_status s uid"
  by (simp_all add: item_status_def)

lemma status_ok_Some: "status_ok pending s i \<Longrightarrow> \<exists>st. item_status s (bi_id (pending ! i)) = Some st"
  by (auto simp: status_ok_def split: if_splits)

lemma take_next_inv:
  assumes inv: "pool_inv pending k s" and ids: "distinct (map bi_id pending)"
  shows "pool_inv pending k (take_next pending s)"
proof (cases "pl_next s < length pending")
  case True
  let ?n = "pl_next s" and ?t = "take_next pending s"
  have flight: "pl_flight ?t = pl_flight s @ [?n]" "pl_next ?t = ?n + 1"
    using True by (simp_all add: take_next_def)
  have status: "item_status ?t u = (if u = bi_id (pending ! ?n)
      then map_option (\<lambda>_. ImportImporting) (item_status s u) else item_status s u)" for u
    using True by (simp add: take_next_def item_status_def item_status_mark option.map_comp comp_def)
  have "status_ok pending ?t i" if i: "i < length pending" for i
  proof (cases "i = ?n")
    case True
    then show ?thesis
      using inv i status_ok_Some [of pending s ?n] by (auto simp: status_ok_def flight status pool_inv_def)
  next
    case False
    then have "bi_id (pending ! i) \<noteq> bi_id (pending ! ?n)"
      using ids i True by (metis length_map nth_eq_iff_index_eq nth_map)
    moreover have "status_ok pending s i" using inv i by (simp add: pool_inv_def)
    ultimately show ?thesis
      using False by (auto simp: status_ok_def flight status less_Suc_eq split: if_splits)
  qed
  moreover have "?n \<notin> set (pl_flight s)" using inv by (auto simp: pool_inv_def)
  ultimately show ?thesis
    using inv True by (auto simp: pool_inv_def take_next_def less_Suc_eq)
qed (use inv in \<open>simp add: take_next_def\<close>)

text \<open>The state between the answer and taking the next index.\<close>

definition settle :: "BulkCookieImportItem list \<Rightarrow> nat \<Rightarrow> jstr option \<Rightarrow> pool \<Rightarrow> pool" where
  "settle pending i err s = (case err of
      None \<Rightarrow> s\<lparr>pl_flight := filter (\<lambda>j. j \<noteq> i) (pl_flight s), pl_succeeded := pl_succeeded s + 1,
         pl_items := mark (bi_id (pending ! i)) ImportSubmitted [] (pl_items s)\<rparr>
    | Some message \<Rightarrow> s\<lparr>pl_flight := filter (\<lambda>j. j \<noteq> i) (pl_flight s), pl_failed := pl_failed s + 1,
         pl_items := mark (bi_id (pending ! i)) ImportFailed message (pl_items s)\<rparr>)"

lemma answer_settle: "answer pending i err s = take_next pending (settle pending i err s)"
  by (simp add: answer_def settle_def)

lemma settle_inv:
  assumes inv: "pool_inv pending k s" and ids: "distinct (map bi_id pending)"
    and i: "i \<in> set (pl_flight s)"
  shows "pool_inv pending (Suc k) (settle pending i err s)"
proof -
  let ?t = "settle pending i err s"
  define st where "st = (if err = None then ImportSubmitted else ImportFailed)"
  have flight: "pl_flight ?t = filter (\<lambda>j. j \<noteq> i) (pl_flight s)" "pl_next ?t = pl_next s"
    "pl_sent ?t = pl_sent s" "pl_succeeded ?t + pl_failed ?t = Suc (pl_succeeded s + pl_failed s)"
    by (simp_all add: settle_def split: option.split)
  have status: "item_status ?t u = (if u = bi_id (pending ! i)
      then map_option (\<lambda>_. st) (item_status s u) else item_status s u)" for u
    by (simp add: settle_def st_def item_status_def item_status_mark option.map_comp comp_def
        split: option.split)
  have i': "i < pl_next s" "i < length pending" using inv i by (auto simp: pool_inv_def)
  have "status_ok pending ?t j" if j: "j < length pending" for j
  proof (cases "j = i")
    case True
    then show ?thesis
      using inv j i' status_ok_Some [of pending s i]
      by (auto simp: status_ok_def flight status pool_inv_def st_def)
  next
    case False
    then have "bi_id (pending ! j) \<noteq> bi_id (pending ! i)"
      using ids j i' by (metis length_map nth_eq_iff_index_eq nth_map)
    moreover have "status_ok pending s j" using inv j by (simp add: pool_inv_def)
    ultimately show ?thesis using False by (auto simp: status_ok_def flight status)
  qed
  moreover have "Suc (length (filter (\<lambda>j. j \<noteq> i) (pl_flight s))) = length (pl_flight s)"
  proof -
    have "filter (\<lambda>j. j \<noteq> i) (pl_flight s) = remove1 i (pl_flight s)"
      using inv by (auto simp: pool_inv_def distinct_remove1_removeAll removeAll_filter_not_eq
          intro: filter_cong)
    with i show ?thesis by (simp add: length_remove1) (metis Suc_pred length_pos_if_in_set)
  qed
  ultimately show ?thesis
    using inv unfolding pool_inv_def flight by auto
qed

lemma flight_take_next: "length (pl_flight (take_next pending s)) \<le> Suc (length (pl_flight s))"
  by (simp add: take_next_def)

text \<open>How far the pool has come after \<open>k\<close> answers: four requests ahead, or at the end.\<close>

definition pool_at :: "BulkCookieImportItem list \<Rightarrow> nat \<Rightarrow> pool \<Rightarrow> bool" where
  "pool_at pending k s \<longleftrightarrow> pool_inv pending k s \<and>
     pl_next s = min (length pending) (COOKIE_IMPORT_CONCURRENCY + k)"

lemma pl_next_take_next:
  "pl_next u \<le> length pending \<Longrightarrow> pl_next (take_next pending u) = min (length pending) (Suc (pl_next u))"
  by (simp add: take_next_def)

lemma pool_at_step:
  assumes "pool_at pending k s" "distinct (map bi_id pending)" "pool_step pending s t"
  shows "pool_at pending (Suc k) t"
proof -
  from assms(3) obtain i err where i: "i \<in> set (pl_flight s)" and t: "t = answer pending i err s"
    by (auto elim: pool_stepE)
  have "pl_next (settle pending i err s) = pl_next s" by (simp add: settle_def split: option.split)
  moreover have "pl_next s \<le> length pending" using assms(1) by (simp add: pool_at_def pool_inv_def)
  ultimately have "pl_next t = min (length pending) (COOKIE_IMPORT_CONCURRENCY + Suc k)"
    using assms(1) by (simp add: t answer_settle pool_at_def pl_next_take_next)
  moreover have "pool_inv pending (Suc k) t"
    using take_next_inv [OF settle_inv [OF _ assms(2) i] assms(2)] assms(1)
    by (simp add: t answer_settle pool_at_def)
  ultimately show ?thesis by (simp add: pool_at_def)
qed

lemma start_pool_at:
  assumes ids: "distinct (map bi_id items)"
  defines "pending \<equiv> filter importable items"
  shows "pool_at pending 0 (start_pool items)"
proof -
  let ?s = "\<lparr>pl_next = 0, pl_flight = [], pl_sent = [], pl_succeeded = 0, pl_failed = 0, pl_items = items\<rparr>"
  have pids: "distinct (map bi_id pending)" using ids by (simp add: pending_def distinct_map_filter)
  have "status_ok pending ?s i" if "i < length pending" for i
  proof -
    have "pending ! i \<in> set items" using nth_mem [OF that] by (simp add: pending_def)
    then show ?thesis using find_value [OF ids] by (simp add: status_ok_def item_status_def)
  qed
  then have start: "pool_inv pending 0 ?s" by (simp add: pool_inv_def)
  have "pool_inv pending 0 ((take_next pending ^^ m) ?s) \<and>
      pl_next ((take_next pending ^^ m) ?s) = min (length pending) m" for m
  proof (induction m)
    case (Suc m)
    then show ?case
      using take_next_inv [OF _ pids] pl_next_take_next [of "(take_next pending ^^ m) ?s" pending] by simp
  qed (use start in simp)
  then show ?thesis by (simp add: pool_at_def start_pool_def Let_def pending_def [symmetric])
qed

lemma pool_reaches:
  assumes "distinct (map bi_id items)"
  shows "(pool_step (filter importable items) ^^ k) (start_pool items) s \<Longrightarrow>
    pool_at (filter importable items) k s"
proof (induction k arbitrary: s)
  case (Suc k)
  then obtain t where "(pool_step (filter importable items) ^^ k) (start_pool items) t"
    "pool_step (filter importable items) t s" by auto
  then show ?case using pool_at_step [OF Suc.IH distinct_map_filter [OF assms]] by blast
qed (use start_pool_at [OF assms] in simp)

lemma pool_step_iff: "(\<exists>t. pool_step pending s t) \<longleftrightarrow> pl_flight s \<noteq> []"
proof
  assume "pl_flight s \<noteq> []"
  then have "hd (pl_flight s) \<in> set (pl_flight s)" by simp
  from pool_step.answered [OF this] show "\<exists>t. pool_step pending s t" by blast
qed (auto elim: pool_stepE)

section \<open>Properties\<close>

text \<open>C5: After any \<open>k\<close> answers, in whatever order they come, the import has sent the first items
  in order, each once, and no more than four are in flight; the counters add up to the answers;
  and the import goes on exactly until every pending item is answered, so that it ends after as
  many answers as there are pending items.\<close>

theorem import_pool_exactly_once:
  assumes "distinct (map bi_id items)" "n = length (filter importable items)"
    and "(pool_step (filter importable items) ^^ k) (start_pool items) s"
  shows "pl_sent s = [0..<min n (4 + k)] \<and> length (pl_flight s) \<le> 4 \<and>
    pl_succeeded s + pl_failed s = k \<and> k \<le> n \<and>
    ((\<exists>t. pool_step (filter importable items) s t) \<longleftrightarrow> k < n)"
proof -
  have at: "pool_inv (filter importable items) k s" "pl_next s = min n (4 + k)"
    using pool_reaches [OF assms(1,3)] assms(2) by (auto simp: pool_at_def COOKIE_IMPORT_CONCURRENCY_def)
  then have inv: "pl_sent s = [0..<pl_next s]" "length (pl_flight s) + k = pl_next s"
    "pl_succeeded s + pl_failed s = k" by (simp_all add: pool_inv_def)
  have le: "k \<le> pl_next s" "pl_next s \<le> n" using inv(2) at(2) by auto
  have go: "(\<exists>t. pool_step (filter importable items) s t) \<longleftrightarrow> k < n"
  proof -
    have "length (pl_flight s) = min n (4 + k) - k" using inv(2) at(2) by simp
    then show ?thesis by (simp only: pool_step_iff length_greater_0_conv [symmetric]) auto
  qed
  show ?thesis
  proof (intro conjI)
    show "pl_sent s = [0..<min n (4 + k)]" using inv(1) at(2) by simp
    show "length (pl_flight s) \<le> 4" using inv(2) at(2) by (simp add: min_def split: if_splits)
    show "k \<le> n" using le by simp
  qed (fact inv(3) go)+
qed

text \<open>When the import has ended, every pending item is shown as submitted or as failed.\<close>

theorem import_pool_settles_items:
  assumes "distinct (map bi_id items)" "item \<in> set (filter importable items)"
    and "(pool_step (filter importable items) ^^ k) (start_pool items) s"
    and "\<not> (\<exists>t. pool_step (filter importable items) s t)"
  shows "item_status s (bi_id item) \<in> {Some ImportSubmitted, Some ImportFailed}"
proof -
  have "pool_at (filter importable items) k s" by (rule pool_reaches [OF assms(1,3)])
  then have inv: "pool_inv (filter importable items) k s"
    "pl_next s = min (length (filter importable items)) (4 + k)"
    by (auto simp: pool_at_def COOKIE_IMPORT_CONCURRENCY_def)
  have flight: "pl_flight s = []"
    using assms(4) by (simp add: pool_step_iff)
  with inv have "pl_next s = k" by (simp add: pool_inv_def)
  with inv have all: "pl_next s = length (filter importable items)" by auto
  obtain i where "i < length (filter importable items)" "item = filter importable items ! i"
    using assms(2) by (metis in_set_conv_nth)
  with inv(1) all flight show ?thesis by (auto simp: pool_inv_def status_ok_def)
qed

definition sample_item :: "string \<Rightarrow> BulkCookieImportItem" where
  "sample_item uid = \<lparr>bi_id = lit uid, bi_fileName = [], bi_name = lit ''a'',
     bi_cookieJSON = Some (JArr []), bi_status = ImportReady, bi_error = []\<rparr>"

definition sample_items :: "BulkCookieImportItem list" where
  "sample_items = [sample_item ''1'', sample_item ''2'']"

definition sample_end :: pool where
  "sample_end = answer sample_items 1 (Some (lit ''no'')) (answer sample_items 0 None (start_pool sample_items))"

lemma sample_run:
  "distinct (map bi_id sample_items)" "filter importable sample_items = sample_items"
  "(pool_step sample_items ^^ 2) (start_pool sample_items) sample_end"
  "pl_flight sample_end = []"
proof -
  show "distinct (map bi_id sample_items)" by (simp add: sample_items_def sample_item_def)
  show "filter importable sample_items = sample_items" by code_simp
  have "pl_flight (start_pool sample_items) = [0, 1]"
    "pl_flight (answer sample_items 0 None (start_pool sample_items)) = [1]" by code_simp+
  then have "pool_step sample_items (start_pool sample_items) (answer sample_items 0 None (start_pool sample_items))"
    "pool_step sample_items (answer sample_items 0 None (start_pool sample_items)) sample_end"
    unfolding sample_end_def by (auto intro: pool_step.answered)
  then show "(pool_step sample_items ^^ 2) (start_pool sample_items) sample_end"
    by (auto simp: numeral_2_eq_2)
  show "pl_flight sample_end = []" by code_simp
qed

theorem import_pool_exactly_once_witness:
  "pl_sent sample_end = [0, 1] \<and> pl_succeeded sample_end + pl_failed sample_end = 2"
proof -
  have "pl_sent sample_end = [0..<min (length sample_items) (4 + 2)] \<and>
      pl_succeeded sample_end + pl_failed sample_end = 2"
    using import_pool_exactly_once [OF sample_run(1) refl, of 2 sample_end] sample_run(2,3) by simp
  then show ?thesis by (simp add: sample_items_def upt_rec)
qed

theorem import_pool_settles_items_witness:
  "item_status sample_end (lit ''2'') \<in> {Some ImportSubmitted, Some ImportFailed}"
proof -
  have "sample_item ''2'' \<in> set (filter importable sample_items)"
    using sample_run(2) by (simp add: sample_items_def)
  moreover have "\<not> (\<exists>t. pool_step sample_items sample_end t)"
    using sample_run(4) by (simp add: pool_step_iff)
  ultimately show ?thesis
    using import_pool_settles_items [OF sample_run(1), of "sample_item ''2''" 2 sample_end] sample_run(2,3)
    by (simp add: sample_item_def)
qed

text \<open>The list is within its limit, and its ready items passed the provider's validation.\<close>

definition items_valid :: "(jstr \<Rightarrow> jstr option) \<Rightarrow> BulkImport \<Rightarrow> bool" where
  "items_valid hostname st \<longleftrightarrow> length (bk_items st) \<le> 50 \<and>
     (\<forall>item \<in> set (bk_items st). bi_status item = ImportReady \<longrightarrow>
        (\<exists>j. bi_cookieJSON item = Some j \<and> validateCookieJSON hostname j (bk_provider st) = []))"

lemma parse_file_ready:
  "bi_status (parse_file hostname provider uid f) = ImportReady \<longleftrightarrow>
     cf_size f \<le> 524288 \<and> (\<exists>j. cf_parsed f = Some j \<and> validateCookieJSON hostname j provider = [])"
  "bi_status (parse_file hostname provider uid f) = ImportReady \<Longrightarrow>
     bi_cookieJSON (parse_file hostname provider uid f) = cf_parsed f"
  by (auto simp: parse_file_def Let_def MAX_COOKIE_FILE_BYTES_def split: option.splits if_splits)

text \<open>As long as no files are dropped while others are still being parsed, the list of a bulk
  import never holds more than 50 files, and every item ready to be sent holds a cookie file that
  the chosen provider's validation accepts: every action of the dialog keeps both.\<close>

theorem bulk_list_keeps_valid:
  assumes "items_valid hostname st" "bk_parses st = []"
  shows "items_valid hostname (bulk_step hostname (bulk_step hostname st (DropFiles files)) ParsesDone) \<and>
    bk_parses (bulk_step hostname (bulk_step hostname st (DropFiles files)) ParsesDone) = [] \<and>
    items_valid hostname (bulk_step hostname st (ChooseImportProvider p)) \<and>
    items_valid hostname (bulk_step hostname st (RenameItem uid name)) \<and>
    items_valid hostname (bulk_step hostname st (RemoveItem uid))"
proof (intro conjI)
  show "items_valid hostname (bulk_step hostname (bulk_step hostname st (DropFiles files)) ParsesDone)"
    using assms parse_file_ready [of hostname "bk_provider st"]
    by (fastforce simp: items_valid_def Let_def MAX_BULK_COOKIE_FILES_def dest: in_set_takeD)
  show "items_valid hostname (bulk_step hostname st (RemoveItem uid))"
    using assms(1) by (auto simp: items_valid_def intro: order_trans [OF length_filter_le])
qed (use assms in \<open>auto simp: items_valid_def Let_def\<close>)

theorem bulk_list_keeps_valid_witness:
  "items_valid (\<lambda>_. None) (bulk_step (\<lambda>_. None)
     \<lparr>bk_provider = lit ''adobe'', bk_items = [], bk_parses = [], bk_summary = [],
      bk_config = \<lparr>ic_imageConcurrency = 5, ic_queueCapacity = 40, ic_workerGroup = []\<rparr>\<rparr>
     (ChooseImportProvider (lit ''leonardo'')))"
proof -
  let ?st = "\<lparr>bk_provider = lit ''adobe'', bk_items = [], bk_parses = [], bk_summary = [],
      bk_config = \<lparr>ic_imageConcurrency = 5, ic_queueCapacity = 40, ic_workerGroup = []\<rparr>\<rparr>"
  have "items_valid (\<lambda>_. None) ?st" "bk_parses ?st = []" by (simp_all add: items_valid_def)
  then show ?thesis using bulk_list_keeps_valid by blast
qed

text \<open>C38: Files dropped while others are still being parsed break both: two overlapping drops of 50
  files leave 100 in the list, and a file dropped before the provider is changed arrives in the
  list of the new provider, ready to be sent, without having passed its validation.\<close>

theorem overlapping_drops_break_list:
  assumes "bk_items st = []" "bk_parses st = []" "length files = 50"
    and "cf_size f \<le> 524288" "cf_parsed f = Some j"
    and "validateCookieJSON hostname j (bk_provider st) = []"
  shows "length (bk_items (foldl (bulk_step hostname) st
      [DropFiles files, DropFiles files, ParsesDone, ParsesDone])) = 100 \<and>
    (\<exists>item. bk_items (foldl (bulk_step hostname) st
        [DropFiles [(uid, f)], ChooseImportProvider p, ParsesDone]) = [item] \<and>
      bi_status item = ImportReady \<and> bi_cookieJSON item = Some j)"
  using assms parse_file_ready [of hostname "bk_provider st" uid f]
  by (auto simp: Let_def MAX_BULK_COOKIE_FILES_def)

definition race_json :: json where
  "race_json = JArr [JObj [(lit ''name'', JStr (lit ''ims_sid'')), (lit ''domain'', JStr (lit ''.Auth.Services.Adobe.com''))]]"

definition race_file :: CookieFile where
  "race_file = \<lparr>cf_name = [], cf_size = 9, cf_parsed = Some race_json\<rparr>"

definition race_start :: BulkImport where
  "race_start = \<lparr>bk_provider = lit ''adobe'', bk_items = [], bk_parses = [], bk_summary = [],
     bk_config = \<lparr>ic_imageConcurrency = 5, ic_queueCapacity = 40, ic_workerGroup = []\<rparr>\<rparr>"

lemma race_facts:
  "bk_items race_start = []" "bk_parses race_start = []" "cf_size race_file \<le> 524288"
  "cf_parsed race_file = Some race_json"
  "validateCookieJSON (\<lambda>_. None) race_json (bk_provider race_start) = []"
  "validateCookieJSON (\<lambda>_. None) race_json (lit ''leonardo'') \<noteq> []"
  using cookie_example by (simp_all add: race_start_def race_file_def race_json_def validateCookieJSON_def)

theorem overlapping_drops_break_list_witness:
  "\<exists>item. bk_items (foldl (bulk_step (\<lambda>_. None)) race_start
       [DropFiles [([], race_file)], ChooseImportProvider (lit ''leonardo''), ParsesDone]) = [item] \<and>
     bi_status item = ImportReady \<and> bi_cookieJSON item = Some race_json \<and>
     validateCookieJSON (\<lambda>_. None) race_json (lit ''leonardo'') \<noteq> []"
proof -
  have "length (replicate 50 ([], race_file)) = 50" by simp
  from overlapping_drops_break_list [OF race_facts(1,2) this race_facts(3-5)] race_facts(6)
  show ?thesis by blast
qed

end
