(* ===== verification/AccountForm.thy ===== *)
theory AccountForm
  imports BulkImport
begin

text \<open>
  The dialog that adds or edits an account (AccountDialog of pages/account-pages.tsx): its form,
  every control that changes it, when it can be submitted, and the request it sends.
\<close>

datatype AccountAuthMethod = CompleteCookie | CompleteCookiePassword | AccessToken | EmailPassword

record AccountForm =
  af_provider_id :: jstr
  af_name :: jstr
  af_email :: jstr
  af_password :: jstr
  af_otp :: jstr
  af_access_token :: jstr
  af_cookie_json :: json
  af_cookie_file_name :: jstr
  af_proxy_url :: jstr
  af_image_concurrency :: rat
  af_queue_capacity :: rat
  af_routing_role :: jstr
  af_protected_tokens :: rat
  af_video_reserved_slots :: rat
  af_browser_worker_group :: jstr
  af_auth_method :: AccountAuthMethod

text \<open>\<open>n || d\<close> on numbers.\<close>

definition or_num :: "rat \<Rightarrow> rat \<Rightarrow> rat" where
  "or_num n d = (if n = 0 then d else n)"

definition initial_form :: "Account option \<Rightarrow> AccountForm" where
  "initial_form account =
     (case account of
        None \<Rightarrow>
          \<lparr>af_provider_id = lit ''leonardo'', af_name = [], af_email = [], af_password = [], af_otp = [],
           af_access_token = [], af_cookie_json = JNull, af_cookie_file_name = [], af_proxy_url = [],
           af_image_concurrency = 5, af_queue_capacity = 40, af_routing_role = lit ''general'',
           af_protected_tokens = 0, af_video_reserved_slots = 0, af_browser_worker_group = lit ''default'',
           af_auth_method = CompleteCookie\<rparr>
      | Some a \<Rightarrow>
          \<lparr>af_provider_id = or_str (acc_provider_id a) (lit ''leonardo''), af_name = acc_name a,
           af_email = acc_email a, af_password = [], af_otp = [], af_access_token = [],
           af_cookie_json = JNull, af_cookie_file_name = [], af_proxy_url = acc_proxy_url a,
           af_image_concurrency = or_num (of_int (acc_image_concurrency a)) 5,
           af_queue_capacity = or_num (of_int (acc_queue_capacity a)) 40,
           af_routing_role = or_str (acc_routing_role a) (lit ''general''),
           af_protected_tokens = of_int (acc_protected_tokens a),
           af_video_reserved_slots = of_int (acc_video_reserved_slots a),
           af_browser_worker_group = or_str (acc_browser_worker_group a) (lit ''default''),
           af_auth_method = (if acc_provider_id a = lit ''adobe'' then AccessToken
             else if acc_has_login_credentials a then CompleteCookiePassword else CompleteCookie)\<rparr>)"

definition concurrencyMaximum :: "Account option \<Rightarrow> AccountForm \<Rightarrow> rat" where
  "concurrencyMaximum account v = of_int (providerConcurrencyMaximum
     (case account of None \<Rightarrow> af_provider_id v | Some a \<Rightarrow> or_str (acc_provider_id a) (af_provider_id v)))"

definition isCookieMethod :: "AccountForm \<Rightarrow> bool" where
  "isCookieMethod v \<longleftrightarrow> af_auth_method v = CompleteCookie \<or> af_auth_method v = CompleteCookiePassword"

definition isPasswordMethod :: "AccountForm \<Rightarrow> bool" where
  "isPasswordMethod v \<longleftrightarrow> af_provider_id v = lit ''creativefabrica'' \<and> af_auth_method v = EmailPassword"

definition requiresPassword :: "Account option \<Rightarrow> AccountForm \<Rightarrow> bool" where
  "requiresPassword account v \<longleftrightarrow> account = None \<and>
     ((af_provider_id v = lit ''leonardo'' \<and> af_auth_method v = CompleteCookiePassword) \<or>
      (af_provider_id v = lit ''creativefabrica'' \<and>
        (af_auth_method v = CompleteCookiePassword \<or> af_auth_method v = EmailPassword)))"

definition authLabel :: "jstr \<Rightarrow> jstr" where
  "authLabel authType =
     (if authType = lit ''browser_session'' then ulit ''%u5B8C%u6574 Cookie''
      else if str_includes authType (lit ''cookie'') then ulit ''Cookie %u4F1A%u8BDD''
      else if authType = lit ''api_key'' then lit ''API Key''
      else if authType = lit ''oauth'' then lit ''OAuth'' else ulit ''%u72EC%u7ACB%u51ED%u636E'')"

definition creditLabel :: "jstr \<Rightarrow> jstr" where
  "creditLabel creditUnit =
     (if creditUnit = lit ''credits'' \<or> creditUnit = lit ''tokens'' then ulit ''%u5E73%u53F0%u79EF%u5206''
      else or_str creditUnit (ulit ''%u72EC%u7ACB%u79EF%u5206''))"

section \<open>The request\<close>

definition capacity_fields :: "AccountForm \<Rightarrow> (jstr \<times> json) list" where
  "capacity_fields v =
     [(lit ''proxy_url'', JStr (trim (af_proxy_url v))),
      (lit ''image_concurrency'', JNum (af_image_concurrency v)),
      (lit ''queue_capacity'', JNum (af_queue_capacity v)),
      (lit ''routing_role'', JStr (af_routing_role v)),
      (lit ''protected_tokens'', JNum (af_protected_tokens v)),
      (lit ''video_reserved_slots'', JNum (af_video_reserved_slots v)),
      (lit ''browser_worker_group'', JStr (trim (af_browser_worker_group v)))]"

definition request_body :: "Account option \<Rightarrow> AccountForm \<Rightarrow> (jstr \<times> json) list" where
  "request_body account v =
     (case account of
        Some _ \<Rightarrow>
          [(lit ''name'', JStr (trim (af_name v))), (lit ''email'', JStr (trim (af_email v)))] @
          (if af_password v \<noteq> [] then [(lit ''password'', JStr (af_password v))] else []) @
          capacity_fields v
      | None \<Rightarrow>
          [(lit ''provider_id'', JStr (af_provider_id v)), (lit ''name'', JStr (trim (af_name v))),
           (lit ''email'', JStr (trim (af_email v)))] @
          (if (af_provider_id v = lit ''leonardo'' \<or> af_provider_id v = lit ''creativefabrica'') \<and> af_password v \<noteq> []
           then [(lit ''password'', JStr (af_password v))] else []) @
          (if af_provider_id v = lit ''creativefabrica'' \<and> trim (af_otp v) \<noteq> []
           then [(lit ''otp'', JStr (trim (af_otp v)))] else []) @
          (if af_provider_id v = lit ''adobe'' \<and> af_auth_method v = AccessToken
           then [(lit ''access_token'', JStr (trim (af_access_token v)))]
           else if isCookieMethod v then [(lit ''cookie_json'', af_cookie_json v)] else []) @
          capacity_fields v)"

text \<open>\<open>selected\<close> is whether the chosen provider is in the list the gateway sent.\<close>

definition canSubmit :: "Account option \<Rightarrow> bool \<Rightarrow> AccountForm \<Rightarrow> bool" where
  "canSubmit account selected v \<longleftrightarrow>
     (account \<noteq> None \<or> selected) \<and>
     trim (af_name v) \<noteq> [] \<and>
     (account \<noteq> None \<or>
       (if af_provider_id v = lit ''adobe'' \<and> af_auth_method v = AccessToken then trim (af_access_token v) \<noteq> []
        else if isCookieMethod v then truthy (af_cookie_json v) else True)) \<and>
     (\<not> requiresPassword account v \<or> (trim (af_email v) \<noteq> [] \<and> af_password v \<noteq> [])) \<and>
     (af_password v = [] \<or> trim (af_email v) \<noteq> []) \<and>
     (af_provider_id v \<noteq> lit ''leonardo'' \<or> worker_group_ok (trim (af_browser_worker_group v))) \<and>
     1 \<le> af_image_concurrency v \<and> af_image_concurrency v \<le> concurrencyMaximum account v \<and>
     1 \<le> af_queue_capacity v \<and> af_queue_capacity v \<le> 1000 \<and>
     0 \<le> af_protected_tokens v \<and> 0 \<le> af_video_reserved_slots v \<and>
     af_video_reserved_slots v \<le> af_image_concurrency v"

section \<open>The controls\<close>

definition setConcurrency :: "Account option \<Rightarrow> rat \<Rightarrow> AccountForm \<Rightarrow> AccountForm" where
  "setConcurrency account next v =
     (let concurrency = min (concurrencyMaximum account v) (max 1 next) in
      v\<lparr>af_image_concurrency := concurrency,
        af_video_reserved_slots := min (af_video_reserved_slots v) concurrency\<rparr>)"

definition setQueueCapacity :: "rat \<Rightarrow> AccountForm \<Rightarrow> AccountForm" where
  "setQueueCapacity next v = v\<lparr>af_queue_capacity := min 1000 (max 1 next)\<rparr>"

definition setRoutingRole :: "bool \<Rightarrow> AccountForm \<Rightarrow> AccountForm" where
  "setRoutingRole reserved v =
     v\<lparr>af_routing_role := (if reserved then lit ''video_reserved'' else lit ''general''),
       af_protected_tokens := (if reserved then max (af_protected_tokens v) 6804 else 0),
       af_video_reserved_slots := (if reserved then max (af_video_reserved_slots v) 1 else 0),
       af_queue_capacity := (if reserved then min (af_queue_capacity v) 20 else max (af_queue_capacity v) 40)\<rparr>"

definition chooseProvider :: "jstr \<Rightarrow> AccountForm \<Rightarrow> AccountForm" where
  "chooseProvider provider v =
     v\<lparr>af_provider_id := provider,
       af_auth_method := (if provider = lit ''adobe'' then AccessToken else CompleteCookie),
       af_access_token := [], af_otp := [], af_password := [], af_cookie_json := JNull,
       af_cookie_file_name := [],
       af_image_concurrency := of_int (providerConcurrencyMaximum provider)\<rparr>"

text \<open>The buttons of the three providers' authentication sections.\<close>

definition chooseAuth :: "AccountAuthMethod \<Rightarrow> AccountForm \<Rightarrow> AccountForm" where
  "chooseAuth method v =
     (if af_provider_id v = lit ''leonardo'' then
        (case method of
           CompleteCookie \<Rightarrow> v\<lparr>af_auth_method := CompleteCookie, af_password := []\<rparr>
         | CompleteCookiePassword \<Rightarrow> v\<lparr>af_auth_method := CompleteCookiePassword\<rparr>
         | _ \<Rightarrow> v)
      else if af_provider_id v = lit ''adobe'' then
        (case method of
           AccessToken \<Rightarrow> v\<lparr>af_auth_method := AccessToken, af_cookie_json := JNull, af_cookie_file_name := []\<rparr>
         | CompleteCookie \<Rightarrow> v\<lparr>af_auth_method := CompleteCookie, af_access_token := []\<rparr>
         | _ \<Rightarrow> v)
      else if af_provider_id v = lit ''creativefabrica'' then
        (case method of
           CompleteCookie \<Rightarrow> v\<lparr>af_auth_method := CompleteCookie, af_password := [], af_otp := []\<rparr>
         | CompleteCookiePassword \<Rightarrow> v\<lparr>af_auth_method := CompleteCookiePassword, af_otp := []\<rparr>
         | EmailPassword \<Rightarrow> v\<lparr>af_auth_method := EmailPassword, af_cookie_json := JNull,
             af_cookie_file_name := [], af_access_token := []\<rparr>
         | _ \<Rightarrow> v)
      else v)"

text \<open>
  The controls a new account's form offers; fields that are not shown cannot be typed into. A
  number input gives \<open>Number(text) || 0\<close> or \<open>|| 1\<close>.
\<close>

datatype form_event =
  ChooseProvider jstr
| ChooseAuth AccountAuthMethod
| TypeName jstr | TypeEmail jstr | TypePassword jstr | TypeOtp jstr | TypeToken jstr
| ChooseRole bool
| TypeProtected rat
| TypeReserved rat | FewerReserved | MoreReserved
| TypeConcurrency rat | FewerConcurrency | MoreConcurrency
| TypeQueue rat | FewerQueue | MoreQueue
| TypeProxy jstr | TypeWorkerGroup jstr

fun form_step :: "AccountForm \<Rightarrow> form_event \<Rightarrow> AccountForm" where
  "form_step v (ChooseProvider provider) = chooseProvider provider v"
| "form_step v (ChooseAuth method) = chooseAuth method v"
| "form_step v (TypeName s) = v\<lparr>af_name := s\<rparr>"
| "form_step v (TypeEmail s) = v\<lparr>af_email := s\<rparr>"
| "form_step v (TypePassword s) = (if requiresPassword None v then v\<lparr>af_password := s\<rparr> else v)"
| "form_step v (TypeOtp s) = (if isPasswordMethod v then v\<lparr>af_otp := s\<rparr> else v)"
| "form_step v (TypeToken s) =
     (if af_provider_id v = lit ''adobe'' \<and> af_auth_method v = AccessToken then v\<lparr>af_access_token := s\<rparr> else v)"
| "form_step v (ChooseRole reserved) = setRoutingRole reserved v"
| "form_step v (TypeProtected n) = v\<lparr>af_protected_tokens := max 0 n\<rparr>"
| "form_step v (TypeReserved n) =
     v\<lparr>af_video_reserved_slots := min (af_image_concurrency v) (max 0 n)\<rparr>"
| "form_step v FewerReserved =
     (if af_video_reserved_slots v \<le> 0 then v
      else v\<lparr>af_video_reserved_slots := max 0 (af_video_reserved_slots v - 1)\<rparr>)"
| "form_step v MoreReserved =
     (if af_image_concurrency v \<le> af_video_reserved_slots v then v
      else v\<lparr>af_video_reserved_slots := min (af_image_concurrency v) (af_video_reserved_slots v + 1)\<rparr>)"
| "form_step v (TypeConcurrency n) = setConcurrency None (or_num n 1) v"
| "form_step v FewerConcurrency =
     (if af_image_concurrency v \<le> 1 then v else setConcurrency None (af_image_concurrency v - 1) v)"
| "form_step v MoreConcurrency =
     (if concurrencyMaximum None v \<le> af_image_concurrency v then v
      else setConcurrency None (af_image_concurrency v + 1) v)"
| "form_step v (TypeQueue n) = setQueueCapacity (or_num n 1) v"
| "form_step v FewerQueue =
     (if af_queue_capacity v \<le> 1 then v else setQueueCapacity (af_queue_capacity v - 1) v)"
| "form_step v MoreQueue =
     (if 1000 \<le> af_queue_capacity v then v else setQueueCapacity (af_queue_capacity v + 1) v)"
| "form_step v (TypeProxy s) = v\<lparr>af_proxy_url := s\<rparr>"
| "form_step v (TypeWorkerGroup s) = v\<lparr>af_browser_worker_group := s\<rparr>"

section \<open>Invariants\<close>

text \<open>
  \<open>caps_ok\<close>: the capacities but one are in range. \<open>creds_ok\<close>: secrets that belong to another
  provider or method have been cleared.
\<close>

definition caps_ok :: "AccountForm \<Rightarrow> bool" where
  "caps_ok v \<longleftrightarrow> 1 \<le> af_image_concurrency v \<and> af_image_concurrency v \<le> concurrencyMaximum None v \<and>
     1 \<le> af_queue_capacity v \<and> af_queue_capacity v \<le> 1000 \<and> 0 \<le> af_protected_tokens v \<and>
     0 \<le> af_video_reserved_slots v"

definition creds_ok :: "AccountForm \<Rightarrow> bool" where
  "creds_ok v \<longleftrightarrow>
     (af_password v \<noteq> [] \<longrightarrow> requiresPassword None v) \<and>
     (af_otp v \<noteq> [] \<longrightarrow> isPasswordMethod v) \<and>
     (af_access_token v \<noteq> [] \<longrightarrow> af_provider_id v = lit ''adobe'' \<and> af_auth_method v = AccessToken) \<and>
     (af_cookie_json v \<noteq> JNull \<longrightarrow> isCookieMethod v) \<and>
     (af_auth_method v = AccessToken \<longrightarrow> af_provider_id v = lit ''adobe'') \<and>
     (af_auth_method v = EmailPassword \<longrightarrow> af_provider_id v = lit ''creativefabrica'')"

lemma concurrencyMaximum_pos: "1 \<le> concurrencyMaximum account v"
  by (simp add: concurrencyMaximum_def providerConcurrencyMaximum_def)

lemma concurrencyMaximum_None: "concurrencyMaximum None v = of_int (providerConcurrencyMaximum (af_provider_id v))"
  by (simp add: concurrencyMaximum_def)

lemma providerConcurrencyMaximum_pos: "1 \<le> providerConcurrencyMaximum p"
  by (simp add: providerConcurrencyMaximum_def)

lemma chooseAuth_caps:
  "af_image_concurrency (chooseAuth m v) = af_image_concurrency v"
  "af_queue_capacity (chooseAuth m v) = af_queue_capacity v"
  "af_protected_tokens (chooseAuth m v) = af_protected_tokens v"
  "af_video_reserved_slots (chooseAuth m v) = af_video_reserved_slots v"
  "af_provider_id (chooseAuth m v) = af_provider_id v"
  by (cases m; simp add: chooseAuth_def)+

lemma of_int_max_pos: "1 \<le> (of_int (providerConcurrencyMaximum p) :: rat)"
  using providerConcurrencyMaximum_pos [of p] by simp

lemmas form_controls = setConcurrency_def setQueueCapacity_def setRoutingRole_def chooseProvider_def
  concurrencyMaximum_None chooseAuth_caps Let_def

lemma caps_ok_step: "caps_ok v \<Longrightarrow> caps_ok (form_step v e)"
  by (cases e) (auto simp: form_controls caps_ok_def providerConcurrencyMaximum_pos split: option.splits)

lemma slots_step:
  assumes "caps_ok v" "af_video_reserved_slots v \<le> af_image_concurrency v" "\<And>p. e \<noteq> ChooseProvider p"
  shows "af_video_reserved_slots (form_step v e) \<le> af_image_concurrency (form_step v e)"
  using assms by (cases e) (auto simp: form_controls caps_ok_def split: option.splits)

lemmas cred_simps = creds_ok_def requiresPassword_def isPasswordMethod_def isCookieMethod_def

lemma creds_ok_capacities:
  "creds_ok (v\<lparr>af_image_concurrency := c\<rparr>) = creds_ok v"
  "creds_ok (v\<lparr>af_queue_capacity := q\<rparr>) = creds_ok v"
  "creds_ok (v\<lparr>af_routing_role := s\<rparr>) = creds_ok v"
  "creds_ok (v\<lparr>af_protected_tokens := p\<rparr>) = creds_ok v"
  "creds_ok (v\<lparr>af_video_reserved_slots := r\<rparr>) = creds_ok v"
  "creds_ok (v\<lparr>af_name := s\<rparr>) = creds_ok v" "creds_ok (v\<lparr>af_email := s\<rparr>) = creds_ok v"
  "creds_ok (v\<lparr>af_proxy_url := s\<rparr>) = creds_ok v"
  "creds_ok (v\<lparr>af_browser_worker_group := s\<rparr>) = creds_ok v"
  by (simp_all add: cred_simps)

lemma creds_ok_chooseAuth: "creds_ok v \<Longrightarrow> creds_ok (chooseAuth m v)"
  by (cases m; cases "af_provider_id v = lit ''leonardo''"; cases "af_provider_id v = lit ''adobe''";
      cases "af_provider_id v = lit ''creativefabrica''"; simp add: chooseAuth_def cred_simps)

lemma creds_ok_chooseProvider: "creds_ok (chooseProvider p v)"
  by (simp add: chooseProvider_def cred_simps)

lemma creds_ok_fields:
  "creds_ok v \<Longrightarrow> requiresPassword None v \<Longrightarrow> creds_ok (v\<lparr>af_password := s\<rparr>)"
  "creds_ok v \<Longrightarrow> isPasswordMethod v \<Longrightarrow> creds_ok (v\<lparr>af_otp := s\<rparr>)"
  "creds_ok v \<Longrightarrow> af_provider_id v = lit ''adobe'' \<and> af_auth_method v = AccessToken \<Longrightarrow>
     creds_ok (v\<lparr>af_access_token := s\<rparr>)"
  "creds_ok v \<Longrightarrow> isCookieMethod v \<Longrightarrow> creds_ok (v\<lparr>af_cookie_json := j, af_cookie_file_name := s\<rparr>)"
  by (simp_all add: cred_simps)

lemma creds_ok_step: "creds_ok v \<Longrightarrow> creds_ok (form_step v e)"
  by (cases e)
     (simp_all add: setConcurrency_def setQueueCapacity_def setRoutingRole_def Let_def
       creds_ok_capacities creds_ok_chooseAuth creds_ok_chooseProvider creds_ok_fields
       split: option.split)

text \<open>
  A cookie file is read asynchronously: when it has been read, the form is set to the one that was
  there when the file was picked, with the cookie added (or cleared, where the file is no JSON).
\<close>

record AccountDialog =
  dlg_form :: AccountForm
  dlg_reads :: "(AccountForm \<times> jstr) list"

definition cookie_loaded :: "AccountForm \<Rightarrow> jstr \<Rightarrow> json option \<Rightarrow> AccountForm" where
  "cookie_loaded v fileName parsed =
     (case parsed of
        Some cookieJSON \<Rightarrow> v\<lparr>af_cookie_json := cookieJSON, af_cookie_file_name := fileName\<rparr>
      | None \<Rightarrow> v\<lparr>af_cookie_json := JNull, af_cookie_file_name := []\<rparr>)"

datatype dialog_event =
  Control form_event
| PickCookie jstr
| CookieRead nat "json option"

fun dialog_step :: "AccountDialog \<Rightarrow> dialog_event \<Rightarrow> AccountDialog" where
  "dialog_step d (Control e) = d\<lparr>dlg_form := form_step (dlg_form d) e\<rparr>"
| "dialog_step d (PickCookie fileName) =
     (if isCookieMethod (dlg_form d) then d\<lparr>dlg_reads := dlg_reads d @ [(dlg_form d, fileName)]\<rparr> else d)"
| "dialog_step d (CookieRead i parsed) =
     (if i < length (dlg_reads d) then
        (case dlg_reads d ! i of (v, fileName) \<Rightarrow>
           \<lparr>dlg_form = cookie_loaded v fileName parsed,
            dlg_reads = take i (dlg_reads d) @ drop (Suc i) (dlg_reads d)\<rparr>)
      else d)"

definition open_dialog :: AccountDialog where
  "open_dialog = \<lparr>dlg_form = initial_form None, dlg_reads = []\<rparr>"

definition new_form :: "dialog_event list \<Rightarrow> AccountForm" where
  "new_form es = dlg_form (foldl dialog_step open_dialog es)"

definition form_ok :: "AccountForm \<Rightarrow> bool" where
  "form_ok v \<longleftrightarrow> caps_ok v \<and> creds_ok v"

definition dialog_ok :: "AccountDialog \<Rightarrow> bool" where
  "dialog_ok d \<longleftrightarrow> form_ok (dlg_form d) \<and>
     (\<forall>r \<in> set (dlg_reads d). form_ok (fst r) \<and> isCookieMethod (fst r))"

lemma form_ok_step: "form_ok v \<Longrightarrow> form_ok (form_step v e)"
  by (simp add: form_ok_def caps_ok_step creds_ok_step)

lemma form_ok_cookie: "form_ok v \<Longrightarrow> isCookieMethod v \<Longrightarrow> form_ok (cookie_loaded v n parsed)"
  by (cases parsed) (auto simp: form_ok_def cookie_loaded_def caps_ok_def concurrencyMaximum_None cred_simps)

lemma dialog_ok_step: "dialog_ok d \<Longrightarrow> dialog_ok (dialog_step d e)"
proof (cases e)
  case (CookieRead i parsed)
  assume ok: "dialog_ok d"
  show ?thesis
  proof (cases "i < length (dlg_reads d)")
    case True
    then have "dlg_reads d ! i \<in> set (dlg_reads d)" by simp
    with ok have read: "form_ok (fst (dlg_reads d ! i)) \<and> isCookieMethod (fst (dlg_reads d ! i))"
      by (simp add: dialog_ok_def)
    obtain w n where "dlg_reads d ! i = (w, n)" by fastforce
    with read ok True CookieRead show ?thesis
      by (auto simp: dialog_ok_def form_ok_cookie dest: in_set_takeD in_set_dropD)
  qed (simp add: ok CookieRead)
qed (auto simp: dialog_ok_def form_ok_step)

interpretation dialog: guarded_machine dialog_step dialog_ok "\<lambda>_. True"
  by unfold_locales (simp add: dialog_ok_step)

lemma new_form_ok: "caps_ok (new_form es) \<and> creds_ok (new_form es)"
proof -
  have "dialog_ok open_dialog"
    by (simp add: dialog_ok_def open_dialog_def form_ok_def caps_ok_def creds_ok_def initial_form_def
        concurrencyMaximum_None providerConcurrencyMaximum_def)
  from dialog.ok_run [OF this, of es] show ?thesis by (simp add: dialog_ok_def form_ok_def new_form_def list_all_iff)
qed

lemma controls_keep_reads:
  "dlg_reads (foldl dialog_step d (map Control es)) = dlg_reads d"
  by (induction es arbitrary: d) simp_all

section \<open>Properties\<close>




definition token_form :: AccountForm where
  "token_form = new_form (map Control [ChooseProvider (lit ''adobe''), TypeName (lit ''a''), TypeToken (lit ''t'')])"


text \<open>Every control but one keeps the reserved slots within the concurrency. Choosing another
  provider does not: it lowers the concurrency to the new maximum and leaves the slots, after which
  the form cannot be submitted.\<close>

theorem provider_switch_strands_slots:
  "(caps_ok v \<and> af_video_reserved_slots v \<le> af_image_concurrency v \<and> (\<forall>p. e \<noteq> ChooseProvider p) \<longrightarrow>
      af_video_reserved_slots (form_step v e) \<le> af_image_concurrency (form_step v e)) \<and>
   (of_int (providerConcurrencyMaximum p) < af_video_reserved_slots v \<longrightarrow>
      \<not> canSubmit None selected (form_step v (ChooseProvider p)))"
  using slots_step [of v e] by (auto simp: canSubmit_def chooseProvider_def)

theorem provider_switch_strands_slots_witness:
  "\<not> canSubmit None True (form_step (new_form [Control (ChooseProvider (lit ''adobe'')), Control (TypeReserved 20)])
      (ChooseProvider (lit ''leonardo'')))"
proof -
  have "of_int (providerConcurrencyMaximum (lit ''leonardo'')) <
      af_video_reserved_slots (new_form [Control (ChooseProvider (lit ''adobe'')), Control (TypeReserved 20)])"
    by (simp add: new_form_def open_dialog_def initial_form_def chooseProvider_def providerConcurrencyMaximum_def)
  then show ?thesis
    using provider_switch_strands_slots
      [of "new_form [Control (ChooseProvider (lit ''adobe'')), Control (TypeReserved 20)]" MoreQueue "lit ''leonardo''" True] by blast
qed

text \<open>A cookie file that takes time to read undoes what was typed meanwhile: when it has been
  read, the form is the one of the moment the file was picked with the cookie added, whatever
  controls were used in between.\<close>

theorem cookie_read_discards_edits:
  assumes "isCookieMethod (dlg_form d)" "dlg_reads d = []"
  shows "dlg_form (foldl dialog_step d ([PickCookie n] @ map Control es @ [CookieRead 0 parsed])) =
    cookie_loaded (dlg_form d) n parsed"
  using assms by (simp add: controls_keep_reads)

theorem cookie_read_discards_edits_witness:
  "af_name (dlg_form (foldl dialog_step open_dialog
      ([PickCookie (lit ''c.json'')] @ map Control [TypeName (lit ''new name'')] @ [CookieRead 0 (Some (JArr []))]))) = []"
proof -
  have "isCookieMethod (dlg_form open_dialog)" "dlg_reads open_dialog = []"
    "af_name (cookie_loaded (dlg_form open_dialog) (lit ''c.json'') (Some (JArr []))) = []"
    by (simp_all add: open_dialog_def initial_form_def isCookieMethod_def cookie_loaded_def)
  then show ?thesis
    using cookie_read_discards_edits [of open_dialog "lit ''c.json''" "[TypeName (lit ''new name'')]" "Some (JArr [])"] by simp
qed

end
