(* ===== verification/MediaSpecs.thy ===== *)
theory MediaSpecs
  imports Providers
begin

text \<open>
  The model documentation tables of pages/media-specs.ts, entry by entry, and the functions
  that read them: the display names and documents generated for the Creative Fabrica models,
  the sizes and resolutions a video model offers, and its reference media limits. A table is an
  association list in the order of the object literal; reading an entry that is not there throws
  a TypeError, and a key of Object.prototype finds an object without any of the fields.
\<close>

text \<open>\<open>{...a, ...b}\<close>, and \<open>Array.from({ length: n }, (_, index) => index + k)\<close>.\<close>

definition spread :: "(jstr \<times> 'a) list \<Rightarrow> (jstr \<times> 'a) list \<Rightarrow> (jstr \<times> 'a) list" where
  "spread a b = fold (\<lambda>e. map_set (fst e) (snd e)) b a"

definition array_from :: "nat \<Rightarrow> int \<Rightarrow> int list" where
  "array_from n k = map (\<lambda>index. int index + k) [0..<n]"

section \<open>The tables\<close>

record VideoSize =
  vs_value :: jstr
  vs_label :: jstr
  vs_resolution :: "jstr option"

record ImageModelDoc =
  id_name :: jstr
  id_role :: jstr
  id_use :: jstr
  id_strengths :: "jstr list"
  id_limits :: "jstr list"
  id_quality :: jstr
  id_size :: jstr
  id_sizeNote :: jstr
  id_quantity :: jstr
  id_promptMax :: int
  id_customSize :: "jstr option"

record VideoModelDoc =
  vd_name :: jstr
  vd_role :: jstr
  vd_use :: jstr
  vd_duration :: jstr
  vd_resolution :: jstr
  vd_limits :: "jstr list"
  vd_durationValues :: "int list"
  vd_defaultDuration :: int
  vd_resolutions :: "jstr list"
  vd_sizes :: "VideoSize list option"
  vd_maxReferenceImages :: nat
  vd_maxReferenceImagesWithVideo :: "nat option"
  vd_supportsStartEnd :: bool
  vd_supportsEndFrame :: "bool option"
  vd_requiresStartFrame :: "bool option"
  vd_supportsVideoAudioReferences :: bool
  vd_maxReferenceVideos :: "nat option"
  vd_maxReferenceAudios :: "nat option"
  vd_maxReferenceVideoDuration :: "rat option"
  vd_minReferenceVideoDuration :: "rat option"
  vd_maxReferenceAudioDuration :: "rat option"
  vd_supportsGenerateAudio :: bool
  vd_alwaysGenerateAudio :: "bool option"
  vd_promptMax :: int

record AudioModelDoc =
  ad_name :: jstr
  ad_role :: jstr
  ad_use :: jstr
  ad_price :: jstr
  ad_limits :: "jstr list"
  ad_promptMax :: int

definition modelNameWords :: "(jstr \<times> jstr) list" where
  "modelNameWords =
     [(lit ''ai'', lit ''AI''), (lit ''fal'', lit ''FAL''), (lit ''flux'', lit ''FLUX''),
      (lit ''gpt'', lit ''GPT''), (lit ''grok'', lit ''Grok''), (lit ''heygen'', lit ''HeyGen''),
      (lit ''ideogram'', lit ''Ideogram''), (lit ''kling'', lit ''Kling''),
      (lit ''luma'', lit ''Luma''), (lit ''minimax'', lit ''MiniMax''), (lit ''nano'', lit ''Nano''),
      (lit ''openai'', lit ''OpenAI''), (lit ''pika'', lit ''Pika''),
      (lit ''pixverse'', lit ''PixVerse''), (lit ''qwen'', lit ''Qwen''),
      (lit ''recraft'', lit ''Recraft''), (lit ''runway'', lit ''Runway''),
      (lit ''seedance'', lit ''Seedance''), (lit ''seedream'', lit ''Seedream''),
      (lit ''veo'', lit ''Veo''), (lit ''wan'', lit ''WAN''), (lit ''z'', lit ''Z'')]"

definition adobeVeoSizes :: "VideoSize list" where
  "adobeVeoSizes = [
      \<lparr>vs_value = lit ''1280x720'', vs_label = ulit ''%u6A2A%u5C4F 16:9 %u00B7 1280x720 %u00B7 720p'', vs_resolution = Some (lit ''720p'')\<rparr>,
      \<lparr>vs_value = lit ''720x1280'', vs_label = ulit ''%u7AD6%u5C4F 9:16 %u00B7 720x1280 %u00B7 720p'', vs_resolution = Some (lit ''720p'')\<rparr>,
      \<lparr>vs_value = lit ''1920x1080'', vs_label = ulit ''%u6A2A%u5C4F 16:9 %u00B7 1920x1080 %u00B7 1080p'', vs_resolution = Some (lit ''1080p'')\<rparr>,
      \<lparr>vs_value = lit ''1080x1920'', vs_label = ulit ''%u7AD6%u5C4F 9:16 %u00B7 1080x1920 %u00B7 1080p'', vs_resolution = Some (lit ''1080p'')\<rparr>]"

definition adobeSeedanceSizes :: "VideoSize list" where
  "adobeSeedanceSizes = [
      \<lparr>vs_value = lit ''1680x720'', vs_label = ulit ''%u7535%u5F71 21:9 %u00B7 1680x720 %u00B7 720p'', vs_resolution = Some (lit ''720p'')\<rparr>,
      \<lparr>vs_value = lit ''1280x720'', vs_label = ulit ''%u6A2A%u5C4F 16:9 %u00B7 1280x720 %u00B7 720p'', vs_resolution = Some (lit ''720p'')\<rparr>,
      \<lparr>vs_value = lit ''960x720'', vs_label = ulit ''%u6A2A%u5C4F 4:3 %u00B7 960x720 %u00B7 720p'', vs_resolution = Some (lit ''720p'')\<rparr>,
      \<lparr>vs_value = lit ''720x720'', vs_label = ulit ''%u65B9%u5F62 1:1 %u00B7 720x720 %u00B7 720p'', vs_resolution = Some (lit ''720p'')\<rparr>,
      \<lparr>vs_value = lit ''720x960'', vs_label = ulit ''%u7AD6%u5C4F 3:4 %u00B7 720x960 %u00B7 720p'', vs_resolution = Some (lit ''720p'')\<rparr>,
      \<lparr>vs_value = lit ''720x1280'', vs_label = ulit ''%u7AD6%u5C4F 9:16 %u00B7 720x1280 %u00B7 720p'', vs_resolution = Some (lit ''720p'')\<rparr>,
      \<lparr>vs_value = lit ''1120x480'', vs_label = ulit ''%u7535%u5F71 21:9 %u00B7 1120x480 %u00B7 480p'', vs_resolution = Some (lit ''480p'')\<rparr>,
      \<lparr>vs_value = lit ''854x480'', vs_label = ulit ''%u6A2A%u5C4F 16:9 %u00B7 854x480 %u00B7 480p'', vs_resolution = Some (lit ''480p'')\<rparr>,
      \<lparr>vs_value = lit ''640x480'', vs_label = ulit ''%u6A2A%u5C4F 4:3 %u00B7 640x480 %u00B7 480p'', vs_resolution = Some (lit ''480p'')\<rparr>,
      \<lparr>vs_value = lit ''480x480'', vs_label = ulit ''%u65B9%u5F62 1:1 %u00B7 480x480 %u00B7 480p'', vs_resolution = Some (lit ''480p'')\<rparr>,
      \<lparr>vs_value = lit ''480x640'', vs_label = ulit ''%u7AD6%u5C4F 3:4 %u00B7 480x640 %u00B7 480p'', vs_resolution = Some (lit ''480p'')\<rparr>,
      \<lparr>vs_value = lit ''480x854'', vs_label = ulit ''%u7AD6%u5C4F 9:16 %u00B7 480x854 %u00B7 480p'', vs_resolution = Some (lit ''480p'')\<rparr>]"

definition adobeSeedance1080Sizes :: "VideoSize list" where
  "adobeSeedance1080Sizes = [
      \<lparr>vs_value = lit ''2520x1080'', vs_label = ulit ''%u7535%u5F71 21:9 %u00B7 2520x1080 %u00B7 1080p'', vs_resolution = Some (lit ''1080p'')\<rparr>,
      \<lparr>vs_value = lit ''1920x1080'', vs_label = ulit ''%u6A2A%u5C4F 16:9 %u00B7 1920x1080 %u00B7 1080p'', vs_resolution = Some (lit ''1080p'')\<rparr>,
      \<lparr>vs_value = lit ''1440x1080'', vs_label = ulit ''%u6A2A%u5C4F 4:3 %u00B7 1440x1080 %u00B7 1080p'', vs_resolution = Some (lit ''1080p'')\<rparr>,
      \<lparr>vs_value = lit ''1080x1080'', vs_label = ulit ''%u65B9%u5F62 1:1 %u00B7 1080x1080 %u00B7 1080p'', vs_resolution = Some (lit ''1080p'')\<rparr>,
      \<lparr>vs_value = lit ''1080x1440'', vs_label = ulit ''%u7AD6%u5C4F 3:4 %u00B7 1080x1440 %u00B7 1080p'', vs_resolution = Some (lit ''1080p'')\<rparr>,
      \<lparr>vs_value = lit ''1080x1920'', vs_label = ulit ''%u7AD6%u5C4F 9:16 %u00B7 1080x1920 %u00B7 1080p'', vs_resolution = Some (lit ''1080p'')\<rparr>]"

definition standardVideoSizes :: "VideoSize list" where
  "standardVideoSizes = [
      \<lparr>vs_value = lit ''1280x720'', vs_label = ulit ''%u6A2A%u5C4F 16:9 %u00B7 1280x720 %u00B7 720p'', vs_resolution = Some (lit ''720p'')\<rparr>,
      \<lparr>vs_value = lit ''720x1280'', vs_label = ulit ''%u7AD6%u5C4F 9:16 %u00B7 720x1280 %u00B7 720p'', vs_resolution = Some (lit ''720p'')\<rparr>]"

definition image_doc_gpt_image_2 :: ImageModelDoc where
  "image_doc_gpt_image_2 = \<lparr>id_name = lit ''GPT Image 2'', id_role = ulit ''%u901A%u7528%u9996%u9009'',
     id_use = ulit ''%u9002%u5408%u5927%u591A%u6570%u6587%u751F%u56FE%u3001%u7CBE%u786E%u7F16%u8F91%u3001%u591A%u53C2%u8003%u56FE%u878D%u5408%u3001%u4EBA%u7269%u4E00%u81F4%u6027%u548C%u56FE%u4E2D%u6587%u5B57%u3002%u5EFA%u8BAE%u5148%u7528 low %u6253%u6837%uFF0C%u786E%u8BA4%u6784%u56FE%u540E%u518D%u63D0%u9AD8%u8D28%u91CF%u3002'',
     id_strengths = [ulit ''%u7CBE%u786E%u9075%u5FAA%u7F16%u8F91%u6307%u4EE4'',
      ulit ''%u6700%u591A 6 %u5F20%u53C2%u8003%u56FE'',
      ulit ''%u6587%u5B57%u4E0E%u54C1%u724C%u7D20%u6750%u8868%u73B0%u597D''],
     id_limits = [ulit ''%u5F53%u524D%u8D26%u53F7 n %u56FA%u5B9A%u4E3A 1'',
      ulit ''%u9AD8%u8D28%u91CF%u79EF%u5206%u6D88%u8017%u660E%u663E%u589E%u52A0''],
     id_quality = ulit ''auto / low / medium / high%uFF1Bauto %u5728%u672C%u670D%u52A1%u4E2D%u6309 low %u6267%u884C'',
     id_size = ulit ''%u9ED8%u8BA4 1024x1024%uFF1B%u5BBD%u9AD8%u5FC5%u987B%u547D%u4E2D Leonardo %u679A%u4E3E%uFF0C%u6BD4%u4F8B%u4E0D%u8D85%u8FC7 3:1%uFF0C%u603B%u50CF%u7D20%u4E3A 655,360%u20138,294,400'',
     id_sizeNote = ulit ''%u8868%u5185%u662F%u5E38%u7528%u9884%u8BBE%uFF1B%u8FD8%u53EF%u4F7F%u7528%u7B26%u5408%u4E0A%u8FF0%u6761%u4EF6%u7684 Leonardo %u679A%u4E3E%u5BBD%u9AD8%u7EC4%u5408%uFF0C%u4E0D%u80FD%u4F20%u4EFB%u610F%u50CF%u7D20%u3002'',
     id_quantity = ulit ''%u56FA%u5B9A 1 %u5F20'', id_promptMax = 9999, id_customSize = None\<rparr>"

definition image_doc_adobe_gpt_image_2 :: ImageModelDoc where
  "image_doc_adobe_gpt_image_2 = \<lparr>id_name = ulit ''Adobe %u00B7 GPT Image 2'',
     id_role = ulit ''Firefly %u591A%u4F9B%u5E94%u5546%u8DEF%u7531'',
     id_use = ulit ''%u901A%u8FC7 Adobe Firefly %u7684%u5F02%u6B65%u63A5%u53E3%u751F%u6210%u6216%u7F16%u8F91%u56FE%u7247%uFF0C%u79EF%u5206%u548C Leonardo %u8D26%u53F7%u6C60%u5B8C%u5168%u9694%u79BB%u3002'',
     id_strengths = [ulit ''Adobe Firefly %u5F02%u6B65%u4EFB%u52A1'',
      ulit ''%u6700%u591A 6 %u5F20%u53C2%u8003%u56FE'',
      ulit ''BKS %u5B9E%u65F6%u4EF7%u683C%u89C4%u5219''],
     id_limits = [ulit ''%u5F53%u524D n %u56FA%u5B9A%u4E3A 1'',
      ulit ''%u4EC5%u5F00%u653E 1K / 2K / 4K %u65B9%u5F62%u4EF7%u683C%u6863''],
     id_quality = ulit ''auto / low / medium / high%uFF1Bauto %u6309 low %u6267%u884C'',
     id_size = ulit ''1024x1024%u30012048x2048 %u6216 2880x2880'',
     id_sizeNote = ulit ''%u4E09%u6863%u5206%u522B%u6620%u5C04 Adobe 1K%u30012K%u30014K outputResolution%uFF0C%u5E76%u4F7F%u7528%u8D26%u53F7%u5BFC%u5165%u65F6%u8BFB%u53D6%u7684 BKS %u4EF7%u683C%u3002'',
     id_quantity = ulit ''%u56FA%u5B9A 1 %u5F20'', id_promptMax = 9999, id_customSize = None\<rparr>"

definition image_doc_adobe_nano_banana_2 :: ImageModelDoc where
  "image_doc_adobe_nano_banana_2 = \<lparr>id_name = ulit ''Adobe %u00B7 Nano Banana 2'',
     id_role = ulit ''Firefly %u6587%u5B57%u4E0E%u7F16%u8F91'',
     id_use = ulit ''%u901A%u8FC7 Adobe Firefly %u7684%u5F02%u6B65%u63A5%u53E3%u751F%u6210%u6216%u7F16%u8F91%u56FE%u7247%uFF0C%u9002%u5408%u6587%u5B57%u3001%u54C1%u724C%u7D20%u6750%u548C%u591A%u53C2%u8003%u56FE%u7EC4%u5408%u3002'',
     id_strengths = [ulit ''Nano Banana 2 %u5F53%u524D Firefly %u7248%u672C'',
      ulit ''%u6700%u591A 6 %u5F20%u53C2%u8003%u56FE'',
      ulit ''BKS %u5B9E%u65F6%u4EF7%u683C%u89C4%u5219''],
     id_limits = [ulit ''%u5F53%u524D n %u56FA%u5B9A%u4E3A 1'', ulit ''%u4E0D%u63A5%u53D7 quality %u53C2%u6570''],
     id_quality = ulit ''%u56FA%u5B9A%uFF0C%u7531 Adobe Firefly %u6A21%u578B%u51B3%u5B9A'',
     id_size = ulit ''1K / 2K / 4K %u7684%u5341%u79CD%u5E38%u7528%u753B%u5E45%uFF1B%u6700%u5927 6336x2688 %u6216 3072x5504'',
     id_sizeNote = ulit ''%u5C3A%u5BF8%u8868%u4E0E Firefly %u5F53%u524D Nano Banana 2 %u8F93%u51FA%u6863%u4E00%u81F4%uFF0C%u4EF7%u683C%u6309 1K%u30012K%u30014K BKS %u6863%u8BFB%u53D6%u3002'',
     id_quantity = ulit ''%u56FA%u5B9A 1 %u5F20'', id_promptMax = 9999, id_customSize = None\<rparr>"

definition image_doc_nano_banana_2 :: ImageModelDoc where
  "image_doc_nano_banana_2 = \<lparr>id_name = lit ''Nano Banana 2'', id_role = ulit ''%u6587%u5B57%u4E0E%u54C1%u724C'',
     id_use = ulit ''%u9002%u5408 Logo%u3001%u5B57%u6807%u3001%u6D77%u62A5%u6587%u6848%u3001%u5305%u88C5%u4E0E%u5E26%u6587%u5B57%u7684%u54C1%u724C%u7D20%u6750%uFF0C%u4E5F%u53EF%u7ED3%u5408%u53C2%u8003%u56FE%u5EF6%u7EED%u98CE%u683C%u3002'',
     id_strengths = [ulit ''%u6587%u5B57%u6E32%u67D3'', ulit ''%u54C1%u724C%u4E0E%u6392%u7248'',
      ulit ''%u53C2%u8003%u56FE%u98CE%u683C%u5EF6%u7EED''],
     id_limits = [ulit ''%u5B9A%u70B9%u4FEE%u6539%u7CBE%u5EA6%u901A%u5E38%u4F4E%u4E8E GPT Image 2'',
      ulit ''%u4E0D%u63A5%u53D7 quality %u53C2%u6570''],
     id_quality = ulit ''%u56FA%u5B9A%uFF0C%u7531 Leonardo %u6A21%u578B%u51B3%u5B9A'',
     id_size = ulit ''%u9ED8%u8BA4 1024x1024%uFF1B%u5BBD%u9AD8%u5FC5%u987B%u547D%u4E2D Leonardo %u679A%u4E3E%uFF0C%u6807%u51C6%u9884%u8BBE%u6700%u5927%u4E3A 6336x2688 %u6216 3072x5504'',
     id_sizeNote = ulit ''%u8868%u5185%u662F%u5E38%u7528%u9884%u8BBE%uFF1B%u8FD8%u53EF%u7EC4%u5408 Leonardo %u5DF2%u5F00%u653E%u7684%u5BBD%u3001%u9AD8%u679A%u4E3E%uFF0C%u4E0D%u80FD%u4F20%u4EFB%u610F%u50CF%u7D20%u3002'',
     id_quantity = ulit ''1%u20134 %u5F20%uFF1B%u9ED8%u8BA4 1 %u5F20'', id_promptMax = 9999,
     id_customSize = None\<rparr>"

definition image_doc_nano_banana_pro :: ImageModelDoc where
  "image_doc_nano_banana_pro = \<lparr>id_name = lit ''Nano Banana Pro'', id_role = ulit ''%u590D%u6742%u54C1%u724C%u753B%u9762'',
     id_use = ulit ''%u5BF9%u5916%u522B%u540D%u6620%u5C04%u5230 Leonardo %u7684 gemini-image-2%uFF0C%u9002%u5408%u66F4%u590D%u6742%u7684%u7248%u5F0F%u3001%u591A%u4E2A%u89C6%u89C9%u5143%u7D20%u548C%u53C2%u8003%u56FE%u7EC4%u5408%u3002'',
     id_strengths = [ulit ''%u590D%u6742%u6784%u56FE'', ulit ''%u591A%u5143%u7D20%u7EC4%u5408'',
      ulit ''%u6700%u591A 6 %u5F20%u53C2%u8003%u56FE''],
     id_limits = [ulit ''%u5F53%u524D%u4EE3%u7406%u4E0D%u5F00%u653E%u72EC%u7ACB%u8D28%u91CF%u6863%u4F4D'',
      ulit ''%u4E0D%u63A5%u53D7 quality %u53C2%u6570''],
     id_quality = ulit ''%u56FA%u5B9A%uFF0C%u7531 Leonardo %u6A21%u578B%u51B3%u5B9A'',
     id_size = ulit ''%u9ED8%u8BA4 1024x1024%uFF1B%u4F7F%u7528%u4E0E Nano Banana 2 %u76F8%u540C%u7684%u5E73%u53F0%u5C3A%u5BF8%u4F53%u7CFB'',
     id_sizeNote = ulit ''%u8868%u5185%u662F%u5E38%u7528%u9884%u8BBE%uFF1B%u8FD8%u53EF%u7EC4%u5408 Leonardo %u5DF2%u5F00%u653E%u7684%u5BBD%u3001%u9AD8%u679A%u4E3E%uFF0C%u4E0D%u80FD%u4F20%u4EFB%u610F%u50CF%u7D20%u3002'',
     id_quantity = ulit ''1%u20134 %u5F20%uFF1B%u9ED8%u8BA4 1 %u5F20'', id_promptMax = 9999,
     id_customSize = None\<rparr>"

definition image_doc_seedream_5_0_pro :: ImageModelDoc where
  "image_doc_seedream_5_0_pro = \<lparr>id_name = lit ''Seedream 5.0 Pro'',
     id_role = ulit ''%u9AD8%u4FDD%u771F%u6392%u7248%u4E0E%u6587%u5B57'',
     id_use = ulit ''%u9002%u5408%u9AD8%u4FDD%u771F%u6587%u751F%u56FE%u3001%u591A%u8BED%u8A00%u6587%u5B57%u3001%u6D77%u62A5%u6392%u7248%u548C%u9700%u8981%u7CBE%u786E%u5E03%u5C40%u7684%u753B%u9762%u3002%u652F%u6301%u56FE%u50CF%u53C2%u8003%u3002'',
     id_strengths = [ulit ''%u591A%u8BED%u8A00%u6587%u5B57%u6E32%u67D3'',
      ulit ''%u5BC6%u96C6%u6392%u7248%u4E0E%u5E03%u5C40'',
      ulit ''%u6700%u591A 4 %u5F20%u8F93%u51FA%u30016 %u5F20%u53C2%u8003%u56FE''],
     id_limits = [ulit ''%u6BCF%u6761%u8FB9 768%u20132048 %u50CF%u7D20'',
      ulit ''2K %u9608%u503C%u4EF7%u683C%u4E3A 90 %u79EF%u5206'',
      ulit ''%u4E0D%u63A5%u53D7 quality %u53C2%u6570''],
     id_quality = ulit ''%u56FA%u5B9A%uFF0C%u7531 Leonardo %u6A21%u578B%u51B3%u5B9A'',
     id_size = ulit ''%u9ED8%u8BA4 1024x1024%uFF1B%u652F%u6301%u81EA%u5B9A%u4E49 768%u20132048 %u50CF%u7D20%u8FB9%u957F%uFF0C%u6807%u51C6%u753B%u5E45%u89C1%u5C3A%u5BF8%u8868'',
     id_sizeNote = ulit ''%u8868%u5185%u5305%u542B%u5E38%u7528%u9884%u8BBE%u548C%u5B8C%u6574%u7684%u8FDE%u7EED%u81EA%u5B9A%u4E49%u8303%u56F4%u3002'',
     id_quantity = ulit ''1%u20134 %u5F20%uFF1B%u9ED8%u8BA4 1 %u5F20'', id_promptMax = 9999,
     id_customSize = Some (ulit ''WIDTHxHEIGHT%uFF1B%u5BBD%u3001%u9AD8%u5747%u53EF%u586B%u5199 768%u20132048 %u7684%u6574%u6570%u50CF%u7D20%uFF0C%u4F8B%u5982 1600x1200'')\<rparr>"

definition baseImageModelDocs :: "(jstr \<times> ImageModelDoc) list" where
  "baseImageModelDocs =
     [(lit ''gpt-image-2'', image_doc_gpt_image_2),
      (lit ''adobe:gpt-image-2'', image_doc_adobe_gpt_image_2),
      (lit ''adobe:nano-banana-2'', image_doc_adobe_nano_banana_2),
      (lit ''nano-banana-2'', image_doc_nano_banana_2),
      (lit ''nano-banana-pro'', image_doc_nano_banana_pro),
      (lit ''seedream-5.0-pro'', image_doc_seedream_5_0_pro)]"

definition video_doc_adobe_kling_3_0_omni :: VideoModelDoc where
  "video_doc_adobe_kling_3_0_omni = \<lparr>vd_name = ulit ''Adobe %u00B7 Kling 3.0 Omni'',
     vd_role = ulit ''Firefly %u5168%u6A21%u6001%u89C6%u9891'',
     vd_use = ulit ''%u901A%u8FC7 Adobe Firefly %u5F02%u6B65%u751F%u6210 5%u300110 %u6216 15 %u79D2%u89C6%u9891%uFF0C%u652F%u6301%u9996%u5C3E%u5E27%u548C%u666E%u901A%u53C2%u8003%u56FE%u3002'',
     vd_duration = ulit ''5 / 10 / 15 %u79D2'',
     vd_resolution = ulit ''720p / 1080p%uFF08%u5C3A%u5BF8%u4E0E%u79EF%u5206%u6863%u7ED1%u5B9A%uFF09'',
     vd_limits = [ulit ''%u666E%u901A%u53C2%u8003%u56FE%u6700%u591A 3 %u5F20'',
      ulit ''%u5F53%u524D%u516C%u5F00%u5951%u7EA6%u56FA%u5B9A%u5173%u95ED%u539F%u751F%u97F3%u9891''],
     vd_durationValues = [5, 10, 15], vd_defaultDuration = 5,
     vd_resolutions = map lit [''720p'', ''1080p''],
     vd_sizes = Some ([
      \<lparr>vs_value = lit ''1280x720'', vs_label = ulit ''%u6A2A%u5C4F 16:9 %u00B7 1280x720 %u00B7 720p'', vs_resolution = Some (lit ''720p'')\<rparr>,
      \<lparr>vs_value = lit ''720x1280'', vs_label = ulit ''%u7AD6%u5C4F 9:16 %u00B7 720x1280 %u00B7 720p'', vs_resolution = Some (lit ''720p'')\<rparr>,
      \<lparr>vs_value = lit ''720x720'', vs_label = ulit ''%u65B9%u5F62 1:1 %u00B7 720x720 %u00B7 720p'', vs_resolution = Some (lit ''720p'')\<rparr>,
      \<lparr>vs_value = lit ''1920x1080'', vs_label = ulit ''%u6A2A%u5C4F 16:9 %u00B7 1920x1080 %u00B7 1080p'', vs_resolution = Some (lit ''1080p'')\<rparr>,
      \<lparr>vs_value = lit ''1080x1920'', vs_label = ulit ''%u7AD6%u5C4F 9:16 %u00B7 1080x1920 %u00B7 1080p'', vs_resolution = Some (lit ''1080p'')\<rparr>,
      \<lparr>vs_value = lit ''1080x1080'', vs_label = ulit ''%u65B9%u5F62 1:1 %u00B7 1080x1080 %u00B7 1080p'', vs_resolution = Some (lit ''1080p'')\<rparr>]),
     vd_maxReferenceImages = 3, vd_maxReferenceImagesWithVideo = None, vd_supportsStartEnd = True,
     vd_supportsEndFrame = None, vd_requiresStartFrame = None,
     vd_supportsVideoAudioReferences = False, vd_maxReferenceVideos = None,
     vd_maxReferenceAudios = None, vd_maxReferenceVideoDuration = None,
     vd_minReferenceVideoDuration = None, vd_maxReferenceAudioDuration = None,
     vd_supportsGenerateAudio = False, vd_alwaysGenerateAudio = None, vd_promptMax = 2500\<rparr>"

definition video_doc_adobe_veo_3_1 :: VideoModelDoc where
  "video_doc_adobe_veo_3_1 = \<lparr>vd_name = ulit ''Adobe %u00B7 Veo 3.1'', vd_role = ulit ''Firefly Google %u65D7%u8230'',
     vd_use = ulit ''%u901A%u8FC7 Adobe Firefly %u5F02%u6B65%u751F%u6210 4%u30016 %u6216 8 %u79D2%u89C6%u9891%uFF0C%u652F%u6301%u9996%u5C3E%u5E27%u548C%u6700%u591A 3 %u5F20%u666E%u901A%u53C2%u8003%u56FE%u3002'',
     vd_duration = ulit ''4 / 6 / 8 %u79D2'',
     vd_resolution = ulit ''720p / 1080p%uFF08%u5C3A%u5BF8%u4E0E%u79EF%u5206%u6863%u7ED1%u5B9A%uFF09'',
     vd_limits = [ulit ''%u666E%u901A%u53C2%u8003%u56FE%u6700%u591A 3 %u5F20'',
      ulit ''%u5F53%u524D%u516C%u5F00%u5951%u7EA6%u56FA%u5B9A%u5173%u95ED%u539F%u751F%u97F3%u9891''],
     vd_durationValues = [4, 6, 8], vd_defaultDuration = 8,
     vd_resolutions = map lit [''720p'', ''1080p''], vd_sizes = Some (adobeVeoSizes),
     vd_maxReferenceImages = 3, vd_maxReferenceImagesWithVideo = None, vd_supportsStartEnd = True,
     vd_supportsEndFrame = None, vd_requiresStartFrame = None,
     vd_supportsVideoAudioReferences = False, vd_maxReferenceVideos = None,
     vd_maxReferenceAudios = None, vd_maxReferenceVideoDuration = None,
     vd_minReferenceVideoDuration = None, vd_maxReferenceAudioDuration = None,
     vd_supportsGenerateAudio = False, vd_alwaysGenerateAudio = None, vd_promptMax = 9999\<rparr>"

definition video_doc_adobe_veo_3_1_fast :: VideoModelDoc where
  "video_doc_adobe_veo_3_1_fast = \<lparr>vd_name = ulit ''Adobe %u00B7 Veo 3.1 Fast'',
     vd_role = ulit ''Firefly %u5FEB%u901F%u89C6%u9891'',
     vd_use = ulit ''%u901A%u8FC7 Adobe Firefly %u5F02%u6B65%u89C6%u9891%u4EFB%u52A1%u751F%u6210 4%u30016 %u6216 8 %u79D2%u89C6%u9891%uFF0C%u652F%u6301%u9996%u5C3E%u5E27%u63A7%u5236%u3002'',
     vd_duration = ulit ''4 / 6 / 8 %u79D2'',
     vd_resolution = ulit ''720p / 1080p%uFF08%u5C3A%u5BF8%u4E0E%u79EF%u5206%u6863%u7ED1%u5B9A%uFF09'',
     vd_limits = [ulit ''%u4E0D%u652F%u6301%u666E%u901A%u53C2%u8003%u56FE'',
      ulit ''%u5F53%u524D%u516C%u5F00%u5951%u7EA6%u56FA%u5B9A%u5173%u95ED%u539F%u751F%u97F3%u9891''],
     vd_durationValues = [4, 6, 8], vd_defaultDuration = 8,
     vd_resolutions = map lit [''720p'', ''1080p''], vd_sizes = Some (adobeVeoSizes),
     vd_maxReferenceImages = 0, vd_maxReferenceImagesWithVideo = None, vd_supportsStartEnd = True,
     vd_supportsEndFrame = None, vd_requiresStartFrame = None,
     vd_supportsVideoAudioReferences = False, vd_maxReferenceVideos = None,
     vd_maxReferenceAudios = None, vd_maxReferenceVideoDuration = None,
     vd_minReferenceVideoDuration = None, vd_maxReferenceAudioDuration = None,
     vd_supportsGenerateAudio = False, vd_alwaysGenerateAudio = None, vd_promptMax = 9999\<rparr>"

definition video_doc_adobe_seedance_2_0 :: VideoModelDoc where
  "video_doc_adobe_seedance_2_0 = \<lparr>vd_name = ulit ''Adobe %u00B7 Seedance 2.0'',
     vd_role = ulit ''Firefly %u591A%u6A21%u6001%u89C6%u9891'',
     vd_use = ulit ''%u901A%u8FC7 Adobe Firefly %u5F02%u6B65%u751F%u6210 4%u201315 %u79D2%u89C6%u9891%uFF0C%u652F%u6301%u591A%u753B%u5E45%u3001%u53C2%u8003%u56FE%u3001%u9996%u5C3E%u5E27%u3001%u89C6%u9891%u4E0E%u97F3%u9891%u53C2%u8003%u3002'',
     vd_duration = ulit ''4%u201315 %u79D2'',
     vd_resolution = ulit ''480p / 720p / 1080p%uFF08%u5C3A%u5BF8%u4E0E%u79EF%u5206%u6863%u7ED1%u5B9A%uFF09'',
     vd_limits = [ulit ''%u56FE%u7247%u3001%u89C6%u9891%u548C%u97F3%u9891%u5408%u8BA1%u6700%u591A 12 %u4E2A'',
      ulit ''%u5F53%u524D%u516C%u5F00%u5951%u7EA6%u56FA%u5B9A%u5173%u95ED%u539F%u751F%u97F3%u9891''],
     vd_durationValues = array_from 12 4, vd_defaultDuration = 8,
     vd_resolutions = map lit [''480p'', ''720p'', ''1080p''],
     vd_sizes = Some (adobeSeedanceSizes @ adobeSeedance1080Sizes), vd_maxReferenceImages = 9,
     vd_maxReferenceImagesWithVideo = None, vd_supportsStartEnd = True, vd_supportsEndFrame = None,
     vd_requiresStartFrame = None, vd_supportsVideoAudioReferences = True,
     vd_maxReferenceVideos = Some 3, vd_maxReferenceAudios = Some 3,
     vd_maxReferenceVideoDuration = Some 15, vd_minReferenceVideoDuration = None,
     vd_maxReferenceAudioDuration = Some 15, vd_supportsGenerateAudio = False,
     vd_alwaysGenerateAudio = None, vd_promptMax = 5000\<rparr>"

definition video_doc_adobe_seedance_2_0_fast :: VideoModelDoc where
  "video_doc_adobe_seedance_2_0_fast = \<lparr>vd_name = ulit ''Adobe %u00B7 Seedance 2.0 Fast'',
     vd_role = ulit ''Firefly %u5FEB%u901F%u591A%u6A21%u6001'',
     vd_use = ulit ''%u901A%u8FC7 Adobe Firefly %u5FEB%u901F%u5F02%u6B65%u751F%u6210 4%u201315 %u79D2%u89C6%u9891%uFF0C%u652F%u6301%u53C2%u8003%u56FE%u3001%u9996%u5C3E%u5E27%u3001%u89C6%u9891%u4E0E%u97F3%u9891%u53C2%u8003%u3002'',
     vd_duration = ulit ''4%u201315 %u79D2'',
     vd_resolution = ulit ''480p / 720p%uFF08%u5C3A%u5BF8%u4E0E%u79EF%u5206%u6863%u7ED1%u5B9A%uFF09'',
     vd_limits = [ulit ''%u56FE%u7247%u3001%u89C6%u9891%u548C%u97F3%u9891%u5408%u8BA1%u6700%u591A 12 %u4E2A'',
      ulit ''%u5F53%u524D%u516C%u5F00%u5951%u7EA6%u56FA%u5B9A%u5173%u95ED%u539F%u751F%u97F3%u9891''],
     vd_durationValues = array_from 12 4, vd_defaultDuration = 8,
     vd_resolutions = map lit [''480p'', ''720p''], vd_sizes = Some (adobeSeedanceSizes),
     vd_maxReferenceImages = 9, vd_maxReferenceImagesWithVideo = None, vd_supportsStartEnd = True,
     vd_supportsEndFrame = None, vd_requiresStartFrame = None,
     vd_supportsVideoAudioReferences = True, vd_maxReferenceVideos = Some 3,
     vd_maxReferenceAudios = Some 3, vd_maxReferenceVideoDuration = Some 15,
     vd_minReferenceVideoDuration = None, vd_maxReferenceAudioDuration = Some 15,
     vd_supportsGenerateAudio = False, vd_alwaysGenerateAudio = None, vd_promptMax = 5000\<rparr>"

definition video_doc_gemini_omni_flash :: VideoModelDoc where
  "video_doc_gemini_omni_flash = \<lparr>vd_name = lit ''Gemini Omni Flash'', vd_role = ulit ''Google %u5FEB%u901F%u89C6%u9891'',
     vd_use = ulit ''%u9002%u5408%u6587%u672C%u6216%u6700%u591A%u4E94%u5F20%u53C2%u8003%u56FE%u7684%u5FEB%u901F%u89C6%u9891%u751F%u6210%u3002'',
     vd_duration = ulit ''3%u201310 %u79D2'', vd_resolution = lit ''720p'',
     vd_limits = [ulit ''%u6700%u591A 5 %u5F20%u53C2%u8003%u56FE''],
     vd_durationValues = array_from 8 3, vd_defaultDuration = 5,
     vd_resolutions = map lit [''720p''], vd_sizes = None, vd_maxReferenceImages = 5,
     vd_maxReferenceImagesWithVideo = None, vd_supportsStartEnd = False,
     vd_supportsEndFrame = None, vd_requiresStartFrame = None,
     vd_supportsVideoAudioReferences = False, vd_maxReferenceVideos = None,
     vd_maxReferenceAudios = None, vd_maxReferenceVideoDuration = None,
     vd_minReferenceVideoDuration = None, vd_maxReferenceAudioDuration = None,
     vd_supportsGenerateAudio = False, vd_alwaysGenerateAudio = None, vd_promptMax = 5000\<rparr>"

definition video_doc_happy_horse_1_1 :: VideoModelDoc where
  "video_doc_happy_horse_1_1 = \<lparr>vd_name = lit ''Happy Horse 1.1'', vd_role = ulit ''%u89D2%u8272%u4E0E%u591A%u8BED%u8A00'',
     vd_use = ulit ''%u9002%u5408%u89D2%u8272%u9A71%u52A8%u573A%u666F%u548C%u591A%u8BED%u8A00%u97F3%u9891%u89C6%u9891%u3002'',
     vd_duration = ulit ''3%u201315 %u79D2'', vd_resolution = lit ''720p / 1080p'',
     vd_limits = [ulit ''%u5F53%u524D%u6309%u6587%u672C%u89C6%u9891%u8DEF%u5F84%u5F00%u653E''],
     vd_durationValues = array_from 13 3, vd_defaultDuration = 5,
     vd_resolutions = map lit [''720p'', ''1080p''], vd_sizes = None, vd_maxReferenceImages = 0,
     vd_maxReferenceImagesWithVideo = None, vd_supportsStartEnd = False,
     vd_supportsEndFrame = None, vd_requiresStartFrame = None,
     vd_supportsVideoAudioReferences = False, vd_maxReferenceVideos = None,
     vd_maxReferenceAudios = None, vd_maxReferenceVideoDuration = None,
     vd_minReferenceVideoDuration = None, vd_maxReferenceAudioDuration = None,
     vd_supportsGenerateAudio = True, vd_alwaysGenerateAudio = None, vd_promptMax = 5000\<rparr>"

definition video_doc_kling_3_0 :: VideoModelDoc where
  "video_doc_kling_3_0 = \<lparr>vd_name = lit ''Kling 3'', vd_role = ulit ''Kling %u4E3B%u6A21%u578B'',
     vd_use = ulit ''%u9002%u5408%u957F%u65F6%u957F%u3001%u9AD8%u4E00%u81F4%u6027%u548C%u539F%u751F%u97F3%u9891%u89C6%u9891%u3002'',
     vd_duration = ulit ''3%u201315 %u79D2'', vd_resolution = lit ''720p / 1080p / 2160p'',
     vd_limits = [ulit ''%u5F53%u524D%u6309%u6587%u672C%u89C6%u9891%u8DEF%u5F84%u5F00%u653E''],
     vd_durationValues = array_from 13 3, vd_defaultDuration = 5,
     vd_resolutions = map lit [''720p'', ''1080p'', ''2160p''], vd_sizes = None,
     vd_maxReferenceImages = 0, vd_maxReferenceImagesWithVideo = None, vd_supportsStartEnd = False,
     vd_supportsEndFrame = None, vd_requiresStartFrame = None,
     vd_supportsVideoAudioReferences = False, vd_maxReferenceVideos = None,
     vd_maxReferenceAudios = None, vd_maxReferenceVideoDuration = None,
     vd_minReferenceVideoDuration = None, vd_maxReferenceAudioDuration = None,
     vd_supportsGenerateAudio = True, vd_alwaysGenerateAudio = None, vd_promptMax = 5000\<rparr>"

definition video_doc_kling_3_0_turbo :: VideoModelDoc where
  "video_doc_kling_3_0_turbo = \<lparr>vd_name = lit ''Kling 3 Turbo'', vd_role = ulit ''Kling %u5FEB%u901F%u8349%u7A3F'',
     vd_use = ulit ''%u9002%u5408%u5FEB%u901F%u9884%u89C8%u548C%u955C%u5934%u65B9%u6848%u9A8C%u8BC1%u3002'',
     vd_duration = ulit ''3%u201315 %u79D2'', vd_resolution = lit ''720p / 1080p'',
     vd_limits = [ulit ''%u5F53%u524D%u6309%u6587%u672C%u89C6%u9891%u8DEF%u5F84%u5F00%u653E''],
     vd_durationValues = array_from 13 3, vd_defaultDuration = 5,
     vd_resolutions = map lit [''720p'', ''1080p''], vd_sizes = None, vd_maxReferenceImages = 0,
     vd_maxReferenceImagesWithVideo = None, vd_supportsStartEnd = False,
     vd_supportsEndFrame = None, vd_requiresStartFrame = None,
     vd_supportsVideoAudioReferences = False, vd_maxReferenceVideos = None,
     vd_maxReferenceAudios = None, vd_maxReferenceVideoDuration = None,
     vd_minReferenceVideoDuration = None, vd_maxReferenceAudioDuration = None,
     vd_supportsGenerateAudio = True, vd_alwaysGenerateAudio = None, vd_promptMax = 5000\<rparr>"

definition video_doc_hailuo_2_3 :: VideoModelDoc where
  "video_doc_hailuo_2_3 = \<lparr>vd_name = lit ''Hailuo 2.3'', vd_role = ulit ''MiniMax %u9AD8%u6027%u4EF7%u6BD4'',
     vd_use = ulit ''%u9002%u5408%u9AD8%u6027%u4EF7%u6BD4%u7684%u98CE%u683C%u6267%u884C%u548C%u77ED%u89C6%u9891%u751F%u6210%u3002'',
     vd_duration = ulit ''6 / 10 %u79D2'', vd_resolution = lit ''768p / 1080p'',
     vd_limits = [ulit ''%u5F53%u524D%u6309%u6587%u672C%u89C6%u9891%u8DEF%u5F84%u5F00%u653E''],
     vd_durationValues = [6, 10], vd_defaultDuration = 6,
     vd_resolutions = map lit [''768p'', ''1080p''], vd_sizes = None, vd_maxReferenceImages = 0,
     vd_maxReferenceImagesWithVideo = None, vd_supportsStartEnd = False,
     vd_supportsEndFrame = None, vd_requiresStartFrame = None,
     vd_supportsVideoAudioReferences = False, vd_maxReferenceVideos = None,
     vd_maxReferenceAudios = None, vd_maxReferenceVideoDuration = None,
     vd_minReferenceVideoDuration = None, vd_maxReferenceAudioDuration = None,
     vd_supportsGenerateAudio = False, vd_alwaysGenerateAudio = None, vd_promptMax = 5000\<rparr>"

definition video_doc_wan_2_7 :: VideoModelDoc where
  "video_doc_wan_2_7 = \<lparr>vd_name = lit ''Wan 2.7'', vd_role = ulit ''Alibaba %u5168%u6A21%u6001'',
     vd_use = ulit ''%u9002%u5408%u5E73%u6ED1%u8FD0%u52A8%u3001%u573A%u666F%u4E00%u81F4%u6027%u548C%u591A%u6A21%u6001%u89C6%u9891%u751F%u6210%u3002'',
     vd_duration = ulit ''2%u201310 %u79D2'', vd_resolution = lit ''720p / 1080p'',
     vd_limits = [ulit ''%u5F53%u524D%u6309%u6587%u672C%u89C6%u9891%u8DEF%u5F84%u5F00%u653E''],
     vd_durationValues = array_from 9 2, vd_defaultDuration = 5,
     vd_resolutions = map lit [''720p'', ''1080p''], vd_sizes = None, vd_maxReferenceImages = 0,
     vd_maxReferenceImagesWithVideo = None, vd_supportsStartEnd = False,
     vd_supportsEndFrame = None, vd_requiresStartFrame = None,
     vd_supportsVideoAudioReferences = False, vd_maxReferenceVideos = None,
     vd_maxReferenceAudios = None, vd_maxReferenceVideoDuration = None,
     vd_minReferenceVideoDuration = None, vd_maxReferenceAudioDuration = None,
     vd_supportsGenerateAudio = True, vd_alwaysGenerateAudio = None, vd_promptMax = 5000\<rparr>"

definition video_doc_flux_3_video :: VideoModelDoc where
  "video_doc_flux_3_video = \<lparr>vd_name = lit ''FLUX 3 Video'',
     vd_role = ulit ''%u539F%u751F%u97F3%u9891%u957F%u89C6%u9891'',
     vd_use = ulit ''%u9002%u5408%u5F3A%u63D0%u793A%u8BCD%u9075%u5FAA%u3001%u540C%u6B65%u539F%u751F%u97F3%u9891%u3001%u9996%u5C3E%u5E27%u63D2%u503C%u548C%u65E2%u6709%u89C6%u9891%u7EED%u5199%u3002'',
     vd_duration = ulit ''5%u201320 %u79D2'',
     vd_resolution = ulit ''720p / 1080p%uFF08%u5C3A%u5BF8%u4E0E%u79EF%u5206%u6863%u7ED1%u5B9A%uFF09'',
     vd_limits = [ulit ''%u9996%u5C3E%u5E27%u6A21%u5F0F%u4E0E%u53C2%u8003%u89C6%u9891%u6A21%u5F0F%u4E92%u65A5'',
      ulit ''%u53C2%u8003%u89C6%u9891%u6700%u591A 1 %u6BB5%u300150 MB%uFF0C%u65F6%u957F%u4E0D%u8D85%u8FC7 15.05 %u79D2''],
     vd_durationValues = array_from 16 5, vd_defaultDuration = 8,
     vd_resolutions = map lit [''720p'', ''1080p''],
     vd_sizes = Some ([
      \<lparr>vs_value = lit ''1470x630'', vs_label = ulit ''%u7535%u5F71 21:9 %u00B7 1470x630 %u00B7 720p'', vs_resolution = Some (lit ''720p'')\<rparr>,
      \<lparr>vs_value = lit ''1360x680'', vs_label = ulit ''%u5BBD%u5C4F 2:1 %u00B7 1360x680 %u00B7 720p'', vs_resolution = Some (lit ''720p'')\<rparr>,
      \<lparr>vs_value = lit ''1280x720'', vs_label = ulit ''%u6A2A%u5C4F 16:9 %u00B7 1280x720 %u00B7 720p'', vs_resolution = Some (lit ''720p'')\<rparr>,
      \<lparr>vs_value = lit ''1112x834'', vs_label = ulit ''%u6A2A%u5C4F 4:3 %u00B7 1112x834 %u00B7 720p'', vs_resolution = Some (lit ''720p'')\<rparr>,
      \<lparr>vs_value = lit ''960x960'', vs_label = ulit ''%u65B9%u5F62 1:1 %u00B7 960x960 %u00B7 720p'', vs_resolution = Some (lit ''720p'')\<rparr>,
      \<lparr>vs_value = lit ''834x1112'', vs_label = ulit ''%u7AD6%u5C4F 3:4 %u00B7 834x1112 %u00B7 720p'', vs_resolution = Some (lit ''720p'')\<rparr>,
      \<lparr>vs_value = lit ''720x1280'', vs_label = ulit ''%u7AD6%u5C4F 9:16 %u00B7 720x1280 %u00B7 720p'', vs_resolution = Some (lit ''720p'')\<rparr>,
      \<lparr>vs_value = lit ''2520x1080'', vs_label = ulit ''%u7535%u5F71 21:9 %u00B7 2520x1080 %u00B7 1080p'', vs_resolution = Some (lit ''1080p'')\<rparr>,
      \<lparr>vs_value = lit ''2160x1080'', vs_label = ulit ''%u5BBD%u5C4F 2:1 %u00B7 2160x1080 %u00B7 1080p'', vs_resolution = Some (lit ''1080p'')\<rparr>,
      \<lparr>vs_value = lit ''1920x1080'', vs_label = ulit ''%u6A2A%u5C4F 16:9 %u00B7 1920x1080 %u00B7 1080p'', vs_resolution = Some (lit ''1080p'')\<rparr>,
      \<lparr>vs_value = lit ''1440x1080'', vs_label = ulit ''%u6A2A%u5C4F 4:3 %u00B7 1440x1080 %u00B7 1080p'', vs_resolution = Some (lit ''1080p'')\<rparr>,
      \<lparr>vs_value = lit ''1440x1440'', vs_label = ulit ''%u65B9%u5F62 1:1 %u00B7 1440x1440 %u00B7 1080p'', vs_resolution = Some (lit ''1080p'')\<rparr>,
      \<lparr>vs_value = lit ''1080x1440'', vs_label = ulit ''%u7AD6%u5C4F 3:4 %u00B7 1080x1440 %u00B7 1080p'', vs_resolution = Some (lit ''1080p'')\<rparr>,
      \<lparr>vs_value = lit ''1080x1920'', vs_label = ulit ''%u7AD6%u5C4F 9:16 %u00B7 1080x1920 %u00B7 1080p'', vs_resolution = Some (lit ''1080p'')\<rparr>]),
     vd_maxReferenceImages = 0, vd_maxReferenceImagesWithVideo = None, vd_supportsStartEnd = True,
     vd_supportsEndFrame = None, vd_requiresStartFrame = None,
     vd_supportsVideoAudioReferences = False, vd_maxReferenceVideos = Some 1,
     vd_maxReferenceAudios = Some 0, vd_maxReferenceVideoDuration = Some ((1505 / 100)),
     vd_minReferenceVideoDuration = None, vd_maxReferenceAudioDuration = None,
     vd_supportsGenerateAudio = True, vd_alwaysGenerateAudio = None, vd_promptMax = 5000\<rparr>"

definition video_doc_seedance_2_0 :: VideoModelDoc where
  "video_doc_seedance_2_0 = \<lparr>vd_name = lit ''Seedance 2.0'', vd_role = ulit ''%u9AD8%u8D28%u91CF%u4E3B%u6A21%u578B'',
     vd_use = ulit ''%u9002%u5408%u5F3A%u8C03%u753B%u9762%u8D28%u91CF%u3001%u8FD0%u52A8%u8FDE%u8D2F%u6027%u548C%u9AD8%u5206%u8FA8%u7387%u8F93%u51FA%u7684%u89C6%u9891%u3002'',
     vd_duration = ulit ''4%u201315 %u79D2'', vd_resolution = lit ''480p / 720p / 1080p / 2160p'',
     vd_limits = [ulit ''%u9AD8%u5206%u8FA8%u7387%u548C%u957F%u65F6%u957F%u4F1A%u660E%u663E%u589E%u52A0%u79EF%u5206%u6D88%u8017'',
      ulit ''%u652F%u6301%u53C2%u8003%u56FE%u3001%u9996%u5C3E%u5E27%u3001%u89C6%u9891%u4E0E%u97F3%u9891%u53C2%u8003''],
     vd_durationValues = array_from 12 4, vd_defaultDuration = 8,
     vd_resolutions = map lit [''480p'', ''720p'', ''1080p'', ''2160p''], vd_sizes = None,
     vd_maxReferenceImages = 4, vd_maxReferenceImagesWithVideo = None, vd_supportsStartEnd = True,
     vd_supportsEndFrame = None, vd_requiresStartFrame = None,
     vd_supportsVideoAudioReferences = True, vd_maxReferenceVideos = None,
     vd_maxReferenceAudios = None, vd_maxReferenceVideoDuration = None,
     vd_minReferenceVideoDuration = None, vd_maxReferenceAudioDuration = None,
     vd_supportsGenerateAudio = True, vd_alwaysGenerateAudio = None, vd_promptMax = 5000\<rparr>"

definition video_doc_seedance_2_0_fast :: VideoModelDoc where
  "video_doc_seedance_2_0_fast = \<lparr>vd_name = lit ''Seedance 2.0 Fast'', vd_role = ulit ''%u5FEB%u901F%u751F%u6210'',
     vd_use = ulit ''%u9002%u5408%u5FEB%u901F%u9884%u89C8%u3001%u955C%u5934%u65B9%u6848%u9A8C%u8BC1%u548C%u8F83%u9AD8%u9891%u7387%u7684%u77ED%u89C6%u9891%u751F%u6210%u3002'',
     vd_duration = ulit ''4%u201315 %u79D2'', vd_resolution = lit ''480p / 720p'',
     vd_limits = [ulit ''%u6700%u9AD8%u5F00%u653E%u5230 720p'',
      ulit ''%u652F%u6301%u53C2%u8003%u56FE%u3001%u9996%u5C3E%u5E27%u3001%u89C6%u9891%u4E0E%u97F3%u9891%u53C2%u8003''],
     vd_durationValues = array_from 12 4, vd_defaultDuration = 8,
     vd_resolutions = map lit [''480p'', ''720p''], vd_sizes = None, vd_maxReferenceImages = 4,
     vd_maxReferenceImagesWithVideo = None, vd_supportsStartEnd = True, vd_supportsEndFrame = None,
     vd_requiresStartFrame = None, vd_supportsVideoAudioReferences = True,
     vd_maxReferenceVideos = None, vd_maxReferenceAudios = None,
     vd_maxReferenceVideoDuration = None, vd_minReferenceVideoDuration = None,
     vd_maxReferenceAudioDuration = None, vd_supportsGenerateAudio = True,
     vd_alwaysGenerateAudio = None, vd_promptMax = 5000\<rparr>"

definition video_doc_seedance_2_0_mini :: VideoModelDoc where
  "video_doc_seedance_2_0_mini = \<lparr>vd_name = lit ''Seedance 2.0 Mini'', vd_role = ulit ''%u4F4E%u6210%u672C%u6253%u6837'',
     vd_use = ulit ''%u9002%u5408%u4F4E%u6210%u672C%u6D4B%u8BD5%u63D0%u793A%u8BCD%u3001%u6784%u56FE%u548C%u8FD0%u52A8%u65B9%u5411%uFF0C%u518D%u5207%u6362%u4E3B%u6A21%u578B%u751F%u6210%u3002'',
     vd_duration = ulit ''4%u201315 %u79D2'', vd_resolution = lit ''480p / 720p'',
     vd_limits = [ulit ''%u652F%u6301%u53C2%u8003%u56FE%u3001%u9996%u5C3E%u5E27%u3001%u89C6%u9891%u4E0E%u97F3%u9891%u53C2%u8003'',
      ulit ''%u590D%u6742%u8FD0%u52A8%u548C%u7EC6%u8282%u80FD%u529B%u4F4E%u4E8E%u4E3B%u6A21%u578B''],
     vd_durationValues = array_from 12 4, vd_defaultDuration = 8,
     vd_resolutions = map lit [''480p'', ''720p''], vd_sizes = None, vd_maxReferenceImages = 4,
     vd_maxReferenceImagesWithVideo = None, vd_supportsStartEnd = True, vd_supportsEndFrame = None,
     vd_requiresStartFrame = None, vd_supportsVideoAudioReferences = True,
     vd_maxReferenceVideos = None, vd_maxReferenceAudios = None,
     vd_maxReferenceVideoDuration = None, vd_minReferenceVideoDuration = None,
     vd_maxReferenceAudioDuration = None, vd_supportsGenerateAudio = True,
     vd_alwaysGenerateAudio = None, vd_promptMax = 5000\<rparr>"

definition video_doc_seedance_2_5 :: VideoModelDoc where
  "video_doc_seedance_2_5 = \<lparr>vd_name = lit ''Seedance 2.5'', vd_role = ulit ''%u957F%u65F6%u957F%u5168%u6A21%u6001'',
     vd_use = ulit ''%u9002%u5408%u7CBE%u786E%u8FD0%u955C%u3001%u89D2%u8272%u4E00%u81F4%u6027%u3001%u957F%u8FBE 30 %u79D2%u7684%u539F%u751F%u97F3%u9891%u89C6%u9891%u548C%u591A%u6A21%u6001%u53C2%u8003%u7F16%u8F91%u3002'',
     vd_duration = ulit ''4%u201330 %u79D2'',
     vd_resolution = ulit ''480p / 720p%uFF08%u5C3A%u5BF8%u4E0E%u79EF%u5206%u6863%u7ED1%u5B9A%uFF09'',
     vd_limits = [ulit ''%u63D0%u793A%u8BCD%u6700%u591A 5,000 %u4E2A Unicode %u5B57%u7B26'',
      ulit ''%u652F%u6301%u53C2%u8003%u56FE%u3001%u9996%u5C3E%u5E27%u3001%u53C2%u8003%u89C6%u9891%u548C%u53C2%u8003%u97F3%u9891%uFF1B%u9996%u5C3E%u5E27%u4E0D%u80FD%u4E0E%u5176%u4ED6%u53C2%u8003%u5A92%u4F53%u6DF7%u7528'',
      ulit ''%u53C2%u8003%u89C6%u9891%u548C%u53C2%u8003%u97F3%u9891%u5404%u6700%u591A 10 %u4E2A%uFF0C%u5408%u8BA1%u65F6%u957F%u4E0D%u8D85%u8FC7 30.2 %u79D2%uFF1B%u97F3%u9891%u9700%u8981%u666E%u901A%u53C2%u8003%u56FE%u6216%u53C2%u8003%u89C6%u9891''],
     vd_durationValues = array_from 27 4, vd_defaultDuration = 8,
     vd_resolutions = map lit [''480p'', ''720p''],
     vd_sizes = Some ([
      \<lparr>vs_value = lit ''1280x720'', vs_label = ulit ''%u6A2A%u5C4F 16:9 %u00B7 1280x720 %u00B7 720p'', vs_resolution = Some (lit ''720p'')\<rparr>,
      \<lparr>vs_value = lit ''1470x630'', vs_label = ulit ''%u7535%u5F71 21:9 %u00B7 1470x630 %u00B7 720p'', vs_resolution = Some (lit ''720p'')\<rparr>,
      \<lparr>vs_value = lit ''1112x834'', vs_label = ulit ''%u6A2A%u5C4F 4:3 %u00B7 1112x834 %u00B7 720p'', vs_resolution = Some (lit ''720p'')\<rparr>,
      \<lparr>vs_value = lit ''960x960'', vs_label = ulit ''%u65B9%u5F62 1:1 %u00B7 960x960 %u00B7 720p'', vs_resolution = Some (lit ''720p'')\<rparr>,
      \<lparr>vs_value = lit ''834x1112'', vs_label = ulit ''%u7AD6%u5C4F 3:4 %u00B7 834x1112 %u00B7 720p'', vs_resolution = Some (lit ''720p'')\<rparr>,
      \<lparr>vs_value = lit ''720x1280'', vs_label = ulit ''%u7AD6%u5C4F 9:16 %u00B7 720x1280 %u00B7 720p'', vs_resolution = Some (lit ''720p'')\<rparr>,
      \<lparr>vs_value = lit ''992x432'', vs_label = ulit ''%u7535%u5F71 21:9 %u00B7 992x432 %u00B7 480p'', vs_resolution = Some (lit ''480p'')\<rparr>,
      \<lparr>vs_value = lit ''864x496'', vs_label = ulit ''%u5BBD%u5C4F %u00B7 864x496 %u00B7 480p'', vs_resolution = Some (lit ''480p'')\<rparr>,
      \<lparr>vs_value = lit ''752x560'', vs_label = ulit ''%u6A2A%u5C4F 4:3 %u00B7 752x560 %u00B7 480p'', vs_resolution = Some (lit ''480p'')\<rparr>,
      \<lparr>vs_value = lit ''640x640'', vs_label = ulit ''%u65B9%u5F62 1:1 %u00B7 640x640 %u00B7 480p'', vs_resolution = Some (lit ''480p'')\<rparr>,
      \<lparr>vs_value = lit ''560x752'', vs_label = ulit ''%u7AD6%u5C4F 3:4 %u00B7 560x752 %u00B7 480p'', vs_resolution = Some (lit ''480p'')\<rparr>,
      \<lparr>vs_value = lit ''496x864'', vs_label = ulit ''%u7AD6%u5C4F 9:16 %u00B7 496x864 %u00B7 480p'', vs_resolution = Some (lit ''480p'')\<rparr>]),
     vd_maxReferenceImages = 30, vd_maxReferenceImagesWithVideo = None, vd_supportsStartEnd = True,
     vd_supportsEndFrame = None, vd_requiresStartFrame = None,
     vd_supportsVideoAudioReferences = True, vd_maxReferenceVideos = Some 10,
     vd_maxReferenceAudios = Some 10, vd_maxReferenceVideoDuration = Some ((302 / 10)),
     vd_minReferenceVideoDuration = None, vd_maxReferenceAudioDuration = Some ((302 / 10)),
     vd_supportsGenerateAudio = True, vd_alwaysGenerateAudio = None, vd_promptMax = 5000\<rparr>"

definition video_doc_veo_3_1 :: VideoModelDoc where
  "video_doc_veo_3_1 = \<lparr>vd_name = lit ''Veo 3.1'', vd_role = ulit ''Google %u65D7%u8230'',
     vd_use = ulit ''%u9002%u5408%u7535%u5F71%u611F%u53D9%u4E8B%u3001%u9996%u5C3E%u5E27%u63A7%u5236%u548C%u9AD8%u8D28%u91CF%u542B%u97F3%u9891%u89C6%u9891%u3002'',
     vd_duration = ulit ''4 / 6 / 8 %u79D2'', vd_resolution = lit ''720p / 1080p / 2160p'',
     vd_limits = [ulit ''%u666E%u901A%u53C2%u8003%u56FE%u6700%u591A 3 %u5F20%uFF0C%u4E14%u53EA%u652F%u6301 1280x720%u30018 %u79D2'',
      ulit ''%u652F%u6301%u9996%u5E27%u3001%u5C3E%u5E27%u548C%u539F%u751F%u97F3%u9891%u5F00%u5173''],
     vd_durationValues = [4, 6, 8], vd_defaultDuration = 8,
     vd_resolutions = map lit [''720p'', ''1080p'', ''2160p''], vd_sizes = None,
     vd_maxReferenceImages = 3, vd_maxReferenceImagesWithVideo = None, vd_supportsStartEnd = True,
     vd_supportsEndFrame = None, vd_requiresStartFrame = None,
     vd_supportsVideoAudioReferences = False, vd_maxReferenceVideos = None,
     vd_maxReferenceAudios = None, vd_maxReferenceVideoDuration = None,
     vd_minReferenceVideoDuration = None, vd_maxReferenceAudioDuration = None,
     vd_supportsGenerateAudio = True, vd_alwaysGenerateAudio = None, vd_promptMax = 9999\<rparr>"

definition video_doc_veo_3_1_fast :: VideoModelDoc where
  "video_doc_veo_3_1_fast = \<lparr>vd_name = lit ''Veo 3.1 Fast'', vd_role = ulit ''%u5FEB%u901F%u9AD8%u8D28%u91CF'',
     vd_use = ulit ''%u9002%u5408%u4EE5%u8F83%u4F4E%u79EF%u5206%u5FEB%u901F%u9A8C%u8BC1 Veo %u955C%u5934%u65B9%u6848%u548C%u6210%u7247%u65B9%u5411%u3002'',
     vd_duration = ulit ''4 / 6 / 8 %u79D2'', vd_resolution = lit ''720p / 1080p / 2160p'',
     vd_limits = [ulit ''%u4E0D%u652F%u6301%u666E%u901A%u53C2%u8003%u56FE'',
      ulit ''%u652F%u6301%u9996%u5E27%u3001%u5C3E%u5E27%u548C%u539F%u751F%u97F3%u9891%u5F00%u5173''],
     vd_durationValues = [4, 6, 8], vd_defaultDuration = 8,
     vd_resolutions = map lit [''720p'', ''1080p'', ''2160p''], vd_sizes = None,
     vd_maxReferenceImages = 0, vd_maxReferenceImagesWithVideo = None, vd_supportsStartEnd = True,
     vd_supportsEndFrame = None, vd_requiresStartFrame = None,
     vd_supportsVideoAudioReferences = False, vd_maxReferenceVideos = None,
     vd_maxReferenceAudios = None, vd_maxReferenceVideoDuration = None,
     vd_minReferenceVideoDuration = None, vd_maxReferenceAudioDuration = None,
     vd_supportsGenerateAudio = True, vd_alwaysGenerateAudio = None, vd_promptMax = 9999\<rparr>"

definition video_doc_kling_o3_omni :: VideoModelDoc where
  "video_doc_kling_o3_omni = \<lparr>vd_name = lit ''Kling 3 Omni'', vd_role = ulit ''%u5168%u6A21%u6001%u89C6%u9891'',
     vd_use = ulit ''%u9002%u5408%u957F%u89C6%u9891%u3001%u539F%u751F%u97F3%u9891%u3001%u591A%u56FE%u89D2%u8272%u4E00%u81F4%u6027%u3001%u9996%u5C3E%u5E27%u63A7%u5236%u548C%u89C6%u9891%u7EED%u5199%u3002'',
     vd_duration = ulit ''3%u201315 %u79D2'',
     vd_resolution = ulit ''720p / 1080p / 2160p%uFF08%u5C3A%u5BF8%u4E0E%u79EF%u5206%u6863%u7ED1%u5B9A%uFF09'',
     vd_limits = [ulit ''%u53C2%u8003%u56FE%u6700%u591A 7 %u5F20%uFF1B%u4E0E%u89C6%u9891%u540C%u65F6%u4F7F%u7528%u65F6%u6700%u591A 4 %u5F20'',
      ulit ''%u53C2%u8003%u89C6%u9891%u9650 1 %u4E2A%u30013%u201310.05 %u79D2%u3001%u6BCF%u8FB9 720%u20132160 %u50CF%u7D20%uFF1B%u4E0D%u652F%u6301 2160p %u89C6%u9891%u53C2%u8003''],
     vd_durationValues = array_from 13 3, vd_defaultDuration = 5,
     vd_resolutions = map lit [''720p'', ''1080p'', ''2160p''],
     vd_sizes = Some ([
      \<lparr>vs_value = lit ''1920x1080'', vs_label = ulit ''%u6A2A%u5C4F 16:9 %u00B7 1920x1080 %u00B7 1080p'', vs_resolution = Some (lit ''1080p'')\<rparr>,
      \<lparr>vs_value = lit ''1080x1920'', vs_label = ulit ''%u7AD6%u5C4F 9:16 %u00B7 1080x1920 %u00B7 1080p'', vs_resolution = Some (lit ''1080p'')\<rparr>,
      \<lparr>vs_value = lit ''1440x1440'', vs_label = ulit ''%u65B9%u5F62 1:1 %u00B7 1440x1440 %u00B7 1080p'', vs_resolution = Some (lit ''1080p'')\<rparr>,
      \<lparr>vs_value = lit ''1280x720'', vs_label = ulit ''%u6A2A%u5C4F 16:9 %u00B7 1280x720 %u00B7 720p'', vs_resolution = Some (lit ''720p'')\<rparr>,
      \<lparr>vs_value = lit ''720x1280'', vs_label = ulit ''%u7AD6%u5C4F 9:16 %u00B7 720x1280 %u00B7 720p'', vs_resolution = Some (lit ''720p'')\<rparr>,
      \<lparr>vs_value = lit ''960x960'', vs_label = ulit ''%u65B9%u5F62 1:1 %u00B7 960x960 %u00B7 720p'', vs_resolution = Some (lit ''720p'')\<rparr>,
      \<lparr>vs_value = lit ''3840x2160'', vs_label = ulit ''%u6A2A%u5C4F 16:9 %u00B7 3840x2160 %u00B7 2160p'', vs_resolution = Some (lit ''2160p'')\<rparr>,
      \<lparr>vs_value = lit ''2160x3840'', vs_label = ulit ''%u7AD6%u5C4F 9:16 %u00B7 2160x3840 %u00B7 2160p'', vs_resolution = Some (lit ''2160p'')\<rparr>,
      \<lparr>vs_value = lit ''2880x2880'', vs_label = ulit ''%u65B9%u5F62 1:1 %u00B7 2880x2880 %u00B7 2160p'', vs_resolution = Some (lit ''2160p'')\<rparr>]),
     vd_maxReferenceImages = 7, vd_maxReferenceImagesWithVideo = Some 4,
     vd_supportsStartEnd = True, vd_supportsEndFrame = None, vd_requiresStartFrame = None,
     vd_supportsVideoAudioReferences = False, vd_maxReferenceVideos = Some 1,
     vd_maxReferenceAudios = None, vd_maxReferenceVideoDuration = Some ((1005 / 100)),
     vd_minReferenceVideoDuration = Some 3, vd_maxReferenceAudioDuration = None,
     vd_supportsGenerateAudio = True, vd_alwaysGenerateAudio = None, vd_promptMax = 2500\<rparr>"

definition video_doc_minimax_h3 :: VideoModelDoc where
  "video_doc_minimax_h3 = \<lparr>vd_name = lit ''MiniMax H3'', vd_role = ulit ''%u539F%u751F%u97F3%u9891 2K'',
     vd_use = ulit ''%u9002%u5408%u9700%u8981 2K %u753B%u9762%u3001%u539F%u751F%u97F3%u9891%u548C%u591A%u5F20%u56FE%u50CF%u6216%u97F3%u9891%u53C2%u8003%u7684%u6210%u7247%u89C6%u9891%u3002'',
     vd_duration = ulit ''5%u201315 %u79D2'',
     vd_resolution = ulit ''%u56FA%u5B9A 1440p%uFF082K%uFF09'',
     vd_limits = [ulit ''%u63D0%u793A%u8BCD%u6700%u591A 2,000 %u5B57%u7B26'',
      ulit ''%u539F%u751F%u97F3%u9891%u59CB%u7EC8%u5F00%u542F%uFF0C%u6700%u591A 3 %u6BB5%u53C2%u8003%u97F3%u9891%u4E14%u5408%u8BA1%u4E0D%u8D85%u8FC7 15 %u79D2''],
     vd_durationValues = array_from 11 5, vd_defaultDuration = 5,
     vd_resolutions = map lit [''1440p''],
     vd_sizes = Some ([
      \<lparr>vs_value = lit ''2560x1440'', vs_label = ulit ''%u6A2A%u5C4F 16:9 %u00B7 2560x1440'', vs_resolution = None\<rparr>,
      \<lparr>vs_value = lit ''3360x1440'', vs_label = ulit ''%u7535%u5F71 21:9 %u00B7 3360x1440'', vs_resolution = None\<rparr>,
      \<lparr>vs_value = lit ''1920x1440'', vs_label = ulit ''%u6A2A%u5C4F 4:3 %u00B7 1920x1440'', vs_resolution = None\<rparr>,
      \<lparr>vs_value = lit ''1440x1440'', vs_label = ulit ''%u65B9%u5F62 1:1 %u00B7 1440x1440'', vs_resolution = None\<rparr>,
      \<lparr>vs_value = lit ''1440x1920'', vs_label = ulit ''%u7AD6%u5C4F 3:4 %u00B7 1440x1920'', vs_resolution = None\<rparr>,
      \<lparr>vs_value = lit ''1440x2560'', vs_label = ulit ''%u7AD6%u5C4F 9:16 %u00B7 1440x2560'', vs_resolution = None\<rparr>]),
     vd_maxReferenceImages = 5, vd_maxReferenceImagesWithVideo = None, vd_supportsStartEnd = True,
     vd_supportsEndFrame = None, vd_requiresStartFrame = None,
     vd_supportsVideoAudioReferences = False, vd_maxReferenceVideos = Some 0,
     vd_maxReferenceAudios = Some 3, vd_maxReferenceVideoDuration = None,
     vd_minReferenceVideoDuration = None, vd_maxReferenceAudioDuration = None,
     vd_supportsGenerateAudio = True, vd_alwaysGenerateAudio = Some True, vd_promptMax = 2000\<rparr>"

definition video_doc_grok_imagine_1_5 :: VideoModelDoc where
  "video_doc_grok_imagine_1_5 = \<lparr>vd_name = lit ''Grok Imagine 1.5'', vd_role = ulit ''%u9996%u5E27%u7535%u5F71%u5316'',
     vd_use = ulit ''%u9002%u5408%u5C06%u5355%u5F20%u9759%u6001%u56FE%u8F6C%u4E3A%u5E26%u8FD0%u52A8%u3001%u7535%u5F71%u611F%u7EC6%u8282%u548C%u539F%u751F%u97F3%u9891%u7684%u89C6%u9891%u3002'',
     vd_duration = ulit ''3%u201315 %u79D2'',
     vd_resolution = ulit ''480p / 720p / 1080p%uFF08%u5C3A%u5BF8%u4E0E%u79EF%u5206%u6863%u7ED1%u5B9A%uFF09'',
     vd_limits = [ulit ''%u5FC5%u987B%u4E0A%u4F20 start_frame%uFF0C%u4E0D%u652F%u6301%u7EAF%u6587%u751F%u89C6%u9891'',
      ulit ''%u4E0D%u652F%u6301%u5C3E%u5E27%u3001%u666E%u901A%u53C2%u8003%u56FE%u3001%u53C2%u8003%u89C6%u9891%u6216%u53C2%u8003%u97F3%u9891''],
     vd_durationValues = array_from 13 3, vd_defaultDuration = 6,
     vd_resolutions = map lit [''480p'', ''720p'', ''1080p''],
     vd_sizes = Some ([
      \<lparr>vs_value = lit ''736x400'', vs_label = ulit ''%u6A2A%u5C4F 16:9 %u00B7 736x400 %u00B7 480p'', vs_resolution = Some (lit ''480p'')\<rparr>,
      \<lparr>vs_value = lit ''400x736'', vs_label = ulit ''%u7AD6%u5C4F 9:16 %u00B7 400x736 %u00B7 480p'', vs_resolution = Some (lit ''480p'')\<rparr>,
      \<lparr>vs_value = lit ''544x544'', vs_label = ulit ''%u65B9%u5F62 1:1 %u00B7 544x544 %u00B7 480p'', vs_resolution = Some (lit ''480p'')\<rparr>,
      \<lparr>vs_value = lit ''1280x720'', vs_label = ulit ''%u6A2A%u5C4F 16:9 %u00B7 1280x720 %u00B7 720p'', vs_resolution = Some (lit ''720p'')\<rparr>,
      \<lparr>vs_value = lit ''720x1280'', vs_label = ulit ''%u7AD6%u5C4F 9:16 %u00B7 720x1280 %u00B7 720p'', vs_resolution = Some (lit ''720p'')\<rparr>,
      \<lparr>vs_value = lit ''960x960'', vs_label = ulit ''%u65B9%u5F62 1:1 %u00B7 960x960 %u00B7 720p'', vs_resolution = Some (lit ''720p'')\<rparr>,
      \<lparr>vs_value = lit ''1888x1072'', vs_label = ulit ''%u6A2A%u5C4F 16:9 %u00B7 1888x1072 %u00B7 1080p'', vs_resolution = Some (lit ''1080p'')\<rparr>,
      \<lparr>vs_value = lit ''1072x1888'', vs_label = ulit ''%u7AD6%u5C4F 9:16 %u00B7 1072x1888 %u00B7 1080p'', vs_resolution = Some (lit ''1080p'')\<rparr>,
      \<lparr>vs_value = lit ''1424x1424'', vs_label = ulit ''%u65B9%u5F62 1:1 %u00B7 1424x1424 %u00B7 1080p'', vs_resolution = Some (lit ''1080p'')\<rparr>]),
     vd_maxReferenceImages = 0, vd_maxReferenceImagesWithVideo = None, vd_supportsStartEnd = True,
     vd_supportsEndFrame = Some False, vd_requiresStartFrame = Some True,
     vd_supportsVideoAudioReferences = False, vd_maxReferenceVideos = Some 0,
     vd_maxReferenceAudios = Some 0, vd_maxReferenceVideoDuration = None,
     vd_minReferenceVideoDuration = None, vd_maxReferenceAudioDuration = None,
     vd_supportsGenerateAudio = True, vd_alwaysGenerateAudio = None, vd_promptMax = 5000\<rparr>"

definition baseVideoModelDocs :: "(jstr \<times> VideoModelDoc) list" where
  "baseVideoModelDocs =
     [(lit ''adobe:kling-3.0-omni'', video_doc_adobe_kling_3_0_omni),
      (lit ''adobe:veo-3.1'', video_doc_adobe_veo_3_1),
      (lit ''adobe:veo-3.1-fast'', video_doc_adobe_veo_3_1_fast),
      (lit ''adobe:seedance-2.0'', video_doc_adobe_seedance_2_0),
      (lit ''adobe:seedance-2.0-fast'', video_doc_adobe_seedance_2_0_fast),
      (lit ''gemini-omni-flash'', video_doc_gemini_omni_flash),
      (lit ''happy-horse-1.1'', video_doc_happy_horse_1_1),
      (lit ''kling-3.0'', video_doc_kling_3_0),
      (lit ''kling-3.0-turbo'', video_doc_kling_3_0_turbo),
      (lit ''hailuo-2.3'', video_doc_hailuo_2_3),
      (lit ''wan-2.7'', video_doc_wan_2_7),
      (lit ''flux-3-video'', video_doc_flux_3_video),
      (lit ''seedance-2.0'', video_doc_seedance_2_0),
      (lit ''seedance-2.0-fast'', video_doc_seedance_2_0_fast),
      (lit ''seedance-2.0-mini'', video_doc_seedance_2_0_mini),
      (lit ''seedance-2.5'', video_doc_seedance_2_5),
      (lit ''veo-3.1'', video_doc_veo_3_1),
      (lit ''veo-3.1-fast'', video_doc_veo_3_1_fast),
      (lit ''kling-o3-omni'', video_doc_kling_o3_omni),
      (lit ''minimax-h3'', video_doc_minimax_h3),
      (lit ''grok-imagine-1.5'', video_doc_grok_imagine_1_5)]"

definition audio_doc_dialogue_v3 :: AudioModelDoc where
  "audio_doc_dialogue_v3 = \<lparr>ad_name = lit ''Dialogue V3'', ad_role = ulit ''%u6587%u672C%u8F6C%u8BED%u97F3'',
     ad_use = ulit ''%u5C06%u6587%u672C%u8F6C%u6362%u4E3A%u5355%u4EBA%u8BED%u97F3%uFF0C%u4F7F%u7528%u516C%u5F00%u8BED%u97F3%u522B%u540D%u9009%u62E9%u58F0%u97F3%u3002'',
     ad_price = ulit ''90 %u79EF%u5206 / 1000 %u5B57%u7B26 / %u6761'',
     ad_limits = [ulit ''%u6587%u672C%u6700%u957F 5,000 %u4E2A%u5B57%u7B26'',
      ulit ''%u6BCF%u6B21 1%u20134 %u6761%uFF1Bvoice%u3001language%u3001prompt_influence %u53EF%u7528''],
     ad_promptMax = 5000\<rparr>"

definition audio_doc_music_v1 :: AudioModelDoc where
  "audio_doc_music_v1 = \<lparr>ad_name = lit ''Music V1'', ad_role = ulit ''%u63D0%u793A%u8BCD%u914D%u4E50'',
     ad_use = ulit ''%u6839%u636E%u6587%u5B57%u63CF%u8FF0%u751F%u6210%u97F3%u4E50%uFF0C%u53EF%u8981%u6C42%u7EAF%u97F3%u4E50%u3002%u65F6%u957F%u4EE5%u6574%u5206%u949F%u8BA1%u8D39%u3002'',
     ad_price = ulit ''700 %u79EF%u5206 / %u5206%u949F / %u6761'',
     ad_limits = [ulit ''duration_minutes %u4EC5%u652F%u6301 1%u201310'',
      ulit ''%u63D0%u793A%u8BCD%u6700%u591A 9,999 %u4E2A Unicode %u5B57%u7B26'',
      ulit ''%u6BCF%u6B21 1%u20134 %u6761%uFF1B%u4EC5%u63A5%u53D7 force_instrumental''],
     ad_promptMax = 9999\<rparr>"

definition audio_doc_sound_effects_v2 :: AudioModelDoc where
  "audio_doc_sound_effects_v2 = \<lparr>ad_name = lit ''Sound Effects V2'', ad_role = ulit ''%u63D0%u793A%u8BCD%u97F3%u6548'',
     ad_use = ulit ''%u751F%u6210%u77ED%u97F3%u6548%u6216%u73AF%u5883%u58F0%uFF1B%u53EF%u9009%u62E9%u5FAA%u73AF%u8F93%u51FA%u3002'',
     ad_price = ulit ''2 %u79EF%u5206 / %u79D2 / %u6761'',
     ad_limits = [ulit ''duration %u4EC5%u652F%u6301 1%u201322 %u79D2'',
      ulit ''%u63D0%u793A%u8BCD%u6700%u591A 9,999 %u4E2A Unicode %u5B57%u7B26'',
      ulit ''%u6BCF%u6B21 1%u20134 %u6761%uFF1B%u652F%u6301 loop%u3001prompt_influence''],
     ad_promptMax = 9999\<rparr>"

definition audioModelDocs :: "(jstr \<times> AudioModelDoc) list" where
  "audioModelDocs =
     [(lit ''dialogue-v3'', audio_doc_dialogue_v3),
      (lit ''music-v1'', audio_doc_music_v1),
      (lit ''sound-effects-v2'', audio_doc_sound_effects_v2)]"

definition audioVoices :: "jstr list" where
  "audioVoices = map lit
     [''roger'', ''sarah'', ''laura'', ''charlie'', ''george'', ''callum'', ''river'', ''harry'',
      ''liam'', ''alice'', ''matilda'', ''will'', ''jessica'', ''eric'', ''bella'', ''chris'',
      ''brian'', ''daniel'', ''lily'', ''adam'', ''bill'']"

section \<open>Creative Fabrica names and documents\<close>

text \<open>
  \<open>id.split(/[-_]/)\<close>. A word is looked up in lower case, so the only property of
  Object.prototype it can reach is \<open>constructor\<close>, the function Object, which joins as its text.
\<close>

fun split_words :: "jstr \<Rightarrow> jstr list" where
  "split_words [] = [[]]"
| "split_words (c # s) =
     (if c = 45 \<or> c = 95 then [] # split_words s
      else case split_words s of [] \<Rightarrow> [[c]] | w # ws \<Rightarrow> (c # w) # ws)"

definition word_name :: "jstr \<Rightarrow> jstr" where
  "word_name word = (case obj_get modelNameWords (to_lower word) of
       Inl _ \<Rightarrow> lit ''function Object() { [native code] }''
     | Inr name \<Rightarrow> or_str (opt_str name) word)"

definition creativeFabricaModelName :: "jstr \<Rightarrow> jstr" where
  "creativeFabricaModelName model =
     (let id = (if starts_with model (lit ''creativefabrica:'')
                then drop (length (lit ''creativefabrica:'')) model else model) in
      js_join (lit '' '') (map word_name (filter (\<lambda>w. w \<noteq> []) (split_words id))))"

definition creativeFabrica_image_doc :: "jstr \<Rightarrow> ImageModelDoc" where
  "creativeFabrica_image_doc model = \<lparr>id_name = creativeFabricaModelName model,
     id_role = ulit ''Creative Fabrica %u56FE%u50CF%u6A21%u578B'',
     id_use = ulit ''%u901A%u8FC7 Creative Fabrica Studio Flow %u5F02%u6B65%u751F%u6210%u6216%u7F16%u8F91%u56FE%u7247%uFF1B%u5B9E%u9645%u53EF%u7528%u9009%u9879%u548C Coins %u4EF7%u683C%u4EE5%u8D26%u53F7%u540C%u6B65%u5230%u7684%u4E0A%u6E38%u76EE%u5F55%u4E3A%u51C6%u3002'',
     id_strengths = [ulit ''Flow %u5F02%u6B65%u4EFB%u52A1'', ulit ''%u652F%u6301%u53C2%u8003%u56FE%u8DEF%u5F84'', ulit ''%u6309%u8D26%u53F7%u52A8%u6001%u8BFB%u53D6 Coins %u4EF7%u683C''],
     id_limits = [ulit ''%u6A21%u578B%u53EF%u7528%u6027%u53D6%u51B3%u4E8E%u8D26%u53F7%u6743%u76CA'',
       ulit ''%u5C3A%u5BF8%u6309%u753B%u5E45%u6620%u5C04%uFF0C%u7CBE%u786E%u8F93%u51FA%u6863%u7531%u4E0A%u6E38%u6A21%u578B%u51B3%u5B9A'',
       ulit ''%u63D0%u4EA4%u524D%u9700%u8981%u5DF2%u6709%u52A8%u6001%u4EF7%u683C%u89C4%u5219''],
     id_quality = ulit ''%u7531 Creative Fabrica %u6A21%u578B%u51B3%u5B9A'',
     id_size = ulit ''%u652F%u6301%u5E38%u7528%u6A2A%u5C4F%u3001%u7AD6%u5C4F%u3001%u65B9%u5F62%u548C%u7535%u5F71%u753B%u5E45%uFF1B%u7F51%u5173%u5C06%u5C3A%u5BF8%u8F6C%u6362%u4E3A Flow %u753B%u5E45%u679A%u4E3E'',
     id_sizeNote = ulit ''Creative Fabrica Flow %u5F53%u524D%u6309%u753B%u5E45%u63D0%u4EA4%uFF1B%u8868%u5185%u5C3A%u5BF8%u7528%u4E8E%u9009%u62E9%u753B%u5E45%uFF0C%u6700%u7EC8%u8F93%u51FA%u5C3A%u5BF8%u7531%u6A21%u578B%u548C%u8D26%u53F7%u76EE%u5F55%u51B3%u5B9A%u3002'',
     id_quantity = ulit ''1 %u5F20%uFF1B%u4EE5%u8D26%u53F7%u6A21%u578B%u76EE%u5F55%u548C%u4EF7%u683C%u89C4%u5219%u4E3A%u51C6'',
     id_promptMax = 9999, id_customSize = None\<rparr>"

definition creativeFabricaImageDocs :: "(jstr \<times> ImageModelDoc) list" where
  "creativeFabricaImageDocs =
     map (\<lambda>model. (model, creativeFabrica_image_doc model)) (pp_models creativefabrica Image)"

definition imageModelDocs :: "(jstr \<times> ImageModelDoc) list" where
  "imageModelDocs = spread baseImageModelDocs creativeFabricaImageDocs"

definition creativeFabrica_video_doc :: "jstr \<Rightarrow> VideoModelDoc" where
  "creativeFabrica_video_doc model =
     (let isHeyGen = str_includes model (lit ''heygen'') in
      \<lparr>vd_name = creativeFabricaModelName model,
       vd_role = ulit ''Creative Fabrica %u89C6%u9891%u6A21%u578B'',
       vd_use = ulit ''%u901A%u8FC7 Creative Fabrica Studio Media Matrix %u5F02%u6B65%u751F%u6210%u89C6%u9891%uFF1B%u5B9E%u9645%u53EF%u7528%u53C2%u6570%u3001%u53C2%u8003%u5A92%u4F53%u80FD%u529B%u548C Coins %u4EF7%u683C%u4EE5%u8D26%u53F7%u540C%u6B65%u5230%u7684%u4E0A%u6E38%u76EE%u5F55%u4E3A%u51C6%u3002'',
       vd_duration = ulit ''3%u201315 %u79D2%uFF08%u4EE5%u8D26%u53F7%u6A21%u578B%u76EE%u5F55%u4E3A%u51C6%uFF09'',
       vd_resolution = ulit ''720p / 1080p%uFF08%u753B%u5E45%u4E0E%u8D26%u53F7%u76EE%u5F55%u7ED1%u5B9A%uFF09'',
       vd_limits = [ulit ''%u6A21%u578B%u53EF%u7528%u6027%u53D6%u51B3%u4E8E%u8D26%u53F7%u6743%u76CA%u548C%u5B9E%u65F6%u76EE%u5F55'',
         if isHeyGen then ulit ''%u5F53%u524D%u7F51%u5173%u6309%u6587%u672C%u89C6%u9891%u8DEF%u5F84%u5C55%u793A''
         else ulit ''%u53C2%u8003%u5A92%u4F53%u80FD%u529B%u4EE5%u5B9E%u65F6%u6A21%u578B%u76EE%u5F55%u4E3A%u51C6%uFF0C%u63D0%u4EA4%u524D%u4F1A%u7531%u4E0A%u6E38%u6821%u9A8C'',
         ulit ''%u63D0%u4EA4%u524D%u9700%u8981%u5DF2%u6709%u52A8%u6001%u4EF7%u683C%u89C4%u5219''],
       vd_durationValues = array_from 13 3, vd_defaultDuration = 5,
       vd_resolutions = map lit [''720p'', ''1080p''],
       vd_sizes = Some standardVideoSizes,
       vd_maxReferenceImages = (if isHeyGen then 0 else 10),
       vd_maxReferenceImagesWithVideo = None,
       vd_supportsStartEnd = (\<not> isHeyGen),
       vd_supportsEndFrame = Some (\<not> isHeyGen),
       vd_requiresStartFrame = None,
       vd_supportsVideoAudioReferences = (\<not> isHeyGen),
       vd_maxReferenceVideos = Some (if isHeyGen then 0 else 10),
       vd_maxReferenceAudios = Some (if isHeyGen then 0 else 10),
       vd_maxReferenceVideoDuration = (if isHeyGen then None else Some (302 / 10)),
       vd_minReferenceVideoDuration = None,
       vd_maxReferenceAudioDuration = (if isHeyGen then None else Some (302 / 10)),
       vd_supportsGenerateAudio = False, vd_alwaysGenerateAudio = None,
       vd_promptMax = 9999\<rparr>)"

text \<open>The entry that is assigned again after the table is built: a copy with other fields.\<close>

definition seedance_v2_mini :: jstr where
  "seedance_v2_mini = lit ''creativefabrica:seedance_v2_mini''"

definition seedance_v2_mini_doc :: VideoModelDoc where
  "seedance_v2_mini_doc = (creativeFabrica_video_doc seedance_v2_mini)
     \<lparr>vd_duration := ulit ''4%u201315 %u79D2'',
      vd_durationValues := array_from 12 4,
      vd_defaultDuration := 4,
      vd_resolution := lit ''480p / 720p'',
      vd_resolutions := map lit [''480p'', ''720p''],
      vd_maxReferenceImages := 9,
      vd_maxReferenceVideos := Some 3,
      vd_maxReferenceAudios := Some 3,
      vd_maxReferenceVideoDuration := Some 15,
      vd_maxReferenceAudioDuration := Some 15,
      vd_promptMax := 4096,
      vd_limits := [ulit ''%u666E%u901A%u53C2%u8003%u56FE%u6700%u591A 9 %u5F20%uFF1B%u53C2%u8003%u89C6%u9891%u6700%u591A 3 %u4E2A%uFF1B%u53C2%u8003%u97F3%u9891%u6700%u591A 3 %u4E2A'',
        ulit ''%u666E%u901A%u56FE%u7247%u3001%u89C6%u9891%u548C%u97F3%u9891%u5408%u8BA1%u6700%u591A 9 %u4E2A%uFF1B%u53C2%u8003%u97F3%u9891%u9700%u8981%u540C%u65F6%u63D0%u4F9B%u56FE%u7247%u6216%u89C6%u9891'',
        ulit ''%u9996%u5E27/%u5C3E%u5E27%u4E0E%u666E%u901A%u53C2%u8003%u5A92%u4F53%u4E92%u65A5%uFF0C%u5C3E%u5E27%u9700%u8981%u9996%u5E27'']\<rparr>"

definition creativeFabricaVideoDocs :: "(jstr \<times> VideoModelDoc) list" where
  "creativeFabricaVideoDocs = map_set seedance_v2_mini seedance_v2_mini_doc
     (map (\<lambda>model. (model, creativeFabrica_video_doc model)) (pp_models creativefabrica Video))"

definition videoModelDocs :: "(jstr \<times> VideoModelDoc) list" where
  "videoModelDocs = spread baseVideoModelDocs creativeFabricaVideoDocs"

section \<open>Reading the video documents\<close>

text \<open>
  \<open>modelVideoSizes(model)\<close> of a property of Object.prototype is the standard list, because
  the object found has no \<open>sizes\<close>. A field that is read but not there makes the result the error
  \<open>InheritedProperty\<close>.
\<close>

definition video_doc :: "jstr \<Rightarrow> VideoModelDoc res" where
  "video_doc model = bindr (obj_get videoModelDocs model) (\<lambda>d. case d of
       None \<Rightarrow> Inl TypeError | Some doc \<Rightarrow> Inr doc)"

definition doc_sizes :: "VideoModelDoc \<Rightarrow> VideoSize list" where
  "doc_sizes doc = nullish (vd_sizes doc) standardVideoSizes"

definition modelVideoSizes :: "jstr \<Rightarrow> VideoSize list res" where
  "modelVideoSizes model = (case video_doc model of
       Inl (InheritedProperty k) \<Rightarrow> Inr standardVideoSizes
     | Inl e \<Rightarrow> Inl e
     | Inr doc \<Rightarrow> Inr (doc_sizes doc))"

definition supportsVideoEndFrame :: "VideoModelDoc \<Rightarrow> bool" where
  "supportsVideoEndFrame spec = nullish (vd_supportsEndFrame spec) (vd_supportsStartEnd spec)"

definition videoResolutionForSize :: "jstr \<Rightarrow> jstr \<Rightarrow> jstr option res" where
  "videoResolutionForSize model value =
     bindr (modelVideoSizes model) (\<lambda>sizes.
       Inr (case find (\<lambda>option. vs_value option = value) sizes of
              None \<Rightarrow> None | Some option \<Rightarrow> vs_resolution option))"

definition model_resolutions :: "jstr \<Rightarrow> jstr list res" where
  "model_resolutions model = bindr (video_doc model) (\<lambda>doc. Inr (vd_resolutions doc))"

definition defaultVideoResolution :: "jstr \<Rightarrow> jstr option res" where
  "defaultVideoResolution model =
     bindr (modelVideoSizes model) (\<lambda>sizes. case sizes of
       [] \<Rightarrow> Inl TypeError
     | firstSize # _ \<Rightarrow>
         if opt_str (vs_resolution firstSize) \<noteq> [] then Inr (vs_resolution firstSize)
         else bindr (model_resolutions model) (\<lambda>rs. Inr (case rs of [] \<Rightarrow> None | r # _ \<Rightarrow> Some r)))"

definition videoResolutionsForSize :: "jstr \<Rightarrow> jstr \<Rightarrow> jstr list res" where
  "videoResolutionsForSize model value =
     bindr (videoResolutionForSize model value) (\<lambda>resolution.
       if opt_str resolution \<noteq> [] then Inr [opt_str resolution] else model_resolutions model)"

definition maxVideoReferences :: "VideoModelDoc \<Rightarrow> nat" where
  "maxVideoReferences spec =
     nullish (vd_maxReferenceVideos spec) (if vd_supportsVideoAudioReferences spec then 3 else 0)"

definition maxImageReferences :: "VideoModelDoc \<Rightarrow> bool \<Rightarrow> nat" where
  "maxImageReferences spec withVideo =
     (if withVideo then nullish (vd_maxReferenceImagesWithVideo spec) (vd_maxReferenceImages spec)
      else vd_maxReferenceImages spec)"

definition maxAudioReferences :: "VideoModelDoc \<Rightarrow> nat" where
  "maxAudioReferences spec =
     nullish (vd_maxReferenceAudios spec) (if vd_supportsVideoAudioReferences spec then 1 else 0)"

section \<open>The tables are well formed\<close>

lemma map_of_spread:
  assumes "distinct (map fst b)"
  shows "map_of (spread a b) = map_of a ++ map_of b"
  using assms
proof (induction b rule: rev_induct)
  case (snoc e b)
  obtain k v where e: "e = (k, v)" by force
  with snoc have "map_of b k = None" by (force simp: map_of_eq_None_iff)
  have "map_of (spread a (b @ [e])) = (map_of a ++ map_of b)(k \<mapsto> v)"
    using snoc e by (simp add: spread_def map_of_map_set)
  also have "\<dots> = map_of a ++ map_of (b @ [e])"
    using e \<open>map_of b k = None\<close> by (auto simp: map_add_def split: option.splits)
  finally show ?case .
qed (simp add: spread_def)

lemma set_spread:
  assumes "distinct (map fst a)" "distinct (map fst b)"
  shows "(k, v) \<in> set (spread a b) \<longleftrightarrow> map_of (spread a b) k = Some v"
proof -
  have "jmap_ok a" using assms by (simp add: jmap_ok_def map_keys_def)
  then have "jmap_ok (spread a b)" unfolding spread_def by (rule jmap.ok_fold_put)
  then show ?thesis by (simp add: jmap_ok_def map_keys_def)
qed

definition sizes_ok :: "VideoSize list \<Rightarrow> bool" where
  "sizes_ok sizes \<longleftrightarrow> sizes \<noteq> [] \<and> distinct (map vs_value sizes)"

text \<open>A size either fixes its resolution or leaves it to a document with a single one.\<close>

definition size_resolution :: "VideoModelDoc \<Rightarrow> VideoSize \<Rightarrow> jstr" where
  "size_resolution doc s = or_str (opt_str (vs_resolution s)) (hd (vd_resolutions doc))"

definition single_resolution :: "VideoModelDoc \<Rightarrow> bool" where
  "single_resolution doc \<longleftrightarrow> (\<forall>s \<in> set (doc_sizes doc).
     opt_str (vs_resolution s) = [] \<longrightarrow> length (vd_resolutions doc) = 1)"

definition resolutions_cover :: "VideoModelDoc \<Rightarrow> bool" where
  "resolutions_cover doc \<longleftrightarrow>
     (\<forall>s \<in> set (doc_sizes doc). size_resolution doc s \<in> set (vd_resolutions doc))"

definition resolutions_uniform :: "VideoModelDoc \<Rightarrow> bool" where
  "resolutions_uniform doc \<longleftrightarrow> (\<forall>s \<in> set (doc_sizes doc). opt_str (vs_resolution s) = []) \<or>
     (\<forall>s \<in> set (doc_sizes doc). opt_str (vs_resolution s) \<noteq> [])"

definition video_doc_ok :: "VideoModelDoc \<Rightarrow> bool" where
  "video_doc_ok doc \<longleftrightarrow>
     vd_defaultDuration doc \<in> set (vd_durationValues doc) \<and> sorted_wrt (<) (vd_durationValues doc) \<and>
     vd_resolutions doc \<noteq> [] \<and> distinct (vd_resolutions doc) \<and> [] \<notin> set (vd_resolutions doc) \<and>
     sizes_ok (doc_sizes doc) \<and> single_resolution doc \<and>
     (supportsVideoEndFrame doc \<longrightarrow> vd_supportsStartEnd doc) \<and>
     (vd_requiresStartFrame doc = Some True \<longrightarrow> vd_supportsStartEnd doc) \<and>
     nullish (vd_maxReferenceImagesWithVideo doc) (vd_maxReferenceImages doc) \<le> vd_maxReferenceImages doc \<and>
     resolutions_uniform doc \<and> 0 < vd_promptMax doc"

lemmas size_tables = standardVideoSizes_def adobeVeoSizes_def adobeSeedanceSizes_def
  adobeSeedance1080Sizes_def

lemma array_from_sorted: "sorted_wrt (<) (array_from n k)"
  by (simp add: array_from_def sorted_wrt_map)

lemma mem_array_from: "i \<in> set (array_from n k) \<longleftrightarrow> k \<le> i \<and> i < k + int n"
  by (auto simp: array_from_def intro!: image_eqI [where x = "nat (i - k)"])

lemmas doc_ok_simps = video_doc_ok_def doc_sizes_def supportsVideoEndFrame_def array_from_sorted
  mem_array_from

lemmas cover_simps = resolutions_cover_def resolutions_uniform_def single_resolution_def size_resolution_def doc_sizes_def
  sizes_ok_def size_tables or_str_def

lemma video_doc_adobe_kling_3_0_omni_ok: "video_doc_ok video_doc_adobe_kling_3_0_omni" "resolutions_cover video_doc_adobe_kling_3_0_omni"
  by (simp_all add: doc_ok_simps cover_simps video_doc_adobe_kling_3_0_omni_def)

lemma video_doc_adobe_veo_3_1_ok: "video_doc_ok video_doc_adobe_veo_3_1" "resolutions_cover video_doc_adobe_veo_3_1"
  by (simp_all add: doc_ok_simps cover_simps video_doc_adobe_veo_3_1_def)

lemma video_doc_adobe_veo_3_1_fast_ok: "video_doc_ok video_doc_adobe_veo_3_1_fast" "resolutions_cover video_doc_adobe_veo_3_1_fast"
  by (simp_all add: doc_ok_simps cover_simps video_doc_adobe_veo_3_1_fast_def)

lemma video_doc_adobe_seedance_2_0_ok: "video_doc_ok video_doc_adobe_seedance_2_0" "resolutions_cover video_doc_adobe_seedance_2_0"
  by (simp_all add: doc_ok_simps cover_simps video_doc_adobe_seedance_2_0_def)

lemma video_doc_adobe_seedance_2_0_fast_ok: "video_doc_ok video_doc_adobe_seedance_2_0_fast" "resolutions_cover video_doc_adobe_seedance_2_0_fast"
  by (simp_all add: doc_ok_simps cover_simps video_doc_adobe_seedance_2_0_fast_def)

lemma video_doc_gemini_omni_flash_ok: "video_doc_ok video_doc_gemini_omni_flash" "resolutions_cover video_doc_gemini_omni_flash"
  by (simp_all add: doc_ok_simps cover_simps video_doc_gemini_omni_flash_def)

lemma video_doc_happy_horse_1_1_ok: "video_doc_ok video_doc_happy_horse_1_1" "resolutions_cover video_doc_happy_horse_1_1"
  by (simp_all add: doc_ok_simps cover_simps video_doc_happy_horse_1_1_def)

lemma video_doc_kling_3_0_ok: "video_doc_ok video_doc_kling_3_0" "resolutions_cover video_doc_kling_3_0"
  by (simp_all add: doc_ok_simps cover_simps video_doc_kling_3_0_def)

lemma video_doc_kling_3_0_turbo_ok: "video_doc_ok video_doc_kling_3_0_turbo" "resolutions_cover video_doc_kling_3_0_turbo"
  by (simp_all add: doc_ok_simps cover_simps video_doc_kling_3_0_turbo_def)

lemma video_doc_hailuo_2_3_ok: "video_doc_ok video_doc_hailuo_2_3" "\<not> resolutions_cover video_doc_hailuo_2_3"
  by (simp_all add: doc_ok_simps cover_simps video_doc_hailuo_2_3_def)

lemma video_doc_wan_2_7_ok: "video_doc_ok video_doc_wan_2_7" "resolutions_cover video_doc_wan_2_7"
  by (simp_all add: doc_ok_simps cover_simps video_doc_wan_2_7_def)

lemma video_doc_flux_3_video_ok: "video_doc_ok video_doc_flux_3_video" "resolutions_cover video_doc_flux_3_video"
  by (simp_all add: doc_ok_simps cover_simps video_doc_flux_3_video_def)

lemma video_doc_seedance_2_0_ok: "video_doc_ok video_doc_seedance_2_0" "resolutions_cover video_doc_seedance_2_0"
  by (simp_all add: doc_ok_simps cover_simps video_doc_seedance_2_0_def)

lemma video_doc_seedance_2_0_fast_ok: "video_doc_ok video_doc_seedance_2_0_fast" "resolutions_cover video_doc_seedance_2_0_fast"
  by (simp_all add: doc_ok_simps cover_simps video_doc_seedance_2_0_fast_def)

lemma video_doc_seedance_2_0_mini_ok: "video_doc_ok video_doc_seedance_2_0_mini" "resolutions_cover video_doc_seedance_2_0_mini"
  by (simp_all add: doc_ok_simps cover_simps video_doc_seedance_2_0_mini_def)

lemma video_doc_seedance_2_5_ok: "video_doc_ok video_doc_seedance_2_5" "resolutions_cover video_doc_seedance_2_5"
  by (simp_all add: doc_ok_simps cover_simps video_doc_seedance_2_5_def)

lemma video_doc_veo_3_1_ok: "video_doc_ok video_doc_veo_3_1" "resolutions_cover video_doc_veo_3_1"
  by (simp_all add: doc_ok_simps cover_simps video_doc_veo_3_1_def)

lemma video_doc_veo_3_1_fast_ok: "video_doc_ok video_doc_veo_3_1_fast" "resolutions_cover video_doc_veo_3_1_fast"
  by (simp_all add: doc_ok_simps cover_simps video_doc_veo_3_1_fast_def)

lemma video_doc_kling_o3_omni_ok: "video_doc_ok video_doc_kling_o3_omni" "resolutions_cover video_doc_kling_o3_omni"
  by (simp_all add: doc_ok_simps cover_simps video_doc_kling_o3_omni_def)

lemma video_doc_minimax_h3_ok: "video_doc_ok video_doc_minimax_h3" "resolutions_cover video_doc_minimax_h3"
  by (simp_all add: doc_ok_simps cover_simps video_doc_minimax_h3_def)

lemma video_doc_grok_imagine_1_5_ok: "video_doc_ok video_doc_grok_imagine_1_5" "resolutions_cover video_doc_grok_imagine_1_5"
  by (simp_all add: doc_ok_simps cover_simps video_doc_grok_imagine_1_5_def)

lemma base_docs_ok: "(m, doc) \<in> set baseVideoModelDocs \<Longrightarrow>
    video_doc_ok doc \<and> (resolutions_cover doc \<longleftrightarrow> m \<noteq> lit ''hailuo-2.3'')"
  by (auto simp: baseVideoModelDocs_def
      video_doc_adobe_kling_3_0_omni_ok video_doc_adobe_veo_3_1_ok video_doc_adobe_veo_3_1_fast_ok
      video_doc_adobe_seedance_2_0_ok video_doc_adobe_seedance_2_0_fast_ok video_doc_gemini_omni_flash_ok
      video_doc_happy_horse_1_1_ok video_doc_kling_3_0_ok video_doc_kling_3_0_turbo_ok
      video_doc_hailuo_2_3_ok video_doc_wan_2_7_ok video_doc_flux_3_video_ok
      video_doc_seedance_2_0_ok video_doc_seedance_2_0_fast_ok video_doc_seedance_2_0_mini_ok
      video_doc_seedance_2_5_ok video_doc_veo_3_1_ok video_doc_veo_3_1_fast_ok
      video_doc_kling_o3_omni_ok video_doc_minimax_h3_ok video_doc_grok_imagine_1_5_ok)

lemma cf_doc_ok: "video_doc_ok (creativeFabrica_video_doc m)"
  "resolutions_cover (creativeFabrica_video_doc m)"
  by (simp_all add: cover_simps doc_ok_simps creativeFabrica_video_doc_def Let_def)

lemma mini_doc_ok: "video_doc_ok seedance_v2_mini_doc" "resolutions_cover seedance_v2_mini_doc"
  by (simp_all add: cover_simps doc_ok_simps seedance_v2_mini_doc_def creativeFabrica_video_doc_def Let_def)

section \<open>Reading them\<close>

lemma cf_docs_distinct: "distinct (map fst creativeFabricaVideoDocs)"
proof -
  have "distinct (pp_models creativefabrica Video)"
    by (simp add: creativefabrica_def creativefabrica_video_models_def)
  then have "jmap_ok (map (\<lambda>m. (m, creativeFabrica_video_doc m)) (pp_models creativefabrica Video))"
    by (simp add: jmap_ok_def map_keys_def comp_def)
  then show ?thesis
    unfolding creativeFabricaVideoDocs_def by (metis jmap.ok_put jmap_ok_def map_keys_def)
qed

lemma base_docs_distinct: "distinct (map fst baseVideoModelDocs)"
  by (simp add: baseVideoModelDocs_def)

lemma videoModelDocs_lookup:
  "map_of videoModelDocs m = (case map_of creativeFabricaVideoDocs m of
     None \<Rightarrow> map_of baseVideoModelDocs m | Some d \<Rightarrow> Some d)"
  using map_of_spread [OF cf_docs_distinct, of baseVideoModelDocs]
  by (simp add: videoModelDocs_def map_add_def)

lemma imageModelDocs_lookup:
  "map_of imageModelDocs m =
     (if m \<in> set creativefabrica_image_models then Some (creativeFabrica_image_doc m) else map_of baseImageModelDocs m)"
proof -
  have images: "pp_models creativefabrica Image = creativefabrica_image_models" by (simp add: creativefabrica_def)
  have "distinct (map fst creativeFabricaImageDocs)"
    by (simp add: creativeFabricaImageDocs_def images comp_def) (simp add: creativefabrica_image_models_def)
  then have "map_of imageModelDocs m = (map_of baseImageModelDocs ++ map_of creativeFabricaImageDocs) m"
    by (simp add: imageModelDocs_def map_of_spread)
  moreover have "map_of (map (\<lambda>m. (m, creativeFabrica_image_doc m)) xs) m =
    (if m \<in> set xs then Some (creativeFabrica_image_doc m) else None)" for xs
    by (induction xs) auto
  ultimately show ?thesis by (simp add: creativeFabricaImageDocs_def images map_add_def)
qed

lemma creativeFabricaVideoDocs_lookup:
  "map_of creativeFabricaVideoDocs m =
     (if m = seedance_v2_mini then Some seedance_v2_mini_doc
      else if m \<in> set creativefabrica_video_models then Some (creativeFabrica_video_doc m)
      else None)"
proof -
  have "map_of (map (\<lambda>m. (m, creativeFabrica_video_doc m)) xs) m =
    (if m \<in> set xs then Some (creativeFabrica_video_doc m) else None)" for xs
    by (induction xs) auto
  then show ?thesis
    by (simp add: creativeFabricaVideoDocs_def map_of_map_set creativefabrica_def)
qed

lemma documented_ok:
  assumes "map_of videoModelDocs m = Some doc"
  shows "video_doc_ok doc \<and> (resolutions_cover doc \<longleftrightarrow> m \<noteq> lit ''hailuo-2.3'')"
proof (cases "map_of creativeFabricaVideoDocs m")
  case None
  with assms show ?thesis
    using base_docs_ok [OF map_of_SomeD] by (simp add: videoModelDocs_lookup)
next
  case (Some d)
  then have "m \<noteq> lit ''hailuo-2.3''"
    by (auto simp: creativeFabricaVideoDocs_lookup creativefabrica_video_models_def
        seedance_v2_mini_def split: if_splits)
  with assms Some show ?thesis
    using cf_doc_ok mini_doc_ok
    by (auto simp: videoModelDocs_lookup creativeFabricaVideoDocs_lookup split: if_splits)
qed

lemma video_doc_Some: "map_of videoModelDocs m = Some doc \<Longrightarrow> video_doc m = Inr doc"
  by (simp add: video_doc_def obj_get_own)


lemma videoResolutionForSize_listed:
  assumes doc: "map_of videoModelDocs m = Some doc" and s: "s \<in> set (doc_sizes doc)"
  shows "videoResolutionForSize m (vs_value s) = Inr (vs_resolution s)"
  using documented_ok [OF doc] find_value [OF _ s, of vs_value]
  by (simp add: videoResolutionForSize_def modelVideoSizes_def video_doc_Some [OF doc]
      video_doc_ok_def sizes_ok_def)

lemma videoResolutionsForSize_listed:
  assumes doc: "map_of videoModelDocs m = Some doc" and s: "s \<in> set (doc_sizes doc)"
  shows "videoResolutionsForSize m (vs_value s) = Inr [size_resolution doc s]"
proof -
  have one: "opt_str (vs_resolution s) = [] \<Longrightarrow> vd_resolutions doc = [hd (vd_resolutions doc)]"
    using documented_ok [OF doc] s by (cases "vd_resolutions doc") (auto simp: video_doc_ok_def single_resolution_def)
  show ?thesis
    using videoResolutionForSize_listed [OF doc s] one
    by (simp add: videoResolutionsForSize_def model_resolutions_def video_doc_Some [OF doc]
        size_resolution_def or_str_def)
qed

lemma defaultVideoResolution_listed:
  assumes "map_of videoModelDocs m = Some doc"
  shows "defaultVideoResolution m = Inr (Some (size_resolution doc (hd (doc_sizes doc))))"
proof -
  obtain s ss where sizes: "doc_sizes doc = s # ss"
    using documented_ok [OF assms] by (cases "doc_sizes doc") (auto simp: video_doc_ok_def sizes_ok_def)
  have "vd_resolutions doc \<noteq> []" using documented_ok [OF assms] by (simp add: video_doc_ok_def)
  then show ?thesis
    by (auto simp: defaultVideoResolution_def modelVideoSizes_def model_resolutions_def
        video_doc_Some [OF assms] sizes size_resolution_def or_str_def
        split: list.splits) (cases "vs_resolution s"; simp)+
qed

lemma hailuo_standard:
  "map_of videoModelDocs (lit ''hailuo-2.3'') = Some doc \<Longrightarrow> doc = video_doc_hailuo_2_3"
  by (simp add: videoModelDocs_lookup creativeFabricaVideoDocs_lookup seedance_v2_mini_def
      creativefabrica_video_models_def baseVideoModelDocs_def)

lemma size_resolution_documented:
  assumes doc: "map_of videoModelDocs m = Some doc" and s: "s \<in> set (doc_sizes doc)"
  shows "size_resolution doc s \<in> set (vd_resolutions doc) \<longleftrightarrow> m \<noteq> lit ''hailuo-2.3''"
proof (cases "m = lit ''hailuo-2.3''")
  case True
  with doc s hailuo_standard show ?thesis
    by (auto simp: cover_simps video_doc_hailuo_2_3_def)
next
  case False
  with documented_ok [OF doc] s show ?thesis by (simp add: resolutions_cover_def)
qed

section \<open>Properties\<close>

lemma image_doc_exists:
  assumes "m \<in> set (creativefabrica_image_models @ map fst baseImageModelDocs)"
  shows "\<exists>d. obj_get imageModelDocs m = Inr (Some d)"
proof -
  have "map_of imageModelDocs m \<noteq> None"
    using assms by (cases "m \<in> set creativefabrica_image_models") (simp_all add: imageModelDocs_lookup map_of_eq_None_iff)
  then show ?thesis by (auto dest: obj_get_own)
qed

lemma video_doc_exists:
  assumes "m \<in> set (creativefabrica_video_models @ map fst baseVideoModelDocs)"
  shows "\<exists>d. map_of videoModelDocs m = Some d"
proof (cases "map_of creativeFabricaVideoDocs m")
  case None
  then have "m \<notin> set creativefabrica_video_models"
    by (simp add: creativeFabricaVideoDocs_lookup split: if_splits)
  with assms have "m \<in> dom (map_of baseVideoModelDocs)" by (simp add: dom_map_of_conv_image_fst)
  with None show ?thesis by (auto simp: videoModelDocs_lookup)
qed (simp add: videoModelDocs_lookup)

definition documented :: "MediaKind \<Rightarrow> jstr \<Rightarrow> bool" where
  "documented kind m = (case kind of
       Image \<Rightarrow> m \<in> fst ` set imageModelDocs
     | Video \<Rightarrow> (case video_doc m of Inl _ \<Rightarrow> False | Inr _ \<Rightarrow> True)
     | Audio \<Rightarrow> m \<in> fst ` set audioModelDocs)"

lemma listed_image:
  assumes P: "P = leonardo \<or> P = adobe \<or> P = creativefabrica"
  shows "m \<in> set (pp_models P Image) \<Longrightarrow> m \<in> set (creativefabrica_image_models @ map fst baseImageModelDocs)"
  using P by (auto simp: leonardo_def adobe_def creativefabrica_def baseImageModelDocs_def)

lemma listed_video:
  assumes P: "P = leonardo \<or> P = adobe \<or> P = creativefabrica"
  shows "m \<in> set (pp_models P Video) \<Longrightarrow> m \<in> set (creativefabrica_video_models @ map fst baseVideoModelDocs)"
  using P by (auto simp: leonardo_def adobe_def creativefabrica_def baseVideoModelDocs_def)

lemma listed_audio:
  assumes P: "P = leonardo \<or> P = adobe \<or> P = creativefabrica"
  shows "m \<in> set (pp_models P Audio) \<Longrightarrow> m \<in> fst ` set audioModelDocs"
  using P by (auto simp: leonardo_def adobe_def creativefabrica_def audioModelDocs_def)

text \<open>Every model the registry lists has an entry in the documentation table of its kind, so
  the pages that read an entry for each listed model never meet an undefined one.\<close>

theorem registry_models_documented:
  "\<forall>(p, P) \<in> set providerRegistry. \<forall>kind. \<forall>m \<in> set (pp_models P kind). documented kind m"
proof (clarify, goal_cases)
  case (1 p P kind m)
  from 1 have P: "P = leonardo \<or> P = adobe \<or> P = creativefabrica"
    by (auto simp: providerRegistry_def)
  show ?case
  proof (cases kind)
    case Image
    with 1(2) image_doc_exists [OF listed_image [OF P]] show ?thesis
      by (force simp: documented_def obj_get_def dest: map_of_SomeD split: option.splits if_splits)
  next
    case Video
    with 1(2) obtain d where "map_of videoModelDocs m = Some d"
      using video_doc_exists [OF listed_video [OF P]] by blast
    with Video show ?thesis by (simp add: documented_def video_doc_Some)
  next
    case Audio
    with 1(2) listed_audio [OF P] show ?thesis by (simp add: documented_def)
  qed
qed

theorem registry_models_documented_witness: "documented Video (lit ''kling-3.0'')"
proof -
  have "(lit ''leonardo'', leonardo) \<in> set providerRegistry" by (simp add: providerRegistry_def)
  moreover have "lit ''kling-3.0'' \<in> set (pp_models leonardo Video)" by (simp add: leonardo_def)
  ultimately show ?thesis using registry_models_documented by fast
qed

text \<open>For every documented video model and every size it lists, the resolution selector
  offers exactly one resolution, and that resolution is one the document advertises, except for
  hailuo-2.3, whose 768p and 1080p never match the standard sizes.\<close>

theorem listed_size_one_resolution:
  assumes "map_of videoModelDocs m = Some doc" "s \<in> set (doc_sizes doc)"
  shows "\<exists>r. videoResolutionsForSize m (vs_value s) = Inr [r] \<and>
             (r \<in> set (vd_resolutions doc) \<longleftrightarrow> m \<noteq> lit ''hailuo-2.3'')"
  using videoResolutionsForSize_listed [OF assms] size_resolution_documented [OF assms] by simp

lemma kling_doc: "map_of videoModelDocs (lit ''kling-3.0'') = Some video_doc_kling_3_0"
  and hailuo_doc: "map_of videoModelDocs (lit ''hailuo-2.3'') = Some video_doc_hailuo_2_3"
  by (simp_all add: videoModelDocs_lookup creativeFabricaVideoDocs_lookup seedance_v2_mini_def
      creativefabrica_video_models_def baseVideoModelDocs_def)

theorem listed_size_one_resolution_witness:
  "\<exists>r. videoResolutionsForSize (lit ''hailuo-2.3'') (lit ''1280x720'') = Inr [r] \<and>
       r \<notin> set (vd_resolutions video_doc_hailuo_2_3)"
proof -
  have "hd standardVideoSizes \<in> set (doc_sizes video_doc_hailuo_2_3)"
    by (simp add: doc_sizes_def video_doc_hailuo_2_3_def standardVideoSizes_def)
  from listed_size_one_resolution [OF hailuo_doc this] show ?thesis
    by (simp add: standardVideoSizes_def)
qed

text \<open>The resolution a form starts with is the only one the selector then offers for the
  first size; it is the advertised one for every documented model but hailuo-2.3, for which the
  form starts with a resolution the document does not have.\<close>

theorem default_resolution_matches_first_size:
  assumes "map_of videoModelDocs m = Some doc"
  shows "\<exists>s r. hd (doc_sizes doc) = s \<and> defaultVideoResolution m = Inr (Some r) \<and>
           videoResolutionsForSize m (vs_value s) = Inr [r] \<and>
           (r \<in> set (vd_resolutions doc) \<longleftrightarrow> m \<noteq> lit ''hailuo-2.3'')"
proof -
  have "hd (doc_sizes doc) \<in> set (doc_sizes doc)"
    using documented_ok [OF assms] by (simp add: video_doc_ok_def sizes_ok_def)
  with defaultVideoResolution_listed [OF assms] videoResolutionsForSize_listed [OF assms]
    size_resolution_documented [OF assms] show ?thesis by simp
qed

theorem default_resolution_matches_first_size_witness:
  "\<exists>r. defaultVideoResolution (lit ''hailuo-2.3'') = Inr (Some r) \<and>
       r \<notin> set (vd_resolutions video_doc_hailuo_2_3)"
  using default_resolution_matches_first_size [OF hailuo_doc] by auto

text \<open>A model without sizes of its own, or with the standard list, can only ever be sent at
  720p with a listed size: every other resolution it advertises is out of reach of the form.\<close>

theorem standard_sizes_reach_720p_only:
  assumes "map_of videoModelDocs m = Some doc" "doc_sizes doc = standardVideoSizes"
    and "s \<in> set standardVideoSizes"
  shows "videoResolutionsForSize m (vs_value s) = Inr [lit ''720p'']"
proof -
  have "size_resolution doc s = lit ''720p''"
    using assms(3) by (auto simp: size_resolution_def standardVideoSizes_def or_str_def)
  with videoResolutionsForSize_listed [OF assms(1)] assms(2,3) show ?thesis by simp
qed

theorem standard_sizes_reach_720p_only_witness:
  "videoResolutionsForSize (lit ''kling-3.0'') (lit ''1280x720'') = Inr [lit ''720p''] \<and>
   lit ''2160p'' \<in> set (vd_resolutions video_doc_kling_3_0)"
proof -
  have "doc_sizes video_doc_kling_3_0 = standardVideoSizes"
    by (simp add: doc_sizes_def video_doc_kling_3_0_def)
  moreover have "hd standardVideoSizes \<in> set standardVideoSizes" by (simp add: standardVideoSizes_def)
  moreover have "lit ''2160p'' \<in> set (vd_resolutions video_doc_kling_3_0)"
    by (simp add: video_doc_kling_3_0_def)
  ultimately show ?thesis
    using standard_sizes_reach_720p_only [OF kling_doc] by (fastforce simp: standardVideoSizes_def)
qed


end
