(* ===== verification/Catalog.thy ===== *)
theory Catalog
  imports Providers JsDate
begin

text \<open>
  shared/catalog.ts: which cost rules are current, the price tables computed from them for the
  three kinds of media, the image models and their sizes, and the texts of the catalog pages.
\<close>

section \<open>Current cost rules\<close>

definition rule_key :: "CostRule \<Rightarrow> jstr" where
  "rule_key rule = js_join (lit ''|'')
     [cr_model rule, cr_size rule, cr_quality rule, cr_resolution rule, num_str (cr_duration rule)]"

text \<open>
  Newest first, then the larger id. A time stamp that is not a date is NaN, and so is the
  difference; \<open>NaN || b.id - a.id\<close> is the difference of the ids.
\<close>

definition rule_cmp :: "(int \<Rightarrow> int) \<Rightarrow> CostRule \<Rightarrow> CostRule \<Rightarrow> int" where
  "rule_cmp utc a b =
     (let d = diff_cmp (date_time utc (cr_updated_at b)) (date_time utc (cr_updated_at a)) in
      if d \<noteq> 0 then d else cr_id b - cr_id a)"

text \<open>The filter that remembers the keys it has seen.\<close>

fun first_of_key :: "jstr set \<Rightarrow> CostRule list \<Rightarrow> CostRule list" where
  "first_of_key seen [] = []"
| "first_of_key seen (rule # rules) =
     (if rule_key rule \<in> seen then first_of_key seen rules
      else rule # first_of_key (insert (rule_key rule) seen) rules)"

definition currentCostRules :: "(int \<Rightarrow> int) \<Rightarrow> CostRule list \<Rightarrow> MediaKind \<Rightarrow> CostRule list" where
  "currentCostRules utc rules kind =
     first_of_key {} (js_sort (rule_cmp utc)
       (filter (\<lambda>rule. cr_enabled rule \<and> cr_kind rule = kind) rules))"

section \<open>Price tables\<close>

definition audioRuleLabel :: "jstr \<Rightarrow> int \<Rightarrow> jstr" where
  "audioRuleLabel model duration =
     (if model = lit ''dialogue-v3'' then ulit ''%u6BCF 1000 %u5B57%u7B26''
      else num_str duration @ lit '' '' @
        (if model = lit ''music-v1'' then ulit ''%u5206%u949F'' else ulit ''%u79D2''))"

definition workflow_labels :: "(jstr \<times> jstr) list" where
  "workflow_labels = [(lit ''t2v'', ulit ''%u6587%u751F%u89C6%u9891''),
     (lit ''i2v'', ulit ''%u9996%u5E27 / %u9996%u5C3E%u5E27''), (lit ''rtv'', ulit ''%u53C2%u8003%u56FE'')]"

definition videoWorkflowLabel :: "jstr \<Rightarrow> jstr res" where
  "videoWorkflowLabel workflow =
     bindr (obj_get workflow_labels workflow) (\<lambda>l. Inr (or_str (opt_str l) workflow))"

definition fixed_quality :: jstr where
  "fixed_quality = ulit ''%u56FA%u5B9A%u8D28%u91CF''"

definition quality_label :: "CostRule \<Rightarrow> jstr" where
  "quality_label rule = or_str (cr_quality rule) fixed_quality"

definition capitalize :: "jstr \<Rightarrow> jstr" where
  "capitalize label = to_upper (take 1 label) @ drop 1 label"

text \<open>\<open>modelRules.find(p)?.unit_tokens ?? null\<close>.\<close>

definition price_where :: "(CostRule \<Rightarrow> bool) \<Rightarrow> CostRule list \<Rightarrow> rat option" where
  "price_where p modelRules = map_option cr_unit_tokens (find p modelRules)"

definition price_note :: "CostRule list \<Rightarrow> jstr \<Rightarrow> jstr" where
  "price_note modelRules suffix =
     (case modelRules of [] \<Rightarrow> ulit ''%u672A%u5B9A%u4EF7''
      | r # _ \<Rightarrow> or_str (cr_price_version r) (ulit ''%u672A%u5B9A%u4EF7'')) @ suffix"

definition image_estimate :: "jstr \<Rightarrow> CostRule list \<Rightarrow> PlatformEstimate" where
  "image_estimate model modelRules =
     (let columns = dedup (map cr_size modelRules);
          qualities = dedup (map quality_label modelRules) in
      \<lparr>pe_model = model, pe_columns = columns,
       pe_rows = map (\<lambda>label.
         \<lparr>er_label = (if label = fixed_quality then label else capitalize label),
          er_values = map (\<lambda>value.
            price_where (\<lambda>rule. cr_size rule = value \<and> quality_label rule = label) modelRules) columns\<rparr>)
         qualities,
       pe_note = price_note modelRules (ulit '' %u00B7 %u5355%u5F20%uFF0Cn %u6309%u6570%u91CF%u4E58%u7B97'')\<rparr>)"

definition video_columns :: "CostRule list \<Rightarrow> jstr list" where
  "video_columns modelRules =
     js_sort (\<lambda>a b. diff_cmp (parse_int a) (parse_int b)) (dedup (map cr_resolution modelRules))"

definition video_durations :: "CostRule list \<Rightarrow> int list" where
  "video_durations modelRules = js_sort (\<lambda>a b. a - b) (dedup (map cr_duration modelRules))"

definition workflow_rank :: "jstr \<Rightarrow> int" where
  "workflow_rank w = index_of (map lit [''t2v'', ''i2v'', ''rtv'']) w"

definition video_workflows :: "CostRule list \<Rightarrow> jstr list" where
  "video_workflows modelRules =
     js_sort (\<lambda>a b. workflow_rank a - workflow_rank b)
       (dedup (filter (\<lambda>q. q \<noteq> []) (map cr_quality modelRules)))"

definition video_rows :: "CostRule list \<Rightarrow> (jstr \<times> int) list" where
  "video_rows modelRules =
     (let workflows = video_workflows modelRules; durations = video_durations modelRules in
      if workflows \<noteq> [] then
        concat (map (\<lambda>workflow. map (\<lambda>duration. (workflow, duration)) durations) workflows)
      else map (\<lambda>duration. ([], duration)) durations)"

definition video_price :: "CostRule list \<Rightarrow> jstr \<Rightarrow> int \<Rightarrow> jstr \<Rightarrow> rat option" where
  "video_price modelRules workflow duration resolution =
     price_where (\<lambda>rule. cr_duration rule = duration \<and> cr_resolution rule = resolution \<and>
       cr_quality rule = workflow) modelRules"

definition video_label :: "jstr \<Rightarrow> int \<Rightarrow> jstr res" where
  "video_label workflow duration =
     bindr (if workflow \<noteq> [] then bindr (videoWorkflowLabel workflow) (\<lambda>l. Inr (l @ ulit '' %u00B7 ''))
            else Inr []) (\<lambda>prefix.
       Inr (prefix @ num_str duration @ ulit '' %u79D2''))"

definition video_estimate :: "jstr \<Rightarrow> CostRule list \<Rightarrow> PlatformEstimate res" where
  "video_estimate model modelRules =
     bindr (mapr (\<lambda>(workflow, duration). bindr (video_label workflow duration) (\<lambda>label.
         Inr \<lparr>er_label = label,
              er_values = map (video_price modelRules workflow duration) (video_columns modelRules)\<rparr>))
         (video_rows modelRules)) (\<lambda>rows.
       Inr \<lparr>pe_model = model, pe_columns = video_columns modelRules, pe_rows = rows,
            pe_note = price_note modelRules (ulit '' %u00B7 %u5355%u4E2A%u89C6%u9891'')\<rparr>)"

text \<open>\<open>modelRules.sort\<close> is in place, so the note that follows reads the sorted rules.\<close>

definition audio_estimate :: "jstr \<Rightarrow> CostRule list \<Rightarrow> PlatformEstimate" where
  "audio_estimate model modelRules =
     (let sorted_rules = js_sort (\<lambda>a b. cr_duration a - cr_duration b) modelRules in
      \<lparr>pe_model = model, pe_columns = [ulit ''%u5355%u6761''],
       pe_rows = map (\<lambda>rule. \<lparr>er_label = audioRuleLabel model (cr_duration rule),
                               er_values = [Some (cr_unit_tokens rule)]\<rparr>) sorted_rules,
       pe_note = price_note sorted_rules (ulit '' %u00B7 n %u6309%u6570%u91CF%u4E58%u7B97'')\<rparr>)"

definition costEstimates ::
    "(int \<Rightarrow> int) \<Rightarrow> CostRule list \<Rightarrow> MediaKind \<Rightarrow> PlatformEstimate list res" where
  "costEstimates utc rules kind =
     (let active = currentCostRules utc rules kind in
      mapr (\<lambda>model.
          let modelRules = filter (\<lambda>rule. cr_model rule = model) active in
          (case kind of
             Image \<Rightarrow> Inr (image_estimate model modelRules)
           | Video \<Rightarrow> video_estimate model modelRules
           | Audio \<Rightarrow> Inr (audio_estimate model modelRules)))
        (dedup (map cr_model active)))"

section \<open>Image models and sizes\<close>

definition imageModels :: "jstr list" where
  "imageModels = pp_models leonardo Image @ pp_models adobe Image @ pp_models creativefabrica Image"

definition size_group :: "string \<times> string \<times> string \<times> string \<Rightarrow> ImageSizeGroup" where
  "size_group g = (case g of (ratio, small, medium, large) \<Rightarrow>
     \<lparr>isg_ratio = lit ratio, isg_small = Some (lit small), isg_medium = lit medium,
      isg_large = lit large\<rparr>)"

definition gptImage2SizeGroups :: "ImageSizeGroup list" where
  "gptImage2SizeGroups = map size_group
     [(''1:1'', ''1024x1024'', ''2048x2048'', ''2880x2880''),
      (''2:3'', ''848x1264'', ''1376x2048'', ''2336x3504''),
      (''3:2'', ''1264x848'', ''2048x1376'', ''3504x2336''),
      (''3:4'', ''896x1200'', ''1536x2048'', ''2448x3264''),
      (''4:3'', ''1200x896'', ''2048x1536'', ''3264x2448''),
      (''4:5'', ''928x1152'', ''1648x2048'', ''2560x3200''),
      (''5:4'', ''1152x928'', ''2048x1648'', ''3200x2560''),
      (''9:16'', ''768x1376'', ''1136x2048'', ''2016x3584''),
      (''16:9'', ''1376x768'', ''2048x1136'', ''3584x2016''),
      (''21:9'', ''1584x672'', ''2048x864'', ''3808x1632'')]"

definition nanoBananaSizeGroups :: "ImageSizeGroup list" where
  "nanoBananaSizeGroups = map size_group
     [(''1:1'', ''1024x1024'', ''2048x2048'', ''4096x4096''),
      (''2:3'', ''848x1264'', ''1696x2528'', ''3392x5056''),
      (''3:2'', ''1264x848'', ''2528x1696'', ''5056x3392''),
      (''3:4'', ''896x1200'', ''1792x2400'', ''3584x4800''),
      (''4:3'', ''1200x896'', ''2400x1792'', ''4800x3584''),
      (''4:5'', ''928x1152'', ''1856x2304'', ''3712x4608''),
      (''5:4'', ''1152x928'', ''2304x1856'', ''4608x3712''),
      (''9:16'', ''768x1376'', ''1536x2752'', ''3072x5504''),
      (''16:9'', ''1376x768'', ''2752x1536'', ''5504x3072''),
      (''21:9'', ''1584x672'', ''3168x1344'', ''6336x2688'')]"

definition seedream50ProSizeGroups :: "ImageSizeGroup list" where
  "seedream50ProSizeGroups = map size_group
     [(''1:1'', ''1024x1024'', ''1536x1536'', ''2048x2048''),
      (''2:3'', ''1024x1536'', ''1152x1728'', ''1344x2016''),
      (''16:9'', ''1368x768'', ''1792x1008'', ''2048x1152''),
      (''4:3'', ''1184x888'', ''1536x1152'', ''2048x1536''),
      (''4:5'', ''1024x1280'', ''1296x1620'', ''1632x2040''),
      (''9:16'', ''768x1368'', ''1008x1792'', ''1152x2048''),
      (''2:1'', ''1536x768'', ''1792x896'', ''2048x1024''),
      (''1.85:1'', ''1424x768'', ''1776x960'', ''2048x1104''),
      (''2.4:1'', ''1840x768'', ''1920x800'', ''2048x848''),
      (''21:9'', ''1806x774'', ''1890x810'', ''2016x864''),
      (''3:2'', ''1344x896'', ''1536x1024'', ''2040x1360''),
      (''3:4'', ''888x1184'', ''1152x1536'', ''1536x2048''),
      (''5:4'', ''1280x1024'', ''1620x1296'', ''2040x1632''),
      (''5:6'', ''960x1152'', ''1280x1536'', ''1680x2016''),
      (''6:5'', ''1152x960'', ''1536x1280'', ''2016x1680'')]"

definition imageSizeGroups :: "(jstr \<times> ImageSizeGroup list) list" where
  "imageSizeGroups = fold (\<lambda>model. map_set model nanoBananaSizeGroups)
     (pp_models creativefabrica Image)
     [(lit ''gpt-image-2'', gptImage2SizeGroups),
      (lit ''adobe:gpt-image-2'',
        [size_group (''1:1'', ''1024x1024'', ''2048x2048'', ''2880x2880'')]),
      (lit ''adobe:nano-banana-2'', nanoBananaSizeGroups),
      (lit ''nano-banana-2'', nanoBananaSizeGroups),
      (lit ''nano-banana-pro'', nanoBananaSizeGroups),
      (lit ''seedream-5.0-pro'', seedream50ProSizeGroups)]"

text \<open>
  An inherited property is truthy and has no \<open>flatMap\<close>: calling it throws a TypeError.
\<close>

definition imageSizes :: "jstr \<Rightarrow> jstr list res" where
  "imageSizes model = (case obj_get imageSizeGroups model of
       Inl _ \<Rightarrow> Inl TypeError
     | Inr found \<Rightarrow>
         Inr (concat (map (\<lambda>group.
            filter (\<lambda>value. value \<noteq> [])
              [opt_str (isg_small group), isg_medium group, isg_large group])
            (nullish found nanoBananaSizeGroups))))"

section \<open>Catalog texts\<close>

definition costDimensions :: "ModelCostRecord \<Rightarrow> jstr" where
  "costDimensions cost =
     (let duration = (if opt_str (mcr_duration cost) \<noteq> [] then
            opt_str (mcr_duration cost) @
              (if mcr_kind cost = lit ''audio'' \<and> mcr_model cost = lit ''music-v1''
               then ulit ''%u5206%u949F'' else ulit ''%u79D2'')
          else []);
          parts = filter (\<lambda>p. p \<noteq> []) [opt_str (mcr_size cost), opt_str (mcr_quality cost),
            opt_str (mcr_resolution cost), duration] in
      if parts \<noteq> [] then js_join (ulit '' %u00B7 '') parts
      else ulit ''%u9ED8%u8BA4%u53C2%u6570'')"

definition modelCost :: "PlatformModel \<Rightarrow> jstr" where
  "modelCost model = (case pm_base_token_cost model of
       None \<Rightarrow> ulit ''%u52A8%u6001''
     | Some c \<Rightarrow>
         if c = 0 \<or> c < 1 then ulit ''%u52A8%u6001''
         else num_str c @ (if pm_cost_type model = Some (lit ''per_megapixel'') then lit ''/MP''
                           else ulit ''/%u6B21''))"

text \<open>The duration part of both option texts: \<open>unset\<close> when the model says nothing.\<close>

definition duration_text :: "PlatformModel \<Rightarrow> jstr \<Rightarrow> jstr" where
  "duration_text model unset =
     (if nullish (pm_duration_options model) [] \<noteq> [] then
        js_join (lit ''/'') (map num_str (nullish (pm_duration_options model) [])) @ ulit '' %u79D2''
      else (case pm_default_duration model of
          Some d \<Rightarrow> if d \<noteq> 0 then num_str d @ ulit '' %u79D2'' else unset
        | None \<Rightarrow> unset))"

definition videoOptions :: "PlatformModel \<Rightarrow> jstr" where
  "videoOptions model =
     (let modes = or_str (js_join (lit ''/'')
            (map (\<lambda>v. replace_first v (lit ''RESOLUTION_'') []) (nullish (pm_resolution_modes model) [])))
            (ulit ''%u5E73%u53F0%u63A7%u5236'') in
      duration_text model (ulit ''%u52A8%u6001'') @ ulit '' %u00B7 '' @ modes)"

definition audioOptions :: "PlatformModel \<Rightarrow> jstr" where
  "audioOptions model =
     duration_text model (ulit ''%u5E73%u53F0%u63A7%u5236'') @ ulit '' %u00B7 '' @
     (if pm_cost_type model = Some (lit ''per_minute'') then ulit ''%u6309%u5206%u949F%u8BA1%u8D39''
      else if pm_cost_type model = Some (lit ''per_character'') then ulit ''%u6309%u5B57%u7B26%u8BA1%u8D39''
      else ulit ''%u97F3%u9891%u53C2%u6570%u7531%u6A21%u578B%u51B3%u5B9A'')"

definition keyModelGroups :: "KeyModelGroup list res" where
  "keyModelGroups = providerModelGroups []"

section \<open>The current rule of a key is the newest\<close>

definition newest_cmp :: "(CostRule \<Rightarrow> int) \<Rightarrow> CostRule \<Rightarrow> CostRule \<Rightarrow> int" where
  "newest_cmp t = cmp_or (\<lambda>a b. t b - t a) (\<lambda>a b. cr_id b - cr_id a)"

interpretation newest: comparator "newest_cmp t" for t
  unfolding newest_cmp_def
  using comparator_or [OF comparator_key [of "\<lambda>r. - t r"] comparator_key [of "\<lambda>r. - cr_id r"]]
  by simp

definition updated_ms :: "(int \<Rightarrow> int) \<Rightarrow> CostRule \<Rightarrow> int" where
  "updated_ms utc r = the (date_time utc (cr_updated_at r))"

definition candidate :: "MediaKind \<Rightarrow> CostRule list \<Rightarrow> CostRule \<Rightarrow> bool" where
  "candidate kind rules r \<longleftrightarrow> r \<in> set rules \<and> cr_enabled r \<and> cr_kind r = kind"

definition dated :: "(int \<Rightarrow> int) \<Rightarrow> MediaKind \<Rightarrow> CostRule list \<Rightarrow> bool" where
  "dated utc kind rules \<longleftrightarrow> (\<forall>r \<in> set rules. candidate kind rules r \<longrightarrow> date_time utc (cr_updated_at r) \<noteq> None)"

definition as_new_as :: "(int \<Rightarrow> int) \<Rightarrow> CostRule \<Rightarrow> CostRule \<Rightarrow> bool" where
  "as_new_as utc a b \<longleftrightarrow> updated_ms utc b < updated_ms utc a \<or>
     updated_ms utc b = updated_ms utc a \<and> cr_id b \<le> cr_id a"

lemma newest_cmp_le: "newest_cmp (updated_ms utc) a b \<le> 0 \<longleftrightarrow> as_new_as utc a b"
  by (auto simp: newest_cmp_def cmp_or_def as_new_as_def)

abbreviation sorted_candidates :: "(int \<Rightarrow> int) \<Rightarrow> CostRule list \<Rightarrow> MediaKind \<Rightarrow> CostRule list" where
  "sorted_candidates utc rules kind \<equiv>
     js_sort (rule_cmp utc) (filter (\<lambda>rule. cr_enabled rule \<and> cr_kind rule = kind) rules)"

lemma sorted_candidates_newest_first:
  assumes "dated utc kind rules"
  shows "sorted_wrt (as_new_as utc) (sorted_candidates utc rules kind)"
proof -
  have "sorted_candidates utc rules kind =
      js_sort (newest_cmp (updated_ms utc)) (filter (\<lambda>rule. cr_enabled rule \<and> cr_kind rule = kind) rules)"
    using assms
    by (intro js_sort_cong) (simp add: rule_cmp_def newest_cmp_def cmp_or_def diff_cmp_defined
        updated_ms_def dated_def candidate_def Let_def)
  then show ?thesis
    using newest.sorted_js_sort [of "updated_ms utc"] by (simp add: newest_cmp_le)
qed

lemma set_first_of_key: "set (first_of_key seen rules) \<subseteq> set rules"
  by (induction seen rules rule: first_of_key.induct) auto

lemma first_of_key_fresh: "r \<in> set (first_of_key seen rules) \<Longrightarrow> rule_key r \<notin> seen"
  by (induction seen rules rule: first_of_key.induct) (auto split: if_splits)

lemma first_of_key_distinct: "distinct (map rule_key (first_of_key seen rules))"
  by (induction seen rules rule: first_of_key.induct) (auto dest: first_of_key_fresh)

text \<open>A search that cannot tell rules of one key apart finds the same rule before and after.\<close>

definition key_uniform :: "(CostRule \<Rightarrow> bool) \<Rightarrow> CostRule set \<Rightarrow> bool" where
  "key_uniform P rs \<longleftrightarrow> (\<forall>r \<in> rs. \<forall>r' \<in> rs. rule_key r = rule_key r' \<longrightarrow> P r = P r')"

lemma find_first_of_key:
  "key_uniform P (set rules) \<Longrightarrow> \<forall>r \<in> set rules. P r \<longrightarrow> rule_key r \<notin> seen \<Longrightarrow>
   find P (first_of_key seen rules) = find P rules"
proof (induction seen rules rule: first_of_key.induct)
  case (2 seen rule rules)
  show ?case
  proof (cases "P rule")
    case True
    with 2(4) show ?thesis by simp
  next
    case False
    have 1: "key_uniform P (set rules)"
      using 2(3) unfolding key_uniform_def by (meson list.set_intros(2))
    have fresh: "rule_key r \<noteq> rule_key rule" if "r \<in> set rules" "P r" for r
      using that False 2(3) unfolding key_uniform_def by (meson list.set_intros)
    then have "\<forall>r \<in> set rules. P r \<longrightarrow> rule_key r \<notin> insert (rule_key rule) seen"
      "\<forall>r \<in> set rules. P r \<longrightarrow> rule_key r \<notin> seen"
      using 2(4) by auto
    with 1 False 2(1,2) show ?thesis by (cases "rule_key rule \<in> seen") simp_all
  qed
qed simp

lemma find_SomeD: "find P xs = Some n \<Longrightarrow> n \<in> set xs" "find P xs = Some n \<Longrightarrow> P n"
  by (induction xs) (auto split: if_splits)

lemma find_sorted_wrt:
  assumes "sorted_wrt Q xs" "find P xs = Some n" "x \<in> set xs" "P x"
  shows "x = n \<or> Q n x"
  using assms by (induction xs) (auto split: if_splits)

definition dims :: "CostRule \<Rightarrow> jstr \<times> jstr \<times> jstr \<times> jstr \<times> int" where
  "dims r = (cr_model r, cr_size r, cr_quality r, cr_resolution r, cr_duration r)"

definition clean :: "CostRule \<Rightarrow> bool" where
  "clean r \<longleftrightarrow> (\<forall>f \<in> {cr_model r, cr_size r, cr_quality r, cr_resolution r}. 124 \<notin> set f)"

lemma rule_key_dims:
  assumes "clean r" "clean s"
  shows "rule_key r = rule_key s \<longleftrightarrow> dims r = dims s"
proof
  assume eq: "rule_key r = rule_key s"
  have bar: "lit ''|'' = [124]" by (simp add: lit_def)
  have nodigit: "124 \<notin> set (num_str n)" for n using num_str_chars [of 124 n] by auto
  from eq have "[cr_model r, cr_size r, cr_quality r, cr_resolution r, num_str (cr_duration r)] =
      [cr_model s, cr_size s, cr_quality s, cr_resolution s, num_str (cr_duration s)]"
    using assms nodigit unfolding rule_key_def bar by (intro js_join_inject) (auto simp: clean_def)
  then show "dims r = dims s" by (simp add: dims_def num_str_inject)
qed (simp add: dims_def rule_key_def)

definition dims_uniform :: "(CostRule \<Rightarrow> bool) \<Rightarrow> bool" where
  "dims_uniform P \<longleftrightarrow> (\<forall>r r'. dims r = dims r' \<longrightarrow> P r = P r')"

definition clean_rules :: "MediaKind \<Rightarrow> CostRule list \<Rightarrow> bool" where
  "clean_rules kind rules \<longleftrightarrow> (\<forall>r \<in> set rules. candidate kind rules r \<longrightarrow> clean r)"

lemma clean_rulesD: "clean_rules kind rules \<Longrightarrow> candidate kind rules r \<Longrightarrow> clean r"
  by (simp add: clean_rules_def candidate_def)

text \<open>What a search by dimensions finds among the current rules is the newest candidate.\<close>

lemma find_current:
  assumes dated: "dated utc kind rules" and clean: "clean_rules kind rules"
    and P: "dims_uniform P"
    and r: "candidate kind rules r" "P r"
  shows "\<exists>n. find P (currentCostRules utc rules kind) = Some n \<and> candidate kind rules n \<and> P n \<and>
             (\<forall>s. candidate kind rules s \<longrightarrow> P s \<longrightarrow> as_new_as utc n s)"
proof -
  let ?c = "sorted_candidates utc rules kind"
  have set_c: "s \<in> set ?c \<longleftrightarrow> candidate kind rules s" for s by (auto simp: candidate_def)
  have cur: "find P (currentCostRules utc rules kind) = find P ?c"
    unfolding currentCostRules_def
  proof (rule find_first_of_key)
    show "key_uniform P (set ?c)"
      unfolding key_uniform_def set_c Ball_def using P unfolding dims_uniform_def
      by (metis rule_key_dims clean_rulesD [OF clean])
  qed simp
  have "r \<in> set ?c" using r(1) set_c by blast
  with r(2) have "find P ?c \<noteq> None" unfolding find_None_iff by blast
  then obtain n where n: "find P ?c = Some n" by blast
  then have "n \<in> set ?c" "P n" by (rule find_SomeD)+
  moreover have "as_new_as utc n s" if "candidate kind rules s" "P s" for s
    using find_sorted_wrt [OF sorted_candidates_newest_first [OF dated] n] that set_c
    by (auto simp: as_new_as_def)
  ultimately show ?thesis using cur n set_c by auto
qed

lemma current_candidate: "r \<in> set (currentCostRules utc rules kind) \<Longrightarrow> candidate kind rules r"
  using set_first_of_key by (fastforce simp: currentCostRules_def candidate_def)


section \<open>The price tables\<close>

lemma find_filter: "find P (filter Q xs) = find (\<lambda>x. Q x \<and> P x) xs"
  by (induction xs) auto

lemma mapr_map: "mapr (\<lambda>x. Inr (f x)) xs = Inr (map f xs)"
  by (induction xs) auto

lemma mapr_Inr_set: "mapr f xs = Inr ys \<Longrightarrow> x \<in> set xs \<Longrightarrow> \<exists>y \<in> set ys. f x = Inr y"
  by (induction xs arbitrary: ys) (auto simp: bindr_Inr_iff)

lemma mapr_Inr_set': "mapr f xs = Inr ys \<Longrightarrow> y \<in> set ys \<Longrightarrow> \<exists>x \<in> set xs. f x = Inr y"
  by (induction xs arbitrary: ys) (auto simp: bindr_Inr_iff)

text \<open>The cell of a table in a row with the label and a column with the head.\<close>

definition shows_price :: "PlatformEstimate \<Rightarrow> jstr \<Rightarrow> jstr \<Rightarrow> rat \<Rightarrow> bool" where
  "shows_price e label column p \<longleftrightarrow> (\<exists>row \<in> set (pe_rows e). er_label row = label \<and>
     (\<exists>j < length (pe_columns e). pe_columns e ! j = column \<and> j < length (er_values row) \<and>
        er_values row ! j = Some p))"

lemma shows_price_map:
  assumes "row \<in> set (pe_rows e)" "er_values row = map g (pe_columns e)" "c \<in> set (pe_columns e)"
    "g c = Some p"
  shows "shows_price e (er_label row) c p"
proof -
  obtain j where "j < length (pe_columns e)" "pe_columns e ! j = c"
    using assms(3) by (auto simp: in_set_conv_nth)
  with assms show ?thesis by (auto simp: shows_price_def intro!: bexI [of _ row] exI [of _ j])
qed

definition image_label :: "CostRule \<Rightarrow> jstr" where
  "image_label r = (if quality_label r = fixed_quality then quality_label r else capitalize (quality_label r))"

lemma image_estimate_cell:
  assumes "r \<in> set mrs" "find (\<lambda>rule. cr_size rule = cr_size r \<and> quality_label rule = quality_label r) mrs = Some n"
  shows "shows_price (image_estimate m mrs) (image_label r) (cr_size r) (cr_unit_tokens n)"
proof -
  let ?g = "\<lambda>value. price_where (\<lambda>rule. cr_size rule = value \<and> quality_label rule = quality_label r) mrs"
  let ?row = "\<lparr>er_label = image_label r, er_values = map ?g (pe_columns (image_estimate m mrs))\<rparr>"
  have "?row \<in> set (pe_rows (image_estimate m mrs))"
    using assms(1) by (auto simp: image_estimate_def Let_def image_label_def image_iff)
  moreover have "cr_size r \<in> set (pe_columns (image_estimate m mrs))"
    using assms(1) by (simp add: image_estimate_def Let_def)
  moreover have "?g (cr_size r) = Some (cr_unit_tokens n)"
    using assms(2) by (simp add: price_where_def)
  ultimately show ?thesis using shows_price_map [of ?row "image_estimate m mrs" ?g] by simp
qed

lemma current_dims_complete:
  assumes dated: "dated utc kind rules" and clean: "clean_rules kind rules"
    and r: "candidate kind rules r"
  shows "\<exists>c \<in> set (currentCostRules utc rules kind). dims c = dims r"
  using find_current [OF dated clean, of "\<lambda>c. dims c = dims r" r] r
  by (auto simp: dims_uniform_def dest: find_SomeD)

lemma image_estimates: "costEstimates utc rules Image =
   Inr (map (\<lambda>m. image_estimate m (filter (\<lambda>r. cr_model r = m) (currentCostRules utc rules Image)))
     (dedup (map cr_model (currentCostRules utc rules Image))))"
  by (simp add: costEstimates_def Let_def mapr_map)

lemma video_estimate_Inr:
  assumes "video_estimate m mrs = Inr e"
  shows "pe_model e = m" "pe_columns e = video_columns mrs"
    "\<And>w d. (w, d) \<in> set (video_rows mrs) \<Longrightarrow> \<exists>row \<in> set (pe_rows e). video_label w d = Inr (er_label row) \<and>
       er_values row = map (video_price mrs w d) (pe_columns e)"
    "\<And>row. row \<in> set (pe_rows e) \<Longrightarrow> \<exists>w d. (w, d) \<in> set (video_rows mrs) \<and>
       er_values row = map (video_price mrs w d) (pe_columns e)"
proof -
  let ?f = "\<lambda>(workflow, duration). bindr (video_label workflow duration) (\<lambda>label.
     Inr \<lparr>er_label = label, er_values = map (video_price mrs workflow duration) (video_columns mrs)\<rparr>)"
  from assms obtain rows where rows: "mapr ?f (video_rows mrs) = Inr rows" and e: "pe_rows e = rows"
    and c: "pe_columns e = video_columns mrs" and m: "pe_model e = m"
    by (auto simp: video_estimate_def bindr_Inr_iff)
  show "pe_model e = m" "pe_columns e = video_columns mrs" by (fact m c)+
  show "\<exists>row \<in> set (pe_rows e). video_label w d = Inr (er_label row) \<and>
      er_values row = map (video_price mrs w d) (pe_columns e)" if wd: "(w, d) \<in> set (video_rows mrs)" for w d
  proof -
    obtain row where "row \<in> set rows" "?f (w, d) = Inr row" using mapr_Inr_set [OF rows wd] by blast
    then show ?thesis by (auto simp: bindr_Inr_iff e c intro!: bexI [of _ row])
  qed
  show "\<exists>w d. (w, d) \<in> set (video_rows mrs) \<and> er_values row = map (video_price mrs w d) (pe_columns e)"
    if row: "row \<in> set (pe_rows e)" for row
  proof -
    have "row \<in> set rows" using row e by simp
    from mapr_Inr_set' [OF rows this] obtain x where x: "x \<in> set (video_rows mrs)" "?f x = Inr row"
      by blast
    obtain w d where "x = (w, d)" by (cases x)
    with x have "(w, d) \<in> set (video_rows mrs)" "?f (w, d) = Inr row" by blast+
    then show ?thesis by (auto simp: bindr_Inr_iff c intro!: exI [of _ w] exI [of _ d])
  qed
qed

lemma set_video_rows:
  "(w, d) \<in> set (video_rows mrs) \<longleftrightarrow> d \<in> cr_duration ` set mrs \<and>
     (if \<exists>r \<in> set mrs. cr_quality r \<noteq> [] then w \<noteq> [] \<and> w \<in> cr_quality ` set mrs else w = [])"
proof -
  have ws: "set (video_workflows mrs) = {w \<in> cr_quality ` set mrs. w \<noteq> []}"
    by (auto simp: video_workflows_def)
  have ds: "set (video_durations mrs) = cr_duration ` set mrs" by (simp add: video_durations_def)
  show ?thesis
  proof (cases "\<exists>r \<in> set mrs. cr_quality r \<noteq> []")
    case True
    then have "set (video_workflows mrs) \<noteq> {}" unfolding ws by blast
    then have "video_workflows mrs \<noteq> []" by auto
    with True show ?thesis by (auto simp: video_rows_def Let_def ws ds)
  next
    case False
    then have "set (video_workflows mrs) = {}" unfolding ws by blast
    then have "video_workflows mrs = []" by simp
    with False show ?thesis by (auto simp: video_rows_def Let_def ds)
  qed
qed

lemma price_where_Some: "price_where P mrs = Some p \<Longrightarrow> \<exists>r \<in> set mrs. P r \<and> cr_unit_tokens r = p"
  by (auto simp: price_where_def dest: find_SomeD)

section \<open>Properties\<close>

text \<open>C19: Among the rules of a kind, exactly the newest enabled one of every key is current: the
  current rules are enabled rules of the kind with different keys, and for every enabled rule
  there is a current one with its key that was updated later, or at the same time with an id at
  least as large. (The time stamps are dates; no field has the separator of the key in it.)\<close>

theorem currentCostRules_newest:
  assumes "dated utc kind rules" "clean_rules kind rules"
  shows "distinct (map rule_key (currentCostRules utc rules kind)) \<and>
    (\<forall>c \<in> set (currentCostRules utc rules kind). candidate kind rules c) \<and>
    (\<forall>r. candidate kind rules r \<longrightarrow> (\<exists>c \<in> set (currentCostRules utc rules kind).
        rule_key c = rule_key r \<and> as_new_as utc c r))"
proof (intro conjI ballI allI impI)
  show "distinct (map rule_key (currentCostRules utc rules kind))"
    by (simp add: currentCostRules_def first_of_key_distinct)
  show "candidate kind rules c" if "c \<in> set (currentCostRules utc rules kind)" for c
    using that by (rule current_candidate)
  fix r assume r: "candidate kind rules r"
  from find_current [OF assms, of "\<lambda>c. dims c = dims r" r] r
  obtain n where n: "find (\<lambda>c. dims c = dims r) (currentCostRules utc rules kind) = Some n"
    "dims n = dims r" "as_new_as utc n r" by (auto simp: dims_uniform_def)
  then have "rule_key n = rule_key r" by (simp add: rule_key_def dims_def)
  with n show "\<exists>c \<in> set (currentCostRules utc rules kind). rule_key c = rule_key r \<and> as_new_as utc c r"
    by (auto dest: find_SomeD)
qed

definition sample_rule :: "int \<Rightarrow> MediaKind \<Rightarrow> string \<Rightarrow> rat \<Rightarrow> string \<Rightarrow> CostRule" where
  "sample_rule i kind quality tokens updated =
     \<lparr>cr_id = i, cr_provider_id = lit ''leonardo'', cr_kind = kind, cr_model = lit ''m'',
      cr_size = lit ''1024x1024'', cr_quality = lit quality, cr_resolution = lit ''720p'',
      cr_duration = 5, cr_unit_tokens = tokens, cr_enabled = True, cr_price_version = lit ''v1'',
      cr_source = [], cr_drifted = None, cr_drift_reason = None, cr_verified_at = None,
      cr_created_at = [], cr_updated_at = lit updated\<rparr>"

definition sample_rules :: "MediaKind \<Rightarrow> CostRule list" where
  "sample_rules kind =
     [sample_rule 1 kind ''t2v'' 10 ''2024-01-01T00:00:00Z'',
      sample_rule 2 kind ''t2v'' 12 ''2024-03-01T00:00:00Z'',
      sample_rule 3 kind '''' 7 ''2024-02-01T00:00:00Z'']"

lemma sample_times:
  "date_time id (lit ''2024-01-01T00:00:00Z'') = Some 1704067200000"
  "date_time id (lit ''2024-03-01T00:00:00Z'') = Some 1709251200000"
  "date_time id (lit ''2024-02-01T00:00:00Z'') = Some 1706745600000"
  by code_simp+

lemma bar_in_lit [simp]: "124 \<in> set (lit s) \<longleftrightarrow> CHR ''|'' \<in> set s"
  using of_char_in_lit [of "CHR ''|''" s] by simp

lemma sample_ok: "dated id kind (sample_rules kind)" "clean_rules kind (sample_rules kind)"
  by (auto simp: dated_def clean_rules_def candidate_def sample_rules_def sample_rule_def
      sample_times clean_def)

theorem currentCostRules_newest_witness:
  "\<exists>c \<in> set (currentCostRules id (sample_rules Video) Video).
     rule_key c = rule_key (sample_rule 1 Video ''t2v'' 10 ''2024-01-01T00:00:00Z'') \<and>
     as_new_as id c (sample_rule 1 Video ''t2v'' 10 ''2024-01-01T00:00:00Z'')"
proof -
  have "candidate Video (sample_rules Video) (sample_rule 1 Video ''t2v'' 10 ''2024-01-01T00:00:00Z'')"
    by (simp add: candidate_def sample_rules_def sample_rule_def)
  with currentCostRules_newest [OF sample_ok] show ?thesis by blast
qed

text \<open>The image price table shows, for the model, size and quality of every enabled image rule,
  the price of the newest enabled rule for them.\<close>

theorem image_price_newest:
  assumes "dated utc Image rules" "clean_rules Image rules" "candidate Image rules r"
  shows "\<exists>es e n. costEstimates utc rules Image = Inr es \<and> e \<in> set es \<and> pe_model e = cr_model r \<and>
    shows_price e (image_label r) (cr_size r) (cr_unit_tokens n) \<and> candidate Image rules n \<and>
    (\<forall>s. candidate Image rules s \<and> cr_model s = cr_model r \<and> cr_size s = cr_size r \<and>
         quality_label s = quality_label r \<longrightarrow> as_new_as utc n s)"
proof -
  let ?P = "\<lambda>s. cr_model s = cr_model r \<and> cr_size s = cr_size r \<and> quality_label s = quality_label r"
  let ?mrs = "filter (\<lambda>s. cr_model s = cr_model r) (currentCostRules utc rules Image)"
  have "dims_uniform ?P" by (simp add: dims_uniform_def dims_def quality_label_def)
  from find_current [OF assms(1,2) this assms(3)] obtain n
    where n: "find ?P (currentCostRules utc rules Image) = Some n" "candidate Image rules n"
      "\<forall>s. candidate Image rules s \<longrightarrow> ?P s \<longrightarrow> as_new_as utc n s" by auto
  obtain c where c: "c \<in> set (currentCostRules utc rules Image)" "dims c = dims r"
    using current_dims_complete [OF assms(1-3)] by auto
  then have cP: "c \<in> set ?mrs" "cr_size c = cr_size r" "quality_label c = quality_label r"
    by (auto simp: dims_def quality_label_def)
  have "shows_price (image_estimate (cr_model r) ?mrs) (image_label c) (cr_size c) (cr_unit_tokens n)"
    using image_estimate_cell [OF cP(1), of n "cr_model r"] n(1) cP(2,3) by (simp add: find_filter)
  moreover have "image_label c = image_label r" using cP(3) by (simp add: image_label_def)
  moreover have "cr_model r \<in> cr_model ` set (currentCostRules utc rules Image)"
    using cP(1) by (auto simp: image_iff intro: sym)
  moreover have "pe_model (image_estimate (cr_model r) ?mrs) = cr_model r"
    by (simp add: image_estimate_def Let_def)
  ultimately show ?thesis using n(2,3) cP(2)
    by (intro exI [of _ "image_estimate (cr_model r) ?mrs"] exI [of _ n] exI)
       (auto simp: image_estimates)
qed

theorem image_price_newest_witness:
  "\<exists>es e. costEstimates id (sample_rules Image) Image = Inr es \<and> e \<in> set es \<and>
     pe_model e = lit ''m''"
proof -
  have r: "candidate Image (sample_rules Image) (sample_rule 1 Image ''t2v'' 10 ''2024-01-01T00:00:00Z'')"
    by (simp add: candidate_def sample_rules_def sample_rule_def)
  have "cr_model (sample_rule 1 Image ''t2v'' 10 ''2024-01-01T00:00:00Z'') = lit ''m''"
    by (simp add: sample_rule_def)
  with image_price_newest [OF sample_ok r] show ?thesis by auto
qed


lemma sample_video_estimate: "\<exists>es. costEstimates id (sample_rules Video) Video = Inr es"
proof -
  have "(case costEstimates id (sample_rules Video) Video of Inl _ \<Rightarrow> False | Inr _ \<Rightarrow> True)" by code_simp
  then show ?thesis by (auto split: sum.splits)
qed


text \<open>As soon as one current video rule of a model names a workflow, the prices of its current
  rules without one are in no cell of its table.\<close>

theorem video_rules_without_workflow_hidden:
  assumes "video_estimate m mrs = Inr e" "w \<in> set mrs" "cr_quality w \<noteq> []"
    and "row \<in> set (pe_rows e)" "Some p \<in> set (er_values row)"
  shows "\<exists>r \<in> set mrs. cr_quality r \<noteq> [] \<and> cr_unit_tokens r = p"
proof -
  obtain q d where "(q, d) \<in> set (video_rows mrs)"
    "er_values row = map (video_price mrs q d) (pe_columns e)"
    using video_estimate_Inr(4) [OF assms(1,4)] by blast
  moreover from this(1) have "q \<noteq> []" using assms(2,3) by (auto simp: set_video_rows split: if_splits)
  ultimately show ?thesis
    using assms(5) by (auto simp: video_price_def dest: price_where_Some [OF sym])
qed

theorem video_rules_without_workflow_hidden_witness:
  "\<exists>e. video_estimate (lit ''m'') (currentCostRules id (sample_rules Video) Video) = Inr e \<and>
     (\<forall>row \<in> set (pe_rows e). Some 7 \<notin> set (er_values row))"
proof -
  let ?cur = "currentCostRules id (sample_rules Video) Video"
  have cur: "?cur = [sample_rule 2 Video ''t2v'' 12 ''2024-03-01T00:00:00Z'',
      sample_rule 3 Video '''' 7 ''2024-02-01T00:00:00Z'']"
    by code_simp
  have "(case video_estimate (lit ''m'') ?cur of Inl _ \<Rightarrow> False | Inr _ \<Rightarrow> True)"
    unfolding cur by code_simp
  then obtain e where e: "video_estimate (lit ''m'') ?cur = Inr e" by (auto split: sum.splits)
  have "Some 7 \<notin> set (er_values row)" if "row \<in> set (pe_rows e)" for row
    using video_rules_without_workflow_hidden [OF e, of "hd ?cur" row 7] that
    by (auto simp: cur sample_rule_def)
  with e show ?thesis by blast
qed

definition rectangular :: "PlatformEstimate \<Rightarrow> bool" where
  "rectangular e \<longleftrightarrow> distinct (pe_columns e) \<and>
     (\<forall>row \<in> set (pe_rows e). length (er_values row) = length (pe_columns e))"

lemma image_rectangular: "pe_model (image_estimate m mrs) = m" "rectangular (image_estimate m mrs)"
  by (simp_all add: rectangular_def image_estimate_def Let_def)

lemma audio_rectangular: "pe_model (audio_estimate m mrs) = m" "rectangular (audio_estimate m mrs)"
  by (simp_all add: rectangular_def audio_estimate_def Let_def)

lemma video_rectangular: "video_estimate m mrs = Inr e \<Longrightarrow> pe_model e = m \<and> rectangular e"
  using video_estimate_Inr(4) [of m mrs e]
  by (fastforce simp: rectangular_def video_estimate_Inr(1,2) video_columns_def)

lemma mapr_models:
  "mapr f xs = Inr ys \<Longrightarrow> (\<And>x y. f x = Inr y \<Longrightarrow> pe_model y = x) \<Longrightarrow> map pe_model ys = xs"
  by (induction xs arbitrary: ys) (auto simp: bindr_Inr_iff)

text \<open>C36: In every price table each row has one value per column, the columns differ from each
  other, and every model with a current rule has exactly one table.\<close>

theorem cost_tables_rectangular:
  assumes "costEstimates utc rules kind = Inr es"
  shows "map pe_model es = dedup (map cr_model (currentCostRules utc rules kind)) \<and>
    (\<forall>e \<in> set es. distinct (pe_columns e) \<and>
       (\<forall>row \<in> set (pe_rows e). length (er_values row) = length (pe_columns e)))"
proof -
  let ?table = "\<lambda>m. let mrs = filter (\<lambda>rule. cr_model rule = m) (currentCostRules utc rules kind) in
    (case kind of Image \<Rightarrow> Inr (image_estimate m mrs) | Video \<Rightarrow> video_estimate m mrs
     | Audio \<Rightarrow> Inr (audio_estimate m mrs))"
  have tables: "mapr ?table (dedup (map cr_model (currentCostRules utc rules kind))) = Inr es"
    using assms by (simp add: costEstimates_def Let_def)
  have shape: "pe_model e = m \<and> rectangular e" if "?table m = Inr e" for m e
    using that by (auto simp: Let_def image_rectangular audio_rectangular
        dest: video_rectangular split: MediaKind.splits)
  have "map pe_model es = dedup (map cr_model (currentCostRules utc rules kind))"
    by (rule mapr_models [OF tables]) (use shape in blast)
  moreover have "rectangular e" if "e \<in> set es" for e
    using mapr_Inr_set' [OF tables that] shape by blast
  ultimately show ?thesis unfolding rectangular_def by blast
qed

theorem cost_tables_rectangular_witness:
  "\<exists>es. costEstimates id (sample_rules Video) Video = Inr es \<and>
     map pe_model es = dedup (map cr_model (currentCostRules id (sample_rules Video) Video))"
  using sample_video_estimate cost_tables_rectangular by blast

definition group_sizes :: "ImageSizeGroup list \<Rightarrow> jstr list" where
  "group_sizes groups = concat (map (\<lambda>group. filter (\<lambda>value. value \<noteq> [])
     [opt_str (isg_small group), isg_medium group, isg_large group]) groups)"

lemma map_of_fold_const:
  "map_of (fold (\<lambda>m. map_set m g) ms t) k = (if k \<in> set ms then Some g else map_of t k)"
  by (induction ms arbitrary: t) (auto simp: map_of_map_set)

lemmas imageSizeGroups_lookup = imageSizeGroups_def map_of_fold_const creativefabrica_def

lemma prototype_keys_plain: "k \<in> set object_prototype_keys \<Longrightarrow> 45 \<notin> set k \<and> 58 \<notin> set k"
  by (simp add: object_prototype_keys_def, elim disjE; simp)

lemma image_size_tables:
  assumes "map_of imageSizeGroups m = Some g"
  shows "g \<in> {gptImage2SizeGroups, [size_group (''1:1'', ''1024x1024'', ''2048x2048'', ''2880x2880'')],
      nanoBananaSizeGroups, seedream50ProSizeGroups}" "m \<notin> set object_prototype_keys"
proof -
  show "g \<in> {gptImage2SizeGroups, [size_group (''1:1'', ''1024x1024'', ''2048x2048'', ''2880x2880'')],
      nanoBananaSizeGroups, seedream50ProSizeGroups}"
    using assms by (simp add: imageSizeGroups_def map_of_fold_const split: if_splits)
  have colon: "\<forall>m \<in> set (pp_models creativefabrica Image). 58 \<in> set m"
    by (simp add: creativefabrica_def creativefabrica_image_models_def)
  show "m \<notin> set object_prototype_keys"
  proof
    assume "m \<in> set object_prototype_keys"
    from prototype_keys_plain [OF this] assms colon show False
      by (auto simp: imageSizeGroups_def map_of_fold_const split: if_splits)
  qed
qed

lemma group_sizes_tables:
  "distinct (group_sizes gptImage2SizeGroups)" "distinct (group_sizes nanoBananaSizeGroups)"
  "distinct (group_sizes seedream50ProSizeGroups)"
  "group_sizes gptImage2SizeGroups \<noteq> []" "group_sizes nanoBananaSizeGroups \<noteq> []"
  "group_sizes seedream50ProSizeGroups \<noteq> []"
  "group_sizes [size_group (''1:1'', ''1024x1024'', ''2048x2048'', ''2880x2880'')] \<noteq> []"
  by code_simp+

text \<open>The image sizes offered for a model are never empty and never repeat, and asking for them
  fails, with a TypeError, exactly for the properties of Object.prototype; a model without a table
  of its own gets the common one.\<close>

theorem imageSizes_offered:
  "imageSizes model = (if model \<in> set object_prototype_keys then Inl TypeError
     else Inr (group_sizes (nullish (map_of imageSizeGroups model) nanoBananaSizeGroups))) \<and>
   group_sizes (nullish (map_of imageSizeGroups model) nanoBananaSizeGroups) \<noteq> [] \<and>
   distinct (group_sizes (nullish (map_of imageSizeGroups model) nanoBananaSizeGroups))"
proof (intro conjI)
  have one: "distinct (group_sizes [size_group (''1:1'', ''1024x1024'', ''2048x2048'', ''2880x2880'')])"
    "group_sizes [size_group (''1:1'', ''1024x1024'', ''2048x2048'', ''2880x2880'')] \<noteq> []"
    by (simp_all add: group_sizes_def size_group_def)
  show "imageSizes model = (if model \<in> set object_prototype_keys then Inl TypeError
     else Inr (group_sizes (nullish (map_of imageSizeGroups model) nanoBananaSizeGroups)))"
    using image_size_tables(2) [of model]
    by (cases "map_of imageSizeGroups model")
       (auto simp: imageSizes_def obj_get_def group_sizes_def)
  show "group_sizes (nullish (map_of imageSizeGroups model) nanoBananaSizeGroups) \<noteq> []"
    "distinct (group_sizes (nullish (map_of imageSizeGroups model) nanoBananaSizeGroups))"
    using one image_size_tables(1) [of model] group_sizes_tables
    by (cases "map_of imageSizeGroups model"; auto)+
qed

end
