(* ===== verification/Playground.thy ===== *)
theory Playground
  imports MediaSpecs Catalog StatusText
begin

text \<open>
  What the forms of the playground (pages/playground-page.tsx) share: the models offered for each
  provider, the provider selector (components/generation-provider-selector.tsx and
  components/provider-switcher.tsx), and the two kinds of request body.
\<close>

section \<open>Models per provider\<close>

definition imageModelsByProvider :: "(jstr \<times> jstr list res) list" where
  "imageModelsByProvider =
     [(lit ''leonardo'', providerPublicModels (lit ''leonardo'') Image),
      (lit ''adobe'', providerPublicModels (lit ''adobe'') Image),
      (lit ''creativefabrica'', providerPublicModels (lit ''creativefabrica'') Image)]"

definition videoModelsByProvider :: "(jstr \<times> jstr list res) list" where
  "videoModelsByProvider =
     [(lit ''leonardo'', providerPublicModels (lit ''leonardo'') Video),
      (lit ''adobe'', providerPublicModels (lit ''adobe'') Video),
      (lit ''creativefabrica'', providerPublicModels (lit ''creativefabrica'') Video)]"

text \<open>
  The entry of a provider, on which the callers call \<open>includes\<close>: undefined and inherited
  functions have no such method.
\<close>

definition models_of :: "(jstr \<times> jstr list res) list \<Rightarrow> jstr \<Rightarrow> jstr list res" where
  "models_of table provider = (case obj_get table provider of
       Inr (Some models) \<Rightarrow> models
     | _ \<Rightarrow> Inl TypeError)"

definition providerImageModel :: "jstr \<Rightarrow> jstr \<Rightarrow> jstr res" where
  "providerImageModel provider model =
     bindr (providerInternalModel provider Image model) (\<lambda>internal. Inr (or_str (opt_str internal) model))"

definition providerVideoModel :: "jstr \<Rightarrow> jstr \<Rightarrow> jstr res" where
  "providerVideoModel provider model =
     bindr (providerInternalModel provider Video model) (\<lambda>internal. Inr (or_str (opt_str internal) model))"

text \<open>
  The effect that takes the model and the provider from the address: the provider and the model it
  sets, if it sets any.
\<close>

definition requested_model ::
  "(jstr \<times> jstr list res) list \<Rightarrow> jstr option \<Rightarrow> jstr option \<Rightarrow> (jstr \<times> jstr) option res" where
  "requested_model table initialModel initialProvider =
     (if opt_str initialModel = [] then Inr None
      else let model = opt_str initialModel;
               inferredProvider = or_str (opt_str initialProvider) (modelProviderID model) in
        if \<not> isRegisteredProviderID (Some inferredProvider) then Inr None
        else bindr (modelDisplayID model) (\<lambda>publicModel.
             bindr (models_of table inferredProvider) (\<lambda>models.
               Inr (if publicModel \<in> set models then Some (inferredProvider, publicModel) else None))))"

text \<open>The effect that replaces a model the provider does not offer.\<close>

definition fallback_model :: "(jstr \<times> jstr list res) list \<Rightarrow> jstr \<Rightarrow> jstr \<Rightarrow> jstr res" where
  "fallback_model table provider model =
     bindr (models_of table provider) (\<lambda>selectable.
       Inr (case selectable of
              [] \<Rightarrow> model
            | first # _ \<Rightarrow> if model \<notin> set selectable \<and> first \<noteq> [] then first else model))"

section \<open>The provider selector\<close>

definition providerOptions :: "Provider list \<Rightarrow> Provider list" where
  "providerOptions configured =
     map (\<lambda>(pid, fallback). case find (\<lambda>provider. prov_id provider = pid) configured of
         Some current \<Rightarrow> current
       | None \<Rightarrow> \<lparr>prov_id = pid, prov_display_name = pp_displayName fallback, prov_enabled = True,
           prov_adapter_registered = Some True, prov_auth_type = [],
           prov_credit_unit = (if pid = lit ''adobe'' then lit ''BKS'' else lit ''credits''),
           prov_capabilities = map kind_name (pp_capabilities fallback), prov_catalog_sync = False,
           prov_models = (\<lambda>kind. Some (pp_models fallback kind))\<rparr>)
       providerRegistry"

definition visible_providers :: "bool \<Rightarrow> MediaKind option \<Rightarrow> Provider list \<Rightarrow> Provider list" where
  "visible_providers includeDisabled capability providers =
     filter (\<lambda>provider. prov_adapter_registered provider \<noteq> Some False \<and>
         (includeDisabled \<or> prov_enabled provider) \<and>
         (case capability of None \<Rightarrow> True
          | Some kind \<Rightarrow> providerSupports (Some (prov_capabilities provider)) kind))
       providers"

text \<open>The providers the selector of a form can choose.\<close>

definition choosable :: "MediaKind \<Rightarrow> Provider list \<Rightarrow> jstr \<Rightarrow> bool" where
  "choosable capability configured providerID \<longleftrightarrow>
     providerID \<in> prov_id ` set (visible_providers False (Some capability) (providerOptions configured)) \<and>
     isRegisteredProviderID (Some providerID)"

section \<open>Requests\<close>

text \<open>
  The body of a request: JSON, or a form with files, which are named here. \<open>JSON.stringify\<close> leaves
  out undefined fields, and so does the loop that fills a form, with \<open>String(value)\<close>. Numbers that
  are sent are whole.
\<close>

datatype form_value = Text jstr | FileField jstr

datatype RequestBody =
  JsonBody "(jstr \<times> json) list"
| FormBody "(jstr \<times> form_value) list"

definition json_text :: "json \<Rightarrow> jstr" where
  "json_text v = (case v of JStr s \<Rightarrow> s | JNum n \<Rightarrow> num_str \<lfloor>n\<rfloor>
     | JBool b \<Rightarrow> (if b then lit ''true'' else lit ''false'') | _ \<Rightarrow> [])"

definition defined_fields :: "(jstr \<times> json option) list \<Rightarrow> (jstr \<times> json) list" where
  "defined_fields = List.map_filter (\<lambda>(key, value). map_option (Pair key) value)"

definition text_fields :: "(jstr \<times> json option) list \<Rightarrow> (jstr \<times> form_value) list" where
  "text_fields entries = map (\<lambda>(key, value). (key, Text (json_text value))) (defined_fields entries)"

definition file_fields :: "jstr \<Rightarrow> jstr list \<Rightarrow> (jstr \<times> form_value) list" where
  "file_fields key files = map (\<lambda>f. (key, FileField f)) files"

definition request_files :: "RequestBody \<Rightarrow> (jstr \<times> jstr) list" where
  "request_files body = (case body of
       JsonBody _ \<Rightarrow> []
     | FormBody body_fields \<Rightarrow> List.map_filter (\<lambda>(key, value). case value of FileField f \<Rightarrow> Some (key, f) | Text _ \<Rightarrow> None) body_fields)"

text \<open>The text or value of a field, in either kind of body.\<close>

definition sends :: "RequestBody \<Rightarrow> jstr \<Rightarrow> json \<Rightarrow> bool" where
  "sends body key value = (case body of
       JsonBody body_fields \<Rightarrow> (key, value) \<in> set body_fields
     | FormBody body_fields \<Rightarrow> (key, Text (json_text value)) \<in> set body_fields)"

text \<open>
  A number input with \<open>min\<close>, \<open>max\<close> and \<open>step\<close> keeps the browser from submitting another number.
\<close>

definition input_valid :: "rat \<Rightarrow> rat \<Rightarrow> rat \<Rightarrow> rat \<Rightarrow> bool" where
  "input_valid lo hi stp n \<longleftrightarrow> lo \<le> n \<and> n \<le> hi \<and> (n - lo) / stp \<in> \<int>"

section \<open>What the tables hold\<close>

lemma mapr_total: "(\<And>x. x \<in> set xs \<Longrightarrow> \<exists>y. f x = Inr y) \<Longrightarrow> \<exists>ys. mapr f xs = Inr ys"
proof (induction xs)
  case (Cons x xs)
  then obtain y ys where "f x = Inr y" "mapr f xs = Inr ys" by fastforce
  then show ?case by simp
qed simp

lemma length_mapr: "mapr f xs = Inr ys \<Longrightarrow> length ys = length xs"
  by (induction xs arbitrary: ys) (auto simp: bindr_Inr_iff)

lemma listed_display:
  assumes "map_of providerRegistry p = Some P" "m \<in> set (pp_models P k)"
  obtains d where "modelDisplayID m = Inr d"
  using listed_model [OF assms] by (auto simp: listed_as_def)

lemma leonardo_display: "m \<in> set (provider_models leonardo) \<Longrightarrow> modelDisplayID m = Inr m"
  using leonardo_listed_as by (simp add: listed_as_def)

lemma qualified_display:
  assumes "map_of providerRegistry (lit p) = Some P" "t \<noteq> []" "CHR ''/'' \<notin> set t" "CHR '':'' \<notin> set t"
  shows "modelDisplayID (lit (p @ '':'' @ t)) = Inr (lit t)"
  using qualified_id(2) [OF assms(1), of "lit t"] assms(2-4) by (simp add: lit_colon lit_eq_Nil slash_in_lit colon_in_lit)

lemma registry_choosable:
  assumes "map_of providerRegistry p = Some P" "kind \<in> set (pp_capabilities P)"
  shows "choosable kind [] p"
proof -
  obtain q where "q \<in> set (providerOptions [])" "prov_id q = p" "prov_enabled q" "prov_adapter_registered q = Some True"
    "prov_capabilities q = map kind_name (pp_capabilities P)"
    using map_of_SomeD [OF assms(1)] by (force simp: providerOptions_def)
  moreover have "isRegisteredProviderID (Some p)" using assms(1) by (auto simp: isRegisteredProviderID_Some)
  ultimately show ?thesis using assms(2)
    by (force simp: choosable_def visible_providers_def providerSupports_def)
qed

text \<open>The provider lists the model, under this display id.\<close>

definition offered :: "MediaKind \<Rightarrow> jstr \<Rightarrow> jstr \<Rightarrow> jstr \<Rightarrow> bool" where
  "offered kind p d m \<longleftrightarrow> (\<exists>P. map_of providerRegistry p = Some P \<and> m \<in> set (pp_models P kind)) \<and>
     modelDisplayID m = Inr d"

lemma publicModels_listed:
  assumes "map_of providerRegistry p = Some P"
  shows "\<exists>ds. providerPublicModels p k = Inr ds \<and> (\<forall>d. d \<in> set ds \<longleftrightarrow> (\<exists>m. offered k p d m))"
proof -
  have "\<exists>d. modelDisplayID m = Inr d" if "m \<in> set (pp_models P k)" for m
    using listed_model [OF assms that] by (auto simp: listed_as_def)
  then obtain ds where ds: "mapr modelDisplayID (pp_models P k) = Inr ds" using mapr_total by blast
  then show ?thesis
    using assms mapr_Inr_set [OF ds] mapr_Inr_set' [OF ds]
    by (fastforce simp: providerPublicModels_def registered_def obj_get_own offered_def)
qed

lemma models_of_simps:
  assumes "map_of providerRegistry p = Some P"
  shows "models_of imageModelsByProvider p = providerPublicModels p Image"
    "models_of videoModelsByProvider p = providerPublicModels p Video"
  using assms
  by (auto simp: models_of_def imageModelsByProvider_def videoModelsByProvider_def registry_map_of obj_get_def)

lemma models_of_registered:
  assumes "models_of imageModelsByProvider p = Inr ds \<or> models_of videoModelsByProvider p = Inr ds"
  shows "\<exists>P. map_of providerRegistry p = Some P"
  using assms
  by (auto simp: models_of_def imageModelsByProvider_def videoModelsByProvider_def providerRegistry_def
      obj_get_def split: if_splits)

lemma image_offered:
  assumes "models_of imageModelsByProvider p = Inr ds"
  shows "d \<in> set ds \<longleftrightarrow> (\<exists>m. offered Image p d m)"
proof -
  obtain P where P: "map_of providerRegistry p = Some P" using models_of_registered assms by blast
  show ?thesis using publicModels_listed [OF P, of Image] models_of_simps(1) [OF P] assms by auto
qed

lemma video_offered:
  assumes "models_of videoModelsByProvider p = Inr ds"
  shows "d \<in> set ds \<longleftrightarrow> (\<exists>m. offered Video p d m)"
proof -
  obtain P where P: "map_of providerRegistry p = Some P" using models_of_registered assms by blast
  show ?thesis using publicModels_listed [OF P, of Video] models_of_simps(2) [OF P] assms by auto
qed

lemma offered_route:
  "offered kind p d m \<Longrightarrow>
     generationRoute m = Inr \<lparr>gr_provider = p, gr_model = p @ 47 # d, gr_internalModel = m\<rparr>"
  using listed_model [of p _ m kind] by (fastforce simp: offered_def listed_as_def)

lemma offered_unique: "offered kind p d m \<Longrightarrow> offered kind p d n \<Longrightarrow> m = n"
  using display_inj by (fastforce simp: offered_def)

lemma offered_nonempty:
  assumes "offered kind p d m"
  shows "m \<noteq> []"
proof
  assume "m = []"
  from assms have "listed_as p m d"
    using listed_model [of p _ m kind] by (fastforce simp: offered_def listed_as_def)
  then have "modelProviderID m = p" by (simp add: listed_as_def)
  moreover have "modelProviderID [] = []" by code_simp
  ultimately show False using assms \<open>m = []\<close> by (auto simp: offered_def registry_map_of)
qed

lemma offered_display_nonempty:
  assumes "offered kind p d m"
  shows "d \<noteq> []"
proof -
  obtain P where P: "map_of providerRegistry p = Some P" "m \<in> set (pp_models P kind)" "modelDisplayID m = Inr d"
    using assms by (auto simp: offered_def)
  note b = listed_model_bare [OF P(1,2)]
  then have "d = bare_id p m" using P(3) by (simp add: listed_as_def)
  show ?thesis
  proof (cases "p = lit ''leonardo''")
    case True
    with \<open>d = bare_id p m\<close> offered_nonempty [OF assms] show ?thesis by (simp add: bare_id_def)
  next
    case False
    then obtain x where "m = p @ 58 # x" "x \<noteq> []" using qualified_model [OF P(1) _ P(2)] by blast
    with b False \<open>d = bare_id p m\<close> show ?thesis by simp
  qed
qed

lemma offered_internal: "offered kind p d m \<Longrightarrow> providerInternalModel p kind d = Inr (Some m)"
  using providerInternalModel_listed by (auto simp: offered_def)

lemma effective_offered:
  "offered Image p d m \<Longrightarrow> providerImageModel p d = Inr m"
  "offered Video p d m \<Longrightarrow> providerVideoModel p d = Inr m"
  by (simp_all add: providerImageModel_def providerVideoModel_def offered_internal or_str_def
      offered_nonempty)

lemma offered_documented:
  assumes "offered Video p d m"
  shows "\<exists>doc. map_of videoModelDocs m = Some doc"
proof -
  obtain P where "P = leonardo \<or> P = adobe \<or> P = creativefabrica" "m \<in> set (pp_models P Video)"
    using assms by (auto simp: offered_def registry_map_of)
  then show ?thesis using video_doc_exists [OF listed_video] by blast
qed

lemma offered_image_documented:
  assumes "offered Image p d m"
  shows "\<exists>doc. obj_get imageModelDocs m = Inr (Some doc)"
proof -
  obtain P where "P = leonardo \<or> P = adobe \<or> P = creativefabrica" "m \<in> set (pp_models P Image)"
    using assms by (auto simp: offered_def registry_map_of)
  then show ?thesis using image_doc_exists [OF listed_image] by blast
qed

lemma sends_defined:
  "(key, Some value) \<in> set entries \<Longrightarrow> sends (JsonBody (defined_fields entries)) key value"
  "(key, Some value) \<in> set entries \<Longrightarrow> sends (FormBody (text_fields entries @ files)) key value"
  by (force simp: sends_def text_fields_def defined_fields_def List.map_filter_def image_iff)+

lemma request_files_append:
  "request_files (FormBody (a @ b)) = request_files (FormBody a) @ request_files (FormBody b)"
  by (simp add: request_files_def List.map_filter_def)

lemma request_files_text: "request_files (FormBody (text_fields entries)) = []"
  by (auto simp: request_files_def text_fields_def List.map_filter_def filter_empty_conv)

lemma request_files_file: "request_files (FormBody (file_fields key fs)) = map (Pair key) fs"
  by (induction fs) (simp_all add: request_files_def file_fields_def List.map_filter_def)

lemma request_files_json: "request_files (JsonBody body_fields) = []"
  by (simp add: request_files_def)

lemmas request_files_simps = request_files_append request_files_text request_files_file request_files_json

lemma offered_provider: "offered kind p d m \<Longrightarrow> modelProviderID m = p"
  using listed_model [of p _ m kind] by (fastforce simp: offered_def listed_as_def)

lemma requested_listed:
  assumes "offered kind p d m" and table: "models_of table p = providerPublicModels p kind"
  shows "requested_model table (Some m) None = Inr (Some (p, d))"
proof -
  from assms(1) obtain P where P: "map_of providerRegistry p = Some P" and d: "modelDisplayID m = Inr d"
    by (auto simp: offered_def)
  then obtain ds where ds: "providerPublicModels p kind = Inr ds" "d \<in> set ds"
    using publicModels_listed [OF P, of kind] assms(1) by blast
  have "isRegisteredProviderID (Some p)" using P unfolding registry_map_of
    by (auto simp: isRegisteredProviderID_def obj_has_def providerRegistry_def)
  then show ?thesis
    using ds d offered_nonempty [OF assms(1)]
    by (simp add: requested_model_def Let_def or_str_def offered_provider [OF assms(1)] table)
qed

lemma choosable_registered:
  assumes "choosable kind providers p"
  shows "\<exists>P. map_of providerRegistry p = Some P"
proof -
  have "prov_id q \<in> fst ` set providerRegistry" if "q \<in> set (providerOptions providers)" for q
  proof -
    from that obtain pid fallback where "(pid, fallback) \<in> set providerRegistry" "prov_id q = pid"
      by (auto simp: providerOptions_def find_Some_iff split: option.splits)
    then show ?thesis by force
  qed
  with assms show ?thesis by (auto simp: choosable_def visible_providers_def registry_keys)
qed

section \<open>Properties\<close>

text \<open>Opening the playground at the address of any model the registry lists selects exactly the
  provider that lists it and the id it is shown under, in the image form and in the video form.\<close>

theorem address_opens_listed_model:
  "(offered Image p d m \<longrightarrow> requested_model imageModelsByProvider (Some m) None = Inr (Some (p, d))) \<and>
   (offered Video p d m \<longrightarrow> requested_model videoModelsByProvider (Some m) None = Inr (Some (p, d)))"
  using requested_listed [of Image p d m imageModelsByProvider]
    requested_listed [of Video p d m videoModelsByProvider] models_of_simps [of p]
  by (auto simp: offered_def)

theorem address_opens_listed_model_witness:
  "requested_model videoModelsByProvider (Some (lit ''adobe:veo-3.1'')) None = Inr (Some (lit ''adobe'', lit ''veo-3.1''))"
proof -
  have "modelDisplayID (lit ''adobe:veo-3.1'') = Inr (lit ''veo-3.1'')"
    using qualified_display [of "''adobe''" adobe "''veo-3.1''"] by (simp add: registry_map_of)
  then have "offered Video (lit ''adobe'') (lit ''veo-3.1'') (lit ''adobe:veo-3.1'')"
    by (simp add: offered_def providerRegistry_def adobe_def)
  then show ?thesis using address_opens_listed_model by blast
qed

end
