(* ===== verification/VideoForm.thy ===== *)
theory VideoForm
  imports Playground
begin

text \<open>
  The video form of the playground (VideoPlayground of pages/playground-page.tsx): its fields, every
  control that changes them, what is checked before a request is sent, and the request. Files are
  named by strings. A page that fails to render is an error of the whole form.
\<close>

section \<open>The form\<close>

datatype VideoMode = VideoGeneration | VideoReference

record VideoForm =
  vf_mode :: VideoMode
  vf_model :: jstr
  vf_provider :: jstr
  vf_prompt :: jstr
  vf_duration :: int
  vf_size :: jstr
  vf_resolution :: "jstr option"
  vf_strength :: jstr
  vf_referenceImages :: "jstr list"
  vf_startFrame :: "jstr list"
  vf_endFrame :: "jstr list"
  vf_referenceVideos :: "jstr list"
  vf_referenceAudio :: "jstr list"
  vf_generateAudio :: bool

definition initial_video_form :: VideoForm where
  "initial_video_form =
     \<lparr>vf_mode = VideoGeneration, vf_model = lit ''seedance-2.0-mini'', vf_provider = lit ''leonardo'',
      vf_prompt = [], vf_duration = 8, vf_size = lit ''1280x720'', vf_resolution = Some (lit ''720p''),
      vf_strength = lit ''MID'', vf_referenceImages = [], vf_startFrame = [], vf_endFrame = [],
      vf_referenceVideos = [], vf_referenceAudio = [], vf_generateAudio = True\<rparr>"

definition video_effective :: "VideoForm \<Rightarrow> jstr res" where
  "video_effective v = providerVideoModel (vf_provider v) (vf_model v)"

definition selectedVideoSpec :: "VideoForm \<Rightarrow> VideoModelDoc res" where
  "selectedVideoSpec v = bindr (video_effective v) video_doc"

definition requires_frame :: "VideoModelDoc \<Rightarrow> bool" where
  "requires_frame spec \<longleftrightarrow> vd_requiresStartFrame spec = Some True"

definition always_audio :: "VideoModelDoc \<Rightarrow> bool" where
  "always_audio spec \<longleftrightarrow> vd_alwaysGenerateAudio spec = Some True"

definition referenceMode :: "VideoModelDoc \<Rightarrow> VideoForm \<Rightarrow> bool" where
  "referenceMode spec v \<longleftrightarrow> requires_frame spec \<or> vf_mode v = VideoReference"

section \<open>Selecting a model or a provider\<close>

definition selectVideoModel :: "jstr \<Rightarrow> VideoForm \<Rightarrow> VideoForm res" where
  "selectVideoModel next v =
     bindr (providerVideoModel (vf_provider v) next) (\<lambda>routed.
     bindr (video_doc routed) (\<lambda>spec.
     bindr (defaultVideoResolution routed) (\<lambda>resolution.
     bindr (modelVideoSizes routed) (\<lambda>sizes. case sizes of
       [] \<Rightarrow> Inl TypeError
     | first # _ \<Rightarrow> Inr (v
         \<lparr>vf_model := next, vf_resolution := resolution, vf_size := vs_value first,
          vf_duration := vd_defaultDuration spec,
          vf_referenceImages :=
            take (maxImageReferences spec (vf_referenceVideos v \<noteq> [])) (vf_referenceImages v),
          vf_startFrame := (if vd_supportsStartEnd spec then vf_startFrame v else []),
          vf_endFrame := (if vd_supportsStartEnd spec \<and> supportsVideoEndFrame spec then vf_endFrame v else []),
          vf_referenceVideos := (if maxVideoReferences spec = 0 then [] else vf_referenceVideos v),
          vf_referenceAudio := take (maxAudioReferences spec) (vf_referenceAudio v),
          vf_generateAudio := (always_audio spec \<or> vf_generateAudio v),
          vf_mode := (if requires_frame spec then VideoReference else vf_mode v)\<rparr>)))))"

definition selectVideoProvider :: "jstr \<Rightarrow> VideoForm \<Rightarrow> VideoForm res" where
  "selectVideoProvider next v =
     bindr (models_of videoModelsByProvider next) (\<lambda>supported.
       let nextModel = (if vf_model v \<in> set supported then vf_model v
                        else case supported of [] \<Rightarrow> [] | first # _ \<Rightarrow> first) in
       if nextModel = [] then Inr v
       else
         bindr (providerVideoModel next nextModel) (\<lambda>routed.
         bindr (video_doc routed) (\<lambda>spec.
         bindr (defaultVideoResolution routed) (\<lambda>resolution.
         bindr (modelVideoSizes routed) (\<lambda>sizes. case sizes of
           [] \<Rightarrow> Inl TypeError
         | first # _ \<Rightarrow> Inr (v
             \<lparr>vf_provider := next, vf_model := nextModel, vf_resolution := resolution,
              vf_size := vs_value first, vf_duration := vd_defaultDuration spec,
              vf_referenceImages := [], vf_startFrame := [], vf_endFrame := [],
              vf_referenceVideos := [], vf_referenceAudio := [],
              vf_generateAudio := (always_audio spec \<or> vf_generateAudio v)\<rparr>))))))"

section \<open>The other controls\<close>

definition selectVideoSize :: "jstr \<Rightarrow> VideoForm \<Rightarrow> VideoForm res" where
  "selectVideoSize nextSize v =
     bindr (video_effective v) (\<lambda>effectiveModel.
     bindr (modelVideoSizes effectiveModel) (\<lambda>sizes.
       if nextSize \<notin> vs_value ` set sizes then Inr v
       else bindr (videoResolutionForSize effectiveModel nextSize) (\<lambda>mappedResolution.
         Inr (if opt_str mappedResolution \<noteq> []
              then v\<lparr>vf_size := nextSize, vf_resolution := mappedResolution\<rparr>
              else v\<lparr>vf_size := nextSize\<rparr>))))"

definition selectVideoResolution :: "jstr \<Rightarrow> VideoForm \<Rightarrow> VideoForm res" where
  "selectVideoResolution next v =
     bindr (video_effective v) (\<lambda>effectiveModel.
     bindr (videoResolutionsForSize effectiveModel (vf_size v)) (\<lambda>resolutions.
       Inr (if next \<in> set resolutions then v\<lparr>vf_resolution := Some next\<rparr> else v)))"

definition pickVideoImages :: "VideoModelDoc \<Rightarrow> jstr list \<Rightarrow> VideoForm \<Rightarrow> VideoForm" where
  "pickVideoImages spec files v =
     (if referenceMode spec v \<and> 0 < vd_maxReferenceImages spec
      then v\<lparr>vf_referenceImages := take (maxImageReferences spec (vf_referenceVideos v \<noteq> [])) files\<rparr> else v)"

definition pickStartFrame :: "VideoModelDoc \<Rightarrow> jstr list \<Rightarrow> VideoForm \<Rightarrow> VideoForm" where
  "pickStartFrame spec files v =
     (if referenceMode spec v \<and> vd_supportsStartEnd spec then v\<lparr>vf_startFrame := take 1 files\<rparr> else v)"

definition pickEndFrame :: "VideoModelDoc \<Rightarrow> jstr list \<Rightarrow> VideoForm \<Rightarrow> VideoForm" where
  "pickEndFrame spec files v =
     (if referenceMode spec v \<and> vd_supportsStartEnd spec \<and> supportsVideoEndFrame spec
      then v\<lparr>vf_endFrame := take 1 files\<rparr> else v)"

definition pickReferenceVideos :: "VideoModelDoc \<Rightarrow> jstr list \<Rightarrow> VideoForm \<Rightarrow> VideoForm" where
  "pickReferenceVideos spec files v =
     (if referenceMode spec v \<and> 0 < maxVideoReferences spec
      then let chosen = take (maxVideoReferences spec) files in
        v\<lparr>vf_referenceVideos := chosen,
          vf_referenceImages := (if chosen \<noteq> [] then take (maxImageReferences spec True) (vf_referenceImages v)
                                 else vf_referenceImages v)\<rparr>
      else v)"

definition pickReferenceAudio :: "VideoModelDoc \<Rightarrow> jstr list \<Rightarrow> VideoForm \<Rightarrow> VideoForm" where
  "pickReferenceAudio spec files v =
     (if referenceMode spec v \<and> 0 < maxAudioReferences spec
      then v\<lparr>vf_referenceAudio := take (maxAudioReferences spec) files\<rparr> else v)"

text \<open>
  The events of the form. A select offers only its options, and an input that is not shown or is
  disabled gives no event. Leaving the page and coming back keeps what the session stores and loses
  the files. \<open>Location\<close> is the effect of the address, \<open>Fallback\<close> the one that replaces a model the
  provider does not offer.
\<close>

datatype video_event =
  SelectModel jstr
| SelectProvider jstr
| SetMode VideoMode
| TypePrompt jstr
| SelectSize jstr
| SelectResolution jstr
| SelectDuration int
| SelectStrength jstr
| PickImages "jstr list"
| PickStart "jstr list"
| PickEnd "jstr list"
| PickVideos "jstr list"
| PickAudio "jstr list"
| ToggleAudio bool
| Remount
| Location "jstr option" "jstr option"
| Fallback

definition with_spec :: "(VideoModelDoc \<Rightarrow> VideoForm \<Rightarrow> VideoForm) \<Rightarrow> VideoForm \<Rightarrow> VideoForm res" where
  "with_spec f v = bindr (selectedVideoSpec v) (\<lambda>spec. Inr (f spec v))"

fun video_step :: "Provider list \<Rightarrow> VideoForm \<Rightarrow> video_event \<Rightarrow> VideoForm res" where
  "video_step providers v (SelectModel next) =
     bindr (models_of videoModelsByProvider (vf_provider v)) (\<lambda>selectable.
       if next \<in> set selectable then selectVideoModel next v else Inr v)"
| "video_step providers v (SelectProvider next) =
     (if choosable Video providers next then selectVideoProvider next v else Inr v)"
| "video_step providers v (SetMode mode) =
     with_spec (\<lambda>spec v. if mode = VideoGeneration \<and> requires_frame spec then v else v\<lparr>vf_mode := mode\<rparr>) v"
| "video_step providers v (TypePrompt s) = Inr (v\<lparr>vf_prompt := s\<rparr>)"
| "video_step providers v (SelectSize s) = selectVideoSize s v"
| "video_step providers v (SelectResolution r) = selectVideoResolution r v"
| "video_step providers v (SelectDuration n) =
     with_spec (\<lambda>spec v. if n \<in> set (vd_durationValues spec) then v\<lparr>vf_duration := n\<rparr> else v) v"
| "video_step providers v (SelectStrength s) =
     with_spec (\<lambda>spec v. if referenceMode spec v \<and> vf_referenceImages v \<noteq> [] \<and> s \<in> {lit ''LOW'', lit ''MID'', lit ''HIGH''}
       then v\<lparr>vf_strength := s\<rparr> else v) v"
| "video_step providers v (PickImages files) = with_spec (\<lambda>spec. pickVideoImages spec files) v"
| "video_step providers v (PickStart files) = with_spec (\<lambda>spec. pickStartFrame spec files) v"
| "video_step providers v (PickEnd files) = with_spec (\<lambda>spec. pickEndFrame spec files) v"
| "video_step providers v (PickVideos files) = with_spec (\<lambda>spec. pickReferenceVideos spec files) v"
| "video_step providers v (PickAudio files) = with_spec (\<lambda>spec. pickReferenceAudio spec files) v"
| "video_step providers v (ToggleAudio b) =
     with_spec (\<lambda>spec v. if vd_supportsGenerateAudio spec \<and> \<not> always_audio spec
       then v\<lparr>vf_generateAudio := b\<rparr> else v) v"
| "video_step providers v Remount =
     Inr (v\<lparr>vf_referenceImages := [], vf_startFrame := [], vf_endFrame := [], vf_referenceVideos := [],
            vf_referenceAudio := []\<rparr>)"
| "video_step providers v (Location initialModel initialProvider) =
     bindr (requested_model videoModelsByProvider initialModel initialProvider) (\<lambda>found.
       Inr (case found of None \<Rightarrow> v
            | Some (provider, model) \<Rightarrow> v\<lparr>vf_provider := provider, vf_model := model\<rparr>))"
| "video_step providers v Fallback =
     bindr (fallback_model videoModelsByProvider (vf_provider v) (vf_model v)) (\<lambda>model.
       Inr (v\<lparr>vf_model := model\<rparr>))"

definition video_run :: "Provider list \<Rightarrow> VideoForm res \<Rightarrow> video_event \<Rightarrow> VideoForm res" where
  "video_run providers s e = bindr s (\<lambda>v. video_step providers v e)"

section \<open>Creating a task\<close>

definition video_checks :: "(rat \<Rightarrow> jstr) \<Rightarrow> jstr \<Rightarrow> VideoModelDoc \<Rightarrow> VideoForm \<Rightarrow> unit res" where
  "video_checks loc apiKey spec v =
     (let images = vf_referenceImages v; start = vf_startFrame v; end_frame = vf_endFrame v;
          videos = vf_referenceVideos v; audio = vf_referenceAudio v;
          imageLimit = maxImageReferences spec (videos \<noteq> []) in
      if trim apiKey = [] then Inl (ErrorMessage (ulit ''%u8BF7%u5148%u586B%u5199 API Key''))
      else if trim (vf_prompt v) = [] then Inl (ErrorMessage (ulit ''%u8BF7%u8F93%u5165%u89C6%u9891%u63CF%u8FF0''))
      else bindr (assertPromptLength loc (vf_prompt v) (vf_model v) (vd_promptMax spec)) (\<lambda>_.
        if requires_frame spec \<and> start = [] then
          Inl (ErrorMessage (ulit ''Grok Imagine 1.5 %u5FC5%u987B%u4E0A%u4F20%u9996%u5E27''))
        else if \<not> supportsVideoEndFrame spec \<and> end_frame \<noteq> [] then
          Inl (ErrorMessage (ulit ''%u5F53%u524D%u6A21%u578B%u4E0D%u652F%u6301%u5C3E%u5E27''))
        else if images \<noteq> [] \<and> (start \<noteq> [] \<or> end_frame \<noteq> []) then
          Inl (ErrorMessage (ulit ''%u666E%u901A%u53C2%u8003%u56FE%u4E0D%u80FD%u4E0E%u9996%u5E27%u3001%u5C3E%u5E27%u540C%u65F6%u4F7F%u7528''))
        else if videos \<noteq> [] \<and> (start \<noteq> [] \<or> end_frame \<noteq> []) then
          Inl (ErrorMessage (ulit ''%u53C2%u8003%u89C6%u9891%u4E0D%u80FD%u4E0E%u9996%u5E27%u3001%u5C3E%u5E27%u540C%u65F6%u4F7F%u7528''))
        else if imageLimit < length images then
          Inl (ErrorMessage (ulit ''%u5F53%u524D%u53C2%u8003%u6A21%u5F0F%u6700%u591A%u652F%u6301 '' @ num_str (int imageLimit) @ ulit '' %u5F20%u666E%u901A%u53C2%u8003%u56FE''))
        else if audio \<noteq> [] \<and> images = [] \<and> videos = [] then
          Inl (ErrorMessage (ulit ''%u53C2%u8003%u97F3%u9891%u9700%u8981%u540C%u65F6%u63D0%u4F9B%u666E%u901A%u53C2%u8003%u56FE%u6216%u53C2%u8003%u89C6%u9891''))
        else if referenceMode spec v \<and> images = [] \<and> start = [] \<and> end_frame = [] \<and> videos = [] \<and> audio = [] then
          Inl (ErrorMessage (ulit ''%u591A%u6A21%u6001%u53C2%u8003%u6A21%u5F0F%u81F3%u5C11%u9700%u8981%u4E0A%u4F20 1 %u4E2A%u53C2%u8003%u6587%u4EF6''))
        else Inr ()))"

definition video_fields :: "jstr \<Rightarrow> VideoModelDoc \<Rightarrow> VideoForm \<Rightarrow> (jstr \<times> json option) list" where
  "video_fields routeModel spec v =
     [(lit ''model'', Some (JStr routeModel)), (lit ''prompt'', Some (JStr (trim (vf_prompt v)))),
      (lit ''duration'', Some (JNum (of_int (vf_duration v)))), (lit ''size'', Some (JStr (vf_size v))),
      (lit ''resolution'', map_option JStr (vf_resolution v)),
      (lit ''reference_strength'', Some (JStr (vf_strength v))),
      (lit ''generate_audio'', if vd_supportsGenerateAudio spec
         then Some (JBool (always_audio spec \<or> vf_generateAudio v)) else None)]"

definition video_files :: "VideoForm \<Rightarrow> (jstr \<times> form_value) list" where
  "video_files v =
     file_fields (lit ''image[]'') (vf_referenceImages v) @
     file_fields (lit ''start_frame'') (take 1 (vf_startFrame v)) @
     file_fields (lit ''end_frame'') (take 1 (vf_endFrame v)) @
     file_fields (lit ''video[]'') (vf_referenceVideos v) @
     file_fields (lit ''audio[]'') (vf_referenceAudio v)"

definition video_create :: "(rat \<Rightarrow> jstr) \<Rightarrow> jstr \<Rightarrow> VideoForm \<Rightarrow> RequestBody res" where
  "video_create loc apiKey v =
     bindr (video_effective v) (\<lambda>effectiveModel.
     bindr (video_doc effectiveModel) (\<lambda>spec.
     bindr (video_checks loc apiKey spec v) (\<lambda>_.
     bindr (generationRoute effectiveModel) (\<lambda>route.
       let body_entries = video_fields (gr_model route) spec v in
       Inr (if \<not> referenceMode spec v then JsonBody (defined_fields body_entries)
            else FormBody (text_fields body_entries @ video_files v))))))"

section \<open>The invariant\<close>

text \<open>
  The provider offers the model; the options are those of the model; the files fit it. The number
  of reference videos is left out: only whether the model takes any.
\<close>

definition video_options_ok :: "VideoModelDoc \<Rightarrow> VideoForm \<Rightarrow> bool" where
  "video_options_ok doc v \<longleftrightarrow> vf_duration v \<in> set (vd_durationValues doc) \<and>
     (\<exists>s \<in> set (doc_sizes doc). vf_size v = vs_value s \<and> vf_resolution v = Some (size_resolution doc s))"

definition video_files_ok :: "VideoModelDoc \<Rightarrow> VideoForm \<Rightarrow> bool" where
  "video_files_ok doc v \<longleftrightarrow>
     length (vf_referenceImages v) \<le> maxImageReferences doc (vf_referenceVideos v \<noteq> []) \<and>
     length (vf_startFrame v) \<le> 1 \<and> length (vf_endFrame v) \<le> 1 \<and>
     (vf_startFrame v \<noteq> [] \<longrightarrow> vd_supportsStartEnd doc) \<and>
     (vf_endFrame v \<noteq> [] \<longrightarrow> supportsVideoEndFrame doc) \<and>
     (vf_referenceVideos v \<noteq> [] \<longrightarrow> 0 < maxVideoReferences doc) \<and>
     length (vf_referenceAudio v) \<le> maxAudioReferences doc"

definition video_form_ok :: "VideoForm \<Rightarrow> bool" where
  "video_form_ok v \<longleftrightarrow> (\<exists>m doc. offered Video (vf_provider v) (vf_model v) m \<and>
     map_of videoModelDocs m = Some doc \<and> video_options_ok doc v \<and> video_files_ok doc v)"

text \<open>The events a user can cause without changing the address.\<close>

definition user_event :: "video_event \<Rightarrow> bool" where
  "user_event e \<longleftrightarrow> (case e of Location _ _ \<Rightarrow> False | _ \<Rightarrow> True)"

lemma maxImageReferences_le:
  assumes "map_of videoModelDocs m = Some doc"
  shows "maxImageReferences doc b \<le> maxImageReferences doc False"
  using documented_ok [OF assms] by (cases b) (auto simp: maxImageReferences_def video_doc_ok_def)

lemma sizes_nonempty:
  assumes "map_of videoModelDocs m = Some doc"
  shows "\<exists>s ss. doc_sizes doc = s # ss" "modelVideoSizes m = Inr (doc_sizes doc)"
  using documented_ok [OF assms]
  by (auto simp: video_doc_ok_def sizes_ok_def neq_Nil_conv modelVideoSizes_def video_doc_Some [OF assms])

lemma selectVideoModel_ok:
  assumes o: "offered Video (vf_provider v) d m" and doc: "map_of videoModelDocs m = Some doc"
    and frames: "length (vf_startFrame v) \<le> 1" "length (vf_endFrame v) \<le> 1"
  shows "\<exists>w. selectVideoModel d v = Inr w \<and> video_form_ok w \<and> vf_model w = d \<and> vf_provider w = vf_provider v"
proof -
  obtain s ss where s: "doc_sizes doc = s # ss" using sizes_nonempty [OF doc] by blast
  have ok: "video_doc_ok doc" using documented_ok [OF doc] by simp
  define w where "w = v\<lparr>vf_model := d, vf_resolution := Some (size_resolution doc s), vf_size := vs_value s,
          vf_duration := vd_defaultDuration doc,
          vf_referenceImages :=
            take (maxImageReferences doc (vf_referenceVideos v \<noteq> [])) (vf_referenceImages v),
          vf_startFrame := (if vd_supportsStartEnd doc then vf_startFrame v else []),
          vf_endFrame := (if vd_supportsStartEnd doc \<and> supportsVideoEndFrame doc then vf_endFrame v else []),
          vf_referenceVideos := (if maxVideoReferences doc = 0 then [] else vf_referenceVideos v),
          vf_referenceAudio := take (maxAudioReferences doc) (vf_referenceAudio v),
          vf_generateAudio := (always_audio doc \<or> vf_generateAudio v),
          vf_mode := (if requires_frame doc then VideoReference else vf_mode v)\<rparr>"
  have "selectVideoModel d v = Inr w"
    using s by (simp add: selectVideoModel_def effective_offered(2) [OF o] video_doc_Some [OF doc]
        defaultVideoResolution_listed [OF doc] sizes_nonempty(2) [OF doc] w_def)
  moreover have "video_options_ok doc w"
    using ok s by (simp add: video_options_ok_def w_def video_doc_ok_def)
  moreover have "video_files_ok doc w"
    using frames maxImageReferences_le [OF doc, of "vf_referenceVideos v \<noteq> []"]
    by (auto simp: video_files_ok_def w_def)
  ultimately show ?thesis using o doc unfolding video_form_ok_def by (intro exI [of _ w]) (auto simp: w_def)
qed

lemma selectVideoProvider_ok:
  assumes p: "map_of providerRegistry p = Some P" and v: "pp_models P Video \<noteq> []"
  shows "\<exists>w. selectVideoProvider p v = Inr w \<and> video_form_ok w \<and> vf_provider w = p"
proof -
  obtain ds where ds: "providerPublicModels p Video = Inr ds"
      "\<And>d. d \<in> set ds \<longleftrightarrow> (\<exists>m. offered Video p d m)"
    using publicModels_listed [OF p, of Video] by blast
  have "hd (pp_models P Video) \<in> set (pp_models P Video)" using v by simp
  moreover from this obtain d0 where "modelDisplayID (hd (pp_models P Video)) = Inr d0"
    using listed_display [OF p] by blast
  ultimately have "offered Video p d0 (hd (pp_models P Video))" using p by (simp add: offered_def)
  then have "ds \<noteq> []" using ds(2) by force
  define d where "d = (if vf_model v \<in> set ds then vf_model v else hd ds)"
  have "d \<in> set ds" using \<open>ds \<noteq> []\<close> by (simp add: d_def)
  then obtain m where o: "offered Video p d m" using ds(2) by blast
  obtain doc where doc: "map_of videoModelDocs m = Some doc" using offered_documented [OF o] by blast
  obtain s ss where s: "doc_sizes doc = s # ss" using sizes_nonempty [OF doc] by blast
  have ok: "video_doc_ok doc" using documented_ok [OF doc] by simp
  define w where "w = v\<lparr>vf_provider := p, vf_model := d, vf_resolution := Some (size_resolution doc s),
              vf_size := vs_value s, vf_duration := vd_defaultDuration doc,
              vf_referenceImages := [], vf_startFrame := [], vf_endFrame := [],
              vf_referenceVideos := [], vf_referenceAudio := [],
              vf_generateAudio := (always_audio doc \<or> vf_generateAudio v)\<rparr>"
  have next_model: "(if vf_model v \<in> set ds then vf_model v
      else case ds of [] \<Rightarrow> [] | first # _ \<Rightarrow> first) = d"
    using \<open>ds \<noteq> []\<close> by (simp add: d_def split: list.split)
  have "d \<noteq> []" using offered_display_nonempty [OF o] .
  then have "selectVideoProvider p v = Inr w"
    unfolding selectVideoProvider_def models_of_simps(2) [OF p] ds(1) bindr_simps next_model Let_def
    using s by (simp add: effective_offered(2) [OF o] video_doc_Some [OF doc]
        defaultVideoResolution_listed [OF doc] sizes_nonempty(2) [OF doc] w_def)
  moreover have "video_options_ok doc w" "video_files_ok doc w"
    using ok s by (simp_all add: video_options_ok_def video_files_ok_def w_def video_doc_ok_def)
  ultimately show ?thesis using o doc unfolding video_form_ok_def by (intro exI [of _ w]) (auto simp: w_def)
qed

lemma video_form_ok_iff:
  assumes "offered Video (vf_provider v) (vf_model v) m" "map_of videoModelDocs m = Some doc"
  shows "video_form_ok v \<longleftrightarrow> video_options_ok doc v \<and> video_files_ok doc v"
  using assms offered_unique unfolding video_form_ok_def by (metis option.inject)

text \<open>What stays when the provider and the model do.\<close>

lemma video_form_ok_keep:
  assumes ok: "offered Video (vf_provider v) (vf_model v) m" "map_of videoModelDocs m = Some doc"
    and same: "vf_provider w = vf_provider v" "vf_model w = vf_model v"
    and "video_options_ok doc w" "video_files_ok doc w"
  shows "video_form_ok w"
  using assms unfolding video_form_ok_def by auto

lemma selectVideoSize_ok:
  assumes ok: "offered Video (vf_provider v) (vf_model v) m" "map_of videoModelDocs m = Some doc"
    "video_options_ok doc v" "video_files_ok doc v"
  shows "\<exists>w. selectVideoSize nextSize v = Inr w \<and> video_form_ok w"
proof (cases "nextSize \<in> vs_value ` set (doc_sizes doc)")
  case True
  then obtain s where s: "s \<in> set (doc_sizes doc)" "nextSize = vs_value s" by blast
  from ok(3) obtain t where t: "t \<in> set (doc_sizes doc)" "vf_resolution v = Some (size_resolution doc t)"
    by (auto simp: video_options_ok_def)
  have "resolutions_uniform doc" using documented_ok [OF ok(2)] by (simp add: video_doc_ok_def)
  then have same: "opt_str (vs_resolution s) = [] \<Longrightarrow> size_resolution doc t = size_resolution doc s"
    using s(1) t(1) by (auto simp: resolutions_uniform_def size_resolution_def)
  define w where "w = v\<lparr>vf_size := nextSize, vf_resolution := Some (size_resolution doc s)\<rparr>"
  have "selectVideoSize nextSize v = Inr w"
  proof (cases "opt_str (vs_resolution s) = []")
    case no: True
    with same t(2) have "v\<lparr>vf_size := nextSize\<rparr> = w" by (simp add: w_def)
    with no True show ?thesis
      by (simp add: selectVideoSize_def video_effective_def effective_offered(2) [OF ok(1)]
          sizes_nonempty(2) [OF ok(2)] videoResolutionForSize_listed [OF ok(2) s(1)] s(2))
  next
    case False
    then have "vs_resolution s = Some (size_resolution doc s)"
      by (cases "vs_resolution s") (auto simp: size_resolution_def or_str_def)
    with False True show ?thesis
      by (simp add: selectVideoSize_def video_effective_def effective_offered(2) [OF ok(1)]
          sizes_nonempty(2) [OF ok(2)] videoResolutionForSize_listed [OF ok(2) s(1)] s(2) w_def)
  qed
  moreover have "video_form_ok w"
    using ok s by (intro video_form_ok_keep [OF ok(1,2)])
      (auto simp: w_def video_options_ok_def video_files_ok_def)
  ultimately show ?thesis by blast
next
  case False
  then have "selectVideoSize nextSize v = Inr v"
    by (simp add: selectVideoSize_def video_effective_def effective_offered(2) [OF ok(1)]
        sizes_nonempty(2) [OF ok(2)])
  with ok show ?thesis by (auto simp: video_form_ok_def)
qed

lemma selectVideoResolution_ok:
  assumes ok: "offered Video (vf_provider v) (vf_model v) m" "map_of videoModelDocs m = Some doc"
    "video_options_ok doc v"
  shows "selectVideoResolution r v = Inr v"
proof -
  from ok(3) obtain t where t: "t \<in> set (doc_sizes doc)" "vf_size v = vs_value t"
    "vf_resolution v = Some (size_resolution doc t)"
    by (auto simp: video_options_ok_def)
  have "v\<lparr>vf_resolution := Some (size_resolution doc t)\<rparr> = v" using t(3) by simp
  then show ?thesis
    by (simp add: selectVideoResolution_def video_effective_def effective_offered(2) [OF ok(1)]
        t(2) videoResolutionsForSize_listed [OF ok(2) t(1)])
qed

text \<open>The options do not change with the files, nor the files with the options.\<close>

lemma files_event_ok:
  assumes "video_options_ok doc v" "video_files_ok doc v" "map_of videoModelDocs m = Some doc"
  shows "video_options_ok doc (pickVideoImages doc fs v)" "video_files_ok doc (pickVideoImages doc fs v)"
    "video_options_ok doc (pickStartFrame doc fs v)" "video_files_ok doc (pickStartFrame doc fs v)"
    "video_options_ok doc (pickEndFrame doc fs v)" "video_files_ok doc (pickEndFrame doc fs v)"
    "video_options_ok doc (pickReferenceVideos doc fs v)" "video_files_ok doc (pickReferenceVideos doc fs v)"
    "video_options_ok doc (pickReferenceAudio doc fs v)" "video_files_ok doc (pickReferenceAudio doc fs v)"
  using assms maxImageReferences_le [OF assms(3), of "vf_referenceVideos v \<noteq> []"]
  by (auto simp: video_options_ok_def video_files_ok_def pickVideoImages_def pickStartFrame_def
      pickEndFrame_def pickReferenceVideos_def pickReferenceAudio_def Let_def)

lemma pick_same [simp]:
  "vf_provider (pickVideoImages doc fs v) = vf_provider v" "vf_model (pickVideoImages doc fs v) = vf_model v"
  "vf_provider (pickStartFrame doc fs v) = vf_provider v" "vf_model (pickStartFrame doc fs v) = vf_model v"
  "vf_provider (pickEndFrame doc fs v) = vf_provider v" "vf_model (pickEndFrame doc fs v) = vf_model v"
  "vf_provider (pickReferenceVideos doc fs v) = vf_provider v"
  "vf_model (pickReferenceVideos doc fs v) = vf_model v"
  "vf_provider (pickReferenceAudio doc fs v) = vf_provider v"
  "vf_model (pickReferenceAudio doc fs v) = vf_model v"
  by (simp_all add: pickVideoImages_def pickStartFrame_def pickEndFrame_def pickReferenceVideos_def
      pickReferenceAudio_def Let_def)

lemma video_models_exist: "map_of providerRegistry p = Some P \<Longrightarrow> pp_models P Video \<noteq> []"
  by (auto simp: registry_map_of leonardo_def adobe_def creativefabrica_def creativefabrica_video_models_def)

lemma fallback_offered:
  assumes "offered Video p d m"
  shows "fallback_model videoModelsByProvider p d = Inr d"
proof -
  obtain P where P: "map_of providerRegistry p = Some P" using assms by (auto simp: offered_def)
  then obtain ds where "providerPublicModels p Video = Inr ds" "d \<in> set ds"
    using publicModels_listed [OF P, of Video] assms by blast
  then show ?thesis by (cases ds) (auto simp: fallback_model_def models_of_simps(2) [OF P])
qed

lemma video_form_ok_other [simp]:
  "video_form_ok (v\<lparr>vf_mode := x\<rparr>) = video_form_ok v" "video_form_ok (v\<lparr>vf_prompt := s\<rparr>) = video_form_ok v"
  "video_form_ok (v\<lparr>vf_strength := s\<rparr>) = video_form_ok v"
  "video_form_ok (v\<lparr>vf_generateAudio := b\<rparr>) = video_form_ok v"
  by (simp_all add: video_form_ok_def video_options_ok_def video_files_ok_def)

lemma video_step_ok:
  assumes ok: "video_form_ok v" and user: "user_event e"
  shows "\<exists>w. video_step providers v e = Inr w \<and> video_form_ok w"
proof -
  from ok obtain m doc where o: "offered Video (vf_provider v) (vf_model v) m"
    and doc: "map_of videoModelDocs m = Some doc"
    and opts: "video_options_ok doc v" and files: "video_files_ok doc v"
    by (auto simp: video_form_ok_def)
  have spec: "with_spec f v = Inr (f doc v)" for f
    by (simp add: with_spec_def selectedVideoSpec_def video_effective_def effective_offered(2) [OF o]
        video_doc_Some [OF doc])
  note keep = video_form_ok_keep [OF o doc]
  note picks = files_event_ok [OF opts files doc]
  obtain P where P: "map_of providerRegistry (vf_provider v) = Some P" using o by (auto simp: offered_def)
  obtain ds where ds: "models_of videoModelsByProvider (vf_provider v) = Inr ds"
    using publicModels_listed [OF P, of Video] models_of_simps(2) [OF P] by auto
  show ?thesis
  proof (cases e)
    case (SelectModel d)
    show ?thesis
    proof (cases "d \<in> set ds")
      case True
      then obtain n where n: "offered Video (vf_provider v) d n" using video_offered [OF ds] by blast
      moreover obtain doc' where "map_of videoModelDocs n = Some doc'" using offered_documented [OF n] by blast
      moreover have "length (vf_startFrame v) \<le> 1" "length (vf_endFrame v) \<le> 1"
        using files by (simp_all add: video_files_ok_def)
      ultimately show ?thesis using True selectVideoModel_ok SelectModel ds by fastforce
    qed (use SelectModel ds ok in simp)
  next
    case (SelectProvider p)
    show ?thesis
    proof (cases "choosable Video providers p")
      case True
      then obtain Q where Q: "map_of providerRegistry p = Some Q" using choosable_registered by blast
      then show ?thesis
        using True SelectProvider selectVideoProvider_ok [OF Q video_models_exist [OF Q]] by fastforce
    qed (use SelectProvider ok in simp)
  next
    case (SelectSize s)
    with selectVideoSize_ok [OF o doc opts files] show ?thesis by simp
  next
    case (SelectResolution r)
    with selectVideoResolution_ok [OF o doc opts] ok show ?thesis by simp
  next
    case Fallback
    with ok fallback_offered [OF o] show ?thesis by simp
  next
    case (Location im ip)
    with user show ?thesis by (simp add: user_event_def)
  next
    case (SelectDuration n)
    have "video_form_ok (v\<lparr>vf_duration := n\<rparr>)" if "n \<in> set (vd_durationValues doc)"
      using that opts files by (intro keep) (simp_all add: video_options_ok_def video_files_ok_def)
    with SelectDuration ok show ?thesis by (simp add: spec)
  next
    case Remount
    have "video_form_ok (v\<lparr>vf_referenceImages := [], vf_startFrame := [], vf_endFrame := [],
        vf_referenceVideos := [], vf_referenceAudio := []\<rparr>)"
      using opts by (intro keep) (simp_all add: video_options_ok_def video_files_ok_def)
    with Remount show ?thesis by simp
  next
    case (PickImages fs)
    then show ?thesis using keep [OF _ _ picks(1,2)] by (simp add: spec)
  next
    case (PickStart fs)
    then show ?thesis using keep [OF _ _ picks(3,4)] by (simp add: spec)
  next
    case (PickEnd fs)
    then show ?thesis using keep [OF _ _ picks(5,6)] by (simp add: spec)
  next
    case (PickVideos fs)
    then show ?thesis using keep [OF _ _ picks(7,8)] by (simp add: spec)
  next
    case (PickAudio fs)
    then show ?thesis using keep [OF _ _ picks(9,10)] by (simp add: spec)
  qed (use ok in \<open>simp_all add: spec\<close>)
qed

interpretation video: guarded_machine "video_run providers" "\<lambda>s. \<exists>v. s = Inr v \<and> video_form_ok v" user_event
  for providers
  by unfold_locales (use video_step_ok in \<open>force simp: video_run_def\<close>)

section \<open>Properties\<close>

definition files_of :: "RequestBody \<Rightarrow> jstr \<Rightarrow> jstr list" where
  "files_of body key = map snd (filter (\<lambda>f. fst f = key) (request_files body))"

lemma files_of_json: "files_of (JsonBody body_fields) key = []"
  by (simp add: files_of_def request_files_json)

lemma files_of_append:
  "files_of (FormBody (text_fields entries @ fs)) key = files_of (FormBody fs) key"
  "files_of (FormBody (file_fields k xs @ fs)) key = (if k = key then xs else []) @ files_of (FormBody fs) key"
  "files_of (FormBody (file_fields k xs)) key = (if k = key then xs else [])"
  by (simp_all add: files_of_def request_files_simps filter_map comp_def)

lemma files_of_video:
  "files_of (FormBody (text_fields entries @ video_files v)) (lit ''image[]'') = vf_referenceImages v"
  "files_of (FormBody (text_fields entries @ video_files v)) (lit ''start_frame'') = take 1 (vf_startFrame v)"
  "files_of (FormBody (text_fields entries @ video_files v)) (lit ''end_frame'') = take 1 (vf_endFrame v)"
  "files_of (FormBody (text_fields entries @ video_files v)) (lit ''video[]'') = vf_referenceVideos v"
  "files_of (FormBody (text_fields entries @ video_files v)) (lit ''audio[]'') = vf_referenceAudio v"
  by (simp_all add: files_of_append video_files_def)

lemmas files_of_simps = files_of_json files_of_video

lemma video_checks_pass:
  "video_checks loc apiKey spec v = Inr () \<longleftrightarrow>
     trim apiKey \<noteq> [] \<and> trim (vf_prompt v) \<noteq> [] \<and>
     assertPromptLength loc (vf_prompt v) (vf_model v) (vd_promptMax spec) = Inr () \<and>
     (requires_frame spec \<longrightarrow> vf_startFrame v \<noteq> []) \<and>
     (vf_endFrame v \<noteq> [] \<longrightarrow> supportsVideoEndFrame spec) \<and>
     ((vf_startFrame v \<noteq> [] \<or> vf_endFrame v \<noteq> []) \<longrightarrow> vf_referenceImages v = [] \<and> vf_referenceVideos v = []) \<and>
     length (vf_referenceImages v) \<le> maxImageReferences spec (vf_referenceVideos v \<noteq> []) \<and>
     (vf_referenceAudio v \<noteq> [] \<longrightarrow> vf_referenceImages v \<noteq> [] \<or> vf_referenceVideos v \<noteq> []) \<and>
     (referenceMode spec v \<longrightarrow> vf_referenceImages v \<noteq> [] \<or> vf_startFrame v \<noteq> [] \<or> vf_endFrame v \<noteq> [] \<or>
        vf_referenceVideos v \<noteq> [] \<or> vf_referenceAudio v \<noteq> [])"
  by (cases "assertPromptLength loc (vf_prompt v) (vf_model v) (vd_promptMax spec)")
     (auto simp: video_checks_def Let_def)

lemma video_checks_error: "video_checks loc apiKey spec v = Inr () \<or> (\<exists>msg. video_checks loc apiKey spec v = Inl (ErrorMessage msg))"
proof -
  have "assertPromptLength loc (vf_prompt v) (vf_model v) (vd_promptMax spec) = Inr () \<or>
    (\<exists>msg. assertPromptLength loc (vf_prompt v) (vf_model v) (vd_promptMax spec) = Inl (ErrorMessage msg))"
    by (simp add: assertPromptLength_def Let_def)
  then show ?thesis by (elim disjE exE) (simp_all add: video_checks_def Let_def)
qed

lemma video_create_offered:
  assumes o: "offered Video (vf_provider v) (vf_model v) m" and doc: "map_of videoModelDocs m = Some doc"
  shows "video_create loc apiKey v = bindr (video_checks loc apiKey doc v) (\<lambda>_.
     let entries = video_fields (vf_provider v @ 47 # vf_model v) doc v in
     Inr (if \<not> referenceMode doc v then JsonBody (defined_fields entries)
          else FormBody (text_fields entries @ video_files v)))"
  by (simp add: video_create_def video_effective_def effective_offered(2) [OF o] video_doc_Some [OF doc]
      offered_route [OF o])



text \<open>C2: A request sent from such a form names the chosen provider's model, has a prompt, and a
  duration, a size and that size's resolution documented for the model. It never mixes frames with
  reference images or videos, has no more images than the model takes beside the videos sent, sends
  audio only beside images or videos, and in reference mode has at least one file; in generation
  mode it has none.\<close>

theorem video_request_consistent:
  assumes "video_form_ok v" "video_create loc apiKey v = Inr body"
  shows "\<exists>m doc s n. offered Video (vf_provider v) (vf_model v) m \<and> map_of videoModelDocs m = Some doc \<and>
    sends body (lit ''model'') (JStr (vf_provider v @ 47 # vf_model v)) \<and>
    sends body (lit ''prompt'') (JStr (trim (vf_prompt v))) \<and> trim (vf_prompt v) \<noteq> [] \<and>
    n \<in> set (vd_durationValues doc) \<and> sends body (lit ''duration'') (JNum (of_int n)) \<and>
    s \<in> set (doc_sizes doc) \<and> sends body (lit ''size'') (JStr (vs_value s)) \<and>
    sends body (lit ''resolution'') (JStr (size_resolution doc s)) \<and>
    ((files_of body (lit ''start_frame'') \<noteq> [] \<or> files_of body (lit ''end_frame'') \<noteq> []) \<longrightarrow>
       files_of body (lit ''image[]'') = [] \<and> files_of body (lit ''video[]'') = []) \<and>
    length (files_of body (lit ''image[]'')) \<le> maxImageReferences doc (files_of body (lit ''video[]'') \<noteq> []) \<and>
    (files_of body (lit ''audio[]'') \<noteq> [] \<longrightarrow> files_of body (lit ''image[]'') \<noteq> [] \<or> files_of body (lit ''video[]'') \<noteq> []) \<and>
    (request_files body \<noteq> [] \<longleftrightarrow> referenceMode doc v)"
proof -
  from assms(1) obtain m doc s where o: "offered Video (vf_provider v) (vf_model v) m"
    and doc: "map_of videoModelDocs m = Some doc" and opts: "video_options_ok doc v"
    and s: "s \<in> set (doc_sizes doc)" "vf_size v = vs_value s" "vf_resolution v = Some (size_resolution doc s)"
    by (auto simp: video_form_ok_def video_options_ok_def)
  define entries where "entries = video_fields (vf_provider v @ 47 # vf_model v) doc v"
  from assms(2) have checks: "video_checks loc apiKey doc v = Inr ()"
    and body: "body = (if \<not> referenceMode doc v then JsonBody (defined_fields entries)
          else FormBody (text_fields entries @ video_files v))"
    by (auto simp: video_create_offered [OF o doc] bindr_Inr_iff entries_def)
  have sent: "sends body key x" if "(key, Some x) \<in> set entries" for key x
    using that by (simp add: body sends_defined)
  have entries_in: "(lit ''model'', Some (JStr (vf_provider v @ 47 # vf_model v))) \<in> set entries"
    "(lit ''prompt'', Some (JStr (trim (vf_prompt v)))) \<in> set entries"
    "(lit ''duration'', Some (JNum (of_int (vf_duration v)))) \<in> set entries"
    "(lit ''size'', Some (JStr (vs_value s))) \<in> set entries"
    "(lit ''resolution'', Some (JStr (size_resolution doc s))) \<in> set entries"
    by (simp_all add: entries_def video_fields_def s)
  note c = checks [unfolded video_checks_pass]
  have some_file: "request_files body \<noteq> [] \<longleftrightarrow> referenceMode doc v"
    using c by (auto simp: body request_files_simps video_files_def)
  have files: "((files_of body (lit ''start_frame'') \<noteq> [] \<or> files_of body (lit ''end_frame'') \<noteq> []) \<longrightarrow>
       files_of body (lit ''image[]'') = [] \<and> files_of body (lit ''video[]'') = []) \<and>
    length (files_of body (lit ''image[]'')) \<le> maxImageReferences doc (files_of body (lit ''video[]'') \<noteq> []) \<and>
    (files_of body (lit ''audio[]'') \<noteq> [] \<longrightarrow> files_of body (lit ''image[]'') \<noteq> [] \<or> files_of body (lit ''video[]'') \<noteq> [])"
    using c by (auto simp: body files_of_simps)
  show ?thesis
    using o doc s(1) opts c files some_file entries_in [THEN sent]
    by (intro exI [of _ m] exI [of _ doc] exI [of _ s] exI [of _ "vf_duration v"])
       (simp add: video_options_ok_def)
qed

definition omni_form :: VideoForm where
  "omni_form = initial_video_form\<lparr>vf_mode := VideoReference, vf_model := lit ''kling-o3-omni'', vf_prompt := lit ''a cat'',
     vf_referenceImages := [lit ''a.png'']\<rparr>"

lemma omni_offered: "offered Video (lit ''leonardo'') (lit ''kling-o3-omni'') (lit ''kling-o3-omni'')"
proof -
  have "modelDisplayID (lit ''kling-o3-omni'') = Inr (lit ''kling-o3-omni'')"
    by (rule leonardo_display) (simp add: provider_models_def leonardo_def)
  then show ?thesis by (simp add: offered_def providerRegistry_def leonardo_def)
qed

lemma omni_doc: "map_of videoModelDocs (lit ''kling-o3-omni'') = Some video_doc_kling_o3_omni"
  by (simp add: videoModelDocs_lookup creativeFabricaVideoDocs_lookup seedance_v2_mini_def
      creativefabrica_video_models_def baseVideoModelDocs_def)

lemma omni_form_ok: "video_form_ok omni_form"
  unfolding video_form_ok_def
  by (rule exI [of _ "lit ''kling-o3-omni''"], rule exI [of _ video_doc_kling_o3_omni])
     (use omni_offered omni_doc in \<open>simp add: omni_form_def initial_video_form_def video_options_ok_def
       video_files_ok_def video_doc_kling_o3_omni_def doc_sizes_def size_tables size_resolution_def or_str_def
       maxImageReferences_def mem_array_from\<close>)

lemma omni_fields: "vf_provider omni_form = lit ''leonardo''" "vf_model omni_form = lit ''kling-o3-omni''"
  by (simp_all add: omni_form_def initial_video_form_def)

lemma omni_sent: "\<exists>body. video_create (\<lambda>_. []) (lit ''key'') omni_form = Inr body"
proof -
  have "trim (lit ''key'') \<noteq> []" "trim (lit ''a cat'') \<noteq> []" "unicodeCharacterCount (lit ''a cat'') = 5" by code_simp+
  then have "video_checks (\<lambda>_. []) (lit ''key'') video_doc_kling_o3_omni omni_form = Inr ()"
    unfolding video_checks_pass
    by (simp add: omni_form_def initial_video_form_def video_doc_kling_o3_omni_def assertPromptLength_def
        maxImageReferences_def requires_frame_def)
  then show ?thesis
    using video_create_offered [of omni_form "lit ''kling-o3-omni''"] omni_offered omni_doc
    by (simp add: omni_fields Let_def)
qed

theorem video_request_consistent_witness:
  "\<exists>body. video_create (\<lambda>_. []) (lit ''key'') omni_form = Inr body \<and>
     sends body (lit ''model'') (JStr (lit ''leonardo'' @ 47 # lit ''kling-o3-omni''))"
proof -
  obtain body where "video_create (\<lambda>_. []) (lit ''key'') omni_form = Inr body" using omni_sent by blast
  with video_request_consistent [OF omni_form_ok] show ?thesis
    unfolding omni_fields by blast
qed

text \<open>Opening the form at the address of a model sets the provider and the model and nothing else:
  the duration, the size and the resolution stay those of the previous model, and so does the form
  only fit the new one if they happen to. Leonardo's hailuo-2.3 takes 6 or 10 seconds and is opened
  with 8.\<close>

theorem address_keeps_old_options:
  assumes o: "offered Video p d m" and doc: "map_of videoModelDocs m = Some doc"
  shows "\<exists>w. video_step providers v (Location (Some m) None) = Inr w \<and> vf_provider w = p \<and> vf_model w = d \<and>
    vf_duration w = vf_duration v \<and> vf_size w = vf_size v \<and> vf_resolution w = vf_resolution v \<and>
    (video_form_ok w \<longleftrightarrow> video_options_ok doc v \<and> video_files_ok doc v)"
proof -
  define w where "w = v\<lparr>vf_provider := p, vf_model := d\<rparr>"
  obtain P where P: "map_of providerRegistry p = Some P" using o by (auto simp: offered_def)
  have "video_step providers v (Location (Some m) None) = Inr w"
    using requested_listed [OF o models_of_simps(2) [OF P]] by (simp add: w_def)
  moreover have "video_form_ok w \<longleftrightarrow> video_options_ok doc v \<and> video_files_ok doc v"
    using video_form_ok_iff [of w m doc] o doc
    by (simp add: w_def video_options_ok_def video_files_ok_def)
  ultimately show ?thesis by (intro exI [of _ w]) (simp add: w_def)
qed

theorem address_keeps_old_options_witness:
  "\<exists>w. video_step [] initial_video_form (Location (Some (lit ''hailuo-2.3'')) None) = Inr w \<and>
     vf_model w = lit ''hailuo-2.3'' \<and> vf_duration w = 8 \<and> \<not> video_form_ok w"
proof -
  have "modelDisplayID (lit ''hailuo-2.3'') = Inr (lit ''hailuo-2.3'')"
    by (rule leonardo_display) (simp add: provider_models_def leonardo_def)
  then have "offered Video (lit ''leonardo'') (lit ''hailuo-2.3'') (lit ''hailuo-2.3'')"
    by (simp add: offered_def providerRegistry_def leonardo_def)
  moreover have "vf_duration initial_video_form = 8" "\<not> video_options_ok video_doc_hailuo_2_3 initial_video_form"
    by (simp_all add: initial_video_form_def video_options_ok_def video_doc_hailuo_2_3_def)
  ultimately show ?thesis
    using address_keeps_old_options [OF _ hailuo_doc, of "lit ''leonardo''" "lit ''hailuo-2.3''" "[]" initial_video_form]
    by metis
qed

text \<open>Choosing a model that takes fewer reference videos, but some, keeps all that were picked, and
  they are all sent: nothing checks their number.\<close>

theorem model_change_keeps_videos:
  assumes o: "offered Video (vf_provider v) d m" and doc: "map_of videoModelDocs m = Some doc"
    and some: "0 < maxVideoReferences doc"
    and v: "vf_mode v = VideoReference" "vf_referenceVideos v \<noteq> []" "vf_referenceImages v = []"
      "vf_startFrame v = []" "vf_endFrame v = []" "\<not> requires_frame doc"
    and key: "trim apiKey \<noteq> []" "trim (vf_prompt v) \<noteq> []"
      "int (unicodeCharacterCount (vf_prompt v)) \<le> vd_promptMax doc"
  shows "\<exists>w body. selectVideoModel d v = Inr w \<and> video_create loc apiKey w = Inr body \<and>
    files_of body (lit ''video[]'') = vf_referenceVideos v"
proof -
  obtain s ss where s: "doc_sizes doc = s # ss" using sizes_nonempty [OF doc] by blast
  then obtain w where w: "selectVideoModel d v = Inr w" and same:
    "vf_model w = d" "vf_provider w = vf_provider v" "vf_mode w = VideoReference" "vf_prompt w = vf_prompt v"
    "vf_referenceVideos w = vf_referenceVideos v" "vf_referenceImages w = []" "vf_startFrame w = []" "vf_endFrame w = []"
    using some v by (simp add: selectVideoModel_def effective_offered(2) [OF o] video_doc_Some [OF doc]
        defaultVideoResolution_listed [OF doc] sizes_nonempty(2) [OF doc])
  have "video_checks loc apiKey doc w = Inr ()"
    using v key by (simp add: video_checks_pass same assertPromptLength_def)
  moreover have "referenceMode doc w" by (simp add: referenceMode_def same)
  ultimately show ?thesis
    using w o video_create_offered [of w m doc, OF _ doc] by (simp add: same Let_def files_of_simps)
qed

definition four_videos :: VideoForm where
  "four_videos = initial_video_form\<lparr>vf_mode := VideoReference, vf_provider := lit ''creativefabrica'',
     vf_model := lit ''pika_v2_5'', vf_prompt := lit ''a cat'',
     vf_referenceVideos := [lit ''a.mp4'', lit ''b.mp4'', lit ''c.mp4'', lit ''d.mp4'']\<rparr>"

theorem model_change_keeps_videos_witness:
  "\<exists>w body. selectVideoModel (lit ''seedance_v2_mini'') four_videos = Inr w \<and>
     video_create (\<lambda>_. []) (lit ''key'') w = Inr body \<and>
     maxVideoReferences seedance_v2_mini_doc < length (files_of body (lit ''video[]''))"
proof -
  have "modelDisplayID seedance_v2_mini = Inr (lit ''seedance_v2_mini'')"
    using qualified_display [of "''creativefabrica''" creativefabrica "''seedance_v2_mini''"]
    by (simp add: registry_map_of seedance_v2_mini_def)
  then have "offered Video (lit ''creativefabrica'') (lit ''seedance_v2_mini'') seedance_v2_mini"
    by (simp add: offered_def providerRegistry_def creativefabrica_def creativefabrica_video_models_def
        seedance_v2_mini_def)
  moreover have "map_of videoModelDocs seedance_v2_mini = Some seedance_v2_mini_doc"
    by (simp add: videoModelDocs_lookup creativeFabricaVideoDocs_lookup)
  moreover have "trim (lit ''key'') \<noteq> []" "trim (lit ''a cat'') \<noteq> []" "unicodeCharacterCount (lit ''a cat'') = 5" by code_simp+
  ultimately show ?thesis
    using model_change_keeps_videos [of four_videos "lit ''seedance_v2_mini''" seedance_v2_mini seedance_v2_mini_doc
        "lit ''key''" "\<lambda>_. []"]
    by (force simp: four_videos_def initial_video_form_def seedance_v2_mini_doc_def maxVideoReferences_def
        requires_frame_def creativeFabrica_video_doc_def Let_def)
qed

text \<open>Files that were picked in reference mode block the form after it is switched back to
  generation: an image beside a first frame is refused though neither would be sent.\<close>

theorem hidden_files_block_generation:
  assumes ok: "video_form_ok v" and files: "vf_referenceImages v \<noteq> []" "vf_startFrame v \<noteq> []"
  shows "\<exists>w msg. video_step providers v (SetMode VideoGeneration) = Inr w \<and>
    vf_referenceImages w = vf_referenceImages v \<and> vf_startFrame w = vf_startFrame v \<and>
    video_create loc apiKey w = Inl (ErrorMessage msg)"
proof -
  from ok obtain m doc where o: "offered Video (vf_provider v) (vf_model v) m"
    and doc: "map_of videoModelDocs m = Some doc" by (auto simp: video_form_ok_def)
  define w where "w = (if requires_frame doc then v else v\<lparr>vf_mode := VideoGeneration\<rparr>)"
  have same: "vf_provider w = vf_provider v" "vf_model w = vf_model v"
    "vf_referenceImages w = vf_referenceImages v" "vf_startFrame w = vf_startFrame v"
    by (simp_all add: w_def)
  have "video_step providers v (SetMode VideoGeneration) = Inr w"
    by (simp add: with_spec_def selectedVideoSpec_def video_effective_def effective_offered(2) [OF o]
        video_doc_Some [OF doc] w_def)
  moreover obtain msg where "video_checks loc apiKey doc w = Inl (ErrorMessage msg)"
    using files video_checks_error [of loc apiKey doc w] by (auto simp: video_checks_pass same)
  ultimately show ?thesis
    using video_create_offered [of w m doc loc apiKey, OF _ doc] o same by auto
qed

theorem hidden_files_block_generation_witness:
  "\<exists>w msg. video_step [] (omni_form\<lparr>vf_startFrame := [lit ''f.png'']\<rparr>) (SetMode VideoGeneration) = Inr w \<and>
     video_create (\<lambda>_. []) (lit ''key'') w = Inl (ErrorMessage msg)"
proof -
  have "video_form_ok (omni_form\<lparr>vf_startFrame := [lit ''f.png'']\<rparr>)"
    unfolding video_form_ok_def
    by (rule exI [of _ "lit ''kling-o3-omni''"], rule exI [of _ video_doc_kling_o3_omni])
       (use omni_offered omni_doc in \<open>simp add: omni_form_def initial_video_form_def video_options_ok_def
         video_files_ok_def video_doc_kling_o3_omni_def doc_sizes_def size_tables size_resolution_def or_str_def
         maxImageReferences_def mem_array_from\<close>)
  moreover have "vf_referenceImages omni_form = [lit ''a.png'']" by (simp add: omni_form_def)
  ultimately show ?thesis
    using hidden_files_block_generation [of "omni_form\<lparr>vf_startFrame := [lit ''f.png'']\<rparr>" "[]" "\<lambda>_. []" "lit ''key''"] by auto
qed

end
