(* ===== verification/ImageForm.thy ===== *)
theory ImageForm
  imports Playground
begin

text \<open>
  The image form of the playground and its chat form, which sends image models through the chat
  endpoint (ImagePlayground and ChatPlayground of pages/playground-page.tsx).
\<close>

section \<open>The image form\<close>

datatype ImageMode = ImageGeneration | ImageEdit

record ImageForm =
  if_mode :: ImageMode
  if_model :: jstr
  if_provider :: jstr
  if_prompt :: jstr
  if_size :: jstr
  if_quality :: jstr
  if_count :: rat
  if_background :: jstr
  if_strength :: jstr
  if_files :: "jstr list"

definition initial_image_form :: ImageForm where
  "initial_image_form =
     \<lparr>if_mode = ImageGeneration, if_model = lit ''gpt-image-2'', if_provider = lit ''leonardo'', if_prompt = [],
      if_size = lit ''1024x1024'', if_quality = lit ''low'', if_count = 1, if_background = lit ''opaque'',
      if_strength = lit ''MID'', if_files = []\<rparr>"

definition image_effective :: "ImageForm \<Rightarrow> jstr res" where
  "image_effective v = providerImageModel (if_provider v) (if_model v)"

text \<open>The first size; a size is missing only where the list of sizes is empty.\<close>

definition first_size :: "jstr \<Rightarrow> jstr res" where
  "first_size model = bindr (imageSizes model) (\<lambda>sizes. case sizes of
       [] \<Rightarrow> Inl TypeError | s # _ \<Rightarrow> Inr s)"

definition selectImageModel :: "jstr \<Rightarrow> ImageForm \<Rightarrow> ImageForm res" where
  "selectImageModel next v =
     bindr (providerImageModel (if_provider v) next) (\<lambda>routed.
     bindr (first_size routed) (\<lambda>size.
       Inr (v\<lparr>if_model := next, if_size := size,
              if_count := (if next = lit ''gpt-image-2'' then 1 else if_count v)\<rparr>)))"

definition selectImageProvider :: "jstr \<Rightarrow> ImageForm \<Rightarrow> ImageForm res" where
  "selectImageProvider next v =
     bindr (models_of imageModelsByProvider next) (\<lambda>supported.
       let nextModel = (if if_model v \<in> set supported then if_model v
                        else case supported of [] \<Rightarrow> [] | first # _ \<Rightarrow> first) in
       if nextModel = [] then Inr v
       else
         bindr (providerImageModel next nextModel) (\<lambda>routed.
         bindr (first_size routed) (\<lambda>size.
           Inr (v\<lparr>if_provider := next, if_model := nextModel, if_size := size,
                  if_count := (if next = lit ''adobe'' then 1 else if_count v)\<rparr>))))"

text \<open>One image at a time: the number field is fixed at 1 and disabled.\<close>

definition single_image :: "ImageForm \<Rightarrow> bool" where
  "single_image v \<longleftrightarrow> if_provider v = lit ''adobe'' \<or> if_model v = lit ''gpt-image-2''"

datatype image_event =
  SelectImageModel jstr
| SelectImageProvider jstr
| SetImageMode ImageMode
| TypeImagePrompt jstr
| SelectImageSize jstr
| SelectQuality jstr
| TypeCount rat
| SelectBackground jstr
| SelectImageStrength jstr
| PickFiles "jstr list"
| ImageRemount
| ImageLocation "jstr option" "jstr option"
| ImageFallback

fun image_step :: "Provider list \<Rightarrow> ImageForm \<Rightarrow> image_event \<Rightarrow> ImageForm res" where
  "image_step providers v (SelectImageModel next) =
     bindr (models_of imageModelsByProvider (if_provider v)) (\<lambda>selectable.
       if next \<in> set selectable then selectImageModel next v else Inr v)"
| "image_step providers v (SelectImageProvider next) =
     (if choosable Image providers next then selectImageProvider next v else Inr v)"
| "image_step providers v (SetImageMode mode) = Inr (v\<lparr>if_mode := mode\<rparr>)"
| "image_step providers v (TypeImagePrompt s) = Inr (v\<lparr>if_prompt := s\<rparr>)"
| "image_step providers v (SelectImageSize s) =
     bindr (image_effective v) (\<lambda>effectiveModel.
     bindr (imageSizes effectiveModel) (\<lambda>sizes.
       Inr (if s \<in> set sizes then v\<lparr>if_size := s\<rparr> else v)))"
| "image_step providers v (SelectQuality q) =
     Inr (if (if_model v = lit ''gpt-image-2'' \<or> if_model v = lit ''adobe:gpt-image-2'') \<and> q \<in> {lit ''low'', lit ''medium'', lit ''high''}
          then v\<lparr>if_quality := q\<rparr> else v)"
| "image_step providers v (TypeCount n) = Inr (if single_image v then v else v\<lparr>if_count := n\<rparr>)"
| "image_step providers v (SelectBackground b) =
     Inr (if b \<in> {lit ''opaque'', lit ''auto''} then v\<lparr>if_background := b\<rparr> else v)"
| "image_step providers v (SelectImageStrength s) =
     Inr (if if_mode v = ImageEdit \<and> s \<in> {lit ''LOW'', lit ''MID'', lit ''HIGH''} then v\<lparr>if_strength := s\<rparr> else v)"
| "image_step providers v (PickFiles files) =
     Inr (if if_mode v = ImageEdit then v\<lparr>if_files := take 6 files\<rparr> else v)"
| "image_step providers v ImageRemount = Inr (v\<lparr>if_files := []\<rparr>)"
| "image_step providers v (ImageLocation initialModel initialProvider) =
     bindr (requested_model imageModelsByProvider initialModel initialProvider) (\<lambda>found.
       Inr (case found of None \<Rightarrow> v
            | Some (provider, model) \<Rightarrow> v\<lparr>if_provider := provider, if_model := model\<rparr>))"
| "image_step providers v ImageFallback =
     bindr (fallback_model imageModelsByProvider (if_provider v) (if_model v)) (\<lambda>model.
       Inr (v\<lparr>if_model := model\<rparr>))"

definition image_run :: "Provider list \<Rightarrow> ImageForm res \<Rightarrow> image_event \<Rightarrow> ImageForm res" where
  "image_run providers s e = bindr s (\<lambda>v. image_step providers v e)"

text \<open>
  \<open>imageModelDocs[model].promptMax\<close>: undefined where an inherited property is read, which no length
  exceeds.
\<close>

definition image_prompt_check :: "(rat \<Rightarrow> jstr) \<Rightarrow> jstr \<Rightarrow> jstr \<Rightarrow> jstr \<Rightarrow> unit res" where
  "image_prompt_check loc prompt model effectiveModel =
     (case obj_get imageModelDocs effectiveModel of
        Inl _ \<Rightarrow> Inr ()
      | Inr None \<Rightarrow> Inl TypeError
      | Inr (Some doc) \<Rightarrow> assertPromptLength loc prompt model (id_promptMax doc))"

definition image_fields :: "jstr \<Rightarrow> ImageForm \<Rightarrow> (jstr \<times> json option) list" where
  "image_fields routeModel v =
     [(lit ''model'', Some (JStr routeModel)), (lit ''prompt'', Some (JStr (trim (if_prompt v)))),
      (lit ''size'', Some (JStr (if_size v))), (lit ''n'', Some (JNum (if single_image v then 1 else if_count v))),
      (lit ''response_format'', Some (JStr (lit ''url''))), (lit ''background'', Some (JStr (if_background v))),
      (lit ''moderation'', Some (JStr (lit ''auto''))),
      (lit ''quality'', if if_model v = lit ''gpt-image-2'' then Some (JStr (if_quality v)) else None)]"

definition image_create :: "(rat \<Rightarrow> jstr) \<Rightarrow> jstr \<Rightarrow> ImageForm \<Rightarrow> RequestBody res" where
  "image_create loc apiKey v =
     bindr (image_effective v) (\<lambda>effectiveModel.
       if trim apiKey = [] then Inl (ErrorMessage (ulit ''%u8BF7%u5148%u586B%u5199 API Key''))
       else if trim (if_prompt v) = [] then Inl (ErrorMessage (ulit ''%u8BF7%u8F93%u5165%u56FE%u50CF%u63CF%u8FF0''))
       else bindr (image_prompt_check loc (if_prompt v) (if_model v) effectiveModel) (\<lambda>_.
         if if_mode v = ImageEdit \<and> if_files v = [] then
           Inl (ErrorMessage (ulit ''%u56FE%u751F%u56FE%u81F3%u5C11%u9700%u8981 1 %u5F20%u53C2%u8003%u56FE''))
         else bindr (generationRoute effectiveModel) (\<lambda>route.
           let common = image_fields (gr_model route) v in
           Inr (if if_mode v = ImageGeneration then JsonBody (defined_fields common)
                else FormBody (text_fields (common @ [(lit ''reference_strength'', Some (JStr (if_strength v)))]) @
                       file_fields (lit ''image[]'') (if_files v))))))"

text \<open>
  Submitting: the browser does not submit a form whose number field does not hold a whole number
  from 1 to 4, unless it is disabled.
\<close>

definition image_submit :: "(rat \<Rightarrow> jstr) \<Rightarrow> jstr \<Rightarrow> ImageForm \<Rightarrow> RequestBody res option" where
  "image_submit loc apiKey v =
     (if single_image v \<or> input_valid 1 4 1 (if_count v) then Some (image_create loc apiKey v) else None)"

section \<open>The chat form\<close>

record ChatForm =
  cf_model :: jstr
  cf_provider :: jstr
  cf_prompt :: jstr

definition initial_chat_form :: ChatForm where
  "initial_chat_form = \<lparr>cf_model = lit ''gpt-image-2'', cf_provider = lit ''leonardo'',
     cf_prompt = ulit ''%u751F%u6210%u4E00%u5F20%u767D%u8272%u80CC%u666F%u4E0A%u7684%u4EA7%u54C1%u6444%u5F71%uFF0C%u67D4%u548C%u68DA%u62CD%u5149%u7EBF''\<rparr>"

definition selectChatProvider :: "jstr \<Rightarrow> ChatForm \<Rightarrow> ChatForm res" where
  "selectChatProvider next v =
     bindr (models_of imageModelsByProvider next) (\<lambda>supported.
       Inr (v\<lparr>cf_provider := next,
              cf_model := (if cf_model v \<in> set supported then cf_model v
                           else case supported of [] \<Rightarrow> cf_model v | first # _ \<Rightarrow> first)\<rparr>))"

datatype chat_event =
  SelectChatModel jstr
| SelectChatProvider jstr
| TypeChatPrompt jstr
| ChatFallback

fun chat_step :: "Provider list \<Rightarrow> ChatForm \<Rightarrow> chat_event \<Rightarrow> ChatForm res" where
  "chat_step providers v (SelectChatModel next) =
     bindr (models_of imageModelsByProvider (cf_provider v)) (\<lambda>selectable.
       Inr (if next \<in> set selectable then v\<lparr>cf_model := next\<rparr> else v))"
| "chat_step providers v (SelectChatProvider next) =
     (if choosable Image providers next then selectChatProvider next v else Inr v)"
| "chat_step providers v (TypeChatPrompt s) = Inr (v\<lparr>cf_prompt := s\<rparr>)"
| "chat_step providers v ChatFallback =
     bindr (fallback_model imageModelsByProvider (cf_provider v) (cf_model v)) (\<lambda>model.
       Inr (v\<lparr>cf_model := model\<rparr>))"

definition chat_run :: "Provider list \<Rightarrow> ChatForm res \<Rightarrow> chat_event \<Rightarrow> ChatForm res" where
  "chat_run providers s e = bindr s (\<lambda>v. chat_step providers v e)"

text \<open>The button is disabled without a key or a message; the route is read while rendering.\<close>

definition chat_disabled :: "jstr \<Rightarrow> ChatForm \<Rightarrow> bool \<Rightarrow> bool" where
  "chat_disabled apiKey v isPending \<longleftrightarrow> trim apiKey = [] \<or> trim (cf_prompt v) = [] \<or> isPending"

definition chat_create :: "(rat \<Rightarrow> jstr) \<Rightarrow> ChatForm \<Rightarrow> RequestBody res" where
  "chat_create loc v =
     bindr (providerImageModel (cf_provider v) (cf_model v)) (\<lambda>effectiveModel.
     bindr (generationRoute effectiveModel) (\<lambda>route.
     bindr (image_prompt_check loc (cf_prompt v) (cf_model v) effectiveModel) (\<lambda>_.
       Inr (JsonBody [(lit ''model'', JStr (gr_model route)), (lit ''stream'', JBool False),
         (lit ''messages'', JArr [JObj [(lit ''role'', JStr (lit ''user'')), (lit ''content'', JStr (cf_prompt v))]])]))))"

section \<open>The invariants\<close>

definition image_form_ok :: "ImageForm \<Rightarrow> bool" where
  "image_form_ok v \<longleftrightarrow> (\<exists>m sizes. offered Image (if_provider v) (if_model v) m \<and> imageSizes m = Inr sizes \<and>
     if_size v \<in> set sizes) \<and> length (if_files v) \<le> 6"

definition chat_form_ok :: "ChatForm \<Rightarrow> bool" where
  "chat_form_ok v \<longleftrightarrow> (\<exists>m. offered Image (cf_provider v) (cf_model v) m)"

definition image_user_event :: "image_event \<Rightarrow> bool" where
  "image_user_event e \<longleftrightarrow> (case e of ImageLocation _ _ \<Rightarrow> False | _ \<Rightarrow> True)"

lemma first_size_listed:
  assumes "offered Image p d m"
  shows "\<exists>s ss. imageSizes m = Inr (s # ss) \<and> first_size m = Inr s"
proof -
  have m: "m \<notin> set object_prototype_keys"
    using assms prototype_display by (fastforce simp: offered_def)
  then have "imageSizes m = Inr (group_sizes (nullish (map_of imageSizeGroups m) nanoBananaSizeGroups))"
    by (cases "map_of imageSizeGroups m") (simp_all add: imageSizes_def obj_get_def group_sizes_def)
  moreover have "group_sizes (nullish (map_of imageSizeGroups m) nanoBananaSizeGroups) \<noteq> []"
    by (cases "map_of imageSizeGroups m") (auto dest: image_size_tables(1) simp: group_sizes_tables)
  ultimately show ?thesis by (auto simp: first_size_def neq_Nil_conv)
qed

lemma image_models_listed:
  assumes "map_of providerRegistry p = Some P"
  shows "\<exists>d ds. models_of imageModelsByProvider p = Inr (d # ds) \<and>
    (\<forall>x. x \<in> set (d # ds) \<longleftrightarrow> (\<exists>m. offered Image p x m))"
proof -
  obtain xs where xs: "models_of imageModelsByProvider p = Inr xs"
    using publicModels_listed [OF assms, of Image] models_of_simps(1) [OF assms] by auto
  have "pp_models P Image \<noteq> []"
    using assms by (auto simp: registry_map_of leonardo_def adobe_def creativefabrica_def creativefabrica_image_models_def)
  then have "hd (pp_models P Image) \<in> set (pp_models P Image)" by simp
  moreover from this obtain d where "modelDisplayID (hd (pp_models P Image)) = Inr d"
    using listed_display [OF assms] by blast
  ultimately have "offered Image p d (hd (pp_models P Image))" using assms by (simp add: offered_def)
  with image_offered [OF xs] have "d \<in> set xs" by blast
  then obtain y ys where "xs = y # ys" by (cases xs) auto
  with xs image_offered [OF xs] show ?thesis by auto
qed

lemma selectImageModel_ok:
  assumes o: "offered Image (if_provider v) d m" and files: "length (if_files v) \<le> 6"
  shows "\<exists>w. selectImageModel d v = Inr w \<and> image_form_ok w"
proof -
  obtain s ss where s: "imageSizes m = Inr (s # ss)" "first_size m = Inr s" using first_size_listed [OF o] by blast
  define w where "w = v\<lparr>if_model := d, if_size := s, if_count := (if d = lit ''gpt-image-2'' then 1 else if_count v)\<rparr>"
  have "selectImageModel d v = Inr w"
    by (simp add: selectImageModel_def effective_offered(1) [OF o] s w_def)
  moreover have "image_form_ok w" using o s files by (auto simp: image_form_ok_def w_def)
  ultimately show ?thesis by blast
qed

lemma selectImageProvider_ok:
  assumes p: "map_of providerRegistry p = Some P" and files: "length (if_files v) \<le> 6"
  shows "\<exists>w. selectImageProvider p v = Inr w \<and> image_form_ok w"
proof -
  obtain d ds where ds: "models_of imageModelsByProvider p = Inr (d # ds)"
    "\<And>x. x \<in> set (d # ds) \<longleftrightarrow> (\<exists>m. offered Image p x m)"
    using image_models_listed [OF p] by blast
  define x where "x = (if if_model v \<in> set (d # ds) then if_model v else d)"
  have "x \<in> set (d # ds)" by (simp add: x_def)
  then obtain m where o: "offered Image p x m" using ds(2) by blast
  obtain s ss where s: "imageSizes m = Inr (s # ss)" "first_size m = Inr s" using first_size_listed [OF o] by blast
  define w where "w = v\<lparr>if_provider := p, if_model := x, if_size := s, if_count := (if p = lit ''adobe'' then 1 else if_count v)\<rparr>"
  have next_model: "(if if_model v \<in> set (d # ds) then if_model v
      else case d # ds of [] \<Rightarrow> [] | first # _ \<Rightarrow> first) = x"
    by (simp add: x_def)
  have "selectImageProvider p v = Inr w"
    unfolding selectImageProvider_def ds(1) bindr_simps next_model Let_def
    using offered_display_nonempty [OF o] by (simp add: effective_offered(1) [OF o] s w_def)
  moreover have "image_form_ok w" using o s files by (auto simp: image_form_ok_def w_def)
  ultimately show ?thesis by blast
qed

lemma image_form_ok_other [simp]:
  "image_form_ok (v\<lparr>if_mode := x\<rparr>) = image_form_ok v" "image_form_ok (v\<lparr>if_prompt := s\<rparr>) = image_form_ok v"
  "image_form_ok (v\<lparr>if_quality := s\<rparr>) = image_form_ok v" "image_form_ok (v\<lparr>if_count := n\<rparr>) = image_form_ok v"
  "image_form_ok (v\<lparr>if_background := s\<rparr>) = image_form_ok v"
  "image_form_ok (v\<lparr>if_strength := s\<rparr>) = image_form_ok v"
  by (simp_all add: image_form_ok_def)

lemma image_step_ok:
  assumes ok: "image_form_ok v" and user: "image_user_event e"
  shows "\<exists>w. image_step providers v e = Inr w \<and> image_form_ok w"
proof -
  from ok obtain m sizes where o: "offered Image (if_provider v) (if_model v) m"
    and sizes: "imageSizes m = Inr sizes" "if_size v \<in> set sizes" and files: "length (if_files v) \<le> 6"
    by (auto simp: image_form_ok_def)
  obtain P where P: "map_of providerRegistry (if_provider v) = Some P" using o by (auto simp: offered_def)
  obtain d ds where ds: "models_of imageModelsByProvider (if_provider v) = Inr (d # ds)"
    "\<And>x. x \<in> set (d # ds) \<longleftrightarrow> (\<exists>m. offered Image (if_provider v) x m)"
    using image_models_listed [OF P] by blast
  show ?thesis
  proof (cases e)
    case (SelectImageModel x)
    with ok ds(1) show ?thesis
      using ds(2) [of x] selectImageModel_ok [OF _ files] by auto
  next
    case (SelectImageProvider p)
    with ok show ?thesis
      using choosable_registered [of Image providers p] selectImageProvider_ok [OF _ files] by auto
  next
    case (SelectImageSize s)
    have "image_form_ok (v\<lparr>if_size := s\<rparr>)" if "s \<in> set sizes"
      using that o sizes files by (auto simp: image_form_ok_def)
    with SelectImageSize ok sizes show ?thesis
      by (simp add: image_effective_def effective_offered(1) [OF o])
  next
    case (PickFiles fs)
    have "image_form_ok (v\<lparr>if_files := take 6 fs\<rparr>)" using o sizes by (auto simp: image_form_ok_def)
    with PickFiles ok show ?thesis by simp
  next
    case ImageRemount
    with o sizes show ?thesis by (auto simp: image_form_ok_def)
  next
    case ImageFallback
    have "if_model v \<in> set (d # ds)" using ds(2) o by blast
    with ImageFallback ok ds(1) show ?thesis by (auto simp: fallback_model_def)
  next
    case (ImageLocation im ip)
    with user show ?thesis by (simp add: image_user_event_def)
  qed (use ok in simp_all)
qed

interpretation image: guarded_machine "image_run providers" "\<lambda>s. \<exists>v. s = Inr v \<and> image_form_ok v" image_user_event
  for providers
  by unfold_locales (use image_step_ok in \<open>force simp: image_run_def\<close>)

lemma chat_step_ok:
  assumes "chat_form_ok v"
  shows "\<exists>w. chat_step providers v e = Inr w \<and> chat_form_ok w"
proof -
  from assms obtain m where o: "offered Image (cf_provider v) (cf_model v) m" by (auto simp: chat_form_ok_def)
  obtain P where P: "map_of providerRegistry (cf_provider v) = Some P" using o by (auto simp: offered_def)
  obtain d ds where ds: "models_of imageModelsByProvider (cf_provider v) = Inr (d # ds)"
    "\<And>x. x \<in> set (d # ds) \<longleftrightarrow> (\<exists>m. offered Image (cf_provider v) x m)"
    using image_models_listed [OF P] by blast
  show ?thesis
  proof (cases e)
    case (SelectChatProvider p)
    show ?thesis
    proof (cases "choosable Image providers p")
      case True
      obtain Q where Q: "map_of providerRegistry p = Some Q" using choosable_registered [OF True] by blast
      obtain y ys where "models_of imageModelsByProvider p = Inr (y # ys)"
        "\<And>x. x \<in> set (y # ys) \<longleftrightarrow> (\<exists>m. offered Image p x m)"
        using image_models_listed [OF Q] by blast
      with True SelectChatProvider show ?thesis
        by (auto simp: selectChatProvider_def chat_form_ok_def)
    qed (use SelectChatProvider assms in simp)
  next
    case ChatFallback
    have "cf_model v \<in> set (d # ds)" using ds(2) o by blast
    with ChatFallback assms ds(1) show ?thesis by (auto simp: fallback_model_def)
  next
    case (SelectChatModel x)
    with assms ds(1) show ?thesis using ds(2) [of x] by (auto simp: chat_form_ok_def)
  qed (use assms in \<open>simp_all add: chat_form_ok_def\<close>)
qed

interpretation chat: guarded_machine "chat_run providers" "\<lambda>s. \<exists>v. s = Inr v \<and> chat_form_ok v" "\<lambda>_. True"
  for providers
  by unfold_locales (use chat_step_ok in \<open>force simp: chat_run_def\<close>)

section \<open>Properties\<close>

text \<open>Once a provider has been chosen, no sequence of the image form's controls makes it fail, and
  the provider still offers the chosen model, the size is one of that model's, and there are at most
  six reference images.\<close>

theorem image_form_invariant:
  assumes "choosable Image providers p" "list_all image_user_event es" "length (if_files v) \<le> 6"
  shows "\<exists>w. foldl (image_run providers) (Inr v) (SelectImageProvider p # es) = Inr w \<and> image_form_ok w"
proof -
  obtain P where "map_of providerRegistry p = Some P" using choosable_registered [OF assms(1)] by blast
  then obtain u where "selectImageProvider p v = Inr u" "image_form_ok u"
    using selectImageProvider_ok [OF _ assms(3)] by blast
  moreover from this assms(1) have "foldl (image_run providers) (Inr v) (SelectImageProvider p # es) =
      foldl (image_run providers) (Inr u) es"
    by (simp add: image_run_def)
  ultimately show ?thesis using image.ok_run [of "Inr u" es providers] assms(2) by auto
qed

theorem image_form_invariant_witness:
  "\<exists>w. foldl (image_run []) (Inr initial_image_form)
     [SelectImageProvider (lit ''adobe''), SetImageMode ImageEdit, PickFiles [lit ''a.png'']] = Inr w \<and> image_form_ok w"
proof -
  have "choosable Image [] (lit ''adobe'')"
    by (rule registry_choosable [of _ adobe]) (simp_all add: registry_map_of adobe_def)
  then show ?thesis
    using image_form_invariant [of "[]" "lit ''adobe''" "[SetImageMode ImageEdit, PickFiles [lit ''a.png'']]" initial_image_form]
    by (simp add: image_user_event_def initial_image_form_def)
qed


definition edit_form :: ImageForm where
  "edit_form = initial_image_form\<lparr>if_mode := ImageEdit, if_prompt := lit ''a cat'', if_files := [lit ''a.png'']\<rparr>"

lemma gpt_image_offered: "offered Image (lit ''leonardo'') (lit ''gpt-image-2'') (lit ''gpt-image-2'')"
proof -
  have "modelDisplayID (lit ''gpt-image-2'') = Inr (lit ''gpt-image-2'')"
    by (rule leonardo_display) (simp add: provider_models_def leonardo_def)
  then show ?thesis by (simp add: offered_def providerRegistry_def leonardo_def)
qed

lemma edit_form_ok: "image_form_ok edit_form"
proof -
  have "map_of imageSizeGroups (lit ''gpt-image-2'') = Some gptImage2SizeGroups"
    by (simp add: imageSizeGroups_def map_of_fold_const creativefabrica_def creativefabrica_image_models_def)
  then have "imageSizes (lit ''gpt-image-2'') = Inr (group_sizes gptImage2SizeGroups)"
    by (simp add: imageSizes_def obj_get_def group_sizes_def)
  moreover have "lit ''1024x1024'' \<in> set (group_sizes gptImage2SizeGroups)"
    by (simp add: group_sizes_def gptImage2SizeGroups_def size_group_def)
  ultimately show ?thesis using gpt_image_offered
    by (auto simp: image_form_ok_def edit_form_def initial_image_form_def split: sum.splits)
qed

lemma gpt_image_doc: "obj_get imageModelDocs (lit ''gpt-image-2'') = Inr (Some image_doc_gpt_image_2)"
  by (rule obj_get_own) (simp add: imageModelDocs_lookup creativefabrica_image_models_def baseImageModelDocs_def)


text \<open>Once a provider has been chosen in the chat form, whatever is done in it, its request is that
  of the chosen provider's model with the message as typed, unless the message is longer than the
  model's limit; nothing else can go wrong.\<close>

theorem chat_request_routed:
  assumes "choosable Image providers p"
  shows "\<exists>w m doc. foldl (chat_run providers) (Inr v) (SelectChatProvider p # es) = Inr w \<and>
    offered Image (cf_provider w) (cf_model w) m \<and> obj_get imageModelDocs m = Inr (Some doc) \<and>
    (if int (unicodeCharacterCount (cf_prompt w)) \<le> id_promptMax doc
     then \<exists>body. chat_create loc w = Inr body \<and>
       sends body (lit ''model'') (JStr (cf_provider w @ 47 # cf_model w)) \<and>
       sends body (lit ''messages'') (JArr [JObj [(lit ''role'', JStr (lit ''user'')), (lit ''content'', JStr (cf_prompt w))]])
     else \<exists>msg. chat_create loc w = Inl (ErrorMessage msg))"
proof -
  obtain P where P: "map_of providerRegistry p = Some P" using choosable_registered [OF assms] by blast
  obtain y ys where ys: "models_of imageModelsByProvider p = Inr (y # ys)"
    "\<And>x. x \<in> set (y # ys) \<longleftrightarrow> (\<exists>m. offered Image p x m)"
    using image_models_listed [OF P] by blast
  define u where "u = v\<lparr>cf_provider := p, cf_model := (if cf_model v \<in> set (y # ys) then cf_model v else y)\<rparr>"
  have sel: "selectChatProvider p v = Inr u" by (simp add: selectChatProvider_def ys(1) u_def)
  have "cf_model u \<in> set (y # ys)" by (simp add: u_def)
  then have "chat_form_ok u" unfolding ys(2) by (simp add: chat_form_ok_def u_def)
  moreover from sel assms have "foldl (chat_run providers) (Inr v) (SelectChatProvider p # es) =
      foldl (chat_run providers) (Inr u) es"
    by (simp add: chat_run_def)
  moreover have "list_all (\<lambda>_. True) es" by (simp add: list_all_iff)
  ultimately obtain w where w: "foldl (chat_run providers) (Inr v) (SelectChatProvider p # es) = Inr w"
      "chat_form_ok w"
    using chat.ok_run [of "Inr u" es providers] by auto
  then obtain m where o: "offered Image (cf_provider w) (cf_model w) m" by (auto simp: chat_form_ok_def)
  obtain doc where doc: "obj_get imageModelDocs m = Inr (Some doc)" using offered_image_documented [OF o] by blast
  have "chat_create loc w = bindr (assertPromptLength loc (cf_prompt w) (cf_model w) (id_promptMax doc)) (\<lambda>_.
     Inr (JsonBody [(lit ''model'', JStr (cf_provider w @ 47 # cf_model w)), (lit ''stream'', JBool False),
       (lit ''messages'', JArr [JObj [(lit ''role'', JStr (lit ''user'')), (lit ''content'', JStr (cf_prompt w))]])]))"
    by (simp add: chat_create_def effective_offered(1) [OF o] offered_route [OF o] image_prompt_check_def doc)
  then show ?thesis
    using w(1) o doc by (intro exI [of _ w] exI [of _ m] exI [of _ doc]) (simp add: assertPromptLength_def sends_def)
qed

theorem chat_request_routed_witness:
  "\<exists>w. foldl (chat_run []) (Inr initial_chat_form) [SelectChatProvider (lit ''adobe''), TypeChatPrompt (lit ''hi'')] = Inr w \<and>
     (\<exists>m. offered Image (cf_provider w) (cf_model w) m)"
proof -
  have "choosable Image [] (lit ''adobe'')"
    by (rule registry_choosable [of _ adobe]) (simp_all add: registry_map_of adobe_def)
  then show ?thesis
    using chat_request_routed [of "[]" "lit ''adobe''" initial_chat_form "[TypeChatPrompt (lit ''hi'')]"] by blast
qed

end
