(* ===== verification/AudioForm.thy ===== *)
theory AudioForm
  imports Playground
begin

text \<open>
  The audio form of the playground (AudioPlayground of pages/playground-page.tsx). The model comes
  from a select, the address or the session, so it is always one of the three documented ones; the
  other fields are kept when the model changes except for those \<open>selectModel\<close> resets.
\<close>

record AudioForm =
  au_model :: jstr
  au_prompt :: jstr
  au_count :: rat
  au_voice :: jstr
  au_language :: jstr
  au_duration :: rat
  au_durationMinutes :: rat
  au_promptInfluence :: rat
  au_forceInstrumental :: bool
  au_loop :: bool

definition initial_audio_form :: AudioForm where
  "initial_audio_form =
     \<lparr>au_model = lit ''sound-effects-v2'', au_prompt = [], au_count = 1, au_voice = lit ''george'',
      au_language = lit ''en'', au_duration = 6, au_durationMinutes = 1, au_promptInfluence = 7 / 10,
      au_forceInstrumental = True, au_loop = True\<rparr>"

definition selectAudioModel :: "jstr \<Rightarrow> AudioForm \<Rightarrow> AudioForm" where
  "selectAudioModel next v =
     (let u = v\<lparr>au_model := next, au_count := 1\<rparr> in
      if next = lit ''dialogue-v3'' then u\<lparr>au_promptInfluence := 1 / 2, au_duration := 6\<rparr>
      else if next = lit ''music-v1'' then u\<lparr>au_durationMinutes := 1\<rparr>
      else u\<lparr>au_promptInfluence := 7 / 10, au_duration := 6\<rparr>)"

text \<open>\<open>in\<close> also finds the properties of Object.prototype.\<close>

definition audio_location :: "jstr option \<Rightarrow> AudioForm \<Rightarrow> AudioForm" where
  "audio_location initialModel v =
     (let model = opt_str initialModel in
      if model \<noteq> [] \<and> obj_has audioModelDocs model then v\<lparr>au_model := model\<rparr> else v)"

definition audio_title :: "AudioForm \<Rightarrow> jstr" where
  "audio_title v =
     (if au_model v = lit ''dialogue-v3'' then ulit ''%u6587%u672C%u8F6C%u8BED%u97F3''
      else if au_model v = lit ''music-v1'' then ulit ''%u751F%u6210%u97F3%u4E50'' else ulit ''%u751F%u6210%u97F3%u6548'')"

datatype audio_event =
  SelectAudioModel jstr
| TypeAudioPrompt jstr
| TypeAudioCount rat
| SelectVoice jstr
| TypeLanguage jstr
| TypeInfluence rat
| TypeMinutes rat
| ToggleInstrumental bool
| TypeSeconds rat
| ToggleLoop bool
| AudioLocation "jstr option"

definition is_dialogue :: "AudioForm \<Rightarrow> bool" where
  "is_dialogue v \<longleftrightarrow> au_model v = lit ''dialogue-v3''"

definition is_music :: "AudioForm \<Rightarrow> bool" where
  "is_music v \<longleftrightarrow> au_model v = lit ''music-v1''"

fun audio_step :: "AudioForm \<Rightarrow> audio_event \<Rightarrow> AudioForm" where
  "audio_step v (SelectAudioModel next) = (if next \<in> fst ` set audioModelDocs then selectAudioModel next v else v)"
| "audio_step v (TypeAudioPrompt s) = v\<lparr>au_prompt := s\<rparr>"
| "audio_step v (TypeAudioCount n) = v\<lparr>au_count := n\<rparr>"
| "audio_step v (SelectVoice s) =
     (if is_dialogue v \<and> s \<in> set audioVoices then v\<lparr>au_voice := s\<rparr> else v)"
| "audio_step v (TypeLanguage s) = (if is_dialogue v then v\<lparr>au_language := s\<rparr> else v)"
| "audio_step v (TypeInfluence n) = (if is_music v then v else v\<lparr>au_promptInfluence := n\<rparr>)"
| "audio_step v (TypeMinutes n) = (if is_music v then v\<lparr>au_durationMinutes := n\<rparr> else v)"
| "audio_step v (ToggleInstrumental b) = (if is_music v then v\<lparr>au_forceInstrumental := b\<rparr> else v)"
| "audio_step v (TypeSeconds n) = (if is_dialogue v \<or> is_music v then v else v\<lparr>au_duration := n\<rparr>)"
| "audio_step v (ToggleLoop b) = (if is_dialogue v \<or> is_music v then v else v\<lparr>au_loop := b\<rparr>)"
| "audio_step v (AudioLocation initialModel) = audio_location initialModel v"

definition audio_fields :: "AudioForm \<Rightarrow> (jstr \<times> json) list" where
  "audio_fields v =
     [(lit ''model'', JStr (lit ''leonardo/'' @ au_model v)), (lit ''prompt'', JStr (trim (au_prompt v))),
      (lit ''n'', JNum (au_count v))] @
     (if is_dialogue v then
        [(lit ''voice'', JStr (au_voice v)), (lit ''language'', JStr (au_language v)),
         (lit ''prompt_influence'', JNum (au_promptInfluence v))]
      else if is_music v then
        [(lit ''duration_minutes'', JNum (au_durationMinutes v)),
         (lit ''force_instrumental'', JBool (au_forceInstrumental v))]
      else
        [(lit ''duration'', JNum (au_duration v)), (lit ''loop'', JBool (au_loop v)),
         (lit ''prompt_influence'', JNum (au_promptInfluence v))])"

definition audio_create :: "(rat \<Rightarrow> jstr) \<Rightarrow> jstr \<Rightarrow> AudioForm \<Rightarrow> (jstr \<times> json) list res" where
  "audio_create loc apiKey v =
     (if trim apiKey = [] then Inl (ErrorMessage (ulit ''%u8BF7%u5148%u586B%u5199 API Key''))
      else if trim (au_prompt v) = [] then Inl (ErrorMessage (ulit ''%u8BF7%u8F93%u5165%u97F3%u9891%u63CF%u8FF0''))
      else bindr (case obj_get audioModelDocs (au_model v) of
          Inl _ \<Rightarrow> Inr ()
        | Inr None \<Rightarrow> Inl TypeError
        | Inr (Some doc) \<Rightarrow> assertPromptLength loc (au_prompt v) (au_model v) (ad_promptMax doc)) (\<lambda>_.
          Inr (audio_fields v)))"

text \<open>The number fields that are shown, with the ranges the browser enforces on submitting.\<close>

definition audio_inputs_valid :: "AudioForm \<Rightarrow> bool" where
  "audio_inputs_valid v \<longleftrightarrow> input_valid 1 4 1 (au_count v) \<and>
     (if is_dialogue v then input_valid 0 1 (1 / 10) (au_promptInfluence v)
      else if is_music v then input_valid 1 10 1 (au_durationMinutes v)
      else input_valid 1 22 1 (au_duration v) \<and> input_valid 0 1 (1 / 10) (au_promptInfluence v))"

definition audio_submit :: "(rat \<Rightarrow> jstr) \<Rightarrow> jstr \<Rightarrow> AudioForm \<Rightarrow> (jstr \<times> json) list res option" where
  "audio_submit loc apiKey v = (if audio_inputs_valid v then Some (audio_create loc apiKey v) else None)"

section \<open>Properties\<close>

definition audio_model_ok :: "AudioForm \<Rightarrow> bool" where
  "audio_model_ok v \<longleftrightarrow> au_model v \<in> fst ` set audioModelDocs"

definition safe_location :: "audio_event \<Rightarrow> bool" where
  "safe_location e \<longleftrightarrow> (case e of AudioLocation (Some m) \<Rightarrow> m \<notin> set object_prototype_keys | _ \<Rightarrow> True)"

lemma selectAudioModel_model [simp]: "au_model (selectAudioModel next v) = next"
  by (simp add: selectAudioModel_def Let_def)

interpretation audio: guarded_machine audio_step audio_model_ok safe_location
proof
  fix v e
  assume "audio_model_ok v" "safe_location e"
  then show "audio_model_ok (audio_step v e)"
    by (cases e) (auto simp: audio_model_ok_def audio_location_def safe_location_def obj_has_def Let_def
        split: option.splits)
qed

lemma audio_keys: "fst ` set audioModelDocs = {lit ''dialogue-v3'', lit ''music-v1'', lit ''sound-effects-v2''}"
  by (auto simp: audioModelDocs_def)

lemma audio_valid_start: "audio_inputs_valid (selectAudioModel m v)" if "m \<in> fst ` set audioModelDocs"
proof -
  have "(1 / 2 :: rat) / (1 / 10) = of_int 5" "(7 / 10 :: rat) / (1 / 10) = of_int 7"
    "(6 - 1 :: rat) / 1 = of_int 5" by simp_all
  then have "(1 / 2 :: rat) / (1 / 10) \<in> \<int>" "(7 / 10 :: rat) / (1 / 10) \<in> \<int>" "(6 - 1 :: rat) / 1 \<in> \<int>"
    by (metis Ints_of_int)+
  with that show ?thesis
    by (auto simp: audio_keys audio_inputs_valid_def input_valid_def selectAudioModel_def is_dialogue_def
        is_music_def Let_def)
qed

text \<open>Whatever is done in the audio form, short of an address naming a property of
  Object.prototype, its model stays a documented one, choosing a model gives number fields the
  browser accepts, and a submitted request is that of the model: it has the fields of the model's
  kind in their ranges and none of the others.\<close>

theorem audio_request_consistent:
  assumes "audio_model_ok v" "list_all safe_location es" "w = foldl audio_step v es"
  shows "audio_model_ok w \<and>
    (m \<in> fst ` set audioModelDocs \<longrightarrow> audio_inputs_valid (audio_step w (SelectAudioModel m))) \<and>
    (audio_submit loc apiKey w = Some (Inr body) \<longrightarrow>
      (\<exists>n. (lit ''n'', JNum (of_int n)) \<in> set body \<and> 1 \<le> n \<and> n \<le> 4) \<and>
      ((\<exists>s. (lit ''voice'', JStr s) \<in> set body) \<longleftrightarrow> au_model w = lit ''dialogue-v3'') \<and>
      ((\<exists>k. (lit ''duration_minutes'', JNum (of_int k)) \<in> set body \<and> 1 \<le> k \<and> k \<le> 10) \<longleftrightarrow>
         au_model w = lit ''music-v1'') \<and>
      ((\<exists>k. (lit ''duration'', JNum (of_int k)) \<in> set body \<and> 1 \<le> k \<and> k \<le> 22) \<longleftrightarrow>
         au_model w = lit ''sound-effects-v2''))"
proof -
  have ok: "audio_model_ok w" using audio.ok_run assms by blast
  have whole: "\<exists>k. x = of_int k \<and> 1 \<le> k \<and> k \<le> hi" if "input_valid 1 (of_int hi) 1 x" for x hi
  proof -
    from that obtain k where "x = of_int k" by (auto simp: input_valid_def elim: Ints_cases)
    with that show ?thesis by (auto simp: input_valid_def)
  qed
  have "(\<exists>n. (lit ''n'', JNum (of_int n)) \<in> set body \<and> 1 \<le> n \<and> n \<le> 4) \<and>
      ((\<exists>s. (lit ''voice'', JStr s) \<in> set body) \<longleftrightarrow> au_model w = lit ''dialogue-v3'') \<and>
      ((\<exists>k. (lit ''duration_minutes'', JNum (of_int k)) \<in> set body \<and> 1 \<le> k \<and> k \<le> 10) \<longleftrightarrow>
         au_model w = lit ''music-v1'') \<and>
      ((\<exists>k. (lit ''duration'', JNum (of_int k)) \<in> set body \<and> 1 \<le> k \<and> k \<le> 22) \<longleftrightarrow>
         au_model w = lit ''sound-effects-v2'')"
    if sub: "audio_submit loc apiKey w = Some (Inr body)"
  proof -
    from sub have valid: "audio_inputs_valid w" and "audio_create loc apiKey w = Inr body"
      by (auto simp: audio_submit_def split: if_splits)
    then have body: "body = audio_fields w"
      by (auto simp: audio_create_def bindr_Inr_iff split: if_splits option.splits)
    have n: "\<exists>n. (lit ''n'', JNum (of_int n)) \<in> set body \<and> 1 \<le> n \<and> n \<le> 4"
      using valid whole [of 4 "au_count w"] by (auto simp: body audio_fields_def audio_inputs_valid_def)
    from ok consider "au_model w = lit ''dialogue-v3''" | "au_model w = lit ''music-v1''" | "au_model w = lit ''sound-effects-v2''"
      by (auto simp: audio_model_ok_def audio_keys)
    then show ?thesis
    proof cases
      case 1
      with n show ?thesis by (simp add: body audio_fields_def is_dialogue_def)
    next
      case 2
      then have "input_valid 1 10 1 (au_durationMinutes w)"
        using valid by (simp add: audio_inputs_valid_def is_dialogue_def is_music_def)
      with 2 n whole [of 10 "au_durationMinutes w"] show ?thesis
        by (auto simp: body audio_fields_def is_dialogue_def is_music_def)
    next
      case 3
      then have "input_valid 1 22 1 (au_duration w)"
        using valid by (simp add: audio_inputs_valid_def is_dialogue_def is_music_def)
      with 3 n whole [of 22 "au_duration w"] show ?thesis
        by (auto simp: body audio_fields_def is_dialogue_def is_music_def)
    qed
  qed
  with ok audio_valid_start show ?thesis by auto
qed

theorem audio_request_consistent_witness:
  "audio_inputs_valid (audio_step (foldl audio_step initial_audio_form [TypeSeconds 99]) (SelectAudioModel (lit ''music-v1'')))"
proof -
  have "audio_model_ok initial_audio_form" "list_all safe_location [TypeSeconds 99]"
    by (simp_all add: audio_model_ok_def audio_keys initial_audio_form_def safe_location_def)
  then show ?thesis
    using audio_request_consistent [of initial_audio_form "[TypeSeconds 99]" _ "lit ''music-v1''"]
    by (simp add: audio_keys)
qed

end
