(* ===== verification/PlaygroundRun.thy ===== *)
theory PlaygroundRun
  imports Playground
begin

text \<open>
  The life of a task in the image, video and audio forms of the playground: creating it, polling it,
  what is shown, cancelling, and clearing. The query library is a parameter: \<open>useQuery\<close> gives the
  data of a hook from the option \<open>placeholderData\<close>, the data stored for the current key, and the
  last data the hook had. The client's default option (shared/api.ts) returns the last data.
\<close>

definition terminalStatuses :: "jstr list" where
  "terminalStatuses = [lit ''succeeded'', lit ''failed'', lit ''cancelled'']"

type_synonym query_hook =
  "(PlaygroundTask option \<Rightarrow> PlaygroundTask option) \<Rightarrow> PlaygroundTask option \<Rightarrow>
     PlaygroundTask option \<Rightarrow> PlaygroundTask option"

definition placeholderData :: "PlaygroundTask option \<Rightarrow> PlaygroundTask option" where
  "placeholderData previous = previous"

record PlaygroundRun =
  run_taskID :: jstr
  run_isPending :: bool
  run_created :: "PlaygroundTask option"
  run_error :: "jstr option"
  run_store :: "(jstr \<times> PlaygroundTask) list"
  run_last :: "PlaygroundTask option"
  run_cached :: "PlaygroundTask option"

definition fresh_run :: PlaygroundRun where
  "fresh_run = \<lparr>run_taskID = [], run_isPending = False, run_created = None, run_error = None,
     run_store = [], run_last = None, run_cached = None\<rparr>"

definition or_else :: "'a option \<Rightarrow> 'a option \<Rightarrow> 'a option" where
  "or_else a b = (case a of Some x \<Rightarrow> Some x | None \<Rightarrow> b)"

definition task_data :: "query_hook \<Rightarrow> PlaygroundRun \<Rightarrow> PlaygroundTask option" where
  "task_data useQuery r = useQuery placeholderData (map_of (run_store r) (run_taskID r)) (run_last r)"

definition liveCurrent :: "query_hook \<Rightarrow> PlaygroundRun \<Rightarrow> PlaygroundTask option" where
  "liveCurrent useQuery r = or_else (task_data useQuery r) (run_created r)"

definition current :: "query_hook \<Rightarrow> PlaygroundRun \<Rightarrow> PlaygroundTask option" where
  "current useQuery r =
     (if run_isPending r then None else or_else (liveCurrent useQuery r) (run_cached r))"

definition polls :: "jstr \<Rightarrow> PlaygroundRun \<Rightarrow> bool" where
  "polls apiKey r \<longleftrightarrow> run_taskID r \<noteq> [] \<and> apiKey \<noteq> [] \<and>
     (case map_of (run_store r) (run_taskID r) of
        None \<Rightarrow> True | Some t \<Rightarrow> pt_status t \<notin> set terminalStatuses)"

text \<open>The submit button: the image form only looks at the request that is being sent.\<close>

definition submit_disabled :: "MediaKind \<Rightarrow> query_hook \<Rightarrow> PlaygroundRun \<Rightarrow> bool" where
  "submit_disabled kind useQuery r \<longleftrightarrow> run_isPending r \<or>
     (kind \<noteq> Image \<and> (case current useQuery r of None \<Rightarrow> False
        | Some t \<Rightarrow> pt_status t \<notin> set terminalStatuses))"

definition cancel_offered :: "query_hook \<Rightarrow> PlaygroundRun \<Rightarrow> bool" where
  "cancel_offered useQuery r \<longleftrightarrow>
     (case liveCurrent useQuery r of None \<Rightarrow> False | Some t \<Rightarrow> pt_status t = lit ''queued'')"

definition has_result :: "PlaygroundTask \<Rightarrow> bool" where
  "has_result t \<longleftrightarrow> pt_status t = lit ''succeeded'' \<and>
     (case pt_result t of None \<Rightarrow> False | Some res \<Rightarrow> nullish (prd_data res) [] \<noteq> [])"

text \<open>
  After an event, the hook remembers the data of the current key, and a live task that changed to
  one with a result is kept in the result cache.
\<close>

definition settle :: "query_hook \<Rightarrow> PlaygroundRun \<Rightarrow> PlaygroundRun \<Rightarrow> PlaygroundRun" where
  "settle useQuery before after =
     (let r = after\<lparr>run_last := or_else (map_of (run_store after) (run_taskID after)) (run_last after)\<rparr>;
          live = liveCurrent useQuery r in
      case live of
        Some t \<Rightarrow> if live \<noteq> liveCurrent useQuery before \<and> has_result t then r\<lparr>run_cached := Some t\<rparr> else r
      | None \<Rightarrow> r)"

datatype run_event =
  Submit
| Created PlaygroundTask
| CreateFailed jstr
| Polled PlaygroundTask
| ClearResult
| Restored "PlaygroundTask option"

definition resetLive :: "PlaygroundRun \<Rightarrow> PlaygroundRun" where
  "resetLive r = r\<lparr>run_taskID := [], run_created := None, run_error := None, run_isPending := False\<rparr>"

fun run_event_step :: "MediaKind \<Rightarrow> query_hook \<Rightarrow> jstr \<Rightarrow> PlaygroundRun \<Rightarrow> run_event \<Rightarrow> PlaygroundRun" where
  "run_event_step kind useQuery apiKey r Submit =
     (if submit_disabled kind useQuery r then r else (resetLive r)\<lparr>run_isPending := True\<rparr>)"
| "run_event_step kind useQuery apiKey r (Created t) =
     (if run_isPending r then r\<lparr>run_isPending := False, run_created := Some t, run_taskID := pt_id t\<rparr> else r)"
| "run_event_step kind useQuery apiKey r (CreateFailed msg) =
     (if run_isPending r then r\<lparr>run_isPending := False, run_error := Some msg\<rparr> else r)"
| "run_event_step kind useQuery apiKey r (Polled t) =
     (if polls apiKey r \<and> pt_id t = run_taskID r then r\<lparr>run_store := map_set (pt_id t) t (run_store r)\<rparr> else r)"
| "run_event_step kind useQuery apiKey r ClearResult = (resetLive r)\<lparr>run_cached := None\<rparr>"
| "run_event_step kind useQuery apiKey r (Restored cached) = r\<lparr>run_cached := cached\<rparr>"

definition run_step :: "MediaKind \<Rightarrow> query_hook \<Rightarrow> jstr \<Rightarrow> PlaygroundRun \<Rightarrow> run_event \<Rightarrow> PlaygroundRun" where
  "run_step kind useQuery apiKey r e = settle useQuery r (run_event_step kind useQuery apiKey r e)"

section \<open>The query library\<close>

text \<open>
  The documented behaviour: the stored data of the key, and the placeholder while there is none,
  also while the query is disabled.
\<close>

definition query_contract :: "query_hook \<Rightarrow> bool" where
  "query_contract useQuery \<longleftrightarrow> (\<forall>placeholder stored previous.
     useQuery placeholder stored previous =
       (case stored of Some t \<Rightarrow> Some t | None \<Rightarrow> placeholder previous))"

definition sample_hook :: query_hook where
  "sample_hook placeholder stored previous =
     (case stored of Some t \<Rightarrow> Some t | None \<Rightarrow> placeholder previous)"

lemma sample_hook_contract: "query_contract sample_hook"
  by (simp add: query_contract_def sample_hook_def)

lemma task_data_contract:
  assumes "query_contract useQuery"
  shows "task_data useQuery r = or_else (map_of (run_store r) (run_taskID r)) (run_last r)"
  using assms by (simp add: query_contract_def task_data_def placeholderData_def or_else_def
      split: option.split)

lemma or_else_simps [simp]: "or_else (Some x) b = Some x" "or_else None b = b"
  by (simp_all add: or_else_def)

lemma settle_same [simp]:
  "run_taskID (settle q b a) = run_taskID a" "run_store (settle q b a) = run_store a"
  "run_isPending (settle q b a) = run_isPending a" "run_error (settle q b a) = run_error a" "run_created (settle q b a) = run_created a"
  "run_last (settle q b a) = or_else (map_of (run_store a) (run_taskID a)) (run_last a)"
  by (simp_all add: settle_def Let_def split: option.split)

lemma settle_cached:
  assumes "query_contract q"
  shows "run_cached (settle q b a) = (case liveCurrent q a of
    Some t \<Rightarrow> if Some t \<noteq> liveCurrent q b \<and> has_result t then Some t else run_cached a | None \<Rightarrow> run_cached a)"
  by (simp add: settle_def Let_def liveCurrent_def task_data_contract [OF assms] or_else_def split: option.split)

definition active :: "PlaygroundTask \<Rightarrow> bool" where
  "active t \<longleftrightarrow> pt_status t \<notin> set terminalStatuses"

lemma has_result_terminal: "has_result t \<Longrightarrow> \<not> active t"
  by (simp add: has_result_def active_def terminalStatuses_def)

section \<open>Properties\<close>

text \<open>A task that is being polled: it was created, and this is the last answer.\<close>

definition polled_state :: "PlaygroundRun \<Rightarrow> jstr \<Rightarrow> PlaygroundTask \<Rightarrow> bool" where
  "polled_state r i t \<longleftrightarrow> run_taskID r = i \<and> i \<noteq> [] \<and> \<not> run_isPending r \<and> map_of (run_store r) i = Some t \<and>
     (has_result t \<longrightarrow> run_cached r = Some t)"

lemma polled_step:
  assumes q: "query_contract q" and key: "apiKey \<noteq> []" and r: "polled_state r i t" "active t" and u: "pt_id u = i"
  shows "polled_state (run_step kind q apiKey r (Polled u)) i u"
proof -
  have "polls apiKey r" using r key by (simp add: polls_def polled_state_def active_def)
  moreover have "liveCurrent q r = Some t"
    using r by (simp add: liveCurrent_def task_data_contract [OF q] polled_state_def)
  ultimately show ?thesis
    using r u has_result_terminal [of t]
    by (auto simp: run_step_def polled_state_def settle_cached [OF q] liveCurrent_def
        task_data_contract [OF q] map_of_map_set)
qed

lemma polled_run:
  assumes q: "query_contract q" and key: "apiKey \<noteq> []"
  shows "polled_state r i t \<Longrightarrow> list_all active (butlast (t # ts)) \<Longrightarrow> list_all (\<lambda>u. pt_id u = i) ts \<Longrightarrow>
    polled_state (foldl (run_step kind q apiKey) r (map Polled ts)) i (last (t # ts))"
proof (induction ts arbitrary: r t)
  case (Cons u us)
  then have "active t" "pt_id u = i" by simp_all
  then have "polled_state (run_step kind q apiKey r (Polled u)) i u" using polled_step [OF q key] Cons.prems by blast
  then show ?case using Cons.IH [of "run_step kind q apiKey r (Polled u)" u] Cons.prems by (cases us) auto
qed simp

lemma polled_state_views:
  assumes q: "query_contract q" and r: "polled_state r i t"
  shows "current q r = Some t" "polls apiKey r \<longleftrightarrow> apiKey \<noteq> [] \<and> active t"
    "cancel_offered q r \<longleftrightarrow> pt_status t = lit ''queued''"
    "kind \<noteq> Image \<Longrightarrow> submit_disabled kind q r \<longleftrightarrow> active t"
  using r by (simp_all add: polled_state_def current_def polls_def cancel_offered_def submit_disabled_def
      liveCurrent_def task_data_contract [OF q] active_def)

lemma no_new_error: "run_error (run_step kind q apiKey r (Polled u)) = run_error r"
  by (simp add: run_step_def)

lemma first_task_state:
  assumes "query_contract useQuery" "apiKey \<noteq> []" "pt_id t \<noteq> []" "ts \<noteq> []"
    "list_all (\<lambda>u. pt_id u = pt_id t) ts" "list_all active (butlast ts)"
    "r = foldl (run_step kind useQuery apiKey) fresh_run (Submit # Created t # map Polled ts)"
  shows "polled_state r (pt_id t) (last ts)" "run_error r = None"
proof -
  note q = assms(1)
  obtain u us where ts: "ts = u # us" using assms(4) by (cases ts) auto
  define r1 where "r1 = run_step kind useQuery apiKey (run_step kind useQuery apiKey fresh_run Submit) (Created t)"
  have r1: "run_taskID r1 = pt_id t" "\<not> run_isPending r1" "run_store r1 = []" "run_created r1 = Some t" "run_last r1 = None"
    "has_result t \<longrightarrow> run_cached r1 = Some t"
    by (simp_all add: r1_def run_step_def submit_disabled_def current_def liveCurrent_def
        task_data_contract [OF q] fresh_run_def resetLive_def settle_cached [OF q])
  have "polled_state (run_step kind useQuery apiKey r1 (Polled u)) (pt_id t) u"
    using r1 assms(2,3,5) ts
    by (auto simp: run_step_def polled_state_def settle_cached [OF q] liveCurrent_def polls_def
        task_data_contract [OF q] map_of_map_set)
  then show "polled_state r (pt_id t) (last ts)"
    using polled_run [OF q assms(2), of "run_step kind useQuery apiKey r1 (Polled u)" "pt_id t" u us kind] assms(5-7)
    by (simp add: ts r1_def)
  have "run_error (foldl (run_step kind useQuery apiKey) x (map Polled us)) = run_error x" for x us
    by (induction us arbitrary: x) (simp_all add: no_new_error)
  moreover have "run_error r1 = None"
    by (simp add: r1_def run_step_def fresh_run_def resetLive_def)
  ultimately show "run_error r = None" using assms(7) by (simp add: r1_def)
qed


definition sample_task :: "string \<Rightarrow> string \<Rightarrow> PlaygroundTask" where
  "sample_task i status = \<lparr>pt_id = lit i, pt_kind = lit ''video'', pt_status = lit status, pt_progress = 0,
     pt_model = [], pt_prompt = [], pt_generation_id = None, pt_result = None, pt_error_code = None,
     pt_error_message = None, pt_error_details = None\<rparr>"


text \<open>Clearing does not clear: once a task has been polled, the page goes on showing it after the
  result and its cache have been cleared, because the query hook still has its data.\<close>

theorem clear_keeps_polled_task:
  assumes "query_contract useQuery" "run_last r = Some t" "map_of (run_store r) [] = None"
  shows "current useQuery (run_step kind useQuery apiKey r ClearResult) = Some t"
  using assms(2,3)
  by (simp add: run_step_def current_def liveCurrent_def task_data_contract [OF assms(1)] resetLive_def)

definition done_run :: PlaygroundRun where
  "done_run = foldl (run_step Video sample_hook (lit ''key'')) fresh_run
     [Submit, Created (sample_task ''t1'' ''queued''), Polled (sample_task ''t1'' ''failed'')]"

lemma done_run_state: "run_last done_run = Some (sample_task ''t1'' ''failed'')"
  "map_of (run_store done_run) [] = None" "\<not> run_isPending done_run"
  by code_simp+

theorem clear_keeps_polled_task_witness:
  "current sample_hook (run_step Video sample_hook (lit ''key'') done_run ClearResult) = Some (sample_task ''t1'' ''failed'')"
  using clear_keeps_polled_task [OF sample_hook_contract done_run_state(1)]
  by (simp add: done_run_state)

text \<open>C39: While a second task has been created and not been polled yet, the page shows the first one: it
  offers to cancel only if the first is queued, and where the first is final the video and audio
  forms let a third task be submitted.\<close>

theorem second_task_hidden:
  assumes "query_contract useQuery" "run_last r = Some t" "\<not> active t" "\<not> submit_disabled kind useQuery r"
    "map_of (run_store r) [] = None" "map_of (run_store r) (pt_id u) = None"
    "r' = foldl (run_step kind useQuery apiKey) r [Submit, Created u]"
  shows "current useQuery r' = Some t \<and> \<not> cancel_offered useQuery r' \<and> \<not> submit_disabled kind useQuery r'"
proof -
  note q = assms(1)
  have "run_last r' = Some t" "run_store r' = run_store r" "run_taskID r' = pt_id u" "\<not> run_isPending r'"
    using assms by (simp_all add: run_step_def resetLive_def)
  then have "current useQuery r' = Some t" "liveCurrent useQuery r' = Some t"
    using assms(6) by (simp_all add: current_def liveCurrent_def task_data_contract [OF q])
  then show ?thesis
    using assms(3) \<open>\<not> run_isPending r'\<close>
    by (auto simp: cancel_offered_def submit_disabled_def active_def terminalStatuses_def)
qed

theorem second_task_hidden_witness:
  "current sample_hook (foldl (run_step Video sample_hook (lit ''key'')) done_run
     [Submit, Created (sample_task ''t2'' ''queued'')]) = Some (sample_task ''t1'' ''failed'')"
proof -
  have "\<not> submit_disabled Video sample_hook done_run" "map_of (run_store done_run) [] = None"
    "map_of (run_store done_run) (pt_id (sample_task ''t2'' ''queued'')) = None"
    "\<not> active (sample_task ''t1'' ''failed'')"
    by code_simp+
  then show ?thesis
    using second_task_hidden [OF sample_hook_contract done_run_state(1)] by blast
qed

end
