(* ===== verification/SalePricing.thy ===== *)
theory SalePricing
  imports StatusText Catalog Paging UrlParams
begin

text \<open>
  The resale price page (pages/sale-pricing-page.tsx): the cost profile of a provider and its form,
  the rules and video groups that are priced, the quote that is asked for, and what is saved.
  Numbers are exact rationals; \<open>localeCompare\<close>, \<open>toLocaleString\<close> and number formatting are
  parameters.
\<close>

section \<open>The profile form\<close>

record PricingForm =
  pf_provider_id :: jstr
  pf_currency :: jstr
  pf_account_cost :: rat
  pf_included_credits :: rat
  pf_usable_percent :: rat
  pf_overhead_percent :: rat
  pf_payment_fee_percent :: rat
  pf_target_margin_percent :: rat
  pf_rounding_step :: rat

definition num_or :: "rat \<Rightarrow> rat \<Rightarrow> rat" where
  "num_or n d = (if n = 0 then d else n)"

definition formForProvider :: "jstr \<Rightarrow> SalePricingProfile option \<Rightarrow> PricingForm" where
  "formForProvider providerID profile =
     (case profile of
        None \<Rightarrow> \<lparr>pf_provider_id = providerID, pf_currency = lit ''CNY'', pf_account_cost = 0,
          pf_included_credits = 0, pf_usable_percent = 90, pf_overhead_percent = 5,
          pf_payment_fee_percent = 3, pf_target_margin_percent = 35, pf_rounding_step = 1 / 100\<rparr>
      | Some p \<Rightarrow> \<lparr>pf_provider_id = providerID, pf_currency = or_str (spp_currency p) (lit ''CNY''),
          pf_account_cost = spp_account_cost p, pf_included_credits = spp_included_credits p,
          pf_usable_percent = spp_usable_credit_rate p * 100, pf_overhead_percent = spp_overhead_rate p * 100,
          pf_payment_fee_percent = spp_payment_fee_rate p * 100,
          pf_target_margin_percent = spp_target_margin p * 100,
          pf_rounding_step = num_or (spp_rounding_step p) (1 / 100)\<rparr>)"

definition profileFromForm :: "PricingForm \<Rightarrow> SalePricingProfile" where
  "profileFromForm form =
     \<lparr>spp_provider_id = pf_provider_id form, spp_currency = to_upper (trim (pf_currency form)),
      spp_account_cost = pf_account_cost form,
      spp_included_credits = of_int (math_round (pf_included_credits form)),
      spp_usable_credit_rate = pf_usable_percent form / 100, spp_overhead_rate = pf_overhead_percent form / 100,
      spp_payment_fee_rate = pf_payment_fee_percent form / 100,
      spp_target_margin = pf_target_margin_percent form / 100, spp_rounding_step = pf_rounding_step form\<rparr>"

definition ascii_letter :: "jchar \<Rightarrow> bool" where
  "ascii_letter c \<longleftrightarrow> (65 \<le> c \<and> c \<le> 90) \<or> (97 \<le> c \<and> c \<le> 122)"

definition validForm :: "PricingForm \<Rightarrow> bool" where
  "validForm form \<longleftrightarrow>
     length (trim (pf_currency form)) = 3 \<and> (\<forall>c \<in> set (trim (pf_currency form)). ascii_letter c) \<and>
     0 < pf_account_cost form \<and> pf_account_cost form \<le> 1000000000 \<and>
     pf_included_credits form = of_int \<lfloor>pf_included_credits form\<rfloor> \<and>
     1 \<le> pf_included_credits form \<and> pf_included_credits form \<le> 1000000000000 \<and>
     0 < pf_usable_percent form \<and> pf_usable_percent form \<le> 100 \<and>
     0 \<le> pf_overhead_percent form \<and> pf_overhead_percent form \<le> 1000 \<and>
     0 \<le> pf_payment_fee_percent form \<and> pf_payment_fee_percent form < 100 \<and>
     0 \<le> pf_target_margin_percent form \<and> pf_target_margin_percent form < 100 \<and>
     pf_payment_fee_percent form + pf_target_margin_percent form < 99 \<and>
     0 < pf_rounding_step form \<and> pf_rounding_step form \<le> 1000"

section \<open>Rules, groups and their texts\<close>

definition ruleParameters :: "CostRule \<Rightarrow> jstr" where
  "ruleParameters rule =
     (case cr_kind rule of
        Image \<Rightarrow> js_join (ulit '' %u00B7 '') (filter (\<lambda>s. s \<noteq> [])
          [cr_size rule, or_str (cr_quality rule) (ulit ''%u56FA%u5B9A%u8D28%u91CF'')])
      | Video \<Rightarrow> js_join (ulit '' %u00B7 '') (filter (\<lambda>s. s \<noteq> [])
          [cr_resolution rule, if cr_duration rule \<noteq> 0 then num_str (cr_duration rule) @ ulit '' %u79D2'' else []])
      | Audio \<Rightarrow>
          if cr_duration rule \<noteq> 0
          then num_str (cr_duration rule) @ lit '' '' @ (if cr_model rule = lit ''music-v1'' then ulit ''%u5206%u949F'' else ulit ''%u79D2'')
          else ulit ''%u6A21%u578B%u9ED8%u8BA4%u53C2%u6570'')"

definition kindLabel :: "MediaKind \<Rightarrow> jstr" where
  "kindLabel kind = (case kind of Image \<Rightarrow> ulit ''%u56FE%u7247'' | Video \<Rightarrow> ulit ''%u89C6%u9891'' | Audio \<Rightarrow> ulit ''%u97F3%u9891'')"

record VideoRateGroup =
  vg_model :: jstr
  vg_resolution :: jstr
  vg_durations :: "int list"

definition videoRateKey :: "jstr \<Rightarrow> jstr \<Rightarrow> jstr" where
  "videoRateKey model resolution = model @ 0 # resolution"

definition add_video_rule :: "CostRule \<Rightarrow> (jstr, VideoRateGroup) jmap \<Rightarrow> (jstr, VideoRateGroup) jmap" where
  "add_video_rule rule groups =
     (if cr_kind rule \<noteq> Video \<or> cr_duration rule = 0 then groups
      else
        let key = videoRateKey (cr_model rule) (cr_resolution rule);
            group = nullish (map_of groups key)
              \<lparr>vg_model = cr_model rule, vg_resolution = cr_resolution rule, vg_durations = []\<rparr> in
        map_set key
          (if cr_duration rule \<in> set (vg_durations group) then group
           else group\<lparr>vg_durations := vg_durations group @ [cr_duration rule]\<rparr>) groups)"

definition groupVideoRules :: "(jstr \<Rightarrow> jstr \<Rightarrow> int) \<Rightarrow> CostRule list \<Rightarrow> VideoRateGroup list" where
  "groupVideoRules localeCompare rules =
     js_sort (cmp_or (\<lambda>a b. localeCompare (vg_model a) (vg_model b))
                     (\<lambda>a b. localeCompare (vg_resolution a) (vg_resolution b)))
       (map (\<lambda>group. group\<lparr>vg_durations := js_sort (\<lambda>a b. a - b) (vg_durations group)\<rparr>)
         (map_values (fold add_video_rule rules [])))"

text \<open>Every duration is one more than the one before it.\<close>

fun consecutive :: "int list \<Rightarrow> bool" where
  "consecutive (a # b # ds) \<longleftrightarrow> b = a + 1 \<and> consecutive (b # ds)"
| "consecutive _ \<longleftrightarrow> True"

definition durationRange :: "int list \<Rightarrow> jstr" where
  "durationRange durations =
     (if durations = [] then ulit ''%u65F6%u957F%u5F85%u6838%u7B97''
      else if consecutive durations \<and> 1 < length durations
      then num_str (hd durations) @ ulit ''%u2013'' @ num_str (last durations) @ ulit '' %u79D2''
      else js_join (lit ''/'') (map num_str durations) @ ulit '' %u79D2'')"

text \<open>\<open>Number.EPSILON\<close> is 2 to the power of -52.\<close>

definition creditsPerSecond :: "(rat \<Rightarrow> jstr) \<Rightarrow> rat \<Rightarrow> jstr" where
  "creditsPerSecond loc v =
     loc (of_int \<lceil>(v - 1 / 2 ^ 52) * 1000\<rceil> / 1000) @ ulit '' /%u79D2''"

definition pricingModifierLabels :: "(jstr \<times> jstr) list" where
  "pricingModifierLabels =
     [(lit ''reference_video'', ulit ''%u53C2%u8003%u89C6%u9891''), (lit ''seedance_video_reference'', ulit ''Seedance %u53C2%u8003%u89C6%u9891''),
      (lit ''flux_video_reference'', ulit ''FLUX 3 Video %u53C2%u8003%u89C6%u9891''), (lit ''kling_o3_video_reference'', ulit ''Kling O3 Omni %u53C2%u8003%u89C6%u9891''),
      (lit ''native_audio_disabled'', ulit ''%u5173%u95ED%u539F%u751F%u97F3%u9891'')]"

section \<open>The page\<close>

text \<open>The provider that is shown: the requested one if it is enabled, else the first enabled one.\<close>

definition pricing_provider :: "Provider list \<Rightarrow> params \<Rightarrow> jstr" where
  "pricing_provider providers searchParams =
     (let requested = to_lower (trim (opt_str (param_get searchParams (lit ''provider''))));
          first = (case find prov_enabled providers of Some q \<Rightarrow> Some q
                   | None \<Rightarrow> (case providers of [] \<Rightarrow> None | q # _ \<Rightarrow> Some q)) in
      or_str (or_str (case find (\<lambda>p. prov_enabled p \<and> prov_id p = requested) providers of
                  Some p \<Rightarrow> prov_id p | None \<Rightarrow> [])
                (case first of Some q \<Rightarrow> prov_id q | None \<Rightarrow> []))
        requested)"

record PricingPage =
  pp_form :: PricingForm
  pp_manualCredits :: int
  pp_kind :: MediaKind
  pp_model :: jstr
  pp_audioOff :: bool
  pp_hasVideoReference :: bool
  pp_page :: nat
  pp_pageSize :: nat

definition initial_pricing_page :: PricingPage where
  "initial_pricing_page =
     \<lparr>pp_form = formForProvider [] None, pp_manualCredits = 1000, pp_kind = Image, pp_model = [],
      pp_audioOff = False, pp_hasVideoReference = False, pp_page = 1, pp_pageSize = 20\<rparr>"

definition persistedProfile :: "jstr \<Rightarrow> SalePricingProfile list \<Rightarrow> SalePricingProfile option" where
  "persistedProfile providerID profiles = find (\<lambda>p. spp_provider_id p = providerID) profiles"

text \<open>The JSON texts of two forms differ exactly when the forms do.\<close>

definition pricing_dirty :: "jstr \<Rightarrow> SalePricingProfile list \<Rightarrow> PricingForm \<Rightarrow> bool" where
  "pricing_dirty providerID profiles form \<longleftrightarrow>
     form \<noteq> formForProvider providerID (persistedProfile providerID profiles)"

definition saved_profiles :: "jstr \<Rightarrow> SalePricingProfile list \<Rightarrow> SalePricingProfile option \<Rightarrow> SalePricingProfile list" where
  "saved_profiles providerID profiles profile =
     filter (\<lambda>item. spp_provider_id item \<noteq> providerID) profiles @
     (case profile of None \<Rightarrow> [] | Some p \<Rightarrow> [p])"

definition activeRules :: "jstr \<Rightarrow> CostRule list \<Rightarrow> CostRule list" where
  "activeRules providerID rules =
     filter (\<lambda>rule. cr_enabled rule \<and> cr_drifted rule \<noteq> Some True \<and>
       or_str (cr_provider_id rule) (lit ''leonardo'') = providerID) rules"

definition pricing_models :: "MediaKind \<Rightarrow> CostRule list \<Rightarrow> jstr list" where
  "pricing_models kind rules =
     js_sort code_unit_cmp (dedup (map cr_model (filter (\<lambda>rule. cr_kind rule = kind) rules)))"

definition rat_cmp :: "rat \<Rightarrow> rat \<Rightarrow> int" where
  "rat_cmp a b = (if a < b then -1 else if b < a then 1 else 0)"

definition filteredRules :: "(jstr \<Rightarrow> jstr \<Rightarrow> int) \<Rightarrow> PricingPage \<Rightarrow> CostRule list \<Rightarrow> CostRule list" where
  "filteredRules localeCompare s rules =
     js_sort (cmp_or (\<lambda>a b. localeCompare (cr_model a) (cr_model b))
               (cmp_or (\<lambda>a b. rat_cmp (cr_unit_tokens a) (cr_unit_tokens b)) (\<lambda>a b. cr_id a - cr_id b)))
       (filter (\<lambda>rule. cr_kind rule = pp_kind s \<and> pp_kind s \<noteq> Video \<and>
          (pp_model s = [] \<or> cr_model rule = pp_model s)) rules)"

definition filteredVideoGroups :: "(jstr \<Rightarrow> jstr \<Rightarrow> int) \<Rightarrow> PricingPage \<Rightarrow> CostRule list \<Rightarrow> VideoRateGroup list" where
  "filteredVideoGroups localeCompare s rules =
     filter (\<lambda>group. pp_model s = [] \<or> vg_model group = pp_model s) (groupVideoRules localeCompare rules)"

definition pricing_results :: "(jstr \<Rightarrow> jstr \<Rightarrow> int) \<Rightarrow> PricingPage \<Rightarrow> CostRule list \<Rightarrow> nat" where
  "pricing_results localeCompare s rules =
     (if pp_kind s = Video then length (filteredVideoGroups localeCompare s rules)
      else length (filteredRules localeCompare s rules))"

definition pricing_currentPage :: "(jstr \<Rightarrow> jstr \<Rightarrow> int) \<Rightarrow> PricingPage \<Rightarrow> CostRule list \<Rightarrow> nat" where
  "pricing_currentPage localeCompare s rules =
     min (pp_page s) (totalPages (pricing_results localeCompare s rules) (pp_pageSize s))"

record QuotePayload =
  qp_profile :: SalePricingProfile
  qp_manual_credits :: "int list"
  qp_items :: "int list"
  qp_video_rates :: "(jstr \<times> jstr) list"
  qp_generate_audio_off :: bool
  qp_has_video_reference :: bool

definition quotePayload :: "(jstr \<Rightarrow> jstr \<Rightarrow> int) \<Rightarrow> PricingPage \<Rightarrow> CostRule list \<Rightarrow> QuotePayload option" where
  "quotePayload localeCompare s rules =
     (if \<not> validForm (pp_form s) then None
      else
        let currentPage = pricing_currentPage localeCompare s rules in
        Some \<lparr>qp_profile = profileFromForm (pp_form s),
          qp_manual_credits = dedup [1000, pp_manualCredits s],
          qp_items = map cr_id (pageSlice currentPage (pp_pageSize s) (filteredRules localeCompare s rules)),
          qp_video_rates = map (\<lambda>g. (vg_model g, vg_resolution g))
            (pageSlice currentPage (pp_pageSize s) (filteredVideoGroups localeCompare s rules)),
          qp_generate_audio_off = pp_audioOff s,
          qp_has_video_reference = pp_hasVideoReference s\<rparr>)"

text \<open>
  The answer is only used when it belongs to the payload on the page: the debounced payload is the
  current one and nothing is being fetched.
\<close>

definition quoteData :: "QuotePayload option \<Rightarrow> QuotePayload option \<Rightarrow> bool \<Rightarrow> 'q option \<Rightarrow> 'q option" where
  "quoteData payload debounced isFetching answer =
     (if payload \<noteq> None \<and> payload = debounced \<and> \<not> isFetching then answer else None)"

text \<open>The number fields of the form, and what typing into one of them sets.\<close>

datatype pricing_field =
  AccountCost | IncludedCredits | UsablePercent | OverheadPercent | PaymentFee | TargetMargin | RoundingStep

primrec set_field :: "pricing_field \<Rightarrow> rat \<Rightarrow> PricingForm \<Rightarrow> PricingForm" where
  "set_field AccountCost v form = form\<lparr>pf_account_cost := v\<rparr>"
| "set_field IncludedCredits v form = form\<lparr>pf_included_credits := v\<rparr>"
| "set_field UsablePercent v form = form\<lparr>pf_usable_percent := v\<rparr>"
| "set_field OverheadPercent v form = form\<lparr>pf_overhead_percent := v\<rparr>"
| "set_field PaymentFee v form = form\<lparr>pf_payment_fee_percent := v\<rparr>"
| "set_field TargetMargin v form = form\<lparr>pf_target_margin_percent := v\<rparr>"
| "set_field RoundingStep v form = form\<lparr>pf_rounding_step := v\<rparr>"

datatype pricing_event =
  TypeNumber pricing_field rat
| TypeCurrency jstr
| TypeManualCredits rat
| ChooseKind MediaKind
| ChooseModel jstr
| ChooseAudio bool
| ToggleReference bool
| GoToPage nat
| ChoosePageSize' nat
| ProviderChanged jstr
| ProfileLoaded jstr

text \<open>
  Changing the kind or the provider resets the filters and the page, changing the model or the page
  size resets the page; a new provider loads its profile, and a kind it does not support is replaced
  by the first it does. The profile is loaded again whenever the stored one changes, as after saving.
\<close>

definition reset_filters :: "PricingPage \<Rightarrow> PricingPage" where
  "reset_filters s = s\<lparr>pp_page := 1, pp_model := [], pp_audioOff := False, pp_hasVideoReference := False\<rparr>"

definition supported_kind :: "Provider option \<Rightarrow> MediaKind \<Rightarrow> MediaKind" where
  "supported_kind provider kind =
     (case provider of None \<Rightarrow> kind
      | Some p \<Rightarrow> if providerSupports (Some (prov_capabilities p)) kind then kind
          else (case find (providerSupports (Some (prov_capabilities p))) [Image, Video, Audio] of
                  Some k \<Rightarrow> k | None \<Rightarrow> kind))"

fun pricing_step :: "Provider list \<Rightarrow> SalePricingProfile list \<Rightarrow> PricingPage \<Rightarrow> pricing_event \<Rightarrow> PricingPage" where
  "pricing_step providers profiles s (TypeNumber field v) = s\<lparr>pp_form := set_field field v (pp_form s)\<rparr>"
| "pricing_step providers profiles s (TypeCurrency c) =
     s\<lparr>pp_form := (pp_form s)\<lparr>pf_currency := to_upper c\<rparr>\<rparr>"
| "pricing_step providers profiles s (TypeManualCredits n) = s\<lparr>pp_manualCredits := max 1 (math_round n)\<rparr>"
| "pricing_step providers profiles s (ChooseKind kind) = reset_filters (s\<lparr>pp_kind := kind\<rparr>)"
| "pricing_step providers profiles s (ChooseModel model) = s\<lparr>pp_model := model, pp_page := 1\<rparr>"
| "pricing_step providers profiles s (ChooseAudio off) = s\<lparr>pp_audioOff := off\<rparr>"
| "pricing_step providers profiles s (ToggleReference b) = s\<lparr>pp_hasVideoReference := b\<rparr>"
| "pricing_step providers profiles s (GoToPage p) = s\<lparr>pp_page := p\<rparr>"
| "pricing_step providers profiles s (ChoosePageSize' n) = s\<lparr>pp_pageSize := n, pp_page := 1\<rparr>"
| "pricing_step providers profiles s (ProfileLoaded p) =
     s\<lparr>pp_form := formForProvider p (persistedProfile p profiles)\<rparr>"
| "pricing_step providers profiles s (ProviderChanged p) =
     reset_filters (s\<lparr>pp_form := formForProvider p (persistedProfile p profiles),
       pp_kind := supported_kind (find (\<lambda>q. prov_id q = p) providers) (pp_kind s)\<rparr>)"

section \<open>Properties\<close>

lemma find_append: "find P (xs @ ys) = (case find P xs of Some x \<Rightarrow> Some x | None \<Rightarrow> find P ys)"
  by (induction xs) auto

lemma to_upper_Nil: "to_upper s = [] \<longleftrightarrow> s = []"
  by (cases s) (simp_all add: to_upper_def upper_char_def)

lemma find_none: "(\<And>x. x \<in> set xs \<Longrightarrow> \<not> P x) \<Longrightarrow> find P xs = None"
  by (simp add: find_None_iff)

lemma persisted_saved:
  assumes "\<And>x. profile = Some x \<Longrightarrow> spp_provider_id x = p"
  shows "persistedProfile q (saved_profiles p profiles profile) =
    (if q = p then profile else persistedProfile q profiles)"
proof (cases "q = p")
  case True
  have "find (\<lambda>x. spp_provider_id x = p) (filter (\<lambda>x. spp_provider_id x \<noteq> p) profiles) = None"
    by (rule find_none) simp
  with True assms show ?thesis
    by (simp add: persistedProfile_def saved_profiles_def find_append split: option.split)
next
  case False
  have "find (\<lambda>x. spp_provider_id x = q) (filter (\<lambda>x. spp_provider_id x \<noteq> p) profiles) =
      find (\<lambda>x. spp_provider_id x = q) profiles"
    unfolding find_filter by (rule arg_cong [where f = "\<lambda>P. find P profiles"]) (use False in auto)
  with False assms show ?thesis
    by (auto simp: persistedProfile_def saved_profiles_def find_append split: option.split)
qed


definition sample_form :: PricingForm where
  "sample_form = (formForProvider (lit ''adobe'') None)\<lparr>pf_account_cost := 20, pf_included_credits := 1000, pf_currency := lit ''usd''\<rparr>"


section \<open>Video groups\<close>

definition video_rules_of :: "jstr \<Rightarrow> CostRule list \<Rightarrow> CostRule list" where
  "video_rules_of key rules = filter (\<lambda>r. cr_kind r = Video \<and> cr_duration r \<noteq> 0 \<and>
     videoRateKey (cr_model r) (cr_resolution r) = key) rules"

lemma dedup_snoc: "dedup (xs @ [x]) = (if x \<in> set xs then dedup xs else dedup xs @ [x])"
  by (induction xs) auto

lemma video_groups_lookup:
  "map_of (fold add_video_rule rules []) key =
     (case video_rules_of key rules of
        [] \<Rightarrow> None
      | r # rs \<Rightarrow> Some \<lparr>vg_model = cr_model r, vg_resolution = cr_resolution r,
                        vg_durations = dedup (map cr_duration (r # rs))\<rparr>)"
proof (induction rules rule: rev_induct)
  case (snoc x xs)
  show ?case
  proof (cases "cr_kind x = Video \<and> cr_duration x \<noteq> 0 \<and> videoRateKey (cr_model x) (cr_resolution x) = key")
    case True
    then have new: "video_rules_of key (xs @ [x]) = video_rules_of key xs @ [x]" by (simp add: video_rules_of_def)
    show ?thesis
    proof (cases "video_rules_of key xs")
      case Nil
      with True new snoc show ?thesis by (simp add: add_video_rule_def Let_def map_of_map_set)
    next
      case (Cons r rs)
      with True new snoc show ?thesis
        using dedup_snoc [of "map cr_duration (r # rs)" "cr_duration x"]
        by (simp add: add_video_rule_def Let_def map_of_map_set)
    qed
  next
    case False
    then have "video_rules_of key (xs @ [x]) = video_rules_of key xs" by (simp add: video_rules_of_def)
    with False snoc show ?thesis by (auto simp: add_video_rule_def Let_def map_of_map_set)
  qed
qed (simp add: video_rules_of_def)

lemma video_groups_ok: "jmap_ok (fold add_video_rule rules [])"
proof -
  have "jmap_ok m \<Longrightarrow> jmap_ok (fold add_video_rule rules m)" for m
    by (induction rules arbitrary: m) (auto simp: add_video_rule_def Let_def intro: jmap.ok_put)
  then show ?thesis using jmap.ok_empty by blast
qed

lemma map_values_lookup: "jmap_ok m \<Longrightarrow> v \<in> set (map_values m) \<longleftrightarrow> (\<exists>k. map_of m k = Some v)"
  by (force simp: map_values_def jmap_ok_def map_keys_def dest: map_of_SomeD)

interpretation int_order: comparator "\<lambda>a b :: int. a - b"
  by (rule comparator_key [of "\<lambda>a. a"])

lemma sorted_durations:
  "sorted_wrt (<) (js_sort (\<lambda>a b. a - b) (dedup ds) :: int list)"
proof -
  have "sorted_wrt (\<le>) (js_sort (\<lambda>a b. a - b) (dedup ds))"
    using int_order.sorted_js_sort [of "dedup ds"] by simp
  moreover have "distinct (js_sort (\<lambda>a b. a - b) (dedup ds))" by simp
  ultimately show ?thesis unfolding strict_sorted_iff by blast
qed

text \<open>The rules priced per second that have the model and resolution.\<close>

definition video_rules_for :: "CostRule list \<Rightarrow> jstr \<Rightarrow> jstr \<Rightarrow> CostRule set" where
  "video_rules_for rules m r =
     {x \<in> set rules. cr_kind x = Video \<and> cr_duration x \<noteq> 0 \<and> cr_model x = m \<and> cr_resolution x = r}"

definition no_separator :: "CostRule list \<Rightarrow> bool" where
  "no_separator rules \<longleftrightarrow> (\<forall>x \<in> set rules. 0 \<notin> set (cr_model x))"

lemma videoRateKey_inject:
  "0 \<notin> set m \<Longrightarrow> 0 \<notin> set m' \<Longrightarrow> videoRateKey m r = videoRateKey m' r' \<longleftrightarrow> m = m' \<and> r = r'"
  unfolding videoRateKey_def
  by (induction m arbitrary: m') (auto simp: Cons_eq_append_conv append_eq_Cons_conv split: list.splits,
    (case_tac m', auto)+)

lemma set_video_rules_of:
  assumes "no_separator rules" "0 \<notin> set m"
  shows "set (video_rules_of (videoRateKey m r) rules) = video_rules_for rules m r"
  using assms by (auto simp: video_rules_of_def video_rules_for_def no_separator_def videoRateKey_inject)

lemma distinct_map_part: "distinct (map (\<lambda>x. h (f x)) xs) \<Longrightarrow> distinct (map f xs)"
  by (auto simp: distinct_map inj_on_def)

lemma distinct_map_sort: "distinct (map f xs) \<Longrightarrow> distinct (map f (js_sort cmp xs))"
  by (simp add: distinct_map)

text \<open>The group a key holds.\<close>

lemma video_group_of_key:
  assumes "map_of (fold add_video_rule rules []) key = Some v"
  shows "key = videoRateKey (vg_model v) (vg_resolution v)" "\<exists>x \<in> set rules. vg_model v = cr_model x"
    "vg_durations v = dedup (map cr_duration (video_rules_of key rules))" "video_rules_of key rules \<noteq> []"
proof -
  from assms obtain r rs where r: "video_rules_of key rules = r # rs"
    "v = \<lparr>vg_model = cr_model r, vg_resolution = cr_resolution r, vg_durations = dedup (map cr_duration (r # rs))\<rparr>"
    by (auto simp: video_groups_lookup split: list.splits)
  then have "r \<in> set (video_rules_of key rules)" by simp
  then have "r \<in> set rules" "videoRateKey (cr_model r) (cr_resolution r) = key" by (auto simp: video_rules_of_def)
  with r show "key = videoRateKey (vg_model v) (vg_resolution v)" "\<exists>x \<in> set rules. vg_model v = cr_model x"
    "vg_durations v = dedup (map cr_duration (video_rules_of key rules))" "video_rules_of key rules \<noteq> []"
    by auto
qed

lemma video_group_keys:
  "map (\<lambda>v. videoRateKey (vg_model v) (vg_resolution v)) (map_values (fold add_video_rule rules [])) =
     map_keys (fold add_video_rule rules [])"
proof -
  let ?m = "fold add_video_rule rules []"
  have "videoRateKey (vg_model (snd e)) (vg_resolution (snd e)) = fst e" if "e \<in> set ?m" for e
  proof -
    have "map_of ?m (fst e) = Some (snd e)"
      using that video_groups_ok [of rules] by (simp add: jmap_ok_def map_keys_def)
    from video_group_of_key(1) [OF this] show ?thesis by simp
  qed
  then show ?thesis by (simp add: map_values_def map_keys_def)
qed

lemma set_groupVideoRules:
  "g \<in> set (groupVideoRules localeCompare rules) \<longleftrightarrow>
     (\<exists>key v. map_of (fold add_video_rule rules []) key = Some v \<and>
        g = v\<lparr>vg_durations := js_sort (\<lambda>a b. a - b) (vg_durations v)\<rparr>)"
proof -
  have "g \<in> set (groupVideoRules localeCompare rules) \<longleftrightarrow>
     (\<exists>v \<in> set (map_values (fold add_video_rule rules [])).
        g = v\<lparr>vg_durations := js_sort (\<lambda>a b. a - b) (vg_durations v)\<rparr>)"
    by (simp add: groupVideoRules_def image_iff)
  then show ?thesis using map_values_lookup [OF video_groups_ok] by blast
qed

text \<open>C32: The page's video groups are what grouping means: the groups have different models or
  resolutions, there is one for exactly the model and resolution pairs of the video rules with a
  duration, and its durations are those of its rules, each once, in increasing order. (No model
  name has the separator of the key in it.)\<close>

theorem video_groups_correct:
  assumes "no_separator rules" "0 \<notin> set (vg_model g)"
  shows "distinct (map (\<lambda>g. (vg_model g, vg_resolution g)) (groupVideoRules localeCompare rules)) \<and>
    (g \<in> set (groupVideoRules localeCompare rules) \<longleftrightarrow>
       video_rules_for rules (vg_model g) (vg_resolution g) \<noteq> {} \<and>
       sorted_wrt (<) (vg_durations g) \<and>
       set (vg_durations g) = cr_duration ` video_rules_for rules (vg_model g) (vg_resolution g))"
proof
  let ?m = "fold add_video_rule rules []"
  let ?key = "videoRateKey (vg_model g) (vg_resolution g)"
  have "distinct (map (\<lambda>v. videoRateKey (vg_model v) (vg_resolution v)) (map_values ?m))"
    using video_groups_ok [of rules] by (simp add: video_group_keys jmap_ok_def)
  then have "distinct (map (\<lambda>v. (vg_model v, vg_resolution v)) (map_values ?m))"
    by (intro distinct_map_part [where h = "\<lambda>(m, r). videoRateKey m r"]) simp
  then show "distinct (map (\<lambda>g. (vg_model g, vg_resolution g)) (groupVideoRules localeCompare rules))"
    unfolding groupVideoRules_def by (intro distinct_map_sort) (simp add: comp_def)
  have of_key: "set (video_rules_of ?key rules) = video_rules_for rules (vg_model g) (vg_resolution g)"
    by (rule set_video_rules_of [OF assms])
  show "g \<in> set (groupVideoRules localeCompare rules) \<longleftrightarrow>
       video_rules_for rules (vg_model g) (vg_resolution g) \<noteq> {} \<and>
       sorted_wrt (<) (vg_durations g) \<and>
       set (vg_durations g) = cr_duration ` video_rules_for rules (vg_model g) (vg_resolution g)"
  proof
    assume "g \<in> set (groupVideoRules localeCompare rules)"
    then obtain key v where v: "map_of ?m key = Some v" "g = v\<lparr>vg_durations := js_sort (\<lambda>a b. a - b) (vg_durations v)\<rparr>"
      unfolding set_groupVideoRules by blast
    note k = video_group_of_key [OF v(1)]
    have "key = ?key" using k(1) v(2) by simp
    then show "video_rules_for rules (vg_model g) (vg_resolution g) \<noteq> {} \<and>
       sorted_wrt (<) (vg_durations g) \<and>
       set (vg_durations g) = cr_duration ` video_rules_for rules (vg_model g) (vg_resolution g)"
      using k(3,4) of_key sorted_durations by (simp add: v(2)) (metis set_empty)
  next
    assume r: "video_rules_for rules (vg_model g) (vg_resolution g) \<noteq> {} \<and>
       sorted_wrt (<) (vg_durations g) \<and>
       set (vg_durations g) = cr_duration ` video_rules_for rules (vg_model g) (vg_resolution g)"
    then obtain x xs where x: "video_rules_of ?key rules = x # xs"
      using of_key by (cases "video_rules_of ?key rules") auto
    define v where "v = \<lparr>vg_model = cr_model x, vg_resolution = cr_resolution x,
        vg_durations = dedup (map cr_duration (video_rules_of ?key rules))\<rparr>"
    have v: "map_of ?m ?key = Some v" by (simp add: video_groups_lookup x v_def)
    have "x \<in> video_rules_for rules (vg_model g) (vg_resolution g)" using of_key x by force
    then have names: "vg_model v = vg_model g" "vg_resolution v = vg_resolution g"
      by (simp_all add: v_def video_rules_for_def)
    have "set (js_sort (\<lambda>a b. a - b) (vg_durations v)) = set (vg_durations g)"
      using r of_key by (simp add: v_def)
    moreover have "sorted_wrt (<) (js_sort (\<lambda>a b. a - b) (vg_durations v))"
      using sorted_durations by (simp add: v_def)
    ultimately have "js_sort (\<lambda>a b. a - b) (vg_durations v) = vg_durations g"
      using r by (metis strict_sorted_equal)
    with names have "g = v\<lparr>vg_durations := js_sort (\<lambda>a b. a - b) (vg_durations v)\<rparr>" by simp
    with v show "g \<in> set (groupVideoRules localeCompare rules)" unfolding set_groupVideoRules by blast
  qed
qed

definition two_durations :: "CostRule list" where
  "two_durations = map (\<lambda>d. (sample_rule d Video [] 10 [])\<lparr>cr_duration := d\<rparr>) [10, 5, 10]"

theorem video_groups_correct_witness:
  "\<lparr>vg_model = lit ''m'', vg_resolution = lit ''720p'', vg_durations = [5, 10]\<rparr> \<in> set (groupVideoRules (\<lambda>_ _. 0) two_durations)"
proof -
  have "0 \<notin> set (lit ''m'')" by code_simp
  then have sep: "no_separator two_durations" by (simp add: no_separator_def two_durations_def sample_rule_def)
  have all: "video_rules_for two_durations (lit ''m'') (lit ''720p'') = set two_durations"
    by (auto simp: video_rules_for_def two_durations_def sample_rule_def)
  have durations: "cr_duration ` set two_durations = {5, 10}" by (auto simp: two_durations_def)
  have "set two_durations \<noteq> {}" by (simp add: two_durations_def)
  then show ?thesis
    using video_groups_correct [OF sep, of "\<lparr>vg_model = lit ''m'', vg_resolution = lit ''720p'', vg_durations = [5, 10]\<rparr>"]
      \<open>0 \<notin> set (lit ''m'')\<close> by (simp add: all durations)
qed

definition quoted_rules :: "QuotePayload option \<Rightarrow> int list" where
  "quoted_rules payload = (case payload of Some q \<Rightarrow> qp_items q | None \<Rightarrow> [])"

definition quoted_groups :: "QuotePayload option \<Rightarrow> (jstr \<times> jstr) list" where
  "quoted_groups payload = (case payload of Some q \<Rightarrow> qp_video_rates q | None \<Rightarrow> [])"

lemma pages_cover:
  assumes "0 < per"
  shows "concat (map (\<lambda>k. map f (pageSlice k per xs)) [1..<Suc (totalPages (length xs) per)]) = map f xs"
proof -
  have "concat (map (\<lambda>p. pageSlice p per xs) [1..<Suc (totalPages (length xs) per)]) = xs"
    unfolding concat_pageSlice using totalPages_covers [OF assms, of "length xs"] by simp
  from arg_cong [OF this, of "map f"] show ?thesis by (simp add: map_concat comp_def)
qed

text \<open>Going through the pages quotes everything: with a valid form the payloads of the pages, one
  after the other, name every filtered rule, or every video group, exactly as the filtered list
  does; and an answer is shown only if it was given for the payload on the page.\<close>

theorem quotes_cover_results:
  assumes "validForm (pp_form s)" "0 < pp_pageSize s"
    and "n = totalPages (pricing_results lc s rules) (pp_pageSize s)"
    and "payload_at = (\<lambda>k. quotePayload lc (s\<lparr>pp_page := k\<rparr>) rules)"
  shows "(if pp_kind s = Video
      then concat (map (\<lambda>k. quoted_groups (payload_at k)) [1..<Suc n]) =
        map (\<lambda>g. (vg_model g, vg_resolution g)) (filteredVideoGroups lc s rules)
      else concat (map (\<lambda>k. quoted_rules (payload_at k)) [1..<Suc n]) = map cr_id (filteredRules lc s rules)) \<and>
    (quoteData payload debounced isFetching answer = Some a \<longrightarrow>
       payload \<noteq> None \<and> payload = debounced \<and> answer = Some a)"
proof
  have lists: "filteredRules lc (s\<lparr>pp_page := k\<rparr>) rules = filteredRules lc s rules"
    "filteredVideoGroups lc (s\<lparr>pp_page := k\<rparr>) rules = filteredVideoGroups lc s rules"
    "pricing_results lc (s\<lparr>pp_page := k\<rparr>) rules = pricing_results lc s rules" for k
    by (simp_all add: filteredRules_def filteredVideoGroups_def pricing_results_def)
  have page: "quoted_groups (payload_at k) = map (\<lambda>g. (vg_model g, vg_resolution g)) (pageSlice k (pp_pageSize s) (filteredVideoGroups lc s rules))"
    "quoted_rules (payload_at k) = map cr_id (pageSlice k (pp_pageSize s) (filteredRules lc s rules))"
    if "k \<in> set [1..<Suc n]" for k
    using that assms
    by (auto simp: quotePayload_def Let_def lists quoted_groups_def quoted_rules_def pricing_currentPage_def min_def)
  have groups: "map (\<lambda>k. quoted_groups (payload_at k)) [1..<Suc n] =
      map (\<lambda>k. map (\<lambda>g. (vg_model g, vg_resolution g)) (pageSlice k (pp_pageSize s) (filteredVideoGroups lc s rules))) [1..<Suc n]"
    by (rule map_cong [OF refl]) (rule page(1))
  have items: "map (\<lambda>k. quoted_rules (payload_at k)) [1..<Suc n] =
      map (\<lambda>k. map cr_id (pageSlice k (pp_pageSize s) (filteredRules lc s rules))) [1..<Suc n]"
    by (rule map_cong [OF refl]) (rule page(2))
  show "if pp_kind s = Video
      then concat (map (\<lambda>k. quoted_groups (payload_at k)) [1..<Suc n]) =
        map (\<lambda>g. (vg_model g, vg_resolution g)) (filteredVideoGroups lc s rules)
      else concat (map (\<lambda>k. quoted_rules (payload_at k)) [1..<Suc n]) = map cr_id (filteredRules lc s rules)"
    unfolding groups items
    using pages_cover [OF assms(2), of "\<lambda>g. (vg_model g, vg_resolution g)" "filteredVideoGroups lc s rules"]
      pages_cover [OF assms(2), of cr_id "filteredRules lc s rules"]
    by (simp add: assms(3) pricing_results_def del: upt_Suc)
  show "quoteData payload debounced isFetching answer = Some a \<longrightarrow>
       payload \<noteq> None \<and> payload = debounced \<and> answer = Some a"
    by (auto simp: quoteData_def)
qed

theorem quotes_cover_results_witness:
  "quoted_groups (quotePayload (\<lambda>_ _. 0) (initial_pricing_page
      \<lparr>pp_form := sample_form, pp_kind := Video, pp_pageSize := 1, pp_page := 1\<rparr>) two_durations) = [(lit ''m'', lit ''720p'')]"
proof -
  define s where "s = initial_pricing_page\<lparr>pp_form := sample_form, pp_kind := Video, pp_pageSize := 1\<rparr>"
  have valid: "validForm (pp_form s)" and groups: "filteredVideoGroups (\<lambda>_ _. 0) s two_durations =
      [\<lparr>vg_model = lit ''m'', vg_resolution = lit ''720p'', vg_durations = [5, 10]\<rparr>]"
    unfolding s_def by code_simp+
  have fields: "pp_kind s = Video" "pp_pageSize s = 1" by (simp_all add: s_def)
  have "1 = totalPages (pricing_results (\<lambda>_ _. 0) s two_durations) (pp_pageSize s)"
    by (simp add: pricing_results_def fields groups totalPages_def)
  from quotes_cover_results [OF valid _ this refl, THEN conjunct1]
  show ?thesis by (simp add: fields groups) (simp add: s_def)
qed

end
