(* ===== verification/DateRange.thy ===== *)
theory DateRange
  imports JsDate UrlParams
begin

text \<open>
  Dates as texts and the date filters of the list pages: \<open>Date.prototype.toISOString\<close>, and
  \<open>appendLocalDateRange\<close> of shared/status.ts, which turns two local days into the instants
  a list is asked for. \<open>utc\<close> and \<open>localtime\<close> convert between local time and UTC, in milliseconds.
\<close>

section \<open>Printing an instant\<close>

text \<open>\<open>n\<close> decimal digits of a number.\<close>

fun fixed_digits :: "nat \<Rightarrow> int \<Rightarrow> jstr" where
  "fixed_digits 0 v = []"
| "fixed_digits (Suc n) v = fixed_digits n (v div 10) @ [48 + v mod 10]"

text \<open>The year of the era of 400 years, of a day of that era.\<close>

definition year_of_era :: "int \<Rightarrow> int" where
  "year_of_era doe = (doe - doe div 1460 + doe div 36524 - doe div 146096) div 365"

text \<open>Year, month and day of a day since 1970-01-01.\<close>

definition civil_of_day :: "int \<Rightarrow> int \<times> int \<times> int" where
  "civil_of_day n =
     (let z = n + 719468; era = z div 146097; doe = z mod 146097; yoe = year_of_era doe;
          doy = doe - (365 * yoe + yoe div 4 - yoe div 100); mp = (5 * doy + 2) div 153;
          m = (if mp < 10 then mp + 3 else mp - 9) in
      (yoe + era * 400 + (if m \<le> 2 then 1 else 0), m, doy - (153 * mp + 2) div 5 + 1))"

definition iso_year :: "int \<Rightarrow> jstr" where
  "iso_year y = (if 0 \<le> y \<and> y \<le> 9999 then fixed_digits 4 y
     else (if y < 0 then 45 else 43) # fixed_digits 6 \<bar>y\<bar>)"

text \<open>\<open>toISOString\<close>; an invalid date, or one out of the range of time values, throws a RangeError.\<close>

definition to_iso_string :: "int option \<Rightarrow> jstr res" where
  "to_iso_string time = (case time of
       None \<Rightarrow> Inl RangeError
     | Some t \<Rightarrow>
         if 8640000000000000 < \<bar>t\<bar> then Inl RangeError
         else
           let (y, m, d) = civil_of_day (t div 86400000); ms = t mod 86400000 in
           Inr (iso_year y @ 45 # fixed_digits 2 m @ 45 # fixed_digits 2 d @ 84 #
             fixed_digits 2 (ms div 3600000) @ 58 # fixed_digits 2 (ms div 60000 mod 60) @ 58 #
             fixed_digits 2 (ms div 1000 mod 60) @ 46 # fixed_digits 3 (ms mod 1000) @ [90]))"

section \<open>The date filters\<close>

text \<open>\<open>new Date(`${day}T00:00:00`)\<close>: the start of the local day.\<close>

definition start_of_day :: "(int \<Rightarrow> int) \<Rightarrow> jstr \<Rightarrow> int option" where
  "start_of_day utc day = date_time utc (day @ lit ''T00:00:00'')"

text \<open>\<open>setDate(getDate() + 1)\<close>: the same local time on the next day.\<close>

definition next_day :: "(int \<Rightarrow> int) \<Rightarrow> (int \<Rightarrow> int) \<Rightarrow> int \<Rightarrow> int" where
  "next_day utc localtime t = utc (localtime t + 86400000)"

definition appendLocalDateRange ::
    "(int \<Rightarrow> int) \<Rightarrow> (int \<Rightarrow> int) \<Rightarrow> params \<Rightarrow> jstr \<Rightarrow> jstr \<Rightarrow> params res" where
  "appendLocalDateRange utc localtime ps from_day to_day =
     bindr (if from_day \<noteq> [] then
         bindr (to_iso_string (start_of_day utc from_day)) (\<lambda>s. Inr (param_set (lit ''from'') s ps))
       else Inr ps) (\<lambda>ps.
     if to_day \<noteq> [] then
       bindr (to_iso_string (map_option (next_day utc localtime) (start_of_day utc to_day)))
         (\<lambda>s. Inr (param_set (lit ''to'') s ps))
     else Inr ps)"

section \<open>The calendar\<close>

text \<open>The first day of a year of the era, counted from March.\<close>

definition year_start :: "int \<Rightarrow> int" where
  "year_start y = 365 * y + y div 4 - y div 100"

lemma minus_div_mono: "a \<le> b \<Longrightarrow> a - a div 1460 \<le> b - b div (1460 :: int)"
proof -
  assume ab: "a \<le> b"
  have parts: "a = 1460 * (a div 1460) + a mod 1460" "b = 1460 * (b div 1460) + b mod 1460" by simp_all
  have "a div 1460 \<le> b div 1460" using ab by (rule zdiv_mono1) simp
  moreover have "0 \<le> a mod 1460" "a mod 1460 < 1460" "0 \<le> b mod 1460" "b mod 1460 < 1460" by simp_all
  ultimately show ?thesis using ab parts by (cases "a div 1460 = b div 1460") linarith+
qed

lemma year_of_era_mono: "0 \<le> a \<Longrightarrow> a \<le> b \<Longrightarrow> b < 146097 \<Longrightarrow> year_of_era a \<le> year_of_era b"
proof -
  assume b: "0 \<le> a" "a \<le> b" "b < 146097"
  define f where "f doe = doe - doe div 1460 + doe div 36524 - doe div 146096" for doe :: int
  have "f a \<le> f b"
  proof (cases "b = 146096")
    case True
    then have "f b = 145999" by (simp add: f_def)
    moreover have "a div 146096 \<ge> 0" using b by simp
    moreover have "f a \<le> 145999"
    proof (cases "a = 146096")
      case False
      then have "a \<le> 146095" using b by simp
      then have "a - a div 1460 \<le> 146095 - 146095 div 1460" by (rule minus_div_mono)
      moreover have "a div 36524 \<le> 146095 div 36524" using \<open>a \<le> 146095\<close> by (rule zdiv_mono1) simp
      ultimately show ?thesis using \<open>a div 146096 \<ge> 0\<close> by (simp add: f_def)
    qed (simp add: f_def)
    ultimately show ?thesis by simp
  next
    case False
    then have "a div 146096 = 0" "b div 146096 = 0" using b False by (auto intro!: div_pos_pos_trivial)
    moreover have "a div 36524 \<le> b div 36524" using b by (simp add: zdiv_mono1)
    moreover have "a - a div 1460 \<le> b - b div 1460" using b(2) by (rule minus_div_mono)
    ultimately show ?thesis unfolding f_def by linarith
  qed
  then have "f a div 365 \<le> f b div 365" by (rule zdiv_mono1 [OF _ zero_less_numeral])
  then show ?thesis by (simp only: year_of_era_def f_def)
qed

text \<open>A century of the era, a group of four years in it and a year of the group.\<close>

lemma year_of_era_parts:
  fixes c q a k :: int
  assumes c: "0 \<le> c" "c < 4" and q: "0 \<le> q" "q < 25" and a: "0 \<le> a" "a < 4"
    and k: "0 \<le> k" "k < 366" "k = 365 \<longrightarrow> a = 3"
    and small: "1461 * q + 365 * a + k < 36524"
  shows "year_of_era (36524 * c + 1461 * q + 365 * a + k) = 100 * c + 4 * q + a"
proof -
  define doe where "doe = 36524 * c + 1461 * q + 365 * a + k"
  define d :: int where "d = (if 1460 \<le> 24 * c + q + 365 * a + k then 1 else 0)"
  have "doe div 36524 = c" using small q a k unfolding doe_def
    by (intro int_div_pos_eq [where r = "1461 * q + 365 * a + k"]) auto
  moreover have "doe div 146096 = 0"
    using small c q a k unfolding doe_def by (intro div_pos_pos_trivial) auto
  moreover have "doe div 1460 = 25 * c + q + d"
    using c q a k unfolding doe_def d_def
    by (intro int_div_pos_eq [where r = "24 * c + q + 365 * a + k - 1460 * d"]) (auto simp: d_def)
  ultimately have "year_of_era doe = (36500 * c + 1460 * q + 365 * a + (k - d)) div 365"
    by (simp add: year_of_era_def doe_def)
  also have "\<dots> = 100 * c + 4 * q + a"
    using c q a k by (intro int_div_pos_eq [where r = "k - d"]) (auto simp: d_def)
  finally show ?thesis by (simp add: doe_def)
qed

lemma year_of_era_start:
  assumes "0 \<le> y" "y < 400" "year_start y \<le> doe" "doe < year_start (y + 1) + (if y = 399 then 1 else 0)"
  shows "year_of_era doe = y"
proof -
  define c r where "c = y div 100" and "r = y mod 100"
  define q a where "q = r div 4" and "a = r mod 4"
  define k where "k = doe - year_start y"
  have y: "y = 100 * c + 4 * q + a" by (simp add: c_def r_def q_def a_def)
  have c: "0 \<le> c" "c < 4" using assms(1,2) unfolding c_def by auto
  have a: "0 \<le> a" "a < 4" by (simp_all add: a_def)
  have q: "0 \<le> q" "q < 25" unfolding q_def r_def by auto
  have start: "year_start y = 36524 * c + 1461 * q + 365 * a"
  proof -
    have "y div 4 = 25 * c + q" unfolding y using a by (intro int_div_pos_eq [where r = a]) auto
    moreover have "y div 100 = c" unfolding y using a q by (intro int_div_pos_eq [where r = "4 * q + a"]) auto
    ultimately show ?thesis by (simp add: year_start_def y)
  qed
  have after: "year_start (y + 1) - year_start y = (if a = 3 \<and> q < 24 then 366 else 365)"
  proof -
    have "(y + 1) div 4 = 25 * c + q + (if a = 3 then 1 else 0)"
      unfolding y using a by (intro int_div_pos_eq [where r = "if a = 3 then 0 else a + 1"]) auto
    moreover have "(y + 1) div 100 = c + (if a = 3 \<and> q = 24 then 1 else 0)"
      unfolding y using a q
      by (intro int_div_pos_eq [where r = "if a = 3 \<and> q = 24 then 0 else 4 * q + a + 1"]) auto
    ultimately have "year_start (y + 1) - year_start y =
        365 + (if a = 3 then 1 else 0) - (if a = 3 \<and> q = 24 then 1 else 0)"
      unfolding start by (simp add: year_start_def y)
    then show ?thesis using q by (auto split: if_splits)
  qed
  have last: "y = 399 \<Longrightarrow> a = 3 \<and> c = 3 \<and> q = 24" by (simp add: a_def q_def r_def c_def)
  have k: "0 \<le> k" "k < 366" "k = 365 \<longrightarrow> a = 3 \<and> (q < 24 \<or> c = 3)"
    using assms(3,4) after last by (auto simp: k_def split: if_splits)
  have doe: "doe = 36524 * c + 1461 * q + 365 * a + k" by (simp add: k_def start)
  show ?thesis
  proof (cases "1461 * q + 365 * a + k < 36524")
    case True
    then show ?thesis using year_of_era_parts [OF c q a k(1,2)] k(3) by (simp add: doe y)
  next
    case False
    then have "q = 24" "a = 3" "k = 365" using q a k by auto
    with k(3) have "doe = 146096" "y = 399" by (simp_all add: doe y)
    then show ?thesis by (simp add: year_of_era_def)
  qed
qed


text \<open>Day and month of a day of the year, counted from March.\<close>

definition month_start :: "int \<Rightarrow> int" where
  "month_start mp = (153 * mp + 2) div 5"

lemma march_month_cases:
  "0 \<le> m \<Longrightarrow> m < 12 \<Longrightarrow> m \<in> {0, 1, 2, 3, 4, 5, 6, 7, 8, 9, 10, 11 :: int}"
  by (simp; arith)

lemma month_parts:
  assumes "0 \<le> m" "m < 12" "1 \<le> d" "d \<le> month_start (m + 1) - month_start m"
  shows "(5 * (month_start m + d - 1) + 2) div 153 = m"
  using march_month_cases [OF assms(1,2)] assms(3,4)
  by (elim insertE) (auto simp: month_start_def intro!: int_div_pos_eq [where r = "5 * (d - 1) + x" for x])

lemma next_div: "(y + 1) div n = y div n + (if (y + 1) mod n = 0 then 1 else 0)" if "0 < n" for y n :: int
proof -
  have y: "y = n * (y div n) + y mod n" and r: "0 \<le> y mod n" "y mod n < n" using that by simp_all
  show ?thesis
  proof (cases "y mod n = n - 1")
    case True
    then have "y + 1 = n * (y div n) + n" using y by linarith
    then have "y + 1 = n * (y div n + 1) + 0" by (simp add: distrib_left)
    then show ?thesis using that int_div_pos_eq [of "y + 1" n "y div n + 1" 0]
        int_mod_pos_eq [of "y + 1" n "y div n + 1" 0] by simp
  next
    case False
    then have "y + 1 = n * (y div n) + (y mod n + 1)" "y mod n + 1 < n" using y r by simp_all
    then show ?thesis using that r int_div_pos_eq [of "y + 1" n "y div n" "y mod n + 1"]
        int_mod_pos_eq [of "y + 1" n "y div n" "y mod n + 1"] by simp
  qed
qed

lemma year_start_next:
  "year_start (y + 1) = year_start y + 365 + (if (y + 1) mod 4 = 0 then 1 else 0) - (if (y + 1) mod 100 = 0 then 1 else 0)"
  by (simp add: year_start_def next_div)

text \<open>The day of the year from March is below the length of that year.\<close>

lemma day_of_year_bound:
  assumes "1 \<le> m" "m \<le> 12" "1 \<le> d" "d \<le> days_in_month y m"
    and "mp = (if 2 < m then m - 3 else m + 9)" "y' = (if m \<le> 2 then y - 1 else y)" "yoe = y' mod 400"
  shows "0 \<le> mp \<and> mp < 12 \<and> d \<le> month_start (mp + 1) - month_start mp \<and>
    year_start yoe + (month_start mp + d - 1) < year_start (yoe + 1) + (if yoe = 399 then 1 else 0)"
proof -
  have "(yoe + 1) mod n = (y' + 1) mod n" if "n dvd 400" for n
    using that by (metis assms(7) mod_add_left_eq mod_mod_cancel)
  then have mods: "(yoe + 1) mod 4 = (y' + 1) mod 4" "(yoe + 1) mod 100 = (y' + 1) mod 100"
    "(yoe + 1) mod 400 = (y' + 1) mod 400"
    by simp_all
  have yoe: "0 \<le> yoe" "yoe < 400" by (simp_all add: assms(7))
  then have last: "yoe = 399 \<longleftrightarrow> (yoe + 1) mod 400 = 0" by (cases "yoe = 399") auto
  have mp: "0 \<le> mp" "mp < 12" using assms(1,2,5) by auto
  have step: "year_start yoe + 365 \<le> year_start (yoe + 1)"
  proof -
    have "(yoe + 1) mod 100 = 0 \<longrightarrow> (yoe + 1) mod 4 = 0" by presburger
    then show ?thesis by (simp add: year_start_next)
  qed
  show ?thesis
  proof (cases "m = 2")
    case True
    then have m: "mp = 11" "y' = y - 1" by (simp_all add: assms(5,6))
    have feb: "d \<le> (if leap_year y then 29 else 28)" using assms(4) True by (simp add: days_in_month_def)
    have "leap_year y \<longrightarrow> year_start yoe + 366 \<le> year_start (yoe + 1) + (if yoe = 399 then 1 else 0)"
      using mods m(2) last by (auto simp: leap_year_def year_start_next)
    then show ?thesis using feb step by (auto simp: m(1) month_start_def split: if_splits)
  next
    case False
    have "mp \<noteq> 11" using False assms(2,5) by (auto split: if_splits)
    then have "mp \<in> {0, 1, 2, 3, 4, 5, 6, 7, 8, 9, 10}" using march_month_cases [OF mp] by simp
    moreover have "m = (if mp < 10 then mp + 3 else mp - 9)" using assms(1,2,5) False by (auto split: if_splits)
    ultimately have len: "d \<le> month_start (mp + 1) - month_start mp"
      using assms(4) by (elim insertE) (simp_all add: month_start_def days_in_month_def)
    moreover have "month_start (mp + 1) \<le> 337"
      using \<open>mp \<in> _\<close> by (elim insertE) (simp_all add: month_start_def)
    ultimately show ?thesis using step mp assms(3) by auto
  qed
qed


lemma civil_of_days_from_civil:
  assumes "1 \<le> m" "m \<le> 12" "1 \<le> d" "d \<le> days_in_month y m"
  shows "civil_of_day (days_from_civil y m d) = (y, m, d)"
proof -
  define mp y' yoe era where "mp = (if 2 < m then m - 3 else m + 9)"
    and "y' = (if m \<le> 2 then y - 1 else y)" and "yoe = y' mod 400" and "era = y' div 400"
  define doe where "doe = year_start yoe + (month_start mp + d - 1)"
  note bound = day_of_year_bound [OF assms mp_def y'_def yoe_def]
  have yoe: "0 \<le> yoe" "yoe < 400" by (simp_all add: yoe_def)
  have start: "0 \<le> year_start yoe" "year_start (yoe + 1) \<le> 146096"
  proof -
    have "yoe div 100 \<le> yoe div 4" by (cases "yoe < 100") (use yoe in \<open>auto simp: zdiv_mono2\<close>)
    then show "0 \<le> year_start yoe" using yoe(1) by (simp add: year_start_def)
    have "4 * ((yoe + 1) div 4) \<le> yoe + 1" "yoe + 1 \<le> 100 * ((yoe + 1) div 100) + 99" by presburger+
    then have "(yoe + 1) div 4 - (yoe + 1) div 100 \<le> 96" using yoe(2) by linarith
    then show "year_start (yoe + 1) \<le> 146096" using yoe(2) by (simp add: year_start_def)
  qed
  have "0 \<le> month_start mp" using bound unfolding month_start_def by (intro pos_imp_zdiv_nonneg_iff [THEN iffD2]) auto
  then have doe: "0 \<le> doe" "doe < 146097" "year_start yoe \<le> doe"
    "doe < year_start (yoe + 1) + (if yoe = 399 then 1 else 0)"
    using bound start assms(3) by (auto simp: doe_def split: if_splits)
  have days: "days_from_civil y m d + 719468 = 146097 * era + doe"
    by (simp add: days_from_civil_def Let_def doe_def year_start_def month_start_def
        mp_def y'_def yoe_def era_def)
  have parts: "(days_from_civil y m d + 719468) div 146097 = era"
    "(days_from_civil y m d + 719468) mod 146097 = doe"
    using doe(1,2) unfolding days by simp_all
  have year: "year_of_era doe = yoe" by (rule year_of_era_start [OF yoe doe(3,4)])
  have doy: "doe - (365 * yoe + yoe div 4 - yoe div 100) = month_start mp + d - 1"
    by (simp add: doe_def year_start_def)
  have month: "(5 * (month_start mp + d - 1) + 2) div 153 = mp"
    by (rule month_parts) (use bound assms(3) in auto)
  have "y' = yoe + era * 400" by (simp add: yoe_def era_def)
  then show ?thesis
    unfolding civil_of_day_def Let_def parts year doy month
    using assms(1,2) by (auto simp: mp_def y'_def month_start_def)
qed


text \<open>Every day is the day of some date.\<close>

lemma year_of_day:
  assumes "0 \<le> doe" "doe < 146097"
  shows "\<exists>y. 0 \<le> y \<and> y < 400 \<and> year_start y \<le> doe \<and> doe < year_start (y + 1) + (if y = 399 then 1 else 0)"
proof (cases "doe = 146096")
  case True
  then show ?thesis by (intro exI [of _ 399]) (simp add: year_start_def)
next
  case False
  have "doe < year_start (int k) \<Longrightarrow> k \<le> 400 \<Longrightarrow>
      \<exists>y. 0 \<le> y \<and> y < 400 \<and> year_start y \<le> doe \<and> doe < year_start (y + 1)" for k
  proof (induction k)
    case 0
    then show ?case using assms(1) by (simp add: year_start_def)
  next
    case (Suc k)
    show ?case
    proof (cases "doe < year_start (int k)")
      case False
      then show ?thesis using Suc.prems by (intro exI [of _ "int k"]) (simp add: add.commute)
    qed (use Suc in simp)
  qed
  moreover have "doe < year_start (int 400)" using False assms(2) by (simp add: year_start_def)
  ultimately obtain y where "0 \<le> y" "y < 400" "year_start y \<le> doe" "doe < year_start (y + 1)" by blast
  then show ?thesis by (intro exI [of _ y]) auto
qed

lemma zdvd400: "(100 :: int) dvd 400" "(4 :: int) dvd 100"
  by simp_all

lemma day_is_civil:
  "\<exists>y m d. 1 \<le> m \<and> m \<le> 12 \<and> 1 \<le> d \<and> d \<le> days_in_month y m \<and> days_from_civil y m d = n"
proof -
  define era doe where "era = (n + 719468) div 146097" and "doe = (n + 719468) mod 146097"
  obtain yoe where yoe: "0 \<le> yoe" "yoe < 400" "year_start yoe \<le> doe"
    "doe < year_start (yoe + 1) + (if yoe = 399 then 1 else 0)"
    using year_of_day [of doe] by (auto simp: doe_def)
  define doy mp where "doy = doe - year_start yoe" and "mp = (5 * doy + 2) div 153"
  define m d where "m = (if mp < 10 then mp + 3 else mp - 9)" and "d = doy - month_start mp + 1"
  define y where "y = yoe + era * 400 + (if m \<le> 2 then 1 else 0)"
  have doy: "0 \<le> doy" "doy \<le> 364 + (if (yoe + 1) mod 4 = 0 \<and> ((yoe + 1) mod 100 \<noteq> 0 \<or> (yoe + 1) mod 400 = 0) then 1 else 0)"
  proof -
    show "0 \<le> doy" using yoe(3) by (simp add: doy_def)
    have "yoe = 399 \<longleftrightarrow> (yoe + 1) mod 400 = 0" using yoe(1,2) by (cases "yoe = 399") auto
    moreover have "(yoe + 1) mod 400 = 0 \<longrightarrow> (yoe + 1) mod 100 = 0" "(yoe + 1) mod 100 = 0 \<longrightarrow> (yoe + 1) mod 4 = 0"
      unfolding dvd_eq_mod_eq_0 [symmetric] by (meson dvd_trans zdvd400)+
    ultimately show "doy \<le> 364 + (if (yoe + 1) mod 4 = 0 \<and> ((yoe + 1) mod 100 \<noteq> 0 \<or> (yoe + 1) mod 400 = 0) then 1 else 0)"
      using yoe(4) unfolding year_start_next doy_def
      by (cases "(yoe + 1) mod 4 = 0"; cases "(yoe + 1) mod 100 = 0"; cases "yoe = 399") simp_all
  qed
  have mp: "0 \<le> mp" "mp < 12" using doy unfolding mp_def by (auto split: if_splits)
  have start: "month_start mp \<le> doy" "doy < month_start (mp + 1)"
  proof -
    have five: "5 * (x div 5) \<le> x" "x < 5 * (x div 5) + 5" for x :: int by presburger+
    have "5 * doy + 2 = 153 * mp + (5 * doy + 2) mod 153" by (simp add: mp_def)
    moreover have "0 \<le> (5 * doy + 2) mod 153" "(5 * doy + 2) mod 153 < 153" by simp_all
    ultimately have mp5: "153 * mp \<le> 5 * doy + 2" "5 * doy + 2 < 153 * mp + 153" by linarith+
    then show "month_start mp \<le> doy" using five(1) [of "153 * mp + 2"] by (simp add: month_start_def)
    show "doy < month_start (mp + 1)"
    proof -
      have "doy < k" if "153 * (mp + 1) + 2 < 5 * k + 5" for k using mp5(2) that by presburger
      then show ?thesis using five(2) [of "153 * (mp + 1) + 2"] unfolding month_start_def by blast
    qed
  qed
  have "(yoe + 1 + era * 400) mod k = (yoe + 1) mod k" if "k dvd 400" for k
    using that by (metis mod_mult_self1 dvd_def mult.assoc mult.commute)
  then have leap: "leap_year (yoe + 1 + era * 400) \<longleftrightarrow>
      (yoe + 1) mod 4 = 0 \<and> ((yoe + 1) mod 100 \<noteq> 0 \<or> (yoe + 1) mod 400 = 0)"
    by (simp add: leap_year_def)
  have valid: "1 \<le> m \<and> m \<le> 12 \<and> 1 \<le> d \<and> d \<le> days_in_month y m"
  proof (cases "mp = 11")
    case True
    then have "m = 2" "y = yoe + 1 + era * 400" "d = doy - 336" by (simp_all add: m_def y_def d_def month_start_def)
    then show ?thesis using start doy leap True by (auto simp: days_in_month_def month_start_def split: if_splits)
  next
    case False
    then have "mp \<in> {0, 1, 2, 3, 4, 5, 6, 7, 8, 9, 10}" using march_month_cases [OF mp] by simp
    then show ?thesis using start unfolding m_def d_def
      by (elim insertE) (simp_all add: month_start_def days_in_month_def)
  qed
  have "(if m \<le> 2 then y - 1 else y) = yoe + era * 400" "(if 2 < m then m - 3 else m + 9) = mp"
    using mp by (auto simp: y_def m_def)
  moreover have "(yoe + era * 400) div 400 = era" "(yoe + era * 400) mod 400 = yoe" using yoe(1,2) by auto
  ultimately have "days_from_civil y m d = era * 146097 + doe - 719468"
    by (simp add: days_from_civil_def Let_def d_def doy_def month_start_def year_start_def)
  then have "days_from_civil y m d = n" by (simp add: era_def doe_def)
  with valid show ?thesis by blast
qed

lemma civil_range:
  assumes "civil_of_day n = (y, m, d)"
  shows "1 \<le> m \<and> m \<le> 12 \<and> 1 \<le> d \<and> d \<le> days_in_month y m \<and> days_from_civil y m d = n"
proof -
  obtain y' m' d' where "1 \<le> m' \<and> m' \<le> 12 \<and> 1 \<le> d' \<and> d' \<le> days_in_month y' m' \<and> days_from_civil y' m' d' = n"
    using day_is_civil by blast
  with civil_of_days_from_civil [of m' d' y'] assms show ?thesis by simp
qed

section \<open>Reading a printed instant\<close>

lemma digits_add: "digits (n + k) acc s = (case digits n acc s of None \<Rightarrow> None | Some (a, t) \<Rightarrow> digits k a t)"
  by (induction n acc s rule: digits.induct) auto

lemma digits_fixed:
  "0 \<le> v \<Longrightarrow> v < 10 ^ n \<Longrightarrow> digits n acc (fixed_digits n v @ r) = Some (acc * 10 ^ n + v, r)"
proof (induction n arbitrary: v acc r)
  case (Suc n)
  then have "digits n acc (fixed_digits n (v div 10) @ (48 + v mod 10) # r) =
      Some (acc * 10 ^ n + v div 10, (48 + v mod 10) # r)" by simp
  then show ?case
    using digits_add [of n 1] by (simp add: is_digit_def algebra_simps)
qed simp


lemma digits_fixed_end:
  "0 \<le> v \<Longrightarrow> v < 10 ^ n \<Longrightarrow> digits n 0 (fixed_digits n v @ r) = Some (v, r)"
  by (simp add: digits_fixed)

lemma fixed_digits_digit: "c \<in> set (fixed_digits n v) \<Longrightarrow> is_digit c"
  by (induction n arbitrary: v) (auto simp: is_digit_def)

lemma length_fixed_digits [simp]: "length (fixed_digits n v) = n"
  by (induction n arbitrary: v) auto

lemma foldl_fixed_digits:
  "0 \<le> v \<Longrightarrow> v < 10 ^ n \<Longrightarrow> foldl (\<lambda>a d. 10 * a + (d - 48)) 0 (fixed_digits n v) = v"
  by (induction n arbitrary: v) auto

lemma parse_fraction_fixed:
  "0 \<le> v \<Longrightarrow> v < 1000 \<Longrightarrow> parse_fraction (46 # fixed_digits 3 v @ [90]) = (v, [90])"
proof -
  assume v: "0 \<le> v" "v < 1000"
  have "takeWhile is_digit (fixed_digits 3 v @ [90]) = fixed_digits 3 v"
    "dropWhile is_digit (fixed_digits 3 v @ [90]) = [90]"
    using fixed_digits_digit [of _ 3 v]
    by (simp_all only: takeWhile_append2 dropWhile_append2) (simp_all add: is_digit_def)
  moreover have "fixed_digits 3 v \<noteq> []" using length_fixed_digits [of 3 v] by (metis list.size(3) zero_neq_numeral)
  ultimately show ?thesis using v foldl_fixed_digits [of v 3] by (simp add: parse_fraction_def Let_def)
qed

lemma parse_clock_printed:
  assumes "0 \<le> ms" "ms < 86400000"
  shows "parse_clock (fixed_digits 2 (ms div 3600000) @ 58 # fixed_digits 2 (ms div 60000 mod 60) @ 58 #
      fixed_digits 2 (ms div 1000 mod 60) @ 46 # fixed_digits 3 (ms mod 1000) @ [90]) = Some (ms, [90])"
proof -
  define h mi sec r where "h = ms div 3600000" and "mi = ms div 60000 mod 60"
    and "sec = ms div 1000 mod 60" and "r = ms mod 1000"
  have ms: "((h * 60 + mi) * 60 + sec) * 1000 + r = ms"
  proof -
    have "ms div 1000 div 60 = ms div 60000" "ms div 60000 div 60 = h"
      by (simp_all add: h_def zdiv_zmult2_eq [symmetric])
    then have "ms div 60000 = h * 60 + mi" "ms div 1000 = ms div 60000 * 60 + sec"
      unfolding mi_def sec_def by (metis div_mult_mod_eq)+
    moreover have "ms = ms div 1000 * 1000 + r" by (simp add: r_def)
    ultimately show ?thesis by simp
  qed
  have h: "0 \<le> h" "h \<le> 23" using assms unfolding h_def by auto
  have rest: "0 \<le> mi" "mi \<le> 59" "0 \<le> sec" "sec \<le> 59" "0 \<le> r" "r < 1000"
    unfolding mi_def sec_def r_def by auto
  show ?thesis
    unfolding h_def [symmetric] mi_def [symmetric] sec_def [symmetric] r_def [symmetric]
    using h rest ms
    by (simp add: parse_clock_def digits_fixed_end char_then_def parse_fraction_fixed)
qed

lemma parse_day_printed:
  assumes "civil_of_day n = (y, m, d)" "0 \<le> y" "y \<le> 9999"
  shows "parse_day (iso_year y @ 45 # fixed_digits 2 m @ 45 # fixed_digits 2 d @ r) = Some (n * 86400000, r)"
proof -
  note civil = civil_range [OF assms(1)]
  have "d \<le> 31" using civil by (simp add: days_in_month_def split: if_splits)
  then show ?thesis
    using civil assms(2,3)
    by (simp add: parse_day_def iso_year_def digits_fixed_end char_then_def make_day_def)
qed

text \<open>A printed instant of the years 0 to 9999 is read back exactly; and an instant is printed
  whenever it is a valid time value.\<close>

lemma iso_string_roundtrip:
  assumes "to_iso_string time = Inr s" "fst (civil_of_day (the time div 86400000)) \<in> {0..9999}"
  shows "date_time utc s = time"
proof -
  from assms(1) obtain t where t: "time = Some t"
    by (cases time) (auto simp: to_iso_string_def)
  obtain y m d where day: "civil_of_day (t div 86400000) = (y, m, d)" by (rule prod_cases3)
  have y: "0 \<le> y" "y \<le> 9999" using assms(2) t day by auto
  have ms: "0 \<le> t mod 86400000" "t mod 86400000 < 86400000" by simp_all
  show ?thesis
    using assms(1) y
    by (auto simp: t to_iso_string_def day Let_def date_time_def parse_day_printed [OF day y]
        parse_clock_printed [OF ms] parse_offset_def split: if_splits)
qed


section \<open>The range of a filter\<close>

lemma digits_append: "digits n acc s = Some (v, r) \<Longrightarrow> digits n acc (s @ t) = Some (v, r @ t)"
  by (induction n acc s rule: digits.induct) (auto split: if_splits)

lemma char_digits_append:
  "char_then c (digits n acc) s = Some (v, r) \<Longrightarrow> char_then c (digits n acc) (s @ t) = Some (v, r @ t)"
  by (cases s) (auto simp: char_then_def digits_append split: if_splits)

lemma parse_day_time: "parse_day s = Some (f, []) \<Longrightarrow> parse_day (s @ 84 # r) = Some (f, 84 # r)"
proof -
  assume p: "parse_day s = Some (f, [])"
  let ?t = "84 # r"
  have stop: "char_then 45 k ([] @ ?t) = None" for k :: "jstr \<Rightarrow> (int \<times> jstr) option"
    by (simp add: char_then_def)
  from p obtain y s1 where y: "digits 4 0 s = Some (y, s1)" by (auto simp: parse_day_def split: option.splits)
  show ?thesis
  proof (cases "char_then 45 (digits 2 0) s1")
    case None
    with p y have "s1 = []" "make_day y 1 1 = Some f" by (auto simp: parse_day_def)
    then show ?thesis using digits_append [OF y, of ?t] stop by (simp add: parse_day_def)
  next
    case (Some a)
    then obtain m s2 where m: "char_then 45 (digits 2 0) s1 = Some (m, s2)" by (cases a) simp
    show ?thesis
    proof (cases "char_then 45 (digits 2 0) s2")
      case None
      with p y m have "s2 = []" "make_day y m 1 = Some f" by (auto simp: parse_day_def)
      then show ?thesis using digits_append [OF y, of ?t] char_digits_append [OF m, of ?t] stop
        by (simp add: parse_day_def)
    next
      case (Some b)
      then obtain d s3 where d: "char_then 45 (digits 2 0) s2 = Some (d, s3)" by (cases b) simp
      with p y m have "s3 = []" "make_day y m d = Some f" by (auto simp: parse_day_def)
      then show ?thesis
        using digits_append [OF y, of ?t] char_digits_append [OF m, of ?t] char_digits_append [OF d, of ?t]
        by (simp add: parse_day_def)
    qed
  qed
qed

lemma start_of_day_midnight: "parse_day day = Some (f, []) \<Longrightarrow> start_of_day utc day = Some (utc f)"
proof -
  assume "parse_day day = Some (f, [])"
  then have "parse_day (day @ lit ''T00:00:00'') = Some (f, lit ''T00:00:00'')"
    using parse_day_time [of day f "lit ''00:00:00''"] by (simp add: lit_Cons)
  moreover have "parse_clock (lit ''00:00:00'') = Some (0, [])" by code_simp
  ultimately show ?thesis by (simp add: start_of_day_def date_time_def lit_Cons parse_offset_def)
qed

text \<open>The instants whose texts are in the years 0 to 9999.\<close>

definition four_digit_year :: "int \<Rightarrow> bool" where
  "four_digit_year t \<longleftrightarrow> (case civil_of_day (t div 86400000) of (y, _) \<Rightarrow> 0 \<le> y \<and> y \<le> 9999)"

text \<open>The two date fields of a list select whole local days: with the start of the first day and the
  end of the last one converted to UTC, an instant is between the two parameters of the query exactly
  when its local time is on or between the two days; the other parameters are kept. This needs
  that the clock is not changed across one of the two midnights.\<close>

theorem date_range_selects_days:
  assumes "parse_day from_day = Some (f, [])" "parse_day to_day = Some (g, [])"
    and "appendLocalDateRange utc localtime ps from_day to_day = Inr q"
    and "localtime (utc g) = g"
    and midnights: "\<And>t. utc f \<le> t \<longleftrightarrow> f \<le> localtime t"
      "\<And>t. utc (g + 86400000) \<le> t \<longleftrightarrow> g + 86400000 \<le> localtime t"
    and "four_digit_year (utc f)" "four_digit_year (utc (g + 86400000))"
  shows "\<exists>a b. param_get q (lit ''from'') = Some a \<and> param_get q (lit ''to'') = Some b \<and>
    (\<forall>t. (the (date_time utc a) \<le> t \<and> t < the (date_time utc b)) = (f \<le> localtime t \<and> localtime t < g + 86400000)) \<and>
    (\<forall>k. k \<noteq> lit ''from'' \<longrightarrow> k \<noteq> lit ''to'' \<longrightarrow> param_get q k = param_get ps k)"
proof -
  have "from_day \<noteq> []" "to_day \<noteq> []" using assms(1,2) by (auto simp: parse_day_def eval_nat_numeral)
  then obtain a b where iso: "to_iso_string (Some (utc f)) = Inr a" "to_iso_string (Some (utc (g + 86400000))) = Inr b"
    and q: "q = param_set (lit ''to'') b (param_set (lit ''from'') a ps)"
    using assms(3) by (auto simp: appendLocalDateRange_def start_of_day_midnight [OF assms(1)]
        start_of_day_midnight [OF assms(2)] next_day_def assms(4) bindr_Inr_iff)
  have "date_time utc a = Some (utc f)" "date_time utc b = Some (utc (g + 86400000))"
    using iso_string_roundtrip [OF iso(1), of utc] iso_string_roundtrip [OF iso(2), of utc] assms(7,8)
    by (auto simp: four_digit_year_def split: prod.splits)
  then show ?thesis
    using midnights by (intro exI [of _ a] exI [of _ b]) (auto simp: q param_get_set not_le [symmetric])
qed


definition china :: "int \<Rightarrow> int" where "china t = t + 28800000"
definition china_utc :: "int \<Rightarrow> int" where "china_utc t = t - 28800000"

theorem date_range_selects_days_witness:
  "\<exists>q a b. appendLocalDateRange china_utc china [] (lit ''2024-02-28'') (lit ''2024-02-29'') = Inr q \<and>
     param_get q (lit ''from'') = Some a \<and> param_get q (lit ''to'') = Some b \<and>
     (\<forall>t. (the (date_time china_utc a) \<le> t \<and> t < the (date_time china_utc b)) =
        (1709078400000 \<le> china t \<and> china t < 1709251200000))"
proof -
  have days: "parse_day (lit ''2024-02-28'') = Some (1709078400000, [])" "parse_day (lit ''2024-02-29'') = Some (1709164800000, [])"
    by code_simp+
  have query: "appendLocalDateRange china_utc china [] (lit ''2024-02-28'') (lit ''2024-02-29'') =
      Inr [(lit ''from'', lit ''2024-02-27T16:00:00.000Z''), (lit ''to'', lit ''2024-02-29T16:00:00.000Z'')]"
    by code_simp
  have "civil_of_day (china_utc 1709078400000 div 86400000) = (2024, 2, 27)"
    "civil_of_day (china_utc (1709164800000 + 86400000) div 86400000) = (2024, 2, 29)"
    by code_simp+
  then have years: "four_digit_year (china_utc 1709078400000)" "four_digit_year (china_utc (1709164800000 + 86400000))"
    by (simp_all add: four_digit_year_def)
  have local: "china (china_utc x) = x" "china_utc x \<le> t \<longleftrightarrow> x \<le> china t" for x t
    by (auto simp: china_def china_utc_def)
  show ?thesis
    using date_range_selects_days [OF days query local(1) local(2) local(2) years] query by auto
qed

end
