(* ===== verification/Tasks.thy ===== *)
theory Tasks
  imports StatusText UrlParams Batches DateRange
begin

text \<open>
  The task pages (pages/task-pages.tsx): the list with its filters, the scan for tasks whose
  submission is uncertain and the request that fails them, and the details of one task.
  \<open>num\<close> prints a number, \<open>when\<close> an instant, as the environment's locale does.
\<close>

section \<open>What a task shows\<close>

definition resultHasContentWarning :: "TaskResult option \<Rightarrow> bool" where
  "resultHasContentWarning result = (case result of
       None \<Rightarrow> False
     | Some r \<Rightarrow> tr_nsfw r = Some True \<or> (\<exists>output \<in> set (nullish (tr_data r) []). to_nsfw output = Some True))"

definition resultModerationLabels :: "TaskResult option \<Rightarrow> jstr list" where
  "resultModerationLabels result = (case result of
       None \<Rightarrow> []
     | Some r \<Rightarrow> dedup (nullish (tr_moderation_classifications r) [] @
         concat (map (\<lambda>output. nullish (to_moderation_classifications output) []) (nullish (tr_data r) []))))"

definition providerErrorText :: "jstr option \<Rightarrow> jstr" where
  "providerErrorText code =
     (if code = Some (lit ''PROVIDER_MODERATION_ERROR'') then ulit ''%u4F9B%u5E94%u5546%u5185%u5BB9%u5BA1%u6838%u672A%u901A%u8FC7''
      else or_str (opt_str code) (ulit ''%u672A%u8FD4%u56DE%u4F9B%u5E94%u5546%u9519%u8BEF%u7801''))"

text \<open>A queue position of 0 is not shown.\<close>

definition taskResultSummary :: "(rat \<Rightarrow> jstr) \<Rightarrow> Task \<Rightarrow> jstr res" where
  "taskResultSummary num t =
     (if task_status t = lit ''failed'' then Inr (or_str (opt_str (task_error_message t)) (ulit ''%u4EFB%u52A1%u6267%u884C%u5931%u8D25''))
      else if task_status t = lit ''succeeded'' then
        (let count = (case task_result t of None \<Rightarrow> 0 | Some r \<Rightarrow> length (nullish (tr_data r) []));
             warning = (if resultHasContentWarning (task_result t) then ulit '' %u00B7 %u663E%u5F0F%u5185%u5BB9%u8B66%u544A'' else []) in
         Inr (if count \<noteq> 0 then ulit ''%u5DF2%u751F%u6210 '' @ num_str (int count) @ ulit '' %u4E2A%u7ED3%u679C'' @ warning else ulit ''%u751F%u6210%u5B8C%u6210'' @ warning))
      else if task_status t = lit ''cancelled'' then Inr (ulit ''%u4EFB%u52A1%u5DF2%u53D6%u6D88%uFF0C%u672A%u751F%u6210%u5185%u5BB9'')
      else if task_status t = lit ''submission_uncertain'' then
        Inr (or_str (opt_str (task_error_message t)) (ulit ''%u4E0A%u6E38%u63D0%u4EA4%u72B6%u6001%u672A%u77E5''))
      else if task_status t = lit ''queued'' \<and> nullish (task_queue_position t) 0 \<noteq> 0 then
        Inr (ulit ''%u6392%u961F%u4E2D %u00B7 %u7B2C '' @ num (the (task_queue_position t)) @ ulit '' %u4F4D'')
      else if task_status t = lit ''submitted'' \<or> task_status t = lit ''polling'' then statusText (task_status t)
      else statusText (task_status t))"

text \<open>An unreadable time stamp gives NaN, which prints as such.\<close>

definition taskDuration :: "(int \<Rightarrow> int) \<Rightarrow> Task \<Rightarrow> jstr" where
  "taskDuration utc t =
     (if opt_str (task_started_at t) = [] then ulit ''%u2014''
      else (case (date_time utc (or_str (opt_str (task_completed_at t)) (task_updated_at t)),
                  date_time utc (opt_str (task_started_at t))) of
          (Some finish, Some start) \<Rightarrow> num_str (max 0 (math_round (of_int (finish - start) / 1000))) @ ulit '' %u79D2''
        | _ \<Rightarrow> ulit ''NaN %u79D2''))"

definition kind_badge :: "jstr \<Rightarrow> jstr" where
  "kind_badge kind = (if kind = lit ''video'' then lit ''VIDEO'' else if kind = lit ''audio'' then lit ''AUDIO'' else lit ''IMAGE'')"

definition task_kind_name :: "jstr \<Rightarrow> jstr" where
  "task_kind_name kind = (if kind = lit ''video'' then ulit ''%u89C6%u9891'' else if kind = lit ''audio'' then ulit ''%u97F3%u9891'' else ulit ''%u56FE%u50CF'')"

record TaskRow =
  row_prompt :: jstr
  row_created :: jstr
  row_kind :: jstr
  row_model :: jstr
  row_cost :: jstr
  row_status :: jstr
  row_position :: "jstr option"
  row_failed :: bool
  row_summary :: jstr
  row_error_code :: "jstr option"

text \<open>
  The cells of a row. React shows nothing for an absent position, and the number 0 itself for a
  position of 0, as the condition then evaluates to it.
\<close>

definition task_row ::
    "(int \<Rightarrow> int) \<Rightarrow> (int option \<Rightarrow> jstr) \<Rightarrow> (rat \<Rightarrow> jstr) \<Rightarrow> (rat \<Rightarrow> jstr) \<Rightarrow> CreditProvider list \<Rightarrow> Task \<Rightarrow> TaskRow res" where
  "task_row utc when loc num providers t =
     bindr (statusText (task_status t)) (\<lambda>status.
     bindr (taskResultSummary num t) (\<lambda>summary.
     Inr \<lparr>row_prompt = or_str (task_prompt t) (ulit ''%u672A%u547D%u540D%u4EFB%u52A1''),
       row_created = when (date_time utc (task_created_at t)),
       row_kind = kind_badge (task_kind t), row_model = task_model t,
       row_cost = taskCreditUnit t providers @ lit '' '' @ tokenCost loc t,
       row_status = status,
       row_position = (if task_status t \<noteq> lit ''queued'' then None
         else map_option (\<lambda>n. if n = 0 then num 0 else ulit ''%u7B2C '' @ num n @ ulit '' %u4F4D'') (task_queue_position t)),
       row_failed = (task_status t = lit ''failed''),
       row_summary = summary,
       row_error_code = (case task_error_details t of None \<Rightarrow> None
         | Some d \<Rightarrow> non_empty (ted_provider_error_code d))\<rparr>))"

text \<open>Long lists are drawn as far as they are visible, except on narrow screens.\<close>

definition table_virtualized :: "Task list \<Rightarrow> bool \<Rightarrow> bool" where
  "table_virtualized data narrow \<longleftrightarrow> 100 \<le> length data \<and> \<not> narrow"

definition table_skeleton :: "Task list \<Rightarrow> bool \<Rightarrow> bool" where
  "table_skeleton data loading \<longleftrightarrow> loading \<and> length data = 0"

section \<open>The list\<close>

definition activeTaskStatuses :: "jstr list" where
  "activeTaskStatuses = [lit ''queued'', lit ''reserving'', lit ''uploading'', lit ''submitted'', lit ''polling'']"

definition taskStatusFilters :: "(jstr \<times> jstr) list" where
  "taskStatusFilters =
     [(lit ''all'', ulit ''%u5168%u90E8''), (lit ''queued'', ulit ''%u6392%u961F%u4E2D''), (lit ''active'', ulit ''%u5904%u7406%u4E2D''), (lit ''succeeded'', ulit ''%u6210%u529F''),
      (lit ''failed'', ulit ''%u5931%u8D25''), (lit ''cancelled'', ulit ''%u5DF2%u53D6%u6D88''), (lit ''submission_uncertain'', ulit ''%u63D0%u4EA4%u4E0D%u786E%u5B9A'')]"

record TasksPage =
  tkp_data :: "Task list"
  tkp_total :: int
  tkp_page :: int
  tkp_page_size :: int

definition task_filter :: "params \<Rightarrow> jstr \<Rightarrow> jstr" where
  "task_filter ps key = or_str (opt_str (param_get ps key)) (lit ''all'')"

text \<open>The query of the list; a date that cannot be read makes it fail.\<close>

definition tasks_query ::
    "(int \<Rightarrow> int) \<Rightarrow> (int \<Rightarrow> int) \<Rightarrow> nat \<Rightarrow> nat \<Rightarrow> params \<Rightarrow> jstr \<Rightarrow> params res" where
  "tasks_query utc localtime page pageSize ps deferredSearch =
     (let add = (\<lambda>key q. if task_filter ps key \<noteq> lit ''all'' then param_set key (task_filter ps key) q else q);
          q0 = [(lit ''page'', num_str (int page)), (lit ''page_size'', num_str (int pageSize))];
          q1 = add (lit ''model'') (add (lit ''kind'') (add (lit ''provider'') (add (lit ''status'') q0)));
          q2 = (if deferredSearch \<noteq> [] then param_set (lit ''search'') deferredSearch q1 else q1) in
      appendLocalDateRange utc localtime q2
        (opt_str (param_get ps (lit ''from''))) (opt_str (param_get ps (lit ''to''))))"

text \<open>The list is read again after 3 seconds while one of its tasks is not finished.\<close>

definition tasks_refetch_interval :: "Task list option \<Rightarrow> nat option" where
  "tasks_refetch_interval data =
     (if \<exists>task \<in> set (nullish data []). task_status task \<in> set activeTaskStatuses then Some 3000 else None)"

definition task_model_options :: "KeyModelGroup list \<Rightarrow> jstr \<Rightarrow> jstr list" where
  "task_model_options groups providerFilter =
     js_sort code_unit_cmp (dedup (concat (map kmg_models
       (filter (\<lambda>group. providerFilter = lit ''all'' \<or> kmg_provider_id group = providerFilter) groups))))"

definition tasks_running :: "Task list \<Rightarrow> nat" where
  "tasks_running data = length (filter (\<lambda>t. task_status t \<in> set activeTaskStatuses) data)"

definition tasks_failed :: "Task list \<Rightarrow> nat" where
  "tasks_failed data = length (filter (\<lambda>t. task_status t = lit ''failed'') data)"

section \<open>Cleaning up uncertain tasks\<close>

definition TASK_CLEANUP_BATCH_SIZE :: nat where "TASK_CLEANUP_BATCH_SIZE = 100"

definition taskIDChunks :: "jstr list \<Rightarrow> jstr list list" where
  "taskIDChunks ids = chunks TASK_CLEANUP_BATCH_SIZE ids"

record CleanupResult =
  cur_id :: jstr
  cur_resolved :: bool
  cur_error_code :: "jstr option"
  cur_error_message :: "jstr option"

record UncertainTaskCleanupResponse =
  utc_resolved :: int
  utc_skipped :: int
  utc_results :: "CleanupResult list"

record UncertainTaskCleanupBatch = UncertainTaskCleanupResponse +
  utc_requestFailed :: int

definition cleanup_merge ::
    "UncertainTaskCleanupResponse \<Rightarrow> UncertainTaskCleanupBatch \<Rightarrow> UncertainTaskCleanupBatch" where
  "cleanup_merge result combined =
     combined\<lparr>utc_resolved := utc_resolved combined + utc_resolved result,
       utc_skipped := utc_skipped combined + utc_skipped result,
       utc_results := utc_results combined @ utc_results result\<rparr>"

definition cleanup_miss :: "jstr list \<Rightarrow> UncertainTaskCleanupBatch \<Rightarrow> UncertainTaskCleanupBatch" where
  "cleanup_miss batch combined =
     combined\<lparr>utc_skipped := utc_skipped combined + int (length batch),
       utc_requestFailed := utc_requestFailed combined + int (length batch)\<rparr>"

definition cleanup ::
    "('s \<Rightarrow> jstr list \<Rightarrow> 's \<times> UncertainTaskCleanupResponse option) \<Rightarrow> jstr list \<Rightarrow> 's \<Rightarrow>
     's \<times> UncertainTaskCleanupBatch" where
  "cleanup srv ids s = run_batches srv cleanup_merge cleanup_miss (taskIDChunks ids) s
     \<lparr>utc_resolved = 0, utc_skipped = 0, utc_results = [], utc_requestFailed = 0\<rparr>"

definition cleanup_feedback :: "UncertainTaskCleanupBatch \<Rightarrow> jstr" where
  "cleanup_feedback result =
     (if utc_requestFailed result \<noteq> 0 then
        ulit ''%u5DF2%u5C06 '' @ num_str (utc_resolved result) @ ulit '' %u4E2A%u5F02%u5E38%u4EFB%u52A1%u6807%u8BB0%u4E3A%u5931%u8D25%uFF1B'' @
        num_str (utc_requestFailed result) @ ulit '' %u4E2A%u8BF7%u6C42%u5931%u8D25%uFF0C%u53EF%u91CD%u65B0%u626B%u63CF%u540E%u91CD%u8BD5%u3002''
      else if utc_skipped result \<noteq> 0 then
        ulit ''%u5DF2%u5C06 '' @ num_str (utc_resolved result) @ ulit '' %u4E2A%u5F02%u5E38%u4EFB%u52A1%u6807%u8BB0%u4E3A%u5931%u8D25%uFF1B'' @
        num_str (utc_skipped result) @ ulit '' %u4E2A%u4EFB%u52A1%u72B6%u6001%u5DF2%u53D8%u5316%uFF0C%u5DF2%u8DF3%u8FC7%u3002''
      else ulit ''%u5DF2%u5C06 '' @ num_str (utc_resolved result) @ ulit '' %u4E2A%u5F02%u5E38%u4EFB%u52A1%u6807%u8BB0%u4E3A%u5931%u8D25%uFF0C%u5E76%u91CA%u653E%u4ECD%u6301%u6709%u7684%u5E73%u53F0%u4F59%u989D%u9884%u7559%u3002'')"

text \<open>The scan: the uncertain tasks of the chosen provider, or the message of the error.\<close>

definition scan_uncertain :: "(nat \<Rightarrow> jstr + TasksPage) \<Rightarrow> (jstr + Task list) option" where
  "scan_uncertain fetch = map_option (map_sum id map_values)
     (scan_loop task_id (\<lambda>page. map_sum id (\<lambda>result. (tkp_data result, tkp_total result)) (fetch page)) 1 [])"

section \<open>The page\<close>

record TaskListPage =
  tl_page :: nat
  tl_pageSize :: nat
  tl_selectedID :: "jstr option"
  tl_cleanupOpen :: bool
  tl_scanning :: bool
  tl_cleanupTasks :: "Task list"
  tl_feedback :: jstr
  tl_error :: jstr
  tl_cleaning :: bool
  tl_params :: params

definition initial_task_list :: "params \<Rightarrow> TaskListPage" where
  "initial_task_list ps =
     \<lparr>tl_page = 1, tl_pageSize = 20, tl_selectedID = None, tl_cleanupOpen = False, tl_scanning = False,
      tl_cleanupTasks = [], tl_feedback = [], tl_error = [], tl_cleaning = False, tl_params = ps\<rparr>"

datatype task_event =
  SetTaskFilter jstr jstr
| GoToTaskPage nat
| SetTaskPageSize nat
| OpenTask jstr
| CloseTask
| StartScan
| ScanAnswered "jstr + Task list"
| DismissCleanup
| ConfirmCleanup
| CleanupAnswered UncertainTaskCleanupBatch
| CloseFeedback
| ListAnswered nat

text \<open>
  One event of the page: a control, the end of the scan or of the cleanup, and the effect that pulls
  the page back after a new total is known. A button that is disabled, or not shown, does nothing.
\<close>

fun task_step :: "TaskListPage \<Rightarrow> task_event \<Rightarrow> TaskListPage" where
  "task_step s (SetTaskFilter key value) =
     s\<lparr>tl_params := (if value = [] \<or> value = lit ''all'' then param_delete key (tl_params s)
         else param_set key value (tl_params s)),
       tl_page := 1, tl_selectedID := None\<rparr>"
| "task_step s (GoToTaskPage n) = s\<lparr>tl_page := n, tl_selectedID := None\<rparr>"
| "task_step s (SetTaskPageSize n) = s\<lparr>tl_pageSize := n, tl_page := 1, tl_selectedID := None\<rparr>"
| "task_step s (OpenTask i) = s\<lparr>tl_selectedID := Some i\<rparr>"
| "task_step s CloseTask = s\<lparr>tl_selectedID := None\<rparr>"
| "task_step s StartScan =
     (if tl_scanning s then s else s\<lparr>tl_scanning := True, tl_error := [], tl_feedback := []\<rparr>)"
| "task_step s (ScanAnswered answer) =
     (if \<not> tl_scanning s then s
      else case answer of
          Inl message \<Rightarrow> s\<lparr>tl_error := message, tl_scanning := False\<rparr>
        | Inr [] \<Rightarrow> s\<lparr>tl_feedback := ulit ''%u5F53%u524D%u6CA1%u6709%u63D0%u4EA4%u72B6%u6001%u4E0D%u786E%u5B9A%u7684%u5F02%u5E38%u4EFB%u52A1%u3002'', tl_scanning := False\<rparr>
        | Inr tasks \<Rightarrow> s\<lparr>tl_cleanupTasks := tasks, tl_cleanupOpen := True, tl_scanning := False\<rparr>)"
| "task_step s DismissCleanup = (if tl_cleaning s then s else s\<lparr>tl_cleanupOpen := False\<rparr>)"
| "task_step s ConfirmCleanup =
     (if \<not> tl_cleanupOpen s \<or> tl_cleaning s \<or> tl_cleanupTasks s = [] then s else s\<lparr>tl_cleaning := True\<rparr>)"
| "task_step s (CleanupAnswered result) =
     (if \<not> tl_cleaning s then s
      else s\<lparr>tl_cleanupOpen := False, tl_cleanupTasks := [], tl_selectedID := None,
        tl_feedback := cleanup_feedback result, tl_cleaning := False\<rparr>)"
| "task_step s CloseFeedback = s\<lparr>tl_feedback := []\<rparr>"
| "task_step s (ListAnswered n) = s\<lparr>tl_page := clampPage (tl_page s) (totalPages n (tl_pageSize s))\<rparr>"

definition selected_task :: "TaskListPage \<Rightarrow> Task list \<Rightarrow> Task option" where
  "selected_task s data = find (\<lambda>task. Some (task_id task) = tl_selectedID s) data"

section \<open>The details of a task\<close>

definition detail_refetch_interval :: "Task option \<Rightarrow> Task \<Rightarrow> nat option" where
  "detail_refetch_interval data initialTask =
     (let status = (case data of None \<Rightarrow> task_status initialTask
          | Some t \<Rightarrow> or_str (task_status t) (task_status initialTask)) in
      if status \<in> set [lit ''queued'', lit ''reserving'', lit ''uploading'', lit ''submitted'', lit ''polling''] then Some 5000 else None)"

text \<open>\<open>filter\<close> keeps the first event, and those whose status differs from the event before.\<close>

definition transitionEvents :: "TaskEvent list \<Rightarrow> TaskEvent list" where
  "transitionEvents taskEvents = map (\<lambda>i. taskEvents ! i)
     (filter (\<lambda>i. i = 0 \<or> te_status (taskEvents ! (i - 1)) \<noteq> te_status (taskEvents ! i)) [0..<length taskEvents])"

definition task_timeline :: "Task \<Rightarrow> TaskEvent list" where
  "task_timeline t =
     \<lparr>te_id = 0, te_status = lit ''created'', te_message = Some (ulit ''%u4EFB%u52A1%u5DF2%u521B%u5EFA''), te_created_at = task_created_at t\<rparr> #
     transitionEvents (nullish (task_events t) [])"

definition mergedEventCount :: "Task \<Rightarrow> nat" where
  "mergedEventCount t =
     length (nullish (task_events t) []) - length (transitionEvents (nullish (task_events t) []))"

definition timeline_label :: "TaskEvent \<Rightarrow> jstr res" where
  "timeline_label event = (if te_status event = lit ''created'' then Inr (ulit ''%u5DF2%u521B%u5EFA'') else statusText (te_status event))"

definition upstream_progress :: "Task \<Rightarrow> jstr" where
  "upstream_progress t =
     (if task_status t = lit ''succeeded'' then ulit ''100%u0025''
      else if task_status t = lit ''submitted'' \<or> task_status t = lit ''polling'' then ulit ''%u4E0A%u6E38%u672A%u63D0%u4F9B%u767E%u5206%u6BD4''
      else if task_status t = lit ''submission_uncertain'' then ulit ''%u672A%u6536%u5230%u4E0A%u6E38%u786E%u8BA4'' else ulit ''%u2014'')"

definition output_text :: "(rat \<Rightarrow> jstr) \<Rightarrow> TaskOutput \<Rightarrow> jstr" where
  "output_text num output =
     or_str (or_str (js_join (ulit '' %u00B7 '') (filter (\<lambda>s. s \<noteq> [])
        [if nullish (to_width output) 0 \<noteq> 0 \<and> nullish (to_height output) 0 \<noteq> 0
         then num_str (the (to_width output)) @ ulit ''%u00D7'' @ num_str (the (to_height output)) else [],
         if nullish (to_duration output) 0 \<noteq> 0 then num (the (to_duration output)) @ ulit '' %u79D2'' else [],
         if to_nsfw output = Some True then ulit ''%u663E%u5F0F%u5185%u5BB9'' else []]))
       (opt_str (to_media_type output))) (ulit ''%u5DF2%u5B8C%u6210'')"

text \<open>What can be done about a task, and whether the buttons can be pressed.\<close>

record TaskActions =
  ta_release :: bool
  ta_confirm :: bool
  ta_enabled :: bool

definition task_actions :: "Task \<Rightarrow> bool \<Rightarrow> bool \<Rightarrow> TaskActions" where
  "task_actions t releasePending confirmPending =
     (if task_status t = lit ''submission_uncertain''
      then \<lparr>ta_release = (task_reservation_state t = Some (lit ''held'')), ta_confirm = True,
            ta_enabled = (\<not> (releasePending \<or> confirmPending))\<rparr>
      else \<lparr>ta_release = False, ta_confirm = False, ta_enabled = False\<rparr>)"

text \<open>The account of a failure.\<close>

record FailureDetail =
  fd_message :: jstr
  fd_code :: jstr
  fd_reason :: jstr
  fd_source :: jstr
  fd_upstream :: jstr
  fd_moderation :: jstr

definition failure_detail :: "Task \<Rightarrow> Provider list \<Rightarrow> FailureDetail option res" where
  "failure_detail t providers =
     (if task_status t \<noteq> lit ''failed'' then Inr None
      else bindr (providerDisplayName (task_provider_id t) providers) (\<lambda>name.
        Inr (Some \<lparr>fd_message = or_str (opt_str (task_error_message t)) (ulit ''%u4EFB%u52A1%u6267%u884C%u5931%u8D25''),
          fd_code = or_str (opt_str (task_error_code t)) (lit ''unknown_error''),
          fd_reason = providerErrorText (Option.bind (task_error_details t) ted_provider_error_code),
          fd_source = or_str (opt_str (Option.bind (task_error_details t) ted_source)) name,
          fd_upstream = or_str (opt_str (Option.bind (task_error_details t) ted_upstream_status)) (lit ''FAILED''),
          fd_moderation = (case task_error_details t of
             None \<Rightarrow> ulit ''%u65E7%u4EFB%u52A1%u672A%u4FDD%u5B58%u5BA1%u6838%u8BE6%u60C5''
           | Some d \<Rightarrow> (if ted_nsfw d = Some True then ulit ''%u6807%u8BB0%u4E3A NSFW'' else ulit ''%u672A%u6807%u8BB0 NSFW'') @ ulit '' %u00B7 '' @
               num_str (int (length (nullish (ted_prompt_moderations d) []))) @ ulit '' %u6761%u5BA1%u6838%u8BB0%u5F55'')\<rparr>)))"

definition content_warning :: "Task \<Rightarrow> jstr option" where
  "content_warning t =
     (if task_status t = lit ''succeeded'' \<and> resultHasContentWarning (task_result t)
      then Some (if resultModerationLabels (task_result t) \<noteq> []
        then js_join (ulit '' %u00B7 '') (resultModerationLabels (task_result t)) else ulit ''%u4E0A%u6E38%u5185%u5BB9%u5B89%u5168%u6807%u8BB0'')
      else None)"

section \<open>Lemmas\<close>

text \<open>The events after one of a given status.\<close>

fun changes_after :: "jstr \<Rightarrow> TaskEvent list \<Rightarrow> TaskEvent list" where
  "changes_after st [] = []"
| "changes_after st (e # es) = (if te_status e = st then [] else [e]) @ changes_after (te_status e) es"

lemma changes_by_index:
  "map (\<lambda>i. (e # es) ! i) (filter (\<lambda>i. i = 0 \<or> te_status ((e # es) ! (i - 1)) \<noteq> te_status ((e # es) ! i))
     [Suc 0..<Suc (length es)]) = changes_after (te_status e) es"
proof (induction es arbitrary: e)
  case (Cons x xs)
  have "[Suc 0..<Suc (length (x # xs))] = Suc 0 # map Suc [Suc 0..<Suc (length xs)]"
    by (simp add: upt_conv_Cons map_Suc_upt del: upt_Suc)
  moreover have "filter (\<lambda>i. te_status ((e # x # xs) ! i) \<noteq> te_status ((x # xs) ! i)) [Suc 0..<Suc (length xs)] =
      filter (\<lambda>i. i = 0 \<or> te_status ((x # xs) ! (i - 1)) \<noteq> te_status ((x # xs) ! i)) [Suc 0..<Suc (length xs)]"
    by (rule filter_cong [OF refl]) (auto simp: nth_Cons')
  ultimately show ?case using Cons.IH [of x] by (simp add: comp_def filter_map del: upt_Suc)
qed simp

lemma transitionEvents_simps [simp]:
  "transitionEvents [] = []" "transitionEvents (e # es) = e # changes_after (te_status e) es"
proof -
  have "[0..<length (e # es)] = 0 # [Suc 0..<Suc (length es)]" by (simp add: upt_conv_Cons del: upt_Suc)
  then show "transitionEvents (e # es) = e # changes_after (te_status e) es"
    using changes_by_index [of e es] by (simp add: transitionEvents_def del: upt_Suc)
qed (simp add: transitionEvents_def)

lemma changes_after_statuses:
  "st # map te_status (changes_after st es) = remdups_adj (st # map te_status es)"
  by (induction es arbitrary: st) (auto simp: remdups_adj_Cons split: list.splits)

lemma length_changes_after: "length (changes_after st es) \<le> length es"
  by (induction es arbitrary: st) (auto intro: le_SucI)

lemma transitionEvents_statuses: "map te_status (transitionEvents es) = remdups_adj (map te_status es)"
  by (cases es) (simp_all add: changes_after_statuses)

interpretation cleaning: batch_report cleanup_merge cleanup_miss cur_id cur_resolved
  utc_resolved utc_skipped utc_results utc_resolved utc_skipped utc_requestFailed utc_results
  by unfold_locales (simp_all add: cleanup_merge_def cleanup_miss_def)

lemma cleanup_reports:
  assumes "cleaning.accounts_for srv" "cleanup srv ids st = (st', r)"
  shows "cleaning.reports r ids"
proof -
  have "cleaning.reports r ([] @ concat (taskIDChunks ids))"
    by (rule cleaning.run_reports [OF assms(1) _ assms(2) [unfolded cleanup_def]])
      (simp add: cleaning.reports_def)
  then show ?thesis by (simp add: taskIDChunks_def TASK_CLEANUP_BATCH_SIZE_def concat_chunks)
qed

definition task_page_ok :: "TaskListPage \<Rightarrow> bool" where
  "task_page_ok s \<longleftrightarrow> 1 \<le> tl_page s \<and> (tl_cleanupOpen s \<longrightarrow> tl_cleanupTasks s \<noteq> []) \<and>
     (tl_cleaning s \<longrightarrow> tl_cleanupOpen s)"

definition task_event_ok :: "task_event \<Rightarrow> bool" where
  "task_event_ok e = (case e of GoToTaskPage n \<Rightarrow> 1 \<le> n | _ \<Rightarrow> True)"

interpretation task_list: guarded_machine task_step task_page_ok task_event_ok
proof
  fix s e assume "task_page_ok s" "task_event_ok e"
  then show "task_page_ok (task_step s e)"
    by (cases "(s, e)" rule: task_step.cases)
      (auto simp: task_page_ok_def task_event_ok_def clampPage_def split: sum.splits list.splits)
qed

text \<open>The three messages differ in their last but one character.\<close>

lemma last_but_one: "butlast t \<noteq> [] \<Longrightarrow> last (butlast (x @ t)) = last (butlast t)"
  by (cases t rule: rev_cases) (auto simp: butlast_append)

lemma cleanup_feedback_complete:
  "cleanup_feedback r = ulit ''%u5DF2%u5C06 '' @ num_str n @ ulit '' %u4E2A%u5F02%u5E38%u4EFB%u52A1%u6807%u8BB0%u4E3A%u5931%u8D25%uFF0C%u5E76%u91CA%u653E%u4ECD%u6301%u6709%u7684%u5E73%u53F0%u4F59%u989D%u9884%u7559%u3002'' \<longleftrightarrow>
     utc_requestFailed r = 0 \<and> utc_skipped r = 0 \<and> utc_resolved r = n"
proof -
  let ?a = "ulit '' %u4E2A%u8BF7%u6C42%u5931%u8D25%uFF0C%u53EF%u91CD%u65B0%u626B%u63CF%u540E%u91CD%u8BD5%u3002''" and ?b = "ulit '' %u4E2A%u4EFB%u52A1%u72B6%u6001%u5DF2%u53D8%u5316%uFF0C%u5DF2%u8DF3%u8FC7%u3002''"
    and ?c = "ulit '' %u4E2A%u5F02%u5E38%u4EFB%u52A1%u6807%u8BB0%u4E3A%u5931%u8D25%uFF0C%u5E76%u91CA%u653E%u4ECD%u6301%u6709%u7684%u5E73%u53F0%u4F59%u989D%u9884%u7559%u3002''"
  have nonempty: "butlast ?a \<noteq> []" "butlast ?b \<noteq> []" "butlast ?c \<noteq> []" by code_simp+
  have "last (butlast ?a) \<noteq> last (butlast ?c)" "last (butlast ?b) \<noteq> last (butlast ?c)" by code_simp+
  then have "x @ ?a \<noteq> y @ ?c" "x @ ?b \<noteq> y @ ?c" for x y
    by (metis last_but_one nonempty)+
  from this [of "_ @ _ @ _" "_"] show ?thesis
    by (auto simp: cleanup_feedback_def num_str_inject)
qed

section \<open>Properties\<close>

text \<open>Whatever is done on the task list, its page is at least 1, the cleanup dialog is only open
  with tasks in it, and it stays open, with these tasks, while the request for them is sent; when the
  answer arrives it closes and forgets them.\<close>

theorem task_page_invariant:
  assumes "list_all task_event_ok es" "s = foldl task_step (initial_task_list ps) es"
  shows "1 \<le> tl_page s \<and> (tl_cleanupOpen s \<longrightarrow> tl_cleanupTasks s \<noteq> []) \<and>
    (tl_cleaning s \<longrightarrow> tl_cleanupOpen s \<and> task_step s DismissCleanup = s \<and> task_step s ConfirmCleanup = s \<and>
       \<not> tl_cleanupOpen (task_step s (CleanupAnswered r)) \<and> tl_cleanupTasks (task_step s (CleanupAnswered r)) = [])"
proof -
  have "task_page_ok (initial_task_list ps)" by (simp add: task_page_ok_def initial_task_list_def)
  from task_list.ok_run [OF this assms(1)] show ?thesis by (simp add: task_page_ok_def assms(2))
qed

definition sample_task :: "jstr \<Rightarrow> Task" where
  "sample_task i = \<lparr>task_id = i, task_provider_id = lit ''adobe'', task_account_id = None, task_kind = lit ''video'',
     task_status = lit ''submission_uncertain'', task_progress = 0, task_queue_position = None,
     task_model = lit ''m'', task_prompt = [], task_upstream_request = None, task_generation_id = None,
     task_result = None, task_error_code = None, task_error_message = None, task_error_details = None,
     task_retry_count = None, task_tokens_before = None, task_tokens_after = None,
     task_estimated_tokens = None, task_settled_tokens = None, task_upstream_reported_cost = None,
     task_reservation_state = None, task_reservation_release_reason = None, task_created_at = [],
     task_updated_at = [], task_started_at = None, task_completed_at = None, task_events = None\<rparr>"

theorem task_page_invariant_witness:
  "tl_cleanupTasks (foldl task_step (initial_task_list [])
     [StartScan, ScanAnswered (Inr [sample_task (lit ''a'')]), ConfirmCleanup, DismissCleanup]) \<noteq> []"
proof -
  let ?es = "[StartScan, ScanAnswered (Inr [sample_task (lit ''a'')]), ConfirmCleanup, DismissCleanup]"
  have "list_all task_event_ok ?es" by (simp add: task_event_ok_def)
  from task_page_invariant [OF this refl, of "[]"] show ?thesis by (simp add: initial_task_list_def)
qed

text \<open>C13: With a gateway that pages through the uncertain tasks and accounts for the ids it is sent, the
  scan opens the dialog with all of them, and confirming accounts for all: those failed and those skipped
  add up to them, only their ids are reported, and the message of complete success for all of them is
  shown exactly when all were failed.\<close>

theorem cleanup_covers_scan:
  assumes "distinct (map task_id L)" "L \<noteq> []"
    and "pages_through 100 L (\<lambda>page. map_sum id (\<lambda>result. (tkp_data result, tkp_total result)) (fetch page))"
    and "cleaning.accounts_for srv"
    and "cleanup srv (map task_id (tl_cleanupTasks s)) st = (st', r)"
    and "s = task_step (task_step s0 StartScan) (ScanAnswered answer)" "scan_uncertain fetch = Some answer"
  shows "tl_cleanupOpen s \<and> tl_cleanupTasks s = L \<and>
    utc_resolved r + utc_skipped r = int (length L) \<and> utc_requestFailed r \<le> utc_skipped r \<and>
    set (map cur_id (utc_results r)) \<subseteq> set (map task_id L) \<and>
    (cleanup_feedback r = ulit ''%u5DF2%u5C06 '' @ num_str (int (length L)) @ ulit '' %u4E2A%u5F02%u5E38%u4EFB%u52A1%u6807%u8BB0%u4E3A%u5931%u8D25%uFF0C%u5E76%u91CA%u653E%u4ECD%u6301%u6709%u7684%u5E73%u53F0%u4F59%u989D%u9884%u7559%u3002'' \<longleftrightarrow>
       utc_resolved r = int (length L))"
proof -
  have "scan_uncertain fetch = Some (Inr L)"
    using scan_loop_all [OF assms(1) assms(3), of 0]
    by (simp add: scan_uncertain_def map_values_def comp_def)
  then have "answer = Inr L" using assms(7) by simp
  then have s: "tl_cleanupOpen s" "tl_cleanupTasks s = L"
    using assms(2) by (auto simp: assms(6) split: list.splits)
  then have "cleaning.reports r (map task_id L)" using cleanup_reports [OF assms(4,5)] by simp
  then have r: "utc_resolved r + utc_skipped r = int (length L)"
    "utc_skipped r = utc_requestFailed r + int (length (filter (\<lambda>e. \<not> cur_resolved e) (utc_results r)))"
    "0 \<le> utc_requestFailed r" "set (map cur_id (utc_results r)) \<subseteq> set (map task_id L)"
    by (auto simp: cleaning.reports_def)
  then have "0 \<le> utc_requestFailed r" "utc_requestFailed r \<le> utc_skipped r" by linarith+
  with r s show ?thesis by (auto simp: cleanup_feedback_complete)
qed

text \<open>The time line of a task tells its history without repetitions: the statuses it shows after
  the creation are those of the events with repeated ones merged, in order, and what it leaves out is
  what it counts as merged.\<close>

theorem timeline_merges_repeats:
  "map te_status (task_timeline t) = lit ''created'' # remdups_adj (map te_status (nullish (task_events t) [])) \<and>
   set (task_timeline t) - {hd (task_timeline t)} \<subseteq> set (nullish (task_events t) []) \<and>
   length (task_timeline t) + mergedEventCount t = Suc (length (nullish (task_events t) []))"
proof -
  have sub: "set (changes_after st es) \<subseteq> set es" for st es by (induction es arbitrary: st) auto
  show ?thesis
    using length_changes_after
    by (cases "nullish (task_events t) []")
      (auto simp: task_timeline_def mergedEventCount_def changes_after_statuses dest: subsetD [OF sub])
qed


definition cleanup_gateway :: "nat \<Rightarrow> jstr list \<Rightarrow> nat \<times> UncertainTaskCleanupResponse option" where
  "cleanup_gateway n batch = (n + 1, Some \<lparr>utc_resolved = int (length batch), utc_skipped = 0,
     utc_results = map (\<lambda>i. \<lparr>cur_id = i, cur_resolved = True, cur_error_code = None, cur_error_message = None\<rparr>) batch\<rparr>)"

theorem cleanup_covers_scan_witness:
  "\<exists>st' r. cleanup cleanup_gateway [lit ''a''] 0 = (st', r) \<and> utc_resolved r + utc_skipped r = 1"
proof -
  let ?L = "[sample_task (lit ''a'')]"
  let ?fetch = "\<lambda>p. Inr \<lparr>tkp_data = pageSlice p 100 ?L, tkp_total = 1, tkp_page = int p, tkp_page_size = 100\<rparr> :: jstr + TasksPage"
  let ?pages = "\<lambda>page. map_sum id (\<lambda>result. (tkp_data result, tkp_total result)) (?fetch page)"
  have pages: "pages_through 100 ?L ?pages" by (simp add: pages_through_def)
  have accounts: "cleaning.accounts_for cleanup_gateway"
    by (auto simp: cleaning.accounts_for_def cleanup_gateway_def comp_def)
  have scan: "scan_uncertain ?fetch = Some (Inr ?L)"
    using scan_loop_all [OF _ pages, of task_id 0] by (simp add: scan_uncertain_def map_values_def)
  obtain st' r where run: "cleanup cleanup_gateway [lit ''a''] (0 :: nat) = (st', r)" by force
  define s where "s = task_step (task_step (initial_task_list []) StartScan) (ScanAnswered (Inr ?L))"
  have ids: "map task_id (tl_cleanupTasks s) = [lit ''a'']" by (simp add: s_def initial_task_list_def sample_task_def)
  show ?thesis
    using cleanup_covers_scan [OF _ _ pages accounts _ s_def scan, of 0 st' r] run ids by auto
qed

lemma tasks_query_get:
  assumes "tasks_query utc localtime page pageSize ps search = Inr q"
  shows "key \<in> {lit ''status'', lit ''provider'', lit ''kind'', lit ''model''} \<Longrightarrow>
      param_get q key = (if task_filter ps key = lit ''all'' then None else Some (task_filter ps key))"
    "param_get q (lit ''page'') = Some (num_str (int page))"
    "param_get q (lit ''page_size'') = Some (num_str (int pageSize))"
    "param_get q (lit ''search'') = (if search = [] then None else Some search)"
proof -
  have other: "appendLocalDateRange utc localtime qs a b = Inr q \<Longrightarrow> k \<noteq> lit ''from'' \<Longrightarrow> k \<noteq> lit ''to'' \<Longrightarrow>
      param_get q k = param_get qs k" for qs a b k
    by (auto simp: appendLocalDateRange_def bindr_Inr_iff param_get_set split: if_splits)
  have add: "param_get (if c then param_set k v qs else qs) j = (if c \<and> j = k then Some v else param_get qs j)" for c k v qs j
    by (simp add: param_get_set)
  have initial: "param_get [(lit ''page'', x), (lit ''page_size'', y)] k =
      (if k = lit ''page'' then Some x else if k = lit ''page_size'' then Some y else None)" for x y k
    by (simp add: param_get_def)
  note query = other [OF assms [unfolded tasks_query_def Let_def], unfolded add initial]
  show "param_get q (lit ''page'') = Some (num_str (int page))" "param_get q (lit ''page_size'') = Some (num_str (int pageSize))"
    "param_get q (lit ''search'') = (if search = [] then None else Some search)"
    by (simp_all add: query)
  assume "key \<in> {lit ''status'', lit ''provider'', lit ''kind'', lit ''model''}"
  then show "param_get q key = (if task_filter ps key = lit ''all'' then None else Some (task_filter ps key))"
    by (elim insertE emptyE) (simp_all add: query)
qed

text \<open>The query of the list asks for exactly the filters of the address bar that are not all, for
  the page and its size, and for the search text; setting a filter is read back from the address bar.\<close>

theorem tasks_query_filters:
  assumes "tasks_query utc localtime page pageSize ps search = Inr q"
    and "key \<in> {lit ''status'', lit ''provider'', lit ''kind'', lit ''model''}" "value \<noteq> []"
    and "ps = tl_params (task_step s (SetTaskFilter key value))"
  shows "param_get q key = (if value = lit ''all'' then None else Some value) \<and>
    param_get q (lit ''page'') = Some (num_str (int page)) \<and>
    param_get q (lit ''page_size'') = Some (num_str (int pageSize)) \<and>
    param_get q (lit ''search'') = (if search = [] then None else Some search)"
  using tasks_query_get [OF assms(1)] assms(2,3)
  by (simp add: assms(4) task_filter_def param_get_set param_get_delete or_str_def del: insert_iff)

theorem tasks_query_filters_witness:
  "param_get [(lit ''page'', lit ''1''), (lit ''page_size'', lit ''20''), (lit ''status'', lit ''failed'')] (lit ''status'') = Some (lit ''failed'')"
proof -
  let ?s = "initial_task_list []"
  have query: "tasks_query (\<lambda>t. t) (\<lambda>t. t) 1 20 (tl_params (task_step ?s (SetTaskFilter (lit ''status'') (lit ''failed'')))) [] =
      Inr [(lit ''page'', lit ''1''), (lit ''page_size'', lit ''20''), (lit ''status'', lit ''failed'')]"
    by code_simp
  show ?thesis using tasks_query_filters [OF query, of "lit ''status''" "lit ''failed''" ?s] by simp
qed

text \<open>Choosing another provider keeps the model filter: a model the provider does not have is
  no longer among the options, but the list is still asked for it.\<close>

theorem provider_change_keeps_model_filter:
  assumes "task_filter (tl_params s) (lit ''model'') = model" "model \<noteq> lit ''all''"
    and "provider \<noteq> []" "provider \<noteq> lit ''all''"
    and "\<forall>group \<in> set groups. kmg_provider_id group = provider \<longrightarrow> model \<notin> set (kmg_models group)"
    and "s' = task_step s (SetTaskFilter (lit ''provider'') provider)"
    and "tasks_query utc localtime page pageSize (tl_params s') search = Inr q"
  shows "model \<notin> set (task_model_options groups (task_filter (tl_params s') (lit ''provider''))) \<and>
    param_get q (lit ''provider'') = Some provider \<and> param_get q (lit ''model'') = Some model"
proof -
  have "task_filter (tl_params s') (lit ''provider'') = provider" "task_filter (tl_params s') (lit ''model'') = model"
    using assms(1-4) by (simp_all add: assms(6) task_filter_def param_get_set or_str_def)
  then show ?thesis
    using tasks_query_get(1) [OF assms(7), of "lit ''provider''"] tasks_query_get(1) [OF assms(7), of "lit ''model''"] assms(2-5)
    by (auto simp: task_model_options_def)
qed

theorem provider_change_keeps_model_filter_witness:
  "\<exists>q. tasks_query (\<lambda>t. t) (\<lambda>t. t) 1 20
      (tl_params (task_step (initial_task_list [(lit ''model'', lit ''veo-3.1'')]) (SetTaskFilter (lit ''provider'') (lit ''leonardo'')))) [] = Inr q \<and>
     param_get q (lit ''model'') = Some (lit ''veo-3.1'')"
proof -
  let ?s = "initial_task_list [(lit ''model'', lit ''veo-3.1'')]"
  have query: "tasks_query (\<lambda>t. t) (\<lambda>t. t) 1 20 (tl_params (task_step ?s (SetTaskFilter (lit ''provider'') (lit ''leonardo'')))) [] =
      Inr [(lit ''page'', lit ''1''), (lit ''page_size'', lit ''20''), (lit ''provider'', lit ''leonardo''), (lit ''model'', lit ''veo-3.1'')]"
    by code_simp
  show ?thesis
    using provider_change_keeps_model_filter [OF _ _ _ _ _ refl query, of "lit ''veo-3.1''"
        "[\<lparr>kmg_provider_id = lit ''leonardo'', kmg_label = [], kmg_kind = Video, kmg_models = [lit ''hailuo-2.3'']\<rparr>]"] query
    by (simp add: initial_task_list_def task_filter_def param_get_def or_str_def)
qed

end
