(* ===== verification/ClientCache.thy ===== *)
theory ClientCache
  imports Json
begin

text \<open>
  What the client keeps in the browser (shared/cache.ts) and how it talks to the gateway
  (shared/api.ts): form fields in the session storage, the latest results in IndexedDB, debounced
  values, and the two request functions with their errors. \<open>parse\<close> and \<open>stringify\<close> are those of
  the values kept, \<open>fits\<close> tells whether the storage accepts an entry.
\<close>

section \<open>Form fields in the session storage\<close>

type_synonym storage = "(jstr, jstr) jmap"

definition playgroundCachePrefix :: jstr where
  "playgroundCachePrefix = lit ''leo-playground:v2:''"

text \<open>The first value of a field; \<open>None\<close> is a storage that cannot be read.\<close>

definition session_initial :: "(jstr \<Rightarrow> 'a option) \<Rightarrow> storage option \<Rightarrow> jstr \<Rightarrow> 'a \<Rightarrow> 'a" where
  "session_initial parse store key initial =
     (case store of None \<Rightarrow> initial
      | Some st \<Rightarrow> (case map_of st (playgroundCachePrefix @ key) of None \<Rightarrow> initial
          | Some cached \<Rightarrow> nullish (parse cached) initial))"

text \<open>The effect after every change of the value; an entry that does not fit is not kept.\<close>

definition session_effect ::
    "('a \<Rightarrow> jstr) \<Rightarrow> (jstr \<Rightarrow> jstr \<Rightarrow> storage \<Rightarrow> bool) \<Rightarrow> jstr \<Rightarrow> 'a \<Rightarrow> storage \<Rightarrow> storage" where
  "session_effect stringify fits key v st =
     (let storageKey = playgroundCachePrefix @ key in
      if fits storageKey (stringify v) st then map_set storageKey (stringify v) st else st)"

text \<open>What clearing leaves of both stores; \<open>failed\<close> is a database that cannot be cleared.\<close>

definition clearPlaygroundCache :: "bool \<Rightarrow> storage \<times> (jstr, 'v) jmap \<Rightarrow> storage \<times> (jstr, 'v) jmap" where
  "clearPlaygroundCache failed stores =
     (fold map_delete (filter (\<lambda>key. starts_with key playgroundCachePrefix) (map_keys (fst stores))) (fst stores),
      if failed then snd stores else [])"

section \<open>Debounced values\<close>

text \<open>
  The value, the debounced value, and when the timer is due. Rendering with another value clears
  the timer and sets a new one.
\<close>

record 'a debounced =
  db_value :: 'a
  db_debounced :: 'a
  db_due :: "nat option"
  db_now :: nat

datatype 'a debounce_event = Rendered 'a | Elapsed nat

definition debounce_mount :: "nat \<Rightarrow> 'a \<Rightarrow> 'a debounced" where
  "debounce_mount delay v = \<lparr>db_value = v, db_debounced = v, db_due = Some delay, db_now = 0\<rparr>"

fun debounce_step :: "nat \<Rightarrow> 'a debounced \<Rightarrow> 'a debounce_event \<Rightarrow> 'a debounced" where
  "debounce_step delay s (Rendered v) =
     (if v = db_value s then s else s\<lparr>db_value := v, db_due := Some (db_now s + delay)\<rparr>)"
| "debounce_step delay s (Elapsed n) =
     (case db_due s of
        Some t \<Rightarrow> if t \<le> db_now s + n
          then s\<lparr>db_now := db_now s + n, db_debounced := db_value s, db_due := None\<rparr>
          else s\<lparr>db_now := db_now s + n\<rparr>
      | None \<Rightarrow> s\<lparr>db_now := db_now s + n\<rparr>)"

section \<open>The latest result\<close>

text \<open>
  \<open>useCachedResult\<close> with the database entry of its key. The read that starts when the component
  is mounted takes the entry at some time and delivers it at a later one; what is written goes to the
  database in the order of the calls, later than the value is shown, or fails.
\<close>

datatype 'v read_state = Reading | Taken "'v option" | Delivered

record 'v cached_result =
  cr_value :: "'v option"
  cr_ready :: bool
  cr_active :: bool
  cr_read :: "'v read_state"
  cr_store :: "'v option"
  cr_writes :: "'v option list"

datatype 'v cache_event = TakeEntry | DeliverEntry | ReadFails | UpdateResult "'v option" | WriteDone | WriteFails | Unmount

definition mount_cached :: "'v option \<Rightarrow> 'v cached_result" where
  "mount_cached store = \<lparr>cr_value = None, cr_ready = False, cr_active = True, cr_read = Reading,
     cr_store = store, cr_writes = []\<rparr>"

fun cache_step :: "'v cached_result \<Rightarrow> 'v cache_event \<Rightarrow> 'v cached_result" where
  "cache_step s TakeEntry = (case cr_read s of Reading \<Rightarrow> s\<lparr>cr_read := Taken (cr_store s)\<rparr> | _ \<Rightarrow> s)"
| "cache_step s DeliverEntry = (case cr_read s of
       Taken result \<Rightarrow> (if cr_active s then s\<lparr>cr_value := result, cr_ready := True, cr_read := Delivered\<rparr>
         else s\<lparr>cr_read := Delivered\<rparr>)
     | _ \<Rightarrow> s)"
| "cache_step s ReadFails = (case cr_read s of
       Delivered \<Rightarrow> s
     | _ \<Rightarrow> (if cr_active s then s\<lparr>cr_ready := True, cr_read := Delivered\<rparr> else s\<lparr>cr_read := Delivered\<rparr>))"
| "cache_step s (UpdateResult v) = s\<lparr>cr_value := v, cr_writes := cr_writes s @ [v]\<rparr>"
| "cache_step s WriteDone = (case cr_writes s of [] \<Rightarrow> s | w # ws \<Rightarrow> s\<lparr>cr_store := w, cr_writes := ws\<rparr>)"
| "cache_step s WriteFails = (case cr_writes s of [] \<Rightarrow> s | w # ws \<Rightarrow> s\<lparr>cr_writes := ws\<rparr>)"
| "cache_step s Unmount = s\<lparr>cr_active := False\<rparr>"

section \<open>Requests\<close>

text \<open>
  \<open>fetch\<close> gives a response or the message of a network error; a body that is not JSON is \<open>None\<close>.
  \<open>text_of\<close> is \<open>String\<close> of a value that is not a string.
\<close>

record response =
  rs_status :: nat
  rs_body :: "json option"

definition rs_ok :: "response \<Rightarrow> bool" where
  "rs_ok r \<longleftrightarrow> 200 \<le> rs_status r \<and> rs_status r \<le> 299"

datatype api_error = APIRequestError jstr nat | NetworkError jstr

definition body_json :: "response \<Rightarrow> json" where
  "body_json r = nullish (rs_body r) (JObj [])"

definition string_of :: "(json \<Rightarrow> jstr) \<Rightarrow> json \<Rightarrow> jstr" where
  "string_of text_of v = (case v of JStr s \<Rightarrow> s | _ \<Rightarrow> text_of v)"

text \<open>\<open>body?.error?.message\<close>, as far as it is there.\<close>

definition error_message :: "json \<Rightarrow> json option" where
  "error_message body = Option.bind (json_field body (lit ''error'')) (\<lambda>e. json_field e (lit ''message''))"

definition first_truthy :: "(json \<Rightarrow> jstr) \<Rightarrow> json option list \<Rightarrow> jstr \<Rightarrow> jstr" where
  "first_truthy text_of vs fallback =
     (case find (\<lambda>v. case v of Some x \<Rightarrow> truthy x | None \<Rightarrow> False) vs of
        Some (Some x) \<Rightarrow> string_of text_of x
      | _ \<Rightarrow> fallback)"

definition api :: "(json \<Rightarrow> jstr) \<Rightarrow> jstr + response \<Rightarrow> api_error + json" where
  "api text_of answer = (case answer of
       Inl message \<Rightarrow> Inl (NetworkError message)
     | Inr r \<Rightarrow>
         if \<not> rs_ok r
         then Inl (APIRequestError (first_truthy text_of [error_message (body_json r)]
           (lit ''HTTP '' @ num_str (int (rs_status r)))) (rs_status r))
         else Inr (body_json r))"

definition publicAPI :: "(json \<Rightarrow> jstr) \<Rightarrow> jstr + response \<Rightarrow> jstr + json" where
  "publicAPI text_of answer = (case answer of
       Inl message \<Rightarrow> Inl message
     | Inr r \<Rightarrow>
         if \<not> rs_ok r
         then Inl (first_truthy text_of [error_message (body_json r), json_field (body_json r) (lit ''message'')]
           (lit ''HTTP '' @ num_str (int (rs_status r))))
         else Inr (body_json r))"

text \<open>
  The headers that are sent. \<open>api\<close> spreads the options of the caller over its own, headers
  included; \<open>publicAPI\<close> sets its own in a \<open>Headers\<close> object, whose names are in lower case.
\<close>

type_synonym headers = "(jstr, jstr) jmap"

definition api_headers :: "headers option \<Rightarrow> headers" where
  "api_headers init =
     (let merged = fold (\<lambda>(k, v). map_set k v) (nullish init []) [(lit ''Content-Type'', lit ''application/json'')] in
      nullish init merged)"

definition publicAPI_headers :: "headers \<Rightarrow> bool \<Rightarrow> jstr \<Rightarrow> headers" where
  "publicAPI_headers init form_data apiKey =
     (let headers = fold (\<lambda>(k, v). map_set (to_lower k) v) init [];
          headers = map_set (lit ''authorization'') (lit ''Bearer '' @ trim apiKey) headers in
      if form_data then headers else map_set (lit ''content-type'') (lit ''application/json'') headers)"

definition idempotencyKey :: "jstr option \<Rightarrow> int \<Rightarrow> jstr \<Rightarrow> jstr" where
  "idempotencyKey randomUUID now random =
     or_str (opt_str randomUUID) (lit ''playground-'' @ num_str now @ lit ''-'' @ drop 2 random)"

section \<open>Properties of the session storage\<close>

lemma starts_with_append [simp]: "starts_with (p @ s) p"
  by (simp add: starts_with_iff)

lemma cleared_lookup:
  "map_of (fst (clearPlaygroundCache failed (st, results))) k =
     (if starts_with k playgroundCachePrefix then None else map_of st k)"
proof -
  have del: "map_of (fold map_delete ks m) k = (if k \<in> set ks then None else map_of m k)" for ks m
    using jmap.look_fold_del [of "\<lambda>x. x" ks m k] by simp
  show ?thesis by (auto simp: clearPlaygroundCache_def del set_map_keys domIff)
qed

text \<open>A form field that was written is there after a reload and writing one field changes no
  other; clearing forgets every field and keeps whatever else the session storage holds.\<close>

theorem session_state_survives_reload:
  assumes "\<And>x. parse (stringify x) = Some x" "fits (playgroundCachePrefix @ key) (stringify v) st"
  shows "session_initial parse (Some (session_effect stringify fits key v st)) key d = v \<and>
    (key' \<noteq> key \<longrightarrow> session_initial parse (Some (session_effect stringify fits key v st)) key' d' =
       session_initial parse (Some st) key' d') \<and>
    session_initial parse (Some (fst (clearPlaygroundCache failed (st, results)))) key' d' = d' \<and>
    (\<not> starts_with k playgroundCachePrefix \<longrightarrow>
       map_of (fst (clearPlaygroundCache failed (st, results))) k = map_of st k)"
  using assms by (simp add: session_initial_def session_effect_def Let_def map_of_map_set cleared_lookup)

theorem session_state_survives_reload_witness:
  "session_initial (\<lambda>t. Some t) (Some (session_effect (\<lambda>x. x) (\<lambda>_ _ _. True) (lit ''image-prompt'') (lit ''cat'') [])) (lit ''image-prompt'') [] = lit ''cat''"
  by (rule session_state_survives_reload [THEN conjunct1]) simp_all

section \<open>Properties of debounced values\<close>

text \<open>The timer is due within the delay, and there is none once the value is the debounced one.\<close>

definition debounce_ok :: "nat \<Rightarrow> 'a debounced \<Rightarrow> bool" where
  "debounce_ok delay s \<longleftrightarrow> (case db_due s of None \<Rightarrow> db_debounced s = db_value s
     | Some t \<Rightarrow> db_now s < t \<and> t \<le> db_now s + delay)"

interpretation debounce: guarded_machine "debounce_step delay" "debounce_ok delay" "\<lambda>_. 0 < delay" for delay
proof
  fix s :: "'a debounced" and e assume "debounce_ok delay s" "0 < delay"
  then show "debounce_ok delay (debounce_step delay s e)"
    by (cases "(delay, s, e)" rule: debounce_step.cases) (auto simp: debounce_ok_def split: option.splits)
qed

lemma debounce_reachable:
  "0 < delay \<Longrightarrow> debounce_ok delay (foldl (debounce_step delay) (debounce_mount delay v) es)"
  by (rule debounce.ok_run) (simp_all add: debounce_ok_def debounce_mount_def list_all_iff)

definition elapsed :: "'a debounce_event list \<Rightarrow> nat" where
  "elapsed es = sum_list (map (\<lambda>e. case e of Elapsed n \<Rightarrow> n | Rendered _ \<Rightarrow> 0) es)"

text \<open>Time passing in parts: the value stays; the debounced value becomes the value when the timer is
  due, and not before.\<close>

lemma debounce_due:
  assumes "\<forall>e \<in> set es. \<exists>n. e = Elapsed n" "db_due s = None \<longrightarrow> db_debounced s = db_value s"
    "\<forall>t. db_due s = Some t \<longrightarrow> db_now s < t \<and> t \<le> db_now s + elapsed es"
  shows "db_debounced (foldl (debounce_step delay) s es) = db_value s"
  using assms
proof (induction es arbitrary: s)
  case Nil
  then show ?case by (cases "db_due s") (auto simp: elapsed_def)
next
  case (Cons e es)
  then obtain n where e: "e = Elapsed n" by auto
  let ?s = "debounce_step delay s e"
  have "db_value ?s = db_value s" by (simp add: e split: option.splits)
  moreover have "db_debounced (foldl (debounce_step delay) ?s es) = db_value ?s"
    using Cons.prems by (intro Cons.IH) (auto simp: e elapsed_def split: option.splits if_splits)
  ultimately show ?case by simp
qed

lemma debounce_not_due:
  assumes "\<forall>e \<in> set es. \<exists>n. e = Elapsed n" "db_due s = Some t" "db_now s + elapsed es < t"
  shows "db_debounced (foldl (debounce_step delay) s es) = db_debounced s"
  using assms
proof (induction es arbitrary: s)
  case (Cons e es)
  then obtain n where e: "e = Elapsed n" by auto
  let ?s = "debounce_step delay s e"
  have "db_debounced ?s = db_debounced s" using Cons.prems by (simp add: e elapsed_def)
  moreover have "db_debounced (foldl (debounce_step delay) ?s es) = db_debounced ?s"
    using Cons.prems by (intro Cons.IH) (auto simp: e elapsed_def)
  ultimately show ?case by simp
qed simp

text \<open>The debounced value is the last one rendered once it has been left alone for the delay,
  whatever happened before; a new value is not used earlier.\<close>

theorem debounced_follows_last_value:
  assumes "0 < delay" "s = foldl (debounce_step delay) (debounce_mount delay v0) es"
    and "\<forall>e \<in> set quiet. \<exists>n. e = Elapsed n"
  shows "(delay \<le> elapsed quiet \<longrightarrow>
      db_debounced (foldl (debounce_step delay) s (Rendered v # quiet)) = v) \<and>
    (v \<noteq> db_value s \<and> elapsed quiet < delay \<longrightarrow>
      db_debounced (foldl (debounce_step delay) s (Rendered v # quiet)) = db_debounced s)"
proof -
  have ok: "debounce_ok delay s" using debounce_reachable [OF assms(1)] by (simp add: assms(2))
  let ?s = "debounce_step delay s (Rendered v)"
  have "db_value ?s = v" by simp
  moreover have "db_debounced (foldl (debounce_step delay) ?s quiet) = db_value ?s" if "delay \<le> elapsed quiet"
    using ok that assms(1)
    by (intro debounce_due [OF assms(3)]) (auto simp: debounce_ok_def split: option.splits if_splits)
  moreover have "db_debounced (foldl (debounce_step delay) ?s quiet) = db_debounced ?s"
    if "v \<noteq> db_value s" "elapsed quiet < delay"
    using that by (intro debounce_not_due [OF assms(3)]) auto
  ultimately show ?thesis by simp
qed

theorem debounced_follows_last_value_witness:
  "db_debounced (foldl (debounce_step 250) (debounce_mount 250 (lit ''a'')) [Rendered (lit ''b''), Elapsed 200, Elapsed 50]) = lit ''b''"
  using debounced_follows_last_value [of 250 _ "lit ''a''" "[]" "[Elapsed 200, Elapsed 50]" "lit ''b''", OF _ refl, THEN conjunct1]
  by (simp add: elapsed_def del: debounce_step.simps)

section \<open>Properties of the latest result\<close>

text \<open>After the stored result has been delivered, what is shown is what the database will hold.\<close>

definition cache_ok :: "'v cached_result \<Rightarrow> bool" where
  "cache_ok s \<longleftrightarrow> cr_read s = Delivered \<and> last (cr_store s # cr_writes s) = cr_value s"

interpretation result_cache: guarded_machine cache_step cache_ok "\<lambda>e. e \<noteq> WriteFails"
proof
  fix s :: "'v cached_result" and e :: "'v cache_event" assume "cache_ok s" "e \<noteq> WriteFails"
  then show "cache_ok (cache_step s e)"
    by (cases "(s, e)" rule: cache_step.cases) (auto simp: cache_ok_def split: list.splits)
qed

lemma flush_writes:
  "cr_writes s = ws \<Longrightarrow>
    cr_store (foldl cache_step s (replicate (length ws) WriteDone)) = last (cr_store s # ws)"
  by (induction ws arbitrary: s) simp_all

text \<open>C33: A result survives leaving the page: if the stored result was restored before anything else
  happened and no write fails, then after the pending writes the database holds what the page shows,
  and the next visit shows it again.\<close>

theorem cached_result_survives:
  assumes "list_all (\<lambda>e. e \<noteq> WriteFails) es"
    and "s = foldl cache_step (mount_cached store) (TakeEntry # DeliverEntry # es)"
    and "store' = cr_store (foldl cache_step s (replicate (length (cr_writes s)) WriteDone))"
  shows "store' = cr_value s \<and>
    cr_value (foldl cache_step (mount_cached store') [TakeEntry, DeliverEntry]) = cr_value s \<and>
    cr_ready (foldl cache_step (mount_cached store') [TakeEntry, DeliverEntry])"
proof -
  have "cache_ok (foldl cache_step (mount_cached store) [TakeEntry, DeliverEntry])"
    by (simp add: cache_ok_def mount_cached_def)
  from result_cache.ok_run [OF this assms(1)] have "cache_ok s" by (simp add: assms(2))
  then have "store' = cr_value s" using flush_writes [OF refl, of s] by (simp add: assms(3) cache_ok_def)
  then show ?thesis by (simp add: mount_cached_def)
qed

theorem cached_result_survives_witness:
  "cr_value (foldl cache_step (mount_cached (Some (1 :: nat))) [TakeEntry, DeliverEntry, UpdateResult (Some 2)]) = Some 2"
  using cached_result_survives [OF _ refl refl, of "[UpdateResult (Some 2)]" "Some (1 :: nat)"]
  by (simp add: mount_cached_def)

text \<open>A result that is set or cleared while the stored one is still being read is undone on the
  page when the read is delivered: the page then shows the old result although the database holds the
  new one, or nothing.\<close>

theorem late_read_overwrites_result:
  assumes "s = foldl cache_step (mount_cached (Some old)) [TakeEntry, UpdateResult new, DeliverEntry, WriteDone]"
  shows "cr_value s = Some old \<and> cr_ready s \<and> cr_store s = new \<and> cr_writes s = [] \<and>
    cr_value (foldl cache_step (mount_cached (Some old)) [TakeEntry, UpdateResult new]) = new"
  by (simp add: assms mount_cached_def)

theorem late_read_overwrites_result_witness:
  "cr_value (foldl cache_step (mount_cached (Some (1 :: nat))) [TakeEntry, UpdateResult None, DeliverEntry, WriteDone]) = Some 1"
  using late_read_overwrites_result [OF refl, of "1 :: nat" None] by simp

section \<open>Properties of requests\<close>

text \<open>A request succeeds exactly when a response with a status of 200 to 299 arrives; its value is
  then the body, or an empty object. Any other response is an error with its status and a message that
  is not empty, if numbers, objects and lists print as something.\<close>

theorem api_outcome:
  assumes "\<And>v. truthy v \<Longrightarrow> string_of text_of v \<noteq> []"
  shows "(\<exists>b. api text_of answer = Inr b) = (\<exists>r. answer = Inr r \<and> 200 \<le> rs_status r \<and> rs_status r \<le> 299) \<and>
    (answer = Inr r \<and> (rs_status r < 200 \<or> 299 < rs_status r) \<longrightarrow>
       (\<exists>m. m \<noteq> [] \<and> api text_of answer = Inl (APIRequestError m (rs_status r)))) \<and>
    (\<exists>b. publicAPI text_of answer = Inr b) = (\<exists>b. api text_of answer = Inr b)"
proof -
  have "first_truthy text_of vs f \<noteq> []" if "f \<noteq> []" for vs f
    using that assms by (auto simp: first_truthy_def find_Some_iff split: option.splits)
  then show ?thesis
    by (auto simp: api_def publicAPI_def rs_ok_def split: sum.splits)
qed

theorem api_outcome_witness:
  "\<exists>m. m \<noteq> [] \<and> api (\<lambda>_. lit ''x'') (Inr \<lparr>rs_status = 401, rs_body = None\<rparr>) = Inl (APIRequestError m 401)"
proof -
  have "string_of (\<lambda>_. lit ''x'') v \<noteq> []" if "truthy v" for v
    using that by (cases v) (simp_all add: string_of_def truthy_def)
  then show ?thesis
    using api_outcome [of "\<lambda>_. lit ''x''" "Inr \<lparr>rs_status = 401, rs_body = None\<rparr>" "\<lparr>rs_status = 401, rs_body = None\<rparr>"] by simp
qed

text \<open>A caller of \<open>api\<close> that passes headers loses the content type; \<open>publicAPI\<close> always sends the key,
  and the content type of every body but a form.\<close>

theorem request_headers:
  "api_headers (Some h) = h \<and> map_of (api_headers None) (lit ''Content-Type'') = Some (lit ''application/json'') \<and>
   map_of (publicAPI_headers init form_data key) (lit ''authorization'') = Some (lit ''Bearer '' @ trim key) \<and>
   (\<not> form_data \<longrightarrow> map_of (publicAPI_headers init form_data key) (lit ''content-type'') = Some (lit ''application/json''))"
  by (auto simp: api_headers_def publicAPI_headers_def Let_def map_of_map_set)

end
