(* ===== verification/Dashboard.thy ===== *)
theory Dashboard
  imports Accounts Tasks ClientCache
begin

text \<open>
  The frame of the admin client (main.tsx) and the overview: the login check, the pages and their
  addresses, the navigation, the command palette, and the numbers the overview shows
  (components/overview-task-table.tsx, components/command-palette.tsx).
\<close>

section \<open>Login\<close>

text \<open>The session query: waiting, failed, or answered.\<close>

datatype session_query = SessionPending | SessionError api_error | SessionReady

datatype admin_view = CheckingSession | SessionFailed jstr | LoginForm | DashboardPage

definition api_error_message :: "api_error \<Rightarrow> jstr" where
  "api_error_message e = (case e of APIRequestError m _ \<Rightarrow> m | NetworkError m \<Rightarrow> m)"

definition AdminApp :: "session_query \<Rightarrow> admin_view" where
  "AdminApp overview = (case overview of
       SessionPending \<Rightarrow> CheckingSession
     | SessionError e \<Rightarrow>
         (case e of
            APIRequestError m status \<Rightarrow> if status = 401 then LoginForm else SessionFailed m
          | NetworkError m \<Rightarrow> SessionFailed m)
     | SessionReady \<Rightarrow> DashboardPage)"

definition session_answer :: "api_error + json \<Rightarrow> session_query" where
  "session_answer answer = (case answer of Inl e \<Rightarrow> SessionError e | Inr _ \<Rightarrow> SessionReady)"

text \<open>The public documentation is shown without a session.\<close>

definition public_docs :: "jstr \<Rightarrow> bool" where
  "public_docs pathname \<longleftrightarrow> pathname = lit ''/docs'' \<or> starts_with pathname (lit ''/docs/'')"

section \<open>Pages and addresses\<close>

datatype Tab = Overview | AccountsTab | TasksTab | Capacity | Keys | PlaygroundTab | Models | Pricing | Docs
  | Security | Requests | Audit

definition tab_order :: "Tab list" where
  "tab_order = [Overview, AccountsTab, TasksTab, Capacity, Models, Pricing, Keys, Requests, Audit,
     PlaygroundTab, Docs, Security]"

fun tabPaths :: "Tab \<Rightarrow> jstr" where
  "tabPaths Overview = lit ''/''"
| "tabPaths AccountsTab = lit ''/accounts''"
| "tabPaths TasksTab = lit ''/tasks''"
| "tabPaths Capacity = lit ''/capacity''"
| "tabPaths Models = lit ''/models''"
| "tabPaths Pricing = lit ''/pricing''"
| "tabPaths Keys = lit ''/keys''"
| "tabPaths Requests = lit ''/requests''"
| "tabPaths Audit = lit ''/audit''"
| "tabPaths PlaygroundTab = lit ''/playground''"
| "tabPaths Docs = lit ''/docs''"
| "tabPaths Security = lit ''/security''"

fun refreshScopes :: "Tab \<Rightarrow> jstr list" where
  "refreshScopes Overview = [lit ''overview'', lit ''tasks'', lit ''system-capacity'', lit ''keys'']"
| "refreshScopes AccountsTab = [lit ''accounts-page'', lit ''overview'', lit ''providers'']"
| "refreshScopes TasksTab = [lit ''tasks-page'', lit ''task-detail'']"
| "refreshScopes Capacity = [lit ''system-capacity'']"
| "refreshScopes Models = [lit ''platform-models'', lit ''model-costs'', lit ''cost-rules'']"
| "refreshScopes Pricing = [lit ''sale-pricing'', lit ''cost-rules'', lit ''providers'']"
| "refreshScopes Keys = [lit ''api-keys-page'', lit ''keys'']"
| "refreshScopes Requests = [lit ''request-logs'']"
| "refreshScopes Audit = [lit ''audit-page'']"
| "refreshScopes PlaygroundTab = [lit ''playground-video'', lit ''playground-audio'']"
| "refreshScopes Docs = []"
| "refreshScopes Security = [lit ''admin-settings'', lit ''system-capacity'']"

fun tab_labels :: "Tab \<Rightarrow> jstr \<times> jstr" where
  "tab_labels Overview = (ulit ''%u8FD0%u8425%u6982%u89C8'', ulit ''%u5168%u5C40%u8FD0%u884C%u4E0E%u98CE%u9669'')"
| "tab_labels AccountsTab = (ulit ''%u8D26%u53F7%u6C60'', ulit ''%u4F1A%u8BDD%u72B6%u6001%u3001%u4F59%u989D%u548C%u5E76%u53D1%u63A7%u5236'')"
| "tab_labels TasksTab = (ulit ''%u4EFB%u52A1%u7BA1%u7406'', ulit ''%u961F%u5217%u4E0E%u6267%u884C'')"
| "tab_labels Capacity = (ulit ''%u7CFB%u7EDF%u5BB9%u91CF'', ulit ''%u5168%u5C40%u5E76%u53D1%u3001%u7B49%u5F85%u961F%u5217%u4E0E%u8FC7%u8F7D%u4FDD%u62A4'')"
| "tab_labels Keys = (ulit ''API %u5BC6%u94A5'', ulit ''%u7BA1%u7406%u5BA2%u6237%u7AEF%u51ED%u636E%u3001%u5E76%u53D1%u548C%u7528%u91CF'')"
| "tab_labels PlaygroundTab = (ulit ''%u6D4B%u8BD5%u4E2D%u5FC3'', ulit ''%u76F4%u63A5%u9A8C%u8BC1%u56FE%u50CF%u3001%u89C6%u9891%u548C%u97F3%u9891%u751F%u6210%u63A5%u53E3'')"
| "tab_labels Models = (ulit ''%u6A21%u578B%u4E0E%u8BA1%u4EF7'', ulit ''%u5E73%u53F0%u76EE%u5F55%u4E0E%u53C2%u6570'')"
| "tab_labels Pricing = (ulit ''%u6210%u672C%u4E0E%u552E%u4EF7'', ulit ''%u5E73%u53F0%u6210%u672C%u3001%u5BF9%u5916%u62A5%u4EF7%u4E0E%u6BDB%u5229%u6838%u7B97'')"
| "tab_labels Docs = (ulit ''%u63A5%u53E3%u6587%u6863'', ulit ''%u516C%u5F00 API %u5408%u7EA6%u4E0E%u8BF7%u6C42%u793A%u4F8B'')"
| "tab_labels Security = (ulit ''%u7CFB%u7EDF%u8BBE%u7F6E'', ulit ''%u5B89%u5168%u4E0E%u4FDD%u7559%u7B56%u7565'')"
| "tab_labels Requests = (ulit ''%u8BF7%u6C42%u65E5%u5FD7'', ulit ''%u8FFD%u8E2A API %u53C2%u6570%u3001%u8DEF%u7531%u8D26%u53F7%u3001%u6210%u672C%u9884%u4F30%u4E0E%u9519%u8BEF%u7801'')"
| "tab_labels Audit = (ulit ''%u5BA1%u8BA1%u65E5%u5FD7'', ulit ''%u67E5%u770B%u7BA1%u7406%u5458%u914D%u7F6E%u53D8%u66F4%u8BB0%u5F55'')"

definition tabFromPath :: "jstr \<Rightarrow> Tab" where
  "tabFromPath pathname =
     (case find (\<lambda>t. tabPaths t = pathname) tab_order of Some t \<Rightarrow> t | None \<Rightarrow> Overview)"

text \<open>The entries of the side bar, by group.\<close>

definition navigation :: "(jstr \<times> (Tab \<times> jstr) list) list" where
  "navigation =
     [(ulit ''%u8FD0%u8425'', [(Overview, ulit ''%u8FD0%u8425%u6982%u89C8''), (AccountsTab, ulit ''%u8D26%u53F7%u6C60''), (TasksTab, ulit ''%u4EFB%u52A1%u7BA1%u7406'')]),
      (ulit ''%u8D44%u6E90%u4E0E%u7B56%u7565'', [(Capacity, ulit ''%u7CFB%u7EDF%u5BB9%u91CF''), (Models, ulit ''%u6A21%u578B%u4E0E%u8BA1%u4EF7''), (Pricing, ulit ''%u6210%u672C%u4E0E%u552E%u4EF7''), (Keys, lit ''API Key'')]),
      (ulit ''%u53EF%u89C2%u6D4B%u6027'', [(Requests, ulit ''%u8BF7%u6C42%u65E5%u5FD7''), (Audit, ulit ''%u5BA1%u8BA1%u65E5%u5FD7'')]),
      (ulit ''%u5F00%u53D1%u5DE5%u5177'', [(PlaygroundTab, ulit ''%u6D4B%u8BD5%u4E2D%u5FC3''), (Docs, ulit ''%u63A5%u53E3%u6587%u6863''), (Security, ulit ''%u7CFB%u7EDF%u8BBE%u7F6E'')])]"

section \<open>The frame\<close>

record Dashboard =
  ds_path :: jstr
  ds_params :: params
  ds_navOpen :: bool
  ds_commandOpen :: bool
  ds_commandQuery :: jstr
  ds_refreshing :: bool
  ds_light :: bool
  ds_showAccount :: bool
  ds_editingAccount :: "Account option"
  ds_newKey :: jstr

definition ds_tab :: "Dashboard \<Rightarrow> Tab" where
  "ds_tab s = tabFromPath (ds_path s)"

text \<open>\<open>openTab\<close>: the address of the page with the given parameters; menu and palette are closed.\<close>

definition openTab :: "Tab \<Rightarrow> params \<Rightarrow> Dashboard \<Rightarrow> Dashboard" where
  "openTab t ps s = s\<lparr>ds_path := tabPaths t, ds_params := ps, ds_navOpen := False,
     ds_commandOpen := False, ds_commandQuery := []\<rparr>"

definition openTasks :: "jstr option \<Rightarrow> Dashboard \<Rightarrow> Dashboard" where
  "openTasks providerID = openTab TasksTab
     (if opt_str providerID \<noteq> [] then [(lit ''provider'', opt_str providerID)] else [])"

definition openTask :: "jstr \<Rightarrow> Dashboard \<Rightarrow> Dashboard" where
  "openTask i = openTab TasksTab [(lit ''search'', i)]"

definition openAccounts :: "jstr option \<Rightarrow> bool \<Rightarrow> Dashboard \<Rightarrow> Dashboard" where
  "openAccounts providerID attention = openTab AccountsTab
     ((if opt_str providerID \<noteq> [] then [(lit ''provider'', opt_str providerID)] else []) @
      (if attention then [(lit ''status'', lit ''attention'')] else []))"

datatype dashboard_event =
  OpenTab Tab
| OpenTasks "jstr option"
| OpenTask' jstr
| OpenAccounts "jstr option" bool
| Navigated jstr params
| PressControlK
| PressEscape
| OpenMenu
| CloseMenu
| OpenPalette bool
| TypeCommand jstr
| SwitchTheme
| Refresh
| Refreshed
| AddAccount
| EditAccount Account
| CloseAccount
| KeyCreated jstr
| CloseKey

text \<open>\<open>Navigated\<close> is an address typed by the user, with the effect that leads unknown ones to the overview.\<close>

fun dashboard_step :: "Dashboard \<Rightarrow> dashboard_event \<Rightarrow> Dashboard" where
  "dashboard_step s (OpenTab t) = openTab t [] s"
| "dashboard_step s (OpenTasks p) = openTasks p s"
| "dashboard_step s (OpenTask' i) = openTask i s"
| "dashboard_step s (OpenAccounts p attention) = openAccounts p attention s"
| "dashboard_step s (Navigated path ps) =
     (if path \<in> set (map tabPaths tab_order) then s\<lparr>ds_path := path, ds_params := ps\<rparr>
      else s\<lparr>ds_path := lit ''/'', ds_params := []\<rparr>)"
| "dashboard_step s PressControlK = s\<lparr>ds_commandOpen := True\<rparr>"
| "dashboard_step s PressEscape = s\<lparr>ds_commandOpen := False, ds_navOpen := False\<rparr>"
| "dashboard_step s OpenMenu = s\<lparr>ds_navOpen := True\<rparr>"
| "dashboard_step s CloseMenu = s\<lparr>ds_navOpen := False\<rparr>"
| "dashboard_step s (OpenPalette b) = s\<lparr>ds_commandOpen := b\<rparr>"
| "dashboard_step s (TypeCommand q) = (if ds_commandOpen s then s\<lparr>ds_commandQuery := q\<rparr> else s)"
| "dashboard_step s SwitchTheme = s\<lparr>ds_light := \<not> ds_light s\<rparr>"
| "dashboard_step s Refresh =
     (if ds_refreshing s \<or> refreshScopes (ds_tab s) = [] then s else s\<lparr>ds_refreshing := True\<rparr>)"
| "dashboard_step s Refreshed = s\<lparr>ds_refreshing := False\<rparr>"
| "dashboard_step s AddAccount =
     (if ds_tab s = AccountsTab then s\<lparr>ds_editingAccount := None, ds_showAccount := True\<rparr> else s)"
| "dashboard_step s (EditAccount a) = (if ds_tab s = AccountsTab then s\<lparr>ds_editingAccount := Some a\<rparr> else s)"
| "dashboard_step s CloseAccount = s\<lparr>ds_showAccount := False, ds_editingAccount := None\<rparr>"
| "dashboard_step s (KeyCreated k) = (if ds_tab s = Keys then s\<lparr>ds_newKey := k\<rparr> else s)"
| "dashboard_step s CloseKey = s\<lparr>ds_newKey := []\<rparr>"

text \<open>The account dialog: whether it is shown, and the account it edits.\<close>

definition account_dialog :: "Dashboard \<Rightarrow> Account option option" where
  "account_dialog s =
     (if ds_showAccount s \<or> ds_editingAccount s \<noteq> None then Some (ds_editingAccount s) else None)"

section \<open>The command palette\<close>

record CommandPaletteItem =
  ci_key :: jstr
  ci_label :: jstr
  ci_detail :: jstr
  ci_search :: bool
  ci_target :: "Tab \<times> params"

fun tab_id :: "Tab \<Rightarrow> jstr" where
  "tab_id Overview = lit ''overview''"
| "tab_id AccountsTab = lit ''accounts''"
| "tab_id TasksTab = lit ''tasks''"
| "tab_id Capacity = lit ''capacity''"
| "tab_id Keys = lit ''keys''"
| "tab_id PlaygroundTab = lit ''playground''"
| "tab_id Models = lit ''models''"
| "tab_id Pricing = lit ''pricing''"
| "tab_id Docs = lit ''docs''"
| "tab_id Security = lit ''security''"
| "tab_id Requests = lit ''requests''"
| "tab_id Audit = lit ''audit''"

definition commandSearchTargets :: "(Tab \<times> jstr) list" where
  "commandSearchTargets =
     [(AccountsTab, ulit ''%u5728%u8D26%u53F7%u6C60%u4E2D%u641C%u7D22''), (TasksTab, ulit ''%u5728%u4EFB%u52A1%u4E2D%u641C%u7D22''), (Requests, ulit ''%u5728%u8BF7%u6C42%u65E5%u5FD7%u4E2D%u641C%u7D22''),
      (Models, ulit ''%u5728%u6A21%u578B%u76EE%u5F55%u4E2D%u641C%u7D22'')]"

definition commandItems :: "jstr \<Rightarrow> CommandPaletteItem list" where
  "commandItems commandQuery =
     (let commandNeedle = to_lower (trim commandQuery) in
      (if commandNeedle \<noteq> [] then map (\<lambda>(t, label).
          \<lparr>ci_key = lit ''search-'' @ tab_id t, ci_label = label, ci_detail = trim commandQuery, ci_search = True,
           ci_target = (t, [(lit ''search'', trim commandQuery)])\<rparr>) commandSearchTargets else []) @
      map (\<lambda>(t, label). \<lparr>ci_key = tab_id t, ci_label = label, ci_detail = snd (tab_labels t), ci_search = False,
           ci_target = (t, [])\<rparr>)
        (filter (\<lambda>(t, label). str_includes (to_lower label) commandNeedle) (concat (map snd navigation))))"

section \<open>The overview\<close>

record ProviderCapacity =
  pc_provider_id :: jstr
  pc_display_name :: jstr
  pc_enabled :: bool
  pc_queued :: int
  pc_executing :: int
  pc_executing_images :: int
  pc_executing_videos :: int
  pc_executing_audio :: int
  pc_eligible_accounts :: int
  pc_eligible_execution_slots :: int
  pc_eligible_queue_slots :: int

record SystemCapacity =
  cap_max_executing :: int
  cap_max_queued :: int
  cap_queue_high_watermark :: int
  cap_queue_resume_watermark :: int
  cap_queue_timeout_seconds :: int
  cap_maintenance_mode :: bool
  cap_execution_paused :: bool
  cap_overload_active :: bool
  cap_revision :: int
  cap_updated_at :: jstr
  cap_queued :: int
  cap_executing :: int
  cap_executing_images :: int
  cap_executing_videos :: int
  cap_executing_audio :: int
  cap_eligible_accounts :: int
  cap_eligible_execution_slots :: int
  cap_eligible_queue_slots :: int
  cap_effective_execution_limit :: int
  cap_execution_headroom :: int
  cap_queue_headroom :: int
  cap_oldest_queued_seconds :: rat
  cap_providers :: "ProviderCapacity list"

record OverviewResponse =
  ov_accounts :: int
  ov_active_accounts :: int
  ov_task_counts :: "(jstr \<times> int) list"
  ov_task_total :: int
  ov_failed_last_hour :: int
  ov_provider_summaries :: "ProviderOverview list"

text \<open>The line at the foot of the side bar.\<close>

definition systemSignal :: "bool \<Rightarrow> SystemCapacity option \<Rightarrow> jstr \<times> jstr \<times> jstr" where
  "systemSignal failed capacity =
     (if failed then (lit ''failed'', ulit ''%u72B6%u6001%u68C0%u67E5%u5931%u8D25'', ulit ''%u70B9%u51FB%u5237%u65B0%u91CD%u65B0%u68C0%u67E5'')
      else case capacity of
          Some c \<Rightarrow>
            if cap_maintenance_mode c then (lit ''queued'', ulit ''%u7EF4%u62A4%u6392%u7A7A%u4E2D'', ulit ''%u73B0%u6709%u4EFB%u52A1%u7EE7%u7EED%u6267%u884C'')
            else if cap_execution_paused c then (lit ''queued'', ulit ''%u4EFB%u52A1%u6267%u884C%u5DF2%u6682%u505C'', ulit ''%u65B0%u4EFB%u52A1%u4FDD%u7559%u5728%u961F%u5217'')
            else if cap_overload_active c then (lit ''queued'', ulit ''%u8FC7%u8F7D%u4FDD%u62A4%u4E2D'', num_str (cap_queued c) @ ulit '' %u4E2A%u4EFB%u52A1%u7B49%u5F85'')
            else (lit ''active'', ulit ''%u7CFB%u7EDF%u8FD0%u884C%u6B63%u5E38'', ulit ''%u5BB9%u91CF%u4E0E%u6570%u636E%u5E93%u53EF%u7528'')
        | None \<Rightarrow> (lit ''active'', ulit ''%u7CFB%u7EDF%u8FD0%u884C%u6B63%u5E38'', ulit ''%u5BB9%u91CF%u4E0E%u6570%u636E%u5E93%u53EF%u7528''))"

text \<open>A number or, if it is 0 or not there, another one.\<close>

definition or_int :: "int option \<Rightarrow> int \<Rightarrow> int" where
  "or_int n d = (if nullish n 0 = 0 then d else nullish n 0)"

definition overview_active :: "Task list \<Rightarrow> int" where
  "overview_active tasks = int (length (filter (\<lambda>t. task_status t \<in>
     set [lit ''queued'', lit ''reserving'', lit ''uploading'', lit ''submitted'', lit ''polling'']) tasks))"

record OpsMetrics =
  om_active_accounts :: int
  om_accounts :: int
  om_unavailable :: int
  om_executing :: int
  om_executing_limit :: int
  om_headroom :: int
  om_queued :: int
  om_queued_limit :: int
  om_oldest_queued :: rat
  om_uncertain :: int
  om_failed_last_hour :: int
  om_platforms :: int
  om_serving :: int

definition ops_metrics :: "OverviewResponse option \<Rightarrow> Task list \<Rightarrow> SystemCapacity option \<Rightarrow> OpsMetrics" where
  "ops_metrics overview tasks capacity =
     (let activeAccounts = or_int (map_option ov_active_accounts overview) 0;
          accountCount = or_int (map_option ov_accounts overview) 0;
          summaries = nullish (map_option ov_provider_summaries overview) [];
          executing = or_int (map_option cap_executing capacity) (overview_active tasks);
          executingLimit = or_int (map_option cap_effective_execution_limit capacity) 100 in
      \<lparr>om_active_accounts = activeAccounts, om_accounts = accountCount,
       om_unavailable = accountCount - activeAccounts,
       om_executing = executing, om_executing_limit = executingLimit,
       om_headroom = max 0 (executingLimit - executing),
       om_queued = or_int (map_option cap_queued capacity)
         (int (length (filter (\<lambda>t. task_status t = lit ''queued'') tasks))),
       om_queued_limit = or_int (map_option cap_max_queued capacity) 1000,
       om_oldest_queued = nullish (map_option cap_oldest_queued_seconds capacity) 0,
       om_uncertain = sum_list (map pov_submission_uncertain summaries),
       om_failed_last_hour = or_int (map_option ov_failed_last_hour overview) 0,
       om_platforms = int (length summaries),
       om_serving = int (length (filter pov_enabled summaries))\<rparr>)"

definition status_count :: "OverviewResponse option \<Rightarrow> jstr \<Rightarrow> int" where
  "status_count overview status = or_int (map_of (nullish (map_option ov_task_counts overview) []) status) 0"

definition queueSegments :: "OverviewResponse option \<Rightarrow> (jstr \<times> int) list" where
  "queueSegments overview =
     [(lit ''succeeded'', status_count overview (lit ''succeeded'')),
      (lit ''polling'', sum_list (map (status_count overview) [lit ''reserving'', lit ''uploading'', lit ''submitted'', lit ''polling''])),
      (lit ''queued'', status_count overview (lit ''queued'')),
      (lit ''failed'', status_count overview (lit ''failed'')),
      (lit ''submission_uncertain'', status_count overview (lit ''submission_uncertain''))]"

definition segment_max :: "(jstr \<times> int) list \<Rightarrow> int" where
  "segment_max segments = fold max (map snd segments) 1"

text \<open>The width of a bar, in percent.\<close>

definition segment_width :: "(jstr \<times> int) list \<Rightarrow> jstr \<times> int \<Rightarrow> rat" where
  "segment_width segments segment =
     (if snd segment \<noteq> 0 then max 4 (of_int (snd segment) / of_int (segment_max segments) * 100) else 0)"

definition provider_health :: "ProviderOverview \<Rightarrow> jstr" where
  "provider_health provider =
     (if pov_enabled provider then
        (if 0 < pov_active_accounts provider \<and> pov_submission_uncertain provider = 0 then ulit ''%u53EF%u8C03%u5EA6'' else ulit ''%u9700%u8981%u5173%u6CE8'')
      else ulit ''%u5DF2%u505C%u7528'')"

text \<open>The result column of the recent tasks, which has its own copy of the task page's text.\<close>

definition overview_resultSummary :: "(rat \<Rightarrow> jstr) \<Rightarrow> Task \<Rightarrow> jstr res" where
  "overview_resultSummary num task =
     (if task_status task = lit ''failed'' then Inr (or_str (opt_str (task_error_message task)) (ulit ''%u4EFB%u52A1%u6267%u884C%u5931%u8D25''))
      else if task_status task = lit ''succeeded'' then
        (let count = (case task_result task of None \<Rightarrow> 0 | Some r \<Rightarrow> length (nullish (tr_data r) []));
             warning = (if (case task_result task of None \<Rightarrow> False
                 | Some r \<Rightarrow> tr_nsfw r = Some True \<or> list_ex (\<lambda>output. to_nsfw output = Some True) (nullish (tr_data r) []))
               then ulit '' %u00B7 %u663E%u5F0F%u5185%u5BB9%u8B66%u544A'' else []) in
         Inr (if count \<noteq> 0 then ulit ''%u5DF2%u751F%u6210 '' @ num_str (int count) @ ulit '' %u4E2A%u7ED3%u679C'' @ warning else ulit ''%u751F%u6210%u5B8C%u6210'' @ warning))
      else if task_status task = lit ''cancelled'' then Inr (ulit ''%u4EFB%u52A1%u5DF2%u53D6%u6D88%uFF0C%u672A%u751F%u6210%u5185%u5BB9'')
      else if task_status task = lit ''submission_uncertain'' then
        Inr (or_str (opt_str (task_error_message task)) (ulit ''%u4E0A%u6E38%u63D0%u4EA4%u72B6%u6001%u672A%u77E5''))
      else if task_status task = lit ''queued'' \<and> nullish (task_queue_position task) 0 \<noteq> 0 then
        Inr (ulit ''%u6392%u961F%u4E2D %u00B7 %u7B2C '' @ num (the (task_queue_position task)) @ ulit '' %u4F4D'')
      else statusText (task_status task))"

section \<open>Properties\<close>

text \<open>The login form is shown exactly when the gateway answers the session check with 401; the
  dashboard exactly when it answers with success; anything else shows its error.\<close>

theorem login_shown_on_401:
  "(AdminApp (session_answer (api text_of answer)) = LoginForm \<longleftrightarrow> (\<exists>r. answer = Inr r \<and> rs_status r = 401)) \<and>
   (AdminApp (session_answer (api text_of answer)) = DashboardPage \<longleftrightarrow>
      (\<exists>r. answer = Inr r \<and> 200 \<le> rs_status r \<and> rs_status r \<le> 299)) \<and>
   (\<forall>m. answer = Inl m \<longrightarrow> AdminApp (session_answer (api text_of answer)) = SessionFailed m)"
  by (cases answer) (auto simp: AdminApp_def session_answer_def api_def rs_ok_def)

lemma tab_in_order [simp]: "t \<in> set tab_order"
  by (cases t) (simp_all add: tab_order_def)

lemma tabPaths_inject: "tabPaths a = tabPaths b \<longleftrightarrow> a = b"
  by (cases a; cases b) simp_all

lemma tabFromPath_tabPaths [simp]: "tabFromPath (tabPaths t) = t"
proof -
  have "find (\<lambda>u. tabPaths u = tabPaths t) tab_order = Some t"
    unfolding tabPaths_inject by (cases t) (simp_all add: tab_order_def)
  then show ?thesis by (simp add: tabFromPath_def)
qed

lemmas tabFromPath_names [simp] =
  tabFromPath_tabPaths [of Overview, unfolded tabPaths.simps]
  tabFromPath_tabPaths [of AccountsTab, unfolded tabPaths.simps]
  tabFromPath_tabPaths [of TasksTab, unfolded tabPaths.simps]

text \<open>Every page is opened by its own address, and whatever is typed as the address or pressed,
  the page shown is that of the address, which is one of the known ones.\<close>

definition dashboard_ok :: "Dashboard \<Rightarrow> bool" where
  "dashboard_ok s \<longleftrightarrow> ds_path s = tabPaths (ds_tab s)"

interpretation dashboard: guarded_machine dashboard_step dashboard_ok "\<lambda>_. True"
proof
  fix s e assume "dashboard_ok s"
  then show "dashboard_ok (dashboard_step s e)"
  proof (cases e)
    case (Navigated path ps)
    then show ?thesis by (auto simp: dashboard_ok_def ds_tab_def)
  qed (auto simp: dashboard_ok_def ds_tab_def openTab_def openTasks_def openTask_def openAccounts_def)
qed

text \<open>The links of the overview arrive: the task list opened for a task is asked for exactly its id as
  the search text (in lower case) and no other filter; the account list opened for a provider with
  problems is asked for that provider and the accounts that need attention.\<close>

theorem overview_links_arrive:
  assumes "trim i = i" "i \<noteq> []" "provider \<noteq> []" "provider \<noteq> lit ''all''"
    and "s' = dashboard_step s (OpenTask' i)" "a' = dashboard_step s (OpenAccounts (Some provider) True)"
    and "search = to_lower (trim (opt_str (param_get (ds_params s') (lit ''search''))))"
    and "tasks_query utc localtime 1 20 (ds_params s') search = Inr q"
  shows "ds_tab s' = TasksTab \<and> ds_tab a' = AccountsTab \<and>
    q = [(lit ''page'', lit ''1''), (lit ''page_size'', lit ''20''), (lit ''search'', to_lower i)] \<and>
    accounts_query 1 20 (ds_params a') =
      [(lit ''page'', lit ''1''), (lit ''page_size'', lit ''20''), (lit ''status'', lit ''attention''), (lit ''provider'', provider)]"
proof -
  have tabs: "ds_tab s' = TasksTab" "ds_tab a' = AccountsTab"
    by (simp_all add: assms(5,6) ds_tab_def openTask_def openAccounts_def openTab_def)
  have params: "ds_params s' = [(lit ''search'', i)]" "ds_params a' = [(lit ''provider'', provider), (lit ''status'', lit ''attention'')]"
    using assms(3) by (simp_all add: assms(5,6) openTask_def openAccounts_def openTab_def)
  have lower: "to_lower i \<noteq> []" using assms(2) by (cases i) (auto simp: to_lower_def lower_char_def)
  have number: "num_str 1 = lit ''1''" "num_str 20 = lit ''20''" by code_simp+
  show ?thesis
    using assms(1,3,4,8) lower tabs number
    by (auto simp: assms(7) params tasks_query_def accounts_query_def task_filter_def filter_value_def
        param_get_def or_str_def Let_def appendLocalDateRange_def)
qed


theorem overview_links_arrive_witness:
  "tasks_query (\<lambda>t. t) (\<lambda>t. t) 1 20 [(lit ''search'', lit ''Task-1'')] (lit ''task-1'') =
     Inr [(lit ''page'', lit ''1''), (lit ''page_size'', lit ''20''), (lit ''search'', lit ''task-1'')]"
proof -
  let ?s = "\<lparr>ds_path = lit ''/'', ds_params = [], ds_navOpen = False, ds_commandOpen = False, ds_commandQuery = [],
    ds_refreshing = False, ds_light = False, ds_showAccount = False, ds_editingAccount = None, ds_newKey = []\<rparr>"
  have params: "ds_params (dashboard_step ?s (OpenTask' (lit ''Task-1''))) = [(lit ''search'', lit ''Task-1'')]"
    by (simp add: openTask_def openTab_def)
  have query: "tasks_query (\<lambda>t. t) (\<lambda>t. t) 1 20 (ds_params (dashboard_step ?s (OpenTask' (lit ''Task-1'')))) (lit ''task-1'') =
      Inr [(lit ''page'', lit ''1''), (lit ''page_size'', lit ''20''), (lit ''search'', lit ''task-1'')]"
    unfolding params by code_simp
  have search: "lit ''task-1'' = to_lower (trim (opt_str (param_get (ds_params (dashboard_step ?s (OpenTask' (lit ''Task-1'')))) (lit ''search''))))"
    unfolding params by code_simp
  have "trim (lit ''Task-1'') = lit ''Task-1''" by code_simp
  from overview_links_arrive [OF this _ _ _ refl refl search query, of "lit ''adobe''"] query show ?thesis
    unfolding params by simp
qed

text \<open>The page in the address bar is the one that is shown, whatever is done, from any known address.\<close>

theorem page_follows_address:
  assumes "ds_path s0 = tabPaths t"
  shows "ds_path (foldl dashboard_step s0 es) = tabPaths (ds_tab (foldl dashboard_step s0 es)) \<and>
    (path \<notin> range tabPaths \<longrightarrow> ds_tab (dashboard_step s0 (Navigated path ps)) = Overview)"
proof -
  have "dashboard_ok s0" using assms by (simp add: dashboard_ok_def ds_tab_def)
  from dashboard.ok_run [OF this, of es] show ?thesis
    by (auto simp: dashboard_ok_def ds_tab_def list_all_iff)
qed

theorem page_follows_address_witness:
  "ds_tab (dashboard_step \<lparr>ds_path = lit ''/'', ds_params = [], ds_navOpen = False, ds_commandOpen = False,
     ds_commandQuery = [], ds_refreshing = False, ds_light = False, ds_showAccount = False,
     ds_editingAccount = None, ds_newKey = []\<rparr> (Navigated (lit ''/nowhere'') [])) = Overview"
proof -
  have "lit ''/nowhere'' \<notin> range tabPaths"
  proof
    assume "lit ''/nowhere'' \<in> range tabPaths"
    then obtain t where "lit ''/nowhere'' = tabPaths t" by blast
    then show False by (cases t) simp_all
  qed
  then show ?thesis
    using page_follows_address [of "\<lparr>ds_path = lit ''/'', ds_params = [], ds_navOpen = False, ds_commandOpen = False,
     ds_commandQuery = [], ds_refreshing = False, ds_light = False, ds_showAccount = False,
     ds_editingAccount = None, ds_newKey = []\<rparr>" Overview "[]" "lit ''/nowhere''" "[]"] by simp
qed

text \<open>When the gateway reports that nothing is being executed, the overview shows the number of
  unfinished recent tasks as being executed instead, queued ones included, and takes it from the
  free capacity; the same number appears when the capacity is not known.\<close>

theorem idle_execution_misreported:
  assumes "cap_executing c = 0" "0 < cap_effective_execution_limit c"
    and "tasks = replicate n t" "task_status t = lit ''queued''"
  shows "om_executing (ops_metrics overview tasks (Some c)) = int n \<and>
    om_headroom (ops_metrics overview tasks (Some c)) = max 0 (cap_effective_execution_limit c - int n) \<and>
    om_executing (ops_metrics overview tasks None) = int n"
  using assms by (simp add: ops_metrics_def or_int_def overview_active_def Let_def)

definition idle_capacity :: SystemCapacity where
  "idle_capacity =
     \<lparr>cap_max_executing = 10, cap_max_queued = 100, cap_queue_high_watermark = 90,
      cap_queue_resume_watermark = 50, cap_queue_timeout_seconds = 600, cap_maintenance_mode = False,
      cap_execution_paused = True, cap_overload_active = False, cap_revision = 1, cap_updated_at = [],
      cap_queued = 6, cap_executing = 0, cap_executing_images = 0, cap_executing_videos = 0,
      cap_executing_audio = 0, cap_eligible_accounts = 1, cap_eligible_execution_slots = 10,
      cap_eligible_queue_slots = 10, cap_effective_execution_limit = 10, cap_execution_headroom = 10,
      cap_queue_headroom = 94, cap_oldest_queued_seconds = 5, cap_providers = []\<rparr>"

theorem idle_execution_misreported_witness:
  "om_executing (ops_metrics None (replicate 6 ((sample_task (lit ''a''))\<lparr>task_status := lit ''queued''\<rparr>)) (Some idle_capacity)) = 6"
  using idle_execution_misreported [of idle_capacity _ 6 "(sample_task (lit ''a''))\<lparr>task_status := lit ''queued''\<rparr>", OF _ _ refl]
  by (simp add: idle_capacity_def)

lemma fold_max_bound: "x \<in> set xs \<Longrightarrow> x \<le> fold max xs (a :: int)" "a \<le> fold max xs a"
proof (induction xs arbitrary: a)
  case (Cons y ys)
  { case 1 then show ?case using Cons.IH(1) [of "max y a"] Cons.IH(2) [of "max y a"] by auto
  next case 2 then show ?case using Cons.IH(2) [of "max y a"] by simp }
qed simp_all

text \<open>C37: The bars of the task queue keep their proportions: with counts that are not negative every
  width is between 0 and 100 percent, empty exactly for a count of 0, and a larger count never has a
  narrower bar.\<close>

theorem queue_bars_proportional:
  assumes "\<forall>status. 0 \<le> status_count overview status"
    and "a \<in> set (queueSegments overview)" "b \<in> set (queueSegments overview)"
  shows "0 \<le> segment_width (queueSegments overview) a \<and> segment_width (queueSegments overview) a \<le> 100 \<and>
    (segment_width (queueSegments overview) a = 0 \<longleftrightarrow> snd a = 0) \<and>
    (snd a \<le> snd b \<longrightarrow> segment_width (queueSegments overview) a \<le> segment_width (queueSegments overview) b)"
proof -
  let ?m = "segment_max (queueSegments overview)"
  have nonneg: "0 \<le> snd x" if "x \<in> set (queueSegments overview)" for x
    using that assms(1) by (auto simp: queueSegments_def)
  have max: "snd x \<le> ?m" if "x \<in> set (queueSegments overview)" for x
    unfolding segment_max_def by (rule fold_max_bound(1)) (use that in simp)
  have pos: "1 \<le> ?m" unfolding segment_max_def by (rule fold_max_bound(2))
  have share: "of_int (snd x) / of_int ?m * 100 \<le> (100 :: rat)" if "x \<in> set (queueSegments overview)" for x
    using max [OF that] pos by (simp add: divide_le_eq)
  have "of_int (snd a) / of_int ?m * 100 \<le> of_int (snd b) / of_int ?m * (100 :: rat)" if "snd a \<le> snd b"
    using that pos by (simp add: divide_right_mono)
  then show ?thesis
    using nonneg [OF assms(2)] nonneg [OF assms(3)] share [OF assms(2)]
    by (auto simp: segment_width_def max_def)
qed

theorem queue_bars_proportional_witness:
  "segment_width (queueSegments (Some \<lparr>ov_accounts = 1, ov_active_accounts = 1, ov_task_counts = [(lit ''queued'', 3)],
     ov_task_total = 3, ov_failed_last_hour = 0, ov_provider_summaries = []\<rparr>)) (lit ''queued'', 3) \<le> 100"
proof -
  let ?o = "Some \<lparr>ov_accounts = 1, ov_active_accounts = 1, ov_task_counts = [(lit ''queued'', 3)],
     ov_task_total = 3, ov_failed_last_hour = 0, ov_provider_summaries = []\<rparr>"
  have "\<forall>status. 0 \<le> status_count ?o status" by (auto simp: status_count_def or_int_def)
  moreover have "(lit ''queued'', 3) \<in> set (queueSegments ?o)"
    by (simp add: queueSegments_def status_count_def or_int_def)
  ultimately show ?thesis using queue_bars_proportional by blast
qed

text \<open>The two copies of the result text agree: a task is summed up on the overview as on the task
  page.\<close>

theorem overview_summary_agrees: "overview_resultSummary num t = taskResultSummary num t"
  by (simp add: overview_resultSummary_def taskResultSummary_def resultHasContentWarning_def list_ex_iff
      split: option.splits)

lemma trim_trim [simp]: "trim (trim s) = trim s"
proof -
  define xs where "xs = dropWhile is_space s"
  have trim: "trim s = rev (dropWhile is_space (rev xs))" by (simp add: trim_def xs_def)
  obtain ys where ys: "rev xs = ys @ dropWhile is_space (rev xs)"
    by (metis takeWhile_dropWhile_id)
  then have xs: "xs = trim s @ rev ys" by (metis rev_append rev_rev_ident trim)
  have "dropWhile is_space (trim s) = trim s"
  proof (cases "trim s")
    case (Cons c cs)
    then have "xs \<noteq> []" "hd xs = c" using xs by auto
    then have "\<not> is_space c" unfolding xs_def using hd_dropWhile by metis
    then show ?thesis by (simp add: Cons)
  qed simp
  then show ?thesis unfolding trim_def [of "trim s"] by (simp add: trim)
qed

text \<open>Every entry of the command palette leads to its page: the search entries, there exactly when
  something was typed, carry the typed text as the search filter of their page, which for the task list
  and the account list is what these are then asked for.\<close>

theorem palette_searches:
  assumes "item \<in> set (commandItems commandQuery)" "ci_search item"
    and "s' = openTab (fst (ci_target item)) (snd (ci_target item)) s"
  shows "trim commandQuery \<noteq> [] \<and> ds_tab s' \<in> {AccountsTab, TasksTab, Requests, Models} \<and>
    param_get (ds_params s') (lit ''search'') = Some (trim commandQuery) \<and> \<not> ds_commandOpen s' \<and>
    param_get (accounts_query 1 20 (ds_params s')) (lit ''search'') = Some (trim commandQuery)"
proof -
  have "to_lower (trim commandQuery) \<noteq> []" using assms(1,2)
    by (auto simp: commandItems_def Let_def split: if_splits)
  then have typed: "trim commandQuery \<noteq> []" by (auto simp: to_lower_def)
  have target: "fst (ci_target item) \<in> {AccountsTab, TasksTab, Requests, Models}"
    "snd (ci_target item) = [(lit ''search'', trim commandQuery)]"
    using assms(1,2) by (auto simp: commandItems_def Let_def commandSearchTargets_def split: if_splits)
  then show ?thesis
    using typed by (simp add: assms(3) openTab_def ds_tab_def param_get_def accounts_query_def Let_def
        filter_value_def or_str_def)
qed


theorem palette_searches_witness:
  "trim (lit ''a1'') \<noteq> [] \<and> \<lparr>ci_key = lit ''search-tasks'', ci_label = ulit ''%u5728%u4EFB%u52A1%u4E2D%u641C%u7D22'', ci_detail = lit ''a1'', ci_search = True,
     ci_target = (TasksTab, [(lit ''search'', lit ''a1'')])\<rparr> \<in> set (commandItems (lit ''a1''))"
proof -
  let ?item = "\<lparr>ci_key = lit ''search-tasks'', ci_label = ulit ''%u5728%u4EFB%u52A1%u4E2D%u641C%u7D22'', ci_detail = lit ''a1'', ci_search = True,
     ci_target = (TasksTab, [(lit ''search'', lit ''a1'')])\<rparr>"
  have "trim (lit ''a1'') = lit ''a1''" "to_lower (lit ''a1'') \<noteq> []" "lit ''search-'' @ lit ''tasks'' = lit ''search-tasks''" by code_simp+
  then have item: "?item \<in> set (commandItems (lit ''a1''))"
    by (simp add: commandItems_def Let_def commandSearchTargets_def)
  then show ?thesis using palette_searches [OF item _ refl] by simp
qed

end
