(* ===== verification/ApiKeys.thy ===== *)
theory ApiKeys
  imports StatusText Paging
begin

text \<open>
  The API key page (pages/api-key-page.tsx): the list of keys and what it counts, permissions and
  their labels, and the dialog that creates a key.
\<close>

record APIKeyRecord =
  ak_id :: jstr
  ak_name :: jstr
  ak_description :: jstr
  ak_prefix :: jstr
  ak_enabled :: bool
  ak_concurrency_limit :: int
  ak_allowed_models :: "jstr list option"
  ak_request_count :: int
  ak_created_at :: jstr
  ak_last_used_at :: "jstr option"
  ak_expires_at :: "jstr option"

section \<open>Permissions\<close>

definition permissionID :: "jstr \<Rightarrow> jstr \<Rightarrow> jstr" where
  "permissionID providerID model = providerID @ lit '':'' @ model"

definition permissionLabel :: "jstr \<Rightarrow> Provider list \<Rightarrow> jstr res" where
  "permissionLabel permission providers =
     (let separator = index_of permission 58 in
      if separator < 0 then Inr permission
      else
        let provider = take (nat separator) permission; model = drop (nat separator + 1) permission in
        bindr (providerDisplayName provider providers) (\<lambda>name. Inr (name @ ulit '' %u00B7 '' @ model)))"

section \<open>The list\<close>

text \<open>A comparison with a date that cannot be read is false.\<close>

definition expires_time :: "(int \<Rightarrow> int) \<Rightarrow> APIKeyRecord \<Rightarrow> int option" where
  "expires_time utc k = date_time utc (opt_str (ak_expires_at k))"

definition key_expired :: "(int \<Rightarrow> int) \<Rightarrow> int \<Rightarrow> APIKeyRecord \<Rightarrow> bool" where
  "key_expired utc now k \<longleftrightarrow> opt_str (ak_expires_at k) \<noteq> [] \<and>
     (case expires_time utc k of None \<Rightarrow> False | Some t \<Rightarrow> t \<le> now)"

definition key_usable :: "(int \<Rightarrow> int) \<Rightarrow> int \<Rightarrow> APIKeyRecord \<Rightarrow> bool" where
  "key_usable utc now k \<longleftrightarrow> ak_enabled k \<and> (opt_str (ak_expires_at k) = [] \<or>
     (case expires_time utc k of None \<Rightarrow> False | Some t \<Rightarrow> now < t))"

record KeyStats =
  ks_rows :: nat
  ks_enabled :: nat
  ks_concurrency :: int
  ks_requests :: int

definition key_stats :: "(int \<Rightarrow> int) \<Rightarrow> int \<Rightarrow> APIKeyRecord list \<Rightarrow> KeyStats" where
  "key_stats utc now data =
     \<lparr>ks_rows = length data, ks_enabled = length (filter (key_usable utc now) data),
      ks_concurrency = fold (\<lambda>k sum. sum + ak_concurrency_limit k) data 0,
      ks_requests = fold (\<lambda>k sum. sum + ak_request_count k) data 0\<rparr>"

record KeyRow =
  kr_usage :: jstr
  kr_models :: nat
  kr_models_text :: jstr
  kr_status :: jstr
  kr_label :: jstr
  kr_expiry :: jstr
  kr_toggle_enabled :: bool

definition key_row ::
    "(int \<Rightarrow> int) \<Rightarrow> (int option \<Rightarrow> jstr) \<Rightarrow> int \<Rightarrow> Provider list \<Rightarrow> bool \<Rightarrow> APIKeyRecord \<Rightarrow> KeyRow res" where
  "key_row utc day now providers togglePending k =
     (let expired = key_expired utc now k; models = nullish (ak_allowed_models k) [] in
      bindr (mapr (\<lambda>permission. permissionLabel permission providers) (take 2 models)) (\<lambda>labels.
      Inr \<lparr>kr_usage = ak_prefix k @ ulit ''%u2026 %u00B7 '' @ or_str (ak_description k) (ulit ''%u672A%u586B%u5199%u7528%u9014''),
        kr_models = length models,
        kr_models_text = js_join (ulit ''%u3001'') labels @ (if 2 < length models then ulit ''%u2026'' else []),
        kr_status = (if expired then lit ''invalid'' else if ak_enabled k then lit ''active'' else lit ''disabled''),
        kr_label = (if expired then ulit ''%u5DF2%u8FC7%u671F'' else if ak_enabled k then ulit ''%u5DF2%u542F%u7528'' else ulit ''%u5DF2%u7981%u7528''),
        kr_expiry = (if opt_str (ak_expires_at k) \<noteq> [] then day (expires_time utc k) @ ulit '' %u5230%u671F'' else ulit ''%u6C38%u4E0D%u8FC7%u671F''),
        kr_toggle_enabled = (\<not> (expired \<or> togglePending))\<rparr>))"

record KeysPage =
  kp_page :: nat
  kp_pageSize :: nat
  kp_search :: jstr
  kp_showCreate :: bool
  kp_deleteTarget :: "APIKeyRecord option"
  kp_newKey :: jstr

datatype keys_event =
  SearchKeys jstr
| GoToKeysPage nat
| SetKeysPageSize nat
| OpenCreate
| CloseCreate
| KeyWasCreated jstr
| AskDelete APIKeyRecord
| CancelDelete
| KeyDeleted
| KeysAnswered nat

fun keys_step :: "KeysPage \<Rightarrow> keys_event \<Rightarrow> KeysPage" where
  "keys_step s (SearchKeys q) = s\<lparr>kp_search := q, kp_page := 1\<rparr>"
| "keys_step s (GoToKeysPage n) = s\<lparr>kp_page := n\<rparr>"
| "keys_step s (SetKeysPageSize n) = s\<lparr>kp_pageSize := n, kp_page := 1\<rparr>"
| "keys_step s OpenCreate = s\<lparr>kp_showCreate := True\<rparr>"
| "keys_step s CloseCreate = s\<lparr>kp_showCreate := False\<rparr>"
| "keys_step s (KeyWasCreated k) = s\<lparr>kp_showCreate := False, kp_newKey := k, kp_page := 1\<rparr>"
| "keys_step s (AskDelete k) = s\<lparr>kp_deleteTarget := Some k\<rparr>"
| "keys_step s CancelDelete = s\<lparr>kp_deleteTarget := None\<rparr>"
| "keys_step s KeyDeleted = s\<lparr>kp_deleteTarget := None\<rparr>"
| "keys_step s (KeysAnswered n) = s\<lparr>kp_page := clampPage (kp_page s) (totalPages n (kp_pageSize s))\<rparr>"

section \<open>Creating a key\<close>

definition allKeyModels :: "KeyModelGroup list \<Rightarrow> jstr list" where
  "allKeyModels groups = concat (map (\<lambda>group. map (permissionID (kmg_provider_id group)) (kmg_models group)) groups)"

record KeyForm =
  kf_name :: jstr
  kf_description :: jstr
  kf_concurrency_limit :: rat
  kf_expires_in_days :: int
  kf_allowed_models :: "jstr list"

text \<open>The form as the dialog opens, with the groups of that moment.\<close>

definition initial_key_form :: "KeyModelGroup list \<Rightarrow> KeyForm" where
  "initial_key_form groups = \<lparr>kf_name = [], kf_description = [], kf_concurrency_limit = 20,
     kf_expires_in_days = 0, kf_allowed_models = allKeyModels groups\<rparr>"

definition toggleModel :: "jstr \<Rightarrow> KeyForm \<Rightarrow> KeyForm" where
  "toggleModel model form = form\<lparr>kf_allowed_models :=
     (if model \<in> set (kf_allowed_models form) then filter (\<lambda>v. v \<noteq> model) (kf_allowed_models form)
      else kf_allowed_models form @ [model])\<rparr>"

datatype key_event =
  TypeKeyName jstr
| TypeKeyDescription jstr
| TypeKeyConcurrency rat
| ChooseExpiry int
| ToggleKeyModel jstr

text \<open>One control of the form; \<open>groups\<close> are those the dialog shows at that moment.\<close>

fun key_form_step :: "KeyModelGroup list \<Rightarrow> KeyForm \<Rightarrow> key_event \<Rightarrow> KeyForm" where
  "key_form_step groups form (TypeKeyName v) = form\<lparr>kf_name := v\<rparr>"
| "key_form_step groups form (TypeKeyDescription v) = form\<lparr>kf_description := v\<rparr>"
| "key_form_step groups form (TypeKeyConcurrency v) = form\<lparr>kf_concurrency_limit := v\<rparr>"
| "key_form_step groups form (ChooseExpiry d) =
     (if d \<in> {0, 7, 30, 90, 365} then form\<lparr>kf_expires_in_days := d\<rparr> else form)"
| "key_form_step groups form (ToggleKeyModel p) =
     (if p \<in> set (allKeyModels groups) then toggleModel p form else form)"

text \<open>
  What the browser checks before it submits the form: the name is there, texts are within their
  limits, and the limit is a whole number of its range.
\<close>

definition key_inputs_valid :: "KeyForm \<Rightarrow> bool" where
  "key_inputs_valid form \<longleftrightarrow> kf_name form \<noteq> [] \<and> length (kf_name form) \<le> 80 \<and> length (kf_description form) \<le> 240 \<and>
     kf_concurrency_limit form = of_int \<lfloor>kf_concurrency_limit form\<rfloor> \<and>
     1 \<le> kf_concurrency_limit form \<and> kf_concurrency_limit form \<le> 1000"

definition create_disabled :: "bool \<Rightarrow> KeyForm \<Rightarrow> bool" where
  "create_disabled pending form \<longleftrightarrow> pending \<or> trim (kf_name form) = [] \<or> length (kf_allowed_models form) = 0"

text \<open>The form that is sent, if it can be.\<close>

definition submit_key :: "bool \<Rightarrow> KeyForm \<Rightarrow> KeyForm option" where
  "submit_key pending form = (if create_disabled pending form \<or> \<not> key_inputs_valid form then None else Some form)"

section \<open>Properties\<close>

lemma index_of_append: "c \<notin> set xs \<Longrightarrow> index_of (xs @ c # ys) c = int (length xs)"
  by (induction xs) auto

lemma colon_split:
  "58 \<notin> set p \<Longrightarrow> 58 \<notin> set q \<Longrightarrow> p @ 58 # m = q @ 58 # n \<longleftrightarrow> p = q \<and> m = (n :: jstr)"
proof (induction p arbitrary: q)
  case Nil
  then show ?case by (cases q) auto
next
  case (Cons c p)
  then show ?case by (cases q) auto
qed

text \<open>A permission is shown as the display name of its provider and its model, also when the
  model's name has a colon; different permissions of providers without one are different texts.\<close>

theorem permission_label_splits:
  assumes "58 \<notin> set provider"
  shows "permissionLabel (permissionID provider model) providers =
      bindr (providerDisplayName provider providers) (\<lambda>name. Inr (name @ ulit '' %u00B7 '' @ model)) \<and>
    (58 \<notin> set provider' \<longrightarrow> permissionID provider model = permissionID provider' model' \<longrightarrow>
      provider = provider' \<and> model = model')"
proof -
  have id: "permissionID q m = q @ 58 # m" for q m by (simp add: permissionID_def lit_Cons)
  have "provider = provider' \<and> model = model'"
    if "58 \<notin> set provider'" "provider @ 58 # model = provider' @ 58 # model'"
    using that assms by (simp add: colon_split)
  then show ?thesis
    using index_of_append [OF assms, of model] by (simp add: permissionLabel_def id Let_def)
qed

theorem permission_label_splits_witness:
  "permissionLabel (lit ''adobe:veo-3.1'') [] = bindr (providerDisplayName (lit ''adobe'') []) (\<lambda>name. Inr (name @ ulit '' %u00B7 '' @ lit ''veo-3.1''))"
proof -
  have "permissionID (lit ''adobe'') (lit ''veo-3.1'') = lit ''adobe:veo-3.1''" by (simp add: permissionID_def lit_append [symmetric])
  then show ?thesis
    using permission_label_splits [of "lit ''adobe''" "lit ''veo-3.1''" "[]", THEN conjunct1] by simp
qed

text \<open>How often a permission's box was pressed.\<close>

definition presses :: "jstr \<Rightarrow> key_event list \<Rightarrow> nat" where
  "presses p es = length (filter (\<lambda>e. e = ToggleKeyModel p) es)"

lemma allowed_after:
  "p \<in> set (kf_allowed_models (foldl (key_form_step groups) form es)) \<longleftrightarrow>
     (if p \<in> set (allKeyModels groups) \<and> odd (presses p es) then p \<notin> set (kf_allowed_models form)
      else p \<in> set (kf_allowed_models form))"
proof (induction es rule: rev_induct)
  case (snoc e es)
  then show ?case
    by (cases e) (auto simp: presses_def toggleModel_def)
qed (simp add: presses_def)

definition expiry_ok :: "KeyForm \<Rightarrow> bool" where
  "expiry_ok form \<longleftrightarrow> kf_expires_in_days form \<in> {0, 7, 30, 90, 365}"

interpretation key_form: guarded_machine "key_form_step groups" expiry_ok "\<lambda>_. True" for groups
proof
  fix s e assume "expiry_ok s"
  then show "expiry_ok (key_form_step groups s e)" by (cases e) (auto simp: expiry_ok_def toggleModel_def)
qed


definition sample_groups :: "KeyModelGroup list" where
  "sample_groups = [\<lparr>kmg_provider_id = lit ''adobe'', kmg_label = [], kmg_kind = Video, kmg_models = [lit ''a'', lit ''b'']\<rparr>]"


text \<open>The dialog keeps the permissions of the moment it was opened: if the models change while it is
  open, as when the providers are loaded after it, a permission that is no longer shown stays in the
  request whatever is pressed, and one that is new is not allowed until it is pressed.\<close>

theorem key_dialog_keeps_stale_permissions:
  assumes "p \<in> set (allKeyModels groups)" "p \<notin> set (allKeyModels shown)"
    and "n \<notin> set (allKeyModels groups)" "presses n es = 0"
    and "submit_key pending (foldl (key_form_step shown) (initial_key_form groups) es) = Some request"
  shows "p \<in> set (kf_allowed_models request) \<and> n \<notin> set (kf_allowed_models request)"
proof -
  have "request = foldl (key_form_step shown) (initial_key_form groups) es"
    using assms(5) by (auto simp: submit_key_def split: if_splits)
  then show ?thesis using assms(1-4) by (simp add: allowed_after initial_key_form_def)
qed

theorem key_dialog_keeps_stale_permissions_witness:
  "\<exists>request. submit_key False (foldl (key_form_step []) (initial_key_form sample_groups) [TypeKeyName (lit ''k'')]) = Some request \<and>
     lit ''adobe:a'' \<in> set (kf_allowed_models request)"
proof -
  have "\<exists>request. submit_key False (foldl (key_form_step []) (initial_key_form sample_groups) [TypeKeyName (lit ''k'')]) = Some request"
    unfolding submit_key_def create_disabled_def key_inputs_valid_def
    by (simp add: initial_key_form_def sample_groups_def allKeyModels_def trim_def lit_def is_space_def)
  then obtain request where
    r: "submit_key False (foldl (key_form_step []) (initial_key_form sample_groups) [TypeKeyName (lit ''k'')]) = Some request" by blast
  have "lit ''adobe:a'' \<in> set (allKeyModels sample_groups)" "lit ''adobe:a'' \<notin> set (allKeyModels [])"
    "lit ''x'' \<notin> set (allKeyModels sample_groups)" "presses (lit ''x'') [TypeKeyName (lit ''k'')] = 0"
    by (simp_all add: sample_groups_def allKeyModels_def permissionID_def presses_def lit_append [symmetric])
  then show ?thesis using key_dialog_keeps_stale_permissions [OF _ _ _ _ r] r by blast
qed

end
