(* ===== verification/ModelCatalog.thy ===== *)
theory ModelCatalog
  imports StatusText Catalog Paging UrlParams
begin

text \<open>
  The model page (pages/model-page.tsx): the catalog of a provider with its search and pages, the
  cost reference, and the dialog that edits cost rules.
\<close>

section \<open>The catalog\<close>

record PlatformModelRow =
  pmr_platform :: PlatformModel
  pmr_exposed :: bool
  pmr_public_id :: jstr

datatype CatalogSource = UpstreamSchema | ConfiguredModels | ConfiguredModelsPendingSync

record PlatformModelsResponse =
  pms_provider_id :: jstr
  pms_provider :: Provider
  pms_schema_version :: jstr
  pms_media_type :: "jstr option"
  pms_synced_at :: "jstr option"
  pms_catalog_source :: CatalogSource
  pms_sync_supported :: bool
  pms_data :: "PlatformModelRow list"

definition isConfiguredCatalogSource :: "CatalogSource option \<Rightarrow> bool" where
  "isConfiguredCatalogSource source \<longleftrightarrow> source = Some ConfiguredModels \<or> source = Some ConfiguredModelsPendingSync"

definition catalogSourceLabel :: "CatalogSource option \<Rightarrow> jstr option \<Rightarrow> jstr" where
  "catalogSourceLabel source schemaVersion =
     (if source = Some ConfiguredModelsPendingSync then ulit ''%u5E73%u53F0%u914D%u7F6E%uFF08%u5F85%u540C%u6B65%uFF09''
      else if source = Some ConfiguredModels then ulit ''%u5E73%u53F0%u914D%u7F6E''
      else ulit ''%u4E0A%u6E38 Schema '' @ or_str (opt_str schemaVersion) (lit ''--''))"

definition catalog_origin :: "(int \<Rightarrow> int) \<Rightarrow> (int option \<Rightarrow> jstr) \<Rightarrow> PlatformModelsResponse option \<Rightarrow> jstr" where
  "catalog_origin utc when models =
     (if isConfiguredCatalogSource (map_option pms_catalog_source models) then
        (if map_option pms_catalog_source models = Some ConfiguredModelsPendingSync
         then ulit ''%u76EE%u5F55%u6765%u6E90%uFF1A%u5E73%u53F0%u914D%u7F6E %u00B7 %u7B49%u5F85%u9996%u6B21%u4E0A%u6E38%u540C%u6B65'' else ulit ''%u76EE%u5F55%u6765%u6E90%uFF1A%u5E73%u53F0%u914D%u7F6E %u00B7 %u968F%u5E94%u7528%u7248%u672C%u751F%u6548'')
      else if opt_str (Option.bind models pms_synced_at) \<noteq> []
      then ulit ''%u6700%u540E%u540C%u6B65%uFF1A'' @ when (date_time utc (opt_str (Option.bind models pms_synced_at)))
      else ulit ''%u5C1A%u672A%u540C%u6B65%u5E73%u53F0%u76EE%u5F55'')"

record ModelsPage =
  mp_media :: MediaKind
  mp_allModels :: bool
  mp_page :: nat
  mp_pageSize :: nat
  mp_showRules :: bool
  mp_selectedModel :: "PlatformModelRow option"
  mp_params :: params

definition initial_models_page :: "params \<Rightarrow> ModelsPage" where
  "initial_models_page ps = \<lparr>mp_media = Image, mp_allModels = False, mp_page = 1, mp_pageSize = 20,
     mp_showRules = False, mp_selectedModel = None, mp_params = ps\<rparr>"

definition models_provider :: "ModelsPage \<Rightarrow> jstr" where
  "models_provider s = or_str (opt_str (param_get (mp_params s) (lit ''provider''))) (lit ''leonardo'')"

definition models_path :: "MediaKind \<Rightarrow> jstr" where
  "models_path media = (case media of Image \<Rightarrow> lit ''/admin/api/platform-models''
     | Video \<Rightarrow> lit ''/admin/api/platform-video-models'' | Audio \<Rightarrow> lit ''/admin/api/platform-audio-models'')"

definition featured_models :: "PlatformModelRow list \<Rightarrow> PlatformModelRow list" where
  "featured_models rows = filter pmr_exposed rows"

definition model_search_text :: "PlatformModelRow \<Rightarrow> jstr" where
  "model_search_text r = to_lower (pm_name (pmr_platform r) @ lit '' '' @ pm_id (pmr_platform r) @ lit '' '' @
     pm_provider (pmr_platform r) @ lit '' '' @ pmr_public_id r)"

definition visible_models :: "ModelsPage \<Rightarrow> PlatformModelRow list \<Rightarrow> PlatformModelRow list" where
  "visible_models s rows =
     (let needle = to_lower (trim (opt_str (param_get (mp_params s) (lit ''search'')))) in
      filter (\<lambda>r. (mp_allModels s \<or> pmr_exposed r) \<and> (needle = [] \<or> str_includes (model_search_text r) needle)) rows)"

definition paged_models :: "ModelsPage \<Rightarrow> PlatformModelRow list \<Rightarrow> PlatformModelRow list" where
  "paged_models s rows = pageSlice (mp_page s) (mp_pageSize s) (visible_models s rows)"

definition supports :: "Provider \<Rightarrow> MediaKind \<Rightarrow> bool" where
  "supports provider kind \<longleftrightarrow> providerSupports (Some (prov_capabilities provider)) kind"

definition switchProvider :: "Provider list \<Rightarrow> jstr \<Rightarrow> ModelsPage \<Rightarrow> ModelsPage" where
  "switchProvider providers nextProviderID s =
     (let nextMedia = (case find (\<lambda>p. prov_id p = nextProviderID) providers of
            Some nextProvider \<Rightarrow>
              if \<not> supports nextProvider (mp_media s)
              then nullish (find (supports nextProvider) [Image, Video, Audio]) Image
              else mp_media s
          | None \<Rightarrow> mp_media s) in
      s\<lparr>mp_media := nextMedia, mp_params := param_set (lit ''provider'') nextProviderID (mp_params s),
        mp_page := 1, mp_selectedModel := None\<rparr>)"

datatype models_event =
  SwitchProvider jstr
| ChooseMedia MediaKind
| SearchModels jstr
| ChooseScope bool
| SetModelsPageSize nat
| PreviousModels
| NextModels
| SelectModel PlatformModelRow
| CloseModel
| ShowRules bool
| ModelsRendered

text \<open>
  One event of the page, with the rows that are loaded. The media tabs of kinds the provider does
  not support are disabled; \<open>ModelsRendered\<close> is the effect that pulls the page back.
\<close>

fun models_step :: "Provider list \<Rightarrow> PlatformModelRow list \<Rightarrow> ModelsPage \<Rightarrow> models_event \<Rightarrow> ModelsPage" where
  "models_step providers rows s (SwitchProvider p) = switchProvider providers p s"
| "models_step providers rows s (ChooseMedia media) =
     (if (case find (\<lambda>p. prov_id p = models_provider s) providers of Some p \<Rightarrow> supports p media | None \<Rightarrow> True)
      then s\<lparr>mp_media := media, mp_page := 1\<rparr> else s)"
| "models_step providers rows s (SearchModels q) =
     s\<lparr>mp_params := (if q \<noteq> [] then param_set (lit ''search'') q (mp_params s) else param_delete (lit ''search'') (mp_params s)),
       mp_page := 1\<rparr>"
| "models_step providers rows s (ChooseScope b) = s\<lparr>mp_allModels := b, mp_page := 1\<rparr>"
| "models_step providers rows s (SetModelsPageSize n) = s\<lparr>mp_pageSize := n, mp_page := 1\<rparr>"
| "models_step providers rows s PreviousModels =
     (if mp_page s \<le> 1 then s else s\<lparr>mp_page := max 1 (mp_page s - 1)\<rparr>)"
| "models_step providers rows s NextModels =
     (let pages = totalPages (length (visible_models s rows)) (mp_pageSize s) in
      if pages \<le> mp_page s then s else s\<lparr>mp_page := min pages (mp_page s + 1)\<rparr>)"
| "models_step providers rows s (SelectModel r) = s\<lparr>mp_selectedModel := Some r\<rparr>"
| "models_step providers rows s CloseModel = s\<lparr>mp_selectedModel := None\<rparr>"
| "models_step providers rows s (ShowRules b) = s\<lparr>mp_showRules := b\<rparr>"
| "models_step providers rows s ModelsRendered =
     s\<lparr>mp_page := clampPage (mp_page s) (totalPages (length (visible_models s rows)) (mp_pageSize s))\<rparr>"

section \<open>The cost reference\<close>

text \<open>The price table that is shown: the chosen model's, or the first.\<close>

definition active_estimate :: "PlatformEstimate list \<Rightarrow> jstr \<Rightarrow> PlatformEstimate option" where
  "active_estimate estimates selected =
     (case find (\<lambda>e. pe_model e = selected) estimates of Some e \<Rightarrow> Some e
      | None \<Rightarrow> (case estimates of [] \<Rightarrow> None | e # _ \<Rightarrow> Some e))"

definition observed_costs :: "ModelCostRecord list \<Rightarrow> jstr \<Rightarrow> MediaKind \<Rightarrow> PlatformModelRow \<Rightarrow> ModelCostRecord list" where
  "observed_costs costs providerID kind r =
     filter (\<lambda>c. mcr_provider_id c = providerID \<and> mcr_kind c = kind_name kind \<and> mcr_model c = pmr_public_id r) costs"

definition settled_text :: "(rat \<Rightarrow> jstr) \<Rightarrow> (rat \<Rightarrow> jstr) \<Rightarrow> jstr \<Rightarrow> ModelCostRecord \<Rightarrow> jstr" where
  "settled_text loc num unit c = formatTokens loc (mcr_average c) @ lit '' '' @ unit @ ulit ''%uFF08'' @ num (mcr_minimum c) @ ulit ''%u2013'' @
     num (mcr_maximum c) @ ulit ''%uFF09''"

definition reported_text :: "(rat \<Rightarrow> jstr) \<Rightarrow> (rat \<Rightarrow> jstr) \<Rightarrow> jstr \<Rightarrow> ModelCostRecord \<Rightarrow> jstr" where
  "reported_text loc num unit c =
     (case mcr_upstream_reported_average c of
        Some average \<Rightarrow>
          if 0 < mcr_upstream_reported_samples c
          then formatTokens loc average @ lit '' '' @ unit @ ulit ''%uFF08'' @ formatOptionalTokens loc (mcr_upstream_reported_minimum c) @ ulit ''%u2013'' @
            formatOptionalTokens loc (mcr_upstream_reported_maximum c) @ ulit ''%uFF09%u00B7 '' @ num (mcr_upstream_reported_samples c) @ ulit '' %u6B21''
          else ulit ''%u4E0A%u6E38%u672A%u62A5%u544A''
      | None \<Rightarrow> ulit ''%u4E0A%u6E38%u672A%u62A5%u544A'')"

record CostLine =
  cl_dimensions :: "jstr list"
  cl_samples :: "jstr list"
  cl_settled :: "jstr list"
  cl_reported :: "jstr list"

definition cost_line ::
    "(rat \<Rightarrow> jstr) \<Rightarrow> (rat \<Rightarrow> jstr) \<Rightarrow> jstr \<Rightarrow> ModelCostRecord list \<Rightarrow> CostLine" where
  "cost_line loc num unit observed =
     (if observed = [] then \<lparr>cl_dimensions = [ulit ''%u6682%u65E0%u751F%u6210%u8BB0%u5F55''], cl_samples = [ulit ''%u2014''], cl_settled = [ulit ''%u2014''], cl_reported = [ulit ''%u2014'']\<rparr>
      else \<lparr>cl_dimensions = map costDimensions (take 3 observed),
        cl_samples = map (\<lambda>c. num_str (mcr_samples c) @ ulit '' %u6B21'') (take 3 observed),
        cl_settled = map (settled_text loc num unit) (take 3 observed),
        cl_reported = map (reported_text loc num unit) (take 3 observed)\<rparr>)"

section \<open>Editing cost rules\<close>

text \<open>
  What is edited: the fields of the form, and the stored rule they belong to, if it is not a new one.
  Numbers are what the number inputs give, which need not be whole.
\<close>

record CostRuleDraft =
  cd_stored :: "CostRule option"
  cd_kind :: MediaKind
  cd_model :: jstr
  cd_size :: jstr
  cd_quality :: jstr
  cd_resolution :: jstr
  cd_duration :: rat
  cd_unit_tokens :: rat
  cd_enabled :: bool
  cd_price_version :: jstr
  cd_source :: jstr

definition workflow_field :: "jstr \<Rightarrow> jstr \<Rightarrow> bool" where
  "workflow_field providerID model \<longleftrightarrow> providerID = lit ''adobe'' \<and> model = lit ''kling-3.0-omni''"

definition emptyCostRule :: "jstr \<Rightarrow> MediaKind \<Rightarrow> CostRuleDraft res" where
  "emptyCostRule providerID kind =
     bindr (providerDefinition providerID None) (\<lambda>provider.
     bindr (modelDisplayID (case pp_models provider kind of [] \<Rightarrow> [] | m # _ \<Rightarrow> m)) (\<lambda>model.
     Inr \<lparr>cd_stored = None, cd_kind = kind, cd_model = model,
       cd_size = (if kind = Image then lit ''1024x1024'' else []),
       cd_quality = (if kind = Image then lit ''low'' else if workflow_field providerID model then lit ''t2v'' else []),
       cd_resolution = (if kind = Video then lit ''720p'' else []),
       cd_duration = (if kind = Video then 8 else if kind = Audio then 1 else 0),
       cd_unit_tokens = 0, cd_enabled = True, cd_price_version = lit ''manual-v1'', cd_source = lit ''manual''\<rparr>))"

definition draft_of :: "CostRule \<Rightarrow> CostRuleDraft" where
  "draft_of rule =
     \<lparr>cd_stored = Some rule, cd_kind = cr_kind rule, cd_model = cr_model rule, cd_size = cr_size rule,
      cd_quality = cr_quality rule, cd_resolution = cr_resolution rule,
      cd_duration = of_int (cr_duration rule), cd_unit_tokens = cr_unit_tokens rule,
      cd_enabled = cr_enabled rule, cd_price_version = cr_price_version rule, cd_source = cr_source rule\<rparr>"

definition current_rules :: "CostRule list \<Rightarrow> CostRule list" where
  "current_rules rules = filter (\<lambda>rule. cr_enabled rule \<or> cr_drifted rule = Some True) rules"

definition rule_line :: "(rat \<Rightarrow> jstr) \<Rightarrow> CostRule \<Rightarrow> jstr res" where
  "rule_line num rule =
     (if cr_kind rule = Audio then Inr (audioRuleLabel (cr_model rule) (cr_duration rule))
      else bindr (if cr_kind rule = Video \<and> cr_quality rule \<noteq> [] then videoWorkflowLabel (cr_quality rule)
          else Inr (cr_quality rule)) (\<lambda>quality.
        Inr (js_join (ulit '' %u00B7 '') (filter (\<lambda>s. s \<noteq> [])
          [cr_size rule, quality, cr_resolution rule,
           if cr_duration rule \<noteq> 0 then num_str (cr_duration rule) @ ulit '' %u79D2'' else []]))))"

definition rule_light :: "CostRule \<Rightarrow> jstr" where
  "rule_light rule = (if cr_drifted rule = Some True then lit ''failed'' else if cr_enabled rule then lit ''active'' else lit ''disabled'')"

definition drift_message :: "CostRuleDraft \<Rightarrow> jstr option" where
  "drift_message d = (case cd_stored d of
       Some rule \<Rightarrow> if cr_drifted rule = Some True
         then Some (ulit ''%u4EF7%u683C%u89C4%u5219%u5DF2%u81EA%u52A8%u7194%u65AD%uFF1A'' @ or_str (opt_str (cr_drift_reason rule)) (ulit ''%u9884%u8BA1%u79EF%u5206%u4E0E%u8D26%u6237%u5B9E%u9645%u6263%u51CF%u4E0D%u4E00%u81F4'')) else None
     | None \<Rightarrow> None)"

text \<open>The kinds that can be chosen, given the provider.\<close>

definition rule_kinds :: "Provider option \<Rightarrow> MediaKind list" where
  "rule_kinds provider = filter (\<lambda>kind. case provider of None \<Rightarrow> True | Some p \<Rightarrow> supports p kind) [Image, Video, Audio]"

text \<open>Choosing a kind fills in an empty rule of it, but stays with the rule that is edited.\<close>

definition changeKind :: "jstr \<Rightarrow> MediaKind \<Rightarrow> CostRuleDraft \<Rightarrow> CostRuleDraft res" where
  "changeKind providerID kind d = bindr (emptyCostRule providerID kind) (\<lambda>e. Inr (e\<lparr>cd_stored := cd_stored d\<rparr>))"

definition changeModel :: "jstr \<Rightarrow> jstr \<Rightarrow> CostRuleDraft \<Rightarrow> CostRuleDraft" where
  "changeModel providerID model d = d\<lparr>cd_model := model,
     cd_quality := (if cd_kind d = Video then
        (if workflow_field providerID model then or_str (cd_quality d) (lit ''t2v'') else []) else cd_quality d)\<rparr>"

datatype rule_event =
  NewRule
| PickRule CostRule
| PickKind MediaKind
| TypeModel jstr
| TypeSize jstr
| TypeQuality jstr
| PickWorkflow jstr
| TypeResolution jstr
| TypeDuration rat
| TypeTokens rat
| TypeVersion jstr
| TypeSource jstr
| PickEnabled bool
| RuleSaved CostRule
| RuleRemoved

text \<open>One event of the dialog; a field that is not shown cannot be changed.\<close>

fun rule_step :: "jstr \<Rightarrow> MediaKind \<Rightarrow> CostRuleDraft \<Rightarrow> rule_event \<Rightarrow> CostRuleDraft res" where
  "rule_step providerID kind d NewRule = emptyCostRule providerID kind"
| "rule_step providerID kind d (PickRule rule) = Inr (draft_of rule)"
| "rule_step providerID kind d (PickKind k) = changeKind providerID k d"
| "rule_step providerID kind d (TypeModel m) = Inr (changeModel providerID m d)"
| "rule_step providerID kind d (TypeSize v) = Inr (if cd_kind d = Image then d\<lparr>cd_size := v\<rparr> else d)"
| "rule_step providerID kind d (TypeQuality v) = Inr (if cd_kind d = Image then d\<lparr>cd_quality := v\<rparr> else d)"
| "rule_step providerID kind d (PickWorkflow v) =
     Inr (if cd_kind d = Video \<and> workflow_field providerID (cd_model d) \<and> v \<in> {lit ''t2v'', lit ''i2v'', lit ''rtv''}
       then d\<lparr>cd_quality := v\<rparr> else d)"
| "rule_step providerID kind d (TypeResolution v) = Inr (if cd_kind d = Video then d\<lparr>cd_resolution := v\<rparr> else d)"
| "rule_step providerID kind d (TypeDuration v) = Inr (if cd_kind d \<noteq> Image then d\<lparr>cd_duration := v\<rparr> else d)"
| "rule_step providerID kind d (TypeTokens v) = Inr (d\<lparr>cd_unit_tokens := v\<rparr>)"
| "rule_step providerID kind d (TypeVersion v) = Inr (d\<lparr>cd_price_version := v\<rparr>)"
| "rule_step providerID kind d (TypeSource v) = Inr (d\<lparr>cd_source := v\<rparr>)"
| "rule_step providerID kind d (PickEnabled b) = Inr (d\<lparr>cd_enabled := b\<rparr>)"
| "rule_step providerID kind d (RuleSaved rule) = Inr (draft_of rule)"
| "rule_step providerID kind d RuleRemoved = emptyCostRule providerID kind"

text \<open>The browser's checks of the fields that are shown, and the request of the save button.\<close>

definition rule_inputs_valid :: "CostRuleDraft \<Rightarrow> bool" where
  "rule_inputs_valid d \<longleftrightarrow> cd_model d \<noteq> [] \<and> cd_price_version d \<noteq> [] \<and> cd_source d \<noteq> [] \<and>
     0 \<le> cd_unit_tokens d \<and> cd_unit_tokens d = of_int \<lfloor>cd_unit_tokens d\<rfloor> \<and>
     (cd_kind d = Image \<longrightarrow> cd_size d \<noteq> []) \<and>
     (cd_kind d = Video \<longrightarrow> cd_resolution d \<noteq> [] \<and> 1 \<le> cd_duration d \<and> cd_duration d = of_int \<lfloor>cd_duration d\<rfloor>) \<and>
     (cd_kind d = Audio \<longrightarrow> 0 \<le> cd_duration d \<and> cd_duration d = of_int \<lfloor>cd_duration d\<rfloor>)"

definition save_request :: "bool \<Rightarrow> CostRuleDraft \<Rightarrow> (jstr \<times> jstr) option" where
  "save_request pending d =
     (if pending \<or> \<not> rule_inputs_valid d then None
      else Some (case cd_stored d of
          Some rule \<Rightarrow> (lit ''PUT'', lit ''/admin/api/cost-rules/'' @ num_str (cr_id rule))
        | None \<Rightarrow> (lit ''POST'', lit ''/admin/api/cost-rules/'')))"

section \<open>Properties\<close>

lemma to_lower_append: "to_lower (a @ b) = to_lower a @ to_lower b"
  by (simp add: to_lower_def)

text \<open>A model is found by its name, its id, its maker and its public id: whatever trimmed part of one
  of them is searched for, the model is among the results if it is exposed or all models are shown,
  and the pages of the results show it.\<close>

theorem models_found_by_name:
  assumes "r \<in> set rows" "mp_allModels s \<or> pmr_exposed r"
    and "text \<in> {pm_name (pmr_platform r), pm_id (pmr_platform r), pm_provider (pmr_platform r), pmr_public_id r}"
    and "text = a @ q @ b" "trim q = q" "q \<noteq> []"
    and "s' = models_step providers rows s (SearchModels q)" "0 < mp_pageSize s"
  shows "r \<in> set (visible_models s' rows) \<and>
    (\<exists>k \<in> {1..totalPages (length (visible_models s' rows)) (mp_pageSize s')}. r \<in> set (paged_models (s'\<lparr>mp_page := k\<rparr>) rows))"
proof -
  have "str_includes (model_search_text r) (to_lower q)"
  proof -
    have "\<exists>x y. model_search_text r = x @ to_lower text @ y"
    proof -
      consider "text = pm_name (pmr_platform r)" | "text = pm_id (pmr_platform r)"
        | "text = pm_provider (pmr_platform r)" | "text = pmr_public_id r" using assms(3) by blast
      then show ?thesis unfolding model_search_text_def to_lower_append
        by cases (metis append.assoc append_Nil append_Nil2)+
    qed
    then show ?thesis unfolding str_includes_iff assms(4) to_lower_append by (metis append.assoc)
  qed
  then have visible: "r \<in> set (visible_models s' rows)"
    using assms(1,2,5,6) by (simp add: assms(7) visible_models_def param_get_set Let_def)
  have same: "visible_models (s'\<lparr>mp_page := k\<rparr>) rows = visible_models s' rows" for k
    by (simp add: visible_models_def)
  have size: "mp_pageSize s' = mp_pageSize s" by (simp add: assms(7))
  have "set (concat (map (\<lambda>k. pageSlice k (mp_pageSize s) (visible_models s' rows))
      [1..<Suc (totalPages (length (visible_models s' rows)) (mp_pageSize s))])) = set (visible_models s' rows)"
    unfolding concat_pageSlice using totalPages_covers [OF assms(8)] by simp
  with visible have "\<exists>k \<in> set [1..<Suc (totalPages (length (visible_models s' rows)) (mp_pageSize s))].
      r \<in> set (pageSlice k (mp_pageSize s) (visible_models s' rows))"
    by (simp del: upt_Suc set_upt) blast
  with visible show ?thesis by (auto simp: paged_models_def same size)
qed

definition sample_row :: PlatformModelRow where
  "sample_row = \<lparr>pmr_platform = \<lparr>pm_id = lit ''kling3'', pm_type = None, pm_model_id = [], pm_name = lit ''Kling 3.0'',
     pm_provider = lit ''Kuaishou'', pm_description = [], pm_production_api = True, pm_cost_type = None,
     pm_base_token_cost = None, pm_quality_options = None, pm_default_quality = None,
     pm_default_quantity = None, pm_maximum_quantity = None, pm_duration_options = None,
     pm_default_duration = None, pm_resolution_modes = None\<rparr>, pmr_exposed = True, pmr_public_id = lit ''kling-3.0''\<rparr>"

theorem models_found_by_name_witness:
  "sample_row \<in> set (visible_models (models_step [] [sample_row] (initial_models_page []) (SearchModels (lit ''Kling''))) [sample_row])"
proof -
  have named: "pm_name (pmr_platform sample_row) = [] @ lit ''Kling'' @ lit '' 3.0''"
    by (simp add: sample_row_def lit_append [symmetric])
  have "trim (lit ''Kling'') = lit ''Kling''" by code_simp
  from models_found_by_name [OF _ _ _ named this _ refl, where r = sample_row and rows = "[sample_row]"
      and s = "initial_models_page []" and providers = "[]"]
  show ?thesis by (simp add: sample_row_def initial_models_page_def)
qed

text \<open>Switching the provider shows one of its kinds of models if it has any, keeps the search text,
  and starts on the first page with no model selected.\<close>

theorem models_switch_provider:
  assumes "find (\<lambda>p. prov_id p = i) providers = Some p" "supports p k" "i \<noteq> []"
    and "s' = models_step providers rows s (SwitchProvider i)"
  shows "supports p (mp_media s') \<and> (supports p (mp_media s) \<longrightarrow> mp_media s' = mp_media s) \<and>
    models_provider s' = i \<and> param_get (mp_params s') (lit ''search'') = param_get (mp_params s) (lit ''search'') \<and>
    mp_page s' = 1 \<and> mp_selectedModel s' = None"
proof -
  have "\<exists>m. find (supports p) [Image, Video, Audio] = Some m \<and> supports p m"
    using assms(2) by (cases k) auto
  then obtain m where "find (supports p) [Image, Video, Audio] = Some m" "supports p m" by blast
  then show ?thesis
    using assms(1,3) by (auto simp: assms(4) switchProvider_def Let_def models_provider_def param_get_set or_str_def
        simp del: find.simps)
qed

definition video_provider :: Provider where
  "video_provider = \<lparr>prov_id = lit ''adobe'', prov_display_name = [], prov_enabled = True, prov_adapter_registered = None,
     prov_auth_type = [], prov_credit_unit = [], prov_capabilities = [lit ''video''], prov_catalog_sync = False,
     prov_models = (\<lambda>_. None)\<rparr>"

theorem models_switch_provider_witness:
  "mp_page (models_step [video_provider] [] (initial_models_page []) (SwitchProvider (lit ''adobe''))) = 1"
proof -
  have "find (\<lambda>p. prov_id p = lit ''adobe'') [video_provider] = Some video_provider" by (simp add: video_provider_def)
  moreover have "supports video_provider Video"
    by (simp add: video_provider_def supports_def providerSupports_def kind_name_def)
  ultimately show ?thesis using models_switch_provider [OF _ _ _ refl, of "lit ''adobe''" "[video_provider]"] by simp
qed

text \<open>The video rules that are edited have a workflow exactly for the model that is priced by one.\<close>

definition draft_ok :: "jstr \<Rightarrow> CostRuleDraft \<Rightarrow> bool" where
  "draft_ok providerID d \<longleftrightarrow> (cd_kind d = Video \<longrightarrow> (cd_quality d \<noteq> [] \<longleftrightarrow> workflow_field providerID (cd_model d)))"

definition rule_event_ok :: "jstr \<Rightarrow> rule_event \<Rightarrow> bool" where
  "rule_event_ok providerID e =
     (case e of PickRule r \<Rightarrow> draft_ok providerID (draft_of r) | RuleSaved r \<Rightarrow> draft_ok providerID (draft_of r) | _ \<Rightarrow> True)"

definition rule_run_step :: "jstr \<Rightarrow> MediaKind \<Rightarrow> CostRuleDraft res \<Rightarrow> rule_event \<Rightarrow> CostRuleDraft res" where
  "rule_run_step providerID kind d e = bindr d (\<lambda>d. rule_step providerID kind d e)"

definition run_ok :: "jstr \<Rightarrow> CostRuleDraft res \<Rightarrow> bool" where
  "run_ok providerID s = (case s of Inl _ \<Rightarrow> True | Inr d \<Rightarrow> draft_ok providerID d)"

lemma emptyCostRule_ok:
  "emptyCostRule providerID kind = Inr d \<Longrightarrow> draft_ok providerID (d\<lparr>cd_stored := x\<rparr>) \<and> draft_ok providerID d \<and> cd_stored d = None"
  by (auto simp: emptyCostRule_def draft_ok_def bindr_Inr_iff split: if_splits)

interpretation rule_dialog: guarded_machine "rule_run_step providerID kind" "run_ok providerID" "rule_event_ok providerID"
  for providerID kind
proof
  fix s e assume s: "run_ok providerID s" "rule_event_ok providerID e"
  show "run_ok providerID (rule_run_step providerID kind s e)"
  proof (cases s)
    case (Inr d)
    have "draft_ok providerID d'" if "rule_step providerID kind d e = Inr d'" for d'
      using that s Inr emptyCostRule_ok
      by (cases e) (auto simp: run_ok_def rule_event_ok_def changeKind_def bindr_Inr_iff,
          auto simp: draft_ok_def changeModel_def or_str_def split: if_splits)
    then show ?thesis by (auto simp: Inr run_ok_def rule_run_step_def split: sum.splits)
  qed (simp add: run_ok_def rule_run_step_def)
qed

text \<open>The stored rule that is edited after some events.\<close>

fun edited_rule :: "CostRule option \<Rightarrow> rule_event \<Rightarrow> CostRule option" where
  "edited_rule r NewRule = None"
| "edited_rule r (PickRule rule) = Some rule"
| "edited_rule r (RuleSaved rule) = Some rule"
| "edited_rule r RuleRemoved = None"
| "edited_rule r _ = r"

lemma rule_step_stored: "rule_step providerID kind d e = Inr d' \<Longrightarrow> cd_stored d' = edited_rule (cd_stored d) e"
  by (cases e) (auto simp: changeKind_def bindr_Inr_iff changeModel_def draft_of_def dest: emptyCostRule_ok split: if_splits)

lemma rule_run_stored:
  "foldl (rule_run_step providerID kind) s es = Inr d' \<Longrightarrow>
    \<exists>d. s = Inr d \<and> cd_stored d' = foldl edited_rule (cd_stored d) es"
proof (induction es arbitrary: s)
  case (Cons e es)
  then obtain d where d: "rule_run_step providerID kind s e = Inr d" "cd_stored d' = foldl edited_rule (cd_stored d) es"
    by fastforce
  then obtain d0 where "s = Inr d0" "rule_step providerID kind d0 e = Inr d"
    by (auto simp: rule_run_step_def bindr_Inr_iff)
  with d(2) rule_step_stored show ?case by fastforce
qed simp

text \<open>The save button of the rule dialog always changes the rule that was picked or saved last, even
  after its kind was changed, and creates one after a new rule was started or one was removed; and a
  video rule it sends has a workflow exactly when its model is priced by one, if the stored rules
  that were picked had.\<close>

theorem rule_edits_picked_rule:
  assumes "foldl (rule_run_step providerID kind) (emptyCostRule providerID kind) es = Inr d"
    and "list_all (rule_event_ok providerID) es" "save_request pending d = Some (method, path)"
  shows "(case foldl edited_rule None es of
       None \<Rightarrow> method = lit ''POST'' \<and> path = lit ''/admin/api/cost-rules/''
     | Some rule \<Rightarrow> method = lit ''PUT'' \<and> path = lit ''/admin/api/cost-rules/'' @ num_str (cr_id rule)) \<and>
    (cd_kind d = Video \<longrightarrow> (cd_quality d \<noteq> [] \<longleftrightarrow> workflow_field providerID (cd_model d)))"
proof -
  obtain d0 where d0: "emptyCostRule providerID kind = Inr d0" "cd_stored d = foldl edited_rule (cd_stored d0) es"
    using rule_run_stored [OF assms(1)] by blast
  then have "cd_stored d = foldl edited_rule None es" using emptyCostRule_ok by metis
  moreover have "run_ok providerID (emptyCostRule providerID kind)"
    using emptyCostRule_ok [OF d0(1)] by (simp add: run_ok_def d0(1))
  then have "draft_ok providerID d" using rule_dialog.ok_run [OF _ assms(2), of "emptyCostRule providerID kind" kind]
    by (simp add: assms(1)) (simp add: run_ok_def)
  ultimately show ?thesis
    using assms(3) by (auto simp: save_request_def draft_ok_def split: option.splits if_splits)
qed


theorem rule_edits_picked_rule_witness:
  "\<exists>d. foldl (rule_run_step (lit ''adobe'') Video) (emptyCostRule (lit ''adobe'') Video) [TypeTokens 5] = Inr d \<and>
     save_request False d = Some (lit ''POST'', lit ''/admin/api/cost-rules/'')"
proof -
  let ?d = "\<lambda>t. \<lparr>cd_stored = None, cd_kind = Video, cd_model = lit ''kling-3.0-omni'', cd_size = [], cd_quality = lit ''t2v'',
    cd_resolution = lit ''720p'', cd_duration = 8, cd_unit_tokens = t, cd_enabled = True, cd_price_version = lit ''manual-v1'',
    cd_source = lit ''manual''\<rparr>"
  have empty: "emptyCostRule (lit ''adobe'') Video = Inr (?d 0)" by code_simp
  have run: "foldl (rule_run_step (lit ''adobe'') Video) (emptyCostRule (lit ''adobe'') Video) [TypeTokens 5] = Inr (?d 5)"
    by (simp add: empty rule_run_step_def)
  have save: "save_request False (?d 5) = Some (lit ''POST'', lit ''/admin/api/cost-rules/'')"
    by (simp add: save_request_def rule_inputs_valid_def)
  have "list_all (rule_event_ok (lit ''adobe'')) [TypeTokens 5]" by (simp add: rule_event_ok_def)
  from rule_edits_picked_rule [OF run this save] run save show ?thesis by simp
qed

end
