(* ===== verification/CapacityPage.thy ===== *)
theory CapacityPage
  imports Dashboard
begin

text \<open>
  The system capacity page (pages/system-capacity-page.tsx): the polled capacity, the policy form
  that follows its revisions, what can be saved and when, and the figures and bars.
\<close>

record SystemRuntime =
  rt_task_dispatcher_concurrency :: int
  rt_database_max_connections :: int
  rt_api_key_queue_multiplier :: int
  rt_gateway_inflight :: int
  rt_gateway_inflight_limit :: int
  rt_multipart_inflight :: int
  rt_multipart_inflight_limit :: int
  rt_sync_inflight :: int
  rt_sync_inflight_limit :: int

text \<open>The page expects that either part of an answer can be missing.\<close>

record SystemCapacityResponse =
  scr_capacity :: "SystemCapacity option"
  scr_runtime :: "SystemRuntime option"

text \<open>The policy fields; a number input gives any number.\<close>

record SystemCapacityForm =
  sf_max_executing :: rat
  sf_max_queued :: rat
  sf_queue_high_watermark :: rat
  sf_queue_resume_watermark :: rat
  sf_queue_timeout_seconds :: rat
  sf_maintenance_mode :: bool
  sf_execution_paused :: bool

definition persistedForm :: "SystemCapacity \<Rightarrow> SystemCapacityForm" where
  "persistedForm current =
     \<lparr>sf_max_executing = of_int (cap_max_executing current),
      sf_max_queued = of_int (cap_max_queued current),
      sf_queue_high_watermark = of_int (cap_queue_high_watermark current),
      sf_queue_resume_watermark = of_int (cap_queue_resume_watermark current),
      sf_queue_timeout_seconds = of_int (cap_queue_timeout_seconds current),
      sf_maintenance_mode = cap_maintenance_mode current,
      sf_execution_paused = cap_execution_paused current\<rparr>"

section \<open>The page\<close>

text \<open>
  The last answer and the error of the last poll, the form, the revision the form's effect has last
  run for, and whether a save is pending and how the last one failed.
\<close>

record CapacityPanel =
  cg_data :: "SystemCapacityResponse option"
  cg_error :: "jstr option"
  cg_form :: "SystemCapacityForm option"
  cg_revision :: "int option"
  cg_saving :: bool
  cg_saveError :: "jstr option"

definition open_panel :: CapacityPanel where
  "open_panel = \<lparr>cg_data = None, cg_error = None, cg_form = None, cg_revision = None,
     cg_saving = False, cg_saveError = None\<rparr>"

definition panel_capacity :: "CapacityPanel \<Rightarrow> SystemCapacity option" where
  "panel_capacity s = Option.bind (cg_data s) scr_capacity"

text \<open>The effect on the revision: a new one replaces the whole form.\<close>

definition revision_effect :: "CapacityPanel \<Rightarrow> CapacityPanel" where
  "revision_effect s =
     (let revision = map_option cap_revision (panel_capacity s) in
      if revision = cg_revision s then s
      else (case panel_capacity s of
          None \<Rightarrow> s\<lparr>cg_revision := revision\<rparr>
        | Some current \<Rightarrow> s\<lparr>cg_revision := revision, cg_form := Some (persistedForm current)\<rparr>))"

datatype PanelView =
  PanelLoading
| PanelFailed jstr
| PanelIncomplete
| PanelReady SystemCapacity SystemRuntime SystemCapacityForm

definition panel_view :: "CapacityPanel \<Rightarrow> PanelView" where
  "panel_view s =
     (case cg_error s of
        Some message \<Rightarrow> PanelFailed message
      | None \<Rightarrow> (case cg_data s of
          None \<Rightarrow> PanelLoading
        | Some data \<Rightarrow> (case (scr_capacity data, scr_runtime data, cg_form s) of
            (Some current, Some runtime, Some form) \<Rightarrow> PanelReady current runtime form
          | _ \<Rightarrow> PanelIncomplete)))"

definition capacity_valid :: "SystemCapacityForm \<Rightarrow> bool" where
  "capacity_valid form \<longleftrightarrow> sf_max_executing form \<ge> 1 \<and> sf_max_queued form \<ge> 1 \<and>
     sf_queue_high_watermark form \<ge> 1 \<and> sf_queue_high_watermark form \<le> sf_max_queued form \<and>
     sf_queue_resume_watermark form \<ge> 0 \<and>
     sf_queue_resume_watermark form < sf_queue_high_watermark form \<and>
     sf_queue_timeout_seconds form \<ge> 60 \<and>
     (\<not> sf_execution_paused form \<or> sf_maintenance_mode form)"

text \<open>The texts of two forms agree exactly when the forms do.\<close>

definition capacity_dirty :: "SystemCapacityForm \<Rightarrow> SystemCapacity \<Rightarrow> bool" where
  "capacity_dirty form current \<longleftrightarrow> form \<noteq> persistedForm current"

definition highImpact :: "SystemCapacityForm \<Rightarrow> SystemCapacity \<Rightarrow> bool" where
  "highImpact form current \<longleftrightarrow> sf_maintenance_mode form \<noteq> cap_maintenance_mode current \<or>
     sf_execution_paused form \<noteq> cap_execution_paused current"

text \<open>The form the save button sends, given the answer to the question it asks for a high impact.\<close>

definition save_capacity :: "bool \<Rightarrow> CapacityPanel \<Rightarrow> SystemCapacityForm option" where
  "save_capacity confirmed s =
     (case panel_view s of
        PanelReady current runtime form \<Rightarrow>
          if \<not> capacity_valid form \<or> \<not> capacity_dirty form current \<or> cg_saving s then None
          else if highImpact form current \<and> \<not> confirmed then None
          else Some form
      | _ \<Rightarrow> None)"

datatype panel_event =
  PollAnswer SystemCapacityResponse
| PollFails jstr
| SetMaxExecuting rat
| SetMaxQueued rat
| SetHighWatermark rat
| SetResumeWatermark rat
| SetTimeoutMinutes rat
| ToggleMaintenance bool
| TogglePause bool
| SavePolicy bool
| PolicySaved
| SaveFails jstr

fun form_change :: "SystemCapacityForm \<Rightarrow> panel_event \<Rightarrow> SystemCapacityForm" where
  "form_change form (SetMaxExecuting v) = form\<lparr>sf_max_executing := v\<rparr>"
| "form_change form (SetMaxQueued v) = form\<lparr>sf_max_queued := v\<rparr>"
| "form_change form (SetHighWatermark v) = form\<lparr>sf_queue_high_watermark := v\<rparr>"
| "form_change form (SetResumeWatermark v) = form\<lparr>sf_queue_resume_watermark := v\<rparr>"
| "form_change form (SetTimeoutMinutes v) = form\<lparr>sf_queue_timeout_seconds := v * 60\<rparr>"
| "form_change form (ToggleMaintenance b) = form\<lparr>sf_maintenance_mode := b,
     sf_execution_paused := (if b then sf_execution_paused form else False)\<rparr>"
| "form_change form (TogglePause b) = form\<lparr>sf_execution_paused := b,
     sf_maintenance_mode := (b \<or> sf_maintenance_mode form)\<rparr>"
| "form_change form _ = form"

text \<open>One event of the page; the fields are there only while the page is ready.\<close>

fun panel_step :: "CapacityPanel \<Rightarrow> panel_event \<Rightarrow> CapacityPanel" where
  "panel_step s (PollAnswer r) = revision_effect (s\<lparr>cg_data := Some r, cg_error := None\<rparr>)"
| "panel_step s (PollFails message) = s\<lparr>cg_error := Some message\<rparr>"
| "panel_step s (SavePolicy confirmed) =
     (if save_capacity confirmed s = None then s else s\<lparr>cg_saving := True, cg_saveError := None\<rparr>)"
| "panel_step s PolicySaved = s\<lparr>cg_saving := False\<rparr>"
| "panel_step s (SaveFails message) = s\<lparr>cg_saving := False, cg_saveError := Some message\<rparr>"
| "panel_step s e =
     (case panel_view s of
        PanelReady current runtime form \<Rightarrow> s\<lparr>cg_form := Some (form_change form e)\<rparr>
      | _ \<Rightarrow> s)"

section \<open>Figures\<close>

definition capacity_mode :: "SystemCapacity \<Rightarrow> jstr \<times> jstr" where
  "capacity_mode current =
     (if cap_execution_paused current then (ulit ''%u6267%u884C%u6682%u505C'', lit ''paused'')
      else if cap_maintenance_mode current then (ulit ''%u7EF4%u62A4%u6392%u7A7A'', lit ''maintenance'')
      else if cap_overload_active current then (ulit ''%u8FC7%u8F7D%u4FDD%u62A4'', lit ''overload'')
      else (ulit ''%u6B63%u5E38%u63A5%u5355'', lit ''normal''))"

record capacity_metric =
  cm_value :: jstr
  cm_detail :: jstr
  cm_warning :: bool

definition capacity_metrics :: "SystemCapacity \<Rightarrow> capacity_metric list" where
  "capacity_metrics c =
     [\<lparr>cm_value = num_str (cap_executing c) @ lit ''/'' @ num_str (cap_effective_execution_limit c),
       cm_detail = ulit ''%u786C%u4E0A%u9650 '' @ num_str (cap_max_executing c) @ ulit '' %u00B7 %u5269%u4F59 '' @ num_str (cap_execution_headroom c),
       cm_warning = (cap_execution_headroom c = 0)\<rparr>,
      \<lparr>cm_value = num_str (cap_queued c) @ lit ''/'' @ num_str (cap_max_queued c),
       cm_detail = ulit ''%u9AD8%u6C34%u4F4D '' @ num_str (cap_queue_high_watermark c) @ ulit '' %u00B7 %u5269%u4F59 '' @ num_str (cap_queue_headroom c),
       cm_warning = (cap_queued c \<ge> cap_queue_high_watermark c)\<rparr>,
      \<lparr>cm_value = num_str (cap_eligible_execution_slots c),
       cm_detail = num_str (cap_eligible_accounts c) @ ulit '' %u4E2A%u8D26%u53F7 %u00B7 %u961F%u5217 '' @ num_str (cap_eligible_queue_slots c),
       cm_warning = False\<rparr>,
      \<lparr>cm_value = formatCapacityWait (cap_oldest_queued_seconds c),
       cm_detail = ulit ''%u6A21%u5F0F%uFF1A'' @ fst (capacity_mode c),
       cm_warning = (cap_oldest_queued_seconds c > 300)\<rparr>]"

record capacity_line =
  ln_ratio :: rat
  ln_warn :: bool
  ln_text :: jstr

definition CapacityLine :: "int \<Rightarrow> int \<Rightarrow> int option \<Rightarrow> capacity_line" where
  "CapacityLine v m warning =
     (let ratio = (if m > 0 then min 100 (of_int v / of_int m * 100) else 0) in
      \<lparr>ln_ratio = ratio,
       ln_warn = (case warning of Some w \<Rightarrow> v \<ge> w | None \<Rightarrow> ratio \<ge> 90),
       ln_text = num_str v @ lit ''/'' @ num_str m\<rparr>)"

definition capacity_lines :: "SystemCapacity \<Rightarrow> capacity_line list" where
  "capacity_lines c =
     [CapacityLine (cap_executing_images c) (cap_max_executing c) None,
      CapacityLine (cap_executing_videos c) (cap_max_executing c) None,
      CapacityLine (cap_executing_audio c) (cap_max_executing c) None,
      CapacityLine (cap_queued c) (cap_max_queued c) (Some (cap_queue_high_watermark c))]"

text \<open>What the field for the timeout shows: \<open>Math.round\<close> of the minutes.\<close>

definition timeout_minutes :: "SystemCapacityForm \<Rightarrow> int" where
  "timeout_minutes form = \<lfloor>sf_queue_timeout_seconds form / 60 + 1 / 2\<rfloor>"

definition provider_line :: "ProviderCapacity \<Rightarrow> jstr list" where
  "provider_line p =
     [num_str (pc_eligible_accounts p) @ ulit '' %u4E2A%u53EF%u7528%u8D26%u53F7'',
      num_str (pc_executing p) @ lit ''/'' @ num_str (pc_eligible_execution_slots p),
      num_str (pc_queued p) @ lit ''/'' @ num_str (pc_eligible_queue_slots p),
      num_str (pc_executing_images p), num_str (pc_executing_videos p), num_str (pc_executing_audio p)]"

definition runtime_lines :: "SystemRuntime \<Rightarrow> jstr list" where
  "runtime_lines r =
     [num_str (rt_task_dispatcher_concurrency r), num_str (rt_database_max_connections r),
      num_str (rt_gateway_inflight r) @ lit ''/'' @ num_str (rt_gateway_inflight_limit r),
      num_str (rt_multipart_inflight r) @ lit ''/'' @ num_str (rt_multipart_inflight_limit r),
      num_str (rt_sync_inflight r) @ lit ''/'' @ num_str (rt_sync_inflight_limit r),
      num_str (rt_api_key_queue_multiplier r)]"

section \<open>Properties\<close>

text \<open>An event that leaves the revision alone: no failing poll, and answers of the same revision.\<close>

definition same_revision :: "int \<Rightarrow> panel_event \<Rightarrow> bool" where
  "same_revision r e = (case e of
       PollAnswer a \<Rightarrow> map_option cap_revision (scr_capacity a) = Some r \<and> scr_runtime a \<noteq> None
     | PollFails _ \<Rightarrow> False
     | _ \<Rightarrow> True)"

definition shows_revision :: "int \<Rightarrow> CapacityPanel \<Rightarrow> bool" where
  "shows_revision r s \<longleftrightarrow> cg_error s = None \<and> cg_revision s = Some r \<and> cg_form s \<noteq> None \<and>
     map_option cap_revision (panel_capacity s) = Some r \<and> Option.bind (cg_data s) scr_runtime \<noteq> None"

lemma shows_revision_ready:
  "shows_revision r s \<Longrightarrow> \<exists>current runtime form. panel_view s = PanelReady current runtime form \<and>
     panel_capacity s = Some current \<and> cap_revision current = r \<and> cg_form s = Some form"
  by (auto simp: shows_revision_def panel_view_def panel_capacity_def bind_eq_Some_conv split: option.splits)

lemma save_keeps_form: "cg_form (panel_step s (SavePolicy b)) = cg_form s"
  by simp

lemma shown_step:
  assumes "shows_revision r s" "same_revision r e"
  shows "shows_revision r (panel_step s e) \<and> cg_form (panel_step s e) = Some (form_change (the (cg_form s)) e)"
proof -
  obtain current runtime form where view: "panel_view s = PanelReady current runtime form"
    and f: "cg_form s = Some form"
    using shows_revision_ready [OF assms(1)] by blast
  show ?thesis
  proof (cases e)
    case (PollAnswer a)
    then show ?thesis using assms f
      by (auto simp: same_revision_def shows_revision_def revision_effect_def panel_capacity_def Let_def)
  qed (use assms f view in \<open>auto simp: same_revision_def shows_revision_def panel_capacity_def\<close>)
qed

interpretation capacity_panel: guarded_machine panel_step "shows_revision r" "same_revision r" for r
  using shown_step by unfold_locales blast

lemma shown_run:
  assumes "shows_revision r s" "list_all (same_revision r) es"
  shows "cg_form (foldl panel_step s es) = Some (foldl form_change (the (cg_form s)) es)"
  using assms
proof (induction es arbitrary: s)
  case Nil
  then show ?case by (auto simp: shows_revision_def)
next
  case (Cons e es)
  then show ?case using shown_step [of r s e] by simp
qed

lemma new_revision:
  assumes "scr_capacity a = Some c" "cg_revision s \<noteq> Some (cap_revision c)"
  shows "cg_form (panel_step s (PollAnswer a)) = Some (persistedForm c)"
    "scr_runtime a \<noteq> None \<Longrightarrow> shows_revision (cap_revision c) (panel_step s (PollAnswer a))"
  using assms by (auto simp: revision_effect_def panel_capacity_def shows_revision_def Let_def)

text \<open>C15: Polling does not disturb the form while the revision stays: what is saved is the policy of
  the revision with exactly the edits made since it was read, in order, whatever polls and saves
  happened meanwhile, and it has its watermarks in order and pauses only under maintenance; a change of
  either switch has been confirmed.\<close>

theorem capacity_edits_survive_polls:
  assumes "scr_capacity a = Some c" "scr_runtime a \<noteq> None" "cg_revision s \<noteq> Some (cap_revision c)"
    and "list_all (same_revision (cap_revision c)) es"
    and "s' = foldl panel_step s (PollAnswer a # es)" "save_capacity confirmed s' = Some request"
  shows "request = foldl form_change (persistedForm c) es \<and>
    0 \<le> sf_queue_resume_watermark request \<and>
    sf_queue_resume_watermark request < sf_queue_high_watermark request \<and>
    sf_queue_high_watermark request \<le> sf_max_queued request \<and>
    (sf_execution_paused request \<longrightarrow> sf_maintenance_mode request) \<and>
    (\<exists>current. panel_capacity s' = Some current \<and> cap_revision current = cap_revision c \<and>
       request \<noteq> persistedForm current \<and> (highImpact request current \<longrightarrow> confirmed))"
proof -
  let ?s = "panel_step s (PollAnswer a)"
  note new = new_revision [OF assms(1,3)]
  have "shows_revision (cap_revision c) s'"
    using capacity_panel.ok_run [OF new(2) [OF assms(2)] assms(4)] by (simp add: assms(5))
  from shows_revision_ready [OF this] obtain current runtime form where
    view: "panel_view s' = PanelReady current runtime form" "panel_capacity s' = Some current"
      "cap_revision current = cap_revision c" "cg_form s' = Some form" by blast
  have "cg_form s' = Some (foldl form_change (persistedForm c) es)"
    using shown_run [OF new(2) [OF assms(2)] assms(4)] new(1) by (simp add: assms(5))
  with view assms(6) show ?thesis
    by (auto simp: save_capacity_def capacity_valid_def capacity_dirty_def split: if_splits)
qed

definition sample_capacity :: SystemCapacity where
  "sample_capacity =
     \<lparr>cap_max_executing = 100, cap_max_queued = 1000, cap_queue_high_watermark = 800,
      cap_queue_resume_watermark = 600, cap_queue_timeout_seconds = 1800, cap_maintenance_mode = False,
      cap_execution_paused = False, cap_overload_active = False, cap_revision = 7, cap_updated_at = [],
      cap_queued = 0, cap_executing = 0, cap_executing_images = 0, cap_executing_videos = 0,
      cap_executing_audio = 0, cap_eligible_accounts = 1, cap_eligible_execution_slots = 5,
      cap_eligible_queue_slots = 40, cap_effective_execution_limit = 5, cap_execution_headroom = 5,
      cap_queue_headroom = 1000, cap_oldest_queued_seconds = 0, cap_providers = []\<rparr>"

definition sample_answer :: SystemCapacityResponse where
  "sample_answer = \<lparr>scr_capacity = Some sample_capacity,
     scr_runtime = Some \<lparr>rt_task_dispatcher_concurrency = 1, rt_database_max_connections = 1,
       rt_api_key_queue_multiplier = 1, rt_gateway_inflight = 0, rt_gateway_inflight_limit = 1,
       rt_multipart_inflight = 0, rt_multipart_inflight_limit = 1, rt_sync_inflight = 0,
       rt_sync_inflight_limit = 1\<rparr>\<rparr>"

lemmas panel_defs = open_panel_def sample_capacity_def sample_answer_def persistedForm_def
  revision_effect_def panel_capacity_def panel_view_def save_capacity_def capacity_valid_def
  capacity_dirty_def highImpact_def same_revision_def Let_def

theorem capacity_edits_survive_polls_witness:
  "\<exists>request. save_capacity True (foldl panel_step open_panel
      [PollAnswer sample_answer, SetMaxQueued 500, PollAnswer sample_answer, SetHighWatermark 400,
       SetResumeWatermark 300, TogglePause True]) = Some request \<and>
    request = foldl form_change (persistedForm sample_capacity)
      [SetMaxQueued 500, PollAnswer sample_answer, SetHighWatermark 400, SetResumeWatermark 300, TogglePause True]"
proof -
  let ?es = "[SetMaxQueued 500, PollAnswer sample_answer, SetHighWatermark 400, SetResumeWatermark 300, TogglePause True]"
  obtain request where r: "save_capacity True (foldl panel_step open_panel (PollAnswer sample_answer # ?es)) = Some request"
    by (simp add: panel_defs)
  from capacity_edits_survive_polls [OF _ _ _ _ refl r, of sample_capacity]
  have "request = foldl form_change (persistedForm sample_capacity) ?es"
    by (simp add: panel_defs)
  with r show ?thesis by blast
qed

text \<open>An answer of another revision discards every unsaved edit: the form is that of the answer and
  there is nothing left to save.\<close>

theorem capacity_revision_discards_edits:
  assumes "scr_capacity a = Some c" "cg_revision s \<noteq> Some (cap_revision c)"
  shows "cg_form (panel_step s (PollAnswer a)) = Some (persistedForm c) \<and>
    save_capacity confirmed (panel_step s (PollAnswer a)) = None"
  using new_revision(1) [OF assms] assms
  by (auto simp: save_capacity_def panel_view_def capacity_dirty_def revision_effect_def panel_capacity_def
      Let_def split: option.splits)

theorem capacity_revision_discards_edits_witness:
  "save_capacity True (foldl panel_step open_panel [PollAnswer sample_answer, SetMaxQueued 900]) \<noteq> None \<and>
   save_capacity True (panel_step (foldl panel_step open_panel [PollAnswer sample_answer, SetMaxQueued 900])
     (PollAnswer (sample_answer\<lparr>scr_capacity := Some (sample_capacity\<lparr>cap_revision := 8\<rparr>)\<rparr>))) = None"
proof
  show "save_capacity True (foldl panel_step open_panel [PollAnswer sample_answer, SetMaxQueued 900]) \<noteq> None"
    by (simp add: panel_defs)
  show "save_capacity True (panel_step (foldl panel_step open_panel [PollAnswer sample_answer, SetMaxQueued 900])
     (PollAnswer (sample_answer\<lparr>scr_capacity := Some (sample_capacity\<lparr>cap_revision := 8\<rparr>)\<rparr>))) = None"
    by (rule capacity_revision_discards_edits [where c = "sample_capacity\<lparr>cap_revision := 8\<rparr>", THEN conjunct2])
      (simp_all add: panel_defs)
qed

lemma changed_limit:
  "n \<noteq> of_int (cap_max_executing c) \<Longrightarrow> form\<lparr>sf_max_executing := n\<rparr> \<noteq> persistedForm c"
  by (auto simp: persistedForm_def dest: arg_cong [where f = sf_max_executing])

text \<open>The limits written on the fields do not bind: from any form that can be saved without asking,
  any execution limit from 1 on, above 10000 or not whole, can be saved as well.\<close>

theorem capacity_limits_not_enforced:
  assumes "save_capacity False s = Some form" "1 \<le> n" "panel_capacity s = Some current"
    and "n \<noteq> of_int (cap_max_executing current)"
  shows "save_capacity False (panel_step s (SetMaxExecuting n)) = Some (form\<lparr>sf_max_executing := n\<rparr>)"
  using assms changed_limit [OF assms(4), of form]
  by (auto simp: save_capacity_def panel_view_def panel_capacity_def capacity_valid_def capacity_dirty_def
      highImpact_def split: option.splits if_splits)

theorem capacity_limits_not_enforced_witness:
  "save_capacity False (panel_step (foldl panel_step open_panel [PollAnswer sample_answer, SetMaxQueued 900])
     (SetMaxExecuting (100001 / 2))) \<noteq> None"
proof -
  let ?s = "foldl panel_step open_panel [PollAnswer sample_answer, SetMaxQueued 900]"
  obtain form where form: "save_capacity False ?s = Some form" by (simp add: panel_defs)
  have "save_capacity False (panel_step ?s (SetMaxExecuting (100001 / 2))) = Some (form\<lparr>sf_max_executing := 100001 / 2\<rparr>)"
    by (rule capacity_limits_not_enforced [OF form, where current = sample_capacity]) (simp_all add: panel_defs)
  then show ?thesis by (metis option.distinct(1))
qed

text \<open>A bar is between 0 and 100 percent wide, grows with its value, is full exactly from its limit
  on, and warns no later than that when the threshold is at most the limit.\<close>

theorem capacity_bar_bounds:
  assumes "0 \<le> v" "0 < m"
  shows "0 \<le> ln_ratio (CapacityLine v m warning) \<and> ln_ratio (CapacityLine v m warning) \<le> 100 \<and>
    (ln_ratio (CapacityLine v m warning) = 100 \<longleftrightarrow> m \<le> v) \<and>
    (v \<le> w \<longrightarrow> ln_ratio (CapacityLine v m warning) \<le> ln_ratio (CapacityLine w m warning)) \<and>
    (m \<le> v \<and> (\<forall>t. warning = Some t \<longrightarrow> t \<le> m) \<longrightarrow> ln_warn (CapacityLine v m warning))"
proof -
  have m: "(0 :: rat) < of_int m" using assms(2) by simp
  have full: "100 \<le> of_int v / of_int m * (100 :: rat) \<longleftrightarrow> m \<le> v"
    using m by (simp add: field_simps)
  have mono: "v \<le> w \<Longrightarrow> of_int v / of_int m * (100 :: rat) \<le> of_int w / of_int m * 100"
    using m by (simp add: field_simps)
  show ?thesis using assms m full mono
    by (auto simp: CapacityLine_def Let_def min_def split: option.splits)
qed

theorem capacity_bar_bounds_witness:
  "ln_ratio (CapacityLine 800 1000 (Some 800)) \<le> 100 \<and> ln_ratio (CapacityLine 800 1000 (Some 800)) \<noteq> 100"
  using capacity_bar_bounds [of 800 1000 "Some 800"] by auto

text \<open>The timeout field shows what was typed: a whole number of minutes comes back, and a stored
  timeout is shown within half a minute.\<close>

theorem timeout_field_roundtrip:
  "timeout_minutes (form_change form (SetTimeoutMinutes (of_int n))) = n \<and>
   \<bar>of_int (timeout_minutes form) * 60 - sf_queue_timeout_seconds form\<bar> \<le> 30"
proof -
  have "\<lfloor>of_int n + (1 / 2 :: rat)\<rfloor> = n" by (simp add: floor_eq_iff)
  moreover define x where "x = sf_queue_timeout_seconds form / 60"
  have "of_int \<lfloor>x + 1 / 2\<rfloor> \<le> x + 1 / 2 \<and> x + 1 / 2 < of_int \<lfloor>x + 1 / 2\<rfloor> + 1" by linarith
  then have "\<bar>of_int \<lfloor>x + 1 / 2\<rfloor> - x\<bar> \<le> 1 / 2" by linarith
  then have "\<bar>of_int \<lfloor>x + 1 / 2\<rfloor> * 60 - sf_queue_timeout_seconds form\<bar> \<le> 30"
    by (auto simp: x_def abs_le_iff field_simps)
  ultimately show ?thesis by (simp add: timeout_minutes_def x_def)
qed

end
