(* ===== verification/Switcher.thy ===== *)
theory Switcher
  imports Providers
begin

text \<open>
  The provider badge and the row of buttons that chooses a provider
  (components/provider-switcher.tsx).
\<close>

text \<open>The class and the text of a badge.\<close>

definition ProviderBadge :: "jstr \<Rightarrow> Provider list \<Rightarrow> (jstr \<times> jstr) res" where
  "ProviderBadge providerID providers =
     bindr (providerDefinition providerID (find (\<lambda>item. prov_id item = providerID) providers)) (\<lambda>provider.
     Inr (pp_id provider, pp_shortName provider))"

definition switcher_visible :: "MediaKind option \<Rightarrow> bool \<Rightarrow> Provider list \<Rightarrow> Provider list" where
  "switcher_visible capability includeDisabled providers = filter (\<lambda>provider.
     prov_adapter_registered provider \<noteq> Some False \<and> (includeDisabled \<or> prov_enabled provider) \<and>
     (case capability of None \<Rightarrow> True | Some kind \<Rightarrow> providerSupports (Some (prov_capabilities provider)) kind)) providers"

text \<open>A button: the id it chooses, whether it is the chosen one, and its two texts.\<close>

record SwitcherButton =
  sb_id :: jstr
  sb_active :: bool
  sb_name :: jstr
  sb_detail :: "jstr option"

definition switcher_button :: "jstr \<Rightarrow> bool \<Rightarrow> Provider \<Rightarrow> SwitcherButton res" where
  "switcher_button v narrow provider =
     bindr (providerDefinition (prov_id provider) (Some provider)) (\<lambda>presentation.
     bindr (if narrow \<or> \<not> prov_enabled provider then Inr (ulit ''%u5DF2%u505C%u7528 %u00B7 %u5386%u53F2%u6570%u636E'')
       else providerCapabilityText (prov_capabilities provider)) (\<lambda>detail.
     Inr \<lparr>sb_id = prov_id provider, sb_active = (v = prov_id provider),
       sb_name = pp_displayName presentation,
       sb_detail = (if narrow then None else Some detail)\<rparr>))"

definition ProviderSwitcher ::
    "Provider list \<Rightarrow> jstr \<Rightarrow> MediaKind option \<Rightarrow> bool \<Rightarrow> bool \<Rightarrow> bool \<Rightarrow> SwitcherButton list res" where
  "ProviderSwitcher providers v capability includeAll includeDisabled narrow =
     bindr (mapr (switcher_button v narrow) (switcher_visible capability includeDisabled providers)) (\<lambda>buttons.
     Inr ((if includeAll then [\<lparr>sb_id = lit ''all'', sb_active = (v = lit ''all''), sb_name = ulit ''%u5168%u90E8%u5E73%u53F0'',
         sb_detail = (if narrow then None else Some (ulit ''%u8DE8%u5E73%u53F0%u6C47%u603B''))\<rparr>] else []) @ buttons))"

lemma mapr_result: "mapr f xs = Inr ys \<Longrightarrow> list_all2 (\<lambda>x y. f x = Inr y) xs ys"
  by (induction xs arbitrary: ys) (auto simp: bindr_Inr_iff)

text \<open>The buttons choose exactly the providers that can be chosen, in the order of the gateway, after
  the button for all of them; at most those of the chosen id are active.\<close>

theorem switcher_offers:
  assumes "ProviderSwitcher providers v capability includeAll includeDisabled narrow = Inr buttons"
  shows "map sb_id buttons = (if includeAll then [lit ''all''] else []) @
      map prov_id (switcher_visible capability includeDisabled providers) \<and>
    (\<forall>b \<in> set buttons. sb_active b \<longleftrightarrow> sb_id b = v) \<and>
    (\<forall>p \<in> set (switcher_visible capability includeDisabled providers). p \<in> set providers \<and>
      (prov_enabled p \<or> includeDisabled) \<and>
      (\<forall>kind. capability = Some kind \<longrightarrow> providerSupports (Some (prov_capabilities p)) kind))"
proof -
  define vis where "vis = switcher_visible capability includeDisabled providers"
  obtain bs where f: "mapr (switcher_button v narrow) vis = Inr bs"
    and buttons: "map sb_id buttons = (if includeAll then [lit ''all''] else []) @ map sb_id bs"
      "\<forall>b \<in> set buttons. b \<in> set bs \<or> sb_active b = (v = sb_id b)"
    using assms unfolding ProviderSwitcher_def bindr_Inr_iff vis_def [symmetric]
    by (cases includeAll) auto
  have "switcher_button v narrow p = Inr b \<Longrightarrow> sb_id b = prov_id p \<and> sb_active b = (v = prov_id p)" for p b
    by (auto simp: switcher_button_def bindr_Inr_iff)
  then have bs: "list_all2 (\<lambda>p b. sb_id b = prov_id p \<and> sb_active b = (v = prov_id p)) vis bs"
    using mapr_result [OF f] by (auto elim: list_all2_mono)
  from bs have "map sb_id bs = map prov_id vis \<and> (\<forall>b \<in> set bs. sb_active b \<longleftrightarrow> sb_id b = v)"
    by (induction vis bs rule: list_all2_induct) auto
  with buttons show ?thesis
    unfolding vis_def [symmetric] by (auto simp: vis_def switcher_visible_def split: option.splits)
qed

end
