(* ===== verification/Observability.thy ===== *)
theory Observability
  imports Switcher DateRange UrlParams Paging ClientCache
begin

text \<open>
  The request log and the audit log (pages/observability-pages.tsx): their filters and the queries
  made of them, with the debounced text fields, their pages, and what a row and the detail sheet show.
  \<open>num\<close> prints a number and \<open>when\<close> an instant as the environment's locale does, \<open>stringify\<close> is
  \<open>JSON.stringify\<close>, \<open>text_of\<close> is \<open>String\<close> of a number or boolean.
\<close>

record APIRequestLog =
  rq_id :: int
  rq_request_id :: jstr
  rq_provider_id :: jstr
  rq_api_key_prefix :: jstr
  rq_account_name :: "jstr option"
  rq_task_id :: "jstr option"
  rq_method :: jstr
  rq_path :: jstr
  rq_kind :: "jstr option"
  rq_model :: "jstr option"
  rq_parameters :: "(jstr \<times> json) list"
  rq_prompt_chars :: int
  rq_estimated_tokens :: "rat option"
  rq_status :: int
  rq_error_code :: "jstr option"
  rq_duration_ms :: rat
  rq_client_ip :: jstr
  rq_created_at :: jstr

record AuditLog =
  au_id :: int
  au_actor :: jstr
  au_action :: jstr
  au_target :: jstr
  au_metadata :: "(jstr \<times> json) list option"
  au_created_at :: jstr

section \<open>Rows\<close>

definition parameter_text :: "(json \<Rightarrow> jstr) \<Rightarrow> (json \<Rightarrow> jstr) \<Rightarrow> json \<Rightarrow> jstr" where
  "parameter_text stringify text_of v = (if is_object v then stringify v else string_of text_of v)"

definition requestParameterSummary ::
    "(json \<Rightarrow> jstr) \<Rightarrow> (json \<Rightarrow> jstr) \<Rightarrow> (jstr \<times> json) list \<Rightarrow> jstr" where
  "requestParameterSummary stringify text_of parameters =
     js_join (ulit '' %u00B7 '') (map (\<lambda>(key, v). key @ lit ''='' @ parameter_text stringify text_of v)
       (filter (\<lambda>(key, v). v \<noteq> JStr [] \<and> v \<noteq> JNull) parameters))"

record LogRow =
  lr_time :: jstr
  lr_badge :: jstr
  lr_call :: jstr
  lr_client :: jstr
  lr_model :: jstr
  lr_parameters :: jstr
  lr_account :: jstr
  lr_cost :: jstr
  lr_result :: jstr
  lr_failed :: bool
  lr_duration :: jstr

definition log_row ::
    "(int \<Rightarrow> int) \<Rightarrow> (int option \<Rightarrow> jstr) \<Rightarrow> (rat \<Rightarrow> jstr) \<Rightarrow> (json \<Rightarrow> jstr) \<Rightarrow> (json \<Rightarrow> jstr) \<Rightarrow>
     Provider list \<Rightarrow> CreditProvider list \<Rightarrow> APIRequestLog \<Rightarrow> LogRow res" where
  "log_row utc when num stringify text_of providers units entry =
     bindr (ProviderBadge (rq_provider_id entry) providers) (\<lambda>badge.
     Inr \<lparr>lr_time = when (date_time utc (rq_created_at entry)),
       lr_badge = snd badge,
       lr_call = rq_method entry @ lit '' '' @ rq_path entry,
       lr_client = or_str (rq_api_key_prefix entry) (ulit ''%u672A%u8BA4%u8BC1'') @ ulit '' %u00B7 '' @ or_str (rq_client_ip entry) (ulit ''%u672A%u77E5 IP''),
       lr_model = or_str (opt_str (rq_model entry)) (or_str (opt_str (rq_kind entry)) (ulit ''%u65E0%u6A21%u578B%u53C2%u6570'')),
       lr_parameters = or_str (requestParameterSummary stringify text_of (rq_parameters entry))
         (lit ''prompt '' @ num_str (rq_prompt_chars entry) @ ulit '' %u5B57%u7B26''),
       lr_account = or_str (opt_str (rq_account_name entry)) (ulit ''%u672A%u5206%u914D%u8D26%u53F7''),
       lr_cost = (case rq_estimated_tokens entry of None \<Rightarrow> ulit ''%u672A%u8FDB%u5165%u5B9A%u4EF7''
         | Some n \<Rightarrow> ulit ''%u9884%u4F30 '' @ num n @ lit '' '' @ providerCreditUnit (rq_provider_id entry) units),
       lr_result = lit ''HTTP '' @ num_str (rq_status entry) @
         (if opt_str (rq_error_code entry) \<noteq> [] then ulit '' %u00B7 '' @ opt_str (rq_error_code entry) else []),
       lr_failed = (rq_status entry \<ge> 400),
       lr_duration = num (rq_duration_ms entry) @ lit '' ms'' @
         (if opt_str (rq_task_id entry) \<noteq> [] then ulit '' %u00B7 %u4EFB%u52A1 '' @ take 8 (opt_str (rq_task_id entry)) else [])\<rparr>)"

definition log_detail ::
    "(int \<Rightarrow> int) \<Rightarrow> (int option \<Rightarrow> jstr) \<Rightarrow> (rat \<Rightarrow> jstr) \<Rightarrow> Provider list \<Rightarrow> CreditProvider list \<Rightarrow>
     APIRequestLog \<Rightarrow> jstr list res" where
  "log_detail utc when num providers units selected =
     bindr (ProviderBadge (rq_provider_id selected) providers) (\<lambda>badge.
     Inr [rq_request_id selected, when (date_time utc (rq_created_at selected)),
       rq_method selected @ lit '' '' @ rq_path selected, snd badge, num_str (rq_status selected),
       or_str (rq_api_key_prefix selected) (ulit ''%u672A%u8BA4%u8BC1''), or_str (rq_client_ip selected) (ulit ''%u672A%u77E5''),
       or_str (opt_str (rq_model selected)) (or_str (opt_str (rq_kind selected)) (ulit ''%u65E0'')),
       or_str (opt_str (rq_account_name selected)) (ulit ''%u672A%u5206%u914D''),
       ulit ''%u9884%u4F30'' @ providerCreditUnit (rq_provider_id selected) units,
       or_str (opt_str (map_option num (rq_estimated_tokens selected))) (ulit ''%u672A%u8FDB%u5165%u5B9A%u4EF7''),
       num (rq_duration_ms selected) @ lit '' ms''])"

definition audit_row :: "(int \<Rightarrow> int) \<Rightarrow> (int option \<Rightarrow> jstr) \<Rightarrow> AuditLog \<Rightarrow> jstr list" where
  "audit_row utc when entry = [au_action entry, au_actor entry, or_str (au_target entry) (ulit ''%u5168%u5C40''),
     when (date_time utc (au_created_at entry))]"

section \<open>Queries\<close>

text \<open>The filters that are set, in the order the page adds them; an empty one is left out.\<close>

definition add_filters :: "(jstr \<times> jstr) list \<Rightarrow> params \<Rightarrow> params" where
  "add_filters = fold (\<lambda>(key, v) ps. if v \<noteq> [] then param_set key v ps else ps)"

definition unless_all :: "jstr \<Rightarrow> jstr" where
  "unless_all v = (if v \<noteq> lit ''all'' then v else [])"

definition page_params :: "nat \<Rightarrow> nat \<Rightarrow> params" where
  "page_params page pageSize = [(lit ''page'', num_str (int page)), (lit ''page_size'', num_str (int pageSize))]"

section \<open>The request log\<close>

datatype log_field = SearchField | PathField | ModelField | KeyField | IPField

text \<open>
  The page with its address parameters, the value of every text field and the debounced, trimmed one.
  \<open>rl_requested\<close> is the search of the address the effect has last run for.
\<close>

record RequestLogs =
  rl_page :: nat
  rl_pageSize :: nat
  rl_text :: "log_field \<Rightarrow> jstr"
  rl_deferred :: "log_field \<Rightarrow> jstr debounced"
  rl_status :: nat
  rl_method :: jstr
  rl_kind :: jstr
  rl_from :: jstr
  rl_to :: jstr
  rl_params :: params
  rl_requested :: jstr
  rl_selected :: "APIRequestLog option"

definition log_search :: "params \<Rightarrow> jstr" where
  "log_search ps = opt_str (param_get ps (lit ''search''))"

definition log_provider :: "RequestLogs \<Rightarrow> jstr" where
  "log_provider s = or_str (opt_str (param_get (rl_params s) (lit ''provider''))) (lit ''all'')"

definition open_logs :: "params \<Rightarrow> RequestLogs" where
  "open_logs ps =
     (let text = (\<lambda>_. [])(SearchField := log_search ps) in
      \<lparr>rl_page = 1, rl_pageSize = 20, rl_text = text,
       rl_deferred = (\<lambda>f. debounce_mount 250 (trim (text f))), rl_status = 0, rl_method = lit ''all'',
       rl_kind = lit ''all'', rl_from = [], rl_to = [], rl_params = ps, rl_requested = log_search ps,
       rl_selected = None\<rparr>)"

definition log_filters :: "RequestLogs \<Rightarrow> (jstr \<times> jstr) list" where
  "log_filters s =
     (let deferred = (\<lambda>f. db_debounced (rl_deferred s f)) in
      [(lit ''search'', deferred SearchField), (lit ''provider'', unless_all (log_provider s)),
       (lit ''status'', if rl_status s \<noteq> 0 then num_str (int (rl_status s)) else []),
       (lit ''method'', unless_all (rl_method s)), (lit ''kind'', unless_all (rl_kind s)),
       (lit ''path'', deferred PathField), (lit ''model'', deferred ModelField),
       (lit ''api_key'', deferred KeyField), (lit ''ip'', deferred IPField)])"

definition request_logs_query :: "(int \<Rightarrow> int) \<Rightarrow> (int \<Rightarrow> int) \<Rightarrow> RequestLogs \<Rightarrow> params res" where
  "request_logs_query utc localtime s =
     appendLocalDateRange utc localtime
       (add_filters (log_filters s) (page_params (rl_page s) (rl_pageSize s))) (rl_from s) (rl_to s)"

datatype log_event =
  TypeField log_field jstr
| ChooseStatus nat
| ChooseMethod jstr
| ChooseKind jstr
| ChooseFrom jstr
| ChooseTo jstr
| ChooseProvider jstr
| LogsNavigated params
| GoToPage nat
| ChooseSize nat
| LogsAnswered nat
| SelectLog "APIRequestLog option"
| Wait nat

definition log_statuses :: "nat list" where
  "log_statuses = [0, 200, 202, 400, 401, 409, 422, 429, 500, 502, 503, 504]"

definition log_methods :: "jstr list" where
  "log_methods = [lit ''all'', lit ''GET'', lit ''POST'', lit ''PUT'', lit ''PATCH'', lit ''DELETE'']"

definition log_kinds :: "jstr list" where
  "log_kinds = [lit ''all'', lit ''image'', lit ''video'', lit ''audio'', lit ''chat'']"

text \<open>The controls; time passing is the debounce timers' business.\<close>

fun log_control :: "RequestLogs \<Rightarrow> log_event \<Rightarrow> RequestLogs" where
  "log_control s (TypeField f v) = s\<lparr>rl_text := (rl_text s)(f := v), rl_page := 1\<rparr>"
| "log_control s (ChooseStatus n) = (if n \<in> set log_statuses then s\<lparr>rl_status := n, rl_page := 1\<rparr> else s)"
| "log_control s (ChooseMethod m) = (if m \<in> set log_methods then s\<lparr>rl_method := m, rl_page := 1\<rparr> else s)"
| "log_control s (ChooseKind k) = (if k \<in> set log_kinds then s\<lparr>rl_kind := k, rl_page := 1\<rparr> else s)"
| "log_control s (ChooseFrom d) = s\<lparr>rl_from := d, rl_page := 1\<rparr>"
| "log_control s (ChooseTo d) = s\<lparr>rl_to := d, rl_page := 1\<rparr>"
| "log_control s (ChooseProvider p) =
     s\<lparr>rl_params := (if p = lit ''all'' then param_delete (lit ''provider'') (rl_params s)
       else param_set (lit ''provider'') p (rl_params s)), rl_page := 1\<rparr>"
| "log_control s (LogsNavigated ps) = s\<lparr>rl_params := ps\<rparr>"
| "log_control s (GoToPage n) = s\<lparr>rl_page := n\<rparr>"
| "log_control s (ChooseSize n) = s\<lparr>rl_pageSize := n, rl_page := 1\<rparr>"
| "log_control s (LogsAnswered n) = s\<lparr>rl_page := clampPage (rl_page s) (totalPages n (rl_pageSize s))\<rparr>"
| "log_control s (SelectLog e) = s\<lparr>rl_selected := e\<rparr>"
| "log_control s (Wait n) = s\<lparr>rl_deferred := (\<lambda>f. debounce_step 250 (rl_deferred s f) (Elapsed n))\<rparr>"

text \<open>The effect on the search of the address: a new one that is not empty is taken over.\<close>

definition requested_effect :: "RequestLogs \<Rightarrow> RequestLogs" where
  "requested_effect s =
     (let requested = log_search (rl_params s) in
      if requested = rl_requested s then s
      else if requested \<noteq> [] then
        s\<lparr>rl_requested := requested, rl_text := (rl_text s)(SearchField := requested), rl_page := 1\<rparr>
      else s\<lparr>rl_requested := requested\<rparr>)"

text \<open>Rendering hands the trimmed texts to the debounced values.\<close>

definition render_fields :: "RequestLogs \<Rightarrow> RequestLogs" where
  "render_fields s = s\<lparr>rl_deferred := (\<lambda>f. debounce_step 250 (rl_deferred s f) (Rendered (trim (rl_text s f))))\<rparr>"

definition log_step :: "RequestLogs \<Rightarrow> log_event \<Rightarrow> RequestLogs" where
  "log_step s e = render_fields (requested_effect (log_control s e))"

section \<open>The audit log\<close>

record Audit =
  ad_page :: nat
  ad_pageSize :: nat
  ad_search :: jstr
  ad_deferred :: "jstr debounced"
  ad_action :: jstr
  ad_from :: jstr
  ad_to :: jstr
  ad_selected :: "AuditLog option"

definition open_audit :: Audit where
  "open_audit = \<lparr>ad_page = 1, ad_pageSize = 20, ad_search = [], ad_deferred = debounce_mount 250 [],
     ad_action = lit ''all'', ad_from = [], ad_to = [], ad_selected = None\<rparr>"

definition audit_query :: "(int \<Rightarrow> int) \<Rightarrow> (int \<Rightarrow> int) \<Rightarrow> Audit \<Rightarrow> params res" where
  "audit_query utc localtime s =
     appendLocalDateRange utc localtime
       (add_filters [(lit ''search'', db_debounced (ad_deferred s)), (lit ''action'', unless_all (ad_action s))]
         (page_params (ad_page s) (ad_pageSize s))) (ad_from s) (ad_to s)"

datatype audit_event =
  TypeAuditSearch jstr
| ChooseAction jstr
| ChooseAuditFrom jstr
| ChooseAuditTo jstr
| GoToAuditPage nat
| ChooseAuditSize nat
| AuditAnswered nat
| SelectAudit "AuditLog option"
| AuditWait nat

text \<open>\<open>actions\<close> are those of the last answer, the options of the select.\<close>

fun audit_control :: "jstr list \<Rightarrow> Audit \<Rightarrow> audit_event \<Rightarrow> Audit" where
  "audit_control actions s (TypeAuditSearch v) = s\<lparr>ad_search := v, ad_page := 1\<rparr>"
| "audit_control actions s (ChooseAction a) =
     (if a = lit ''all'' \<or> a \<in> set actions then s\<lparr>ad_action := a, ad_page := 1\<rparr> else s)"
| "audit_control actions s (ChooseAuditFrom d) = s\<lparr>ad_from := d, ad_page := 1\<rparr>"
| "audit_control actions s (ChooseAuditTo d) = s\<lparr>ad_to := d, ad_page := 1\<rparr>"
| "audit_control actions s (GoToAuditPage n) = s\<lparr>ad_page := n\<rparr>"
| "audit_control actions s (ChooseAuditSize n) = s\<lparr>ad_pageSize := n, ad_page := 1\<rparr>"
| "audit_control actions s (AuditAnswered n) = s\<lparr>ad_page := clampPage (ad_page s) (totalPages n (ad_pageSize s))\<rparr>"
| "audit_control actions s (SelectAudit e) = s\<lparr>ad_selected := e\<rparr>"
| "audit_control actions s (AuditWait n) = s\<lparr>ad_deferred := debounce_step 250 (ad_deferred s) (Elapsed n)\<rparr>"

definition audit_step :: "jstr list \<Rightarrow> Audit \<Rightarrow> audit_event \<Rightarrow> Audit" where
  "audit_step actions s e = (let s' = audit_control actions s e in
     s'\<lparr>ad_deferred := debounce_step 250 (ad_deferred s') (Rendered (trim (ad_search s')))\<rparr>)"

section \<open>Properties\<close>

lemma date_range_keeps:
  "appendLocalDateRange utc localtime ps a b = Inr q \<Longrightarrow> k \<noteq> lit ''from'' \<Longrightarrow> k \<noteq> lit ''to'' \<Longrightarrow>
    param_get q k = param_get ps k"
  by (auto simp: appendLocalDateRange_def bindr_Inr_iff param_get_set split: if_splits)

lemma add_filters_Cons:
  "add_filters ((key, v) # fs) ps = add_filters fs (if v \<noteq> [] then param_set key v ps else ps)"
  "add_filters [] ps = ps"
  by (simp_all add: add_filters_def)

lemma add_filters_get:
  "distinct (map fst fs) \<Longrightarrow> param_get (add_filters fs ps) k =
     (case map_of fs k of None \<Rightarrow> param_get ps k | Some v \<Rightarrow> if v \<noteq> [] then Some v else param_get ps k)"
proof (induction fs arbitrary: ps)
  case (Cons f fs)
  obtain key v where f: "f = (key, v)" by (cases f)
  have "map_of fs key = None" using Cons.prems f by (simp add: map_of_eq_None_iff)
  with Cons f show ?case by (auto simp: add_filters_Cons param_get_set split: option.splits)
qed (simp add: add_filters_Cons)

lemma query_without_dates:
  "rl_from s = [] \<Longrightarrow> rl_to s = [] \<Longrightarrow> \<exists>q. request_logs_query utc localtime s = Inr q"
  by (simp add: request_logs_query_def appendLocalDateRange_def)

lemma dates_kept:
  "rl_from (log_step s e) = (case e of ChooseFrom d \<Rightarrow> d | _ \<Rightarrow> rl_from s)"
  "rl_to (log_step s e) = (case e of ChooseTo d \<Rightarrow> d | _ \<Rightarrow> rl_to s)"
  by (cases e; simp add: log_step_def render_fields_def requested_effect_def Let_def)+

text \<open>Every debounced field is in step with its text.\<close>

definition logs_ok :: "RequestLogs \<Rightarrow> bool" where
  "logs_ok s \<longleftrightarrow> (\<forall>f. debounce_ok 250 (rl_deferred s f) \<and> db_value (rl_deferred s f) = trim (rl_text s f))"

lemma rendered_value [simp]: "db_value (debounce_step d s (Rendered v)) = v"
  by simp

lemma control_deferred:
  "(\<And>f. debounce_ok 250 (rl_deferred s f)) \<Longrightarrow> debounce_ok 250 (rl_deferred (log_control s e) f)"
  by (cases e) (simp_all add: debounce.ok_step del: debounce_step.simps)

lemma effect_deferred [simp]: "rl_deferred (requested_effect s) = rl_deferred s"
  by (simp add: requested_effect_def Let_def)

interpretation request_logs: guarded_machine log_step logs_ok "\<lambda>_. True"
proof
  fix s e assume "logs_ok s"
  then have "debounce_ok 250 (rl_deferred (requested_effect (log_control s e)) f)" for f
    using control_deferred [of s e] by (simp add: logs_ok_def)
  then have "debounce_ok 250 (debounce_step 250 (rl_deferred (requested_effect (log_control s e)) f) (Rendered v))" for f v
    by (simp add: debounce.ok_step del: debounce_step.simps)
  then show "logs_ok (log_step s e)"
    unfolding log_step_def render_fields_def logs_ok_def by (simp del: debounce_step.simps)
qed

lemma open_logs_ok: "logs_ok (open_logs ps)"
  by (simp add: logs_ok_def open_logs_def debounce_ok_def debounce_mount_def Let_def)

lemma logs_reachable: "logs_ok (foldl log_step (open_logs ps) es)"
  by (rule request_logs.ok_run [OF open_logs_ok]) (simp add: list_all_iff)

text \<open>Waiting changes nothing but the debounced values.\<close>

lemma wait_step:
  assumes "logs_ok s" "rl_requested s = log_search (rl_params s)"
  shows "log_step s (Wait n) = s\<lparr>rl_deferred := (\<lambda>f. debounce_step 250 (rl_deferred s f) (Elapsed n))\<rparr>"
proof -
  have "db_value (debounce_step 250 (rl_deferred s f) (Elapsed n)) = trim (rl_text s f)" for f
    using assms(1) by (simp add: logs_ok_def split: option.splits)
  then show ?thesis using assms(2)
    by (simp add: log_step_def requested_effect_def render_fields_def del: debounce_step.simps(2))
qed

lemma requested_step: "rl_requested (log_step s e) = log_search (rl_params (log_step s e))"
  by (simp add: log_step_def render_fields_def requested_effect_def Let_def)

lemma requested_reachable: "rl_requested (foldl log_step (open_logs ps) es) =
    log_search (rl_params (foldl log_step (open_logs ps) es))"
proof (cases es rule: rev_cases)
  case Nil
  then show ?thesis by (simp add: open_logs_def Let_def)
qed (simp add: requested_step)

lemma waits:
  assumes "logs_ok s" "rl_requested s = log_search (rl_params s)"
  shows "foldl log_step s (map Wait ns) =
    s\<lparr>rl_deferred := (\<lambda>f. foldl (debounce_step 250) (rl_deferred s f) (map Elapsed ns))\<rparr>"
  using assms
proof (induction ns arbitrary: s)
  case (Cons n ns)
  let ?s = "log_step s (Wait n)"
  have "logs_ok ?s" using request_logs.ok_step [OF Cons.prems(1)] by simp
  moreover have "rl_requested ?s = log_search (rl_params ?s)" by (rule requested_step)
  ultimately show ?case
    using Cons.IH [of ?s] wait_step [OF Cons.prems] by simp
qed simp

lemma settled_fields:
  assumes "logs_ok s" "250 \<le> sum_list ns"
  shows "db_debounced (foldl (debounce_step 250) (rl_deferred s f) (map Elapsed ns)) = trim (rl_text s f)"
proof -
  have sum: "elapsed (map Elapsed ns) = sum_list ns" by (simp add: elapsed_def comp_def)
  have "debounce_ok 250 (rl_deferred s f)" using assms(1) by (simp add: logs_ok_def)
  then have "db_debounced (foldl (debounce_step 250) (rl_deferred s f) (map Elapsed ns)) = db_value (rl_deferred s f)"
    using assms(2) by (intro debounce_due) (auto simp: debounce_ok_def sum)
  with assms(1) show ?thesis by (simp add: logs_ok_def)
qed

text \<open>The filters the page shows, by the name the gateway knows them under.\<close>

definition shown_filters :: "RequestLogs \<Rightarrow> (jstr \<times> jstr) list" where
  "shown_filters s =
     [(lit ''search'', trim (rl_text s SearchField)), (lit ''provider'', unless_all (log_provider s)),
      (lit ''status'', if rl_status s \<noteq> 0 then num_str (int (rl_status s)) else []),
      (lit ''method'', unless_all (rl_method s)), (lit ''kind'', unless_all (rl_kind s)),
      (lit ''path'', trim (rl_text s PathField)), (lit ''model'', trim (rl_text s ModelField)),
      (lit ''api_key'', trim (rl_text s KeyField)), (lit ''ip'', trim (rl_text s IPField))]"

definition shown_filter :: "RequestLogs \<Rightarrow> jstr \<Rightarrow> jstr" where
  "shown_filter s key = nullish (map_of (shown_filters s @ page_params (rl_page s) (rl_pageSize s)) key) []"

lemma settled_query:
  assumes "logs_ok s" "rl_requested s = log_search (rl_params s)" "250 \<le> sum_list ns"
    and "request_logs_query utc localtime (foldl log_step s (map Wait ns)) = Inr q"
    and "key \<noteq> lit ''from''" "key \<noteq> lit ''to''"
  shows "param_get q key = (if shown_filter s key = [] then None else Some (shown_filter s key))"
proof -
  define r where "r = foldl log_step s (map Wait ns)"
  have run: "r = s\<lparr>rl_deferred := (\<lambda>f. foldl (debounce_step 250) (rl_deferred s f) (map Elapsed ns))\<rparr>"
    unfolding r_def by (rule waits [OF assms(1,2)])
  have filters: "log_filters r = shown_filters s"
    unfolding run log_filters_def shown_filters_def Let_def
    by (simp add: settled_fields [OF assms(1,3)] log_provider_def)
  have page: "rl_page r = rl_page s" "rl_pageSize r = rl_pageSize s" by (simp_all add: run)
  have "param_get q key = param_get (add_filters (shown_filters s) (page_params (rl_page s) (rl_pageSize s))) key"
    using assms(4) unfolding r_def [symmetric] request_logs_query_def filters page
    by (rule date_range_keeps) fact+
  also have "\<dots> = (case map_of (shown_filters s) key of
      None \<Rightarrow> param_get (page_params (rl_page s) (rl_pageSize s)) key
    | Some v \<Rightarrow> if v \<noteq> [] then Some v else param_get (page_params (rl_page s) (rl_pageSize s)) key)"
    by (rule add_filters_get) (simp add: shown_filters_def)
  also have "\<dots> = (if shown_filter s key = [] then None else Some (shown_filter s key))"
  proof (cases "map_of (shown_filters s) key")
    case None
    then show ?thesis by (auto simp: shown_filter_def map_add_def param_get_def page_params_def)
  next
    case (Some v)
    then have "key \<in> fst ` set (shown_filters s)" by (force dest: map_of_SomeD)
    then have "param_get (page_params (rl_page s) (rl_pageSize s)) key = None"
      by (auto simp: shown_filters_def param_get_def page_params_def)
    with Some show ?thesis by (simp add: shown_filter_def map_add_def)
  qed
  finally show ?thesis .
qed



text \<open>Opening the address of a search takes it over, but leaving it again does not clear the field:
  the list goes on being asked for the old search although the address has none.\<close>

theorem cleared_address_keeps_search:
  assumes "s = foldl log_step (open_logs ps) es" "search \<noteq> []" "log_search (rl_params s) \<noteq> search"
    and "log_search there = search" "log_search back = []" "trim search \<noteq> []" "250 \<le> sum_list ns"
    and "request_logs_query utc localtime (foldl log_step s (LogsNavigated there # LogsNavigated back # map Wait ns)) = Inr q"
  shows "param_get q (lit ''search'') = Some (trim search)"
proof -
  define t where "t = foldl log_step (open_logs ps) (es @ [LogsNavigated there, LogsNavigated back])"
  have "rl_requested s \<noteq> search" using requested_reachable assms(1,3) by simp
  then have "rl_text t SearchField = search"
    using assms(1,2,4,5) by (simp add: t_def log_step_def requested_effect_def render_fields_def Let_def)
  then have shown: "shown_filter t (lit ''search'') = trim search"
    by (simp add: shown_filter_def shown_filters_def)
  have q: "request_logs_query utc localtime (foldl log_step t (map Wait ns)) = Inr q"
    using assms(8) by (simp add: assms(1) t_def)
  have "logs_ok t" "rl_requested t = log_search (rl_params t)"
    unfolding t_def by (rule logs_reachable requested_reachable)+
  from settled_query [OF this assms(7) q, of "lit ''search''"] shown assms(6) show ?thesis by simp
qed

theorem cleared_address_keeps_search_witness:
  "\<exists>q. request_logs_query (\<lambda>t. t) (\<lambda>t. t) (foldl log_step (open_logs [])
      [LogsNavigated [(lit ''search'', lit ''req-1'')], LogsNavigated [], Wait 300]) = Inr q \<and>
    param_get q (lit ''search'') = Some (lit ''req-1'')"
proof -
  let ?there = "[(lit ''search'', lit ''req-1'')]"
  have search: "log_search (rl_params (open_logs [])) \<noteq> lit ''req-1''" "log_search ?there = lit ''req-1''" "log_search [] = []"
    by (simp_all add: open_logs_def log_search_def param_get_def Let_def)
  have trimmed: "trim (lit ''req-1'') = lit ''req-1''" by code_simp
  have first: "open_logs [] = foldl log_step (open_logs []) []" by simp
  obtain q where q: "request_logs_query (\<lambda>t. t) (\<lambda>t. t) (foldl log_step (open_logs [])
      (LogsNavigated ?there # LogsNavigated [] # map Wait [300])) = Inr q"
    using query_without_dates by (force simp: dates_kept open_logs_def Let_def)
  have "param_get q (lit ''search'') = Some (trim (lit ''req-1''))"
    by (rule cleared_address_keeps_search [OF first _ search(1) search(2) search(3) _ _ q]) (simp_all add: trimmed)
  with q trimmed show ?thesis by (intro exI [of _ q]) simp
qed

end
