(* ===== verification/Settings.thy ===== *)
theory Settings
  imports CapacityPage
begin

text \<open>
  The settings page with the change of the administrator's password (pages/security-page.tsx) and the
  login form (main.tsx). The form library calls the schema on every change and lets a form through
  only if the schema finds nothing.
\<close>

section \<open>The password form\<close>

record PasswordForm =
  pw_current :: jstr
  pw_new :: jstr
  pw_confirmation :: jstr

text \<open>What the schema finds: path and message, in the order of the fields; lengths are in code units.\<close>

definition passwordFormSchema :: "PasswordForm \<Rightarrow> (jstr \<times> jstr) list" where
  "passwordFormSchema f =
     (if length (pw_current f) < 1 then [(lit ''current_password'', ulit ''%u8BF7%u8F93%u5165%u5F53%u524D%u5BC6%u7801'')] else []) @
     (if length (pw_new f) < 8 then [(lit ''new_password'', ulit ''%u65B0%u5BC6%u7801%u81F3%u5C11 8 %u4E2A%u5B57%u7B26'')] else []) @
     (if length (pw_confirmation f) < 8 then [(lit ''confirmation'', ulit ''%u8BF7%u518D%u6B21%u8F93%u5165%u65B0%u5BC6%u7801'')] else []) @
     (if pw_new f \<noteq> pw_confirmation f then [(lit ''confirmation'', ulit ''%u4E24%u6B21%u8F93%u5165%u7684%u65B0%u5BC6%u7801%u4E0D%u4E00%u81F4'')] else [])"

definition password_valid :: "PasswordForm \<Rightarrow> bool" where
  "password_valid f \<longleftrightarrow> passwordFormSchema f = []"

text \<open>
  The page: the form, the request that is pending with what it sends, the error of the last one, the
  message, and the timers after which the page reloads; \<open>sp_reloaded\<close> counts the reloads.
\<close>

record SecurityPage =
  sp_form :: PasswordForm
  sp_pending :: "(jstr \<times> jstr) option"
  sp_error :: "jstr option"
  sp_message :: jstr
  sp_timers :: "nat list"
  sp_reloaded :: bool

definition open_security :: SecurityPage where
  "open_security = \<lparr>sp_form = \<lparr>pw_current = [], pw_new = [], pw_confirmation = []\<rparr>, sp_pending = None,
     sp_error = None, sp_message = [], sp_timers = [], sp_reloaded = False\<rparr>"

datatype security_event =
  TypeCurrent jstr
| TypeNew jstr
| TypeConfirmation jstr
| SubmitPassword
| PasswordAccepted
| PasswordRejected jstr
| TimePasses nat

fun security_step :: "SecurityPage \<Rightarrow> security_event \<Rightarrow> SecurityPage" where
  "security_step s (TypeCurrent v) = s\<lparr>sp_form := (sp_form s)\<lparr>pw_current := v\<rparr>\<rparr>"
| "security_step s (TypeNew v) = s\<lparr>sp_form := (sp_form s)\<lparr>pw_new := v\<rparr>\<rparr>"
| "security_step s (TypeConfirmation v) = s\<lparr>sp_form := (sp_form s)\<lparr>pw_confirmation := v\<rparr>\<rparr>"
| "security_step s SubmitPassword =
     (if sp_pending s \<noteq> None \<or> \<not> password_valid (sp_form s) then s
      else s\<lparr>sp_pending := Some (pw_current (sp_form s), pw_new (sp_form s)), sp_error := None\<rparr>)"
| "security_step s PasswordAccepted =
     (if sp_pending s = None then s
      else s\<lparr>sp_pending := None, sp_message := ulit ''%u5BC6%u7801%u5DF2%u66F4%u65B0%uFF0C%u6B63%u5728%u8FD4%u56DE%u767B%u5F55%u9875%u2026'', sp_timers := sp_timers s @ [900]\<rparr>)"
| "security_step s (PasswordRejected message) =
     (if sp_pending s = None then s else s\<lparr>sp_pending := None, sp_error := Some message\<rparr>)"
| "security_step s (TimePasses n) =
     s\<lparr>sp_timers := map (\<lambda>t. t - n) (filter (\<lambda>t. n < t) (sp_timers s)),
       sp_reloaded := (sp_reloaded s \<or> (\<exists>t \<in> set (sp_timers s). t \<le> n))\<rparr>"

text \<open>The addresses of the three buttons.\<close>

definition settings_links :: "(jstr \<times> params) list" where
  "settings_links = [(lit ''/capacity'', []), (lit ''/accounts'', [(lit ''status'', lit ''attention'')]), (lit ''/keys'', [])]"

definition settings_summary :: "jstr option \<Rightarrow> SystemCapacity option \<Rightarrow> jstr list" where
  "settings_summary schema_version capacity =
     [or_str (opt_str schema_version) (ulit ''%u8BFB%u53D6%u4E2D''),
      (case capacity of None \<Rightarrow> ulit ''%u8BFB%u53D6%u4E2D''
       | Some c \<Rightarrow> num_str (cap_executing c) @ lit ''/'' @ num_str (cap_effective_execution_limit c)),
      (case capacity of None \<Rightarrow> ulit ''%u8BFB%u53D6%u4E2D''
       | Some c \<Rightarrow> num_str (cap_queued c) @ lit ''/'' @ num_str (cap_max_queued c)),
      lit ''HTTP-only Cookie'']"

section \<open>Login\<close>

record Login =
  lg_username :: jstr
  lg_password :: jstr
  lg_showPassword :: bool
  lg_pending :: "(jstr \<times> jstr) option"
  lg_failed :: bool

definition open_login :: Login where
  "open_login = \<lparr>lg_username = lit ''admin'', lg_password = [], lg_showPassword = False, lg_pending = None,
     lg_failed = False\<rparr>"

text \<open>
  The session: its version, the query of that version, whether an answer was ever good and, while the
  login form is shown, its state. A login that succeeds asks for the session again under the next
  version; until that is answered the query library goes on showing the last good answer, if there is
  one (its \<open>placeholderData\<close>).
\<close>

record AdminSession =
  as_version :: nat
  as_query :: session_query
  as_known :: bool
  as_login :: Login

definition open_session :: AdminSession where
  "open_session = \<lparr>as_version = 0, as_query = SessionPending, as_known = False, as_login = open_login\<rparr>"

datatype session_event =
  SessionAnswer nat "api_error + json"
| RetrySession
| TypeUsername jstr
| TypeLoginPassword jstr
| ToggleShow
| SubmitLogin
| LoginAnswer "api_error + json"

text \<open>The form is there only while the session is refused; it is opened anew each time it appears.\<close>

fun session_step :: "AdminSession \<Rightarrow> session_event \<Rightarrow> AdminSession" where
  "session_step s (SessionAnswer v answer) =
     (if v = as_version s
      then s\<lparr>as_query := session_answer answer, as_known := (as_known s \<or> session_answer answer = SessionReady),
        as_login := (if AdminApp (as_query s) = LoginForm then as_login s else open_login)\<rparr>
      else s)"
| "session_step s RetrySession = s"
| "session_step s (TypeUsername v) =
     (if AdminApp (as_query s) = LoginForm then s\<lparr>as_login := (as_login s)\<lparr>lg_username := v\<rparr>\<rparr> else s)"
| "session_step s (TypeLoginPassword v) =
     (if AdminApp (as_query s) = LoginForm then s\<lparr>as_login := (as_login s)\<lparr>lg_password := v\<rparr>\<rparr> else s)"
| "session_step s ToggleShow =
     (if AdminApp (as_query s) = LoginForm
      then s\<lparr>as_login := (as_login s)\<lparr>lg_showPassword := \<not> lg_showPassword (as_login s)\<rparr>\<rparr> else s)"
| "session_step s SubmitLogin =
     (if AdminApp (as_query s) = LoginForm \<and> lg_pending (as_login s) = None
      then s\<lparr>as_login := (as_login s)\<lparr>lg_pending := Some (lg_username (as_login s), lg_password (as_login s)),
        lg_failed := False\<rparr>\<rparr> else s)"
| "session_step s (LoginAnswer answer) =
     (if AdminApp (as_query s) = LoginForm \<and> lg_pending (as_login s) \<noteq> None then
        (case answer of
           Inl _ \<Rightarrow> s\<lparr>as_login := (as_login s)\<lparr>lg_pending := None, lg_failed := True\<rparr>\<rparr>
         | Inr _ \<Rightarrow> s\<lparr>as_version := as_version s + 1,
             as_query := (if as_known s then SessionReady else SessionPending)\<rparr>)
      else s)"

section \<open>Properties\<close>

lemma password_valid_iff:
  "password_valid f \<longleftrightarrow> pw_current f \<noteq> [] \<and> 8 \<le> length (pw_new f) \<and> pw_confirmation f = pw_new f"
  by (auto simp: password_valid_def passwordFormSchema_def not_less)

text \<open>A pending change has both passwords, the new one of at least 8 code units.\<close>

definition security_ok :: "SecurityPage \<Rightarrow> bool" where
  "security_ok s \<longleftrightarrow> (case sp_pending s of None \<Rightarrow> True | Some (c, n) \<Rightarrow> c \<noteq> [] \<and> 8 \<le> length n)"

interpretation security_page: guarded_machine security_step security_ok "\<lambda>_. True"
proof
  fix s e assume "security_ok s"
  then show "security_ok (security_step s e)"
    by (cases e) (auto simp: security_ok_def password_valid_iff split: option.splits)
qed

lemma security_reachable: "security_ok (foldl security_step open_security es)"
  by (rule security_page.ok_run) (simp_all add: security_ok_def open_security_def list_all_iff)

definition passed :: "security_event list \<Rightarrow> nat" where
  "passed es = sum_list (map (\<lambda>e. case e of TimePasses n \<Rightarrow> n | _ \<Rightarrow> 0) es)"

lemma passed_simps [simp]: "passed [] = 0"
  "passed (e # es) = (case e of TimePasses n \<Rightarrow> n | _ \<Rightarrow> 0) + passed es"
  by (simp_all add: passed_def)

lemma reloads_in_time:
  "sp_reloaded s \<or> (\<exists>t \<in> set (sp_timers s). t \<le> passed es) \<Longrightarrow> es \<noteq> [] \<or> sp_reloaded s \<Longrightarrow>
    \<forall>t \<in> set (sp_timers s). 0 < t \<Longrightarrow> sp_reloaded (foldl security_step s es)"
proof (induction es arbitrary: s)
  case (Cons e es)
  show ?case
  proof (cases "sp_reloaded (security_step s e) \<or> (\<exists>t \<in> set (sp_timers (security_step s e)). t \<le> passed es)")
    case True
    moreover have "\<forall>t \<in> set (sp_timers (security_step s e)). 0 < t"
      using Cons.prems(3) by (cases e) auto
    ultimately show ?thesis
      using Cons.IH [of "security_step s e"] by (cases es) fastforce+
  next
    case False
    show ?thesis
    proof (cases e)
      case (TimePasses n)
      with Cons.prems False obtain t where t: "t \<in> set (sp_timers s)" "t \<le> n + passed es" "n < t"
        by (auto simp: not_le)
      then have "t - n \<in> set (sp_timers (security_step s e))" "t - n \<le> passed es" by (auto simp: TimePasses)
      with False show ?thesis by blast
    qed (use Cons.prems False in auto)
  qed
qed auto

lemma no_early_reload:
  "\<not> sp_reloaded s \<Longrightarrow> passed es < d \<Longrightarrow> d \<le> 900 \<Longrightarrow> \<forall>t \<in> set (sp_timers s). d \<le> t \<Longrightarrow>
    \<not> sp_reloaded (foldl security_step s es)"
proof (induction es arbitrary: s d)
  case (Cons e es)
  show ?case
  proof (cases "\<exists>n. e = TimePasses n")
    case True
    then obtain n where e: "e = TimePasses n" by blast
    have "\<not> sp_reloaded (foldl security_step (security_step s e) es)"
      using Cons.prems by (intro Cons.IH [of _ "d - n"]) (auto simp: e)
    then show ?thesis by simp
  next
    case False
    then have "\<not> sp_reloaded (foldl security_step (security_step s e) es)"
      using Cons.prems by (intro Cons.IH [of _ d]) (cases e; auto)+
    then show ?thesis by simp
  qed
qed simp

text \<open>Only a change with a current password and a new one of at least 8 code units, repeated
  correctly, is sent; once it is accepted the page reloads 900 milliseconds later, whatever is done in
  the meantime, and not earlier.\<close>

theorem password_change_reloads:
  assumes "s = foldl security_step open_security es" "sp_pending s = Some (current, new)"
    and "r = foldl security_step (security_step s PasswordAccepted) later"
  shows "current \<noteq> [] \<and> 8 \<le> length new \<and>
    (900 \<le> passed later \<longrightarrow> sp_reloaded r) \<and>
    (passed later < 900 \<and> sp_timers s = [] \<and> \<not> sp_reloaded s \<longrightarrow> \<not> sp_reloaded r)"
proof -
  let ?s = "security_step s PasswordAccepted"
  have step: "sp_timers ?s = sp_timers s @ [900]" "sp_reloaded ?s = sp_reloaded s"
    using assms(2) by simp_all
  have positive: "\<forall>t \<in> set (sp_timers (foldl security_step open_security es)). 0 < t" for es
  proof (induction es rule: rev_induct)
    case (snoc e es)
    then show ?case by (cases e) auto
  qed (simp add: open_security_def)
  have "sp_reloaded r" if "900 \<le> passed later"
    unfolding assms(3) using that positive [of es] step
    by (intro reloads_in_time) (auto simp: assms(1))
  moreover have "\<not> sp_reloaded r" if "passed later < 900" "sp_timers s = []" "\<not> sp_reloaded s"
    unfolding assms(3) using that step by (intro no_early_reload [of _ _ 900]) auto
  ultimately show ?thesis
    using security_reachable [of es] assms(2) by (auto simp: assms(1) security_ok_def)
qed

theorem password_change_reloads_witness:
  "sp_reloaded (foldl security_step open_security
     [TypeCurrent (lit ''admin''), TypeNew (lit ''12345678''), TypeConfirmation (lit ''12345678''), SubmitPassword,
      PasswordAccepted, TimePasses 500, TypeNew [], TimePasses 400])"
proof -
  let ?s = "foldl security_step open_security
     [TypeCurrent (lit ''admin''), TypeNew (lit ''12345678''), TypeConfirmation (lit ''12345678''), SubmitPassword]"
  have pending: "sp_pending ?s = Some (lit ''admin'', lit ''12345678'')"
    by (simp add: open_security_def password_valid_iff)
  show ?thesis
    using password_change_reloads [OF refl pending refl, of "[TimePasses 500, TypeNew [], TimePasses 400]"]
    by (simp del: security_step.simps)
qed

lemma AdminApp_dashboard: "AdminApp q = DashboardPage \<longleftrightarrow> q = SessionReady"
  by (simp add: AdminApp_def split: session_query.split api_error.split)

lemma session_known:
  "as_known (foldl session_step open_session es) \<or> AdminApp (as_query (foldl session_step open_session es)) = DashboardPage \<Longrightarrow>
    \<exists>v body. SessionAnswer v (Inr body) \<in> set es"
proof (induction es rule: rev_induct)
  case Nil
  then show ?case by (simp add: open_session_def AdminApp_def)
next
  case (snoc e es)
  let ?s = "foldl session_step open_session es"
  show ?case
  proof (cases "as_known ?s \<or> AdminApp (as_query ?s) = DashboardPage")
    case False
    then show ?thesis using snoc.prems
      by (cases e) (auto simp: session_answer_def AdminApp_dashboard split: sum.splits if_splits)
  qed (use snoc.IH in auto)
qed

text \<open>The dashboard is shown only after the gateway has once answered for a session; a refused one
  leads to an empty login form; what a login sends is what was typed; and a good login asks for
  the session again, so that answers to the old question no longer count.\<close>

theorem dashboard_needs_session:
  assumes "s = foldl session_step open_session es"
  shows "(AdminApp (as_query s) = DashboardPage \<longrightarrow> (\<exists>v body. SessionAnswer v (Inr body) \<in> set es)) \<and>
    (AdminApp (as_query s) \<noteq> LoginForm \<longrightarrow>
      as_login (session_step s (SessionAnswer (as_version s) (Inl (APIRequestError m 401)))) = open_login) \<and>
    (AdminApp (as_query s) = LoginForm \<and> lg_pending (as_login s) = None \<longrightarrow>
      lg_pending (as_login (foldl session_step s [TypeUsername u, TypeLoginPassword p, SubmitLogin])) = Some (u, p) \<and>
      (let t = foldl session_step s [TypeUsername u, TypeLoginPassword p, SubmitLogin, LoginAnswer (Inr body)] in
       as_version t = as_version s + 1 \<and> session_step t (SessionAnswer (as_version s) answer) = t))"
  using session_known [of es] by (auto simp: assms Let_def)

end
