(* ===== verification/Mutation.thy ===== *)
theory Mutation
  imports JsPrelude
begin

text \<open>
  The hook for requests the user starts (useMutation of the query library, as the calculators use
  it): a started request is pending until its answer arrives; starting another one or resetting the
  hook detaches the former, whose answer is then not seen any more. Requests are numbered in
  the order they are started.
\<close>

datatype ('r, 'a) mutation_state =
  MutationIdle
| MutationPending nat 'r
| MutationError jstr
| MutationDone 'r 'a

record ('r, 'a) mutation =
  mu_count :: nat
  mu_state :: "('r, 'a) mutation_state"

definition new_mutation :: "('r, 'a) mutation" where
  "new_mutation = \<lparr>mu_count = 0, mu_state = MutationIdle\<rparr>"

definition mutate :: "'r \<Rightarrow> ('r, 'a) mutation \<Rightarrow> ('r, 'a) mutation" where
  "mutate r m = \<lparr>mu_count = mu_count m + 1, mu_state = MutationPending (mu_count m) r\<rparr>"

definition reset_mutation :: "('r, 'a) mutation \<Rightarrow> ('r, 'a) mutation" where
  "reset_mutation m = m\<lparr>mu_state := MutationIdle\<rparr>"

text \<open>The answer to request number \<open>n\<close>.\<close>

definition settle_mutation :: "nat \<Rightarrow> jstr + 'a \<Rightarrow> ('r, 'a) mutation \<Rightarrow> ('r, 'a) mutation" where
  "settle_mutation n answer m =
     (case mu_state m of
        MutationPending k r \<Rightarrow>
          if k = n then m\<lparr>mu_state := (case answer of Inl e \<Rightarrow> MutationError e | Inr a \<Rightarrow> MutationDone r a)\<rparr> else m
      | _ \<Rightarrow> m)"

definition is_pending :: "('r, 'a) mutation \<Rightarrow> bool" where
  "is_pending m \<longleftrightarrow> (case mu_state m of MutationPending _ _ \<Rightarrow> True | _ \<Rightarrow> False)"

text \<open>The request that is pending or answered.\<close>

definition mutation_request :: "('r, 'a) mutation \<Rightarrow> 'r option" where
  "mutation_request m = (case mu_state m of MutationPending _ r \<Rightarrow> Some r | MutationDone r _ \<Rightarrow> Some r | _ \<Rightarrow> None)"

lemma mutation_request_simps [simp]:
  "mutation_request new_mutation = None"
  "mutation_request (mutate r m) = Some r"
  "mutation_request (reset_mutation m) = None"
  "mutation_request (m\<lparr>mu_state := MutationError e\<rparr>) = None"
  by (simp_all add: mutation_request_def new_mutation_def mutate_def reset_mutation_def)

lemma is_pending_simps [simp]:
  "\<not> is_pending new_mutation" "is_pending (mutate r m)" "\<not> is_pending (reset_mutation m)"
  by (simp_all add: is_pending_def new_mutation_def mutate_def reset_mutation_def)

lemma settle_request: "mutation_request (settle_mutation n answer m) = Some r \<Longrightarrow> mutation_request m = Some r"
  by (auto simp: settle_mutation_def mutation_request_def split: mutation_state.splits sum.splits if_splits)

lemma settle_detached: "mu_state m \<noteq> MutationPending n r \<Longrightarrow> mutation_request m \<noteq> None \<Longrightarrow> mutation_request m = Some r \<Longrightarrow>
    settle_mutation n answer m = m"
  by (auto simp: settle_mutation_def mutation_request_def split: mutation_state.splits)

text \<open>
  A calculator: a form whose answer is reset on every change of what it would send. The law is what its
  handlers promise; the lemma is what its reader relies on.
\<close>

locale calculator =
  fixes step :: "'s \<Rightarrow> 'e \<Rightarrow> 's"
    and hook :: "'s \<Rightarrow> ('r, 'a) mutation"
    and request :: "'s \<Rightarrow> 'r option"
  assumes keeps_or_resets: "mutation_request (hook (step s e)) = Some r \<Longrightarrow>
    (mutation_request (hook s) = Some r \<and> request (step s e) = request s) \<or> request (step s e) = Some r"
begin

lemma answer_current:
  assumes "mutation_request (hook s) = None"
    and "mutation_request (hook (foldl step s es)) = Some r"
  shows "request (foldl step s es) = Some r"
  using assms(2)
proof (induction es arbitrary: r rule: rev_induct)
  case Nil
  with assms(1) show ?case by simp
next
  case (snoc e es)
  let ?s = "foldl step s es"
  from keeps_or_resets [of ?s e r] snoc.prems
  consider "mutation_request (hook ?s) = Some r" "request (step ?s e) = request ?s" | "request (step ?s e) = Some r"
    by auto
  then show ?case
  proof cases
    case 1
    then show ?thesis using snoc.IH by simp
  qed simp
qed

end

end
