(* ===== verification/CostQuote.thy ===== *)
theory CostQuote
  imports Mutation Json Types
begin

text \<open>
  The quote of a Creative Fabrica generation (pages/creativefabrica-cost-quote.tsx): the options of a
  model of the pricing catalog, the form that edits them, the request, and the evidence table. The
  catalog (shared/creativefabrica-pricing-catalog.json) is an argument. \<open>num\<close> prints a number as
  \<open>String\<close> does; \<open>parse\<close> is \<open>JSON.parse\<close>, with the message of its error, and \<open>stringify\<close> its printer.
\<close>

section \<open>Options\<close>

text \<open>A value of an option; \<open>NaN\<close> is what \<open>Number\<close> makes of a text that is no number.\<close>

datatype Scalar = SText jstr | SNumber rat | SNaN | SBool bool

record OptionSpec =
  os_allowed :: "Scalar list option"
  os_default :: "Scalar option"
  os_min :: "Scalar option"
  os_max :: "Scalar option"

record QuoteMedia =
  qm_role :: jstr
  qm_requiredMetadata :: "jstr list option"

record QuoteModel =
  qm_options :: "(jstr \<times> (jstr \<times> OptionSpec) list) list"
  qm_media :: "QuoteMedia list option"

definition scalar_text :: "(rat \<Rightarrow> jstr) \<Rightarrow> Scalar \<Rightarrow> jstr" where
  "scalar_text num v = (case v of SText t \<Rightarrow> t | SNumber n \<Rightarrow> num n | SNaN \<Rightarrow> lit ''NaN''
     | SBool b \<Rightarrow> if b then lit ''true'' else lit ''false'')"

text \<open>
  \<open>Number(text)\<close> for decimal notation without an exponent; the empty text is 0. Other notations
  (exponents, hexadecimal, Infinity) are read as \<open>NaN\<close> here; the catalog has none.
\<close>

definition decimal_digits :: "jstr \<Rightarrow> bool" where
  "decimal_digits s \<longleftrightarrow> (\<forall>c \<in> set s. 48 \<le> c \<and> c \<le> 57)"

definition js_number :: "jstr \<Rightarrow> Scalar" where
  "js_number text =
     (let t = trim text;
          negative = starts_with t (lit ''-'');
          digits = (if negative \<or> starts_with t (lit ''+'') then drop 1 t else t);
          whole = takeWhile (\<lambda>c. c \<noteq> 46) digits;
          frac = drop (length whole + 1) digits in
      if t = [] then SNumber 0
      else if decimal_digits whole \<and> decimal_digits frac \<and> (whole \<noteq> [] \<or> frac \<noteq> []) then
        (let v = of_nat (digits_value whole) + of_nat (digits_value frac) / 10 ^ length frac in
         SNumber (if negative then - v else v))
      else SNaN)"

definition numeric_type :: "jstr \<Rightarrow> bool" where
  "numeric_type type \<longleftrightarrow> type = lit ''integerType'' \<or> type = lit ''numberType''"

definition scalar_number :: "Scalar \<Rightarrow> Scalar" where
  "scalar_number v = (case v of SText t \<Rightarrow> js_number t | SNumber n \<Rightarrow> SNumber n | SNaN \<Rightarrow> SNaN
     | SBool b \<Rightarrow> SNumber (if b then 1 else 0))"

text \<open>The first entry of a definition, which names the type.\<close>

definition option_spec :: "(jstr \<times> OptionSpec) list \<Rightarrow> (jstr \<times> OptionSpec) option" where
  "option_spec definition = (case definition of [] \<Rightarrow> None | e # _ \<Rightarrow> Some e)"

definition first_allowed :: "OptionSpec \<Rightarrow> Scalar option" where
  "first_allowed spec = (case os_allowed spec of Some (v # _) \<Rightarrow> Some v | _ \<Rightarrow> None)"

definition initial_value :: "jstr \<Rightarrow> OptionSpec \<Rightarrow> Scalar option" where
  "initial_value type spec =
     (case (case os_default spec of Some v \<Rightarrow> Some v | None \<Rightarrow>
              (case first_allowed spec of Some v \<Rightarrow> Some v | None \<Rightarrow> os_min spec)) of
        None \<Rightarrow> None
      | Some v \<Rightarrow> Some (if numeric_type type then scalar_number v else v))"

type_synonym options = "(jstr, Scalar) jmap"

fun add_initial :: "jstr \<times> (jstr \<times> OptionSpec) list \<Rightarrow> options \<Rightarrow> options" where
  "add_initial (key, definition) result =
     (case option_spec definition of
        None \<Rightarrow> result
      | Some (type, spec) \<Rightarrow> (case initial_value type spec of
          None \<Rightarrow> result | Some v \<Rightarrow> map_set key v result))"

definition initialOptions :: "QuoteModel option \<Rightarrow> options" where
  "initialOptions model = fold add_initial (case model of None \<Rightarrow> [] | Some m \<Rightarrow> qm_options m) []"

section \<open>The form\<close>

record QuoteRequest =
  qr_account :: jstr
  qr_kind :: MediaKind
  qr_model :: jstr
  qr_options :: options
  qr_input_media :: "json list"

record Quote =
  qt_coins :: rat
  qt_checked_at :: jstr
  qt_notice :: jstr
  qt_model :: jstr
  qt_default_flow_total :: "rat option"
  qt_default_flow_quantity :: "rat option"
  qt_default_flow_notice :: "jstr option"

text \<open>What the form is used with: the kind, the models of the gateway and the catalog.\<close>

record quote_env =
  qe_kind :: MediaKind
  qe_models :: "jstr list"
  qe_catalog :: "(jstr \<times> QuoteModel) list"

record CostQuote =
  cq_account :: jstr
  cq_model :: jstr
  cq_options :: options
  cq_media :: jstr
  cq_page :: nat
  cq_quote :: "(QuoteRequest, Quote) mutation"

definition open_quote :: CostQuote where
  "open_quote = \<lparr>cq_account = [], cq_model = [], cq_options = [], cq_media = lit ''[]'', cq_page = 1,
     cq_quote = new_mutation\<rparr>"

definition catalog_model :: "quote_env \<Rightarrow> CostQuote \<Rightarrow> QuoteModel option" where
  "catalog_model env s = map_of (qe_catalog env) (cq_model s)"

text \<open>The controls of the options; one without a value is shown only if it is a choice.\<close>

definition option_controls :: "quote_env \<Rightarrow> CostQuote \<Rightarrow> (jstr \<times> jstr \<times> OptionSpec) list" where
  "option_controls env s =
     concat (map (\<lambda>(name, definition). case option_spec definition of
         None \<Rightarrow> []
       | Some (type, spec) \<Rightarrow>
           if map_of (cq_options s) name = None \<and> os_allowed spec = None then [] else [(name, type, spec)])
       (case catalog_model env s of None \<Rightarrow> [] | Some m \<Rightarrow> qm_options m))"

datatype option_input = PickValue nat | TickValue bool | TypeNumberValue rat | TypeTextValue jstr

text \<open>The value a control makes of an input; \<open>None\<close> for an input the control does not take.\<close>

definition control_value :: "(rat \<Rightarrow> jstr) \<Rightarrow> jstr \<Rightarrow> OptionSpec \<Rightarrow> option_input \<Rightarrow> Scalar option" where
  "control_value num type spec input =
     (case os_allowed spec of
        Some vs \<Rightarrow> (case input of
            PickValue i \<Rightarrow> if i < length vs
              then Some (if numeric_type type then js_number (scalar_text num (vs ! i)) else SText (scalar_text num (vs ! i)))
              else None
          | _ \<Rightarrow> None)
      | None \<Rightarrow>
          (case input of
             TickValue b \<Rightarrow> if type = lit ''booleanType'' then Some (SBool b) else None
           | TypeNumberValue n \<Rightarrow> if numeric_type type then Some (SNumber n) else None
           | TypeTextValue t \<Rightarrow> if type \<noteq> lit ''booleanType'' \<and> \<not> numeric_type type then Some (SText t) else None
           | PickValue _ \<Rightarrow> None))"

text \<open>The example a button fills in for a kind of material.\<close>

definition example_metadata :: "jstr \<Rightarrow> rat" where
  "example_metadata key = (if key = lit ''durationSeconds'' then 5 else if key = lit ''widthPx'' then 1280
     else if key = lit ''fps'' then 24 else 720)"

definition example_media :: "QuoteMedia \<Rightarrow> json" where
  "example_media item = JArr [JObj [(lit ''role'', JStr (qm_role item)),
     (lit ''metadata'', JObj (map (\<lambda>key. (key, JNum (example_metadata key))) (nullish (qm_requiredMetadata item) [])))]]"

definition quote_enabled :: "quote_env \<Rightarrow> CostQuote \<Rightarrow> bool" where
  "quote_enabled env s \<longleftrightarrow> cq_account s \<noteq> [] \<and> catalog_model env s \<noteq> None \<and> cq_model s \<in> set (qe_models env)"

text \<open>The request of the form, or the message of what stops it.\<close>

definition quote_request :: "(jstr \<Rightarrow> jstr + json) \<Rightarrow> quote_env \<Rightarrow> CostQuote \<Rightarrow> jstr + QuoteRequest" where
  "quote_request parse env s =
     (case parse (cq_media s) of
        Inl message \<Rightarrow> Inl message
      | Inr (JArr inputMedia) \<Rightarrow>
          Inr \<lparr>qr_account = cq_account s, qr_kind = qe_kind env, qr_model = cq_model s,
            qr_options = cq_options s, qr_input_media = inputMedia\<rparr>
      | Inr _ \<Rightarrow> Inl (ulit ''%u7D20%u6750%u5143%u6570%u636E%u5FC5%u987B%u4E3A JSON %u6570%u7EC4''))"

datatype quote_event =
  ChooseQuoteAccount jstr
| ChooseQuoteModel jstr
| EditOption jstr option_input
| EditMedia jstr
| FillExample QuoteMedia
| PreviousQuoteAccounts
| NextQuoteAccounts nat
| AskQuote
| QuoteAnswer nat "jstr + Quote"

definition changeQuoteModel :: "quote_env \<Rightarrow> jstr \<Rightarrow> CostQuote \<Rightarrow> CostQuote" where
  "changeQuoteModel env i s = s\<lparr>cq_model := i, cq_options := initialOptions (map_of (qe_catalog env) i),
     cq_media := lit ''[]'', cq_quote := reset_mutation (cq_quote s)\<rparr>"

text \<open>The controls, which are disabled while a quote is pending; \<open>NextQuoteAccounts\<close> carries the number of accounts.\<close>

fun quote_control ::
    "(rat \<Rightarrow> jstr) \<Rightarrow> (jstr \<Rightarrow> jstr + json) \<Rightarrow> (json \<Rightarrow> jstr) \<Rightarrow> quote_env \<Rightarrow> CostQuote \<Rightarrow> quote_event \<Rightarrow> CostQuote" where
  "quote_control num parse stringify env s (ChooseQuoteAccount i) =
     s\<lparr>cq_account := i, cq_quote := reset_mutation (cq_quote s)\<rparr>"
| "quote_control num parse stringify env s (ChooseQuoteModel i) =
     (if i = [] \<or> i \<in> set (qe_models env) then changeQuoteModel env i s else s)"
| "quote_control num parse stringify env s (EditOption name input) =
     (case find (\<lambda>c. fst c = name) (option_controls env s) of
        None \<Rightarrow> s
      | Some (_, type, spec) \<Rightarrow> (case control_value num type spec input of
          None \<Rightarrow> s
        | Some v \<Rightarrow> s\<lparr>cq_options := map_set name v (cq_options s), cq_quote := reset_mutation (cq_quote s)\<rparr>))"
| "quote_control num parse stringify env s (EditMedia text) =
     (if nullish (Option.bind (catalog_model env s) qm_media) [] = [] then s
      else s\<lparr>cq_media := text, cq_quote := reset_mutation (cq_quote s)\<rparr>)"
| "quote_control num parse stringify env s (FillExample item) =
     (if item \<in> set (nullish (Option.bind (catalog_model env s) qm_media) [])
      then s\<lparr>cq_media := stringify (example_media item), cq_quote := reset_mutation (cq_quote s)\<rparr> else s)"
| "quote_control num parse stringify env s PreviousQuoteAccounts =
     (if cq_page s = 1 then s
      else s\<lparr>cq_page := cq_page s - 1, cq_account := [], cq_quote := reset_mutation (cq_quote s)\<rparr>)"
| "quote_control num parse stringify env s (NextQuoteAccounts accounts) =
     (if accounts \<le> 100 \<or> accounts \<le> cq_page s * 100 then s
      else s\<lparr>cq_page := cq_page s + 1, cq_account := [], cq_quote := reset_mutation (cq_quote s)\<rparr>)"
| "quote_control num parse stringify env s AskQuote =
     (if \<not> quote_enabled env s then s
      else (case quote_request parse env s of
          Inl message \<Rightarrow> s\<lparr>cq_quote := (cq_quote s)\<lparr>mu_state := MutationError message\<rparr>\<rparr>
        | Inr r \<Rightarrow> s\<lparr>cq_quote := mutate r (cq_quote s)\<rparr>))"
| "quote_control num parse stringify env s (QuoteAnswer n answer) = s"

definition quote_step ::
    "(rat \<Rightarrow> jstr) \<Rightarrow> (jstr \<Rightarrow> jstr + json) \<Rightarrow> (json \<Rightarrow> jstr) \<Rightarrow> quote_env \<Rightarrow> CostQuote \<Rightarrow> quote_event \<Rightarrow> CostQuote" where
  "quote_step num parse stringify env s e =
     (case e of
        QuoteAnswer n answer \<Rightarrow> s\<lparr>cq_quote := settle_mutation n answer (cq_quote s)\<rparr>
      | _ \<Rightarrow> if is_pending (cq_quote s) then s else quote_control num parse stringify env s e)"

section \<open>The evidence\<close>

definition option_labels :: "(jstr \<times> jstr) list" where
  "option_labels =
     [(lit ''duration_seconds'', ulit ''%u8F93%u51FA%u65F6%u957F%uFF08%u79D2%uFF09''), (lit ''resolution'', ulit ''%u5206%u8FA8%u7387''), (lit ''imageSize'', ulit ''%u56FE%u50CF%u5C3A%u5BF8''),
      (lit ''aspect_ratio'', ulit ''%u753B%u9762%u6BD4%u4F8B''), (lit ''aspectRatio'', ulit ''%u753B%u9762%u6BD4%u4F8B''), (lit ''quality'', ulit ''%u8D28%u91CF''), (lit ''mode'', ulit ''%u6A21%u5F0F''),
      (lit ''outputCount'', ulit ''%u8F93%u51FA%u5F20%u6570''), (lit ''generate_audio'', ulit ''%u751F%u6210%u97F3%u9891''), (lit ''output_format'', ulit ''%u8F93%u51FA%u683C%u5F0F'')]"

definition option_label :: "jstr \<Rightarrow> jstr res" where
  "option_label name = bindr (obj_get option_labels name) (\<lambda>l. Inr (or_str (opt_str l) name))"

definition evidence_text :: "(rat \<Rightarrow> jstr) \<Rightarrow> (jstr \<times> Scalar) list \<Rightarrow> jstr res" where
  "evidence_text num options = bindr (mapr (\<lambda>(name, v). bindr (option_label name) (\<lambda>l.
     Inr (l @ lit ''='' @ scalar_text num v))) options) (\<lambda>parts. Inr (js_join (ulit ''%uFF1B'') parts))"

definition flow_rows :: "(jstr \<times> rat) list \<Rightarrow> (jstr \<times> rat) list" where
  "flow_rows counts = js_sort (\<lambda>a b. int (digits_value (fst a)) - int (digits_value (fst b))) counts"

section \<open>Properties\<close>

definition ready_request :: "(jstr \<Rightarrow> jstr + json) \<Rightarrow> quote_env \<Rightarrow> CostQuote \<Rightarrow> QuoteRequest option" where
  "ready_request parse env s = (case quote_request parse env s of Inl _ \<Rightarrow> None | Inr r \<Rightarrow> Some r)"

lemma ready_request_hook [simp]: "ready_request parse env (s\<lparr>cq_quote := m\<rparr>) = ready_request parse env s"
  by (simp add: ready_request_def quote_request_def split: sum.split json.split)

lemma control_request:
  assumes "mutation_request (cq_quote (quote_control num parse stringify env s e)) = Some r"
  shows "quote_control num parse stringify env s e = s \<or>
    ready_request parse env (quote_control num parse stringify env s e) = Some r"
proof (cases e)
  case AskQuote
  show ?thesis
  proof (cases "quote_request parse env s")
    case (Inr b)
    then have "ready_request parse env s = Some b" by (simp add: ready_request_def)
    with Inr AskQuote assms show ?thesis by (auto split: if_splits)
  qed (use AskQuote assms in \<open>auto split: if_splits\<close>)
qed (use assms in \<open>auto simp: changeQuoteModel_def split: option.splits if_splits\<close>)

interpretation cost_quote: calculator "quote_step num parse stringify env" cq_quote "ready_request parse env"
  for num parse stringify env
proof
  fix s e and r :: QuoteRequest
  assume r: "mutation_request (cq_quote (quote_step num parse stringify env s e)) = Some r"
  show "(mutation_request (cq_quote s) = Some r \<and>
      ready_request parse env (quote_step num parse stringify env s e) = ready_request parse env s) \<or>
    ready_request parse env (quote_step num parse stringify env s e) = Some r"
  proof (cases "\<exists>n answer. e = QuoteAnswer n answer")
    case True
    with r show ?thesis by (auto simp: quote_step_def dest: settle_request)
  next
    case False
    then have "quote_step num parse stringify env s e =
        (if is_pending (cq_quote s) then s else quote_control num parse stringify env s e)"
      by (cases e) (auto simp: quote_step_def)
    with r control_request [of num parse stringify env s e r] show ?thesis
      by (auto split: if_splits)
  qed
qed

text \<open>C16: The quote on the page is for what the form says: whatever was done before, a request that is
  pending or answered is the one the form would send now.\<close>

theorem quote_shown_is_current:
  assumes "s = foldl (quote_step num parse stringify env) open_quote es"
    and "mutation_request (cq_quote s) = Some r"
  shows "quote_request parse env s = Inr r"
proof -
  have "ready_request parse env s = Some r"
    using cost_quote.answer_current [of open_quote num parse stringify env es r] assms
    by (simp add: open_quote_def)
  then show ?thesis by (simp add: ready_request_def split: sum.splits)
qed

text \<open>A value the catalog allows for an option.\<close>

definition proper_value :: "(rat \<Rightarrow> jstr) \<Rightarrow> jstr \<Rightarrow> OptionSpec \<Rightarrow> Scalar \<Rightarrow> bool" where
  "proper_value num type spec x = (case os_allowed spec of
       Some vs \<Rightarrow> x \<in> set (map (\<lambda>v. if numeric_type type then js_number (scalar_text num v) else SText (scalar_text num v)) vs)
     | None \<Rightarrow> if type = lit ''booleanType'' then \<exists>b \<in> {True, False}. x = SBool b
         else if numeric_type type then (case x of SNumber _ \<Rightarrow> True | _ \<Rightarrow> False)
         else (case x of SText _ \<Rightarrow> True | _ \<Rightarrow> False))"

text \<open>A catalog entry whose initial values are proper, and whose options have different names.\<close>

definition model_ok :: "(rat \<Rightarrow> jstr) \<Rightarrow> QuoteModel \<Rightarrow> bool" where
  "model_ok num m \<longleftrightarrow> distinct (map fst (qm_options m)) \<and>
     (\<forall>(name, definition) \<in> set (qm_options m). case option_spec definition of
        None \<Rightarrow> True
      | Some (type, spec) \<Rightarrow> (case initial_value type spec of None \<Rightarrow> True | Some x \<Rightarrow> proper_value num type spec x))"

definition proper_option :: "(rat \<Rightarrow> jstr) \<Rightarrow> QuoteModel \<Rightarrow> jstr \<Rightarrow> Scalar \<Rightarrow> bool" where
  "proper_option num m name x \<longleftrightarrow> (case Option.bind (map_of (qm_options m) name) option_spec of
       None \<Rightarrow> False | Some (type, spec) \<Rightarrow> proper_value num type spec x)"

definition options_ok :: "(rat \<Rightarrow> jstr) \<Rightarrow> quote_env \<Rightarrow> CostQuote \<Rightarrow> bool" where
  "options_ok num env s \<longleftrightarrow> (\<forall>name x. map_of (cq_options s) name = Some x \<longrightarrow>
     (\<exists>m. catalog_model env s = Some m \<and> proper_option num m name x))"

lemma initial_proper:
  assumes "model_ok num m" "map_of (initialOptions (Some m)) name = Some x"
  shows "proper_option num m name x"
proof -
  have own: "(n, d) \<in> set (qm_options m) \<Longrightarrow> map_of (qm_options m) n = Some d" for n d
    using assms(1) by (simp add: model_ok_def)
  have "map_of (fold add_initial ds result) name = Some x \<Longrightarrow> set ds \<subseteq> set (qm_options m) \<Longrightarrow>
      (\<forall>y. map_of result name = Some y \<longrightarrow> proper_option num m name y) \<Longrightarrow> proper_option num m name x" for ds result
  proof (induction ds arbitrary: result)
    case (Cons d ds)
    obtain n df where d: "d = (n, df)" by (cases d)
    have "\<forall>y. map_of (add_initial d result) name = Some y \<longrightarrow> proper_option num m name y"
      using Cons.prems(2,3) assms(1) own [of n df]
      by (auto simp: d map_of_map_set proper_option_def model_ok_def split: option.splits prod.splits if_splits)
    with Cons show ?case by simp
  qed auto
  from this [of "qm_options m" "[]"] assms(2) show ?thesis by (simp add: initialOptions_def)
qed

lemma found_member: "find P xs = Some x \<Longrightarrow> P x \<and> x \<in> set xs"
  by (induction xs) (auto split: if_splits)

lemma control_find:
  assumes "find (\<lambda>c. fst c = name) (option_controls env s) = Some (n, type, spec)" "catalog_model env s = Some m"
    "distinct (map fst (qm_options m))"
  shows "n = name \<and> Option.bind (map_of (qm_options m) name) option_spec = Some (type, spec)"
proof -
  have "n = name" "(n, type, spec) \<in> set (option_controls env s)"
    using found_member [OF assms(1)] by auto
  then show ?thesis using assms(2,3)
    by (auto simp: option_controls_def split: option.splits if_splits)
qed

lemma control_value_proper: "control_value num type spec input = Some x \<Longrightarrow> proper_value num type spec x"
  by (auto simp: control_value_def proper_value_def numeric_type_def split: option.splits option_input.splits if_splits)

lemma controls_need_model: "option_controls env s \<noteq> [] \<Longrightarrow> \<exists>m. catalog_model env s = Some m"
  by (cases "catalog_model env s") (simp_all add: option_controls_def)

lemma edit_option_cases:
  assumes "quote_control num parse stringify env s (EditOption name input) \<noteq> s"
  obtains type spec v where "find (\<lambda>c. fst c = name) (option_controls env s) = Some (name, type, spec)"
    "control_value num type spec input = Some v"
    "quote_control num parse stringify env s (EditOption name input) =
       s\<lparr>cq_options := map_set name v (cq_options s), cq_quote := reset_mutation (cq_quote s)\<rparr>"
proof -
  from assms obtain n type spec v where f: "find (\<lambda>c. fst c = name) (option_controls env s) = Some (n, type, spec)"
    and v: "control_value num type spec input = Some v"
    by (auto split: option.splits)
  from found_member [OF f] have "n = name" by simp
  with that f v show thesis by simp
qed

lemma options_step:
  assumes "options_ok num env s" "\<forall>m \<in> snd ` set (qe_catalog env). model_ok num m"
  shows "options_ok num env (quote_step num parse stringify env s e)"
proof -
  have model: "catalog_model env t = Some m \<Longrightarrow> model_ok num m" for t m
    using assms(2) by (auto simp: catalog_model_def dest!: map_of_SomeD)
  have keep: "options_ok num env t" if "cq_options t = cq_options s" "cq_model t = cq_model s" for t
    using assms(1) that by (simp add: options_ok_def catalog_model_def)
  have control: "options_ok num env (quote_control num parse stringify env s e)"
  proof (cases e)
    case (ChooseQuoteModel i)
    have "options_ok num env (changeQuoteModel env i s)"
    proof (cases "map_of (qe_catalog env) i")
      case None
      then show ?thesis by (simp add: options_ok_def changeQuoteModel_def initialOptions_def)
    next
      case (Some m)
      then show ?thesis using initial_proper [of num m] model [of "changeQuoteModel env i s" m]
        by (simp add: options_ok_def changeQuoteModel_def catalog_model_def)
    qed
    with ChooseQuoteModel assms(1) show ?thesis by simp
  next
    case (EditOption name input)
    show ?thesis
    proof (cases "quote_control num parse stringify env s e = s")
      case False
      then obtain type spec v where f: "find (\<lambda>c. fst c = name) (option_controls env s) = Some (name, type, spec)"
        and v: "control_value num type spec input = Some v"
        and step: "quote_control num parse stringify env s e =
          s\<lparr>cq_options := map_set name v (cq_options s), cq_quote := reset_mutation (cq_quote s)\<rparr>"
        unfolding EditOption by (rule edit_option_cases)
      have "option_controls env s \<noteq> []" using f by auto
      then obtain m where m: "catalog_model env s = Some m" using controls_need_model by blast
      have "proper_option num m name v"
        using control_find [OF f m] model [OF m] control_value_proper [OF v] by (simp add: proper_option_def model_ok_def)
      with assms(1) m show ?thesis
        by (auto simp: step options_ok_def map_of_map_set catalog_model_def)
    qed (simp add: assms(1))
  next
    case AskQuote
    then show ?thesis by (auto intro: keep split: sum.split)
  qed (auto intro: keep)
  show ?thesis using control assms(1)
    by (cases e) (auto simp: quote_step_def intro: keep)
qed

interpretation quote_options: guarded_machine "quote_step num parse stringify env" "options_ok num env"
  "\<lambda>_. \<forall>m \<in> snd ` set (qe_catalog env). model_ok num m" for num parse stringify env
  by unfold_locales (rule options_step)


text \<open>The entry of \<open>veo_31_fast_generate_preview\<close> in the catalog.\<close>

definition veo_fast :: QuoteModel where
  "veo_fast = \<lparr>qm_options =
      [(lit ''aspect_ratio'', [(lit ''stringType'', \<lparr>os_allowed = Some [SText (lit ''16:9''), SText (lit ''9:16'')],
          os_default = Some (SText (lit ''16:9'')), os_min = None, os_max = None\<rparr>)]),
       (lit ''duration_seconds'', [(lit ''integerType'', \<lparr>os_allowed = Some [SText (lit ''4''), SText (lit ''6''), SText (lit ''8'')],
          os_default = Some (SText (lit ''6'')), os_min = None, os_max = None\<rparr>)])],
     qm_media = None\<rparr>"

definition veo_env :: quote_env where
  "veo_env = \<lparr>qe_kind = Video, qe_models = [lit ''veo''], qe_catalog = [(lit ''veo'', veo_fast)]\<rparr>"

lemma veo_fast_ok: "model_ok num veo_fast"
proof -
  have "js_number (lit ''4'') = SNumber 4" "js_number (lit ''6'') = SNumber 6" "js_number (lit ''8'') = SNumber 8"
    by code_simp+
  then show ?thesis
    by (simp add: model_ok_def veo_fast_def option_spec_def initial_value_def numeric_type_def
        scalar_number_def proper_value_def scalar_text_def first_allowed_def)
qed

definition no_media :: "jstr \<Rightarrow> jstr + json" where
  "no_media text = Inr (JArr [])"

definition veo_run :: "quote_event list" where
  "veo_run = [ChooseQuoteAccount (lit ''a1''), ChooseQuoteModel (lit ''veo''), EditOption (lit ''duration_seconds'') (PickValue 2), AskQuote]"

lemma veo_asks:
  "mutation_request (cq_quote (foldl (quote_step (\<lambda>_. []) no_media (\<lambda>_. []) veo_env) open_quote veo_run)) =
    Some \<lparr>qr_account = lit ''a1'', qr_kind = Video, qr_model = lit ''veo'',
      qr_options = [(lit ''aspect_ratio'', SText (lit ''16:9'')), (lit ''duration_seconds'', SNumber 8)], qr_input_media = []\<rparr>"
  by code_simp

theorem quote_shown_is_current_witness:
  "quote_request no_media veo_env (foldl (quote_step (\<lambda>_. []) no_media (\<lambda>_. []) veo_env) open_quote veo_run) =
    Inr \<lparr>qr_account = lit ''a1'', qr_kind = Video, qr_model = lit ''veo'',
      qr_options = [(lit ''aspect_ratio'', SText (lit ''16:9'')), (lit ''duration_seconds'', SNumber 8)], qr_input_media = []\<rparr>"
  by (rule quote_shown_is_current [OF refl veo_asks])


text \<open>Options of the type \<open>floatType\<close> are edited as texts: they start as the catalog's number, but once
  one was edited every request carries a text for it until the model is chosen again.\<close>

lemma float_kept:
  assumes "\<exists>t. map_of (cq_options s) name = Some (SText t)" "catalog_model env s = Some m"
    and "distinct (map fst (qm_options m))"
    and "Option.bind (map_of (qm_options m) name) option_spec = Some (lit ''floatType'', spec)" "os_allowed spec = None"
    and "\<forall>i. e \<noteq> ChooseQuoteModel i"
  shows "(\<exists>t. map_of (cq_options (quote_step num parse stringify env s e)) name = Some (SText t)) \<and>
    catalog_model env (quote_step num parse stringify env s e) = Some m"
proof -
  have model: "cq_model (quote_control num parse stringify env s e) = cq_model s"
    using assms(6) by (cases e) (auto split: option.splits sum.splits)
  have "\<exists>t. map_of (cq_options (quote_control num parse stringify env s e)) name = Some (SText t)"
  proof (cases "\<exists>n input. e = EditOption n input \<and> quote_control num parse stringify env s e \<noteq> s")
    case True
    then obtain n input where e: "e = EditOption n input" and ne: "quote_control num parse stringify env s (EditOption n input) \<noteq> s"
      by blast
    from ne obtain type sp v where f: "find (\<lambda>c. fst c = n) (option_controls env s) = Some (n, type, sp)"
      and v: "control_value num type sp input = Some v"
      and step: "quote_control num parse stringify env s e =
        s\<lparr>cq_options := map_set n v (cq_options s), cq_quote := reset_mutation (cq_quote s)\<rparr>"
      unfolding e by (rule edit_option_cases)
    have "\<exists>t. v = SText t" if "n = name"
      using control_find [OF f assms(2,3)] v assms(4,5) that
      by (auto simp: control_value_def numeric_type_def split: option_input.splits if_splits)
    with assms(1) show ?thesis by (auto simp: step map_of_map_set)
  next
    case False
    then show ?thesis using assms(1,6) by (cases e) (auto split: option.splits sum.splits)
  qed
  with model assms(1,2) show ?thesis by (cases e) (auto simp: quote_step_def catalog_model_def)
qed

theorem float_option_sent_as_text:
  assumes "catalog_model env s = Some m" "distinct (map fst (qm_options m))"
    and "Option.bind (map_of (qm_options m) name) option_spec = Some (lit ''floatType'', spec)" "os_allowed spec = None"
    and "map_of (cq_options s) name = Some (SNumber n)" "\<not> is_pending (cq_quote s)"
    and "\<forall>e \<in> set es. \<forall>i. e \<noteq> ChooseQuoteModel i"
    and "s' = foldl (quote_step num parse stringify env) s (EditOption name (TypeTextValue t) # es)"
    and "quote_request parse env s' = Inr r"
  shows "\<exists>t. map_of (qr_options r) name = Some (SText t)"
proof -
  obtain d where d: "map_of (qm_options m) name = Some d" "option_spec d = Some (lit ''floatType'', spec)"
    using assms(3) by (auto simp: bind_eq_Some_conv)
  have "(name, lit ''floatType'', spec) \<in> set (option_controls env s)"
    using assms(1,5) d map_of_SomeD [OF d(1)] by (force simp: option_controls_def)
  then obtain c where c: "find (\<lambda>c. fst c = name) (option_controls env s) = Some c"
    by (cases "find (\<lambda>c. fst c = name) (option_controls env s)") (auto simp: find_None_iff)
  obtain nm type sp where cc: "c = (nm, type, sp)" by (cases c)
  have "type = lit ''floatType''" "sp = spec" using control_find [OF c [unfolded cc] assms(1,2)] assms(3) by auto
  then have "quote_step num parse stringify env s (EditOption name (TypeTextValue t)) =
      s\<lparr>cq_options := map_set name (SText t) (cq_options s), cq_quote := reset_mutation (cq_quote s)\<rparr>"
    using c cc assms(4,6) by (simp add: quote_step_def control_value_def numeric_type_def)
  then have first: "map_of (cq_options (quote_step num parse stringify env s (EditOption name (TypeTextValue t)))) name = Some (SText t)"
      "catalog_model env (quote_step num parse stringify env s (EditOption name (TypeTextValue t))) = Some m"
    using assms(1) by (simp_all add: map_of_map_set catalog_model_def)
  have "(\<exists>t. map_of (cq_options u) name = Some (SText t)) \<Longrightarrow> catalog_model env u = Some m \<Longrightarrow>
      \<forall>e \<in> set es. \<forall>i. e \<noteq> ChooseQuoteModel i \<Longrightarrow>
      \<exists>t. map_of (cq_options (foldl (quote_step num parse stringify env) u es)) name = Some (SText t)" for u es
  proof (induction es arbitrary: u)
    case (Cons e es)
    then show ?case using float_kept [OF Cons.prems(1,2) assms(2,3,4), of e num parse stringify] by simp
  qed simp
  from this [OF _ first(2) assms(7)] first(1)
  have "\<exists>t. map_of (cq_options s') name = Some (SText t)" by (simp add: assms(8))
  moreover have "qr_options r = cq_options s'"
    using assms(9) by (auto simp: quote_request_def split: sum.splits json.splits)
  ultimately show ?thesis by simp
qed

text \<open>The strength option of \<open>recraft-v4\<close> in the catalog.\<close>

definition recraft :: QuoteModel where
  "recraft = \<lparr>qm_options = [(lit ''strength'', [(lit ''floatType'', \<lparr>os_allowed = None, os_default = None,
      os_min = Some (SNumber 0), os_max = Some (SNumber 1)\<rparr>)])], qm_media = None\<rparr>"

definition recraft_env :: quote_env where
  "recraft_env = \<lparr>qe_kind = Image, qe_models = [lit ''recraft-v4''], qe_catalog = [(lit ''recraft-v4'', recraft)]\<rparr>"

theorem float_option_sent_as_text_witness:
  "\<exists>r t. quote_request no_media recraft_env (foldl (quote_step (\<lambda>_. []) no_media (\<lambda>_. []) recraft_env)
      (changeQuoteModel recraft_env (lit ''recraft-v4'') open_quote) [EditOption (lit ''strength'') (TypeTextValue (lit ''0.5''))]) = Inr r \<and>
    map_of (qr_options r) (lit ''strength'') = Some (SText t)"
proof -
  let ?s = "changeQuoteModel recraft_env (lit ''recraft-v4'') open_quote"
  have s: "catalog_model recraft_env ?s = Some recraft"
      "map_of (cq_options ?s) (lit ''strength'') = Some (SNumber 0)" "\<not> is_pending (cq_quote ?s)"
    by code_simp+
  have m: "distinct (map fst (qm_options recraft))"
      "Option.bind (map_of (qm_options recraft) (lit ''strength'')) option_spec =
        Some (lit ''floatType'', \<lparr>os_allowed = None, os_default = None, os_min = Some (SNumber 0), os_max = Some (SNumber 1)\<rparr>)"
    by (simp_all add: recraft_def option_spec_def)
  obtain r where r: "quote_request no_media recraft_env (foldl (quote_step (\<lambda>_. []) no_media (\<lambda>_. []) recraft_env)
      ?s [EditOption (lit ''strength'') (TypeTextValue (lit ''0.5''))]) = Inr r"
    by (simp add: quote_request_def no_media_def)
  show ?thesis
    using float_option_sent_as_text [OF s(1) m _ s(2,3) _ refl r] r by auto
qed

end
