(* ===== verification/DocTables.thy ===== *)
theory DocTables
  imports VideoForm AudioForm
begin

text \<open>
  The tables and examples of the developer guide (pages/docs-page.tsx): the parameters of every model
  and request template, the rules and limits of the video templates, and the requests the page shows
  for copying. \<open>loc\<close> is \<open>toLocaleString\<close>, \<open>num\<close> prints a number in a template literal.
\<close>

text \<open>\<open>s.replaceAll(pattern, replacement)\<close> with a non-empty string pattern.\<close>

fun replace_from :: "nat \<Rightarrow> jstr \<Rightarrow> jstr \<Rightarrow> jstr \<Rightarrow> jstr" where
  "replace_from n p r [] = []"
| "replace_from (Suc n) p r (c # s) = replace_from n p r s"
| "replace_from 0 p r (c # s) =
     (if starts_with (c # s) p then r @ replace_from (length p - 1) p r s else c # replace_from 0 p r s)"

definition replace_all :: "jstr \<Rightarrow> jstr \<Rightarrow> jstr \<Rightarrow> jstr" where
  "replace_all s p r = replace_from 0 p r s"

section \<open>Images and chat\<close>

text \<open>Name, type, requirement, description and accepted values.\<close>

type_synonym DocParameter = "jstr \<times> jstr \<times> jstr \<times> jstr \<times> jstr"

datatype ImageEndpoint = EndpointGeneration | EndpointReference

text \<open>\<open>imageModelDocs[model].promptMax.toLocaleString()\<close> fails on undefined, and on an inherited property.\<close>

definition image_doc :: "jstr \<Rightarrow> ImageModelDoc res" where
  "image_doc model = (case obj_get imageModelDocs model of Inr (Some doc) \<Rightarrow> Inr doc | _ \<Rightarrow> Inl TypeError)"

definition has_quality :: "jstr \<Rightarrow> bool" where
  "has_quality model \<longleftrightarrow> model = lit ''gpt-image-2'' \<or> model = lit ''adobe:gpt-image-2''"

definition imagePricingNotes :: "(jstr \<times> jstr) list" where
  "imagePricingNotes =
     [(lit ''gpt-image-2'', ulit ''%u6309%u771F%u5B9E%u50CF%u7D20%u8BA1%u4EF7%uFF1A%u6BCF%u767E%u4E07%u50CF%u7D20 7 %u79EF%u5206%uFF0C%u518D%u5E94%u7528 low=1%u3001medium=8.833%u3001high=35.167 %u500D%u7387%u5E76%u5411%u4E0A%u53D6%u6574%u3002''),
      (lit ''adobe:gpt-image-2'', ulit ''%u4F7F%u7528 Adobe BKS %u5728%u8D26%u53F7%u5BFC%u5165%u65F6%u8BFB%u53D6%u7684 1K / 2K / 4K %u4E0E%u8D28%u91CF%u6863%u4EF7%u683C%uFF0C%u4E0D%u5957%u7528 Leonardo %u50CF%u7D20%u516C%u5F0F%u3002''),
      (lit ''adobe:nano-banana-2'', ulit ''%u4F7F%u7528 Adobe BKS %u5728%u8D26%u53F7%u5BFC%u5165%u65F6%u8BFB%u53D6%u7684 1K / 2K / 4K %u56FA%u5B9A%u8D28%u91CF%u4EF7%u683C%u3002''),
      (lit ''nano-banana-2'', ulit ''Small 80%u3001Medium 120%u3001Large 160 %u79EF%u5206%uFF1B%u6863%u4F4D%u6309 Leonardo %u7684%u5BBD%u5EA6%u679A%u4E3E%u548C 1584/3168 %u7279%u4F8B%u5224%u5B9A%u3002''),
      (lit ''nano-banana-pro'', ulit ''Small/Medium 140%u3001Large 250 %u79EF%u5206%uFF1BLarge %u6863%u6309 Leonardo %u7684%u5BBD%u5EA6%u89C4%u5219%u5224%u5B9A%u3002''),
      (lit ''seedream-5.0-pro'', ulit ''%u5E38%u89C4%u5C3A%u5BF8 45 %u79EF%u5206%uFF1B%u8FBE%u5230 2K %u9608%u503C%u540E%u4E3A 90 %u79EF%u5206%u3002'')]"

definition idempotency_parameter :: DocParameter where
  "idempotency_parameter = (lit ''Idempotency-Key'', lit ''header'', ulit ''%u5FC5%u586B'', ulit ''%u6807%u8BC6%u4E00%u6B21%u4ED8%u8D39%u4E1A%u52A1%u64CD%u4F5C%u3002'', ulit ''%u91CD%u8BD5%u540C%u4E00%u8BF7%u6C42%u65F6%u5FC5%u987B%u590D%u7528%u539F%u503C'')"

definition imageParametersForModel :: "(rat \<Rightarrow> jstr) \<Rightarrow> jstr \<Rightarrow> ImageEndpoint \<Rightarrow> DocParameter list res" where
  "imageParametersForModel loc model endpoint =
     bindr (generationRoute model) (\<lambda>route.
     bindr (image_doc model) (\<lambda>doc.
     Inr ((if endpoint = EndpointReference then
             [(lit ''image / image[]'', lit ''file'', ulit ''%u5FC5%u586B'', ulit ''%u53C2%u8003%u56FE%u7247%u3002'', ulit ''PNG%u3001JPEG %u6216 WebP%uFF0C1%u20136 %u5F20''),
              (lit ''reference_strength'', lit ''string'', ulit ''%u53EF%u9009'', ulit ''%u53C2%u8003%u56FE%u5F71%u54CD%u5F3A%u5EA6%u3002'', ulit ''LOW%u3001MID%u3001HIGH%uFF1B%u9ED8%u8BA4 MID'')]
           else []) @
          [(lit ''model'', lit ''string'', ulit ''%u5FC5%u586B'', ulit ''%u5E73%u53F0%u4E0E%u751F%u6210%u6A21%u578B%u3002'', gr_model route @ ulit ''%uFF1B%u683C%u5F0F%u4E3A %u5E73%u53F0/%u6A21%u578B''),
           (lit ''prompt'', lit ''string'', ulit ''%u5FC5%u586B'', (if endpoint = EndpointReference then ulit ''%u56FE%u7247%u4FEE%u6539%u8981%u6C42%u3002'' else ulit ''%u56FE%u7247%u5185%u5BB9%u63CF%u8FF0%u3002''),
             ulit ''1%u2013'' @ loc (of_int (id_promptMax doc)) @ ulit '' %u4E2A Unicode %u5B57%u7B26''),
           (lit ''size'', lit ''string'', ulit ''%u53EF%u9009'', ulit ''%u8F93%u51FA%u5C3A%u5BF8%u3002'', id_size doc),
           (lit ''n'', lit ''integer'', ulit ''%u53EF%u9009'', ulit ''%u751F%u6210%u6570%u91CF%u3002'',
             (if model = lit ''gpt-image-2'' \<or> starts_with model (lit ''adobe-'') then ulit ''%u56FA%u5B9A%u4E3A 1'' else ulit ''1%u20134%uFF1B%u9ED8%u8BA4 1'')),
           (lit ''response_format'', lit ''string'', ulit ''%u53EF%u9009'', ulit ''%u7ED3%u679C%u683C%u5F0F%u3002'', ulit ''%u56FA%u5B9A%u4E3A url'')] @
          (if has_quality model then
             [(lit ''quality'', lit ''string'', ulit ''%u53EF%u9009'', ulit ''%u751F%u6210%u8D28%u91CF%u3002'', ulit ''auto%u3001low%u3001medium%u3001high%uFF1B%u9ED8%u8BA4 auto'')] else []) @
          [(lit ''background'', lit ''string'', ulit ''%u53EF%u9009'', ulit ''%u80CC%u666F%u6A21%u5F0F%u3002'', ulit ''auto %u6216 opaque%uFF1B%u5F53%u524D%u7ED3%u679C%u5747%u4E3A%u4E0D%u900F%u660E''),
           (lit ''moderation'', lit ''string'', ulit ''%u53EF%u9009'', ulit ''%u5185%u5BB9%u5BA1%u6838%u3002'', ulit ''%u56FA%u5B9A%u4E3A auto''),
           idempotency_parameter])))"

definition chatParametersForModel :: "(rat \<Rightarrow> jstr) \<Rightarrow> jstr \<Rightarrow> DocParameter list res" where
  "chatParametersForModel loc model =
     bindr (generationRoute model) (\<lambda>route.
     bindr (image_doc model) (\<lambda>doc.
     Inr [(lit ''model'', lit ''string'', ulit ''%u53EF%u9009'', ulit ''%u5E73%u53F0%u4E0E%u56FE%u7247%u6A21%u578B%u3002'', gr_model route @ ulit ''%uFF1B%u683C%u5F0F%u4E3A %u5E73%u53F0/%u6A21%u578B%uFF0C%u9ED8%u8BA4 leonardo/gpt-image-2''),
          (lit ''messages'', lit ''object[]'', ulit ''%u5FC5%u586B'', ulit ''%u5BF9%u8BDD%u6D88%u606F%uFF1B%u6700%u540E%u4E00%u6761 user %u6D88%u606F%u7528%u4E8E%u751F%u6210%u3002'', ulit ''%u81F3%u5C11 1 %u6761%uFF0C%u5E76%u5305%u542B user %u6D88%u606F''),
          (lit ''messages[].role'', lit ''string'', ulit ''%u5FC5%u586B'', ulit ''%u6D88%u606F%u89D2%u8272%u3002'', ulit ''system%u3001user %u6216 assistant''),
          (lit ''messages[].content'', lit ''string | part[]'', ulit ''%u5FC5%u586B'', ulit ''%u6587%u5B57%u63D0%u793A%u8BCD%uFF0C%u53EF%u9644%u4E00%u5F20 Base64 %u53C2%u8003%u56FE%u3002'',
            ulit ''%u6700%u7EC8 user %u63D0%u793A%u8BCD%u6700%u591A '' @ loc (of_int (id_promptMax doc)) @
            ulit '' %u4E2A Unicode %u5B57%u7B26%uFF1B%u53EF%u9644 1 %u5F20%u4E0D%u8D85%u8FC7 25 MiB %u7684 Base64 %u56FE%u7247''),
          (lit ''stream'', lit ''boolean'', ulit ''%u53EF%u9009'', ulit ''%u662F%u5426%u4F7F%u7528 SSE%u3002'', ulit ''true %u6216 false%uFF1B%u9ED8%u8BA4 false''),
          (lit ''Idempotency-Key'', lit ''header'', ulit ''%u5EFA%u8BAE'', ulit ''%u7F51%u7EDC%u91CD%u8BD5%u65F6%u590D%u7528%u539F%u4EFB%u52A1%u3002'', ulit ''%u540C%u4E00%u4E1A%u52A1%u8BF7%u6C42%u4FDD%u6301%u76F8%u540C%u503C'')]))"

section \<open>What every reader sees\<close>

definition quickStartExample :: "jstr \<Rightarrow> jstr" where
  "quickStartExample origin = replace_all
     (ulit ''export BASE_URL=%u0022'' @ origin @ ulit ''%u0022%u000Aexport AIV2API_API_KEY=%u0022leo_your_api_key%u0022%u000A%u000A# %u9A8C%u8BC1%u5BC6%u94A5%u5E76%u67E5%u770B%u6B64%u5BC6%u94A5%u5141%u8BB8%u4F7F%u7528%u7684%u6A21%u578B%u000Acurl %u0022$BASE_URL/v1/models%u0022 %u005C%u000A+  -H %u0022Authorization: Bearer $AIV2API_API_KEY%u0022'')
     (ulit ''%u000A+'') (ulit ''%u000A'')"

definition taskStates :: "(jstr \<times> jstr) list" where
  "taskStates =
     [(lit ''queued'', ulit ''%u6B63%u5728%u672C%u5730%u961F%u5217%u7B49%u5F85''), (lit ''processing'', ulit ''%u6B63%u5728%u63D0%u4EA4%u6216%u7B49%u5F85%u4E0A%u6E38%u7ED3%u679C''),
      (lit ''succeeded'', ulit ''%u751F%u6210%u6210%u529F%uFF0C%u4ECE result.data %u8BFB%u53D6%u7ED3%u679C''), (lit ''failed'', ulit ''%u751F%u6210%u5931%u8D25%uFF0C%u67E5%u770B error_code %u548C error_message''),
      (lit ''cancelled'', ulit ''%u4EFB%u52A1%u5DF2%u53D6%u6D88'')]"

definition publicErrors :: "(jstr \<times> jstr \<times> jstr \<times> jstr) list" where
  "publicErrors =
     [(lit ''400'', lit ''invalid_request / invalid_task_id / idempotency_key_required / idempotency_key_too_long'',
       ulit ''%u53C2%u6570%u3001%u4EFB%u52A1 ID %u4E0D%u5408%u6CD5%uFF0C%u6216 Idempotency-Key %u7F3A%u5931%u3001%u8D85%u8FC7 255 %u4E2A%u5B57%u7B26'', ulit ''%u4FEE%u6B63%u8BF7%u6C42%u540E%u91CD%u8BD5''),
      (lit ''400'', lit ''prompt_too_long'', ulit ''%u63D0%u793A%u8BCD%u8D85%u8FC7%u5F53%u524D%u6A21%u578B%u4E0A%u9650%uFF1Bdetails %u8FD4%u56DE%u6A21%u578B%u3001%u5B9E%u9645%u5B57%u7B26%u6570%u548C%u6700%u5927%u5B57%u7B26%u6570'',
       ulit ''%u7F29%u77ED%u63D0%u793A%u8BCD%u540E%u91CD%u8BD5%uFF1B%u4EFB%u52A1%u4E0D%u4F1A%u521B%u5EFA%uFF0C%u4E5F%u4E0D%u4F1A%u9884%u7559%u79EF%u5206''),
      (lit ''401'', lit ''invalid_api_key'', ulit ''API Key %u7F3A%u5931%u3001%u65E0%u6548%u6216%u5DF2%u505C%u7528'', ulit ''%u66F4%u6362%u6709%u6548%u5BC6%u94A5''),
      (lit ''402'', lit ''insufficient_pool_balance'', ulit ''%u53EF%u7528%u79EF%u5206%u4E0D%u8DB3'', ulit ''%u8865%u5145%u79EF%u5206%u540E%u91CD%u8BD5''),
      (lit ''404'', lit ''not_found'', ulit ''%u4EFB%u52A1%u4E0D%u5B58%u5728%u6216%u5F53%u524D%u5BC6%u94A5%u65E0%u6743%u8BBF%u95EE'', ulit ''%u68C0%u67E5%u4EFB%u52A1 ID''),
      (lit ''409'', lit ''idempotency_conflict / not_cancellable'', ulit ''%u5E42%u7B49%u952E%u51B2%u7A81%uFF0C%u6216%u4EFB%u52A1%u5DF2%u4E0D%u53EF%u53D6%u6D88'', ulit ''%u4FDD%u6301%u539F%u8BF7%u6C42%u4F53%uFF0C%u6216%u505C%u6B62%u53D6%u6D88''),
      (lit ''413 / 415'', lit ''image_too_large / unsupported_image_type'', ulit ''%u53C2%u8003%u56FE%u8FC7%u5927%u6216%u683C%u5F0F%u9519%u8BEF'', ulit ''%u4F7F%u7528%u9650%u5236%u5185%u7684 PNG%u3001JPEG%u3001WebP''),
      (lit ''422'', lit ''cost_unavailable'', ulit ''%u5F53%u524D%u53C2%u6570%u7F3A%u5C11%u6709%u6548%u4EF7%u683C%u89C4%u5219'', ulit ''%u66F4%u6362%u5DF2%u5B9A%u4EF7%u53C2%u6570''),
      (lit ''429'', lit ''rate_limit_exceeded / daily_quota_exceeded'', ulit ''API Key%u3001IP %u6216%u6BCF%u65E5%u56FE%u7247%u914D%u989D%u89E6%u53D1%u9650%u6D41'', ulit ''%u6309 Retry-After %u7B49%u5F85%u5E76%u9000%u907F''),
      (lit ''502'', lit ''upstream_failed / generate_failed / image_download_failed'', ulit ''%u4E0A%u6E38%u660E%u786E%u751F%u6210%u5931%u8D25%u3001%u63D0%u4EA4%u88AB%u62D2%u7EDD%u6216%u7ED3%u679C%u4E0B%u8F7D%u5931%u8D25'',
       ulit ''%u4FDD%u7559%u539F Idempotency-Key%uFF0C%u9000%u907F%u540E%u91CD%u8BD5''),
      (lit ''503'', lit ''account_queue_full / api_key_capacity_exhausted / system_queue_full / system_overloaded / system_maintenance / provider_circuit_open / gateway_overloaded'',
       ulit ''%u8D26%u53F7%u3001API Key %u6216%u7CFB%u7EDF%u5BB9%u91CF%u4FDD%u62A4%u6682%u4E0D%u53EF%u7528'', ulit ''%u6309 Retry-After %u91CD%u8BD5'')]"

section \<open>Templates of video requests\<close>

datatype DocVideoMode = TextTemplate | ImageTemplate | FrameTemplate | VideoTemplate | AudioTemplate

definition videoModes :: "DocVideoMode list" where
  "videoModes = [TextTemplate, ImageTemplate, FrameTemplate, VideoTemplate, AudioTemplate]"

fun videoModeDocs :: "DocVideoMode \<Rightarrow> jstr \<times> jstr" where
  "videoModeDocs TextTemplate = (ulit ''%u65E0%u53C2%u8003'', ulit ''%u53EA%u4F7F%u7528%u63D0%u793A%u8BCD%u548C%u751F%u6210%u53C2%u6570%uFF0C%u4E0D%u4E0A%u4F20%u53C2%u8003%u7D20%u6750%u3002'')"
| "videoModeDocs ImageTemplate = (ulit ''%u53C2%u8003%u56FE'', ulit ''%u4F7F%u7528%u666E%u901A%u53C2%u8003%u56FE%u63A7%u5236%u4E3B%u4F53%u3001%u98CE%u683C%u6216%u6784%u56FE%u3002'')"
| "videoModeDocs FrameTemplate = (ulit ''%u9996%u5E27 / %u5C3E%u5E27'', ulit ''%u56FA%u5B9A%u89C6%u9891%u8D77%u59CB%u753B%u9762%uFF0C%u53EF%u9009%u56FA%u5B9A%u7ED3%u675F%u753B%u9762%u3002'')"
| "videoModeDocs VideoTemplate = (ulit ''%u53C2%u8003%u89C6%u9891'', ulit ''%u4F7F%u7528%u5DF2%u6709%u89C6%u9891%u6307%u5BFC%u52A8%u4F5C%u3001%u8FD0%u955C%u6216%u8282%u594F%u3002'')"
| "videoModeDocs AudioTemplate = (ulit ''%u53C2%u8003%u97F3%u9891'', ulit ''%u4F7F%u7528%u5BF9%u767D%u3001%u97F3%u4E50%u6216%u8282%u594F%u4F5C%u4E3A%u8F93%u5165%u53C2%u8003%u3002'')"

definition supportsVideoMode :: "VideoModelDoc \<Rightarrow> DocVideoMode \<Rightarrow> bool" where
  "supportsVideoMode spec mode = (case mode of
       TextTemplate \<Rightarrow> \<not> requires_frame spec
     | ImageTemplate \<Rightarrow> vd_maxReferenceImages spec > 0
     | FrameTemplate \<Rightarrow> vd_supportsStartEnd spec
     | VideoTemplate \<Rightarrow> maxVideoReferences spec > 0
     | AudioTemplate \<Rightarrow> maxAudioReferences spec > 0)"

definition nat_text :: "nat \<Rightarrow> jstr" where
  "nat_text n = num_str (int n)"

definition videoModeAvailability :: "VideoModelDoc \<Rightarrow> DocVideoMode \<Rightarrow> jstr" where
  "videoModeAvailability spec mode =
     (if \<not> supportsVideoMode spec mode then ulit ''%u5F53%u524D%u6A21%u578B%u4E0D%u652F%u6301''
      else case mode of
        TextTemplate \<Rightarrow> lit ''JSON''
      | ImageTemplate \<Rightarrow> ulit ''%u6700%u591A '' @ nat_text (vd_maxReferenceImages spec) @ ulit '' %u5F20''
      | FrameTemplate \<Rightarrow> ulit ''%u9996%u5E27%u5FC5%u586B''
      | VideoTemplate \<Rightarrow> ulit ''%u6700%u591A '' @ nat_text (maxVideoReferences spec) @ ulit '' %u4E2A''
      | AudioTemplate \<Rightarrow> ulit ''%u6700%u591A '' @ nat_text (maxAudioReferences spec) @ ulit '' %u4E2A'')"

definition referenceDuration :: "rat option \<Rightarrow> rat" where
  "referenceDuration v = nullish v 15"

text \<open>A number or undefined in a template literal.\<close>

definition optional_number :: "(rat \<Rightarrow> jstr) \<Rightarrow> rat option \<Rightarrow> jstr" where
  "optional_number num v = (case v of None \<Rightarrow> lit ''undefined'' | Some n \<Rightarrow> num n)"

record VideoModeRules =
  mr_contentType :: jstr
  mr_requiredMedia :: jstr
  mr_rule :: jstr

definition videoModeRules :: "(rat \<Rightarrow> jstr) \<Rightarrow> jstr \<Rightarrow> VideoModelDoc \<Rightarrow> DocVideoMode \<Rightarrow> VideoModeRules" where
  "videoModeRules num model spec mode = (case mode of
       TextTemplate \<Rightarrow> \<lparr>mr_contentType = lit ''application/json'', mr_requiredMedia = ulit ''%u65E0%u53C2%u8003%u6587%u4EF6'',
         mr_rule = ulit ''%u4E0D%u8981%u643A%u5E26 image%u3001start_frame%u3001end_frame%u3001video %u6216 audio%u3002''\<rparr>
     | ImageTemplate \<Rightarrow> \<lparr>mr_contentType = lit ''multipart/form-data'', mr_requiredMedia = ulit ''image %u6216 image[]'',
         mr_rule = (if model = lit ''veo-3.1'' then ulit ''%u6700%u591A 3 %u5F20%uFF1B%u56FA%u5B9A size=1280x720%u3001duration=8%uFF1B%u4E0D%u80FD%u4E0E%u9996%u5E27%u6216%u5C3E%u5E27%u6DF7%u7528%u3002''
           else ulit ''%u6700%u591A '' @ nat_text (vd_maxReferenceImages spec) @ ulit '' %u5F20%uFF1B%u4E0D%u80FD%u4E0E%u9996%u5E27%u6216%u5C3E%u5E27%u6DF7%u7528%u3002'')\<rparr>
     | FrameTemplate \<Rightarrow> \<lparr>mr_contentType = lit ''multipart/form-data'', mr_requiredMedia = lit ''start_frame'',
         mr_rule = (if requires_frame spec
           then ulit ''start_frame %u5FC5%u586B%uFF1B%u4E0D%u652F%u6301 end_frame%u3001%u666E%u901A%u53C2%u8003%u56FE%u3001%u53C2%u8003%u89C6%u9891%u6216%u53C2%u8003%u97F3%u9891%u3002''
           else ulit ''start_frame %u5FC5%u586B%uFF0Cend_frame %u53EF%u9009%uFF1B%u4E0D%u80FD%u4E0E%u666E%u901A%u53C2%u8003%u56FE%u3001%u53C2%u8003%u89C6%u9891%u6216%u53C2%u8003%u97F3%u9891%u6DF7%u7528%u3002'')\<rparr>
     | VideoTemplate \<Rightarrow> \<lparr>mr_contentType = lit ''multipart/form-data'', mr_requiredMedia = ulit ''video %u6216 video[]'',
         mr_rule = (if model = lit ''kling-o3-omni''
           then ulit ''1 %u4E2A%u53C2%u8003%u89C6%u9891%uFF0C%u65F6%u957F '' @ optional_number num (vd_minReferenceVideoDuration spec) @ ulit ''%u2013'' @
             optional_number num (vd_maxReferenceVideoDuration spec) @
             ulit '' %u79D2%u4E14%u987B%u4E0E duration %u4E00%u81F4%uFF1B%u53EF%u540C%u65F6%u4E0A%u4F20%u6700%u591A '' @ nat_text (maxImageReferences spec True) @
             ulit '' %u5F20%u666E%u901A%u53C2%u8003%u56FE%uFF1B%u4E0D%u80FD%u4E0E%u9996%u5E27%u6216%u5C3E%u5E27%u6DF7%u7528%u3002''
           else ulit ''%u6700%u591A '' @ nat_text (maxVideoReferences spec) @ ulit '' %u4E2A%uFF0C%u5408%u8BA1%u4E0D%u8D85%u8FC7 '' @
             num (referenceDuration (vd_maxReferenceVideoDuration spec)) @ ulit '' %u79D2%uFF1B%u4E0D%u80FD%u4E0E%u9996%u5E27%u6216%u5C3E%u5E27%u6DF7%u7528%u3002'')\<rparr>
     | AudioTemplate \<Rightarrow> \<lparr>mr_contentType = lit ''multipart/form-data'',
         mr_requiredMedia = (if model = lit ''minimax-h3'' then lit ''audio / audio[] + image / image[]''
           else ulit ''audio / audio[] + image / image[] %u6216 video / video[]''),
         mr_rule = (if model = lit ''minimax-h3''
           then ulit ''%u6700%u591A 3 %u4E2A%u97F3%u9891%uFF0C%u5408%u8BA1%u4E0D%u8D85%u8FC7 15 %u79D2%uFF1B%u5FC5%u987B%u540C%u65F6%u4E0A%u4F20%u666E%u901A%u53C2%u8003%u56FE%u3002''
           else ulit ''%u6700%u591A '' @ nat_text (maxAudioReferences spec) @ ulit '' %u4E2A%u97F3%u9891%uFF0C%u5408%u8BA1%u4E0D%u8D85%u8FC7 '' @
             num (referenceDuration (vd_maxReferenceAudioDuration spec)) @ ulit '' %u79D2%uFF1B%u5FC5%u987B%u540C%u65F6%u4E0A%u4F20%u53C2%u8003%u56FE%u6216%u53C2%u8003%u89C6%u9891%u3002'')\<rparr>)"

definition videoReferenceSummary :: "VideoModelDoc \<Rightarrow> jstr" where
  "videoReferenceSummary spec =
     (let modes =
        (if vd_maxReferenceImages spec > 0 then
           [ulit ''%u53C2%u8003%u56FE '' @ nat_text (vd_maxReferenceImages spec) @
            (case vd_maxReferenceImagesWithVideo spec of
               Some k \<Rightarrow> if k > 0 then ulit '' %u5F20%uFF08%u4E0E%u89C6%u9891%u540C%u7528 '' @ nat_text k @ ulit '' %u5F20%uFF09'' else ulit '' %u5F20'' | None \<Rightarrow> ulit '' %u5F20'')]
         else []) @
        (if requires_frame spec then [ulit ''%u9996%u5E27%u5FC5%u586B'']
         else if vd_supportsStartEnd spec then [ulit ''%u9996%u5E27 / %u5C3E%u5E27''] else []) @
        (if maxVideoReferences spec > 0 then [ulit ''%u53C2%u8003%u89C6%u9891 '' @ nat_text (maxVideoReferences spec) @ ulit '' %u4E2A''] else []) @
        (if maxAudioReferences spec > 0 then [ulit ''%u53C2%u8003%u97F3%u9891 '' @ nat_text (maxAudioReferences spec) @ ulit '' %u4E2A''] else [])
      in if modes \<noteq> [] then js_join (ulit '' %u00B7 '') modes else ulit ''%u4EC5%u6587%u751F%u89C6%u9891'')"

text \<open>
  The parameters of a template. The number of a duration and the resolutions of a document are those
  of the model; \<open>spec\<close> is \<open>videoModelDocs[model]\<close> here and below.
\<close>

definition media_parameters :: "(rat \<Rightarrow> jstr) \<Rightarrow> jstr \<Rightarrow> VideoModelDoc \<Rightarrow> DocVideoMode \<Rightarrow> DocParameter list" where
  "media_parameters num model spec mode =
     (let images = ulit ''PNG%u3001JPEG %u6216 WebP%uFF1B%u6700%u591A '' @ nat_text (vd_maxReferenceImages spec) @ ulit '' %u5F20'';
          videos = ulit ''MP4%u3001MOV %u6216 WebM%uFF1B%u6700%u591A '' @ nat_text (maxVideoReferences spec) @ ulit '' %u4E2A%uFF0C%u5408%u8BA1%u4E0D%u8D85%u8FC7 '' @
            num (referenceDuration (vd_maxReferenceVideoDuration spec)) @ ulit '' %u79D2'';
          audios = ulit ''MP3%u3001WAV%u3001M4A%u3001AAC %u6216 OGG%uFF1B%u6700%u591A '' @ nat_text (maxAudioReferences spec) @ ulit '' %u4E2A%uFF0C%u5408%u8BA1%u4E0D%u8D85%u8FC7 '' @
            num (referenceDuration (vd_maxReferenceAudioDuration spec)) @ ulit '' %u79D2'';
          strength = (\<lambda>requirement. (lit ''reference_strength'', lit ''string'', requirement, ulit ''%u666E%u901A%u53C2%u8003%u56FE%u7684%u5F71%u54CD%u5F3A%u5EA6%u3002'',
            ulit ''LOW%u3001MID%u3001HIGH%uFF1B%u9ED8%u8BA4 MID'')) in
      case mode of
        TextTemplate \<Rightarrow> []
      | ImageTemplate \<Rightarrow> [(lit ''image / image[]'', lit ''file'', ulit ''%u5FC5%u586B'', ulit ''%u666E%u901A%u53C2%u8003%u56FE%u3002'', images), strength (ulit ''%u53EF%u9009'')]
      | FrameTemplate \<Rightarrow> (lit ''start_frame'', lit ''file'', ulit ''%u5FC5%u586B'', ulit ''%u89C6%u9891%u9996%u5E27%u3002'', ulit ''PNG%u3001JPEG %u6216 WebP%uFF1B1 %u5F20'') #
          (if supportsVideoEndFrame spec
           then [(lit ''end_frame'', lit ''file'', ulit ''%u53EF%u9009'', ulit ''%u89C6%u9891%u5C3E%u5E27%u3002'', ulit ''%u5FC5%u987B%u4E0E start_frame %u4E00%u8D77%u4F7F%u7528%uFF1B%u6700%u591A 1 %u5F20'')] else [])
      | VideoTemplate \<Rightarrow>
          (if model = lit ''kling-o3-omni'' then
             [(lit ''image / image[]'', lit ''file'', ulit ''%u53EF%u9009'', ulit ''%u4E0E%u53C2%u8003%u89C6%u9891%u4E00%u8D77%u4FDD%u6301%u4EBA%u7269%u3001%u4E3B%u4F53%u6216%u98CE%u683C%u4E00%u81F4%u3002'',
               ulit ''PNG%u3001JPEG %u6216 WebP%uFF1B%u6700%u591A '' @ nat_text (maxImageReferences spec True) @ ulit '' %u5F20''),
              strength (ulit ''%u4F7F%u7528%u53C2%u8003%u56FE%u65F6%u53EF%u9009'')]
           else []) @
          [(lit ''video / video[]'', lit ''file'', ulit ''%u5FC5%u586B'', ulit ''%u52A8%u4F5C%u6216%u955C%u5934%u53C2%u8003%u3002'',
            (if model = lit ''kling-o3-omni''
             then ulit ''MP4%u3001MOV %u6216 WebM%uFF1B1 %u4E2A%uFF0C'' @ optional_number num (vd_minReferenceVideoDuration spec) @ ulit ''%u2013'' @
               optional_number num (vd_maxReferenceVideoDuration spec) @
               ulit '' %u79D2%uFF0C%u6BCF%u8FB9 720%u20132160 %u50CF%u7D20%uFF1Bduration %u5FC5%u987B%u4E0E%u89C6%u9891%u65F6%u957F%u4E00%u81F4''
             else videos))]
      | AudioTemplate \<Rightarrow>
          (if model = lit ''minimax-h3'' then
             [(lit ''image / image[]'', lit ''file'', ulit ''%u642D%u914D%u7D20%u6750%u5FC5%u586B'', ulit ''%u53C2%u8003%u97F3%u9891%u6240%u4F9D%u8D56%u7684%u666E%u901A%u53C2%u8003%u56FE%u3002'', images),
              (lit ''audio / audio[]'', lit ''file'', ulit ''%u5FC5%u586B'', ulit ''%u5BF9%u767D%u3001%u97F3%u4E50%u6216%u8282%u594F%u53C2%u8003%u3002'', audios),
              strength (ulit ''%u53EF%u9009'')]
           else
             [(lit ''image / image[]'', lit ''file'', ulit ''%u642D%u914D%u7D20%u6750%u4E8C%u9009%u4E00'', ulit ''%u666E%u901A%u53C2%u8003%u56FE%u3002'', images),
              (lit ''video / video[]'', lit ''file'', ulit ''%u642D%u914D%u7D20%u6750%u4E8C%u9009%u4E00'', ulit ''%u52A8%u4F5C%u6216%u955C%u5934%u53C2%u8003%u3002'', videos),
              (lit ''audio / audio[]'', lit ''file'', ulit ''%u5FC5%u586B'', ulit ''%u5BF9%u767D%u3001%u97F3%u4E50%u6216%u8282%u594F%u53C2%u8003%u3002'', audios),
              strength (ulit ''%u4F7F%u7528%u53C2%u8003%u56FE%u65F6%u53EF%u9009'')]))"

definition fixed_or_optional :: "bool \<Rightarrow> jstr" where
  "fixed_or_optional fixed = (if fixed then ulit ''%u56FA%u5B9A'' else ulit ''%u53EF%u9009'')"

definition videoParametersForMode ::
    "(rat \<Rightarrow> jstr) \<Rightarrow> (rat \<Rightarrow> jstr) \<Rightarrow> jstr \<Rightarrow> VideoModelDoc \<Rightarrow> DocVideoMode \<Rightarrow> DocParameter list res" where
  "videoParametersForMode loc num model spec mode =
     bindr (generationRoute model) (\<lambda>route.
     let fixedVeoImage = (model = lit ''veo-3.1'' \<and> mode = ImageTemplate) in
     Inr ([(lit ''model'', lit ''string'', ulit ''%u5FC5%u586B'', ulit ''%u5E73%u53F0%u4E0E%u89C6%u9891%u6A21%u578B%u3002'', gr_model route @ ulit ''%uFF1B%u683C%u5F0F%u4E3A %u5E73%u53F0/%u6A21%u578B''),
           (lit ''prompt'', lit ''string'', ulit ''%u5FC5%u586B'', ulit ''%u89C6%u9891%u5185%u5BB9%u548C%u955C%u5934%u63CF%u8FF0%u3002'', ulit ''1%u2013'' @ loc (of_int (vd_promptMax spec)) @ ulit '' %u4E2A Unicode %u5B57%u7B26''),
           (lit ''duration'', lit ''integer'', fixed_or_optional fixedVeoImage, ulit ''%u89C6%u9891%u65F6%u957F%u3002'',
             (if fixedVeoImage then ulit ''%u56FA%u5B9A%u4E3A 8 %u79D2''
              else vd_duration spec @ ulit ''%uFF1B%u9ED8%u8BA4 '' @ num_str (vd_defaultDuration spec) @ ulit '' %u79D2'')),
           (lit ''size'', lit ''string'', fixed_or_optional fixedVeoImage, ulit ''%u753B%u9762%u65B9%u5411%u548C%u5C3A%u5BF8%u3002'',
             (if fixedVeoImage then ulit ''%u56FA%u5B9A%u4E3A 1280x720'' else js_join (ulit ''%u3001'') (map vs_value (doc_sizes spec)))),
           (lit ''resolution'', lit ''string'', fixed_or_optional (length (vd_resolutions spec) = 1), ulit ''%u8F93%u51FA%u6E05%u6670%u5EA6%u3002'',
             (if \<exists>item \<in> set (nullish (vd_sizes spec) []). opt_str (vs_resolution item) \<noteq> []
              then ulit ''%u5FC5%u987B%u4E0E size %u5BF9%u5E94%uFF1A'' else []) @ js_join (ulit ''%u3001'') (vd_resolutions spec))] @
          media_parameters num model spec mode @
          (if vd_supportsGenerateAudio spec then
             [(lit ''generate_audio'', lit ''boolean'', fixed_or_optional (always_audio spec),
               ulit ''%u662F%u5426%u751F%u6210%u8F93%u51FA%u89C6%u9891%u7684%u539F%u751F%u97F3%u8F68%uFF1B%u4E0E audio %u53C2%u8003%u8F93%u5165%u4E0D%u662F%u540C%u4E00%u4E2A%u53C2%u6570%u3002'',
               (if always_audio spec then ulit ''%u56FA%u5B9A%u4E3A true'' else ulit ''true %u6216 false%uFF1B%u9ED8%u8BA4 true''))] else []) @
          [idempotency_parameter]))"

section \<open>Audio\<close>

definition audioParametersForModel :: "(rat \<Rightarrow> jstr) \<Rightarrow> jstr \<Rightarrow> DocParameter list res" where
  "audioParametersForModel loc model =
     (case obj_get audioModelDocs model of
        Inr (Some doc) \<Rightarrow>
          Inr ([(lit ''model'', lit ''string'', ulit ''%u5FC5%u586B'', ulit ''%u5E73%u53F0%u4E0E%u97F3%u9891%u6A21%u578B%u3002'', lit ''leonardo/'' @ model @ ulit ''%uFF1B%u683C%u5F0F%u4E3A %u5E73%u53F0/%u6A21%u578B''),
                (lit ''prompt'', lit ''string'', ulit ''%u5FC5%u586B'', ulit ''%u6717%u8BFB%u6587%u672C%u3001%u97F3%u4E50%u63CF%u8FF0%u6216%u97F3%u6548%u63CF%u8FF0%u3002'',
                  ulit ''1%u2013'' @ loc (of_int (ad_promptMax doc)) @ ulit '' %u4E2A Unicode %u5B57%u7B26''),
                (lit ''n'', lit ''integer'', ulit ''%u53EF%u9009'', ulit ''%u751F%u6210%u6570%u91CF%u3002'', ulit ''1%u20134%uFF1B%u9ED8%u8BA4 1'')] @
               (if model = lit ''dialogue-v3'' then
                  [(lit ''voice'', lit ''string'', ulit ''%u53EF%u9009'', ulit ''%u8BED%u97F3%u522B%u540D%u3002'', ulit ''21 %u4E2A%u516C%u5F00%u522B%u540D%uFF1B%u9ED8%u8BA4 george''),
                   (lit ''language'', lit ''string'', ulit ''%u53EF%u9009'', ulit ''%u8BED%u8A00%u4EE3%u7801%u3002'', ulit ''%u6700%u591A 16 %u4E2A%u5B57%u7B26%uFF1B%u9ED8%u8BA4 en''),
                   (lit ''prompt_influence'', lit ''number'', ulit ''%u53EF%u9009'', ulit ''%u63D0%u793A%u8BCD%u5F71%u54CD%u5F3A%u5EA6%u3002'', ulit ''0%u20131%uFF1B%u9ED8%u8BA4 0.5'')]
                else if model = lit ''music-v1'' then
                  [(lit ''duration_minutes'', lit ''integer'', ulit ''%u53EF%u9009'', ulit ''%u97F3%u4E50%u65F6%u957F%u3002'', ulit ''1%u201310 %u5206%u949F%uFF1B%u9ED8%u8BA4 1''),
                   (lit ''force_instrumental'', lit ''boolean'', ulit ''%u53EF%u9009'', ulit ''%u662F%u5426%u53EA%u751F%u6210%u7EAF%u97F3%u4E50%u3002'', ulit ''true %u6216 false%uFF1B%u9ED8%u8BA4 false'')]
                else
                  [(lit ''duration'', lit ''integer'', ulit ''%u53EF%u9009'', ulit ''%u97F3%u6548%u65F6%u957F%u3002'', ulit ''1%u201322 %u79D2%uFF1B%u9ED8%u8BA4 2''),
                   (lit ''loop'', lit ''boolean'', ulit ''%u53EF%u9009'', ulit ''%u662F%u5426%u9002%u5408%u65E0%u7F1D%u5FAA%u73AF%u3002'', ulit ''true %u6216 false%uFF1B%u9ED8%u8BA4 false''),
                   (lit ''prompt_influence'', lit ''number'', ulit ''%u53EF%u9009'', ulit ''%u63D0%u793A%u8BCD%u5F71%u54CD%u5F3A%u5EA6%u3002'', ulit ''0%u20131%uFF1B%u9ED8%u8BA4 0.7'')]) @
               [idempotency_parameter])
      | _ \<Rightarrow> Inl TypeError)"

section \<open>Requests to copy\<close>

definition asyncImageExample :: "jstr \<Rightarrow> jstr res" where
  "asyncImageExample model =
     bindr (generationRoute model) (\<lambda>route.
     let quality = (if has_quality model then ulit ''%u000A    %u0022quality%u0022: %u0022low%u0022,'' else []) in
     Inr (ulit ''curl $BASE_URL/v1/images/generations %u005C%u000A  -H %u0022Authorization: Bearer $AIV2API_API_KEY%u0022 %u005C%u000A  -H %u0022Content-Type: application/json%u0022 %u005C%u000A  -H %u0022Idempotency-Key: YOUR_IDEMPOTENCY_KEY%u0022 %u005C%u000A  -d %u0027{%u000A    %u0022model%u0022: %u0022'' @
       gr_model route @
       ulit ''%u0022,%u000A    %u0022prompt%u0022: %u0022%u4E00%u5F20%u767D%u8272%u80CC%u666F%u4E0A%u7684%u4EA7%u54C1%u6444%u5F71%uFF0C%u67D4%u548C%u68DA%u62CD%u5149%u7EBF%u0022,%u000A    %u0022size%u0022: %u00221024x1024%u0022,'' @ quality @
       ulit ''%u000A    %u0022n%u0022: 1,%u000A    %u0022response_format%u0022: %u0022url%u0022%u000A  }%u0027''))"

definition asyncImageTaskResponseExample :: "jstr \<Rightarrow> jstr res" where
  "asyncImageTaskResponseExample model =
     bindr (generationRoute model) (\<lambda>route.
     Inr (ulit ''{%u000A  %u0022id%u0022: %u00222b42f834-15dd-49ce-9c75-854302db18d0%u0022,%u000A  %u0022kind%u0022: %u0022image%u0022,%u000A  %u0022status%u0022: %u0022queued%u0022,%u000A  %u0022progress%u0022: 0,%u000A  %u0022queue_position%u0022: 2,%u000A  %u0022model%u0022: %u0022'' @
       gr_model route @
       ulit ''%u0022,%u000A  %u0022prompt%u0022: %u0022%u4E00%u5F20%u767D%u8272%u80CC%u666F%u4E0A%u7684%u4EA7%u54C1%u6444%u5F71%uFF0C%u67D4%u548C%u68DA%u62CD%u5149%u7EBF%u0022,%u000A  %u0022retry_count%u0022: 0,%u000A  %u0022cancel_requested%u0022: false,%u000A  %u0022created_at%u0022: %u00222026-07-24T08:00:00Z%u0022,%u000A  %u0022updated_at%u0022: %u00222026-07-24T08:00:00Z%u0022%u000A}''))"

definition imageTaskPollExample :: jstr where
  "imageTaskPollExample =
     ulit ''curl $BASE_URL/v1/images/TASK_ID %u005C%u000A  -H %u0022Authorization: Bearer $AIV2API_API_KEY%u0022%u000A%u000A# %u4EC5 queued %u4EFB%u52A1%u53EF%u53D6%u6D88%u000Acurl -X POST $BASE_URL/v1/images/TASK_ID/cancel %u005C%u000A  -H %u0022Authorization: Bearer $AIV2API_API_KEY%u0022''"

definition chatCompletionExample :: "jstr \<Rightarrow> jstr res" where
  "chatCompletionExample model =
     bindr (generationRoute model) (\<lambda>route.
     Inr (ulit ''curl $BASE_URL/v1/chat/completions %u005C%u000A  -H %u0022Authorization: Bearer $AIV2API_API_KEY%u0022 %u005C%u000A  -H %u0022Content-Type: application/json%u0022 %u005C%u000A  -H %u0022Idempotency-Key: YOUR_IDEMPOTENCY_KEY%u0022 %u005C%u000A  -d %u0027{%u000A    %u0022model%u0022: %u0022'' @
       gr_model route @
       ulit ''%u0022,%u000A    %u0022stream%u0022: false,%u000A    %u0022messages%u0022: [%u000A      {%u000A        %u0022role%u0022: %u0022user%u0022,%u000A        %u0022content%u0022: %u0022%u751F%u6210%u4E00%u5F20%u767D%u8272%u80CC%u666F%u4E0A%u7684%u7EA2%u8272%u9676%u74F7%u65B9%u5757%u4EA7%u54C1%u7167%u0022%u000A      }%u000A    ]%u000A  }%u0027''))"

definition editExample :: "jstr \<Rightarrow> jstr res" where
  "editExample model =
     bindr (generationRoute model) (\<lambda>route.
     let quality = (if has_quality model then ulit '' %u005C%u000A  -F %u0022quality=low%u0022'' else []) in
     Inr (ulit ''curl $BASE_URL/v1/images/generations %u005C%u000A  -H %u0022Authorization: Bearer $AIV2API_API_KEY%u0022 %u005C%u000A  -H %u0022Idempotency-Key: YOUR_IDEMPOTENCY_KEY%u0022 %u005C%u000A  -F %u0022image[]=@product.png%u0022 %u005C%u000A  -F %u0022image[]=@style-reference.jpg%u0022 %u005C%u000A  -F %u0022prompt=%u4FDD%u7559%u4EA7%u54C1%u7ED3%u6784%uFF0C%u8F6C%u6362%u4E3A%u5E72%u51C0%u7684%u6C34%u5F69%u63D2%u753B%u0022 %u005C%u000A  -F %u0022model='' @
       gr_model route @ ulit ''%u0022 %u005C%u000A  -F %u0022size=1024x1024%u0022'' @ quality @
       ulit '' %u005C%u000A  -F %u0022n=1%u0022 %u005C%u000A  -F %u0022reference_strength=MID%u0022 %u005C%u000A  -F %u0022response_format=url%u0022''))"

definition audioGenerationExample :: "jstr \<Rightarrow> jstr" where
  "audioGenerationExample model =
     (let json_body =
        (if model = lit ''dialogue-v3'' then
           ulit ''{%u000A    %u0022model%u0022: %u0022leonardo/dialogue-v3%u0022,%u000A    %u0022prompt%u0022: %u0022Welcome to the Leonardo media studio.%u0022,%u000A    %u0022voice%u0022: %u0022george%u0022,%u000A    %u0022language%u0022: %u0022en%u0022,%u000A    %u0022prompt_influence%u0022: 0.5,%u000A    %u0022n%u0022: 1%u000A  }''
         else if model = lit ''music-v1'' then
           ulit ''{%u000A    %u0022model%u0022: %u0022leonardo/music-v1%u0022,%u000A    %u0022prompt%u0022: %u0022Warm cinematic piano and strings, slow build, no vocals%u0022,%u000A    %u0022duration_minutes%u0022: 1,%u000A    %u0022force_instrumental%u0022: true,%u000A    %u0022n%u0022: 1%u000A  }''
         else
           ulit ''{%u000A    %u0022model%u0022: %u0022leonardo/sound-effects-v2%u0022,%u000A    %u0022prompt%u0022: %u0022Rain falling on a metal roof, seamless ambient loop%u0022,%u000A    %u0022duration%u0022: 6,%u000A    %u0022loop%u0022: true,%u000A    %u0022prompt_influence%u0022: 0.7,%u000A    %u0022n%u0022: 1%u000A  }'') in
      replace_all
        (ulit ''curl $BASE_URL/v1/audio/generations %u005C%u000A+  -H %u0022Authorization: Bearer $AIV2API_API_KEY%u0022 %u005C%u000A+  -H %u0022Content-Type: application/json%u0022 %u005C%u000A+  -H %u0022Idempotency-Key: YOUR_IDEMPOTENCY_KEY%u0022 %u005C%u000A+  -d %u0027'' @
          json_body @ ulit ''%u0027'') (ulit ''%u000A+'') (ulit ''%u000A''))"

definition audioPollExample :: jstr where
  "audioPollExample = replace_all
     (ulit ''curl $BASE_URL/v1/audio/TASK_ID %u005C%u000A+  -H %u0022Authorization: Bearer $AIV2API_API_KEY%u0022%u000A%u000A# %u53D6%u6D88%u6392%u961F%u6216%u672A%u63D0%u4EA4%u4EFB%u52A1%u000Acurl -X POST $BASE_URL/v1/audio/TASK_ID/cancel %u005C%u000A+  -H %u0022Authorization: Bearer $AIV2API_API_KEY%u0022'')
     (ulit ''%u000A+'') (ulit ''%u000A'')"

text \<open>The fields of a form template, in the order of the command.\<close>

definition example_resolution :: "jstr \<Rightarrow> VideoModelDoc \<Rightarrow> jstr \<Rightarrow> jstr res" where
  "example_resolution model spec selectedSize =
     bindr (videoResolutionForSize model selectedSize) (\<lambda>mapped.
     let preferred = (if lit ''1080p'' \<in> set (vd_resolutions spec) then lit ''1080p'' else lit ''720p'') in
     Inr (or_str (opt_str mapped)
       (if preferred \<in> set (vd_resolutions spec) then preferred
        else case vd_resolutions spec of [] \<Rightarrow> lit ''undefined'' | r # _ \<Rightarrow> r)))"

definition form_resolution :: "jstr \<Rightarrow> VideoModelDoc \<Rightarrow> jstr \<Rightarrow> jstr res" where
  "form_resolution model spec selectedSize =
     bindr (videoResolutionForSize model selectedSize) (\<lambda>mapped.
     Inr (or_str (opt_str mapped) (case vd_resolutions spec of [] \<Rightarrow> lit ''undefined'' | r # _ \<Rightarrow> r)))"

definition example_media_fields :: "jstr \<Rightarrow> VideoModelDoc \<Rightarrow> DocVideoMode \<Rightarrow> (jstr \<times> jstr) list" where
  "example_media_fields model spec mode = (case mode of
       TextTemplate \<Rightarrow> []
     | ImageTemplate \<Rightarrow> [(lit ''image[]'', lit ''@reference.png''), (lit ''reference_strength'', lit ''MID'')]
     | FrameTemplate \<Rightarrow> (lit ''start_frame'', lit ''@opening.png'') #
         (if supportsVideoEndFrame spec then [(lit ''end_frame'', lit ''@closing.png'')] else [])
     | VideoTemplate \<Rightarrow> (lit ''video[]'', lit ''@camera-motion.mp4'') #
         (if model = lit ''kling-o3-omni'' then [(lit ''image[]'', lit ''@subject.png''), (lit ''reference_strength'', lit ''MID'')] else [])
     | AudioTemplate \<Rightarrow> [(lit ''image[]'', lit ''@subject.png''), (lit ''audio[]'', lit ''@dialogue.mp3''), (lit ''reference_strength'', lit ''MID'')])"

definition example_fields :: "jstr \<Rightarrow> VideoModelDoc \<Rightarrow> DocVideoMode \<Rightarrow> (jstr \<times> jstr) list res" where
  "example_fields model spec mode =
     bindr (generationRoute model) (\<lambda>route.
     case doc_sizes spec of
       [] \<Rightarrow> Inl TypeError
     | first # _ \<Rightarrow>
         bindr (form_resolution model spec (vs_value first)) (\<lambda>resolution.
         Inr ([(lit ''model'', gr_model route), (lit ''prompt'', ulit ''%u8BA9%u4E3B%u4F53%u81EA%u7136%u5411%u955C%u5934%u8D70%u6765%uFF0C%u4FDD%u6301%u5916%u89C2%u548C%u52A8%u4F5C%u8FDE%u8D2F''),
               (lit ''duration'', num_str (vd_defaultDuration spec)), (lit ''size'', vs_value first),
               (lit ''resolution'', resolution)] @
              (if vd_supportsGenerateAudio spec then [(lit ''generate_audio'', lit ''true'')] else []) @
              example_media_fields model spec mode)))"

definition field_lines :: "(jstr \<times> jstr) list \<Rightarrow> jstr" where
  "field_lines entries = js_join (ulit ''%u000A'')
     (map (\<lambda>(index, key, v). ulit ''  -F %u0022'' @ key @ lit ''='' @ v @ ulit ''%u0022'' @ (if index = length entries - 1 then [] else ulit '' %u005C''))
       (enumerate 0 entries))"

definition videoModeExample :: "jstr \<Rightarrow> VideoModelDoc \<Rightarrow> DocVideoMode \<Rightarrow> jstr res" where
  "videoModeExample model spec mode =
     (if mode = TextTemplate then
        bindr (generationRoute model) (\<lambda>route.
        case doc_sizes spec of
          [] \<Rightarrow> Inl TypeError
        | first # _ \<Rightarrow>
            bindr (example_resolution model spec (vs_value first)) (\<lambda>resolution.
            Inr (ulit ''curl $BASE_URL/v1/videos/generations %u005C%u000A  -H %u0022Authorization: Bearer $AIV2API_API_KEY%u0022 %u005C%u000A  -H %u0022Content-Type: application/json%u0022 %u005C%u000A  -H %u0022Idempotency-Key: YOUR_IDEMPOTENCY_KEY%u0022 %u005C%u000A  -d %u0027{%u000A    %u0022model%u0022: %u0022'' @
              gr_model route @ ulit ''%u0022,%u000A    %u0022prompt%u0022: %u0022%u4E00%u9897%u73BB%u7483%u7403%u5728%u767D%u8272%u6444%u5F71%u68DA%u4E2D%u7F13%u6162%u65CB%u8F6C%uFF0C%u7535%u5F71%u7EA7%u5149%u7EBF%u0022,%u000A    %u0022duration%u0022: '' @
              num_str (vd_defaultDuration spec) @ ulit '',%u000A    %u0022size%u0022: %u0022'' @ vs_value first @
              ulit ''%u0022,%u000A    %u0022resolution%u0022: %u0022'' @ resolution @ ulit ''%u0022'' @
              (if vd_supportsGenerateAudio spec then ulit '',%u000A    %u0022generate_audio%u0022: true'' else []) @ ulit ''%u000A  }%u0027'')))
      else
        bindr (example_fields model spec mode) (\<lambda>entries.
        Inr (ulit ''curl $BASE_URL/v1/videos/generations %u005C%u000A  -H %u0022Authorization: Bearer $AIV2API_API_KEY%u0022 %u005C%u000A  -H %u0022Idempotency-Key: YOUR_IDEMPOTENCY_KEY%u0022 %u005C%u000A'' @
          field_lines entries)))"

definition videoPollExample :: jstr where
  "videoPollExample =
     ulit ''curl $BASE_URL/v1/videos/TASK_ID %u005C%u000A  -H %u0022Authorization: Bearer $AIV2API_API_KEY%u0022%u000A%u000A# %u53D6%u6D88%u4ECD%u5728%u6392%u961F%u7684%u4EFB%u52A1%u000Acurl -X POST $BASE_URL/v1/videos/TASK_ID/cancel %u005C%u000A  -H %u0022Authorization: Bearer $AIV2API_API_KEY%u0022''"

definition imageResponseExample :: jstr where
  "imageResponseExample =
     ulit ''{%u000A  %u0022created%u0022: 1784851200,%u000A  %u0022data%u0022: [%u000A    {%u000A      %u0022url%u0022: %u0022https://cdn.example.com/generated/image.png%u0022,%u000A      %u0022revised_prompt%u0022: %u0022%u4E00%u5F20%u767D%u8272%u80CC%u666F%u4E0A%u7684%u4EA7%u54C1%u6444%u5F71%u0022%u000A    }%u000A  ]%u000A}''"

definition taskCreatedExample :: jstr where
  "taskCreatedExample =
     ulit ''{%u000A  %u0022id%u0022: %u00222b42f834-15dd-49ce-9c75-854302db18d0%u0022,%u000A  %u0022kind%u0022: %u0022video%u0022,%u000A  %u0022status%u0022: %u0022queued%u0022,%u000A  %u0022progress%u0022: 0,%u000A  %u0022queue_position%u0022: 6,%u000A  %u0022model%u0022: %u0022leonardo/kling-o3-omni%u0022,%u000A  %u0022prompt%u0022: %u0022%u4E00%u9897%u73BB%u7483%u7403%u7F13%u6162%u65CB%u8F6C%u0022,%u000A  %u0022retry_count%u0022: 0,%u000A  %u0022cancel_requested%u0022: false,%u000A  %u0022created_at%u0022: %u00222026-07-24T08:00:00Z%u0022,%u000A  %u0022updated_at%u0022: %u00222026-07-24T08:00:00Z%u0022%u000A}''"

definition errorResponseExample :: jstr where
  "errorResponseExample =
     ulit ''{%u000A  %u0022error%u0022: {%u000A    %u0022message%u0022: %u0022all eligible account queues are full%u0022,%u000A    %u0022type%u0022: %u0022account_queue_full%u0022,%u000A    %u0022code%u0022: %u0022account_queue_full%u0022%u000A  }%u000A}''"

end
