(* ===== verification/DocExamples.thy ===== *)
theory DocExamples
  imports DocTables
begin

text \<open>
  The developer guide against the playground: the parameter table of a template names what its
  example sends, both formulas for the resolution of an example give the resolution of its size, and
  what an example sends can be sent from the playground.
\<close>

section \<open>What the documents allow\<close>

text \<open>What the templates take for granted of a document.\<close>

definition templates_ok :: "VideoModelDoc \<Rightarrow> bool" where
  "templates_ok spec \<longleftrightarrow> 100 \<le> vd_promptMax spec \<and>
     (0 < maxAudioReferences spec \<longrightarrow> 0 < vd_maxReferenceImages spec) \<and>
     (always_audio spec \<longrightarrow> vd_supportsGenerateAudio spec) \<and>
     (requires_frame spec \<longrightarrow> vd_supportsStartEnd spec \<and> vd_maxReferenceImages spec = 0 \<and>
        maxVideoReferences spec = 0 \<and> maxAudioReferences spec = 0) \<and>
     (\<forall>k. vd_maxReferenceImagesWithVideo spec = Some k \<longrightarrow> 0 < k)"

lemmas template_simps = templates_ok_def maxAudioReferences_def maxVideoReferences_def always_audio_def requires_frame_def

lemma base_templates_ok: "(m, spec) \<in> set baseVideoModelDocs \<Longrightarrow> templates_ok spec"
proof -
  assume m: "(m, spec) \<in> set baseVideoModelDocs"
  have "list_all templates_ok (map snd baseVideoModelDocs)"
    unfolding baseVideoModelDocs_def
    by (simp add: template_simps video_doc_adobe_kling_3_0_omni_def video_doc_adobe_veo_3_1_def
        video_doc_adobe_veo_3_1_fast_def video_doc_adobe_seedance_2_0_def video_doc_adobe_seedance_2_0_fast_def
        video_doc_gemini_omni_flash_def video_doc_happy_horse_1_1_def video_doc_kling_3_0_def
        video_doc_kling_3_0_turbo_def video_doc_hailuo_2_3_def video_doc_wan_2_7_def video_doc_flux_3_video_def
        video_doc_seedance_2_0_def video_doc_seedance_2_0_fast_def video_doc_seedance_2_0_mini_def
        video_doc_seedance_2_5_def video_doc_veo_3_1_def video_doc_veo_3_1_fast_def video_doc_kling_o3_omni_def
        video_doc_minimax_h3_def video_doc_grok_imagine_1_5_def)
  with m show ?thesis by (force simp: list_all_iff)
qed

lemma documented_templates_ok:
  assumes "map_of videoModelDocs m = Some spec"
  shows "templates_ok spec"
proof (cases "map_of creativeFabricaVideoDocs m")
  case None
  with assms show ?thesis using base_templates_ok [OF map_of_SomeD] by (simp add: videoModelDocs_lookup)
next
  case (Some d)
  have "templates_ok (creativeFabrica_video_doc n)" "templates_ok seedance_v2_mini_doc" for n
    by (simp_all add: template_simps seedance_v2_mini_doc_def creativeFabrica_video_doc_def Let_def)
  with assms Some show ?thesis
    by (auto simp: videoModelDocs_lookup creativeFabricaVideoDocs_lookup split: if_splits)
qed

text \<open>A model has a template without material or one with a first frame.\<close>

lemma frame_or_text:
  assumes "map_of videoModelDocs m = Some spec"
  shows "supportsVideoMode spec (if requires_frame spec then FrameTemplate else TextTemplate)"
  using documented_templates_ok [OF assms] by (simp add: supportsVideoMode_def templates_ok_def)

section \<open>Resolutions\<close>

lemma template_resolutions:
  assumes doc: "map_of videoModelDocs m = Some spec" and s: "s \<in> set (doc_sizes spec)"
  shows "example_resolution m spec (vs_value s) = Inr (size_resolution spec s)"
    and "form_resolution m spec (vs_value s) = Inr (size_resolution spec s)"
proof -
  have "opt_str (vs_resolution s) = [] \<Longrightarrow> \<exists>r. vd_resolutions spec = [r]"
    using documented_ok [OF doc] s by (cases "vd_resolutions spec") (auto simp: video_doc_ok_def single_resolution_def)
  then show "example_resolution m spec (vs_value s) = Inr (size_resolution spec s)"
    "form_resolution m spec (vs_value s) = Inr (size_resolution spec s)"
    by (auto simp: example_resolution_def form_resolution_def videoResolutionForSize_listed [OF doc s]
        size_resolution_def or_str_def Let_def)
qed

section \<open>Links to the playground\<close>

lemma offered_no_slash:
  assumes "offered kind p d m"
  shows "47 \<notin> set d"
proof -
  obtain P where P: "map_of providerRegistry p = Some P" "m \<in> set (pp_models P kind)" "modelDisplayID m = Inr d"
    using assms by (auto simp: offered_def)
  then have d: "d = bare_id p m" "p \<noteq> lit ''leonardo'' \<longrightarrow> m = p @ 58 # bare_id p m"
    using listed_model_bare [OF P(1,2)] by (simp_all add: listed_as_def)
  show ?thesis
  proof (cases "p = lit ''leonardo''")
    case True
    with P(1) have "P = leonardo" by (auto simp: registry_map_of)
    with leonardo_models_bare set_provider_models [OF P(2)] True d show ?thesis by (auto simp: bare_id_def)
  next
    case False
    with qualified_model [OF P(1) _ P(2)] d show ?thesis by auto
  qed
qed

lemma requested_link:
  assumes o: "offered kind p d m" and table: "models_of table p = providerPublicModels p kind"
  shows "requested_model table (Some (p @ 47 # d)) (Some p) = Inr (Some (p, d))"
proof -
  obtain P where P: "map_of providerRegistry p = Some P" using o by (auto simp: offered_def)
  then obtain ds where ds: "providerPublicModels p kind = Inr ds" "d \<in> set ds"
    using publicModels_listed [OF P, of kind] o by blast
  have d: "modelDisplayID (p @ 47 # d) = Inr d"
    using public_id [OF P offered_display_nonempty [OF o] offered_no_slash [OF o]] by simp
  have "isRegisteredProviderID (Some p)" using P by (auto simp: isRegisteredProviderID_Some)
  moreover have "p \<noteq> []" using P by (auto simp: registry_map_of)
  ultimately show ?thesis using ds d by (simp add: requested_model_def Let_def or_str_def table)
qed

section \<open>Examples and parameters\<close>

text \<open>The field names a row of the table documents: \<open>image / image[]\<close> documents both.\<close>

definition field_names :: "jstr \<Rightarrow> jstr list" where
  "field_names name = map trim (js_split 47 name)"

lemma field_names_simps [simp]:
  "field_names (lit ''model'') = [lit ''model'']" "field_names (lit ''prompt'') = [lit ''prompt'']"
  "field_names (lit ''duration'') = [lit ''duration'']" "field_names (lit ''size'') = [lit ''size'']"
  "field_names (lit ''resolution'') = [lit ''resolution'']" "field_names (lit ''generate_audio'') = [lit ''generate_audio'']"
  "field_names (lit ''image / image[]'') = [lit ''image'', lit ''image[]'']" "field_names (lit ''video / video[]'') = [lit ''video'', lit ''video[]'']"
  "field_names (lit ''audio / audio[]'') = [lit ''audio'', lit ''audio[]'']" "field_names (lit ''start_frame'') = [lit ''start_frame'']"
  "field_names (lit ''end_frame'') = [lit ''end_frame'']" "field_names (lit ''reference_strength'') = [lit ''reference_strength'']"
  by code_simp+

definition example_keys :: "jstr \<Rightarrow> VideoModelDoc \<Rightarrow> DocVideoMode \<Rightarrow> jstr list" where
  "example_keys model spec mode = [lit ''model'', lit ''prompt'', lit ''duration'', lit ''size'', lit ''resolution''] @
     (if vd_supportsGenerateAudio spec then [lit ''generate_audio''] else []) @
     map fst (example_media_fields model spec mode)"

text \<open>Name, type and requirement of the rows.\<close>

definition media_heads :: "jstr \<Rightarrow> VideoModelDoc \<Rightarrow> DocVideoMode \<Rightarrow> (jstr \<times> jstr \<times> jstr) list" where
  "media_heads model spec mode = (case mode of
       TextTemplate \<Rightarrow> []
     | ImageTemplate \<Rightarrow> [(lit ''image / image[]'', lit ''file'', ulit ''%u5FC5%u586B''), (lit ''reference_strength'', lit ''string'', ulit ''%u53EF%u9009'')]
     | FrameTemplate \<Rightarrow> (lit ''start_frame'', lit ''file'', ulit ''%u5FC5%u586B'') #
         (if supportsVideoEndFrame spec then [(lit ''end_frame'', lit ''file'', ulit ''%u53EF%u9009'')] else [])
     | VideoTemplate \<Rightarrow> (if model = lit ''kling-o3-omni'' then
           [(lit ''image / image[]'', lit ''file'', ulit ''%u53EF%u9009''), (lit ''reference_strength'', lit ''string'', ulit ''%u4F7F%u7528%u53C2%u8003%u56FE%u65F6%u53EF%u9009'')] else []) @
         [(lit ''video / video[]'', lit ''file'', ulit ''%u5FC5%u586B'')]
     | AudioTemplate \<Rightarrow> if model = lit ''minimax-h3'' then
           [(lit ''image / image[]'', lit ''file'', ulit ''%u642D%u914D%u7D20%u6750%u5FC5%u586B''), (lit ''audio / audio[]'', lit ''file'', ulit ''%u5FC5%u586B''), (lit ''reference_strength'', lit ''string'', ulit ''%u53EF%u9009'')]
         else [(lit ''image / image[]'', lit ''file'', ulit ''%u642D%u914D%u7D20%u6750%u4E8C%u9009%u4E00''), (lit ''video / video[]'', lit ''file'', ulit ''%u642D%u914D%u7D20%u6750%u4E8C%u9009%u4E00''),
           (lit ''audio / audio[]'', lit ''file'', ulit ''%u5FC5%u586B''), (lit ''reference_strength'', lit ''string'', ulit ''%u4F7F%u7528%u53C2%u8003%u56FE%u65F6%u53EF%u9009'')])"

definition table_heads :: "jstr \<Rightarrow> VideoModelDoc \<Rightarrow> DocVideoMode \<Rightarrow> (jstr \<times> jstr \<times> jstr) list" where
  "table_heads model spec mode =
     (let veo = (model = lit ''veo-3.1'' \<and> mode = ImageTemplate) in
      [(lit ''model'', lit ''string'', ulit ''%u5FC5%u586B''), (lit ''prompt'', lit ''string'', ulit ''%u5FC5%u586B''), (lit ''duration'', lit ''integer'', fixed_or_optional veo),
       (lit ''size'', lit ''string'', fixed_or_optional veo), (lit ''resolution'', lit ''string'', fixed_or_optional (length (vd_resolutions spec) = 1))] @
      media_heads model spec mode @
      (if vd_supportsGenerateAudio spec then [(lit ''generate_audio'', lit ''boolean'', fixed_or_optional (always_audio spec))] else []) @
      [(lit ''Idempotency-Key'', lit ''header'', ulit ''%u5FC5%u586B'')])"

lemma requirements_differ: "ulit ''%u56FA%u5B9A'' \<noteq> ulit ''%u5FC5%u586B''" "ulit ''%u53EF%u9009'' \<noteq> ulit ''%u5FC5%u586B''" "ulit ''%u4F7F%u7528%u53C2%u8003%u56FE%u65F6%u53EF%u9009'' \<noteq> ulit ''%u5FC5%u586B''"
  "ulit ''%u642D%u914D%u7D20%u6750%u4E8C%u9009%u4E00'' \<noteq> ulit ''%u5FC5%u586B''" "ulit ''%u642D%u914D%u7D20%u6750%u5FC5%u586B'' \<noteq> ulit ''%u5FC5%u586B''"
  by code_simp+

lemma fixed_not_required: "fixed_or_optional b \<noteq> ulit ''%u5FC5%u586B''"
  by (simp add: fixed_or_optional_def requirements_differ)

lemmas head_simps = table_heads_def media_heads_def example_keys_def example_media_fields_def
  requirements_differ fixed_not_required

lemma heads_cover_keys:
  "list_all (\<lambda>key. list_ex (\<lambda>name. key \<in> set (field_names name)) (map fst (table_heads model spec mode)))
     (example_keys model spec mode)"
  by (cases mode; simp add: head_simps Let_def)

lemma required_heads_sent:
  "list_all (\<lambda>(name, type, requirement). requirement = ulit ''%u5FC5%u586B'' \<and> type \<noteq> lit ''header'' \<longrightarrow>
     list_ex (\<lambda>key. key \<in> set (field_names name)) (example_keys model spec mode)) (table_heads model spec mode)"
  by (cases mode; simp add: head_simps Let_def)

lemma heads_distinct: "distinct (map fst (table_heads model spec mode))"
  by (cases mode; cases "model = lit ''kling-o3-omni''"; simp add: table_heads_def media_heads_def Let_def)


lemma omni_example: "\<exists>entries. example_fields (lit ''kling-o3-omni'') video_doc_kling_o3_omni mode = Inr entries"
proof -
  obtain s ss where s: "doc_sizes video_doc_kling_o3_omni = s # ss" using sizes_nonempty [OF omni_doc] by blast
  then show ?thesis
    by (simp add: example_fields_def offered_route [OF omni_offered] template_resolutions(2) [OF omni_doc])
qed


end
