(* ===== verification/DocFollow.thy ===== *)
theory DocFollow
  imports DocExamples
begin

text \<open>
  Following an example of the developer guide (pages/docs-page.tsx) in the video form of the playground
  (pages/playground-page.tsx): what a reader does, opened with the guide's link, and the request
  that comes out.
\<close>

section \<open>Following an example\<close>

text \<open>The files of an example, and what a reader does in the playground, opened with the link, to send it.\<close>

definition example_files :: "jstr \<Rightarrow> VideoModelDoc \<Rightarrow> DocVideoMode \<Rightarrow> jstr \<Rightarrow> jstr list" where
  "example_files m spec mode key =
     map (\<lambda>e. drop 1 (snd e)) (filter (\<lambda>e. fst e = key) (example_media_fields m spec mode))"

definition follow_example :: "jstr \<Rightarrow> jstr \<Rightarrow> jstr \<Rightarrow> VideoModelDoc \<Rightarrow> DocVideoMode \<Rightarrow> jstr \<Rightarrow> video_event list" where
  "follow_example p d m spec mode prompt =
     [Remount, Location (Some (p @ 47 # d)) (Some p), SelectModel d,
      SetMode (if mode = TextTemplate then VideoGeneration else VideoReference), TypePrompt prompt, ToggleAudio True,
      PickImages (example_files m spec mode (lit ''image[]'')), PickStart (example_files m spec mode (lit ''start_frame'')),
      PickEnd (example_files m spec mode (lit ''end_frame'')), PickVideos (example_files m spec mode (lit ''video[]'')),
      PickAudio (example_files m spec mode (lit ''audio[]'')), SelectStrength (lit ''MID'')]"

definition file_keys :: "jstr list" where
  "file_keys = [lit ''image[]'', lit ''start_frame'', lit ''end_frame'', lit ''video[]'', lit ''audio[]'']"

text \<open>A request carries a field of an example: a file, or a value with the same text.\<close>

definition carries :: "RequestBody \<Rightarrow> jstr \<times> jstr \<Rightarrow> bool" where
  "carries request e \<longleftrightarrow> (if fst e \<in> set file_keys then drop 1 (snd e) \<in> set (files_of request (fst e))
     else (case request of
       JsonBody sent \<Rightarrow> \<exists>(key, x) \<in> set sent. key = fst e \<and> json_text x = snd e
     | FormBody sent \<Rightarrow> (fst e, Text (snd e)) \<in> set sent))"

lemma drop_lit: "drop n (lit s) = lit (drop n s)"
  by (simp add: lit_def drop_map)

lemma with_spec_offered:
  assumes "offered Video (vf_provider u) (vf_model u) m" "map_of videoModelDocs m = Some spec"
  shows "with_spec f u = Inr (f spec u)"
  using assms by (simp add: with_spec_def selectedVideoSpec_def video_effective_def effective_offered(2) video_doc_Some)

text \<open>The form after the first three events: the link and the model, with its defaults.\<close>

definition chosen_form :: "jstr \<Rightarrow> jstr \<Rightarrow> VideoModelDoc \<Rightarrow> VideoSize \<Rightarrow> VideoForm \<Rightarrow> VideoForm" where
  "chosen_form p d spec s v = v\<lparr>vf_provider := p, vf_model := d, vf_resolution := Some (size_resolution spec s),
     vf_size := vs_value s, vf_duration := vd_defaultDuration spec, vf_referenceImages := [], vf_startFrame := [],
     vf_endFrame := [], vf_referenceVideos := [], vf_referenceAudio := [],
     vf_generateAudio := (always_audio spec \<or> vf_generateAudio v),
     vf_mode := (if requires_frame spec then VideoReference else vf_mode v)\<rparr>"

lemma link_chooses:
  assumes o: "offered Video p d m" and doc: "map_of videoModelDocs m = Some spec" and s: "doc_sizes spec = s # ss"
  shows "foldl (video_run providers) (Inr v) [Remount, Location (Some (p @ 47 # d)) (Some p), SelectModel d] =
    Inr (chosen_form p d spec s v)"
proof -
  obtain P where P: "map_of providerRegistry p = Some P" using o by (auto simp: offered_def)
  then obtain ds where ds: "providerPublicModels p Video = Inr ds" "d \<in> set ds"
    using publicModels_listed [OF P, of Video] o by blast
  show ?thesis
    using s ds by (simp add: video_run_def requested_link [OF o models_of_simps(2) [OF P]] models_of_simps(2) [OF P]
        selectVideoModel_def effective_offered(2) [OF o] video_doc_Some [OF doc] defaultVideoResolution_listed [OF doc]
        sizes_nonempty(2) [OF doc] chosen_form_def)
qed

lemma setup_steps:
  assumes o: "offered Video (vf_provider u) (vf_model u) m" and doc: "map_of videoModelDocs m = Some spec"
    and mode: "M = VideoGeneration \<Longrightarrow> \<not> requires_frame spec"
  shows "foldl (video_run providers) (Inr u) [SetMode M, TypePrompt prompt, ToggleAudio True] =
    Inr (u\<lparr>vf_mode := M, vf_prompt := prompt,
      vf_generateAudio := (vd_supportsGenerateAudio spec \<and> \<not> always_audio spec \<or> vf_generateAudio u)\<rparr>)"
proof -
  have same: "with_spec f x = Inr (f spec x)" if "vf_provider x = vf_provider u" "vf_model x = vf_model u" for f x
    using with_spec_offered [OF _ doc, of x f] o that by simp
  have M: "(M = VideoGeneration \<and> requires_frame spec) = False" using mode by blast
  show ?thesis
  proof (cases "vd_supportsGenerateAudio spec \<and> \<not> always_audio spec")
    case True
    then show ?thesis by (simp add: video_run_def same M)
  next
    case False
    then have "foldl (video_run providers) (Inr u) [SetMode M, TypePrompt prompt, ToggleAudio True] =
        Inr (u\<lparr>vf_mode := M, vf_prompt := prompt\<rparr>)"
      by (simp add: video_run_def same M) blast
    also have "u\<lparr>vf_mode := M, vf_prompt := prompt\<rparr> = u\<lparr>vf_mode := M, vf_prompt := prompt,
        vf_generateAudio := (vd_supportsGenerateAudio spec \<and> \<not> always_audio spec \<or> vf_generateAudio u)\<rparr>"
      using False by (cases u) auto
    finally show ?thesis .
  qed
qed

text \<open>The pickers take the files of a template the model supports.\<close>

lemma pick_steps:
  assumes o: "offered Video (vf_provider u) (vf_model u) m" and doc: "map_of videoModelDocs m = Some spec"
    and mode: "supportsVideoMode spec mode" "referenceMode spec u \<longleftrightarrow> mode \<noteq> TextTemplate"
    and empty: "vf_referenceImages u = []" "vf_startFrame u = []" "vf_endFrame u = []" "vf_referenceVideos u = []"
      "vf_referenceAudio u = []"
    and omni: "m = lit ''kling-o3-omni'' \<Longrightarrow> 0 < maxImageReferences spec True \<and> 0 < vd_maxReferenceImages spec"
    and imgs: "example_files m spec mode (lit ''image[]'') = imgs" and start: "example_files m spec mode (lit ''start_frame'') = start"
    and endf: "example_files m spec mode (lit ''end_frame'') = endf" and vids: "example_files m spec mode (lit ''video[]'') = vids"
    and auds: "example_files m spec mode (lit ''audio[]'') = auds"
  shows "foldl (video_run providers) (Inr u)
      [PickImages imgs, PickStart start, PickEnd endf, PickVideos vids, PickAudio auds, SelectStrength (lit ''MID'')] =
    Inr (u\<lparr>vf_referenceImages := imgs, vf_startFrame := start, vf_endFrame := endf,
      vf_referenceVideos := vids, vf_referenceAudio := auds,
      vf_strength := (if imgs \<noteq> [] then lit ''MID'' else vf_strength u)\<rparr>)"
proof -
  note ok = documented_templates_ok [OF doc]
  have same: "with_spec f x = Inr (f spec x)" if "vf_provider x = vf_provider u" "vf_model x = vf_model u" for f x
    using with_spec_offered [OF _ doc, of x f] o that by simp
  have ref: "referenceMode spec x \<longleftrightarrow> mode \<noteq> TextTemplate" if "vf_mode x = vf_mode u" for x
    using mode(2) that by (simp add: referenceMode_def)
  have one: "take n [x] = [x]" if "0 < n" for n and x :: jstr
    using that by (cases n) simp_all
  note steps = video_run_def same pickVideoImages_def pickStartFrame_def pickEndFrame_def pickReferenceVideos_def
    pickReferenceAudio_def ref one empty
  note files = imgs [symmetric] start [symmetric] endf [symmetric] vids [symmetric] auds [symmetric]
  show ?thesis
  proof (cases mode)
    case TextTemplate
    then show ?thesis
      unfolding files by (simp add: steps example_files_def example_media_fields_def)
  next
    case ImageTemplate
    with mode(1) have "0 < vd_maxReferenceImages spec" by (simp add: supportsVideoMode_def)
    with ImageTemplate show ?thesis
      unfolding files by (simp add: steps example_files_def example_media_fields_def maxImageReferences_def)
  next
    case FrameTemplate
    with mode(1) have "vd_supportsStartEnd spec" by (simp add: supportsVideoMode_def)
    with FrameTemplate show ?thesis
      unfolding files by (cases "supportsVideoEndFrame spec")
        (simp_all add: steps example_files_def example_media_fields_def)
  next
    case VideoTemplate
    with mode(1) have v: "0 < maxVideoReferences spec" by (simp add: supportsVideoMode_def)
    show ?thesis
    proof (cases "m = lit ''kling-o3-omni''")
      case True
      with VideoTemplate v omni [OF True] show ?thesis
        unfolding files by (simp add: steps example_files_def example_media_fields_def maxImageReferences_def)
    qed (use VideoTemplate v in \<open>unfold files, simp add: steps example_files_def example_media_fields_def\<close>)
  next
    case AudioTemplate
    with mode(1) have a: "0 < maxAudioReferences spec" by (simp add: supportsVideoMode_def)
    with ok have "0 < vd_maxReferenceImages spec" by (simp add: templates_ok_def)
    with AudioTemplate a show ?thesis
      unfolding files by (simp add: steps example_files_def example_media_fields_def maxImageReferences_def)
  qed
qed

text \<open>Following an example from its link leaves a form with the example's choices and files.\<close>

lemma example_form_run:
  assumes o: "offered Video p d m" and doc: "map_of videoModelDocs m = Some spec"
    and s: "doc_sizes spec = s # ss" and mode: "supportsVideoMode spec mode"
    and omni: "m = lit ''kling-o3-omni'' \<Longrightarrow> 0 < maxImageReferences spec True \<and> 0 < vd_maxReferenceImages spec"
  shows "foldl (video_run providers) (Inr v) (follow_example p d m spec mode prompt) =
    Inr ((chosen_form p d spec s v)
      \<lparr>vf_mode := (if mode = TextTemplate then VideoGeneration else VideoReference), vf_prompt := prompt,
       vf_generateAudio := (vd_supportsGenerateAudio spec \<and> \<not> always_audio spec \<or>
         vf_generateAudio (chosen_form p d spec s v)),
       vf_referenceImages := example_files m spec mode (lit ''image[]''),
       vf_startFrame := example_files m spec mode (lit ''start_frame''),
       vf_endFrame := example_files m spec mode (lit ''end_frame''),
       vf_referenceVideos := example_files m spec mode (lit ''video[]''),
       vf_referenceAudio := example_files m spec mode (lit ''audio[]''),
       vf_strength := (if example_files m spec mode (lit ''image[]'') \<noteq> [] then lit ''MID''
         else vf_strength (chosen_form p d spec s v))\<rparr>)"
    (is "_ = Inr ?w")
proof -
  define u where "u = chosen_form p d spec s v"
  define M where "M = (if mode = TextTemplate then VideoGeneration else VideoReference)"
  define u' where "u' = u\<lparr>vf_mode := M, vf_prompt := prompt,
      vf_generateAudio := (vd_supportsGenerateAudio spec \<and> \<not> always_audio spec \<or> vf_generateAudio u)\<rparr>"
  have u: "vf_provider u = p" "vf_model u = d" "vf_referenceImages u = []" "vf_startFrame u = []" "vf_endFrame u = []"
    "vf_referenceVideos u = []" "vf_referenceAudio u = []" by (simp_all add: u_def chosen_form_def)
  have frame: "M = VideoGeneration \<Longrightarrow> \<not> requires_frame spec"
    using mode by (auto simp: M_def supportsVideoMode_def split: if_splits)
  have "foldl (video_run providers) (Inr v) (follow_example p d m spec mode prompt) =
      foldl (video_run providers) (foldl (video_run providers) (foldl (video_run providers) (Inr v)
        [Remount, Location (Some (p @ 47 # d)) (Some p), SelectModel d]) [SetMode M, TypePrompt prompt, ToggleAudio True])
        (drop 6 (follow_example p d m spec mode prompt))"
    by (simp add: follow_example_def M_def)
  also have "\<dots> = foldl (video_run providers) (Inr u') (drop 6 (follow_example p d m spec mode prompt))"
    unfolding link_chooses [OF o doc s] u_def [symmetric] u'_def
    by (subst setup_steps [OF _ doc frame]) (simp_all add: u o)
  also have "\<dots> = Inr (u'\<lparr>vf_referenceImages := example_files m spec mode (lit ''image[]''),
       vf_startFrame := example_files m spec mode (lit ''start_frame''),
       vf_endFrame := example_files m spec mode (lit ''end_frame''),
       vf_referenceVideos := example_files m spec mode (lit ''video[]''),
       vf_referenceAudio := example_files m spec mode (lit ''audio[]''),
       vf_strength := (if example_files m spec mode (lit ''image[]'') \<noteq> [] then lit ''MID'' else vf_strength u')\<rparr>)"
    using pick_steps [OF _ doc mode _ _ _ _ _ _ omni refl refl refl refl refl, of u' providers] o u mode frame
    by (simp add: follow_example_def u'_def referenceMode_def M_def supportsVideoMode_def split: if_splits)
  finally show ?thesis by (simp add: u'_def u_def M_def)
qed

lemma carries_sent:
  "sends request k x \<Longrightarrow> k \<notin> set file_keys \<Longrightarrow> carries request (k, json_text x)"
  by (auto simp: carries_def sends_def split: RequestBody.splits)

lemma media_field_cases:
  assumes "(k, x) \<in> set (example_media_fields m spec mode)"
  shows "(k \<in> set file_keys \<and> (\<exists>f. x = 64 # f)) \<or>
    (k = lit ''reference_strength'' \<and> x = lit ''MID'' \<and> example_files m spec mode (lit ''image[]'') \<noteq> [])"
  using assms
  by (cases mode) (auto simp: example_media_fields_def file_keys_def example_files_def lit_Cons split: if_splits)



end
