(* ===== verification/DocsPage.thy ===== *)
theory DocsPage
  imports DocExamples Switcher UrlParams
begin

text \<open>
  The developer guide (pages/docs-page.tsx): which provider and kind of media it shows, the address it
  keeps them in, and the pages of the three kinds with the model and the template that are chosen.
  \<open>ps\<close> are the providers the gateway answered, \<open>None\<close> while they are being loaded.
\<close>

section \<open>The provider\<close>

definition normal_id :: "jstr \<Rightarrow> jstr" where
  "normal_id s = to_lower (trim s)"

definition requested_provider :: "params \<Rightarrow> jstr" where
  "requested_provider params = or_str (normal_id (opt_str (param_get params (lit ''provider'')))) (lit ''leonardo'')"

definition provider_id_of :: "Provider option \<Rightarrow> jstr" where
  "provider_id_of p = opt_str (map_option prov_id p)"

definition shown_provider :: "Provider list option \<Rightarrow> params \<Rightarrow> jstr" where
  "shown_provider ps params =
     (let requested = requested_provider params; providers = nullish ps [] in
      or_str (provider_id_of (find (\<lambda>p. prov_enabled p \<and> prov_id p = requested) providers))
        (or_str (provider_id_of (case find prov_enabled providers of
             Some p \<Rightarrow> Some p
           | None \<Rightarrow> (case providers of [] \<Rightarrow> None | p # _ \<Rightarrow> Some p)))
          requested))"

definition current_provider :: "Provider list option \<Rightarrow> params \<Rightarrow> Provider option" where
  "current_provider ps params = find (\<lambda>p. prov_id p = shown_provider ps params) (nullish ps [])"

text \<open>The effect that writes the shown provider into the address.\<close>

definition provider_effect :: "Provider list option \<Rightarrow> params \<Rightarrow> params" where
  "provider_effect ps params =
     (if requested_provider params = shown_provider ps params then params
      else param_set (lit ''provider'') (shown_provider ps params) params)"

section \<open>The pages\<close>

definition guideImageModels :: "jstr \<Rightarrow> jstr list" where
  "guideImageModels provider = modelsForProvider (map fst imageModelDocs) provider"

definition guideVideoModels :: "jstr \<Rightarrow> jstr list" where
  "guideVideoModels provider = modelsForProvider (map fst videoModelDocs) provider"

text \<open>The page of a kind: of images with its endpoint, of videos with its template, or of audio.\<close>

datatype DocsMedia =
  ImageDocs ImageEndpoint jstr
| VideoDocs jstr DocVideoMode
| AudioDocs jstr

definition first_model :: "jstr list \<Rightarrow> jstr \<Rightarrow> jstr" where
  "first_model models fallback = (case models of [] \<Rightarrow> fallback | m # _ \<Rightarrow> or_str m fallback)"

definition open_media :: "MediaKind \<Rightarrow> jstr \<Rightarrow> DocsMedia" where
  "open_media media provider = (case media of
       Image \<Rightarrow> ImageDocs EndpointGeneration (first_model (guideImageModels provider) (lit ''gpt-image-2''))
     | Video \<Rightarrow> VideoDocs (first_model (guideVideoModels provider) (lit ''seedance-2.0-mini'')) TextTemplate
     | Audio \<Rightarrow> AudioDocs (lit ''sound-effects-v2''))"

text \<open>Whether a page has anything to show, or only says that the provider has no documents of its kind.\<close>

definition docs_available :: "MediaKind \<Rightarrow> jstr \<Rightarrow> bool" where
  "docs_available media provider = (case media of
       Image \<Rightarrow> guideImageModels provider \<noteq> []
     | Video \<Rightarrow> guideVideoModels provider \<noteq> []
     | Audio \<Rightarrow> provider = lit ''leonardo'')"

text \<open>\<open>ad_key\<close> is the kind and the provider the page was opened for: another one opens a new page.\<close>

record APIDocs =
  ad_media :: MediaKind
  ad_params :: params
  ad_key :: "MediaKind \<times> jstr"
  ad_page :: DocsMedia

definition render_docs :: "Provider list option \<Rightarrow> APIDocs \<Rightarrow> APIDocs" where
  "render_docs ps s =
     (let key = (ad_media s, shown_provider ps (ad_params s)) in
      if ad_key s = key then s else s\<lparr>ad_key := key, ad_page := open_media (fst key) (snd key)\<rparr>)"

definition open_docs :: "Provider list option \<Rightarrow> params \<Rightarrow> APIDocs" where
  "open_docs ps params =
     (let provider = shown_provider ps params in
      \<lparr>ad_media = Image, ad_params = params, ad_key = (Image, provider), ad_page = open_media Image provider\<rparr>)"

definition set_provider :: "jstr \<Rightarrow> APIDocs \<Rightarrow> APIDocs" where
  "set_provider provider s = s\<lparr>ad_params := param_set (lit ''provider'') provider (ad_params s)\<rparr>"

definition offers_kind :: "MediaKind \<Rightarrow> Provider \<Rightarrow> bool" where
  "offers_kind media p \<longleftrightarrow> providerSupports (Some (prov_capabilities p)) media"

definition switchDocsMedia :: "Provider list option \<Rightarrow> MediaKind \<Rightarrow> APIDocs \<Rightarrow> APIDocs" where
  "switchDocsMedia ps nextMedia s =
     (let t = s\<lparr>ad_media := nextMedia\<rparr> in
      case current_provider ps (ad_params s) of
        None \<Rightarrow> t
      | Some p \<Rightarrow>
          if offers_kind nextMedia p then t
          else (case find (\<lambda>q. prov_enabled q \<and> offers_kind nextMedia q) (nullish ps []) of
              None \<Rightarrow> t | Some fallback \<Rightarrow> set_provider (prov_id fallback) t))"

definition switchDocsProvider :: "Provider list option \<Rightarrow> jstr \<Rightarrow> APIDocs \<Rightarrow> APIDocs" where
  "switchDocsProvider ps nextProvider s =
     (let t = set_provider nextProvider s in
      case find (\<lambda>p. prov_id p = nextProvider) (nullish ps []) of
        None \<Rightarrow> t
      | Some p \<Rightarrow>
          if offers_kind (ad_media s) p then t
          else (case find (\<lambda>kind. offers_kind kind p) [Image, Video, Audio] of
              None \<Rightarrow> t | Some nextMedia \<Rightarrow> t\<lparr>ad_media := nextMedia\<rparr>))"

text \<open>Choosing another model keeps the template if it supports it.\<close>

definition selectModel :: "jstr \<Rightarrow> jstr \<Rightarrow> DocVideoMode \<Rightarrow> DocsMedia res" where
  "selectModel next model mode =
     bindr (video_doc next) (\<lambda>spec.
     Inr (VideoDocs next (if supportsVideoMode spec mode then mode
       else if requires_frame spec then FrameTemplate else TextTemplate)))"

text \<open>
  What the user can do. The switcher offers the providers that support the shown kind
  (\<open>switcher_visible\<close>); a page that is not available has no controls; \<open>GoTo\<close> is the browser going to
  another address of the page, such as the previous one.
\<close>

datatype DocsEvent =
  SwitchMedia MediaKind
| SwitchProvider jstr
| ChooseEndpoint ImageEndpoint
| ChooseDocsModel jstr
| ChooseTemplate DocVideoMode
| GoTo params

definition page_event :: "jstr \<Rightarrow> DocsEvent \<Rightarrow> DocsMedia \<Rightarrow> DocsMedia" where
  "page_event provider e page = (case page of
       ImageDocs endpoint model \<Rightarrow>
         if \<not> docs_available Image provider then page
         else (case e of
             ChooseEndpoint ep \<Rightarrow> ImageDocs ep model
           | ChooseDocsModel m \<Rightarrow> if m \<in> set (guideImageModels provider) then ImageDocs endpoint m else page
           | _ \<Rightarrow> page)
     | VideoDocs model mode \<Rightarrow>
         if \<not> docs_available Video provider then page
         else (case e of
             ChooseDocsModel m \<Rightarrow>
               if m \<in> set (guideVideoModels provider)
               then (case selectModel m model mode of Inl _ \<Rightarrow> page | Inr next \<Rightarrow> next) else page
           | ChooseTemplate t \<Rightarrow> (case video_doc model of
                 Inl _ \<Rightarrow> page
               | Inr spec \<Rightarrow> if supportsVideoMode spec t then VideoDocs model t else page)
           | _ \<Rightarrow> page)
     | AudioDocs model \<Rightarrow>
         if \<not> docs_available Audio provider then page
         else (case e of
             ChooseDocsModel m \<Rightarrow> if m \<in> fst ` set audioModelDocs then AudioDocs m else page
           | _ \<Rightarrow> page))"

definition docs_event :: "Provider list option \<Rightarrow> APIDocs \<Rightarrow> DocsEvent \<Rightarrow> APIDocs" where
  "docs_event ps s e = (case e of
       SwitchMedia media \<Rightarrow> switchDocsMedia ps media s
     | SwitchProvider provider \<Rightarrow>
         if provider \<in> prov_id ` set (switcher_visible (Some (ad_media s)) False (nullish ps []))
         then switchDocsProvider ps provider s else s
     | GoTo params \<Rightarrow> s\<lparr>ad_params := params\<rparr>
     | _ \<Rightarrow> s\<lparr>ad_page := page_event (snd (ad_key s)) e (ad_page s)\<rparr>)"

text \<open>After an event the page is rendered, the effect runs, and its change is rendered again.\<close>

definition settle_docs :: "Provider list option \<Rightarrow> APIDocs \<Rightarrow> APIDocs" where
  "settle_docs ps s = (let t = render_docs ps s in
     render_docs ps (t\<lparr>ad_params := provider_effect ps (ad_params t)\<rparr>))"

definition docs_step :: "Provider list option \<Rightarrow> APIDocs \<Rightarrow> DocsEvent \<Rightarrow> APIDocs" where
  "docs_step ps s e = settle_docs ps (docs_event ps s e)"

section \<open>The cost of image sizes\<close>

definition matrix_sizes :: "jstr \<Rightarrow> jstr list res" where
  "matrix_sizes model = (case obj_get imageSizeGroups model of
       Inr (Some groups) \<Rightarrow> Inr (filter (\<lambda>s. s \<noteq> []) (concat (map (\<lambda>g.
         [opt_str (isg_small g), isg_medium g, isg_large g]) groups)))
     | _ \<Rightarrow> Inl TypeError)"

text \<open>The costs of a size by quality, as an answer lists them; a later row of a size replaces a former one.\<close>

type_synonym size_costs = "(jstr \<times> rat) list"

definition costsBySize :: "(jstr \<times> size_costs) list option \<Rightarrow> (jstr, size_costs) jmap" where
  "costsBySize rows = fold (\<lambda>r. map_set (fst r) (snd r)) (nullish rows []) []"

definition ImageSizeCost :: "(rat \<Rightarrow> jstr) \<Rightarrow> jstr \<Rightarrow> jstr \<Rightarrow> size_costs option \<Rightarrow> bool \<Rightarrow> jstr \<times> jstr" where
  "ImageSizeCost loc sz model costs loading =
     (let price = (\<lambda>quality. case Option.bind costs (\<lambda>c. map_of c quality) of None \<Rightarrow> ulit ''%u2014'' | Some n \<Rightarrow> loc n) in
      (sz, if loading then ulit ''%u79EF%u5206%u8BA1%u7B97%u4E2D''
             else if has_quality model then ulit ''%u4F4E '' @ price (lit ''low'') @ ulit '' %u00B7 %u4E2D '' @ price (lit ''medium'') @ ulit '' %u00B7 %u9AD8 '' @ price (lit ''high'')
             else price (lit ''fixed'') @ ulit '' %u79EF%u5206/%u5F20''))"

section \<open>Which provider is shown\<close>

text \<open>Ids as the gateway has them: trimmed, in lower case, not empty, and different.\<close>

definition ids_ok :: "Provider list \<Rightarrow> bool" where
  "ids_ok ps \<longleftrightarrow> distinct (map prov_id ps) \<and> (\<forall>p \<in> set ps. normal_id (prov_id p) = prov_id p \<and> prov_id p \<noteq> [])"

lemma find_some: "find P xs = Some x \<Longrightarrow> x \<in> set xs \<and> P x"
  by (induction xs) (auto split: if_splits)

lemma find_id:
  assumes "ids_ok ps" "p \<in> set ps" "Q p"
  shows "find (\<lambda>q. Q q \<and> prov_id q = prov_id p) ps = Some p"
  using assms
proof (induction ps)
  case (Cons q ps)
  then show ?case by (cases "q = p") (auto simp: ids_ok_def)
qed simp

lemma requested_set:
  "ids_ok ps \<Longrightarrow> p \<in> set ps \<Longrightarrow> requested_provider (param_set (lit ''provider'') (prov_id p) params) = prov_id p"
  by (simp add: requested_provider_def param_get_set ids_ok_def or_str_def)

lemma shown_requested:
  assumes "ids_ok ps" "p \<in> set ps" "prov_enabled p" "requested_provider params = prov_id p"
  shows "shown_provider (Some ps) params = prov_id p"
  using find_id [OF assms(1,2), of prov_enabled] assms
  by (simp add: shown_provider_def provider_id_of_def or_str_def ids_ok_def Let_def)

lemma current_shown:
  assumes "ids_ok ps" "p \<in> set ps" "shown_provider (Some ps) params = prov_id p"
  shows "current_provider (Some ps) params = Some p"
  using find_id [OF assms(1,2), of "\<lambda>_. True"] assms(3) by (simp add: current_provider_def)

lemma shown_cases:
  assumes "ids_ok ps" "ps \<noteq> []"
  obtains p where "p \<in> set ps" "shown_provider (Some ps) params = prov_id p"
    "(\<exists>q \<in> set ps. prov_enabled q) \<longrightarrow> prov_enabled p"
    "\<not> prov_enabled p \<Longrightarrow> p = hd ps"
proof (cases "find (\<lambda>p. prov_enabled p \<and> prov_id p = requested_provider params) ps")
  case (Some p)
  then have "p \<in> set ps" "prov_enabled p" "prov_id p = requested_provider params" using find_some by fastforce+
  then show thesis using that [of p] shown_requested [OF assms(1), of p params] by simp
next
  case none: None
  show thesis
  proof (cases "find prov_enabled ps")
    case (Some p)
    then have p: "p \<in> set ps" "prov_enabled p" using find_some by fastforce+
    then have "prov_id p \<noteq> []" using assms(1) by (simp add: ids_ok_def)
    then show thesis using that [of p] p none Some
      by (simp add: shown_provider_def provider_id_of_def or_str_def Let_def)
  next
    case None
    then have no: "\<not> (\<exists>q \<in> set ps. prov_enabled q)" by (auto simp: find_None_iff)
    obtain p qs where ps: "ps = p # qs" using assms(2) by (cases ps) auto
    then have "prov_id p \<noteq> []" using assms(1) by (simp add: ids_ok_def)
    then show thesis using that [of p] none None no
      by (simp add: ps shown_provider_def provider_id_of_def or_str_def Let_def)
  qed
qed

text \<open>The effect settles at once: after it the address names the shown provider, which is the one that
  was shown before it, and is enabled if any provider is; every other entry of the address is kept.\<close>

theorem guide_address_settles:
  assumes "ids_ok ps" "ps \<noteq> []" and "params' = provider_effect (Some ps) params"
  shows "requested_provider params' = shown_provider (Some ps) params' \<and>
    shown_provider (Some ps) params' = shown_provider (Some ps) params \<and>
    provider_effect (Some ps) params' = params' \<and>
    (\<exists>p \<in> set ps. shown_provider (Some ps) params' = prov_id p \<and> ((\<exists>q \<in> set ps. prov_enabled q) \<longrightarrow> prov_enabled p)) \<and>
    (\<forall>k. k \<noteq> lit ''provider'' \<longrightarrow> param_get params' k = param_get params k)"
proof -
  obtain p where p: "p \<in> set ps" "shown_provider (Some ps) params = prov_id p"
    "(\<exists>q \<in> set ps. prov_enabled q) \<longrightarrow> prov_enabled p"
    using shown_cases [OF assms(1,2), of params] by blast
  have *: "requested_provider params' = prov_id p \<and> shown_provider (Some ps) params' = prov_id p"
  proof (cases "requested_provider params = shown_provider (Some ps) params")
    case True
    then show ?thesis using p by (simp add: assms(3) provider_effect_def)
  next
    case False
    then have params': "params' = param_set (lit ''provider'') (prov_id p) params"
      by (simp add: assms(3) provider_effect_def p)
    have r: "requested_provider params' = prov_id p" using requested_set [OF assms(1) p(1)] params' by simp
    obtain q where q: "q \<in> set ps" "shown_provider (Some ps) params' = prov_id q"
      "(\<exists>q \<in> set ps. prov_enabled q) \<longrightarrow> prov_enabled q" "\<not> prov_enabled q \<Longrightarrow> q = hd ps"
      using shown_cases [OF assms(1,2), of params'] by blast
    show ?thesis
    proof (cases "prov_enabled p")
      case True
      then show ?thesis using shown_requested [OF assms(1) p(1) True r] r by simp
    next
      case none: False
      then have "\<not> (\<exists>q \<in> set ps. prov_enabled q)" using p(3) by blast
      moreover obtain p' where "p' \<in> set ps" "shown_provider (Some ps) params = prov_id p'" "\<not> prov_enabled p' \<Longrightarrow> p' = hd ps"
        using shown_cases [OF assms(1,2), of params] by blast
      ultimately show ?thesis using q p r by auto
    qed
  qed
  moreover have "provider_effect (Some ps) params' = params'" using * by (simp add: provider_effect_def)
  moreover have "k \<noteq> lit ''provider'' \<Longrightarrow> param_get params' k = param_get params k" for k
    by (simp add: assms(3) provider_effect_def param_get_set)
  ultimately show ?thesis using p by auto
qed

section \<open>What the pages show\<close>

lemma keys_spread:
  assumes "distinct (map fst b)"
  shows "\<exists>rest. map fst (spread a b) = map fst a @ rest"
proof -
  have "\<exists>rest. map fst (fold (\<lambda>e. map_set (fst e) (snd e)) b a) = map fst a @ rest" for a
  proof (induction b arbitrary: a)
    case (Cons e b)
    obtain r1 where "map fst (map_set (fst e) (snd e) a) = map fst a @ r1"
      using map_keys_map_set [of "fst e" "snd e" a] by (auto simp: map_keys_def split: if_splits)
    with Cons [of "map_set (fst e) (snd e) a"] show ?case by auto
  qed simp
  then show ?thesis by (simp add: spread_def)
qed

lemma video_keys: "\<exists>rest. map fst videoModelDocs = map fst baseVideoModelDocs @ rest"
  unfolding videoModelDocs_def by (rule keys_spread) (rule cf_docs_distinct)

lemma listed_video_key:
  assumes "m \<in> set (guideVideoModels provider)"
  obtains spec where "map_of videoModelDocs m = Some spec"
proof -
  have "m \<in> dom (map_of videoModelDocs)"
    using assms by (auto simp: guideVideoModels_def modelsForProvider_def dom_map_of_conv_image_fst)
  with that show thesis by blast
qed

lemma only_grok_requires_frame:
  assumes "map_of videoModelDocs m = Some spec" "requires_frame spec"
  shows "m = lit ''grok-imagine-1.5''"
proof (cases "map_of creativeFabricaVideoDocs m")
  case None
  with assms have m: "(m, spec) \<in> set baseVideoModelDocs" by (auto simp: videoModelDocs_lookup dest: map_of_SomeD)
  have "list_all (\<lambda>(m, spec). requires_frame spec \<longrightarrow> m = lit ''grok-imagine-1.5'') baseVideoModelDocs"
    unfolding baseVideoModelDocs_def
    by (simp add: requires_frame_def video_doc_adobe_kling_3_0_omni_def video_doc_adobe_veo_3_1_def
        video_doc_adobe_veo_3_1_fast_def video_doc_adobe_seedance_2_0_def video_doc_adobe_seedance_2_0_fast_def
        video_doc_gemini_omni_flash_def video_doc_happy_horse_1_1_def video_doc_kling_3_0_def
        video_doc_kling_3_0_turbo_def video_doc_hailuo_2_3_def video_doc_wan_2_7_def video_doc_flux_3_video_def
        video_doc_seedance_2_0_def video_doc_seedance_2_0_fast_def video_doc_seedance_2_0_mini_def
        video_doc_seedance_2_5_def video_doc_veo_3_1_def video_doc_veo_3_1_fast_def video_doc_kling_o3_omni_def
        video_doc_minimax_h3_def)
  with m assms(2) show ?thesis by (auto simp: list_all_iff)
next
  case (Some d)
  have "\<not> requires_frame (creativeFabrica_video_doc n)" "\<not> requires_frame seedance_v2_mini_doc" for n
    by (simp_all add: requires_frame_def seedance_v2_mini_doc_def creativeFabrica_video_doc_def Let_def)
  with assms Some show ?thesis
    by (auto simp: videoModelDocs_lookup creativeFabricaVideoDocs_lookup split: if_splits)
qed

text \<open>Models with a document that no provider lists belong to no provider.\<close>

definition unlisted_video_models :: "jstr list" where
  "unlisted_video_models = map lit [''flux-3-video'', ''seedance-2.0'', ''seedance-2.0-fast'', ''seedance-2.0-mini'',
     ''seedance-2.5'', ''veo-3.1'', ''veo-3.1-fast'', ''minimax-h3'', ''grok-imagine-1.5'']"

lemma unlisted_in_no_list:
  "m \<in> set unlisted_video_models \<Longrightarrow> m \<notin> set (provider_models leonardo)"
  "m \<in> set unlisted_video_models \<Longrightarrow> m \<notin> set (provider_models adobe)"
  "m \<in> set unlisted_video_models \<Longrightarrow> m \<notin> set (provider_models creativefabrica)"
  "m \<in> set unlisted_video_models \<Longrightarrow> 47 \<notin> set m \<and> 58 \<notin> set m"
proof -
  show bare: "m \<in> set unlisted_video_models \<Longrightarrow> 47 \<notin> set m \<and> 58 \<notin> set m"
    by (auto simp: unlisted_video_models_def)
  show "m \<in> set unlisted_video_models \<Longrightarrow> m \<notin> set (provider_models leonardo)"
    by (auto simp: unlisted_video_models_def provider_models_def leonardo_def)
  show "m \<in> set unlisted_video_models \<Longrightarrow> m \<notin> set (provider_models adobe)"
    using bare adobe_models_qualified by fastforce
  show "m \<in> set unlisted_video_models \<Longrightarrow> m \<notin> set (provider_models creativefabrica)"
    using bare creativefabrica_models_qualified by fastforce
qed

lemma unlisted_no_provider: "m \<in> set unlisted_video_models \<Longrightarrow> modelProviderID m = []"
  using unlisted_in_no_list [of m]
  by (simp add: modelProviderID_def public_provider_part_def qualified_provider_part_def js_split_no_sep providerRegistry_def)

lemma shown_nonempty: "shown_provider ps params \<noteq> []"
  by (simp add: shown_provider_def requested_provider_def or_str_def Let_def)

lemma video_key_listed:
  assumes "m \<in> fst ` set videoModelDocs"
  shows "m \<in> set unlisted_video_models \<or>
    (\<exists>p P. map_of providerRegistry p = Some P \<and> m \<in> set (pp_models P Video))"
proof -
  have reg: "map_of providerRegistry (lit ''leonardo'') = Some leonardo" "map_of providerRegistry (lit ''adobe'') = Some adobe"
    "map_of providerRegistry (lit ''creativefabrica'') = Some creativefabrica" by (simp_all add: providerRegistry_def)
  have "m \<in> dom (map_of videoModelDocs)" using assms by (simp add: dom_map_of_conv_image_fst)
  then have "m \<in> set creativefabrica_video_models \<or> m = seedance_v2_mini \<or> m \<in> fst ` set baseVideoModelDocs"
    by (force simp: videoModelDocs_lookup creativeFabricaVideoDocs_lookup dest: map_of_SomeD split: if_splits option.splits)
  then consider "m \<in> set (pp_models creativefabrica Video)" | "m \<in> set (map fst baseVideoModelDocs)"
    by (auto simp: creativefabrica_def seedance_v2_mini_def creativefabrica_video_models_def)
  then show ?thesis
  proof cases
    case 2
    have "list_all (\<lambda>m. m \<in> set unlisted_video_models \<or> m \<in> set (pp_models leonardo Video) \<or> m \<in> set (pp_models adobe Video))
        (map fst baseVideoModelDocs)"
      by (simp add: baseVideoModelDocs_def unlisted_video_models_def leonardo_def adobe_def)
    with 2 reg show ?thesis unfolding list_all_iff by blast
  qed (use reg in blast)
qed

text \<open>The guide lists, for every provider of the registry, exactly the video models the registry lists for it.\<close>

theorem guide_lists_registry_videos:
  "\<forall>(p, P) \<in> set providerRegistry. set (guideVideoModels p) = set (pp_models P Video)"
proof (clarify, rule set_eqI, rule iffI)
  fix p P m
  assume pP: "(p, P) \<in> set providerRegistry"
  then have P: "map_of providerRegistry p = Some P" by (auto simp: providerRegistry_def)
  show "m \<in> set (pp_models P Video)" if "m \<in> set (guideVideoModels p)"
  proof -
    have m: "m \<in> fst ` set videoModelDocs" "modelProviderID m = p"
      using that by (auto simp: guideVideoModels_def modelsForProvider_def)
    moreover have "p \<noteq> []" using P by (auto simp: registry_map_of)
    ultimately obtain q Q where q: "map_of providerRegistry q = Some Q" "m \<in> set (pp_models Q Video)"
      using video_key_listed [of m] unlisted_no_provider [of m] by metis
    then have "modelProviderID m = q" using listed_model [OF q] by (auto simp: listed_as_def)
    with m P q show ?thesis by auto
  qed
  show "m \<in> set (guideVideoModels p)" if "m \<in> set (pp_models P Video)"
  proof -
    have "modelProviderID m = p" using listed_model [OF P that] by (auto simp: listed_as_def)
    moreover have "P = leonardo \<or> P = adobe \<or> P = creativefabrica" using P by (auto simp: registry_map_of)
    then have "m \<in> fst ` set videoModelDocs"
      using video_doc_exists [OF listed_video [OF _ that]] by (auto simp: dom_map_of_conv_image_fst [symmetric])
    ultimately show ?thesis by (simp add: guideVideoModels_def modelsForProvider_def)
  qed
qed

theorem guide_lists_registry_videos_witness: "lit ''adobe:veo-3.1'' \<in> set (guideVideoModels (lit ''adobe''))"
proof -
  have "(lit ''adobe'', adobe) \<in> set providerRegistry" "lit ''adobe:veo-3.1'' \<in> set (pp_models adobe Video)"
    by (simp_all add: providerRegistry_def adobe_def)
  then show ?thesis using guide_lists_registry_videos by fast
qed

definition page_ok :: "MediaKind \<times> jstr \<Rightarrow> DocsMedia \<Rightarrow> bool" where
  "page_ok key page = (case page of
       ImageDocs _ m \<Rightarrow> fst key = Image \<and>
         (if guideImageModels (snd key) = [] then m = lit ''gpt-image-2'' else m \<in> set (guideImageModels (snd key)))
     | VideoDocs m mode \<Rightarrow> fst key = Video \<and> (guideVideoModels (snd key) \<noteq> [] \<longrightarrow> m \<in> set (guideVideoModels (snd key)) \<and>
         (\<exists>spec. map_of videoModelDocs m = Some spec \<and> supportsVideoMode spec mode))
     | AudioDocs m \<Rightarrow> fst key = Audio \<and> m \<in> fst ` set audioModelDocs)"

lemma nil_no_model: "provider \<noteq> [] \<Longrightarrow> [] \<notin> set (guideImageModels provider) \<and> [] \<notin> set (guideVideoModels provider)"
proof -
  have "modelProviderID [] = []" by code_simp
  then show "provider \<noteq> [] \<Longrightarrow> ?thesis" by (auto simp: guideImageModels_def guideVideoModels_def modelsForProvider_def)
qed

lemma open_media_ok:
  assumes "provider \<noteq> []"
  shows "page_ok (media, provider) (open_media media provider)"
proof (cases media)
  case Image
  with nil_no_model [OF assms] show ?thesis
    by (cases "guideImageModels provider") (auto simp: open_media_def page_ok_def first_model_def or_str_def)
next
  case Video
  show ?thesis
  proof (cases "guideVideoModels provider")
    case (Cons m ms)
    then obtain spec where spec: "map_of videoModelDocs m = Some spec" using listed_video_key [of m provider] by auto
    have "m \<in> set (guideVideoModels provider)" using Cons by simp
    then have "modelProviderID m = provider" unfolding guideVideoModels_def modelsForProvider_def by simp
    then have "m \<notin> set unlisted_video_models" using unlisted_no_provider assms by metis
    then have "\<not> requires_frame spec" using only_grok_requires_frame [OF spec] by (auto simp: unlisted_video_models_def)
    moreover have "m \<noteq> []" using nil_no_model [OF assms] Cons by auto
    ultimately show ?thesis
      using Cons Video spec by (simp add: open_media_def page_ok_def first_model_def or_str_def supportsVideoMode_def)
  qed (simp add: Video open_media_def page_ok_def)
next
  case Audio
  have "lit ''sound-effects-v2'' \<in> fst ` set audioModelDocs" by (simp add: audioModelDocs_def)
  with Audio show ?thesis by (simp add: open_media_def page_ok_def)
qed

lemma selectModel_supported:
  assumes "map_of videoModelDocs m = Some spec"
  obtains mode' where "selectModel m model mode = Inr (VideoDocs m mode')" "supportsVideoMode spec mode'"
    "supportsVideoMode spec mode \<longrightarrow> mode' = mode"
  using frame_or_text [OF assms] that by (auto simp: selectModel_def video_doc_Some [OF assms] split: if_splits)

lemma page_event_ok:
  assumes "page_ok key page"
  shows "page_ok key (page_event (snd key) e page)"
proof (cases page)
  case (VideoDocs model mode)
  show ?thesis
  proof (cases "guideVideoModels (snd key) = []")
    case False
    then obtain spec where spec: "map_of videoModelDocs model = Some spec" and key: "fst key = Video" "model \<in> set (guideVideoModels (snd key))"
      using assms VideoDocs by (auto simp: page_ok_def)
    show ?thesis
    proof (cases e)
      case (ChooseDocsModel m)
      show ?thesis
      proof (cases "m \<in> set (guideVideoModels (snd key))")
        case True
        then obtain spec' where spec': "map_of videoModelDocs m = Some spec'" by (rule listed_video_key)
        then obtain mode' where "selectModel m model mode = Inr (VideoDocs m mode')" "supportsVideoMode spec' mode'"
          using selectModel_supported by blast
        with ChooseDocsModel VideoDocs True spec' key False show ?thesis
          by (simp add: page_event_def docs_available_def page_ok_def)
      qed (use assms ChooseDocsModel VideoDocs in \<open>simp add: page_event_def\<close>)
    next
      case (ChooseTemplate t)
      with VideoDocs assms spec key show ?thesis
        by (simp add: page_event_def docs_available_def page_ok_def video_doc_Some [OF spec])
    qed (use assms VideoDocs in \<open>simp_all add: page_event_def\<close>)
  qed (use assms VideoDocs in \<open>simp add: page_event_def docs_available_def\<close>)
qed (use assms in \<open>auto simp: page_event_def page_ok_def docs_available_def split: DocsEvent.splits\<close>)

text \<open>The page belongs to the kind and the provider that are shown.\<close>

definition docs_ok :: "Provider list option \<Rightarrow> APIDocs \<Rightarrow> bool" where
  "docs_ok ps s \<longleftrightarrow> ad_key s = (ad_media s, shown_provider ps (ad_params s)) \<and> page_ok (ad_key s) (ad_page s)"

lemma render_ok:
  assumes "page_ok (ad_key s) (ad_page s)"
  shows "docs_ok ps (render_docs ps s)"
proof (cases "ad_key s = (ad_media s, shown_provider ps (ad_params s))")
  case True
  with assms show ?thesis unfolding render_docs_def docs_ok_def Let_def if_P [OF True] by blast
next
  case False
  then show ?thesis using open_media_ok [OF shown_nonempty, of "ad_media s" ps "ad_params s"]
    by (simp add: render_docs_def docs_ok_def Let_def)
qed

lemma switch_page: "ad_page (switchDocsMedia ps media s) = ad_page s" "ad_key (switchDocsMedia ps media s) = ad_key s"
  "ad_page (switchDocsProvider ps provider s) = ad_page s" "ad_key (switchDocsProvider ps provider s) = ad_key s"
  by (simp_all add: switchDocsMedia_def switchDocsProvider_def set_provider_def Let_def split: option.split)

lemma docs_event_page: "page_ok (ad_key s) (ad_page s) \<Longrightarrow> page_ok (ad_key (docs_event ps s e)) (ad_page (docs_event ps s e))"
  by (cases e) (simp_all add: docs_event_def switch_page page_event_ok)

interpretation guide: guarded_machine "docs_step ps" "docs_ok ps" "\<lambda>_. True" for ps
proof
  fix s e
  assume "docs_ok ps s"
  then have "page_ok (ad_key s) (ad_page s)" unfolding docs_ok_def by blast
  then have "docs_ok ps (render_docs ps (docs_event ps s e))" by (intro render_ok docs_event_page)
  then have "page_ok (ad_key (render_docs ps (docs_event ps s e))) (ad_page (render_docs ps (docs_event ps s e)))"
    unfolding docs_ok_def by blast
  then show "docs_ok ps (docs_step ps s e)"
    unfolding docs_step_def settle_docs_def Let_def by (intro render_ok) simp
qed

lemma open_docs_ok: "docs_ok ps (open_docs ps params)"
  using open_media_ok [OF shown_nonempty] by (simp add: open_docs_def docs_ok_def Let_def)

text \<open>C8: Whatever is done on the page, also by going back to other addresses, it is the page of the shown kind
  and provider, the model on it is one of that provider's, and the template of a video request is one
  the model supports.\<close>

theorem guide_page_invariant:
  assumes "s = foldl (docs_step ps) (open_docs ps params) es" and "ad_key s = (media, provider)"
  shows "media = ad_media s \<and> provider = shown_provider ps (ad_params s) \<and>
    (case ad_page s of
       ImageDocs _ m \<Rightarrow> media = Image \<and> (docs_available Image provider \<longrightarrow> m \<in> set (guideImageModels provider))
     | VideoDocs m mode \<Rightarrow> media = Video \<and> (docs_available Video provider \<longrightarrow> m \<in> set (guideVideoModels provider) \<and>
         (\<exists>spec. map_of videoModelDocs m = Some spec \<and> supportsVideoMode spec mode))
     | AudioDocs m \<Rightarrow> media = Audio \<and> m \<in> fst ` set audioModelDocs)"
proof -
  have "docs_ok ps s" unfolding assms(1) by (rule guide.ok_run [OF open_docs_ok]) (simp add: list_all_iff)
  with assms(2) show ?thesis by (auto simp: docs_ok_def page_ok_def docs_available_def split: DocsMedia.splits)
qed

theorem guide_page_invariant_witness:
  "case ad_page (foldl (docs_step None) (open_docs None []) [SwitchMedia Video, ChooseTemplate FrameTemplate]) of
     VideoDocs m mode \<Rightarrow> m \<in> set (guideVideoModels (lit ''leonardo'')) | _ \<Rightarrow> True"
proof -
  define s where "s = foldl (docs_step None) (open_docs None []) [SwitchMedia Video, ChooseTemplate FrameTemplate]"
  obtain media provider where key: "ad_key s = (media, provider)" by (cases "ad_key s")
  note i = guide_page_invariant [OF s_def key]
  have shown: "shown_provider None params = requested_provider params" for params
    by (simp add: shown_provider_def provider_id_of_def or_str_def Let_def)
  have "ad_params s = []"
    by (simp add: s_def docs_step_def settle_docs_def docs_event_def open_docs_def switchDocsMedia_def
        current_provider_def render_docs_def provider_effect_def shown Let_def)
  then have "provider = lit ''leonardo''" using i
    by (simp add: shown requested_provider_def param_get_def or_str_def normal_id_def to_lower_def)
  moreover have "docs_available Video (lit ''leonardo'')"
  proof -
    have "(lit ''leonardo'', leonardo) \<in> set providerRegistry" "lit ''kling-3.0'' \<in> set (pp_models leonardo Video)"
      by (simp_all add: providerRegistry_def leonardo_def)
    moreover have "listed_as (lit ''leonardo'') (lit ''kling-3.0'') (lit ''kling-3.0'')"
      by (rule leonardo_listed_as) (simp add: provider_models_def leonardo_def)
    moreover have "lit ''kling-3.0'' \<in> fst ` set videoModelDocs" using kling_doc by (force dest: map_of_SomeD)
    ultimately have "lit ''kling-3.0'' \<in> set (guideVideoModels (lit ''leonardo''))"
      by (simp add: guideVideoModels_def modelsForProvider_def listed_as_def)
    then show ?thesis by (auto simp: docs_available_def)
  qed
  ultimately show ?thesis using i unfolding s_def [symmetric] by (auto split: DocsMedia.splits)
qed

section \<open>The provider supports what is shown\<close>

definition supported_ok :: "Provider list \<Rightarrow> APIDocs \<Rightarrow> bool" where
  "supported_ok ps s \<longleftrightarrow> requested_provider (ad_params s) = shown_provider (Some ps) (ad_params s) \<and>
     (case current_provider (Some ps) (ad_params s) of None \<Rightarrow> False | Some p \<Rightarrow> prov_enabled p \<and> offers_kind (ad_media s) p)"

lemma current_member: "current_provider (Some ps) params = Some p \<Longrightarrow> p \<in> set ps \<and> prov_id p = shown_provider (Some ps) params"
  using find_some [of "\<lambda>p. prov_id p = shown_provider (Some ps) params" ps p] by (simp add: current_provider_def)

text \<open>The events without going back, and with kinds some enabled provider supports.\<close>

definition guide_control :: "Provider list \<Rightarrow> DocsEvent \<Rightarrow> bool" where
  "guide_control ps e \<longleftrightarrow> (case e of
       GoTo _ \<Rightarrow> False
     | SwitchMedia media \<Rightarrow> \<exists>q \<in> set ps. prov_enabled q \<and> offers_kind media q
     | _ \<Rightarrow> True)"

lemma settle_supported:
  assumes "supported_ok ps s"
  shows "supported_ok ps (settle_docs (Some ps) s)"
  using assms by (auto simp: settle_docs_def render_docs_def supported_ok_def provider_effect_def Let_def split: option.splits)

lemma set_provider_supported:
  assumes "ids_ok ps" "p \<in> set ps" "prov_enabled p" "offers_kind media p" "ad_media t = media"
  shows "supported_ok ps (set_provider (prov_id p) t)"
proof -
  let ?params = "param_set (lit ''provider'') (prov_id p) (ad_params t)"
  have r: "requested_provider ?params = prov_id p" by (rule requested_set [OF assms(1,2)])
  then have sh: "shown_provider (Some ps) ?params = prov_id p" using shown_requested [OF assms(1-3)] by blast
  show ?thesis
    using current_shown [OF assms(1,2) sh] r sh assms by (simp add: supported_ok_def set_provider_def)
qed

lemma switch_keeps_media:
  assumes "ids_ok ps" "provider \<in> prov_id ` set (switcher_visible (Some (ad_media s)) False ps)"
  obtains p where "p \<in> set ps" "prov_enabled p" "offers_kind (ad_media s) p" "prov_id p = provider"
    "switchDocsProvider (Some ps) provider s = set_provider (prov_id p) s"
proof -
  obtain p where p: "p \<in> set ps" "prov_enabled p" "offers_kind (ad_media s) p" "prov_id p = provider"
    using assms(2) by (auto simp: switcher_visible_def offers_kind_def)
  then have "find (\<lambda>q. prov_id q = provider) ps = Some p" using find_id [OF assms(1), of p "\<lambda>_. True"] by simp
  with p that [OF p] show thesis by (simp add: switchDocsProvider_def Let_def)
qed

interpretation guide_support: guarded_machine "docs_step (Some ps)" "\<lambda>s. ids_ok ps \<and> supported_ok ps s" "guide_control ps" for ps
proof
  fix s e
  assume ok: "ids_ok ps \<and> supported_ok ps s" and e: "guide_control ps e"
  have "supported_ok ps (docs_event (Some ps) s e)"
  proof (cases e)
    case (SwitchMedia media)
    from ok obtain p where p: "current_provider (Some ps) (ad_params s) = Some p" "prov_enabled p"
      by (auto simp: supported_ok_def split: option.splits)
    show ?thesis
    proof (cases "offers_kind media p")
      case True
      with ok p SwitchMedia show ?thesis by (simp add: docs_event_def switchDocsMedia_def supported_ok_def Let_def)
    next
      case False
      from e SwitchMedia obtain q where q: "find (\<lambda>q. prov_enabled q \<and> offers_kind media q) ps = Some q"
        by (cases "find (\<lambda>q. prov_enabled q \<and> offers_kind media q) ps") (auto simp: guide_control_def find_None_iff)
      then have "q \<in> set ps" "prov_enabled q" "offers_kind media q" using find_some by fastforce+
      with ok False p q SwitchMedia show ?thesis
        using set_provider_supported [of ps q media "s\<lparr>ad_media := media\<rparr>"]
        by (simp add: docs_event_def switchDocsMedia_def Let_def)
    qed
  next
    case (SwitchProvider provider)
    show ?thesis
    proof (cases "provider \<in> prov_id ` set (switcher_visible (Some (ad_media s)) False ps)")
      case True
      with ok obtain p where "p \<in> set ps" "prov_enabled p" "offers_kind (ad_media s) p" "prov_id p = provider"
        "switchDocsProvider (Some ps) provider s = set_provider (prov_id p) s" using switch_keeps_media by blast
      with True ok SwitchProvider show ?thesis
        using set_provider_supported [of ps p "ad_media s" s] by (simp add: docs_event_def)
    qed (use ok SwitchProvider in \<open>simp add: docs_event_def\<close>)
  qed (use ok e in \<open>auto simp: docs_event_def supported_ok_def guide_control_def split: option.splits\<close>)
  with ok show "ids_ok ps \<and> supported_ok ps (docs_step (Some ps) s e)"
    by (simp add: docs_step_def settle_supported)
qed

text \<open>Once the shown provider supports the shown kind, neither the tabs of the kinds nor the provider buttons
  ever show a kind the provider does not support, as long as some enabled provider supports it.\<close>

theorem guide_provider_supports_kind:
  assumes "ids_ok ps" "supported_ok ps s" "list_all (guide_control ps) es"
    and "t = foldl (docs_step (Some ps)) s es"
  shows "\<exists>p \<in> set ps. shown_provider (Some ps) (ad_params t) = prov_id p \<and> prov_enabled p \<and> offers_kind (ad_media t) p"
proof -
  have "supported_ok ps t" using guide_support.ok_run [of ps s es] assms by simp
  then obtain p where "current_provider (Some ps) (ad_params t) = Some p" "prov_enabled p" "offers_kind (ad_media t) p"
    by (auto simp: supported_ok_def split: option.splits)
  with current_member show ?thesis by metis
qed

lemma registry_ids_ok: "ids_ok (providerOptions [])"
  by code_simp

lemma guide_start_supported: "supported_ok (providerOptions []) (open_docs (Some (providerOptions [])) [])"
proof -
  have "requested_provider [] = lit ''leonardo''" "shown_provider (Some (providerOptions [])) [] = lit ''leonardo''"
    "case current_provider (Some (providerOptions [])) [] of None \<Rightarrow> False | Some p \<Rightarrow> prov_enabled p \<and> offers_kind Image p"
    by code_simp+
  then show ?thesis by (simp add: supported_ok_def open_docs_def Let_def split: option.splits)
qed

theorem guide_provider_supports_kind_witness:
  "\<exists>p \<in> set (providerOptions []).
     prov_enabled p \<and> offers_kind (ad_media (docs_step (Some (providerOptions [])) (open_docs (Some (providerOptions [])) []) (SwitchMedia Audio))) p"
proof -
  have "list_all (guide_control (providerOptions [])) [SwitchMedia Audio]" by code_simp
  from guide_provider_supports_kind [OF registry_ids_ok guide_start_supported this refl] show ?thesis by auto
qed

theorem guide_address_settles_witness:
  "provider_effect (Some (providerOptions [])) (provider_effect (Some (providerOptions [])) [(lit ''provider'', lit '' Nobody '')]) =
     provider_effect (Some (providerOptions [])) [(lit ''provider'', lit '' Nobody '')]"
proof -
  have "providerOptions [] \<noteq> []" by code_simp
  then show ?thesis using guide_address_settles [OF registry_ids_ok _ refl] by blast
qed

section \<open>Sizes and their costs\<close>

lemma group_exists:
  assumes "offered Image p d m"
  obtains groups where "map_of imageSizeGroups m = Some groups"
proof -
  have "m \<in> set (creativefabrica_image_models @ map fst baseImageModelDocs)"
    using assms listed_image [of _ m] by (auto simp: offered_def registry_map_of)
  then have "map_of imageSizeGroups m \<noteq> None"
    by (auto simp: imageSizeGroups_lookup baseImageModelDocs_def)
  with that show thesis by blast
qed

lemma lookup_row:
  "map_of (fold (\<lambda>r. map_set (fst r) (snd r)) rows t) k = Some c \<Longrightarrow> (k, c) \<in> set rows \<or> map_of t k = Some c"
proof (induction rows arbitrary: t)
  case (Cons r rows)
  from Cons.IH [of "map_set (fst r) (snd r) t"] Cons.prems show ?case
    by (cases r) (auto simp: map_of_map_set split: if_splits)
qed simp

lemma lookup_has_row:
  "k \<in> fst ` set rows \<or> map_of t k \<noteq> None \<Longrightarrow> map_of (fold (\<lambda>r. map_set (fst r) (snd r)) rows t) k \<noteq> None"
proof (induction rows arbitrary: t)
  case (Cons r rows)
  from Cons.IH [of "map_set (fst r) (snd r) t"] Cons.prems show ?case
    by (cases r) (auto simp: map_of_map_set split: if_splits)
qed simp

text \<open>The table of sizes asks for exactly the sizes the playground offers for the model, and an answer with a
  row for each of them gives every cell of the table the costs of a row for its size.\<close>

theorem guide_size_cells:
  assumes "offered Image p d m"
  shows "\<exists>sizes. matrix_sizes m = Inr sizes \<and> imageSizes m = Inr sizes \<and> sizes \<noteq> [] \<and> distinct sizes \<and>
    (\<forall>rows. set sizes \<subseteq> fst ` set rows \<longrightarrow>
       (\<forall>z \<in> set sizes. \<exists>costs. map_of (costsBySize (Some rows)) z = Some costs \<and> (z, costs) \<in> set rows))"
proof -
  obtain groups where g: "map_of imageSizeGroups m = Some groups" using group_exists [OF assms] .
  then have no: "m \<notin> set object_prototype_keys" by (rule image_size_tables(2))
  define sizes where "sizes = group_sizes groups"
  have "filter (\<lambda>s. s \<noteq> []) (concat (map f xs)) = concat (map (\<lambda>x. filter (\<lambda>s. s \<noteq> []) (f x)) xs)"
    for f :: "ImageSizeGroup \<Rightarrow> jstr list" and xs by (simp add: filter_concat comp_def)
  then have "matrix_sizes m = Inr sizes"
    by (simp only: matrix_sizes_def obj_get_own [OF g] sum.case option.case sizes_def group_sizes_def)
  moreover have "imageSizes m = Inr sizes"
    by (simp add: imageSizes_def obj_get_own [OF g] sizes_def group_sizes_def)
  moreover have "sizes \<noteq> [] \<and> distinct sizes"
    using image_size_tables(1) [OF g] group_sizes_tables by (auto simp: sizes_def) (simp_all add: group_sizes_def size_group_def)
  moreover have "\<exists>costs. map_of (costsBySize (Some rows)) z = Some costs \<and> (z, costs) \<in> set rows"
    if "set sizes \<subseteq> fst ` set rows" "z \<in> set sizes" for rows z
  proof -
    have "map_of (costsBySize (Some rows)) z \<noteq> None"
      unfolding costsBySize_def nullish_simps by (rule lookup_has_row) (use that in blast)
    then obtain costs where c: "map_of (costsBySize (Some rows)) z = Some costs" by blast
    with lookup_row [of rows "[]" z costs] show ?thesis by (simp add: costsBySize_def)
  qed
  ultimately show ?thesis by blast
qed

theorem guide_size_cells_witness:
  "\<exists>sizes. matrix_sizes (lit ''adobe:gpt-image-2'') = Inr sizes \<and> imageSizes (lit ''adobe:gpt-image-2'') = Inr sizes"
proof -
  have "modelDisplayID (lit ''adobe:gpt-image-2'') = Inr (lit ''gpt-image-2'')"
    using qualified_display [of "''adobe''" adobe "''gpt-image-2''"] by (simp add: registry_map_of)
  then have "offered Image (lit ''adobe'') (lit ''gpt-image-2'') (lit ''adobe:gpt-image-2'')"
    by (simp add: offered_def providerRegistry_def adobe_def)
  then show ?thesis using guide_size_cells by blast
qed

text \<open>The size of the image examples is one the playground offers, for every listed model.\<close>

lemma example_size_offered:
  assumes "offered Image p d m" "imageSizes m = Inr sizes"
  shows "lit ''1024x1024'' \<in> set sizes"
proof -
  obtain groups where g: "map_of imageSizeGroups m = Some groups" using group_exists [OF assms(1)] .
  with assms(2) have "sizes = group_sizes groups"
    by (simp add: imageSizes_def obj_get_own [OF g] group_sizes_def)
  with image_size_tables(1) [OF g] show ?thesis
    by (auto simp: group_sizes_def gptImage2SizeGroups_def nanoBananaSizeGroups_def seedream50ProSizeGroups_def size_group_def)
qed

section \<open>Going back\<close>

text \<open>The kind of media is not in the address: going back to the address of a provider without that kind shows
  a page without documents, although other providers have them.\<close>

theorem guide_back_loses_documents:
  assumes "ids_ok ps" "p \<in> set ps" "prov_enabled p" "\<not> offers_kind media p" "\<not> docs_available media (prov_id p)"
    and "ad_media s = media" and "requested_provider params = prov_id p"
  shows "\<exists>t. t = docs_step (Some ps) s (GoTo params) \<and> ad_media t = media \<and>
    shown_provider (Some ps) (ad_params t) = prov_id p \<and> \<not> docs_available (fst (ad_key t)) (snd (ad_key t))"
proof -
  have sh: "shown_provider (Some ps) params = prov_id p" using shown_requested [OF assms(1-3,7)] .
  then have "provider_effect (Some ps) params = params" using assms(7) by (simp add: provider_effect_def)
  then show ?thesis using assms(5,6) sh
    by (auto simp: docs_step_def docs_event_def settle_docs_def render_docs_def Let_def)
qed

theorem guide_back_loses_documents_witness:
  "\<exists>t. \<not> docs_available (fst (ad_key t)) (snd (ad_key t)) \<and>
     t = docs_step (Some (providerOptions [])) ((open_docs None [])\<lparr>ad_media := Audio\<rparr>) (GoTo [(lit ''provider'', lit ''adobe'')])"
proof -
  define p where "p = providerOptions [] ! 1"
  have "1 < length (providerOptions [])" by code_simp
  then have p: "p \<in> set (providerOptions [])" unfolding p_def by (rule nth_mem)
  have "prov_enabled p" "\<not> offers_kind Audio p" "\<not> docs_available Audio (prov_id p)"
    "requested_provider [(lit ''provider'', lit ''adobe'')] = prov_id p"
    unfolding p_def by code_simp+
  from guide_back_loses_documents [OF registry_ids_ok p this(1-3), of "(open_docs None [])\<lparr>ad_media := Audio\<rparr>"] this(4)
  show ?thesis by auto
qed

end
