(* ===== verification/Calculators.thy ===== *)
theory Calculators
  imports DocTables ImageForm Mutation
begin

text \<open>
  The price table of a model and the calculator of image costs (pages/pricing-components.tsx), and the
  calculator of video costs (VideoCostCalculator of pages/docs-page.tsx). The estimates themselves
  are computed by the gateway. \<open>loc\<close> is \<open>toLocaleString\<close>, \<open>num\<close> prints a number in a template literal.
\<close>

section \<open>The price table\<close>

record estimate_table =
  et_unit :: jstr
  et_columns :: "jstr list"
  et_rows :: "(jstr \<times> jstr list) list"
  et_note :: jstr
  et_zero_note :: "jstr option"

definition all_zero :: "PlatformEstimate \<Rightarrow> bool" where
  "all_zero estimate =
     (let shown = List.map_filter (\<lambda>v. v) (concat (map er_values (pe_rows estimate))) in
      shown \<noteq> [] \<and> list_all (\<lambda>v. v = 0) shown)"

definition EstimateTable :: "(rat \<Rightarrow> jstr) \<Rightarrow> PlatformEstimate \<Rightarrow> jstr \<Rightarrow> estimate_table" where
  "EstimateTable loc estimate unit_name =
     \<lparr>et_unit = unit_name, et_columns = pe_columns estimate,
      et_rows = map (\<lambda>row. (er_label row, map (\<lambda>v. case v of None \<Rightarrow> ulit ''%u2014'' | Some n \<Rightarrow> loc n) (er_values row)))
        (pe_rows estimate),
      et_note = pe_note estimate,
      et_zero_note = (if all_zero estimate
        then Some (ulit ''%u5F53%u524D%u8D26%u53F7%u7684%u6210%u672C%u63A5%u53E3%u8FD4%u56DE 0 '' @ unit_name @ ulit ''%u3002%u8FD9%u662F%u672C%u6B21%u540C%u6B65%u7ED3%u679C%uFF0C%u540E%u7EED%u53EF%u80FD%u968F%u8D26%u53F7%u6743%u76CA%u6216%u5E73%u53F0%u8BA1%u8D39%u8C03%u6574%u3002'')
        else None)\<rparr>"

text \<open>The note about zero costs appears exactly if some price is known and every known one is 0.\<close>

lemma zero_note_iff:
  "et_zero_note (EstimateTable loc e u) \<noteq> None \<longleftrightarrow>
     (\<exists>row \<in> set (pe_rows e). Some 0 \<in> set (er_values row)) \<and>
     (\<forall>row \<in> set (pe_rows e). \<forall>n. Some n \<in> set (er_values row) \<longrightarrow> n = 0)"
proof -
  have one: "set (List.map_filter (\<lambda>v. v) xs) = {n. Some n \<in> set xs}" for xs :: "rat option list"
    by (induction xs) (auto simp: map_filter_simps split: option.splits)
  define shown where "shown = List.map_filter (\<lambda>v. v) (concat (map er_values (pe_rows e)))"
  have shown: "n \<in> set shown \<longleftrightarrow> (\<exists>row \<in> set (pe_rows e). Some n \<in> set (er_values row))" for n
    by (simp add: shown_def one)
  have "et_zero_note (EstimateTable loc e u) \<noteq> None \<longleftrightarrow> shown \<noteq> [] \<and> (\<forall>n \<in> set shown. n = 0)"
    by (simp add: EstimateTable_def all_zero_def shown_def list_all_iff Let_def)
  also have "\<dots> \<longleftrightarrow> 0 \<in> set shown \<and> (\<forall>n \<in> set shown. n = 0)" by (cases shown) auto
  finally show ?thesis by (auto simp: shown)
qed

section \<open>Image costs\<close>

record ImageEstimateRequest =
  ie_model :: jstr
  ie_size :: jstr
  ie_quality :: "jstr option"
  ie_n :: rat

record ImageCostEstimate =
  ice_quantity :: rat
  ice_unit_tokens :: rat
  ice_estimated_tokens :: rat
  ice_pricing_basis :: jstr
  ice_pricing_tier :: "jstr option"
  ice_pricing_anchor :: "jstr option"
  ice_quality_multiplier :: "rat option"
  ice_formula :: jstr
  ice_price_version :: jstr

record ImageCostCalculator =
  ic_size :: jstr
  ic_quality :: jstr
  ic_quantity :: rat
  ic_estimate :: "(ImageEstimateRequest, ImageCostEstimate) mutation"

definition open_image_calculator :: ImageCostCalculator where
  "open_image_calculator = \<lparr>ic_size = lit ''1024x1024'', ic_quality = lit ''low'', ic_quantity = 1, ic_estimate = new_mutation\<rparr>"

definition image_estimate_request :: "GenerationRoute \<Rightarrow> jstr \<Rightarrow> ImageCostCalculator \<Rightarrow> ImageEstimateRequest" where
  "image_estimate_request route model s =
     \<lparr>ie_model = gr_model route, ie_size = trim (ic_size s),
      ie_quality = (if has_quality model then Some (ic_quality s) else None),
      ie_n = (if has_quality model then 1 else ic_quantity s)\<rparr>"

datatype image_cost_event =
  TypeCostSize jstr
| PickCostQuality jstr
| TypeCostQuantity rat
| AskImageCost
| ImageCostAnswer nat "jstr + ImageCostEstimate"

text \<open>The button waits for an answer and needs a size; the browser keeps the number between 1 and 4.\<close>

definition image_cost_ready :: "jstr \<Rightarrow> ImageCostCalculator \<Rightarrow> bool" where
  "image_cost_ready model s \<longleftrightarrow> \<not> is_pending (ic_estimate s) \<and> trim (ic_size s) \<noteq> [] \<and>
     (has_quality model \<or> input_valid 1 4 1 (ic_quantity s))"

fun image_cost_step :: "GenerationRoute \<Rightarrow> jstr \<Rightarrow> ImageCostCalculator \<Rightarrow> image_cost_event \<Rightarrow> ImageCostCalculator" where
  "image_cost_step route model s (TypeCostSize v) =
     s\<lparr>ic_size := v, ic_estimate := reset_mutation (ic_estimate s)\<rparr>"
| "image_cost_step route model s (PickCostQuality v) =
     (if has_quality model \<and> v \<in> {lit ''low'', lit ''medium'', lit ''high''}
      then s\<lparr>ic_quality := v, ic_estimate := reset_mutation (ic_estimate s)\<rparr> else s)"
| "image_cost_step route model s (TypeCostQuantity n) =
     (if has_quality model then s
      else s\<lparr>ic_quantity := n, ic_estimate := reset_mutation (ic_estimate s)\<rparr>)"
| "image_cost_step route model s AskImageCost =
     (if image_cost_ready model s
      then s\<lparr>ic_estimate := mutate (image_estimate_request route model s) (ic_estimate s)\<rparr> else s)"
| "image_cost_step route model s (ImageCostAnswer n answer) =
     s\<lparr>ic_estimate := settle_mutation n answer (ic_estimate s)\<rparr>"

text \<open>The line under a result.\<close>

definition pricing_bases :: "jstr option \<Rightarrow> (jstr \<times> jstr) list" where
  "pricing_bases tier =
     [(lit ''pixel_formula'', ulit ''%u6309%u50CF%u7D20%u4E0E%u8D28%u91CF%u500D%u7387''), (lit ''size_tier'', ulit ''%u6309 '' @ or_str (opt_str tier) (ulit ''%u5C3A%u5BF8'') @ ulit '' %u6863''),
      (lit ''size_threshold'', ulit ''%u6309 '' @ or_str (opt_str tier) (ulit ''%u5C3A%u5BF8%u9608%u503C'') @ ulit '' %u6863''), (lit ''fixed'', ulit ''%u56FA%u5B9A%u5355%u4EF7'')]"

definition image_cost_line :: "(rat \<Rightarrow> jstr) \<Rightarrow> ImageCostEstimate \<Rightarrow> jstr res" where
  "image_cost_line num e =
     bindr (obj_get (pricing_bases (ice_pricing_tier e)) (ice_pricing_basis e)) (\<lambda>basis.
     Inr (opt_str basis @
       (case ice_quality_multiplier e of Some m \<Rightarrow> if m \<noteq> 0 then ulit '' %u00B7 %u8D28%u91CF%u500D%u7387 '' @ num m else [] | None \<Rightarrow> []) @
       (if opt_str (ice_pricing_anchor e) \<noteq> [] then ulit '' %u00B7 %u8BA1%u4EF7%u951A%u70B9 '' @ opt_str (ice_pricing_anchor e) else []) @
       ulit '' %u00B7 '' @ ice_price_version e))"

section \<open>Video costs\<close>

record VideoEstimateRequest =
  ve_model :: jstr
  ve_duration :: int
  ve_size :: jstr
  ve_resolution :: "jstr option"
  ve_generate_audio :: "bool option"
  ve_has_video_reference :: bool
  ve_reference_mode :: "jstr option"

record VideoCostEstimate =
  vce_base_tokens :: rat
  vce_estimated_tokens :: rat
  vce_applied_modifiers :: "jstr list"
  vce_formula :: jstr
  vce_price_version :: jstr

record VideoCostCalculator =
  vc_duration :: int
  vc_size :: jstr
  vc_resolution :: "jstr option"
  vc_generateAudio :: bool
  vc_hasVideoReference :: bool
  vc_referenceMode :: jstr
  vc_estimate :: "(VideoEstimateRequest, VideoCostEstimate) mutation"

definition open_video_calculator :: "jstr \<Rightarrow> VideoModelDoc \<Rightarrow> VideoCostCalculator res" where
  "open_video_calculator model spec =
     bindr (modelVideoSizes model) (\<lambda>sizes.
     bindr (defaultVideoResolution model) (\<lambda>resolution. case sizes of
       [] \<Rightarrow> Inl TypeError
     | first # _ \<Rightarrow> Inr \<lparr>vc_duration = vd_defaultDuration spec, vc_size = vs_value first,
         vc_resolution = resolution, vc_generateAudio = True, vc_hasVideoReference = False,
         vc_referenceMode = lit ''text'', vc_estimate = new_mutation\<rparr>))"

definition adobe_kling :: "jstr \<Rightarrow> bool" where
  "adobe_kling model \<longleftrightarrow> model = lit ''adobe:kling-3.0-omni''"

definition video_estimate_request :: "GenerationRoute \<Rightarrow> jstr \<Rightarrow> VideoModelDoc \<Rightarrow> VideoCostCalculator \<Rightarrow> VideoEstimateRequest" where
  "video_estimate_request route model spec s =
     \<lparr>ve_model = gr_model route, ve_duration = vc_duration s, ve_size = vc_size s, ve_resolution = vc_resolution s,
      ve_generate_audio = (if vd_supportsGenerateAudio spec then Some (vc_generateAudio s) else None),
      ve_has_video_reference = (maxVideoReferences spec > 0 \<and> vc_hasVideoReference s),
      ve_reference_mode = (if adobe_kling model then Some (vc_referenceMode s) else None)\<rparr>"

text \<open>The options of the price select, and the one that is shown.\<close>

definition price_options :: "jstr \<Rightarrow> VideoModelDoc \<Rightarrow> (jstr \<times> jstr) list" where
  "price_options model spec =
     (if adobe_kling model then [(lit ''text'', ulit ''%u65E0%u53C2%u8003''), (lit ''frame'', ulit ''%u9996%u5C3E%u5E27''), (lit ''image'', ulit ''%u666E%u901A%u53C2%u8003%u56FE'')]
      else [(lit ''audio'', (if vd_supportsGenerateAudio spec then ulit ''%u539F%u751F%u97F3%u9891%u5F00%u542F'' else ulit ''%u6A21%u578B%u9ED8%u8BA4%u53C2%u6570''))] @
        (if vd_supportsGenerateAudio spec \<and> \<not> always_audio spec then [(lit ''silent'', ulit ''%u539F%u751F%u97F3%u9891%u5173%u95ED'')] else []) @
        (if maxVideoReferences spec > 0 then [(lit ''reference'', ulit ''%u5305%u542B%u53C2%u8003%u89C6%u9891'')] else []))"

definition price_option :: "jstr \<Rightarrow> VideoCostCalculator \<Rightarrow> jstr" where
  "price_option model s =
     (if adobe_kling model then vc_referenceMode s
      else if vc_hasVideoReference s then lit ''reference'' else if vc_generateAudio s then lit ''audio'' else lit ''silent'')"

datatype video_cost_event =
  PickCostDuration int
| PickCostSize jstr
| PickCostResolution jstr
| PickPriceOption jstr
| AskVideoCost
| VideoCostAnswer nat "jstr + VideoCostEstimate"

definition reset_video_cost :: "VideoCostCalculator \<Rightarrow> VideoCostCalculator" where
  "reset_video_cost s = s\<lparr>vc_estimate := reset_mutation (vc_estimate s)\<rparr>"

fun video_cost_step ::
    "GenerationRoute \<Rightarrow> jstr \<Rightarrow> VideoModelDoc \<Rightarrow> VideoCostCalculator \<Rightarrow> video_cost_event \<Rightarrow> VideoCostCalculator" where
  "video_cost_step route model spec s (PickCostDuration n) =
     (if n \<in> set (vd_durationValues spec) then reset_video_cost (s\<lparr>vc_duration := n\<rparr>) else s)"
| "video_cost_step route model spec s (PickCostSize v) =
     (if v \<notin> vs_value ` set (doc_sizes spec) then s
      else case videoResolutionForSize model v of
        Inl _ \<Rightarrow> s
      | Inr mapped \<Rightarrow> reset_video_cost
          (if opt_str mapped \<noteq> [] then s\<lparr>vc_size := v, vc_resolution := mapped\<rparr> else s\<lparr>vc_size := v\<rparr>))"
| "video_cost_step route model spec s (PickCostResolution r) =
     (case videoResolutionsForSize model (vc_size s) of
        Inl _ \<Rightarrow> s
      | Inr rs \<Rightarrow> if r \<in> set rs then reset_video_cost (s\<lparr>vc_resolution := Some r\<rparr>) else s)"
| "video_cost_step route model spec s (PickPriceOption v) =
     (if v \<notin> fst ` set (price_options model spec) then s
      else if adobe_kling model then reset_video_cost (s\<lparr>vc_referenceMode := v\<rparr>)
      else reset_video_cost (s\<lparr>vc_hasVideoReference := (v = lit ''reference''), vc_generateAudio := (v \<noteq> lit ''silent'')\<rparr>))"
| "video_cost_step route model spec s AskVideoCost =
     (if is_pending (vc_estimate s) then s
      else s\<lparr>vc_estimate := mutate (video_estimate_request route model spec s) (vc_estimate s)\<rparr>)"
| "video_cost_step route model spec s (VideoCostAnswer n answer) =
     s\<lparr>vc_estimate := settle_mutation n answer (vc_estimate s)\<rparr>"

definition modifierLabels :: "(jstr \<times> jstr) list" where
  "modifierLabels =
     [(lit ''seedance_video_reference'', ulit ''Seedance %u53C2%u8003%u89C6%u9891%u8BA1%u4EF7''), (lit ''flux_video_reference'', ulit ''FLUX 3 Video %u53C2%u8003%u89C6%u9891%u8BA1%u4EF7''),
      (lit ''kling_o3_video_reference'', ulit ''Kling O3 Omni %u53C2%u8003%u89C6%u9891%u8BA1%u4EF7''), (lit ''native_audio_disabled'', ulit ''%u5173%u95ED%u539F%u751F%u97F3%u9891%u8BA1%u4EF7'')]"

definition video_cost_line :: "VideoCostEstimate \<Rightarrow> jstr res" where
  "video_cost_line e =
     bindr (if vce_applied_modifiers e \<noteq> []
       then bindr (mapr (obj_get modifierLabels) (vce_applied_modifiers e)) (\<lambda>labels. Inr (js_join (ulit '' %u00B7 '') (map opt_str labels)))
       else Inr (ulit ''%u5F53%u524D%u53C2%u6570%u6CA1%u6709%u4EF7%u683C%u4FEE%u9970%u5668'')) (\<lambda>t.
     Inr (t @ ulit '' %u00B7 '' @ vce_price_version e))"

definition video_cost_note :: "jstr \<Rightarrow> jstr" where
  "video_cost_note model =
     (if model = lit ''grok-imagine-1.5''
      then ulit ''%u5F71%u54CD%u4EF7%u683C%u7684%u5B57%u6BB5%u4E3A model%u3001duration%u3001size %u548C%u5BF9%u5E94%u7684 resolution %u6863%u4F4D%uFF1B%u539F%u751F%u97F3%u9891%u5F00%u5173%u4E0D%u6539%u53D8%u5F53%u524D Schema %u79EF%u5206%u3002''
      else if model = lit ''flux-3-video''
      then ulit ''%u5F71%u54CD%u4EF7%u683C%u7684%u5B57%u6BB5%u4E3A model%u3001duration%u3001size %u5BF9%u5E94%u7684 resolution %u6863%u4F4D%u548C has_video_reference%uFF1B%u539F%u751F%u97F3%u9891%u548C%u9996%u5C3E%u5E27%u4E0D%u6539%u53D8%u5F53%u524D Schema %u79EF%u5206%u3002''
      else if model = lit ''kling-o3-omni''
      then ulit ''%u666E%u901A%u751F%u6210%u6309 duration%u3001size %u5BF9%u5E94%u7684 resolution %u6863%u4F4D%u548C generate_audio %u8BA1%u4EF7%uFF1B%u53C2%u8003%u89C6%u9891%u6309%u8F93%u5165%u65F6%u957F%u8BA1%u4EF7%uFF0C%u4E0D%u652F%u6301 2160p%uFF0C%u539F%u751F%u97F3%u9891%u5F00%u5173%u4E0D%u518D%u52A0%u4EF7%u3002''
      else ulit ''%u5F71%u54CD%u4EF7%u683C%u7684%u5B57%u6BB5%u4E3A model%u3001duration%u3001resolution%u3001generate_audio %u548C has_video_reference%u3002Seedance %u7684%u539F%u751F%u97F3%u9891%u5F00%u5173%u5F53%u524D%u4E0D%u6539%u53D8 Schema %u4EF7%u683C%uFF1B%u666E%u901A%u53C2%u8003%u56FE%u3001%u9996%u5C3E%u5E27%u548C%u53C2%u8003%u97F3%u9891%u4E5F%u4E0D%u6539%u53D8%u79EF%u5206%u3002'')"

section \<open>Estimates belong to what is shown\<close>

interpretation image_cost: calculator "image_cost_step route model" ic_estimate
  "\<lambda>s. Some (image_estimate_request route model s)" for route model
proof
  fix s e and r :: ImageEstimateRequest
  assume "mutation_request (ic_estimate (image_cost_step route model s e)) = Some r"
  then show "(mutation_request (ic_estimate s) = Some r \<and>
      Some (image_estimate_request route model (image_cost_step route model s e)) = Some (image_estimate_request route model s)) \<or>
    Some (image_estimate_request route model (image_cost_step route model s e)) = Some r"
    by (cases e) (auto simp: image_estimate_request_def dest: settle_request split: if_splits)
qed

interpretation video_cost: calculator "video_cost_step route model spec" vc_estimate
  "\<lambda>s. Some (video_estimate_request route model spec s)" for route model spec
proof
  fix s e and r :: VideoEstimateRequest
  assume "mutation_request (vc_estimate (video_cost_step route model spec s e)) = Some r"
  then show "(mutation_request (vc_estimate s) = Some r \<and>
      Some (video_estimate_request route model spec (video_cost_step route model spec s e)) =
        Some (video_estimate_request route model spec s)) \<or>
    Some (video_estimate_request route model spec (video_cost_step route model spec s e)) = Some r"
    by (cases e) (auto simp: video_estimate_request_def reset_video_cost_def dest: settle_request split: if_splits sum.splits)
qed

text \<open>What the calculators can hold.\<close>

definition image_calculator_ok :: "jstr \<Rightarrow> ImageCostCalculator \<Rightarrow> bool" where
  "image_calculator_ok model s \<longleftrightarrow> ic_quality s \<in> {lit ''low'', lit ''medium'', lit ''high''} \<and>
     (\<forall>r. mutation_request (ic_estimate s) = Some r \<longrightarrow> ie_size r \<noteq> [] \<and> ie_n r \<in> {1, 2, 3, 4} \<and>
        (ie_quality r \<noteq> None \<longleftrightarrow> has_quality model))"

lemma whole_1_4: "input_valid 1 4 1 n \<Longrightarrow> n \<in> {1, 2, 3, 4}"
proof -
  assume "input_valid 1 4 1 n"
  then have "n - 1 \<in> \<int>" "1 \<le> n" "n \<le> 4" by (simp_all add: input_valid_def)
  then obtain k where k: "n - 1 = of_int k" "1 \<le> n" "n \<le> 4" using Ints_cases by metis
  then have "0 \<le> (of_int k :: rat)" "(of_int k :: rat) \<le> of_int 3" by simp_all
  then have "0 \<le> k" "k \<le> 3" by (simp_all only: of_int_0_le_iff of_int_le_iff)
  then have "k = 0 \<or> k = 1 \<or> k = 2 \<or> k = 3" by presburger
  with k show ?thesis by (auto simp: algebra_simps)
qed

interpretation image_calculator: guarded_machine "image_cost_step route model" "image_calculator_ok model" "\<lambda>_. True"
  for route model
proof
  fix s e
  assume ok: "image_calculator_ok model s"
  show "image_calculator_ok model (image_cost_step route model s e)"
  proof (cases e)
    case AskImageCost
    with ok whole_1_4 show ?thesis
      by (auto simp: image_calculator_ok_def image_cost_ready_def image_estimate_request_def)
  next
    case (ImageCostAnswer n answer)
    with ok show ?thesis by (auto simp: image_calculator_ok_def dest: settle_request)
  qed (use ok in \<open>auto simp: image_calculator_ok_def\<close>)
qed

text \<open>An image estimate that is pending or shown is for the size, quality and number on the page, with a size,
  a number from 1 to 4, and a quality exactly for the models that have one.\<close>

theorem image_estimate_is_current:
  assumes "s = foldl (image_cost_step route model) open_image_calculator es"
    and "mutation_request (ic_estimate s) = Some r"
  shows "r = image_estimate_request route model s \<and> ie_size r \<noteq> [] \<and> ie_n r \<in> {1, 2, 3, 4} \<and>
    (ie_quality r \<noteq> None \<longleftrightarrow> has_quality model)"
proof -
  have "Some (image_estimate_request route model s) = Some r"
    using image_cost.answer_current [of open_image_calculator route model es r] assms
    by (simp add: open_image_calculator_def)
  moreover have "image_calculator_ok model s" unfolding assms(1)
    by (rule image_calculator.ok_run) (simp_all add: image_calculator_ok_def open_image_calculator_def list_all_iff)
  ultimately show ?thesis using assms(2) unfolding image_calculator_ok_def by blast
qed

definition route_of :: "jstr \<Rightarrow> GenerationRoute" where
  "route_of m = \<lparr>gr_provider = lit ''leonardo'', gr_model = lit ''leonardo/'' @ m, gr_internalModel = m\<rparr>"

theorem image_estimate_is_current_witness:
  "\<exists>r. mutation_request (ic_estimate (foldl (image_cost_step (route_of (lit ''nano-banana-2'')) (lit ''nano-banana-2''))
      open_image_calculator [TypeCostQuantity 3, AskImageCost])) = Some r \<and> ie_n r \<in> {1, 2, 3, 4}"
proof -
  define s where "s = foldl (image_cost_step (route_of (lit ''nano-banana-2'')) (lit ''nano-banana-2''))
      open_image_calculator [TypeCostQuantity 3, AskImageCost]"
  have "(3 - 1 :: rat) / 1 = of_int 2" by simp
  then have "input_valid 1 4 1 3" by (simp add: input_valid_def)
  moreover have "trim (lit ''1024x1024'') \<noteq> []" by code_simp
  ultimately obtain r where "mutation_request (ic_estimate s) = Some r"
    by (simp add: s_def has_quality_def image_cost_ready_def open_image_calculator_def)
  with image_estimate_is_current [OF s_def this] show ?thesis unfolding s_def by blast
qed

text \<open>The choices of the video calculator are documented ones.\<close>

definition price_ok :: "jstr \<Rightarrow> VideoModelDoc \<Rightarrow> VideoCostCalculator \<Rightarrow> bool" where
  "price_ok model spec s \<longleftrightarrow>
     (\<not> vc_generateAudio s \<longrightarrow> vd_supportsGenerateAudio spec \<and> \<not> always_audio spec) \<and>
     (vc_hasVideoReference s \<longrightarrow> 0 < maxVideoReferences spec) \<and>
     price_option model s \<in> fst ` set (price_options model spec)"

definition video_calculator_ok :: "jstr \<Rightarrow> VideoModelDoc \<Rightarrow> VideoCostCalculator \<Rightarrow> bool" where
  "video_calculator_ok model spec s \<longleftrightarrow> vc_duration s \<in> set (vd_durationValues spec) \<and>
     (\<exists>z \<in> set (doc_sizes spec). vc_size s = vs_value z \<and> vc_resolution s = Some (size_resolution spec z)) \<and>
     price_ok model spec s"

lemma price_ok_other [simp]:
  "price_ok model spec (s\<lparr>vc_estimate := x\<rparr>) = price_ok model spec s"
  "price_ok model spec (s\<lparr>vc_size := v\<rparr>) = price_ok model spec s"
  "price_ok model spec (s\<lparr>vc_resolution := r\<rparr>) = price_ok model spec s"
  "price_ok model spec (s\<lparr>vc_duration := n\<rparr>) = price_ok model spec s"
  by (simp_all add: price_ok_def price_option_def)

lemma video_calculator_ok_estimate [simp]:
  "video_calculator_ok model spec (s\<lparr>vc_estimate := x\<rparr>) = video_calculator_ok model spec s"
  by (simp add: video_calculator_ok_def)

lemma pick_price_ok:
  assumes ok: "price_ok model spec s"
  shows "price_ok model spec (video_cost_step route model spec s (PickPriceOption v))"
proof (cases "v \<in> fst ` set (price_options model spec)")
  case v: True
  show ?thesis
  proof (cases "adobe_kling model")
    case True
    with ok v show ?thesis by (simp add: reset_video_cost_def price_ok_def price_option_def)
  next
    case False
    with v have "(v = lit ''reference'' \<and> 0 < maxVideoReferences spec) \<or>
        (v = lit ''silent'' \<and> vd_supportsGenerateAudio spec \<and> \<not> always_audio spec) \<or> v = lit ''audio''"
      by (auto simp: price_options_def split: if_splits)
    with False v show ?thesis by (elim disjE) (simp_all add: reset_video_cost_def price_ok_def price_option_def)
  qed
qed (use ok in simp)

lemma pick_size_ok:
  assumes doc: "map_of videoModelDocs model = Some spec" and ok: "video_calculator_ok model spec s"
  shows "video_calculator_ok model spec (video_cost_step route model spec s (PickCostSize v))"
proof (cases "v \<in> vs_value ` set (doc_sizes spec)")
  case True
  then obtain z where z: "z \<in> set (doc_sizes spec)" "v = vs_value z" by blast
  from ok obtain y where y: "y \<in> set (doc_sizes spec)" "vc_resolution s = Some (size_resolution spec y)"
    by (auto simp: video_calculator_ok_def)
  have "resolutions_uniform spec" using documented_ok [OF doc] by (simp add: video_doc_ok_def)
  then have same: "opt_str (vs_resolution z) = [] \<Longrightarrow> size_resolution spec y = size_resolution spec z"
    using z(1) y(1) by (auto simp: resolutions_uniform_def size_resolution_def)
  have res: "opt_str (vs_resolution z) \<noteq> [] \<Longrightarrow> vs_resolution z = Some (size_resolution spec z)"
    by (cases "vs_resolution z") (auto simp: size_resolution_def or_str_def)
  show ?thesis
    using ok z y same res
    by (cases "opt_str (vs_resolution z) = []")
      (auto simp: videoResolutionForSize_listed [OF doc z(1)] reset_video_cost_def video_calculator_ok_def)
qed (use ok in simp)

interpretation video_calculator: guarded_machine "video_cost_step route model spec"
  "\<lambda>s. map_of videoModelDocs model = Some spec \<and> video_calculator_ok model spec s" "\<lambda>_. True"
  for route model spec
proof
  fix s e
  assume ok: "map_of videoModelDocs model = Some spec \<and> video_calculator_ok model spec s"
  have "video_calculator_ok model spec (video_cost_step route model spec s e)"
  proof (cases e)
    case (PickCostSize v)
    with ok pick_size_ok show ?thesis by blast
  next
    case (PickCostResolution r)
    from ok obtain z where z: "z \<in> set (doc_sizes spec)" "vc_size s = vs_value z" "vc_resolution s = Some (size_resolution spec z)"
      by (auto simp: video_calculator_ok_def)
    have "videoResolutionsForSize model (vc_size s) = Inr [size_resolution spec z]"
      using videoResolutionsForSize_listed ok z by simp
    moreover have "s\<lparr>vc_resolution := Some (size_resolution spec z)\<rparr> = s" using z(3) by (cases s) simp
    ultimately show ?thesis using ok by (simp add: PickCostResolution reset_video_cost_def)
  next
    case (PickPriceOption v)
    have "price_ok model spec (video_cost_step route model spec s e)"
      unfolding PickPriceOption by (rule pick_price_ok) (use ok in \<open>simp add: video_calculator_ok_def\<close>)
    with ok show ?thesis by (auto simp: PickPriceOption reset_video_cost_def video_calculator_ok_def)
  qed (use ok in \<open>auto simp: reset_video_cost_def video_calculator_ok_def\<close>)
  with ok show "map_of videoModelDocs model = Some spec \<and> video_calculator_ok model spec (video_cost_step route model spec s e)"
    by blast
qed

lemma open_video_calculator_ok:
  assumes "map_of videoModelDocs model = Some spec"
  shows "\<exists>s. open_video_calculator model spec = Inr s \<and> video_calculator_ok model spec s \<and>
    mutation_request (vc_estimate s) = None"
proof -
  obtain z zs where z: "doc_sizes spec = z # zs" using sizes_nonempty [OF assms] by blast
  have "vd_defaultDuration spec \<in> set (vd_durationValues spec)" using documented_ok [OF assms] by (simp add: video_doc_ok_def)
  then show ?thesis
    by (simp add: open_video_calculator_def sizes_nonempty(2) [OF assms] defaultVideoResolution_listed [OF assms] z
        video_calculator_ok_def price_ok_def price_option_def price_options_def)
qed

text \<open>C18: A video estimate that is pending or shown is for the choices on the page, which are documented for the
  model, and it is for what the playground sends: a request of the video form with the same duration,
  size, resolution and audio has the fields the estimate was asked for.\<close>

theorem video_estimate_is_for_request:
  assumes doc: "map_of videoModelDocs model = Some spec" and s0: "open_video_calculator model spec = Inr s0"
    and s: "s = foldl (video_cost_step route model spec) s0 es"
    and r: "mutation_request (vc_estimate s) = Some r"
    and w: "vf_duration w = vc_duration s" "vf_size w = vc_size s" "vf_resolution w = vc_resolution s"
      "vf_generateAudio w = vc_generateAudio s"
  shows "r = video_estimate_request route model spec s \<and>
    ve_duration r \<in> set (vd_durationValues spec) \<and>
    (\<exists>z \<in> set (doc_sizes spec). ve_size r = vs_value z \<and> ve_resolution r = Some (size_resolution spec z)) \<and>
    (ve_has_video_reference r \<longrightarrow> 0 < maxVideoReferences spec) \<and>
    {(lit ''model'', Some (JStr (ve_model r))), (lit ''duration'', Some (JNum (of_int (ve_duration r)))),
     (lit ''size'', Some (JStr (ve_size r))), (lit ''resolution'', map_option JStr (ve_resolution r)),
     (lit ''generate_audio'', map_option JBool (ve_generate_audio r))} \<subseteq> set (video_fields (gr_model route) spec w)"
proof -
  obtain s' where s': "open_video_calculator model spec = Inr s'" "video_calculator_ok model spec s'"
    "mutation_request (vc_estimate s') = None" using open_video_calculator_ok [OF doc] by blast
  with s0 have init: "video_calculator_ok model spec s0" "mutation_request (vc_estimate s0) = None" by simp_all
  have "Some (video_estimate_request route model spec s) = Some r"
    using video_cost.answer_current [of s0 route model spec es r] init r s by simp
  then have req: "r = video_estimate_request route model spec s" by simp
  have ok: "video_calculator_ok model spec s"
    using video_calculator.ok_run [of model spec s0 es route] doc init s by (simp add: list_all_iff)
  then show ?thesis
    using w by (auto simp: req video_estimate_request_def video_calculator_ok_def price_ok_def video_fields_def)
qed

theorem video_estimate_is_for_request_witness:
  "\<exists>s0 s r. open_video_calculator (lit ''kling-3.0'') video_doc_kling_3_0 = Inr s0 \<and>
     s = video_cost_step (route_of (lit ''kling-3.0'')) (lit ''kling-3.0'') video_doc_kling_3_0 s0 AskVideoCost \<and>
     mutation_request (vc_estimate s) = Some r \<and> ve_duration r \<in> set (vd_durationValues video_doc_kling_3_0)"
proof -
  obtain s0 where s0: "open_video_calculator (lit ''kling-3.0'') video_doc_kling_3_0 = Inr s0"
    using open_video_calculator_ok [OF kling_doc] by blast
  then have "mutation_request (vc_estimate s0) = None"
    using open_video_calculator_ok [OF kling_doc] by auto
  then have "\<not> is_pending (vc_estimate s0)"
    by (auto simp: is_pending_def mutation_request_def split: mutation_state.splits)
  define s where "s = foldl (video_cost_step (route_of (lit ''kling-3.0'')) (lit ''kling-3.0'') video_doc_kling_3_0) s0 [AskVideoCost]"
  define w where "w = initial_video_form\<lparr>vf_duration := vc_duration s, vf_size := vc_size s,
    vf_resolution := vc_resolution s, vf_generateAudio := vc_generateAudio s\<rparr>"
  have "mutation_request (vc_estimate s) = Some (video_estimate_request (route_of (lit ''kling-3.0'')) (lit ''kling-3.0'') video_doc_kling_3_0 s0)"
    using \<open>\<not> is_pending (vc_estimate s0)\<close> by (simp add: s_def)
  with video_estimate_is_for_request [OF kling_doc s0 s_def this, of w] show ?thesis
    using s0 by (auto simp: s_def w_def)
qed

section \<open>The number of images\<close>

text \<open>For the Adobe models the guide documents 1 to 4 images, and its calculator prices up to 4, although the
  model's own document says that it is always 1, and the playground sends 1.\<close>

theorem guide_misstates_adobe_quantity:
  assumes "offered Image (lit ''adobe'') d m" and "imageParametersForModel loc m endpoint = Inr rows"
    and "if_provider v = lit ''adobe''"
  shows "\<exists>doc. image_doc m = Inr doc \<and> id_quantity doc = ulit ''%u56FA%u5B9A 1 %u5F20'' \<and> single_image v \<and>
    (lit ''n'', lit ''integer'', ulit ''%u53EF%u9009'', ulit ''%u751F%u6210%u6570%u91CF%u3002'', ulit ''1%u20134%uFF1B%u9ED8%u8BA4 1'') \<in> set rows"
proof -
  have m: "m = lit ''adobe:gpt-image-2'' \<or> m = lit ''adobe:nano-banana-2''"
    using assms(1) by (auto simp: offered_def providerRegistry_def adobe_def)
  obtain doc where doc: "image_doc m = Inr doc"
    using assms(2) by (auto simp: imageParametersForModel_def bindr_Inr_iff)
  have "map_of imageModelDocs m = map_of baseImageModelDocs m"
    using m by (auto simp: imageModelDocs_lookup creativefabrica_image_models_def)
  then have "map_of imageModelDocs m = Some doc" using doc m
    by (auto simp: image_doc_def obj_get_def baseImageModelDocs_def split: option.splits if_splits)
  then have "id_quantity doc = ulit ''%u56FA%u5B9A 1 %u5F20''"
    using m \<open>map_of imageModelDocs m = map_of baseImageModelDocs m\<close>
    by (auto simp: baseImageModelDocs_def image_doc_adobe_gpt_image_2_def image_doc_adobe_nano_banana_2_def)
  moreover have "\<not> starts_with m (lit ''adobe-'')" "m \<noteq> lit ''gpt-image-2''"
  proof -
    have "\<not> starts_with (lit ''adobe:gpt-image-2'') (lit ''adobe-'')" "\<not> starts_with (lit ''adobe:nano-banana-2'') (lit ''adobe-'')" by code_simp+
    with m show "\<not> starts_with m (lit ''adobe-'')" "m \<noteq> lit ''gpt-image-2''" by auto
  qed
  then have "(lit ''n'', lit ''integer'', ulit ''%u53EF%u9009'', ulit ''%u751F%u6210%u6570%u91CF%u3002'', ulit ''1%u20134%uFF1B%u9ED8%u8BA4 1'') \<in> set rows"
    using assms(2) by (auto simp: imageParametersForModel_def bindr_Inr_iff)
  ultimately show ?thesis using doc assms(3) by (simp add: single_image_def)
qed

theorem guide_misstates_adobe_quantity_witness:
  "\<exists>rows. imageParametersForModel (\<lambda>_. []) (lit ''adobe:nano-banana-2'') EndpointGeneration = Inr rows \<and>
     (lit ''n'', lit ''integer'', ulit ''%u53EF%u9009'', ulit ''%u751F%u6210%u6570%u91CF%u3002'', ulit ''1%u20134%uFF1B%u9ED8%u8BA4 1'') \<in> set rows"
proof -
  have "modelDisplayID (lit ''adobe:nano-banana-2'') = Inr (lit ''nano-banana-2'')"
    using qualified_display [of "''adobe''" adobe "''nano-banana-2''"] by (simp add: registry_map_of)
  then have o: "offered Image (lit ''adobe'') (lit ''nano-banana-2'') (lit ''adobe:nano-banana-2'')"
    by (simp add: offered_def providerRegistry_def adobe_def)
  obtain doc where "obj_get imageModelDocs (lit ''adobe:nano-banana-2'') = Inr (Some doc)"
    using offered_image_documented [OF o] by blast
  then have "\<exists>rows. imageParametersForModel (\<lambda>_. []) (lit ''adobe:nano-banana-2'') EndpointGeneration = Inr rows"
    by (simp add: imageParametersForModel_def offered_route [OF o] image_doc_def)
  then obtain rows where rows: "imageParametersForModel (\<lambda>_. []) (lit ''adobe:nano-banana-2'') EndpointGeneration = Inr rows" by blast
  have "if_provider (initial_image_form\<lparr>if_provider := lit ''adobe''\<rparr>) = lit ''adobe''" by simp
  from guide_misstates_adobe_quantity [OF o rows this] rows show ?thesis by blast
qed

end
