(* ===== verification/ResultView.thy ===== *)
theory ResultView
  imports PlaygroundRun
begin

text \<open>
  What the playground shows of a task (components/playground-result.tsx): its status, the blocks of the
  stage, and the gallery; the button that copies a text (components/copy-code.tsx), and the status of
  a query (components/ui/query-state.tsx). \<open>when\<close> prints a time.
\<close>

section \<open>The gallery\<close>

record GalleryFigure =
  gf_key :: jstr
  gf_warning :: "jstr option"
  gf_source :: jstr
  gf_label :: jstr
  gf_detail :: jstr
  gf_download :: "jstr option"

definition media_source :: "jstr \<Rightarrow> PlaygroundOutput \<Rightarrow> jstr" where
  "media_source imageFormat output =
     or_str (opt_str (out_url output))
       (if opt_str (out_b64_json output) \<noteq> []
        then lit ''data:image/'' @ imageFormat @ lit '';base64,'' @ opt_str (out_b64_json output) else [])"

definition media_label :: "MediaKind \<Rightarrow> jstr" where
  "media_label kind = (case kind of Video \<Rightarrow> ulit ''%u89C6%u9891'' | Audio \<Rightarrow> ulit ''%u97F3%u9891'' | Image \<Rightarrow> ulit ''%u56FE%u50CF'')"

text \<open>A number that is there and not 0.\<close>

definition truthy_number :: "int option \<Rightarrow> bool" where
  "truthy_number n \<longleftrightarrow> nullish n 0 \<noteq> 0"

definition number_text :: "int option \<Rightarrow> jstr" where
  "number_text n = num_str (nullish n 0)"

definition gallery_figure :: "MediaKind \<Rightarrow> jstr \<Rightarrow> nat \<Rightarrow> PlaygroundOutput \<Rightarrow> GalleryFigure" where
  "gallery_figure kind imageFormat index output =
     (let src = media_source imageFormat output;
          extension = (case kind of Video \<Rightarrow> lit ''mp4'' | Audio \<Rightarrow> lit ''mp3'' | Image \<Rightarrow> imageFormat);
          position = num_str (int index + 1) in
      \<lparr>gf_key = or_str (opt_str (out_id output)) (num_str (int index)),
       gf_warning = (if out_nsfw output = Some True
         then Some (if nullish (out_moderation_classifications output) [] \<noteq> []
           then js_join (ulit '' %u00B7 '') (nullish (out_moderation_classifications output) [])
           else ulit ''%u8BF7%u6309%u4E1A%u52A1%u5185%u5BB9%u653F%u7B56%u51B3%u5B9A%u662F%u5426%u5C55%u793A'')
         else None),
       gf_source = src,
       gf_label = media_label kind @ lit '' '' @ position,
       gf_detail = (if truthy_number (out_width output) \<and> truthy_number (out_height output)
           then number_text (out_width output) @ ulit '' %u00D7 '' @ number_text (out_height output) else ulit ''%u751F%u6210%u7ED3%u679C'') @
         (if truthy_number (out_duration output) then ulit '' %u00B7 '' @ number_text (out_duration output) @ ulit '' %u79D2'' else []),
       gf_download = (if src \<noteq> [] then Some (lit ''aiv2api-'' @ kind_name kind @ lit ''-'' @ position @ lit ''.'' @ extension) else None)\<rparr>)"

definition MediaGallery :: "MediaKind \<Rightarrow> jstr \<Rightarrow> PlaygroundOutput list \<Rightarrow> GalleryFigure list" where
  "MediaGallery kind imageFormat outputs =
     map (\<lambda>(index, output). gallery_figure kind imageFormat index output) (enumerate 0 outputs)"

section \<open>The stage\<close>

datatype stage_block =
  RestoringBlock
| PendingBlock jstr
| EmptyBlock
| ErrorBlock jstr
| TaskErrorBlock jstr jstr jstr "jstr option"
| GalleryBlock "GalleryFigure list"
| NoMediaBlock
| ProgressBlock jstr bool

record result_props =
  rp_kind :: MediaKind
  rp_imageFormat :: jstr
  rp_pending :: bool
  rp_restoring :: bool
  rp_error :: "jstr option"
  rp_outputs :: "PlaygroundOutput list option"
  rp_task :: "PlaygroundTask option"
  rp_cachedAt :: "int option"
  rp_cancel :: bool

definition has_media :: "result_props \<Rightarrow> bool" where
  "has_media p \<longleftrightarrow> nullish (rp_outputs p) [] \<noteq> []"

definition result_succeeded :: "result_props \<Rightarrow> bool" where
  "result_succeeded p \<longleftrightarrow> (case rp_task p of Some t \<Rightarrow> pt_status t = lit ''succeeded'' | None \<Rightarrow> has_media p)"

definition active_task :: "result_props \<Rightarrow> bool" where
  "active_task p \<longleftrightarrow> (case rp_task p of Some t \<Rightarrow> pt_status t \<notin> set terminalStatuses | None \<Rightarrow> False)"

definition task_error_block :: "PlaygroundTask \<Rightarrow> stage_block list res" where
  "task_error_block t =
     (if opt_str (pt_error_message t) = [] then Inr []
      else bindr (statusText (pt_status t)) (\<lambda>title.
        Inr [TaskErrorBlock title (opt_str (pt_error_message t))
          (js_join (ulit '' %u00B7 '') (filter (\<lambda>c. c \<noteq> []) [opt_str (pt_error_code t),
            opt_str (Option.bind (pt_error_details t) ted_provider_error_code)]))
          (if opt_str (pt_generation_id t) \<noteq> [] then pt_generation_id t else None)]))"

definition result_stage :: "result_props \<Rightarrow> stage_block list res" where
  "result_stage p =
     bindr (case rp_task p of None \<Rightarrow> Inr [] | Some t \<Rightarrow> task_error_block t) (\<lambda>task_error.
     let media = has_media p; failed = (opt_str (rp_error p) \<noteq> []) in
     Inr ((if rp_restoring p \<and> \<not> rp_pending p then [RestoringBlock] else []) @
          (if rp_pending p then [PendingBlock (case rp_kind p of Image \<Rightarrow> ulit ''%u6B63%u5728%u63D0%u4EA4%u56FE%u50CF%u4EFB%u52A1''
             | Video \<Rightarrow> ulit ''%u6B63%u5728%u63D0%u4EA4%u89C6%u9891%u4EFB%u52A1'' | Audio \<Rightarrow> ulit ''%u6B63%u5728%u63D0%u4EA4%u97F3%u9891%u4EFB%u52A1'')] else []) @
          (if \<not> rp_restoring p \<and> \<not> rp_pending p \<and> \<not> failed \<and> \<not> media \<and> rp_task p = None then [EmptyBlock] else []) @
          (if failed then [ErrorBlock (opt_str (rp_error p))] else []) @
          task_error @
          (if result_succeeded p \<and> media
           then [GalleryBlock (MediaGallery (rp_kind p) (rp_imageFormat p) (nullish (rp_outputs p) []))] else []) @
          (if result_succeeded p \<and> \<not> media then [NoMediaBlock] else []) @
          (if active_task p \<and> \<not> rp_pending p
           then [ProgressBlock (ulit ''%u6BCF 3 %u79D2%u81EA%u52A8%u66F4%u65B0%uFF0C%u5B8C%u6210%u540E%u4F1A%u663E%u793A'' @ media_label (rp_kind p) @ ulit ''%u3002'') (rp_cancel p)] else [])))"

text \<open>The status line, with the progress unless the task is being processed, and the buttons above the stage.\<close>

definition result_status :: "result_props \<Rightarrow> (jstr \<times> jstr option \<times> jstr) option res" where
  "result_status p = (case rp_task p of
       None \<Rightarrow> Inr None
     | Some t \<Rightarrow> bindr (statusText (pt_status t)) (\<lambda>title.
         Inr (Some (title, (if pt_status t \<noteq> lit ''processing'' then Some (num_str (pt_progress t) @ ulit ''%u0025'') else None), pt_id t))))"

record ResultActions =
  ra_cached :: "jstr option"
  ra_view :: bool
  ra_clear :: bool

definition result_actions :: "(int \<Rightarrow> jstr) \<Rightarrow> result_props \<Rightarrow> ResultActions" where
  "result_actions when p =
     \<lparr>ra_cached = (if truthy_number (rp_cachedAt p) then Some (ulit ''%u7F13%u5B58%u4E8E '' @ when (nullish (rp_cachedAt p) 0)) else None),
      ra_view = (has_media p \<and> rp_kind p \<noteq> Audio),
      ra_clear = (has_media p \<or> rp_task p \<noteq> None)\<rparr>"

text \<open>
  How the forms fill it in. \<open>fetching\<close> says that the hook is asking for the task, \<open>task_error\<close> is what it
  failed with, \<open>cancelling\<close> that a cancellation is being sent; the image form does not wait for the first
  answer.
\<close>

definition form_result ::
    "MediaKind \<Rightarrow> query_hook \<Rightarrow> PlaygroundRun \<Rightarrow> bool \<Rightarrow> bool \<Rightarrow> jstr option \<Rightarrow> bool \<Rightarrow> int option \<Rightarrow> result_props" where
  "form_result kind useQuery r cacheReady fetching task_error cancelling saved_at =
     \<lparr>rp_kind = kind, rp_imageFormat = lit ''jpeg'',
      rp_pending = (run_isPending r \<or> kind \<noteq> Image \<and> fetching \<and> current useQuery r = None),
      rp_restoring = (\<not> cacheReady),
      rp_error = (if opt_str (run_error r) \<noteq> [] then run_error r else task_error),
      rp_outputs = Option.bind (Option.bind (current useQuery r) pt_result) prd_data,
      rp_task = current useQuery r, rp_cachedAt = saved_at,
      rp_cancel = (cancel_offered useQuery r \<and> \<not> cancelling)\<rparr>"

section \<open>Copying a text\<close>

text \<open>The label says that the text was copied until a timer fires; every successful copy starts one.\<close>

record CopyCode =
  cc_copied :: bool
  cc_timers :: "int list"

datatype copy_event = CopyAnswer int bool | TimeIs int

definition open_copy :: CopyCode where
  "open_copy = \<lparr>cc_copied = False, cc_timers = []\<rparr>"

fun copy_step :: "CopyCode \<Rightarrow> copy_event \<Rightarrow> CopyCode" where
  "copy_step s (CopyAnswer now success) =
     (if success then s\<lparr>cc_copied := True, cc_timers := cc_timers s @ [now + 1600]\<rparr> else s\<lparr>cc_copied := False\<rparr>)"
| "copy_step s (TimeIs now) =
     (if \<exists>t \<in> set (cc_timers s). t \<le> now
      then s\<lparr>cc_copied := False, cc_timers := filter (\<lambda>t. now < t) (cc_timers s)\<rparr> else s)"

definition copy_label :: "CopyCode \<Rightarrow> jstr" where
  "copy_label s = (if cc_copied s then ulit ''%u5DF2%u590D%u5236'' else ulit ''%u590D%u5236'')"

section \<open>The status of a query\<close>

definition QueryStatus :: "(int \<Rightarrow> jstr) \<Rightarrow> bool \<Rightarrow> bool \<Rightarrow> int option \<Rightarrow> jstr option \<Rightarrow> jstr" where
  "QueryStatus when fetching failed updatedAt label =
     (if failed then ulit ''%u6570%u636E%u66F4%u65B0%u5931%u8D25''
      else if fetching then ulit ''%u6B63%u5728%u66F4%u65B0''
      else or_str (opt_str label)
        (if truthy_number updatedAt then ulit ''%u66F4%u65B0%u4E8E '' @ when (nullish updatedAt 0) else ulit ''%u6570%u636E%u5DF2%u540C%u6B65''))"

section \<open>Properties\<close>

text \<open>A timer that was not started by the last copy still ends its label.\<close>

lemma second_copy_label_ends_early:
  "copy_label (foldl copy_step open_copy [CopyAnswer t True, CopyAnswer (t + 1500) True, TimeIs (t + 1600)]) = ulit ''%u590D%u5236''"
  by (simp add: open_copy_def copy_label_def)

lemma copied_label_kept:
  assumes "now < t + 1600"
  shows "copy_label (foldl copy_step open_copy [CopyAnswer t True, TimeIs now]) = ulit ''%u5DF2%u590D%u5236''"
  using assms by (simp add: open_copy_def copy_label_def)

lemma statusText_total: "s \<notin> set object_prototype_keys \<Longrightarrow> \<exists>l. statusText s = Inr l"
  using statusText_cases [of s] by simp

lemma task_error_total:
  "pt_status t \<notin> set object_prototype_keys \<Longrightarrow>
     \<exists>bs. task_error_block t = Inr bs \<and> (bs = [] \<longleftrightarrow> opt_str (pt_error_message t) = [])"
  using statusText_total [of "pt_status t"] by (auto simp: task_error_block_def)

text \<open>The stage is blank exactly for a final task that did not succeed and has no message, when nothing is
  pending, restored or wrong otherwise: a cancelled task without a message leaves only its status line.\<close>

theorem result_stage_blank:
  assumes "\<forall>t. rp_task p = Some t \<longrightarrow> pt_status t \<notin> set object_prototype_keys"
  shows "\<exists>blocks. result_stage p = Inr blocks \<and>
    (blocks = [] \<longleftrightarrow> \<not> rp_pending p \<and> \<not> rp_restoring p \<and> opt_str (rp_error p) = [] \<and>
      (\<exists>t. rp_task p = Some t \<and> pt_status t \<in> {lit ''failed'', lit ''cancelled''} \<and> opt_str (pt_error_message t) = []))"
proof (cases "rp_task p")
  case None
  then show ?thesis by (auto simp: result_stage_def result_succeeded_def active_task_def Let_def)
next
  case (Some t)
  then obtain bs where bs: "task_error_block t = Inr bs" "bs = [] \<longleftrightarrow> opt_str (pt_error_message t) = []"
    using task_error_total assms by blast
  show ?thesis
    using Some bs by (auto simp: result_stage_def result_succeeded_def active_task_def terminalStatuses_def Let_def)
qed

theorem result_stage_blank_witness:
  "result_stage (form_result Video sample_hook done_run True False None False None) = Inr [] \<longleftrightarrow>
     opt_str (pt_error_message (sample_task ''t1'' ''failed'')) = []"
proof -
  define p where "p = form_result Video sample_hook done_run True False None False None"
  have c: "current sample_hook done_run = Some (sample_task ''t1'' ''failed'')" "run_isPending done_run = False" "run_error done_run = None"
    by code_simp+
  have "pt_status (sample_task ''t1'' ''failed'') \<notin> set object_prototype_keys" by code_simp
  with c have "\<forall>t. rp_task p = Some t \<longrightarrow> pt_status t \<notin> set object_prototype_keys" by (simp add: p_def form_result_def)
  from result_stage_blank [OF this] obtain blocks where blocks: "result_stage p = Inr blocks"
    "blocks = [] \<longleftrightarrow> \<not> rp_pending p \<and> \<not> rp_restoring p \<and> opt_str (rp_error p) = [] \<and>
      (\<exists>t. rp_task p = Some t \<and> pt_status t \<in> {lit ''failed'', lit ''cancelled''} \<and> opt_str (pt_error_message t) = [])" by blast
  with c show ?thesis unfolding p_def [symmetric] by (simp add: p_def form_result_def sample_task_def)
qed

text \<open>The stage of the first task of a form: it follows the answers. While the last one is not final it offers
  to cancel exactly while the task is queued, and shows no media; a result is shown as a gallery of
  exactly its outputs.\<close>

theorem first_task_on_stage:
  assumes "query_contract useQuery" "apiKey \<noteq> []" "pt_id t \<noteq> []" "ts \<noteq> []"
    "list_all (\<lambda>u. pt_id u = pt_id t) ts" "list_all active (butlast ts)"
    "r = foldl (run_step kind useQuery apiKey) fresh_run (Submit # Created t # map Polled ts)"
    and u: "u = last ts" "pt_status u \<notin> set object_prototype_keys" "opt_str (pt_error_message u) = []"
    and p: "p = form_result kind useQuery r True fetching None cancelling saved_at"
  shows "(active u \<longrightarrow> (\<exists>note. result_stage p = Inr [ProgressBlock note (pt_status u = lit ''queued'' \<and> \<not> cancelling)])) \<and>
    (has_result u \<longrightarrow> result_stage p = Inr [GalleryBlock (MediaGallery kind (lit ''jpeg'')
       (nullish (Option.bind (pt_result u) prd_data) []))])"
proof -
  have "polled_state r (pt_id t) u" "run_error r = None"
    using first_task_state [OF assms(1-7)] u(1) by simp_all
  then have c: "current useQuery r = Some u" "cancel_offered useQuery r \<longleftrightarrow> pt_status u = lit ''queued''" "\<not> run_isPending r"
    using polled_state_views [OF assms(1), of r "pt_id t" u] by (simp_all add: polled_state_def)
  have props: "rp_task p = Some u" "\<not> rp_pending p" "\<not> rp_restoring p" "rp_error p = None" "rp_kind p = kind"
    "rp_imageFormat p = lit ''jpeg''" "rp_outputs p = Option.bind (pt_result u) prd_data"
    "rp_cancel p \<longleftrightarrow> pt_status u = lit ''queued'' \<and> \<not> cancelling"
    using c \<open>run_error r = None\<close> by (simp_all add: p form_result_def)
  have "active u \<Longrightarrow> pt_status u \<noteq> lit ''succeeded''" by (auto simp: active_def terminalStatuses_def)
  moreover have "has_result u \<Longrightarrow> has_media p \<and> pt_status u = lit ''succeeded''"
    by (auto simp: has_result_def has_media_def props split: option.splits)
  ultimately show ?thesis
    using u(3)
    by (auto simp: result_stage_def props task_error_block_def result_succeeded_def active_task_def active_def
        terminalStatuses_def Let_def)
qed

theorem first_task_on_stage_witness:
  "\<exists>note. result_stage (form_result Video sample_hook
     (foldl (run_step Video sample_hook (lit ''key'')) fresh_run
       (Submit # Created (sample_task ''t1'' ''queued'') # map Polled [sample_task ''t1'' ''queued'']))
     True True None False None) = Inr [ProgressBlock note True]"
proof -
  let ?u = "sample_task ''t1'' ''queued''"
  have "pt_status ?u \<notin> set object_prototype_keys" "active ?u" by code_simp+
  moreover have "lit ''key'' \<noteq> []" "pt_id ?u \<noteq> []" "opt_str (pt_error_message ?u) = []" "pt_status ?u = lit ''queued''"
    by (simp_all add: sample_task_def)
  ultimately show ?thesis
    using first_task_on_stage [OF sample_hook_contract, of "lit ''key''" ?u "[?u]" _ Video ?u _ True False None] by simp
qed

end
