(* ===== verification/PlaygroundPage.thy ===== *)
theory PlaygroundPage
  imports DocExamples ImageForm ResultView UrlParams
begin

text \<open>
  The playground's frame (Playground of pages/playground-page.tsx): the kind of test that is chosen, what
  it takes from the address, and the test key; and the links that open it, from the developer guide
  (pages/docs-page.tsx).
\<close>

datatype PlaygroundForm = ImageTest | VideoTest | AudioTest | ChatTest

record PlaygroundPage =
  pg_media :: jstr
  pg_apiKey :: jstr
  pg_showKey :: bool

text \<open>The kind and the key are those of the session, if it has any.\<close>

definition open_playground :: "jstr option \<Rightarrow> jstr option \<Rightarrow> PlaygroundPage" where
  "open_playground media apiKey =
     \<lparr>pg_media = nullish media (lit ''image''), pg_apiKey = nullish apiKey [], pg_showKey = False\<rparr>"

definition test_kinds :: "jstr list" where
  "test_kinds = [lit ''image'', lit ''video'', lit ''audio'', lit ''chat'']"

text \<open>The effect of the address, which runs when its kind changes.\<close>

definition media_effect :: "params \<Rightarrow> PlaygroundPage \<Rightarrow> PlaygroundPage" where
  "media_effect params s = (case param_get params (lit ''media'') of
       None \<Rightarrow> s
     | Some requested \<Rightarrow> if requested \<in> set test_kinds then s\<lparr>pg_media := requested\<rparr> else s)"

datatype playground_event =
  ChooseKind jstr
| TypeTestKey jstr
| ToggleTestKey
| OpenAddress params

definition playground_step :: "PlaygroundPage \<Rightarrow> playground_event \<Rightarrow> PlaygroundPage" where
  "playground_step s e = (case e of
       ChooseKind k \<Rightarrow> if k \<in> set test_kinds then s\<lparr>pg_media := k\<rparr> else s
     | TypeTestKey k \<Rightarrow> s\<lparr>pg_apiKey := k\<rparr>
     | ToggleTestKey \<Rightarrow> s\<lparr>pg_showKey := \<not> pg_showKey s\<rparr>
     | OpenAddress params \<Rightarrow> media_effect params s)"

text \<open>The form that is shown: a kind the session has and nobody knows shows the chat.\<close>

definition playground_form :: "PlaygroundPage \<Rightarrow> PlaygroundForm" where
  "playground_form s =
     (if pg_media s = lit ''image'' then ImageTest else if pg_media s = lit ''video'' then VideoTest
      else if pg_media s = lit ''audio'' then AudioTest else ChatTest)"

text \<open>The model and the provider of the address, as the forms get them.\<close>

definition initialModel :: "params \<Rightarrow> jstr option" where
  "initialModel params = (if opt_str (param_get params (lit ''model'')) = [] then None else param_get params (lit ''model''))"

definition initialProvider :: "params \<Rightarrow> jstr option" where
  "initialProvider params =
     (if isRegisteredProviderID (param_get params (lit ''provider'')) then param_get params (lit ''provider'') else None)"

text \<open>The links of the guide.\<close>

definition playground_link :: "jstr \<Rightarrow> GenerationRoute \<Rightarrow> params" where
  "playground_link media route =
     [(lit ''media'', media), (lit ''provider'', gr_provider route), (lit ''model'', gr_model route)]"

definition audio_link :: "jstr \<Rightarrow> params" where
  "audio_link model = [(lit ''media'', lit ''audio''), (lit ''model'', model)]"

lemma link_gets:
  "param_get (playground_link media route) (lit ''media'') = Some media"
  "param_get (playground_link media route) (lit ''provider'') = Some (gr_provider route)"
  "param_get (playground_link media route) (lit ''model'') = Some (gr_model route)"
  "param_get (audio_link model) (lit ''media'') = Some (lit ''audio'')"
  "param_get (audio_link model) (lit ''model'') = Some model"
  by (simp_all add: playground_link_def audio_link_def param_get_def)



end
