(* ===== verification/DocViews.thy ===== *)
theory DocViews
  imports DocsPage PlaygroundPage
begin

text \<open>
  What the developer guide shows (pages/docs-page.tsx): the overview and the pages of the three kinds as
  lists of blocks, composed of the tables and examples as the components compose them. A page that
  throws while it is rendered is an error. \<open>loc\<close> is \<open>toLocaleString\<close>, \<open>num\<close> prints a number in a
  template literal, \<open>origin\<close> is that of the page.
\<close>

section \<open>Blocks\<close>

text \<open>
  A block of a page: a heading with the line above it and the text below; code, which \<open>CopyBlock\<close> also
  offers for copying; a labelled text; a list; a table; a button with what it says and whether it is the
  active one and disabled; a link; the calculator of a kind of costs.
\<close>

datatype doc_block =
  HeadingBlock jstr jstr jstr
| CopyBlock jstr
| CodeBlock jstr
| LabelBlock jstr jstr
| ListBlock jstr "jstr list"
| TableBlock "jstr list" "jstr list list"
| SizesBlock "(jstr \<times> (jstr \<times> jstr) option list) list" "jstr option"
| ButtonBlock jstr jstr bool bool
| LinkBlock params
| CalculatorBlock MediaKind jstr
| ProblemBlock jstr

definition ParameterTable :: "DocParameter list \<Rightarrow> doc_block" where
  "ParameterTable parameters =
     TableBlock [ulit ''%u53C2%u6570'', ulit ''%u7C7B%u578B'', ulit ''%u8981%u6C42'', ulit ''%u8BF4%u660E'']
       (map (\<lambda>(name, type, requirement, description, accepted). [name, type, requirement, description, accepted]) parameters)"

definition ProviderDocsUnavailable :: "jstr \<Rightarrow> jstr \<Rightarrow> doc_block list" where
  "ProviderDocsUnavailable providerID media =
     [LabelBlock (providerID @ ulit '' %u5C1A%u672A%u63D0%u4F9B'' @ media @ ulit ''%u6587%u6863%u9002%u914D%u5668'')
       (ulit ''%u5E73%u53F0%u5DF2%u7ECF%u6CE8%u518C%uFF0C%u4F46%u9700%u8981%u8865%u5145%u8BE5%u5A92%u4F53%u7C7B%u578B%u7684%u53C2%u6570%u8BF4%u660E%u540E%u624D%u4F1A%u5728%u6587%u6863%u548C%u6D4B%u8BD5%u4E2D%u5FC3%u5F00%u653E%u3002'')]"

section \<open>The overview\<close>

definition DeveloperOverview :: "jstr \<Rightarrow> doc_block list" where
  "DeveloperOverview origin =
     [HeadingBlock (lit ''Start Here'') (ulit ''%u5FEB%u901F%u5F00%u59CB'') (ulit ''%u51C6%u5907 API Key%uFF0C%u6240%u6709%u8BF7%u6C42%u90FD%u4F7F%u7528 Bearer Token%u3002''),
      CopyBlock (quickStartExample origin),
      LabelBlock (ulit ''%u9886%u53D6 API Key'') (ulit ''%u7BA1%u7406%u5458%u521B%u5EFA%u5BC6%u94A5%uFF0C%u5B8C%u6574%u503C%u53EA%u663E%u793A%u4E00%u6B21%u3002''),
      LabelBlock (ulit ''%u67E5%u8BE2%u6A21%u578B'') (ulit ''%u8C03%u7528 GET /v1/models%uFF0C%u786E%u8BA4%u5BC6%u94A5%u5141%u8BB8%u4F7F%u7528%u7684%u6A21%u578B%u3002''),
      LabelBlock (ulit ''%u63D0%u4EA4%u751F%u6210'') (ulit ''%u63D0%u4EA4%u751F%u6210%uFF0C%u5E76%u4E3A%u8BF7%u6C42%u8BBE%u7F6E%u552F%u4E00 Idempotency-Key%u3002''),
      LabelBlock (ulit ''%u8BFB%u53D6%u7ED3%u679C'') (ulit ''%u6240%u6709%u5A92%u4F53%u751F%u6210%u90FD%u8FD4%u56DE%u4EFB%u52A1%uFF1B%u6BCF 3 %u79D2%u67E5%u8BE2%u4E00%u6B21%u76F4%u5230%u7EC8%u6001%u3002''),
      HeadingBlock (lit ''Async Tasks'') (ulit ''%u5F02%u6B65%u4EFB%u52A1%u751F%u547D%u5468%u671F'') (ulit ''%u5F02%u6B65%u4EFB%u52A1%u521B%u5EFA%u6210%u529F%u8FD4%u56DE HTTP 202%uFF1B%u91CD%u590D%u7684%u5E42%u7B49%u8BF7%u6C42%u8FD4%u56DE%u539F%u4EFB%u52A1%u548C HTTP 200%u3002'')] @
     map (\<lambda>(status, meaning). LabelBlock status meaning) taskStates @
     [HeadingBlock [] (ulit ''%u521B%u5EFA%u4EFB%u52A1%u54CD%u5E94'') [], CodeBlock taskCreatedExample,
      LabelBlock (ulit ''%u8F6E%u8BE2%u4E0E%u53D6%u6D88'') (ulit ''%u6BCF 3 %u79D2%u67E5%u8BE2%u4E00%u6B21%u3002%u53EA%u6709 queued %u53EF%u53D6%u6D88%uFF1B%u8FDB%u5165 processing %u540E%u7EE7%u7EED%u67E5%u8BE2%u539F%u4EFB%u52A1%uFF0C%u4E0D%u8981%u91CD%u590D%u63D0%u4EA4%u3002''),
      HeadingBlock (lit ''Errors And Retries'') (ulit ''%u9519%u8BEF%u4E0E%u91CD%u8BD5'') (ulit ''%u975E 2xx %u54CD%u5E94%u7EDF%u4E00%u8FD4%u56DE error.message/type/code%u3002''),
      CodeBlock errorResponseExample,
      LabelBlock [] (ulit ''429%u3001503 %u548C%u7F51%u7EDC%u9519%u8BEF%u6309 Retry-After %u91CD%u8BD5%uFF0C%u5E76%u4FDD%u7559%u539F Idempotency-Key %u4E0E%u8BF7%u6C42%u4F53%u3002''),
      TableBlock [lit ''HTTP'', ulit ''%u9519%u8BEF%u7801'', ulit ''%u542B%u4E49'', ulit ''%u5BA2%u6237%u7AEF%u5904%u7406'']
        (map (\<lambda>(status, code, meaning, action). [status, code, meaning, action]) publicErrors)]"

section \<open>Images\<close>

text \<open>The query for the costs of the sizes: the rows and price versions of its answer, if there is one.\<close>

record matrix_query =
  mq_data :: "((jstr \<times> size_costs) list \<times> jstr list) option"
  mq_loading :: bool
  mq_error :: "jstr option"

definition size_cell :: "(rat \<Rightarrow> jstr) \<Rightarrow> jstr \<Rightarrow> matrix_query \<Rightarrow> jstr \<Rightarrow> jstr \<times> jstr" where
  "size_cell loc model q z =
     ImageSizeCost loc z model (map_of (costsBySize (map_option fst (mq_data q))) z) (mq_loading q)"

definition size_rows :: "(rat \<Rightarrow> jstr) \<Rightarrow> jstr \<Rightarrow> matrix_query \<Rightarrow> (jstr \<times> (jstr \<times> jstr) option list) list res" where
  "size_rows loc model q = (case obj_get imageSizeGroups model of
       Inr (Some groups) \<Rightarrow> Inr (map (\<lambda>group. (isg_ratio group,
         [if opt_str (isg_small group) \<noteq> [] then Some (size_cell loc model q (opt_str (isg_small group))) else None,
          Some (size_cell loc model q (isg_medium group)), Some (size_cell loc model q (isg_large group))])) groups)
     | _ \<Rightarrow> Inl TypeError)"

definition image_picker :: "jstr list \<Rightarrow> jstr \<Rightarrow> doc_block list res" where
  "image_picker models model =
     mapr (\<lambda>i. bindr (image_doc i) (\<lambda>d. Inr (ButtonBlock (id_name d) (id_role d) (i = model) False))) models"

definition image_facts :: "(rat \<Rightarrow> jstr) \<Rightarrow> ImageModelDoc \<Rightarrow> doc_block list" where
  "image_facts loc doc =
     [LabelBlock (ulit ''%u63D0%u793A%u8BCD%uFF1A'') (ulit ''%u6700%u591A '' @ loc (of_int (id_promptMax doc)) @ ulit '' %u4E2A Unicode %u5B57%u7B26''),
      LabelBlock (ulit ''%u8D28%u91CF%uFF1A'') (id_quality doc), LabelBlock (ulit ''%u5C3A%u5BF8%uFF1A'') (id_size doc),
      LabelBlock (ulit ''%u5355%u6B21%u8F93%u51FA%uFF1A'') (id_quantity doc)]"

definition image_toolbar :: "ImageEndpoint \<Rightarrow> GenerationRoute \<Rightarrow> doc_block list" where
  "image_toolbar endpoint route =
     [ButtonBlock (ulit ''%u6587%u751F%u56FE'') [] (endpoint = EndpointGeneration) False,
      ButtonBlock (ulit ''%u56FE%u751F%u56FE'') [] (endpoint = EndpointReference) False,
      CodeBlock (lit ''POST /v1/images/generations''), LinkBlock (playground_link (lit ''image'') route),
      LabelBlock (ulit ''%u8BA4%u8BC1'') (lit ''Authorization: Bearer $AIV2API_API_KEY''),
      LabelBlock (ulit ''%u8BF7%u6C42%u683C%u5F0F'') (if endpoint = EndpointGeneration then lit ''application/json'' else lit ''multipart/form-data''),
      LabelBlock (ulit ''%u54CD%u5E94'') (ulit ''%u5F02%u6B65 %u00B7 HTTP 202 Task'')]"

definition matrix_notes :: "matrix_query \<Rightarrow> doc_block list" where
  "matrix_notes q =
     (case mq_error q of None \<Rightarrow> [] | Some message \<Rightarrow> [ProblemBlock (ulit ''%u5C3A%u5BF8%u79EF%u5206%u52A0%u8F7D%u5931%u8D25%uFF1A'' @ message)]) @
     (case mq_data q of None \<Rightarrow> []
      | Some (rows, versions) \<Rightarrow> [LabelBlock [] (ulit ''%u5355%u5F20%u79EF%u5206%u6765%u81EA%u5F53%u524D%u8BA1%u4EF7%u63A5%u53E3 %u00B7 '' @ js_join (lit '' / '') versions)])"

text \<open>The component reads the tables of its model before it looks whether the provider has any.\<close>

definition image_page :: "(rat \<Rightarrow> jstr) \<Rightarrow> jstr \<Rightarrow> ImageEndpoint \<Rightarrow> jstr \<Rightarrow> matrix_query \<Rightarrow> doc_block list res" where
  "image_page loc providerID endpoint model q =
     (let availableModels = guideImageModels providerID in
      bindr (generationRoute model) (\<lambda>route.
      bindr (chatParametersForModel loc model) (\<lambda>chatParameters.
      bindr (size_rows loc model q) (\<lambda>sizes.
      bindr (imageParametersForModel loc model endpoint) (\<lambda>parameters.
      bindr (if endpoint = EndpointGeneration then asyncImageExample model else editExample model) (\<lambda>sample.
      bindr (asyncImageTaskResponseExample model) (\<lambda>responseExample.
      bindr (chatCompletionExample model) (\<lambda>chatSample.
      if availableModels = [] then Inr (ProviderDocsUnavailable providerID (ulit ''%u56FE%u50CF'')) else
      bindr (image_doc model) (\<lambda>doc.
      bindr (image_picker availableModels model) (\<lambda>picker.
      bindr (ProviderBadge (gr_provider route) []) (\<lambda>badge.
      bindr (obj_get imagePricingNotes model) (\<lambda>pricing.
      Inr (image_toolbar endpoint route @
        [HeadingBlock [] (ulit ''%u9009%u62E9%u6A21%u578B'') []] @ picker @
        [HeadingBlock (snd badge @ id_role doc) (id_name doc) (id_use doc),
         ListBlock (ulit ''%u9002%u5408'') (id_strengths doc), ListBlock (ulit ''%u6CE8%u610F'') (id_limits doc)] @
        image_facts loc doc @
        [HeadingBlock [] (ulit ''%u652F%u6301%u5C3A%u5BF8'') (ulit ''%u8868%u683C%u4E2D%u7684%u503C%u53EF%u76F4%u63A5%u4F20%u7ED9 size%u3002'' @ id_sizeNote doc),
         SizesBlock sizes (if opt_str (id_customSize doc) \<noteq> [] then id_customSize doc else None)] @
        matrix_notes q @
        [HeadingBlock [] (ulit ''%u79EF%u5206%u8BA1%u7B97'') (ulit ''POST /v1/images/estimate %u4E0E%u751F%u6210%u4EFB%u52A1%u5171%u7528%u540E%u7AEF%u6821%u9A8C%u548C%u8BA1%u4EF7%u51FD%u6570%uFF1B%u53EA%u8BA1%u7B97%uFF0C%u4E0D%u521B%u5EFA%u4EFB%u52A1%u3001%u4E0D%u6263%u79EF%u5206%u3002''),
         CalculatorBlock Image model, LabelBlock [] (opt_str pricing),
         HeadingBlock [] (ulit ''%u8BF7%u6C42%u793A%u4F8B'') (if endpoint = EndpointGeneration then ulit ''%u6587%u751F%u56FE%u4F7F%u7528 JSON'' else ulit ''%u53C2%u8003%u56FE%u4F7F%u7528 multipart''),
         CopyBlock sample,
         HeadingBlock [] (ulit ''%u6210%u529F%u54CD%u5E94%u793A%u4F8B'') (ulit ''%u8FD4%u56DE HTTP 202 Task%uFF1B%u901A%u8FC7 queue_position %u548C status %u8DDF%u8E2A%u6267%u884C%u72B6%u6001%u3002''),
         CopyBlock responseExample,
         HeadingBlock [] (ulit ''%u67E5%u8BE2%u4E0E%u53D6%u6D88'') (ulit ''%u6BCF 3 %u79D2%u67E5%u8BE2%u4E00%u6B21%uFF1B%u4EC5 queued %u72B6%u6001%u53EF%u53D6%u6D88%u3002''),
         CopyBlock imageTaskPollExample,
         HeadingBlock [] (ulit ''%u53C2%u6570'') (ulit ''%u4EC5%u663E%u793A%u5F53%u524D%u6A21%u578B%u548C%u63A5%u53E3%u652F%u6301%u7684%u5B57%u6BB5%u3002''), ParameterTable parameters,
         LabelBlock (ulit ''%u8BF4%u660E'') (ulit ''%u672A%u5217%u51FA%u7684%u5B57%u6BB5%u4F1A%u88AB%u62D2%u7EDD%u3002%u5F02%u6B65%u56FE%u7247%u53EA%u8FD4%u56DE URL%uFF1B%u900F%u660E%u80CC%u666F%u3001WebP%u3001mask %u548C%u6D41%u5F0F%u56FE%u7247%u6682%u672A%u5F00%u653E%u3002''),
         HeadingBlock [] (ulit ''Chat Completions %u517C%u5BB9%u5165%u53E3'')
           (ulit ''%u4F9B%u53EA%u652F%u6301 OpenAI Chat Completions %u7684%u56FE%u7247%u5BA2%u6237%u7AEF%u4F7F%u7528%uFF1B%u6700%u540E%u4E00%u6761 user %u6D88%u606F%u4F5C%u4E3A%u63D0%u793A%u8BCD%uFF0C%u53C2%u8003%u56FE%u4EC5%u63A5%u53D7 Base64 data URL%u3002''),
         CopyBlock chatSample, ParameterTable chatParameters,
         LabelBlock (ulit ''%u54CD%u5E94%u517C%u5BB9%u8BF4%u660E'')
           (ulit ''%u975E%u6D41%u5F0F%u54CD%u5E94%u5728 choices[0].message.content %u4E2D%u8FD4%u56DE Markdown %u56FE%u7247%u94FE%u63A5%uFF1Bstream=true %u8FD4%u56DE SSE%uFF0C%u5931%u8D25%u65F6%u5728 [DONE] %u524D%u8FD4%u56DE error %u5BF9%u8C61%u3002%u8FDC%u7A0B%u56FE%u7247 URL %u4E0D%u63A5%u53D7%uFF0C%u53EA%u63A5%u53D7%u4E00%u5F20 Base64 data URL%u3002'')])))))))))))))"

section \<open>Videos\<close>

definition video_picker :: "jstr list \<Rightarrow> jstr \<Rightarrow> doc_block list res" where
  "video_picker models model =
     mapr (\<lambda>i. bindr (video_doc i) (\<lambda>d. Inr (ButtonBlock (vd_name d) (vd_role d) (i = model) False))) models"

definition video_facts :: "(rat \<Rightarrow> jstr) \<Rightarrow> VideoModelDoc \<Rightarrow> doc_block list" where
  "video_facts loc doc =
     [LabelBlock (ulit ''%u63D0%u793A%u8BCD%uFF1A'') (ulit ''%u6700%u591A '' @ loc (of_int (vd_promptMax doc)) @ ulit '' %u4E2A Unicode %u5B57%u7B26''),
      LabelBlock (ulit ''%u53C2%u8003%u8F93%u5165%uFF1A'') (videoReferenceSummary doc),
      LabelBlock (ulit ''%u539F%u751F%u97F3%u9891%uFF1A'') (if always_audio doc then ulit ''%u56FA%u5B9A%u5F00%u542F''
        else if vd_supportsGenerateAudio doc then ulit ''%u9ED8%u8BA4%u5F00%u542F%uFF0C%u53EF%u5173%u95ED'' else ulit ''%u4E0D%u63D0%u4F9B%u5F00%u5173'')]"

definition template_buttons :: "VideoModelDoc \<Rightarrow> DocVideoMode \<Rightarrow> doc_block list" where
  "template_buttons doc mode = map (\<lambda>m. ButtonBlock (fst (videoModeDocs m)) (videoModeAvailability doc m)
     (mode = m) (\<not> supportsVideoMode doc m)) videoModes"

definition combination_notes :: "VideoModelDoc \<Rightarrow> doc_block list" where
  "combination_notes doc =
     [LabelBlock (if requires_frame doc then ulit ''Grok Imagine 1.5 %u53EA%u63A5%u53D7%u5FC5%u586B%u9996%u5E27'' else ulit ''%u53C2%u8003%u7D20%u6750%u53EF%u4EE5%u7EC4%u5408%uFF1B%u9996%u5C3E%u5E27%u8F93%u5165%u4E0E%u5176%u4ED6%u7D20%u6750%u4E92%u65A5'')
        (ulit ''API %u6CA1%u6709 mode %u5B57%u6BB5%uFF0C%u7CFB%u7EDF%u6839%u636E multipart %u4E2D%u5B9E%u9645%u51FA%u73B0%u7684%u6587%u4EF6%u5B57%u6BB5%u5224%u65AD%u7EC4%u5408%uFF1Bgenerate_audio %u53EA%u63A7%u5236%u8F93%u51FA%u539F%u751F%u97F3%u8F68%u3002''),
      LabelBlock (ulit ''%u53EF%u7EC4%u5408'') (ulit ''Seedance %u53EF%u540C%u65F6%u63D0%u4EA4%u53C2%u8003%u56FE%u3001%u53C2%u8003%u89C6%u9891%u548C%u53C2%u8003%u97F3%u9891%uFF1BMiniMax H3 %u53EF%u540C%u65F6%u63D0%u4EA4%u53C2%u8003%u56FE%u548C%u53C2%u8003%u97F3%u9891%u3002''),
      LabelBlock (ulit ''%u4E92%u65A5'') (ulit ''%u9996%u5E27%u6216%u5C3E%u5E27%u4E0D%u80FD%u4E0E%u666E%u901A%u53C2%u8003%u56FE%u3001%u53C2%u8003%u89C6%u9891%u3001%u53C2%u8003%u97F3%u9891%u540C%u65F6%u63D0%u4EA4%uFF1B%u5C3E%u5E27%u5FC5%u987B%u642D%u914D%u9996%u5E27%u3002''),
      LabelBlock (ulit ''%u97F3%u9891%u4F9D%u8D56'') (ulit ''Seedance %u53C2%u8003%u97F3%u9891%u5FC5%u987B%u642D%u914D%u53C2%u8003%u56FE%u6216%u53C2%u8003%u89C6%u9891%uFF1BMiniMax H3 %u5FC5%u987B%u642D%u914D%u666E%u901A%u53C2%u8003%u56FE%u3002''),
      LabelBlock (lit ''Grok Imagine 1.5'') (ulit ''%u53EA%u63A5%u53D7%u5FC5%u586B%u9996%u5E27%uFF0C%u4E0D%u652F%u6301%u65E0%u53C2%u8003%u3001%u5C3E%u5E27%u6216%u5176%u4ED6%u53C2%u8003%u7D20%u6750%u3002'')]"

definition mode_description :: "VideoModelDoc \<Rightarrow> DocVideoMode \<Rightarrow> jstr" where
  "mode_description doc mode = (if requires_frame doc \<and> mode = FrameTemplate
     then ulit ''%u4E0A%u4F20%u4E00%u5F20%u5FC5%u586B%u9996%u5E27%uFF0C%u5C06%u9759%u6001%u753B%u9762%u751F%u6210%u5E26%u8FD0%u52A8%u548C%u539F%u751F%u97F3%u9891%u7684%u89C6%u9891%u3002'' else snd (videoModeDocs mode))"

definition video_page :: "(rat \<Rightarrow> jstr) \<Rightarrow> (rat \<Rightarrow> jstr) \<Rightarrow> jstr \<Rightarrow> jstr \<Rightarrow> DocVideoMode \<Rightarrow> doc_block list res" where
  "video_page loc num providerID model mode =
     (let availableModels = guideVideoModels providerID in
      if availableModels = [] then Inr (ProviderDocsUnavailable providerID (ulit ''%u89C6%u9891'')) else
      bindr (generationRoute model) (\<lambda>route.
      bindr (video_doc model) (\<lambda>doc.
      bindr (videoParametersForMode loc num model doc mode) (\<lambda>parameters.
      bindr (videoModeExample model doc mode) (\<lambda>request.
      bindr (video_picker availableModels model) (\<lambda>picker.
      bindr (ProviderBadge (gr_provider route) []) (\<lambda>badge.
      let rules = videoModeRules num model doc mode; label = fst (videoModeDocs mode) in
      Inr ([HeadingBlock [] (ulit ''%u89C6%u9891%u751F%u6210'') [], CodeBlock (lit ''POST /v1/videos/generations''), LinkBlock (playground_link (lit ''video'') route),
         LabelBlock (ulit ''%u8BA4%u8BC1'') (lit ''Authorization: Bearer $AIV2API_API_KEY''), LabelBlock (ulit ''%u6267%u884C%u65B9%u5F0F'') (ulit ''%u5F02%u6B65%u4EFB%u52A1%uFF0CHTTP 202''),
         LabelBlock (ulit ''%u7ED3%u679C'') (ulit ''MP4 URL %u4E0E%u89C6%u9891%u5C3A%u5BF8''), HeadingBlock [] (ulit ''%u9009%u62E9%u6A21%u578B'') []] @ picker @
        [HeadingBlock (snd badge @ vd_role doc) (vd_name doc) (vd_use doc), LabelBlock (ulit ''%u65F6%u957F'') (vd_duration doc),
         LabelBlock (ulit ''%u5206%u8FA8%u7387'') (vd_resolution doc), ListBlock (ulit ''%u6CE8%u610F'') (vd_limits doc)] @
        video_facts loc doc @
        [HeadingBlock [] (ulit ''%u9009%u62E9%u8BF7%u6C42%u6A21%u677F'') (ulit ''%u6309%u94AE%u53EA%u5207%u6362%u793A%u4F8B%u548C%u53C2%u6570%u8868%uFF1BAPI %u6CA1%u6709 mode %u5B57%u6BB5%u3002'')] @ template_buttons doc mode @
        [LabelBlock (ulit ''%u8BF7%u6C42%u683C%u5F0F'') (mr_contentType rules), LabelBlock (ulit ''%u5FC5%u586B%u7D20%u6750'') (mr_requiredMedia rules),
         LabelBlock (ulit ''%u7EC4%u5408%u9650%u5236'') (mr_rule rules)] @
        combination_notes doc @
        [HeadingBlock [] (label @ ulit ''%u8BF7%u6C42%u793A%u4F8B'') (mode_description doc mode), CopyBlock request,
         HeadingBlock [] (label @ ulit ''%u53C2%u6570'') (ulit ''%u53EA%u5217%u5F53%u524D%u6A21%u578B%u5728%u6B64%u6A21%u5F0F%u4E0B%u5E94%u63D0%u4EA4%u7684%u5B57%u6BB5%u3002%u672A%u5217%u51FA%u7684%u7D20%u6750%u5B57%u6BB5%u4E0D%u8981%u63D0%u4EA4%u3002''),
         ParameterTable parameters,
         HeadingBlock [] (ulit ''%u79EF%u5206%u8BA1%u7B97'') (ulit ''%u9009%u62E9%u53C2%u6570%u5373%u53EF%u67E5%u770B%u4EFB%u52A1%u521B%u5EFA%u65F6%u7684%u9884%u7559%u79EF%u5206%u3002''), CalculatorBlock Video model,
         HeadingBlock [] (ulit ''%u67E5%u8BE2%u4E0E%u53D6%u6D88'') (ulit ''%u6BCF 3 %u79D2%u67E5%u8BE2%u4E00%u6B21%uFF1B%u6210%u529F%u540E%u4ECE result.data[0].url %u8BFB%u53D6 MP4%u3002''),
         CopyBlock videoPollExample]))))))))"

section \<open>Audio\<close>

definition audio_doc :: "jstr \<Rightarrow> AudioModelDoc res" where
  "audio_doc model = bindr (obj_get audioModelDocs model) (\<lambda>d. case d of
       None \<Rightarrow> Inl TypeError | Some doc \<Rightarrow> Inr doc)"

definition audio_page :: "(rat \<Rightarrow> jstr) \<Rightarrow> jstr \<Rightarrow> jstr \<Rightarrow> doc_block list res" where
  "audio_page loc providerID model =
     (if providerID \<noteq> lit ''leonardo'' then Inr (ProviderDocsUnavailable providerID (ulit ''%u97F3%u9891'')) else
      bindr (audioParametersForModel loc model) (\<lambda>parameters.
      bindr (audio_doc model) (\<lambda>doc.
      let request = audioGenerationExample model in
      Inr ([HeadingBlock [] (ulit ''%u97F3%u9891%u751F%u6210'') [], CodeBlock (lit ''POST /v1/audio/generations''), LinkBlock (audio_link model),
         LabelBlock (ulit ''%u8BA4%u8BC1'') (lit ''Authorization: Bearer $AIV2API_API_KEY''), LabelBlock (ulit ''%u6267%u884C%u65B9%u5F0F'') (ulit ''%u5F02%u6B65%u4EFB%u52A1%uFF0CHTTP 202''),
         LabelBlock (ulit ''%u7ED3%u679C'') (ulit ''%u97F3%u9891 URL %u4E0E%u65F6%u957F''), HeadingBlock [] (ulit ''%u9009%u62E9%u6A21%u578B'') []] @
        map (\<lambda>(i, d). ButtonBlock (ad_name d) (ad_role d) (i = model) False) audioModelDocs @
        [HeadingBlock (ad_role doc) (ad_name doc) (ad_use doc), LabelBlock (ulit ''%u9884%u4F30%u4EF7%u683C'') (ad_price doc),
         LabelBlock (ulit ''%u6267%u884C%u65B9%u5F0F'') (ulit ''%u521B%u5EFA%u540E%u6BCF 3 %u79D2%u8F6E%u8BE2%u4EFB%u52A1''), ListBlock (ulit ''%u9650%u5236'') (ad_limits doc),
         LabelBlock (ulit ''%u63D0%u793A%u8BCD%uFF1A'') (ulit ''%u6700%u591A '' @ loc (of_int (ad_promptMax doc)) @ ulit '' %u4E2A Unicode %u5B57%u7B26''),
         LabelBlock (ulit ''%u751F%u6210%u6570%u91CF%uFF1A'') (ulit ''%u6BCF%u6B21 1%u20134 %u6761''),
         HeadingBlock [] (ulit ''%u8BF7%u6C42%u793A%u4F8B'') (ulit ''%u793A%u4F8B%u53EA%u5305%u542B%u5F53%u524D%u6A21%u578B%u9700%u8981%u7684%u5B57%u6BB5%u3002''), CopyBlock request,
         HeadingBlock [] (ulit ''%u67E5%u8BE2%u4E0E%u53D6%u6D88'') (ulit ''%u6BCF 3 %u79D2%u67E5%u8BE2%u4E00%u6B21%uFF1B%u6210%u529F%u540E%u4ECE result.data[0].url %u8BFB%u53D6%u97F3%u9891%u3002''), CopyBlock audioPollExample,
         HeadingBlock [] (ulit ''%u53C2%u6570'') (ulit ''%u4EC5%u663E%u793A%u5F53%u524D%u6A21%u578B%u652F%u6301%u7684%u5B57%u6BB5%u3002''), ParameterTable parameters]))))"

section \<open>The whole guide\<close>

record GuideView =
  gv_overview :: "doc_block list"
  gv_title :: jstr
  gv_about :: jstr
  gv_switcher :: "SwitcherButton list"
  gv_problem :: "jstr option"
  gv_page :: "doc_block list"

definition media_page :: "(rat \<Rightarrow> jstr) \<Rightarrow> (rat \<Rightarrow> jstr) \<Rightarrow> matrix_query \<Rightarrow> jstr \<Rightarrow> DocsMedia \<Rightarrow> doc_block list res" where
  "media_page loc num q providerID page = (case page of
       ImageDocs endpoint model \<Rightarrow> image_page loc providerID endpoint model q
     | VideoDocs model mode \<Rightarrow> video_page loc num providerID model mode
     | AudioDocs model \<Rightarrow> audio_page loc providerID model)"

definition guide_view ::
    "(rat \<Rightarrow> jstr) \<Rightarrow> (rat \<Rightarrow> jstr) \<Rightarrow> jstr \<Rightarrow> matrix_query \<Rightarrow> Provider list option \<Rightarrow> jstr option \<Rightarrow> APIDocs \<Rightarrow> GuideView res" where
  "guide_view loc num origin q ps problem s =
     (let providerID = shown_provider ps (ad_params s); providers = nullish ps [] in
      bindr (providerDisplayName providerID providers) (\<lambda>name.
      bindr (providerDefinition providerID (current_provider ps (ad_params s))) (\<lambda>presentation.
      bindr (ProviderSwitcher providers providerID (Some (ad_media s)) False False False) (\<lambda>buttons.
      bindr (media_page loc num q providerID (ad_page s)) (\<lambda>page.
      Inr \<lparr>gv_overview = DeveloperOverview origin, gv_title = name @ ulit '' %u63A5%u53E3'',
        gv_about = pp_description presentation @ ulit ''%u3002%u521B%u5EFA%u8BF7%u6C42%u901A%u8FC7 model=%u5E73%u53F0/%u6A21%u578B %u81EA%u52A8%u8DEF%u7531%uFF0C%u540E%u7EED%u67E5%u8BE2%u548C%u53D6%u6D88%u53EA%u4F7F%u7528%u4EFB%u52A1 ID%u3002'',
        gv_switcher = buttons,
        gv_problem = map_option (\<lambda>m. ulit ''%u5E73%u53F0%u76EE%u5F55%u52A0%u8F7D%u5931%u8D25%uFF1A'' @ m) problem, gv_page = page\<rparr>)))))"

section \<open>Every page renders\<close>

lemma definition_total: "p \<notin> set object_prototype_keys \<Longrightarrow> \<exists>P. providerDefinition p q = Inr P"
  using providerDefinition_Inl_iff [of p q] by (cases "providerDefinition p q") auto

lemma badge_total: "p \<notin> set object_prototype_keys \<Longrightarrow> \<exists>b. ProviderBadge p qs = Inr b"
  using definition_total [of p "find (\<lambda>q. prov_id q = p) qs"] by (auto simp: ProviderBadge_def)

lemma name_total: "p \<notin> set object_prototype_keys \<Longrightarrow> \<exists>n. providerDisplayName p qs = Inr n"
  using definition_total [of p "find (\<lambda>q. prov_id q = p) qs"] by (auto simp: providerDisplayName_def)

lemma obj_get_total: "m \<notin> set object_prototype_keys \<Longrightarrow> \<exists>c. obj_get t m = Inr c"
  by (cases "map_of t m") (simp_all add: obj_get_def)

lemma route_total:
  assumes "modelProviderID m \<notin> set object_prototype_keys" "m \<notin> set object_prototype_keys"
  shows "\<exists>r. generationRoute m = Inr r \<and> gr_provider r = modelProviderID m"
proof -
  obtain P where P: "providerDefinition (modelProviderID m) None = Inr P" using definition_total [OF assms(1)] by blast
  obtain c where c: "obj_get (pp_modelAliases P) m = Inr c" using obj_get_total [OF assms(2)] by blast
  obtain d where d: "modelDisplayID m = Inr d" using modelDisplayID_Inl assms(2) by (metis obj_sumE)
  show ?thesis using P c d by (cases c) (simp_all add: generationRoute_def Let_def)
qed

text \<open>What the tables have of a documented image model.\<close>

lemma documented_image:
  assumes "m \<in> set (map fst imageModelDocs)"
  obtains doc groups where "image_doc m = Inr doc" "obj_get imageSizeGroups m = Inr (Some groups)"
    "m \<notin> set object_prototype_keys"
proof -
  have "map_of imageModelDocs m \<noteq> None" using assms by (simp add: map_of_eq_None_iff)
  then obtain doc where doc: "map_of imageModelDocs m = Some doc" by blast
  then have "m \<in> set (creativefabrica_image_models @ map fst baseImageModelDocs)"
    by (auto simp: imageModelDocs_lookup split: if_splits dest!: map_of_SomeD intro: rev_image_eqI)
  then have "map_of imageSizeGroups m \<noteq> None"
    by (auto simp: imageSizeGroups_lookup baseImageModelDocs_def)
  then obtain groups where g: "map_of imageSizeGroups m = Some groups" by blast
  show thesis
    by (rule that [of doc groups]) (use doc g image_size_tables(2) [OF g] in \<open>simp_all add: image_doc_def obj_get_own\<close>)
qed

lemma guide_image: "m \<in> set (guideImageModels p) \<Longrightarrow> m \<in> set (map fst imageModelDocs) \<and> modelProviderID m = p"
  by (simp add: guideImageModels_def modelsForProvider_def)

lemma image_page_renders:
  assumes m: "m \<in> set (map fst imageModelDocs)" "modelProviderID m \<notin> set object_prototype_keys"
  shows "\<exists>blocks route sample. image_page loc p endpoint m q = Inr blocks \<and> generationRoute m = Inr route \<and>
    (if endpoint = EndpointGeneration then asyncImageExample m else editExample m) = Inr sample \<and>
    (guideImageModels p \<noteq> [] \<longrightarrow> {CopyBlock sample, LinkBlock (playground_link (lit ''image'') route), CalculatorBlock Image m} \<subseteq> set blocks)"
proof -
  obtain doc groups where t: "image_doc m = Inr doc" "obj_get imageSizeGroups m = Inr (Some groups)"
    "m \<notin> set object_prototype_keys" using documented_image [OF m(1)] .
  obtain route where r: "generationRoute m = Inr route" "gr_provider route = modelProviderID m"
    using route_total [OF m(2) t(3)] by blast
  have "\<exists>picker. image_picker (guideImageModels p) m = Inr picker"
    unfolding image_picker_def
  proof (rule mapr_total)
    fix i assume "i \<in> set (guideImageModels p)"
    then obtain d where "image_doc i = Inr d" using documented_image [of i] guide_image [of i p] by blast
    then show "\<exists>y. bindr (image_doc i) (\<lambda>d. Inr (ButtonBlock (id_name d) (id_role d) (i = m) False)) = Inr y" by simp
  qed
  then obtain picker where picker: "image_picker (guideImageModels p) m = Inr picker" by blast
  obtain badge where badge: "ProviderBadge (gr_provider route) [] = Inr badge"
    using badge_total [OF m(2)] r(2) by metis
  obtain pricing where pricing: "obj_get imagePricingNotes m = Inr pricing"
    using obj_get_total [OF t(3)] by blast
  obtain sample where sample: "(if endpoint = EndpointGeneration then asyncImageExample m else editExample m) = Inr sample"
    by (cases endpoint) (simp_all add: asyncImageExample_def editExample_def r Let_def)
  obtain chat where chat: "chatParametersForModel loc m = Inr chat" by (simp add: chatParametersForModel_def r t)
  obtain sizes where sizes: "size_rows loc m q = Inr sizes" by (simp add: size_rows_def t)
  obtain parameters where parameters: "imageParametersForModel loc m endpoint = Inr parameters"
    by (simp add: imageParametersForModel_def r t)
  obtain response where response: "asyncImageTaskResponseExample m = Inr response"
    by (simp add: asyncImageTaskResponseExample_def r)
  obtain chatSample where chatSample: "chatCompletionExample m = Inr chatSample" by (simp add: chatCompletionExample_def r)
  show ?thesis
    using r(1) sample t(1) picker badge pricing chat sizes parameters response chatSample
    by (simp add: image_page_def Let_def image_toolbar_def)
qed

lemma guide_video:
  assumes "m \<in> set (guideVideoModels p)" "p \<noteq> []"
  shows "m \<notin> set object_prototype_keys" "modelProviderID m = p" "\<exists>spec. video_doc m = Inr spec"
proof -
  obtain spec where "map_of videoModelDocs m = Some spec" using listed_video_key [OF assms(1)] .
  then show "\<exists>spec. video_doc m = Inr spec" using video_doc_Some by blast
  show "modelProviderID m = p" using assms(1) by (simp add: guideVideoModels_def modelsForProvider_def)
  then show "m \<notin> set object_prototype_keys" using modelProviderID_prototype_iff assms(2) by auto
qed

lemma example_total:
  assumes doc: "map_of videoModelDocs m = Some spec" and r: "generationRoute m = Inr route"
  shows "\<exists>request. videoModeExample m spec mode = Inr request"
proof -
  have "doc_sizes spec \<noteq> []" using documented_ok [OF doc] by (auto simp: video_doc_ok_def sizes_ok_def)
  then obtain s ss where s: "doc_sizes spec = s # ss" by (cases "doc_sizes spec") auto
  then have "s \<in> set (doc_sizes spec)" by simp
  note z = template_resolutions [OF doc this]
  obtain entries where "example_fields m spec mode = Inr entries" using r s z(2) by (simp add: example_fields_def)
  then show ?thesis using r s z(1) by (simp add: videoModeExample_def)
qed

lemma video_page_renders:
  assumes p: "p \<noteq> []" "p \<notin> set object_prototype_keys" and m: "guideVideoModels p \<noteq> [] \<longrightarrow> m \<in> set (guideVideoModels p)"
  shows "\<exists>blocks. video_page loc num p m mode = Inr blocks \<and> (guideVideoModels p \<noteq> [] \<longrightarrow>
    (\<exists>route spec request. generationRoute m = Inr route \<and> video_doc m = Inr spec \<and> videoModeExample m spec mode = Inr request \<and>
      {CopyBlock request, LinkBlock (playground_link (lit ''video'') route), CalculatorBlock Video m} \<subseteq> set blocks))"
proof (cases "guideVideoModels p = []")
  case False
  with m have listed: "m \<in> set (guideVideoModels p)" by blast
  note g = guide_video [OF listed p(1)]
  obtain spec where doc: "map_of videoModelDocs m = Some spec" using listed_video_key [OF listed] .
  obtain route where r: "generationRoute m = Inr route" "gr_provider route = p" using route_total [of m] g(1,2) p(2) by auto
  obtain request where request: "videoModeExample m spec mode = Inr request" using example_total [OF doc r(1)] by blast
  have "\<exists>picker. video_picker (guideVideoModels p) m = Inr picker"
    unfolding video_picker_def
  proof (rule mapr_total)
    fix i assume "i \<in> set (guideVideoModels p)"
    then obtain d where "video_doc i = Inr d" using guide_video(3) p(1) by blast
    then show "\<exists>y. bindr (video_doc i) (\<lambda>d. Inr (ButtonBlock (vd_name d) (vd_role d) (i = m) False)) = Inr y" by simp
  qed
  then obtain picker where picker: "video_picker (guideVideoModels p) m = Inr picker" by blast
  obtain badge where badge: "ProviderBadge (gr_provider route) [] = Inr badge"
    using badge_total [OF p(2)] r(2) by metis
  obtain parameters where parameters: "videoParametersForMode loc num m spec mode = Inr parameters"
    by (simp add: videoParametersForMode_def r Let_def)
  show ?thesis
    using False r(1) request video_doc_Some [OF doc] picker badge parameters by (simp add: video_page_def Let_def)
qed (simp add: video_page_def)

lemma audio_page_renders:
  assumes "m \<in> fst ` set audioModelDocs"
  shows "\<exists>blocks. audio_page loc p m = Inr blocks \<and> (p = lit ''leonardo'' \<longrightarrow>
    {CopyBlock (audioGenerationExample m), LinkBlock (audio_link m)} \<subseteq> set blocks)"
proof -
  obtain d where "map_of audioModelDocs m = Some d" using assms by (metis map_of_eq_None_iff not_Some_eq)
  then show ?thesis by (simp add: audio_page_def audioParametersForModel_def audio_doc_def obj_get_own Let_def)
qed

lemma leonardo_plain: "lit ''leonardo'' \<notin> set object_prototype_keys"
  by (simp add: object_prototype_keys_def)

text \<open>What a page that has documents always offers: its request for copying and its link.\<close>

definition shows_request :: "DocsMedia \<Rightarrow> doc_block list \<Rightarrow> bool" where
  "shows_request page blocks = (case page of
       ImageDocs endpoint m \<Rightarrow> \<exists>route sample. generationRoute m = Inr route \<and>
         (if endpoint = EndpointGeneration then asyncImageExample m else editExample m) = Inr sample \<and>
         {CopyBlock sample, LinkBlock (playground_link (lit ''image'') route), CalculatorBlock Image m} \<subseteq> set blocks
     | VideoDocs m mode \<Rightarrow> \<exists>route spec request. generationRoute m = Inr route \<and> video_doc m = Inr spec \<and>
         videoModeExample m spec mode = Inr request \<and>
         {CopyBlock request, LinkBlock (playground_link (lit ''video'') route), CalculatorBlock Video m} \<subseteq> set blocks
     | AudioDocs m \<Rightarrow> {CopyBlock (audioGenerationExample m), LinkBlock (audio_link m)} \<subseteq> set blocks)"

definition plain_provider :: "Provider \<Rightarrow> bool" where
  "plain_provider p \<longleftrightarrow> prov_id p \<notin> set object_prototype_keys \<and> set (prov_capabilities p) \<inter> set object_prototype_keys = {}"

lemma switcher_total:
  assumes "\<forall>p \<in> set providers. plain_provider p"
  shows "\<exists>buttons. ProviderSwitcher providers v capability False includeDisabled narrow = Inr buttons"
proof -
  have "\<exists>b. switcher_button v narrow p = Inr b" if "p \<in> set (switcher_visible capability includeDisabled providers)" for p
  proof -
    have p: "plain_provider p" using that assms by (auto simp: switcher_visible_def)
    obtain P where "providerDefinition (prov_id p) (Some p) = Inr P" using definition_total p by (metis plain_provider_def)
    moreover have "\<exists>labels. mapr capability_label (prov_capabilities p) = Inr labels"
    proof (rule mapr_total)
      fix c assume "c \<in> set (prov_capabilities p)"
      then have "c \<notin> set object_prototype_keys" using p by (auto simp: plain_provider_def)
      from obj_get_total [OF this, of mediaLabels] show "\<exists>l. capability_label c = Inr l" by (auto simp: capability_label_def)
    qed
    ultimately show ?thesis by (auto simp: switcher_button_def providerCapabilityText_def)
  qed
  then have "\<exists>buttons. mapr (switcher_button v narrow) (switcher_visible capability includeDisabled providers) = Inr buttons"
    by (rule mapr_total)
  then show ?thesis by (auto simp: ProviderSwitcher_def)
qed

text \<open>C9: The guide never fails to render: whatever is done on it, and whatever the gateway answers to the cost
  query, every page it can get to is shown, as long as no provider is called like a property of
  Object.prototype. A page that has documents shows the request of the chosen model, endpoint and template for
  copying, and links to the playground.\<close>

theorem guide_always_renders:
  assumes s: "s = foldl (docs_step ps) (open_docs ps params) es"
    and p: "p = shown_provider ps (ad_params s)" "p \<notin> set object_prototype_keys"
    and ps: "\<forall>q \<in> set (nullish ps []). plain_provider q"
  shows "\<exists>view. guide_view loc num origin q ps problem s = Inr view \<and>
    (docs_available (ad_media s) p \<longrightarrow> shows_request (ad_page s) (gv_page view))"
proof -
  have "docs_ok ps s" unfolding s by (rule guide.ok_run [OF open_docs_ok]) (simp add: list_all_iff)
  then have ok: "ad_key s = (ad_media s, p)" "page_ok (ad_key s) (ad_page s)" unfolding docs_ok_def p(1) by blast+
  have "p \<noteq> []" unfolding p(1) by (rule shown_nonempty)
  obtain name where name: "providerDisplayName p (nullish ps []) = Inr name"
    using name_total [OF p(2)] by blast
  obtain presentation where presentation: "providerDefinition p (current_provider ps (ad_params s)) = Inr presentation"
    using definition_total [OF p(2)] by blast
  obtain buttons where buttons: "ProviderSwitcher (nullish ps []) p (Some (ad_media s)) False False False = Inr buttons"
    using switcher_total [OF ps] by blast
  have "\<exists>blocks. media_page loc num q p (ad_page s) = Inr blocks \<and>
      (docs_available (ad_media s) p \<longrightarrow> shows_request (ad_page s) blocks)"
  proof (cases "ad_page s")
    case (ImageDocs endpoint m)
    have m: "m \<in> set (map fst imageModelDocs)" "modelProviderID m \<notin> set object_prototype_keys"
    proof -
      have gpt: "lit ''gpt-image-2'' \<in> set (map fst imageModelDocs)" "modelProviderID (lit ''gpt-image-2'') = lit ''leonardo''"
      proof -
        have "map_of imageModelDocs (lit ''gpt-image-2'') \<noteq> None"
          by (simp add: imageModelDocs_lookup creativefabrica_image_models_def baseImageModelDocs_def)
        then show "lit ''gpt-image-2'' \<in> set (map fst imageModelDocs)" by (simp add: map_of_eq_None_iff)
        show "modelProviderID (lit ''gpt-image-2'') = lit ''leonardo''"
          using leonardo_listed_as [of "lit ''gpt-image-2''"] by (simp add: listed_as_def provider_models_def leonardo_def)
      qed
      show "m \<in> set (map fst imageModelDocs)" "modelProviderID m \<notin> set object_prototype_keys"
        using ok ImageDocs p(2) gpt guide_image [of m p] leonardo_plain by (auto simp: page_ok_def split: if_splits)
    qed
    from image_page_renders [OF m, of loc p endpoint q] ok show ?thesis
      by (auto simp: media_page_def ImageDocs shows_request_def page_ok_def docs_available_def)
  next
    case (VideoDocs m mode)
    with ok have "guideVideoModels p \<noteq> [] \<longrightarrow> m \<in> set (guideVideoModels p)" by (simp add: page_ok_def)
    from video_page_renders [OF \<open>p \<noteq> []\<close> p(2) this, of loc num mode] ok show ?thesis
      by (auto simp: media_page_def VideoDocs shows_request_def page_ok_def docs_available_def)
  next
    case (AudioDocs m)
    with ok have "m \<in> fst ` set audioModelDocs" by (simp add: page_ok_def)
    from audio_page_renders [OF this, of loc p] ok show ?thesis
      by (auto simp: media_page_def AudioDocs shows_request_def page_ok_def docs_available_def)
  qed
  then obtain blocks where "media_page loc num q p (ad_page s) = Inr blocks"
    "docs_available (ad_media s) p \<longrightarrow> shows_request (ad_page s) blocks" by blast
  with name presentation buttons show ?thesis by (simp add: guide_view_def Let_def p(1) [symmetric])
qed

theorem guide_always_renders_witness:
  "\<exists>view. guide_view (\<lambda>_. []) (\<lambda>_. []) [] \<lparr>mq_data = None, mq_loading = True, mq_error = None\<rparr> None None
     (open_docs None []) = Inr view"
proof -
  define s where "s = open_docs None []"
  have "shown_provider None (ad_params s) = lit ''leonardo''"
    by (simp add: s_def open_docs_def shown_provider_def requested_provider_def provider_id_of_def or_str_def Let_def
        param_get_def normal_id_def to_lower_def)
  then show ?thesis
    using guide_always_renders [of s None "[]" "[]", OF _ refl] leonardo_plain by (fastforce simp: s_def)
qed

end
