(* ===== verification/AccountSheet.thy ===== *)
theory AccountSheet
  imports AccountForm Mutation
begin

text \<open>
  The account dialog of pages/account-pages.tsx around its form: the controls of an existing account, the
  providers it loads, the request it sends and its answer, and what it shows. \<open>loc\<close> is \<open>toLocaleString\<close>.
\<close>

section \<open>The controls of an existing account\<close>

text \<open>
  Provider and authentication cannot be changed, the fields of a new account's credentials are not there;
  a password can be entered for the platforms that log in with one, a worker group for Leonardo.
\<close>

definition edits_password :: "Account \<Rightarrow> bool" where
  "edits_password a \<longleftrightarrow> acc_provider_id a = lit ''leonardo'' \<or> acc_provider_id a = lit ''creativefabrica''"

fun edit_step :: "Account \<Rightarrow> AccountForm \<Rightarrow> form_event \<Rightarrow> AccountForm" where
  "edit_step a v (ChooseProvider _) = v"
| "edit_step a v (ChooseAuth _) = v"
| "edit_step a v (TypePassword s) = (if edits_password a then v\<lparr>af_password := s\<rparr> else v)"
| "edit_step a v (TypeOtp _) = v"
| "edit_step a v (TypeToken _) = v"
| "edit_step a v (TypeConcurrency n) = setConcurrency (Some a) (or_num n 1) v"
| "edit_step a v FewerConcurrency =
     (if af_image_concurrency v \<le> 1 then v else setConcurrency (Some a) (af_image_concurrency v - 1) v)"
| "edit_step a v MoreConcurrency =
     (if concurrencyMaximum (Some a) v \<le> af_image_concurrency v then v
      else setConcurrency (Some a) (af_image_concurrency v + 1) v)"
| "edit_step a v (TypeWorkerGroup s) =
     (if af_provider_id v = lit ''leonardo'' then v\<lparr>af_browser_worker_group := s\<rparr> else v)"
| "edit_step a v e = form_step v e"

section \<open>The dialog\<close>

text \<open>\<open>sh_account\<close> is the account that is edited; the providers are there once they have been loaded.\<close>

record AccountSheet =
  sh_account :: "Account option"
  sh_dialog :: AccountDialog
  sh_providers :: "Provider list option"
  sh_problem :: bool
  sh_hook :: "((jstr \<times> jstr \<times> json), unit) mutation"
  sh_done :: bool

definition open_sheet :: "Account option \<Rightarrow> AccountSheet" where
  "open_sheet account =
     \<lparr>sh_account = account, sh_dialog = \<lparr>dlg_form = initial_form account, dlg_reads = []\<rparr>,
      sh_providers = None, sh_problem = False, sh_hook = new_mutation, sh_done = False\<rparr>"

definition sh_form :: "AccountSheet \<Rightarrow> AccountForm" where
  "sh_form s = dlg_form (sh_dialog s)"

definition sheet_selected :: "AccountSheet \<Rightarrow> Provider option" where
  "sheet_selected s = find (\<lambda>p. prov_id p = af_provider_id (sh_form s)) (nullish (sh_providers s) [])"

definition sheet_request :: "AccountSheet \<Rightarrow> jstr \<times> jstr \<times> json" where
  "sheet_request s = (case sh_account s of
       Some a \<Rightarrow> (lit ''PATCH'', lit ''/admin/api/accounts/'' @ acc_id a, JObj (request_body (sh_account s) (sh_form s)))
     | None \<Rightarrow> (lit ''POST'', lit ''/admin/api/accounts'', JObj (request_body None (sh_form s))))"

definition sheet_can_submit :: "AccountSheet \<Rightarrow> bool" where
  "sheet_can_submit s \<longleftrightarrow> canSubmit (sh_account s) (sheet_selected s \<noteq> None) (sh_form s) \<and> \<not> is_pending (sh_hook s)"

datatype sheet_event =
  SheetControl dialog_event
| ProvidersLoaded "Provider list"
| ProvidersFailed
| SubmitSheet
| SheetAnswered nat "jstr option"

text \<open>\<open>done\<close> closes the dialog and refreshes the lists.\<close>

fun sheet_step :: "AccountSheet \<Rightarrow> sheet_event \<Rightarrow> AccountSheet" where
  "sheet_step s (SheetControl e) = (case sh_account s of
       None \<Rightarrow> s\<lparr>sh_dialog := dialog_step (sh_dialog s) e\<rparr>
     | Some a \<Rightarrow> (case e of
         Control c \<Rightarrow> s\<lparr>sh_dialog := (sh_dialog s)\<lparr>dlg_form := edit_step a (sh_form s) c\<rparr>\<rparr>
       | _ \<Rightarrow> s))"
| "sheet_step s (ProvidersLoaded ps) = s\<lparr>sh_providers := Some ps, sh_problem := False\<rparr>"
| "sheet_step s ProvidersFailed = s\<lparr>sh_problem := True\<rparr>"
| "sheet_step s SubmitSheet = (if sheet_can_submit s then s\<lparr>sh_hook := mutate (sheet_request s) (sh_hook s)\<rparr> else s)"
| "sheet_step s (SheetAnswered n err) =
     (case mu_state (sh_hook s) of
        MutationPending k r \<Rightarrow> if k \<noteq> n then s
          else s\<lparr>sh_hook := settle_mutation n (case err of Some m \<Rightarrow> Inl m | None \<Rightarrow> Inr ()) (sh_hook s),
                 sh_done := (err = None \<or> sh_done s)\<rparr>
      | _ \<Rightarrow> s)"

section \<open>What the dialog shows\<close>

text \<open>A platform: its name, how it logs in and what it counts, whether it is the chosen one, can be chosen, and its mark.\<close>

record ProviderChoice =
  pch_name :: jstr
  pch_about :: jstr
  pch_selected :: bool
  pch_disabled :: bool
  pch_state :: jstr

definition provider_available :: "Provider \<Rightarrow> bool" where
  "provider_available p \<longleftrightarrow> prov_enabled p \<and> prov_adapter_registered p \<noteq> Some False"

definition provider_choices :: "AccountSheet \<Rightarrow> ProviderChoice list" where
  "provider_choices s = map (\<lambda>p.
     \<lparr>pch_name = prov_display_name p, pch_about = authLabel (prov_auth_type p) @ ulit '' %u00B7 '' @ creditLabel (prov_credit_unit p),
      pch_selected = (prov_id p = af_provider_id (sh_form s)),
      pch_disabled = (sh_account s \<noteq> None \<or> \<not> provider_available p),
      pch_state = (if provider_available p then if prov_id p = af_provider_id (sh_form s) then ulit ''%u5DF2%u9009'' else [] else ulit ''%u672A%u5F00%u653E'')\<rparr>)
     (nullish (sh_providers s) [])"

definition providers_note :: "AccountSheet \<Rightarrow> jstr option" where
  "providers_note s = (if sh_problem s then Some (ulit ''%u6E20%u9053%u914D%u7F6E%u52A0%u8F7D%u5931%u8D25%uFF0C%u8BF7%u91CD%u8BD5%u3002'')
     else if sheet_selected s = None then Some (ulit ''%u6B63%u5728%u52A0%u8F7D%u6E20%u9053%u914D%u7F6E%u2026'') else None)"

text \<open>The ways to log in of a new account: hint, login page, and the methods with text, hint and tag.\<close>

definition auth_section :: "AccountSheet \<Rightarrow> (jstr \<times> jstr \<times> (AccountAuthMethod \<times> jstr \<times> jstr \<times> jstr) list) option" where
  "auth_section s = (if sh_account s \<noteq> None then None else case map_option prov_id (sheet_selected s) of
       None \<Rightarrow> None
     | Some p \<Rightarrow>
         if p = lit ''leonardo'' then Some (ulit ''%u5B8C%u6574 Cookie %u662F%u4E3B%u51ED%u636E%uFF1B%u8D26%u53F7%u5BC6%u7801%u53EA%u5728 Cookie %u6062%u590D%u5931%u8D25%u65F6%u4F5C%u4E3A%u8F85%u52A9%u3002'', lit ''https://app.leonardo.ai/auth/login'',
           [(CompleteCookie, ulit ''%u5B8C%u6574 Cookie'', ulit ''%u5BFC%u5165%u6D4F%u89C8%u5668 Cookie JSON%uFF0C%u76F4%u63A5%u6062%u590D%u5E73%u53F0%u4F1A%u8BDD'', ulit ''%u63A8%u8350''),
            (CompleteCookiePassword, ulit ''Cookie + %u5BC6%u7801%u6062%u590D'', ulit ''%u4FDD%u7559%u90AE%u7BB1%u5BC6%u7801%uFF0C%u5FC5%u8981%u65F6%u7531%u6D4F%u89C8%u5668%u91CD%u65B0%u767B%u5F55'', [])])
         else if p = lit ''adobe'' then Some (ulit ''Access Token %u53EF%u7ACB%u5373%u4F7F%u7528%uFF1B%u5B8C%u6574 Cookie %u4F1A%u5728 AT %u5230%u671F%u524D%u81EA%u52A8%u7EED%u671F%u3002'', lit ''https://firefly.adobe.com/'',
           [(AccessToken, lit ''Access Token'', ulit ''%u76F4%u63A5%u6821%u9A8C Profile%u3001%u79EF%u5206%u548C%u6A21%u578B%u4EF7%u683C%uFF0C%u6709%u6548%u671F%u901A%u5E38%u7EA6 24 %u5C0F%u65F6'', ulit ''%u7ACB%u5373%u63A5%u5165''),
            (CompleteCookie, ulit ''%u5B8C%u6574 Cookie'', ulit ''%u52A0%u5BC6%u4FDD%u5B58 Cookie JSON%uFF0C%u7531 Go worker %u81EA%u52A8%u6362%u53D6%u65B0 AT'', ulit ''%u957F%u671F%u63A8%u8350'')])
         else if p = lit ''creativefabrica'' then Some (ulit ''%u5B8C%u6574 Cookie %u4F18%u5148%uFF1B%u4E5F%u53EF%u4EE5%u4F7F%u7528%u90AE%u7BB1%u5BC6%u7801%u767B%u5F55%uFF0C%u9047%u5230%u90AE%u7BB1%u9A8C%u8BC1%u65F6%u586B%u5199%u4E00%u6B21%u6027%u9A8C%u8BC1%u7801%u3002'', lit ''https://studio.creativefabrica.com/'',
           [(CompleteCookie, ulit ''%u5B8C%u6574 Cookie'', ulit ''%u5BFC%u5165 Studio Cookie JSON%uFF0C%u5E76%u4FDD%u5B58 ST%u3001AT/RPC %u7B49%u6D3E%u751F%u51ED%u636E'', ulit ''%u63A8%u8350''),
            (CompleteCookiePassword, ulit ''Cookie + %u5BC6%u7801%u6062%u590D'', ulit ''%u4FDD%u7559%u90AE%u7BB1%u5BC6%u7801%uFF0CCookie %u5931%u6548%u540E%u53EF%u56DE%u9000%u5230%u81EA%u52A8%u767B%u5F55'', []),
            (EmailPassword, ulit ''%u90AE%u7BB1%u5BC6%u7801%u767B%u5F55'', ulit ''%u9996%u6B21%u767B%u5F55%u901A%u8FC7%u90AE%u7BB1%u9A8C%u8BC1%u7801%u5EFA%u7ACB Studio %u4F1A%u8BDD'', [])])
         else None)"

text \<open>The section of the account and its credentials: whether it is there, its hint, and its fields.\<close>

definition selected_id :: "AccountSheet \<Rightarrow> jstr option" where
  "selected_id s = map_option prov_id (sheet_selected s)"

definition shows_account_fields :: "AccountSheet \<Rightarrow> bool" where
  "shows_account_fields s \<longleftrightarrow> sh_account s \<noteq> None \<or>
     selected_id s \<in> {Some (lit ''leonardo''), Some (lit ''adobe''), Some (lit ''creativefabrica'')}"

definition account_hint :: "AccountSheet \<Rightarrow> jstr" where
  "account_hint s = (case sh_account s of
       Some a \<Rightarrow>
         if acc_provider_id a = lit ''adobe'' then ulit ''Adobe %u51ED%u636E%u901A%u8FC7%u5217%u8868%u4E2D%u7684 Cookie %u5BFC%u5165%u64CD%u4F5C%u66F4%u65B0%uFF1B%u8FD9%u91CC%u4EC5%u8C03%u6574%u8D26%u53F7%u548C%u8DEF%u7531%u914D%u7F6E%u3002''
         else if acc_has_login_credentials a then ulit ''%u81EA%u52A8%u767B%u5F55%u5DF2%u914D%u7F6E%uFF1B%u7559%u7A7A%u5BC6%u7801%u4FDD%u6301%u4E0D%u53D8%u3002'' else ulit ''%u8865%u5F55%u5BC6%u7801%u540E%u53EF%u5728 Cookie %u5931%u6548%u65F6%u81EA%u52A8%u91CD%u65B0%u767B%u5F55%u3002''
     | None \<Rightarrow>
         if selected_id s = Some (lit ''adobe'') \<and> af_auth_method (sh_form s) = AccessToken
         then ulit ''AT %u53EA%u4F1A%u52A0%u5BC6%u4FDD%u5B58%uFF1B%u521B%u5EFA%u65F6%u540C%u6B65%u8BFB%u53D6 Adobe Profile%u3001%u4F59%u989D%u4E0E BKS %u4EF7%u683C%u3002''
         else if selected_id s = Some (lit ''adobe'') then ulit ''%u4E0A%u4F20 Adobe %u57DF%u540D%u7684%u5B8C%u6574 Cookie JSON%uFF0C%u521B%u5EFA%u65F6%u76F4%u63A5%u6362%u53D6%u5E76%u9A8C%u8BC1 AT%u3002''
         else if selected_id s = Some (lit ''creativefabrica'') \<and> isPasswordMethod (sh_form s)
         then ulit ''%u90AE%u7BB1%u548C%u5BC6%u7801%u53EA%u5728%u670D%u52A1%u7AEF%u52A0%u5BC6%u4FDD%u5B58%uFF1B%u5982%u679C%u9996%u6B21%u767B%u5F55%u89E6%u53D1%u90AE%u7BB1%u9A8C%u8BC1%uFF0C%u586B%u5199%u9A8C%u8BC1%u7801%u540E%u91CD%u65B0%u63D0%u4EA4%u3002''
         else if selected_id s = Some (lit ''creativefabrica'') then ulit ''%u4E0A%u4F20 Creative Fabrica %u57DF%u540D%u7684%u5B8C%u6574 Cookie JSON%uFF1B%u670D%u52A1%u7AEF%u4F1A%u6362%u53D6%u5E76%u4FDD%u5B58 ST%u3001AT/RPC %u7B49%u6D3E%u751F%u51ED%u636E%u3002''
         else if af_auth_method (sh_form s) = CompleteCookiePassword then ulit ''Cookie JSON %u4E0E%u8F85%u52A9%u767B%u5F55%u5BC6%u7801%u4F1A%u5206%u522B%u52A0%u5BC6%u4FDD%u5B58%uFF0C%u4E0D%u4F1A%u5728%u5217%u8868%u4E2D%u56DE%u663E%u3002''
         else ulit ''%u4E0A%u4F20%u5B8C%u6574 Cookie JSON%uFF1B%u8D26%u53F7%u540D%u79F0%u7528%u4E8E%u8FD0%u8425%u8BC6%u522B%u3002'')"

text \<open>The password field, if it is there: its label, placeholder and whether it is required.\<close>

definition password_field :: "AccountSheet \<Rightarrow> (jstr \<times> jstr \<times> bool) option" where
  "password_field s = (case sh_account s of
       Some a \<Rightarrow> if edits_password a then Some (ulit ''%u65B0%u767B%u5F55%u5BC6%u7801'', ulit ''%u7559%u7A7A%u8868%u793A%u4E0D%u4FEE%u6539'', False) else None
     | None \<Rightarrow> if shows_account_fields s \<and> requiresPassword None (sh_form s) then Some (ulit ''%u8F85%u52A9%u767B%u5F55%u5BC6%u7801'',
         (if af_provider_id (sh_form s) = lit ''creativefabrica'' then ulit ''%u7528%u4E8E%u90AE%u7BB1%u5BC6%u7801%u767B%u5F55%u6216 Cookie %u5931%u6548%u540E%u7684%u6062%u590D'' else ulit ''%u4EC5%u7528%u4E8E Cookie %u5931%u6548%u540E%u7684%u6D4F%u89C8%u5668%u6062%u590D''), True)
       else None)"

definition shows_otp :: "AccountSheet \<Rightarrow> bool" where
  "shows_otp s \<longleftrightarrow> sh_account s = None \<and> selected_id s = Some (lit ''creativefabrica'') \<and> af_auth_method (sh_form s) = EmailPassword"

definition shows_token :: "AccountSheet \<Rightarrow> bool" where
  "shows_token s \<longleftrightarrow> sh_account s = None \<and> selected_id s = Some (lit ''adobe'') \<and> af_auth_method (sh_form s) = AccessToken"

text \<open>The field for a cookie file: its name, what it says and its action.\<close>

definition cookie_field :: "AccountSheet \<Rightarrow> (jstr \<times> jstr \<times> jstr) option" where
  "cookie_field s = (if sh_account s \<noteq> None \<or> \<not> shows_account_fields s \<or> \<not> isCookieMethod (sh_form s) then None
     else Some (or_str (af_cookie_file_name (sh_form s)) (ulit ''%u9009%u62E9%u5B8C%u6574 Cookie JSON''),
       (if truthy (af_cookie_json (sh_form s)) then
          if selected_id s = Some (lit ''adobe'') then ulit ''%u6587%u4EF6%u5DF2%u8BFB%u53D6%uFF0C%u63D0%u4EA4%u540E%u4F1A%u76F4%u63A5%u6362%u53D6%u5E76%u9A8C%u8BC1 AT''
          else if selected_id s = Some (lit ''creativefabrica'') then ulit ''%u6587%u4EF6%u5DF2%u8BFB%u53D6%uFF0C%u63D0%u4EA4%u540E%u4F1A%u6362%u53D6%u5E76%u9A8C%u8BC1 ST%u3001AT/RPC''
          else ulit ''%u6587%u4EF6%u5DF2%u8BFB%u53D6%uFF0C%u63D0%u4EA4%u540E%u4F1A%u5728%u6D4F%u89C8%u5668%u4E2D%u9A8C%u8BC1''
        else ulit ''Chrome/Patchright %u5BFC%u51FA%u7684 '' @ (if selected_id s = Some (lit ''adobe'') then lit ''Adobe''
          else if selected_id s = Some (lit ''creativefabrica'') then lit ''Creative Fabrica'' else lit ''Leonardo'') @ ulit '' Cookie %u6570%u7EC4%uFF0C%u652F%u6301 .json''),
       (if truthy (af_cookie_json (sh_form s)) then ulit ''%u91CD%u65B0%u9009%u62E9'' else ulit ''%u9009%u62E9%u6587%u4EF6'')))"

text \<open>The steppers of the capacities: whether the buttons for less and for more are disabled.\<close>

definition capacity_steppers :: "AccountSheet \<Rightarrow> (jstr \<times> bool \<times> bool) list" where
  "capacity_steppers s = (let v = sh_form s in
     [(ulit ''%u89C6%u9891%u4FDD%u7559%u69FD%u4F4D'', af_video_reserved_slots v \<le> 0, af_image_concurrency v \<le> af_video_reserved_slots v),
      (ulit ''%u8D26%u53F7%u6700%u5927%u5E76%u53D1'', af_image_concurrency v \<le> 1, concurrencyMaximum (sh_account s) v \<le> af_image_concurrency v),
      (ulit ''%u7B49%u5F85%u961F%u5217%u957F%u5EA6'', af_queue_capacity v \<le> 1, 1000 \<le> af_queue_capacity v)])"

definition of_platform :: "jstr \<Rightarrow> AccountSheet \<Rightarrow> bool" where
  "of_platform p s \<longleftrightarrow> selected_id s = Some p \<or> map_option acc_provider_id (sh_account s) = Some p"

definition capacity_help :: "AccountSheet \<Rightarrow> jstr" where
  "capacity_help s = (if of_platform (lit ''adobe'') s then ulit ''Adobe %u56FE%u7247%u548C%u89C6%u9891%u5171%u7528%u69FD%u4F4D%uFF1B%u652F%u6301 1%u2013100%uFF0C%u7528%u4E8E%u9A8C%u8BC1%u771F%u5B9E%u4E0A%u6E38%u5E76%u53D1%u80FD%u529B%u3002''
     else ulit ''%u56FE%u7247%u3001%u89C6%u9891%u3001%u97F3%u9891%u5171%u7528%u8BE5%u8D26%u53F7%u7684%u751F%u6210%u69FD%u4F4D%uFF1B%u8303%u56F4 1%u20135%uFF0C%u4E0E BASIC %u5B9E%u6D4B%u4E0A%u9650%u4E00%u81F4%u3002'')"

definition routing_summary :: "(rat \<Rightarrow> jstr) \<Rightarrow> (rat \<Rightarrow> jstr) \<Rightarrow> AccountForm \<Rightarrow> (jstr \<times> jstr) list" where
  "routing_summary loc num v =
     [(ulit ''%u5E76%u53D1%u69FD%u4F4D'', num (af_image_concurrency v)), (ulit ''%u7B49%u5F85%u961F%u5217'', num (af_queue_capacity v)),
      (ulit ''%u603B%u627F%u8F7D'', num (af_image_concurrency v + af_queue_capacity v)),
      (ulit ''%u8DEF%u7531%u7B56%u7565'', if af_routing_role v = lit ''video_reserved'' then ulit ''%u89C6%u9891%u4F18%u5148'' else lit ''Best-Fit''),
      (ulit ''%u4FDD%u62A4%u79EF%u5206'', loc (af_protected_tokens v))]"

definition sheet_note :: "AccountSheet \<Rightarrow> jstr" where
  "sheet_note s = (if sh_account s \<noteq> None then ulit ''%u964D%u4F4E%u5BB9%u91CF%u65F6%u4E0D%u80FD%u5C0F%u4E8E%u5F53%u524D%u6267%u884C%u6216%u6392%u961F%u4EFB%u52A1%u6570''
     else if selected_id s = Some (lit ''adobe'') then ulit ''%u521B%u5EFA%u65F6%u9A8C%u8BC1 Profile%u3001%u79EF%u5206%u4F59%u989D%u548C%u5B9E%u65F6%u4EF7%u683C%uFF0C%u4E0D%u4F1A%u63D0%u4EA4%u751F%u6210%u4EFB%u52A1'' else ulit ''%u521B%u5EFA%u65F6%u9A8C%u8BC1%u767B%u5F55%u548C%u4F59%u989D'')"

text \<open>The submit button: its text and whether it is disabled; and the message of a request that failed.\<close>

definition submit_button :: "AccountSheet \<Rightarrow> jstr \<times> bool" where
  "submit_button s =
     ((if is_pending (sh_hook s) then if sh_account s \<noteq> None then ulit ''%u4FDD%u5B58%u4E2D%u2026'' else ulit ''%u6B63%u5728%u9A8C%u8BC1%u2026''
       else if sh_account s \<noteq> None then ulit ''%u4FDD%u5B58%u4FEE%u6539'' else ulit ''%u6DFB%u52A0%u5E76%u9A8C%u8BC1''),
      \<not> sheet_can_submit s)"

definition sheet_error :: "AccountSheet \<Rightarrow> jstr option" where
  "sheet_error s = (case mu_state (sh_hook s) of MutationError m \<Rightarrow> Some m | _ \<Rightarrow> None)"

section \<open>Lemmas\<close>

text \<open>What holds of the form of an existing account, and of the request it is waiting for.\<close>

definition edit_ok :: "Account \<Rightarrow> AccountForm \<Rightarrow> bool" where
  "edit_ok a v \<longleftrightarrow> (af_password v \<noteq> [] \<longrightarrow> edits_password a) \<and> af_provider_id v = or_str (acc_provider_id a) (lit ''leonardo'')"

definition edit_request_ok :: "Account \<Rightarrow> jstr \<times> jstr \<times> json \<Rightarrow> bool" where
  "edit_request_ok a r \<longleftrightarrow> (\<exists>v selected. r = (lit ''PATCH'', lit ''/admin/api/accounts/'' @ acc_id a, JObj (request_body (Some a) v)) \<and>
     edit_ok a v \<and> canSubmit (Some a) selected v)"

lemma edit_ok_updates:
  "edit_ok a (setConcurrency account n v) = edit_ok a v" "edit_ok a (setQueueCapacity n v) = edit_ok a v"
  "edit_ok a (setRoutingRole b v) = edit_ok a v" "edit_ok a (v\<lparr>af_protected_tokens := n\<rparr>) = edit_ok a v"
  "edit_ok a (v\<lparr>af_video_reserved_slots := n\<rparr>) = edit_ok a v" "edit_ok a (v\<lparr>af_name := s\<rparr>) = edit_ok a v"
  "edit_ok a (v\<lparr>af_email := s\<rparr>) = edit_ok a v" "edit_ok a (v\<lparr>af_proxy_url := s\<rparr>) = edit_ok a v"
  "edit_ok a (v\<lparr>af_browser_worker_group := s\<rparr>) = edit_ok a v"
  by (simp_all add: edit_ok_def setConcurrency_def setQueueCapacity_def setRoutingRole_def Let_def)

lemma edit_ok_step: "edit_ok a v \<Longrightarrow> edit_ok a (edit_step a v e)"
  by (cases e) (simp_all add: edit_ok_updates, simp_all add: edit_ok_def)

definition edit_sheet_ok :: "Account \<Rightarrow> AccountSheet \<Rightarrow> bool" where
  "edit_sheet_ok a s \<longleftrightarrow> sh_account s = Some a \<and> edit_ok a (sh_form s) \<and>
     (\<forall>r. mutation_request (sh_hook s) = Some r \<longrightarrow> edit_request_ok a r)"

lemma open_edit_ok: "edit_sheet_ok a (open_sheet (Some a))"
  by (simp add: edit_sheet_ok_def open_sheet_def sh_form_def initial_form_def edit_ok_def)

lemma edit_sheet_ok_step: "edit_sheet_ok a s \<Longrightarrow> edit_sheet_ok a (sheet_step s e)"
proof (cases e)
  case (SheetControl d)
  assume "edit_sheet_ok a s"
  then show ?thesis by (cases d) (simp_all add: SheetControl edit_sheet_ok_def sh_form_def edit_ok_step)
next
  case SubmitSheet
  assume "edit_sheet_ok a s"
  then show ?thesis by (auto simp: SubmitSheet edit_sheet_ok_def sh_form_def edit_request_ok_def sheet_request_def sheet_can_submit_def)
next
  case (SheetAnswered n err)
  assume ok: "edit_sheet_ok a s"
  then show ?thesis
    using settle_request [of n _ "sh_hook s"]
    by (auto simp: SheetAnswered edit_sheet_ok_def sh_form_def split: mutation_state.split)
qed (simp_all add: edit_sheet_ok_def sh_form_def)

interpretation account_edit: guarded_machine sheet_step "edit_sheet_ok a" "\<lambda>_. True"
  by unfold_locales (rule edit_sheet_ok_step)

lemma pending_request: "mu_state h = MutationPending n r \<Longrightarrow> mutation_request h = Some r"
  by (simp add: mutation_request_def)

section \<open>Properties\<close>

text \<open>C7: Whatever is done in the dialog of an existing account, what it sends changes that account only, with a
  name and capacities in range, and names nothing but the fields that can be edited: never the platform, a
  cookie, a token or a code, and a password only where the platform logs in with one.\<close>

theorem edit_request_stays_in_account:
  assumes "s = foldl sheet_step (open_sheet (Some a)) es" "mu_state (sh_hook s) = MutationPending n r"
  shows "\<exists>body. r = (lit ''PATCH'', lit ''/admin/api/accounts/'' @ acc_id a, JObj body) \<and>
    fst ` set body \<subseteq> {lit ''name'', lit ''email'', lit ''password'', lit ''proxy_url'', lit ''image_concurrency'', lit ''queue_capacity'', lit ''routing_role'',
      lit ''protected_tokens'', lit ''video_reserved_slots'', lit ''browser_worker_group''} \<and>
    (lit ''password'' \<in> fst ` set body \<longrightarrow> edits_password a) \<and>
    (\<exists>name c q r. name \<noteq> [] \<and> (lit ''name'', JStr name) \<in> set body \<and>
      (lit ''image_concurrency'', JNum c) \<in> set body \<and> 1 \<le> c \<and> c \<le> concurrencyMaximum (Some a) (initial_form (Some a)) \<and>
      (lit ''queue_capacity'', JNum q) \<in> set body \<and> 1 \<le> q \<and> q \<le> 1000 \<and>
      (lit ''video_reserved_slots'', JNum r) \<in> set body \<and> 0 \<le> r \<and> r \<le> c)"
proof -
  have "edit_sheet_ok a s" unfolding assms(1) by (rule account_edit.ok_run [OF open_edit_ok]) (simp add: list_all_iff)
  then have "edit_request_ok a r" using pending_request [OF assms(2)] by (simp add: edit_sheet_ok_def)
  then obtain v selected where v: "r = (lit ''PATCH'', lit ''/admin/api/accounts/'' @ acc_id a, JObj (request_body (Some a) v))"
    "edit_ok a v" "canSubmit (Some a) selected v" by (auto simp: edit_request_ok_def)
  have maximum: "concurrencyMaximum (Some a) (initial_form (Some a)) = concurrencyMaximum (Some a) v"
    using v(2) by (simp add: concurrencyMaximum_def initial_form_def edit_ok_def)
  have fields: "fst ` set (request_body (Some a) v) \<subseteq> {lit ''name'', lit ''email'', lit ''password'', lit ''proxy_url'', lit ''image_concurrency'', lit ''queue_capacity'',
      lit ''routing_role'', lit ''protected_tokens'', lit ''video_reserved_slots'', lit ''browser_worker_group''}"
    "lit ''password'' \<in> fst ` set (request_body (Some a) v) \<longrightarrow> edits_password a"
    using v(2) by (auto simp: request_body_def capacity_fields_def edit_ok_def split: if_splits)
  have given: "(lit ''name'', JStr (trim (af_name v))) \<in> set (request_body (Some a) v)"
    "(lit ''image_concurrency'', JNum (af_image_concurrency v)) \<in> set (request_body (Some a) v)"
    "(lit ''queue_capacity'', JNum (af_queue_capacity v)) \<in> set (request_body (Some a) v)"
    "(lit ''video_reserved_slots'', JNum (af_video_reserved_slots v)) \<in> set (request_body (Some a) v)"
    by (simp_all add: request_body_def capacity_fields_def)
  with v(3) fields given show ?thesis unfolding v(1) maximum canSubmit_def by blast
qed

definition sample_account :: Account where
  "sample_account = \<lparr>acc_id = lit ''a1'', acc_provider_id = lit ''leonardo'', acc_name = lit ''one'', acc_email = lit ''a@b'', acc_plan = [],
     acc_subscription_tokens = 10, acc_rollover_tokens = 0, acc_paid_tokens = 0, acc_proxy_url = [],
     acc_reserved_tokens = 0, acc_available_tokens = 10, acc_active_reservations = 0, acc_queued_tasks = 0,
     acc_status = lit ''active'', acc_generation_permission_status = lit ''verified'', acc_generation_permission_checked_at = None,
     acc_generation_permission_model = None, acc_generation_permission_error_code = None,
     acc_generation_permission_error = None, acc_image_concurrency = 5, acc_queue_capacity = 40,
     acc_routing_role = lit ''general'', acc_protected_tokens = 0, acc_video_reserved_slots = 0,
     acc_access_token_expires_at = None, acc_last_checked_at = None, acc_last_error = None,
     acc_session_refresh_enabled = True, acc_browser_worker_group = lit ''default'', acc_session_refresh_last_at = None,
     acc_session_refresh_last_method = None, acc_session_refresh_last_duration_ms = None,
     acc_session_refresh_failures = 0, acc_session_refresh_job_stage = None, acc_session_refresh_job_status = None,
     acc_session_refresh_job_next_attempt_at = None, acc_has_login_credentials = False,
     acc_has_complete_cookie_json = False, acc_has_pending_cookie_json = False\<rparr>"

lemma sample_can_submit: "canSubmit (Some sample_account) False (initial_form (Some sample_account))"
  by code_simp

theorem edit_request_stays_in_account_witness:
  "\<exists>n r body. mu_state (sh_hook (foldl sheet_step (open_sheet (Some sample_account)) [SubmitSheet])) = MutationPending n r \<and>
     r = (lit ''PATCH'', lit ''/admin/api/accounts/'' @ acc_id sample_account, JObj body) \<and> fst ` set body \<noteq> {}"
proof -
  define s where "s = foldl sheet_step (open_sheet (Some sample_account)) [SubmitSheet]"
  have "sheet_can_submit (open_sheet (Some sample_account))"
    using sample_can_submit by (simp add: sheet_can_submit_def open_sheet_def sh_form_def sheet_selected_def)
  then have "mu_state (sh_hook s) = MutationPending (mu_count (sh_hook (open_sheet (Some sample_account))))
      (sheet_request (open_sheet (Some sample_account)))" by (simp add: s_def mutate_def)
  with edit_request_stays_in_account [OF s_def this] show ?thesis unfolding s_def by fastforce
qed

text \<open>C22: Saving an account without touching it sends back what it has: nothing the dialog shows differs from
  the account, as long as no capacity is 0 and no text is empty or padded.\<close>

theorem untouched_edit_keeps_account:
  assumes "trim (acc_name a) = acc_name a" "trim (acc_email a) = acc_email a" "trim (acc_proxy_url a) = acc_proxy_url a"
    and "trim (acc_browser_worker_group a) = acc_browser_worker_group a" "acc_browser_worker_group a \<noteq> []"
    and "acc_image_concurrency a \<noteq> 0" "acc_queue_capacity a \<noteq> 0" "acc_routing_role a \<noteq> []"
  shows "snd (snd (sheet_request (open_sheet (Some a)))) = JObj [(lit ''name'', JStr (acc_name a)), (lit ''email'', JStr (acc_email a)),
    (lit ''proxy_url'', JStr (acc_proxy_url a)), (lit ''image_concurrency'', JNum (of_int (acc_image_concurrency a))),
    (lit ''queue_capacity'', JNum (of_int (acc_queue_capacity a))), (lit ''routing_role'', JStr (acc_routing_role a)),
    (lit ''protected_tokens'', JNum (of_int (acc_protected_tokens a))),
    (lit ''video_reserved_slots'', JNum (of_int (acc_video_reserved_slots a))),
    (lit ''browser_worker_group'', JStr (acc_browser_worker_group a))]"
  using assms by (simp add: sheet_request_def open_sheet_def sh_form_def request_body_def capacity_fields_def
      initial_form_def or_num_def or_str_def)

theorem untouched_edit_keeps_account_witness:
  "\<exists>fields. snd (snd (sheet_request (open_sheet (Some sample_account)))) = JObj ((lit ''name'', JStr (lit ''one'')) # fields)"
proof -
  have "trim (acc_name sample_account) = acc_name sample_account" "trim (acc_email sample_account) = acc_email sample_account"
    "trim (acc_proxy_url sample_account) = acc_proxy_url sample_account" "acc_browser_worker_group sample_account \<noteq> []"
    "trim (acc_browser_worker_group sample_account) = acc_browser_worker_group sample_account"
    "acc_image_concurrency sample_account \<noteq> 0" "acc_queue_capacity sample_account \<noteq> 0" "acc_routing_role sample_account \<noteq> []"
    by code_simp+
  then show ?thesis using untouched_edit_keeps_account [of sample_account] by (simp add: sample_account_def)
qed

definition answers_sheet :: "sheet_event \<Rightarrow> bool" where
  "answers_sheet e \<longleftrightarrow> (case e of SheetAnswered _ _ \<Rightarrow> True | _ \<Rightarrow> False)"

lemma sheet_waits:
  "\<forall>e \<in> set es. \<not> answers_sheet e \<Longrightarrow> is_pending (sh_hook s) \<Longrightarrow> sh_hook (foldl sheet_step s es) = sh_hook s"
proof (induction es arbitrary: s)
  case (Cons e es)
  then have "sh_hook (sheet_step s e) = sh_hook s"
    by (cases e) (simp_all add: answers_sheet_def sheet_can_submit_def split: option.split dialog_event.split)
  with Cons show ?case by simp
qed simp

text \<open>C34: The dialog sends the form it shows, once: pressing the enabled button starts the request of the form,
  the button stays disabled until its answer whatever else is done, a failure keeps the form, says why and
  lets it be sent again, and a success closes the dialog.\<close>

theorem sheet_sends_once:
  assumes "\<not> snd (submit_button s)" "\<forall>e \<in> set es. \<not> answers_sheet e"
    and "t = foldl sheet_step (sheet_step s SubmitSheet) es"
  shows "\<exists>n. mu_state (sh_hook t) = MutationPending n (sheet_request s) \<and> snd (submit_button t) \<and>
    sh_hook (sheet_step t SubmitSheet) = sh_hook t \<and>
    sheet_error (sheet_step t (SheetAnswered n (Some m))) = Some m \<and>
    sh_form (sheet_step t (SheetAnswered n (Some m))) = sh_form t \<and>
    \<not> is_pending (sh_hook (sheet_step t (SheetAnswered n (Some m)))) \<and>
    sh_done (sheet_step t (SheetAnswered n None))"
proof -
  have "sheet_can_submit s" using assms(1) by (simp add: submit_button_def)
  then have sent: "mu_state (sh_hook (sheet_step s SubmitSheet)) = MutationPending (mu_count (sh_hook s)) (sheet_request s)"
    by (simp add: mutate_def)
  then have "sh_hook t = sh_hook (sheet_step s SubmitSheet)"
    using sheet_waits [OF assms(2)] by (simp add: assms(3) is_pending_def)
  with sent have t: "mu_state (sh_hook t) = MutationPending (mu_count (sh_hook s)) (sheet_request s)" by simp
  then have "is_pending (sh_hook t)" by (simp add: is_pending_def)
  then have "\<not> sheet_can_submit t" by (simp add: sheet_can_submit_def)
  with t show ?thesis
    by (intro exI [of _ "mu_count (sh_hook s)"])
      (simp add: submit_button_def sheet_error_def sh_form_def settle_mutation_def is_pending_def)
qed

theorem sheet_sends_once_witness:
  "\<exists>n. mu_state (sh_hook (foldl sheet_step (sheet_step (open_sheet (Some sample_account)) SubmitSheet)
     [SubmitSheet, SheetControl (Control FewerQueue)])) = MutationPending n (sheet_request (open_sheet (Some sample_account)))"
proof -
  have "\<not> snd (submit_button (open_sheet (Some sample_account)))"
    using sample_can_submit by (simp add: submit_button_def sheet_can_submit_def open_sheet_def sh_form_def sheet_selected_def)
  moreover have "\<forall>e \<in> set [SubmitSheet, SheetControl (Control FewerQueue)]. \<not> answers_sheet e" by (simp add: answers_sheet_def)
  ultimately show ?thesis using sheet_sends_once [OF _ _ refl] by blast
qed

end
