(* ===== verification/AccountList.thy ===== *)
theory AccountList
  imports AccountSheet Dashboard
begin

text \<open>
  The account page of pages/account-pages.tsx as a whole: the requests for one account, archiving, the scan
  and the bulk import as they run beside each other, the two dialogs, and what the page shows. The query
  library's hook is that of Mutation.thy; what a dialog covers can still be pressed here, so there are more
  runs than a user can make.
\<close>

section \<open>Requests\<close>

datatype account_request =
  RefreshSession jstr
| CheckPermission jstr
| SyncPrices jstr
| ImportCookieFile jstr json
| ChangeStatus Account
| ArchiveSelected "jstr list"

datatype account_hook = RefreshHook | PermissionHook | PricesHook | CookieHook | StatusHook | ArchiveHook

fun hook_of :: "account_request \<Rightarrow> account_hook" where
  "hook_of (RefreshSession _) = RefreshHook"
| "hook_of (CheckPermission _) = PermissionHook"
| "hook_of (SyncPrices _) = PricesHook"
| "hook_of (ImportCookieFile _ _) = CookieHook"
| "hook_of (ChangeStatus _) = StatusHook"
| "hook_of (ArchiveSelected _) = ArchiveHook"

text \<open>Method, path and body of what a request sends; archiving sends its batches one after the other.\<close>

definition account_path :: "jstr \<Rightarrow> jstr \<Rightarrow> jstr" where
  "account_path i action = lit ''/admin/api/accounts/'' @ i @ action"

fun account_calls :: "account_request \<Rightarrow> (jstr \<times> jstr \<times> json option) list" where
  "account_calls (RefreshSession i) = [(lit ''POST'', account_path i (lit ''/session-refresh''), None)]"
| "account_calls (CheckPermission i) = [(lit ''POST'', account_path i (lit ''/generation-permission''), None)]"
| "account_calls (SyncPrices i) = [(lit ''POST'', account_path i (lit ''/pricing-sync''), None)]"
| "account_calls (ImportCookieFile i cookieJSON) =
     [(lit ''PUT'', account_path i (lit ''/cookie-json''), Some (JObj [(lit ''cookie_json'', cookieJSON)]))]"
| "account_calls (ChangeStatus a) = [(lit ''PATCH'', account_path (acc_id a) (lit ''/status''),
     Some (JObj [(lit ''status'', JStr (if acc_status a = lit ''disabled'' then lit ''active'' else lit ''disabled''))]))]"
| "account_calls (ArchiveSelected ids) = map (\<lambda>batch.
     (lit ''POST'', lit ''/admin/api/accounts/archive'', Some (JObj [(lit ''ids'', JArr (map JStr batch))]))) (chunkAccountIDs ids)"

text \<open>
  The answers. A price sync gives the number of rules and their source; archiving catches the errors of
  its batches and so always answers with the combined result.
\<close>

datatype account_answer =
  RequestFailed jstr
| RequestDone
| PricesSynced int "jstr option"
| ArchiveCombined ArchiveBatchResponse

fun answer_fits :: "account_request \<Rightarrow> account_answer \<Rightarrow> bool" where
  "answer_fits (ArchiveSelected _) a = (case a of ArchiveCombined _ \<Rightarrow> True | _ \<Rightarrow> False)"
| "answer_fits (SyncPrices _) a = (case a of PricesSynced _ _ \<Rightarrow> True | RequestFailed _ \<Rightarrow> True | _ \<Rightarrow> False)"
| "answer_fits _ a = (case a of RequestDone \<Rightarrow> True | RequestFailed _ \<Rightarrow> True | _ \<Rightarrow> False)"

section \<open>The state of the page\<close>

text \<open>
  \<open>al_scan\<close> is the provider filter of the running scan; the import is busy while \<open>al_pool\<close> is there, the
  items it was started with and its pool. \<open>al_flight\<close> are the requests without an answer, each with its number
  in its hook; \<open>al_refreshes\<close> counts how often the lists were asked for again.
\<close>

datatype ArchiveMode = ArchiveChosen | ArchiveInvalid

record AccountList =
  al_page :: nat
  al_pageSize :: nat
  al_params :: params
  al_selected :: selection
  al_archiveOpen :: bool
  al_mode :: ArchiveMode
  al_feedback :: jstr
  al_scan :: "jstr option"
  al_error :: jstr
  al_bulkOpen :: bool
  al_bulk :: BulkImport
  al_pool :: "(BulkCookieImportItem list \<times> pool) option"
  al_hooks :: "account_hook \<Rightarrow> (account_request, account_answer) mutation"
  al_flight :: "(nat \<times> account_request) list"
  al_alerts :: "jstr list"
  al_refreshes :: nat

definition open_accounts :: "params \<Rightarrow> AccountList" where
  "open_accounts ps =
     \<lparr>al_page = 1, al_pageSize = 20, al_params = ps, al_selected = [], al_archiveOpen = False,
      al_mode = ArchiveChosen, al_feedback = [], al_scan = None, al_error = [], al_bulkOpen = False,
      al_bulk = \<lparr>bk_provider = lit ''leonardo'', bk_items = [], bk_parses = [], bk_summary = [],
        bk_config = \<lparr>ic_imageConcurrency = 5, ic_queueCapacity = 40, ic_workerGroup = lit ''default''\<rparr>\<rparr>,
      al_pool = None, al_hooks = (\<lambda>_. new_mutation), al_flight = [], al_alerts = [], al_refreshes = 0\<rparr>"

definition refresh_accounts :: "AccountList \<Rightarrow> AccountList" where
  "refresh_accounts s = s\<lparr>al_refreshes := al_refreshes s + 1\<rparr>"

text \<open>\<open>mutate\<close>: the request goes out, and its hook forgets the one before.\<close>

definition send_request :: "account_request \<Rightarrow> AccountList \<Rightarrow> AccountList" where
  "send_request r s =
     (let h = hook_of r in
      s\<lparr>al_hooks := (al_hooks s)(h := mutate r (al_hooks s h)),
        al_flight := al_flight s @ [(mu_count (al_hooks s h), r)]\<rparr>)"

text \<open>\<open>onSuccess\<close> and \<open>onError\<close> of the hooks. They run for every answer, also that of a request the hook has forgotten.\<close>

definition prices_feedback :: "int \<Rightarrow> jstr option \<Rightarrow> jstr" where
  "prices_feedback synced source = ulit ''%u5DF2%u540C%u6B65 '' @ num_str synced @ ulit '' %u6761 '' @
     (if source = Some (lit ''creativefabrica-preset'') then lit ''Creative Fabrica Coins'' else lit ''Adobe BKS'') @ ulit '' %u4EF7%u683C%u89C4%u5219%u3002''"

definition on_archived :: "ArchiveBatchResponse \<Rightarrow> AccountList \<Rightarrow> AccountList" where
  "on_archived result s = refresh_accounts (s\<lparr>al_selected := archived_selection result (al_selected s),
     al_archiveOpen := False, al_feedback := archive_feedback result\<rparr>)"

fun on_answer :: "account_request \<Rightarrow> account_answer \<Rightarrow> AccountList \<Rightarrow> AccountList" where
  "on_answer r RequestDone s = refresh_accounts s"
| "on_answer r (PricesSynced synced source) s = refresh_accounts (s\<lparr>al_feedback := prices_feedback synced source\<rparr>)"
| "on_answer r (ArchiveCombined result) s = on_archived result s"
| "on_answer (CheckPermission _) (RequestFailed message) s = s\<lparr>al_error := ulit ''%u751F%u6210%u6743%u9650%u68C0%u6D4B%u5931%u8D25%uFF1A'' @ message\<rparr>"
| "on_answer (SyncPrices _) (RequestFailed message) s = s\<lparr>al_error := ulit ''%u5E73%u53F0%u4EF7%u683C%u540C%u6B65%u5931%u8D25%uFF1A'' @ message\<rparr>"
| "on_answer (ImportCookieFile _ _) (RequestFailed message) s = s\<lparr>al_alerts := al_alerts s @ [message]\<rparr>"
| "on_answer _ (RequestFailed message) s = s"

definition hook_answer :: "account_answer \<Rightarrow> jstr + account_answer" where
  "hook_answer a = (case a of RequestFailed message \<Rightarrow> Inl message | _ \<Rightarrow> Inr a)"

definition answer_request :: "nat \<Rightarrow> account_answer \<Rightarrow> AccountList \<Rightarrow> AccountList" where
  "answer_request i a s =
     (if i < length (al_flight s) \<and> answer_fits (snd (al_flight s ! i)) a then
        (let (n, r) = al_flight s ! i; h = hook_of r in
         on_answer r a (s\<lparr>al_flight := take i (al_flight s) @ drop (Suc i) (al_flight s),
           al_hooks := (al_hooks s)(h := settle_mutation n (hook_answer a) (al_hooks s h))\<rparr>))
      else s)"

section \<open>The bulk import on the page\<close>

definition account_provider_filter :: "AccountList \<Rightarrow> jstr" where
  "account_provider_filter s = filter_value (al_params s) (lit ''provider'')"

definition cookieProviderOptions :: "Provider list \<Rightarrow> Provider list" where
  "cookieProviderOptions ps = filter providerSupportsCookie ps"

definition bulk_busy :: "AccountList \<Rightarrow> bool" where
  "bulk_busy s \<longleftrightarrow> al_pool s \<noteq> None"

text \<open>Which controls of the dialog are disabled; reading files goes on while an import runs.\<close>

definition bulk_enabled :: "AccountList \<Rightarrow> bulk_event \<Rightarrow> bool" where
  "bulk_enabled s e = (case e of
       ParsesDone \<Rightarrow> True
     | RenameItem uid _ \<Rightarrow> \<not> bulk_busy s \<and> (\<forall>item \<in> set (bk_items (al_bulk s)). bi_id item = uid \<longrightarrow> bi_status item \<noteq> ImportSubmitted)
     | _ \<Rightarrow> \<not> bulk_busy s)"

datatype import_setting = ImportSlots rat | ImportQueue rat | ImportGroup jstr

fun set_import :: "import_setting \<Rightarrow> ImportConfig \<Rightarrow> ImportConfig" where
  "set_import (ImportSlots n) c = c\<lparr>ic_imageConcurrency := (if n = 0 then 1 else n)\<rparr>"
| "set_import (ImportQueue n) c = c\<lparr>ic_queueCapacity := (if n = 0 then 1 else n)\<rparr>"
| "set_import (ImportGroup workerGroup) c = c\<lparr>ic_workerGroup := workerGroup\<rparr>"

definition with_items :: "BulkCookieImportItem list \<Rightarrow> AccountList \<Rightarrow> AccountList" where
  "with_items items s = s\<lparr>al_bulk := (al_bulk s)\<lparr>bk_items := items\<rparr>\<rparr>"

text \<open>\<open>importCookieAccounts\<close>: the pool works on the items of the page; when its last answer is there, it says so.\<close>

definition start_import :: "AccountList \<Rightarrow> AccountList" where
  "start_import s =
     (let items = bk_items (al_bulk s); p = start_pool items in
      if bulk_busy s \<or> importableCount (al_bulk s) = 0 \<or> \<not> bulkImportConfigValid (al_bulk s) then s
      else s\<lparr>al_pool := Some (filter importable items, p),
        al_bulk := (al_bulk s)\<lparr>bk_summary := [], bk_items := pl_items p\<rparr>\<rparr>)"

definition end_import :: "pool \<Rightarrow> AccountList \<Rightarrow> AccountList" where
  "end_import p s = refresh_accounts (s\<lparr>al_pool := None,
     al_bulk := (al_bulk s)\<lparr>bk_summary := import_summary p\<rparr>\<rparr>)"

definition answer_import :: "nat \<Rightarrow> jstr option \<Rightarrow> AccountList \<Rightarrow> AccountList" where
  "answer_import i err s = (case al_pool s of
       None \<Rightarrow> s
     | Some (pending, p) \<Rightarrow>
         if i \<in> set (pl_flight p) then
           (let p' = answer pending i err (p\<lparr>pl_items := bk_items (al_bulk s)\<rparr>);
                s' = with_items (pl_items p') s in
            if pl_flight p' = [] then end_import p' s' else s'\<lparr>al_pool := Some (pending, p')\<rparr>)
         else s)"

section \<open>Everything that happens on the page\<close>

datatype account_event =
  SetAccountFilter jstr jstr
| ClearAccountFilters
| AccountPage nat
| AccountPageSize nat
| AccountTotal nat
| TickAccount Account bool
| TickPage "Account list" bool
| ClearSelection
| AskArchive
| ShowArchive bool
| ConfirmArchive
| DismissFeedback
| StartScan
| ScanEnds "nat \<Rightarrow> jstr + AccountsPage"
| PressRefresh Account
| PressPermission bool Account
| PressPrices Account
| CookieFileParsed Account "json option"
| PressStatus Account
| RequestAnswered nat account_answer
| OpenBulk "Provider list"
| ShowBulk bool
| BulkControl bulk_event
| ChangeImport import_setting
| StartImport
| ImportAnswered nat "jstr option"

definition hook_pending :: "account_hook \<Rightarrow> AccountList \<Rightarrow> bool" where
  "hook_pending h s \<longleftrightarrow> is_pending (al_hooks s h)"

definition show_scan :: "jstr + selection \<Rightarrow> AccountList \<Rightarrow> AccountList" where
  "show_scan result s = (case result of
       Inl message \<Rightarrow> s\<lparr>al_error := message, al_scan := None\<rparr>
     | Inr found \<Rightarrow>
         if found = [] then s\<lparr>al_feedback := ulit ''%u5F53%u524D%u6CA1%u6709%u51ED%u8BC1%u5931%u6548%u8D26%u53F7%uFF0C%u65E0%u9700%u6E05%u7406%u3002'', al_scan := None\<rparr>
         else s\<lparr>al_selected := found, al_mode := ArchiveInvalid, al_archiveOpen := True, al_scan := None\<rparr>)"

text \<open>The permission button of the list first clears the error, that of the cards does not (\<open>PressPermission True\<close>).\<close>

fun account_step :: "(jstr \<Rightarrow> jstr option) \<Rightarrow> AccountList \<Rightarrow> account_event \<Rightarrow> AccountList" where
  "account_step hostname s (SetAccountFilter key value) =
     (let st = setAccountFilter key value (al_params s, al_page s) in s\<lparr>al_params := fst st, al_page := snd st\<rparr>)"
| "account_step hostname s ClearAccountFilters =
     (let st = clearFilters (al_params s, al_page s) in s\<lparr>al_params := fst st, al_page := snd st\<rparr>)"
| "account_step hostname s (AccountPage n) = s\<lparr>al_page := n\<rparr>"
| "account_step hostname s (AccountPageSize n) = s\<lparr>al_pageSize := n, al_page := 1\<rparr>"
| "account_step hostname s (AccountTotal n) = s\<lparr>al_page := clampPage (al_page s) (totalPages n (al_pageSize s))\<rparr>"
| "account_step hostname s (TickAccount a checked) = s\<lparr>al_selected := toggleAccount a checked (al_selected s)\<rparr>"
| "account_step hostname s (TickPage rows checked) = s\<lparr>al_selected := togglePage rows checked (al_selected s)\<rparr>"
| "account_step hostname s ClearSelection = s\<lparr>al_selected := []\<rparr>"
| "account_step hostname s AskArchive = (if al_selected s = [] then s
     else s\<lparr>al_mode := ArchiveChosen, al_feedback := [], al_archiveOpen := True\<rparr>)"
| "account_step hostname s (ShowArchive shown) = s\<lparr>al_archiveOpen := (shown \<and> al_archiveOpen s)\<rparr>"
| "account_step hostname s ConfirmArchive =
     (if al_archiveOpen s \<and> \<not> hook_pending ArchiveHook s then send_request (ArchiveSelected (map_keys (al_selected s))) s else s)"
| "account_step hostname s DismissFeedback = s\<lparr>al_feedback := []\<rparr>"
| "account_step hostname s StartScan = (if al_scan s \<noteq> None then s
     else s\<lparr>al_scan := Some (account_provider_filter s), al_error := [], al_feedback := []\<rparr>)"
| "account_step hostname s (ScanEnds fetch) = (if al_scan s = None then s
     else (case scan_pages fetch 1 [] of None \<Rightarrow> s | Some result \<Rightarrow> show_scan result s))"
| "account_step hostname s (PressRefresh a) = send_request (RefreshSession (acc_id a)) s"
| "account_step hostname s (PressPermission onCard a) =
     (if acc_provider_id a \<noteq> lit ''leonardo'' \<or> hook_pending PermissionHook s then s
      else send_request (CheckPermission (acc_id a)) (if onCard then s else s\<lparr>al_error := []\<rparr>))"
| "account_step hostname s (PressPrices a) =
     (if acc_provider_id a \<notin> {lit ''adobe'', lit ''creativefabrica''} \<or> hook_pending PricesHook s then s
      else send_request (SyncPrices (acc_id a)) (s\<lparr>al_error := [], al_feedback := []\<rparr>))"
| "account_step hostname s (CookieFileParsed a parsed) = (case parsed of
       None \<Rightarrow> s\<lparr>al_alerts := al_alerts s @ [ulit ''Cookie JSON %u6587%u4EF6%u4E0D%u662F%u6709%u6548%u7684 JSON %u6570%u7EC4%u3002'']\<rparr>
     | Some cookieJSON \<Rightarrow> send_request (ImportCookieFile (acc_id a) cookieJSON) s)"
| "account_step hostname s (PressStatus a) = send_request (ChangeStatus a) s"
| "account_step hostname s (RequestAnswered i a) = answer_request i a s"
| "account_step hostname s (OpenBulk ps) = (if al_bulkOpen s then s
     else s\<lparr>al_bulkOpen := True, al_bulk := openBulkImport (map prov_id (cookieProviderOptions ps))
       (account_provider_filter s) (al_bulk s)\<rparr>)"
| "account_step hostname s (ShowBulk shown) = (if bulk_busy s then s else s\<lparr>al_bulkOpen := (shown \<and> al_bulkOpen s)\<rparr>)"
| "account_step hostname s (BulkControl e) =
     (if bulk_enabled s e then s\<lparr>al_bulk := bulk_step hostname (al_bulk s) e\<rparr> else s)"
| "account_step hostname s (ChangeImport setting) = (if bulk_busy s then s
     else s\<lparr>al_bulk := (al_bulk s)\<lparr>bk_config := set_import setting (bk_config (al_bulk s))\<rparr>\<rparr>)"
| "account_step hostname s StartImport = (if al_bulkOpen s then start_import s else s)"
| "account_step hostname s (ImportAnswered i err) = answer_import i err s"

text \<open>The address a scan asks for; \<open>enc\<close> is \<open>encodeURIComponent\<close>.\<close>

definition scan_url :: "(jstr \<Rightarrow> jstr) \<Rightarrow> jstr \<Rightarrow> nat \<Rightarrow> jstr" where
  "scan_url enc provider currentPage = lit ''/admin/api/accounts?page='' @ num_str (int currentPage) @ lit ''&page_size='' @
     num_str (int ARCHIVE_BATCH_SIZE) @ lit ''&status=invalid'' @ (if provider = lit ''all'' then [] else lit ''&provider='' @ enc provider)"

section \<open>What the page shows\<close>

text \<open>A button: its text, whether it is disabled, and whether its icon turns.\<close>

record AccountButton =
  abt_label :: jstr
  abt_disabled :: bool
  abt_spins :: bool

text \<open>The buttons of a row, the platform's own ones only where the platform has them.\<close>

definition checks_permission :: "Account \<Rightarrow> bool" where
  "checks_permission a \<longleftrightarrow> acc_provider_id a = lit ''leonardo''"

definition syncs_prices :: "Account \<Rightarrow> bool" where
  "syncs_prices a \<longleftrightarrow> acc_provider_id a = lit ''adobe'' \<or> acc_provider_id a = lit ''creativefabrica''"

text \<open>Whether it is this account the pending request of a hook is for (\<open>variables\<close>).\<close>

definition busy_with :: "account_request \<Rightarrow> AccountList \<Rightarrow> bool" where
  "busy_with r s \<longleftrightarrow> hook_pending (hook_of r) s \<and> mutation_request (al_hooks s (hook_of r)) = Some r"

definition row_buttons :: "AccountList \<Rightarrow> Account \<Rightarrow> AccountButton list" where
  "row_buttons s a =
     [\<lparr>abt_label = ulit ''%u4FEE%u6539%u8D26%u53F7%u914D%u7F6E'', abt_disabled = False, abt_spins = False\<rparr>,
      \<lparr>abt_label = ulit ''%u5237%u65B0%u4F1A%u8BDD'', abt_disabled = False, abt_spins = hook_pending RefreshHook s\<rparr>] @
     (if checks_permission a then
        [\<lparr>abt_label = ulit ''%u68C0%u6D4B%u751F%u6210%u6743%u9650'', abt_disabled = hook_pending PermissionHook s,
          abt_spins = busy_with (CheckPermission (acc_id a)) s\<rparr>] else []) @
     (if syncs_prices a then
        [\<lparr>abt_label = ulit ''%u540C%u6B65 '' @ (if acc_provider_id a = lit ''creativefabrica'' then lit ''Creative Fabrica'' else lit ''Adobe'') @ ulit '' %u6A21%u578B%u4EF7%u683C'',
          abt_disabled = hook_pending PricesHook s, abt_spins = busy_with (SyncPrices (acc_id a)) s\<rparr>] else []) @
     [\<lparr>abt_label = ulit ''%u5BFC%u5165%u5B8C%u6574 Cookie JSON'', abt_disabled = False, abt_spins = False\<rparr>,
      \<lparr>abt_label = (if acc_status a = lit ''disabled'' then ulit ''%u542F%u7528%u8D26%u53F7'' else ulit ''%u7981%u7528%u8D26%u53F7''), abt_disabled = False, abt_spins = False\<rparr>]"

text \<open>The card of an account on a narrow screen. Its state may fail, as that of the status cell.\<close>

record AccountCard =
  card_selected :: bool
  card_name :: jstr
  card_about :: jstr
  card_tone :: jstr
  card_state :: jstr
  card_balance :: "jstr \<times> jstr"
  card_slots :: jstr
  card_queue :: jstr
  card_session :: jstr
  card_buttons :: "AccountButton list"

definition account_card ::
    "(rat \<Rightarrow> jstr) \<Rightarrow> (int \<Rightarrow> int) \<Rightarrow> int \<Rightarrow> AccountList \<Rightarrow> Account \<Rightarrow> AccountCard res" where
  "account_card loc utc now s a =
     bindr (accountOperationalState utc now a) (\<lambda>operational.
     Inr \<lparr>card_selected = map_has (al_selected s) (acc_id a), card_name = acc_name a,
       card_about = acc_provider_id a @ ulit '' %u00B7 '' @ or_str (acc_email a) (ulit ''%u672A%u586B%u5199%u90AE%u7BB1''),
       card_tone = (if os_className operational = lit ''active'' then lit ''success''
         else if os_className operational = lit ''rate_limited'' then lit ''warning'' else lit ''danger''),
       card_state = os_label operational,
       card_balance = (if accountBalanceUnavailable a then (ulit ''%u4F59%u989D%u672A%u6838%u5B9E'', ulit ''%u2014'') else (ulit ''%u51C0%u4F59%u989D'', loc (acc_available_tokens a))),
       card_slots = num_str (acc_active_reservations a) @ lit ''/'' @ num_str (acc_image_concurrency a),
       card_queue = num_str (acc_queued_tasks a) @ lit ''/'' @ num_str (acc_queue_capacity a),
       card_session = accountSessionExpiryText utc now a @ ulit '' %u00B7 '' @ accountCredentialText a True,
       card_buttons =
         (if checks_permission a then [\<lparr>abt_label = ulit ''%u68C0%u6D4B%u6743%u9650'', abt_disabled = hook_pending PermissionHook s, abt_spins = False\<rparr>] else []) @
         (if syncs_prices a then [\<lparr>abt_label = ulit ''%u540C%u6B65%u4EF7%u683C'', abt_disabled = hook_pending PricesHook s, abt_spins = False\<rparr>] else []) @
         [\<lparr>abt_label = ulit ''%u8BE6%u60C5'', abt_disabled = False, abt_spins = False\<rparr>]\<rparr>)"

text \<open>The figures above the list: those of the platform of the filter, or of all.\<close>

definition selectedProviderSummary :: "OverviewResponse option \<Rightarrow> jstr \<Rightarrow> ProviderOverview option" where
  "selectedProviderSummary overview providerFilter = (if providerFilter = lit ''all'' then None
     else find (\<lambda>p. pov_provider_id p = providerFilter) (case overview of None \<Rightarrow> [] | Some ov \<Rightarrow> ov_provider_summaries ov))"

definition summary_unit :: "ProviderOverview \<Rightarrow> jstr" where
  "summary_unit p = providerCreditUnit (pov_provider_id p)
     [\<lparr>cp_id = None, cp_provider_id = Some (pov_provider_id p), cp_credit_unit = pov_credit_unit p\<rparr>]"

definition account_metrics :: "(rat \<Rightarrow> jstr) \<Rightarrow> OverviewResponse option \<Rightarrow> jstr \<Rightarrow> (jstr \<times> jstr) list" where
  "account_metrics loc overview providerFilter =
     (case selectedProviderSummary overview providerFilter of
        Some p \<Rightarrow>
          [(ulit ''%u8D26%u53F7%u6570%u91CF'', num_str (pov_accounts p)),
           (ulit ''%u51C0%u53EF%u7528 '' @ summary_unit p, loc (pov_available_credits p)),
           (ulit ''%u5DF2%u9884%u7559 '' @ summary_unit p, loc (pov_reserved_credits p)),
           (ulit ''%u53EF%u7528%u8D26%u53F7'', num_str (pov_active_accounts p) @ lit ''/'' @ num_str (pov_accounts p))]
      | None \<Rightarrow>
          (let summaries = (case overview of None \<Rightarrow> [] | Some ov \<Rightarrow> ov_provider_summaries ov);
               accounts = (case overview of None \<Rightarrow> 0 | Some ov \<Rightarrow> ov_accounts ov);
               active = (case overview of None \<Rightarrow> 0 | Some ov \<Rightarrow> ov_active_accounts ov) in
           [(ulit ''%u8D26%u53F7%u6570%u91CF'', num_str accounts), (ulit ''%u53EF%u7528%u8D26%u53F7'', num_str active @ lit ''/'' @ num_str accounts),
            (ulit ''%u5E73%u53F0%u6570%u91CF'', num_str (int (length summaries))),
            (ulit ''%u53EF%u7528%u6267%u884C%u69FD%u4F4D'', num_str (sum_list (map pov_execution_slots summaries)))]))"

definition video_inventory :: "(rat \<Rightarrow> jstr) \<Rightarrow> OverviewResponse option \<Rightarrow> jstr \<Rightarrow> (jstr \<times> jstr) list option" where
  "video_inventory loc overview providerFilter =
     (if providerFilter \<noteq> lit ''all'' \<and> providerFilter \<noteq> lit ''leonardo'' then None
      else (let leonardo = find (\<lambda>p. pov_provider_id p = lit ''leonardo'')
                  (case overview of None \<Rightarrow> [] | Some ov \<Rightarrow> ov_provider_summaries ov);
                count = (\<lambda>f. num_str (case leonardo of None \<Rightarrow> 0 | Some p \<Rightarrow> nullish (f p) 0)) in
       Some [(ulit ''Seedance 2.0 %u5E93%u5B58'', lit ''Leonardo''), (ulit ''720p %u00B7 15%u79D2%u53EF%u7528%u8D26%u53F7'', count pov_video_ready_720p_15s),
         (ulit ''1080p %u00B7 8%u79D2%u53EF%u7528%u8D26%u53F7'', count pov_video_ready_1080p_8s),
         (ulit ''1080p %u00B7 10%u79D2%u53EF%u7528%u8D26%u53F7'', count pov_video_ready_1080p_10s),
         (ulit ''%u89C6%u9891%u4FDD%u62A4%u79EF%u5206'', loc (case leonardo of None \<Rightarrow> 0 | Some p \<Rightarrow> nullish (pov_video_protected_credits p) 0))]))"

text \<open>The operations bar: whether the bulk import is offered, and the button of the scan.\<close>

definition offers_bulk :: "AccountList \<Rightarrow> bool" where
  "offers_bulk s \<longleftrightarrow> account_provider_filter s \<in> {lit ''all'', lit ''leonardo'', lit ''adobe'', lit ''creativefabrica''}"

definition scan_button :: "AccountList \<Rightarrow> AccountButton" where
  "scan_button s = \<lparr>abt_label = (if al_scan s \<noteq> None then ulit ''%u6B63%u5728%u626B%u63CF'' else ulit ''%u6E05%u7406%u5931%u6548%u8D26%u53F7''),
     abt_disabled = (al_scan s \<noteq> None), abt_spins = (al_scan s \<noteq> None)\<rparr>"

definition account_statuses :: "(jstr \<times> jstr) list" where
  "account_statuses = [(lit ''all'', ulit ''%u5168%u90E8''), (lit ''active'', ulit ''%u53EF%u7528''), (lit ''attention'', ulit ''%u9700%u8981%u5173%u6CE8''), (lit ''rate_limited'', ulit ''429 %u98CE%u63A7''),
     (lit ''cooldown'', ulit ''%u4E34%u65F6%u6545%u969C''), (lit ''invalid'', ulit ''%u51ED%u8BC1%u5931%u6548''), (lit ''disabled'', ulit ''%u5DF2%u7981%u7528'')]"

definition account_roles :: "(jstr \<times> jstr) list" where
  "account_roles = [(lit ''all'', ulit ''%u5168%u90E8''), (lit ''general'', ulit ''%u901A%u7528''), (lit ''video_reserved'', ulit ''%u89C6%u9891%u4FDD%u7559'')]"

definition account_providers :: "Provider list \<Rightarrow> (jstr \<times> jstr) list" where
  "account_providers ps = (lit ''all'', ulit ''%u5168%u90E8'') # map (\<lambda>p. (prov_id p, prov_display_name p)) ps"

text \<open>The line of an empty list.\<close>

definition account_empty :: "bool \<Rightarrow> Account list \<Rightarrow> AccountList \<Rightarrow> (jstr \<times> jstr) option" where
  "account_empty loading rows s = (if loading \<or> rows \<noteq> [] then None
     else if opt_str (param_get (al_params s) (lit ''search'')) \<noteq> [] then Some (ulit ''%u6CA1%u6709%u5339%u914D%u8D26%u53F7'', ulit ''%u8C03%u6574%u641C%u7D22%u5185%u5BB9%u540E%u91CD%u8BD5%u3002'')
     else Some (ulit ''%u8FD8%u6CA1%u6709%u8D26%u53F7'', ulit ''%u70B9%u51FB%u53F3%u4E0A%u89D2%u6DFB%u52A0%u7B2C%u4E00%u4E2A%u6E20%u9053%u8D26%u53F7%u3002''))"

text \<open>The archive dialog: title, explanation, the accounts it lists, and its button.\<close>

record ArchiveView =
  av_title :: jstr
  av_about :: jstr
  av_accounts :: "(jstr \<times> jstr) list"
  av_button :: AccountButton

definition archive_dialog :: "AccountList \<Rightarrow> ArchiveView option" where
  "archive_dialog s = (if \<not> al_archiveOpen s then None else
     (let n = num_str (int (length (al_selected s))); busy = hook_pending ArchiveHook s in
      Some \<lparr>av_title = (if al_mode s = ArchiveInvalid then ulit ''%u6E05%u7406 '' @ n @ ulit '' %u4E2A%u51ED%u8BC1%u5931%u6548%u8D26%u53F7%uFF1F'' else ulit ''%u5F52%u6863 '' @ n @ ulit '' %u4E2A%u8D26%u53F7%uFF1F''),
        av_about = (if al_mode s = ArchiveInvalid
          then ulit ''%u5DF2%u81EA%u52A8%u627E%u51FA%u5168%u90E8%u51ED%u8BC1%u5931%u6548%u8D26%u53F7%u3002%u786E%u8BA4%u540E%u4F1A%u4ECE%u8FD0%u8425%u6C60%u5F52%u6863%u5E76%u505C%u6B62%u5237%u65B0%uFF1B%u6709%u4EFB%u52A1%u6216%u79EF%u5206%u9884%u7559%u7684%u8D26%u53F7%u4F1A%u8DF3%u8FC7%u3002''
          else ulit ''%u8D26%u53F7%u4F1A%u4ECE%u8FD0%u8425%u6C60%u79FB%u9664%u5E76%u505C%u6B62%u4F1A%u8BDD%u5237%u65B0%uFF0C%u5DF2%u6709%u4EFB%u52A1%u548C%u8D22%u52A1%u8BB0%u5F55%u4ECD%u4F1A%u4FDD%u7559%u3002%u6B63%u5728%u6267%u884C%u3001%u6392%u961F%u6216%u6301%u6709%u79EF%u5206%u9884%u7559%u7684%u8D26%u53F7%u4F1A%u81EA%u52A8%u8DF3%u8FC7%u3002''),
        av_accounts = map (\<lambda>a. (acc_name a, or_str (acc_email a) (acc_provider_id a))) (map_values (al_selected s)),
        av_button = \<lparr>abt_label = (if busy then ulit ''%u6B63%u5728%u5F52%u6863'' else ulit ''%u786E%u8BA4%u5F52%u6863''), abt_disabled = busy, abt_spins = False\<rparr>\<rparr>))"

text \<open>The import dialog: a line of its list, the problem with its settings, and its button.\<close>

definition item_text :: "jstr \<Rightarrow> BulkCookieImportItem \<Rightarrow> jstr" where
  "item_text provider item = (case bi_status item of
       ImportReady \<Rightarrow> ulit ''%u5F85%u5BFC%u5165''
     | ImportImporting \<Rightarrow> ulit ''%u63D0%u4EA4%u4E2D''
     | ImportSubmitted \<Rightarrow> if provider = lit ''adobe'' then ulit ''%u5DF2%u5BFC%u5165'' else ulit ''%u5F85%u9A8C%u8BC1''
     | _ \<Rightarrow> bi_error item)"

definition config_problem :: "AccountList \<Rightarrow> jstr option" where
  "config_problem s = (if bulkImportConfigValid (al_bulk s) then None
     else Some (ulit ''%u5E76%u53D1%u8303%u56F4%u4E3A 1%u2013'' @ num_str (providerConcurrencyMaximum (bk_provider (al_bulk s))) @ ulit ''%uFF0C%u961F%u5217%u8303%u56F4%u4E3A 1%u20131000'' @
       (if bk_provider (al_bulk s) = lit ''leonardo'' then ulit ''%uFF0CWorker %u7EC4%u53EA%u5141%u8BB8%u5B57%u6BCD%u3001%u6570%u5B57%u3001%u70B9%u3001%u4E0B%u5212%u7EBF%u548C%u8FDE%u5B57%u7B26'' else []) @ ulit ''%u3002''))"

definition import_button :: "AccountList \<Rightarrow> AccountButton" where
  "import_button s = \<lparr>abt_label = (if bulk_busy s then ulit ''%u6B63%u5728%u5BFC%u5165'' else ulit ''%u5BFC%u5165 '' @ num_str (int (importableCount (al_bulk s))) @ ulit '' %u4E2A%u8D26%u53F7''),
     abt_disabled = (bulk_busy s \<or> importableCount (al_bulk s) = 0 \<or> \<not> bulkImportConfigValid (al_bulk s)),
     abt_spins = bulk_busy s\<rparr>"

text \<open>The heading of the settings is the short name of the platform, which may fail as any lookup.\<close>

definition import_platform :: "Provider list \<Rightarrow> AccountList \<Rightarrow> jstr res" where
  "import_platform ps s = bindr (providerDefinition (bk_provider (al_bulk s))
     (find (\<lambda>p. prov_id p = bk_provider (al_bulk s)) (cookieProviderOptions ps))) (\<lambda>p. Inr (pp_shortName p))"

section \<open>Lemmas\<close>

definition selection_ok :: "selection \<Rightarrow> bool" where
  "selection_ok sel \<longleftrightarrow> jmap_ok sel \<and> (\<forall>(k, a) \<in> set sel. acc_id a = k)"

lemma selection_ok_set: "selection_ok sel \<Longrightarrow> selection_ok (map_set (acc_id a) a sel)"
proof -
  have "(k, b) \<in> set (map_set (acc_id a) a sel) \<Longrightarrow> (k, b) \<in> set sel \<or> (k, b) = (acc_id a, a)" for k b
    by (induction "acc_id a" a sel rule: map_set.induct) (auto split: if_splits)
  moreover assume "selection_ok sel"
  ultimately show ?thesis by (fastforce simp: selection_ok_def jmap.ok_put)
qed

lemma selection_ok_delete: "selection_ok sel \<Longrightarrow> selection_ok (map_delete k sel)"
  by (auto simp: selection_ok_def jmap.ok_del) (auto simp: map_delete_def)

lemma selection_ok_fold:
  assumes "\<And>x t. selection_ok t \<Longrightarrow> selection_ok (f x t)"
  shows "selection_ok sel \<Longrightarrow> selection_ok (fold f xs sel)"
  by (induction xs arbitrary: sel) (simp_all add: assms)

lemma selection_ok_empty: "selection_ok []"
  by (simp add: selection_ok_def jmap_ok_def map_keys_def)

lemma selection_ok_toggle: "selection_ok sel \<Longrightarrow> selection_ok (toggleAccount a checked sel)"
  by (simp add: toggleAccount_def selection_ok_set selection_ok_delete)

lemma selection_ok_page: "selection_ok sel \<Longrightarrow> selection_ok (togglePage rows checked sel)"
  unfolding togglePage_def by (rule selection_ok_fold) (simp_all add: selection_ok_toggle)

lemma selection_ok_archived: "selection_ok sel \<Longrightarrow> selection_ok (archived_selection result sel)"
  unfolding archived_selection_def by (rule selection_ok_fold) (simp_all add: selection_ok_delete)

text \<open>What the scan has found is keyed by the ids of the accounts, as \<open>scan_loop\<close> only adds such entries.\<close>

lemma scan_loop_keyed:
  "scan_loop key get n found = Some r \<Longrightarrow> (\<And>x m. P m \<Longrightarrow> P (map_set (key x) x m)) \<Longrightarrow> P found \<Longrightarrow>
    (case r of Inl _ \<Rightarrow> True | Inr m \<Rightarrow> P m)"
proof (induction key get n found r rule: scan_loop.raw_induct [rotated 1, consumes 1, case_names step])
  case (step go key get n found r)
  have fold: "P (fold (\<lambda>row. map_set (key row) row) rows found)" for rows
    using step.prems by (induction rows rule: rev_induct) simp_all
  show ?case
  proof (cases "get n")
    case (Inl e)
    with step.hyps show ?thesis by auto
  next
    case (Inr page)
    obtain rows total where page: "page = (rows, total)" by fastforce
    show ?thesis
      using step.hyps step.IH [OF _ step.prems(1)] fold [of rows] Inr page
      by (auto simp: Let_def split: if_splits)
  qed
qed

lemma selection_ok_scan: "scan_pages fetch 1 [] = Some (Inr sel) \<Longrightarrow> selection_ok sel"
  using scan_loop_keyed [of acc_id _ 1 "[]" "Inr sel" selection_ok] selection_ok_set selection_ok_empty
  by (auto simp: scan_pages_def)

text \<open>
  The hooks and the requests in flight: a pending hook has its request in flight; a hook whose buttons are
  disabled while it is pending has no other.
\<close>

type_synonym hooks = "account_hook \<Rightarrow> (account_request, account_answer) mutation"

definition in_flight :: "account_hook \<Rightarrow> (nat \<times> account_request) list \<Rightarrow> (nat \<times> account_request) list" where
  "in_flight h flight = filter (\<lambda>(n, r). hook_of r = h) flight"

definition guarded_hook :: "account_hook \<Rightarrow> bool" where
  "guarded_hook h \<longleftrightarrow> h \<in> {PermissionHook, PricesHook, ArchiveHook}"

definition hook_ok :: "account_hook \<Rightarrow> hooks \<Rightarrow> (nat \<times> account_request) list \<Rightarrow> bool" where
  "hook_ok h hooks flight \<longleftrightarrow>
     (\<forall>n r. mu_state (hooks h) = MutationPending n r \<longrightarrow> (n, r) \<in> set (in_flight h flight)) \<and>
     (guarded_hook h \<longrightarrow> length (in_flight h flight) \<le> 1 \<and> (in_flight h flight \<noteq> [] \<longrightarrow> is_pending (hooks h)))"

definition hooks_ok :: "hooks \<Rightarrow> (nat \<times> account_request) list \<Rightarrow> bool" where
  "hooks_ok hooks flight \<longleftrightarrow> (\<forall>h. hook_ok h hooks flight)"

lemma hook_ok_cong: "hooks h = hooks' h \<Longrightarrow> in_flight h flight = in_flight h flight' \<Longrightarrow> hook_ok h hooks flight = hook_ok h hooks' flight'"
  by (simp add: hook_ok_def)

lemma hooks_ok_send:
  assumes ok: "hooks_ok hooks flight" and idle: "guarded_hook (hook_of r) \<Longrightarrow> \<not> is_pending (hooks (hook_of r))"
    and n: "n = mu_count (hooks (hook_of r))"
  shows "hooks_ok (hooks(hook_of r := mutate r (hooks (hook_of r)))) (flight @ [(n, r)])"
  unfolding hooks_ok_def
proof
  fix h
  from ok have h: "hook_ok h hooks flight" by (simp add: hooks_ok_def)
  show "hook_ok h (hooks(hook_of r := mutate r (hooks (hook_of r)))) (flight @ [(n, r)])"
  proof (cases "h = hook_of r")
    case True
    have "guarded_hook h \<Longrightarrow> in_flight h flight = []" using h idle True by (auto simp: hook_ok_def)
    with True n show ?thesis by (auto simp: hook_ok_def in_flight_def mutate_def is_pending_def)
  next
    case False
    with h show ?thesis by (subst hook_ok_cong [of _ _ hooks _ flight]) (auto simp: in_flight_def)
  qed
qed

lemma settle_still_pending:
  "mu_state (settle_mutation n a m) = MutationPending k q \<Longrightarrow> mu_state m = MutationPending k q \<and> k \<noteq> n"
  by (cases "mu_state m"; cases a) (auto simp: settle_mutation_def split: if_splits)

lemma hooks_ok_answer:
  assumes ok: "hooks_ok hooks flight" and i: "i < length flight" "flight ! i = (n, r)"
  shows "hooks_ok (hooks(hook_of r := settle_mutation n a (hooks (hook_of r)))) (take i flight @ drop (Suc i) flight)"
  unfolding hooks_ok_def
proof
  fix h
  define xs ys where "xs = take i flight" and "ys = drop (Suc i) flight"
  have flight: "flight = xs @ (n, r) # ys" using id_take_nth_drop [OF i(1)] i(2) by (simp add: xs_def ys_def)
  from ok have h: "hook_ok h hooks flight" by (simp add: hooks_ok_def)
  show "hook_ok h (hooks(hook_of r := settle_mutation n a (hooks (hook_of r)))) (take i flight @ drop (Suc i) flight)"
  proof (cases "h = hook_of r")
    case True
    have all: "in_flight h flight = in_flight h xs @ (n, r) # in_flight h ys" unfolding flight using True by (simp add: in_flight_def)
    have rest: "in_flight h (take i flight @ drop (Suc i) flight) = in_flight h xs @ in_flight h ys"
      by (simp add: in_flight_def xs_def ys_def)
    have "guarded_hook h \<Longrightarrow> in_flight h xs = [] \<and> in_flight h ys = []" using h by (auto simp: hook_ok_def all)
    moreover have "(m, q) \<in> set (in_flight h xs @ in_flight h ys)"
      if "mu_state (settle_mutation n a (hooks h)) = MutationPending m q" for m q
    proof -
      from settle_still_pending [OF that] h have "(m, q) \<in> set (in_flight h flight)" "m \<noteq> n"
        unfolding hook_ok_def by blast+
      then show ?thesis by (auto simp: all)
    qed
    ultimately show ?thesis unfolding hook_ok_def rest using True by simp
  next
    case False
    then have "in_flight h (xs @ ys) = in_flight h flight" unfolding flight by (auto simp: in_flight_def)
    with h False show ?thesis by (subst hook_ok_cong [of _ _ hooks _ flight]) (simp_all add: xs_def ys_def)
  qed
qed

lemma start_pool_flight: "filter importable items \<noteq> [] \<Longrightarrow> pl_flight (start_pool items) \<noteq> []"
proof -
  assume pending: "filter importable items \<noteq> []"
  have "pl_next s = 0 \<Longrightarrow> m = 0 \<or> pl_flight ((take_next (filter importable items) ^^ m) s) \<noteq> []" for m s
    by (induction m) (use pending in \<open>auto simp: take_next_def\<close>)
  moreover have "min COOKIE_IMPORT_CONCURRENCY (length (filter importable items)) \<noteq> 0"
    using pending by (cases "filter importable items") (simp_all add: COOKIE_IMPORT_CONCURRENCY_def)
  ultimately have "pl_flight ((take_next (filter importable items) ^^ min COOKIE_IMPORT_CONCURRENCY (length (filter importable items)))
      \<lparr>pl_next = 0, pl_flight = [], pl_sent = [], pl_succeeded = 0, pl_failed = 0, pl_items = items\<rparr>) \<noteq> []"
    by (metis pool.select_convs(1))
  then show ?thesis by (simp add: start_pool_def Let_def)
qed

definition import_ok :: "AccountList \<Rightarrow> bool" where
  "import_ok s \<longleftrightarrow> al_pool s = None \<or> al_bulkOpen s \<and> pl_flight (snd (the (al_pool s))) \<noteq> []"

definition account_list_ok :: "AccountList \<Rightarrow> bool" where
  "account_list_ok s \<longleftrightarrow> selection_ok (al_selected s) \<and> hooks_ok (al_hooks s) (al_flight s) \<and> import_ok s"

lemma account_list_okI:
  "account_list_ok s \<Longrightarrow> selection_ok (al_selected t) \<Longrightarrow> al_hooks t = al_hooks s \<Longrightarrow> al_flight t = al_flight s \<Longrightarrow>
    al_pool t = al_pool s \<Longrightarrow> al_bulkOpen t = al_bulkOpen s \<Longrightarrow> account_list_ok t"
  by (simp add: account_list_ok_def import_ok_def)

lemma open_accounts_ok: "account_list_ok (open_accounts ps)"
  by (simp add: account_list_ok_def open_accounts_def selection_ok_empty hooks_ok_def hook_ok_def in_flight_def
      import_ok_def new_mutation_def)

lemma send_request_ok:
  assumes "account_list_ok s" "guarded_hook (hook_of r) \<Longrightarrow> \<not> hook_pending (hook_of r) s"
  shows "account_list_ok (send_request r s)"
  using assms hooks_ok_send [of "al_hooks s" "al_flight s" r]
  by (simp add: account_list_ok_def send_request_def Let_def hook_pending_def import_ok_def)

lemma send_request_free: "account_list_ok s \<Longrightarrow> \<not> guarded_hook (hook_of r) \<Longrightarrow> account_list_ok (send_request r s)"
  by (rule send_request_ok) simp_all

lemma on_answer_keeps:
  "al_hooks (on_answer r a s) = al_hooks s" "al_flight (on_answer r a s) = al_flight s"
  "al_pool (on_answer r a s) = al_pool s" "al_bulkOpen (on_answer r a s) = al_bulkOpen s"
  "selection_ok (al_selected s) \<Longrightarrow> selection_ok (al_selected (on_answer r a s))"
  by (induction r a s rule: on_answer.induct) (simp_all add: refresh_accounts_def on_archived_def selection_ok_archived)

lemma answer_request_ok: "account_list_ok s \<Longrightarrow> account_list_ok (answer_request i a s)"
proof (cases "i < length (al_flight s) \<and> answer_fits (snd (al_flight s ! i)) a")
  case True
  assume ok: "account_list_ok s"
  obtain n r where r: "al_flight s ! i = (n, r)" by fastforce
  from ok True r show ?thesis
    using hooks_ok_answer [of "al_hooks s" "al_flight s" i n r "hook_answer a"]
    by (simp add: answer_request_def account_list_ok_def import_ok_def on_answer_keeps Let_def)
qed (auto simp: answer_request_def)

lemma answer_import_ok: "account_list_ok s \<Longrightarrow> account_list_ok (answer_import i err s)"
  by (auto simp: answer_import_def account_list_ok_def import_ok_def with_items_def end_import_def refresh_accounts_def Let_def
      split: option.splits prod.splits)

lemma start_import_ok: "account_list_ok s \<Longrightarrow> al_bulkOpen s \<Longrightarrow> account_list_ok (start_import s)"
  using start_pool_flight [of "bk_items (al_bulk s)"]
  by (auto simp: start_import_def Let_def account_list_ok_def import_ok_def importableCount_def)

lemma account_step_ok: "account_list_ok s \<Longrightarrow> account_list_ok (account_step hostname s e)"
proof (cases e)
  case (ScanEnds fetch)
  assume ok: "account_list_ok s"
  show ?thesis
  proof (cases "scan_pages fetch 1 []")
    case (Some result)
    then show ?thesis
      by (cases result; cases "al_scan s") (simp_all add: ScanEnds ok show_scan_def account_list_okI [OF ok]
          selection_ok_scan ok [unfolded account_list_ok_def])
  qed (simp add: ScanEnds ok)
next
  case (PressPermission onCard a)
  assume ok: "account_list_ok s"
  have "account_list_ok (if onCard then s else s\<lparr>al_error := []\<rparr>)" using ok by (simp add: account_list_ok_def import_ok_def)
  then show ?thesis using ok send_request_ok by (simp add: PressPermission hook_pending_def)
next
  case (PressPrices a)
  assume ok: "account_list_ok s"
  have "account_list_ok (s\<lparr>al_error := [], al_feedback := []\<rparr>)" using ok by (simp add: account_list_ok_def import_ok_def)
  then show ?thesis using ok send_request_ok by (simp add: PressPrices hook_pending_def)
next
  case (CookieFileParsed a parsed)
  assume "account_list_ok s"
  then show ?thesis
    by (cases parsed) (simp add: CookieFileParsed account_list_ok_def import_ok_def, simp add: CookieFileParsed send_request_free guarded_hook_def)
next
  case (ShowBulk shown)
  assume "account_list_ok s"
  then show ?thesis by (cases "al_pool s") (simp_all add: ShowBulk account_list_ok_def import_ok_def bulk_busy_def)
next
  case (OpenBulk ps)
  assume "account_list_ok s"
  then show ?thesis by (auto simp: OpenBulk account_list_ok_def import_ok_def split: option.splits)
qed ((simp add: send_request_ok send_request_free guarded_hook_def answer_request_ok answer_import_ok start_import_ok; fail) |
    (simp add: account_list_ok_def import_ok_def selection_ok_toggle selection_ok_page selection_ok_empty Let_def; fail))+

interpretation account_list: guarded_machine "account_step hostname" account_list_ok "\<lambda>_. True"
  by unfold_locales (simp add: account_step_ok)

lemma accounts_ok: "account_list_ok (foldl (account_step hostname) (open_accounts ps) es)"
  by (rule account_list.ok_run [OF open_accounts_ok]) (simp add: list_all_iff)

section \<open>Properties\<close>

text \<open>C12: Whatever is done on the account page and in whatever order the answers come, an icon that turns has a
  request without an answer, at most one permission check, one price sync and one archiving are under way, and
  their buttons are enabled again exactly when it is answered; and while an import runs its dialog is open and
  an answer is outstanding.\<close>

theorem account_page_invariant:
  assumes "s = foldl (account_step hostname) (open_accounts ps) es"
  shows "(hook_pending h s \<longrightarrow> in_flight h (al_flight s) \<noteq> []) \<and>
    (h \<in> {PermissionHook, PricesHook, ArchiveHook} \<longrightarrow>
      length (in_flight h (al_flight s)) \<le> 1 \<and> (hook_pending h s \<longleftrightarrow> in_flight h (al_flight s) \<noteq> [])) \<and>
    (bulk_busy s \<longrightarrow> al_bulkOpen s \<and> (\<exists>pending p. al_pool s = Some (pending, p) \<and> pl_flight p \<noteq> []))"
proof -
  have ok: "hook_ok h (al_hooks s) (al_flight s)" "import_ok s"
    using accounts_ok [of hostname ps es] by (simp_all add: assms account_list_ok_def hooks_ok_def)
  have "hook_pending h s \<longrightarrow> in_flight h (al_flight s) \<noteq> []"
    using ok(1) by (auto simp: hook_ok_def hook_pending_def is_pending_def split: mutation_state.splits)
  with ok show ?thesis
    by (auto simp: hook_ok_def guarded_hook_def hook_pending_def import_ok_def bulk_busy_def)
qed

theorem account_page_invariant_witness:
  "in_flight PermissionHook (al_flight (foldl (account_step (\<lambda>_. None)) (open_accounts [])
     [PressPermission False sample_account, PressPermission True sample_account])) \<noteq> []"
proof -
  let ?s = "foldl (account_step (\<lambda>_. None)) (open_accounts []) [PressPermission False sample_account, PressPermission True sample_account]"
  have "hook_pending PermissionHook ?s"
    by (simp add: sample_account_def open_accounts_def hook_pending_def send_request_def)
  then show ?thesis using account_page_invariant [of ?s "\<lambda>_. None" "[]" _ PermissionHook, OF refl] by blast
qed

text \<open>C11: What the archive dialog lists is what is archived: confirming it sends the ids of exactly the accounts
  it shows, each once, in batches of at most 100.\<close>

theorem archive_sends_what_is_listed:
  assumes s: "s = foldl (account_step hostname) (open_accounts ps) es"
    and v: "archive_dialog s = Some v" "\<not> abt_disabled (av_button v)"
  shows "\<exists>(listed :: Account list) batches n. av_accounts v = map (\<lambda>a. (acc_name a, or_str (acc_email a) (acc_provider_id a))) listed \<and>
    distinct (map acc_id listed) \<and>
    al_flight (account_step hostname s ConfirmArchive) = al_flight s @ [(n, ArchiveSelected (map acc_id listed))] \<and>
    account_calls (ArchiveSelected (map acc_id listed)) = map (\<lambda>batch.
      (lit ''POST'', lit ''/admin/api/accounts/archive'', Some (JObj [(lit ''ids'', JArr (map JStr batch))]))) batches \<and>
    concat batches = map acc_id listed \<and> (\<forall>batch \<in> set batches. length batch \<le> 100)"
proof -
  let ?listed = "map_values (al_selected s)"
  have "selection_ok (al_selected s)" using accounts_ok [of hostname ps es] by (simp add: s account_list_ok_def)
  then have keys: "map_keys (al_selected s) = map acc_id ?listed" "distinct (map acc_id ?listed)"
  proof -
    assume ok: "selection_ok (al_selected s)"
    then show "map_keys (al_selected s) = map acc_id ?listed"
      by (auto simp: selection_ok_def map_keys_def map_values_def)
    with ok show "distinct (map acc_id ?listed)" by (simp add: selection_ok_def jmap_ok_def)
  qed
  have shown: "al_archiveOpen s" "\<not> hook_pending ArchiveHook s"
    "av_accounts v = map (\<lambda>a. (acc_name a, or_str (acc_email a) (acc_provider_id a))) ?listed"
    using v by (auto simp: archive_dialog_def Let_def split: if_splits)
  have sent: "al_flight (account_step hostname s ConfirmArchive) =
      al_flight s @ [(mu_count (al_hooks s ArchiveHook), ArchiveSelected (map acc_id ?listed))]"
    using shown by (simp add: send_request_def Let_def keys(1))
  have cover: "concat (chunkAccountIDs (map acc_id ?listed)) = map acc_id ?listed"
    "\<forall>batch \<in> set (chunkAccountIDs (map acc_id ?listed)). length batch \<le> 100"
    using chunks_bounds [of 100] by (auto simp: chunkAccountIDs_def ARCHIVE_BATCH_SIZE_def concat_chunks)
  show ?thesis
    by (intro exI) (rule conjI [OF shown(3) conjI [OF keys(2) conjI [OF sent conjI [OF account_calls.simps(6) conjI [OF cover]]]]])
qed

theorem archive_sends_what_is_listed_witness:
  "\<exists>n ids. al_flight (account_step (\<lambda>_. None) (foldl (account_step (\<lambda>_. None)) (open_accounts [])
      [TickAccount sample_account True, AskArchive]) ConfirmArchive) = [(n, ArchiveSelected ids)] \<and> length ids = 1"
proof -
  define s where "s = foldl (account_step (\<lambda>_. None)) (open_accounts []) [TickAccount sample_account True, AskArchive]"
  have s': "al_flight s = []" "\<exists>v. archive_dialog s = Some v \<and> \<not> abt_disabled (av_button v) \<and> length (av_accounts v) = 1"
    by (simp_all add: s_def archive_dialog_def Let_def open_accounts_def toggleAccount_def hook_pending_def map_values_def)
  then obtain v where v: "archive_dialog s = Some v" "\<not> abt_disabled (av_button v)" "length (av_accounts v) = 1" by blast
  from archive_sends_what_is_listed [OF s_def v(1,2)] obtain listed :: "Account list" and n where
    "av_accounts v = map (\<lambda>a. (acc_name a, or_str (acc_email a) (acc_provider_id a))) listed"
    "al_flight (account_step (\<lambda>_. None) s ConfirmArchive) = al_flight s @ [(n, ArchiveSelected (map acc_id listed))]" by blast
  with v(3) s'(1) show ?thesis unfolding s_def [symmetric] by auto
qed

text \<open>A session refresh and a change of status that fail leave no trace on the page; and the check of the
  permission started from a card, unlike that of the list, leaves the error of an earlier operation there.\<close>

theorem account_errors_unseen_or_stale:
  assumes "i < length (al_flight s)" "snd (al_flight s ! i) = RefreshSession x \<or> snd (al_flight s ! i) = ChangeStatus b"
    and "t = account_step hostname s (RequestAnswered i (RequestFailed message))"
    and "checks_permission a" "\<not> hook_pending PermissionHook s"
  shows "al_feedback t = al_feedback s \<and> al_error t = al_error s \<and> al_alerts t = al_alerts s \<and>
    al_refreshes t = al_refreshes s \<and> al_selected t = al_selected s \<and>
    al_error (account_step hostname s (PressPermission True a)) = al_error s \<and>
    al_error (account_step hostname s (PressPermission False a)) = []"
  using assms by (cases "al_flight s ! i") (auto simp: answer_request_def Let_def checks_permission_def send_request_def)

theorem account_errors_unseen_or_stale_witness:
  "al_error (foldl (account_step (\<lambda>_. None)) (open_accounts []) [PressRefresh sample_account, RequestAnswered 0 (RequestFailed (lit ''down''))]) = []"
proof -
  define s where "s = account_step (\<lambda>_. None) (open_accounts []) (PressRefresh sample_account)"
  have s': "0 < length (al_flight s)" "snd (al_flight s ! 0) = RefreshSession (acc_id sample_account)"
    "\<not> hook_pending PermissionHook s" "al_error s = []"
    by (simp_all add: s_def open_accounts_def send_request_def hook_pending_def Let_def)
  have "checks_permission sample_account" by (simp add: checks_permission_def sample_account_def)
  from account_errors_unseen_or_stale [OF s'(1) disjI1 [OF s'(2)] refl this s'(3)] s'(4)
  show ?thesis by (simp add: s_def)
qed

end
