(* ===== verification/Failures.thy ===== *)
theory Failures
  imports StatusText Switcher
begin

text \<open>
  When a computation that looks up names fails: rules that turn the failure of a whole view into the names it
  cannot show. Looking up a label in an object literal fails exactly for the names of Object.prototype.
\<close>

definition fails :: "'a res \<Rightarrow> bool" where
  "fails x \<longleftrightarrow> (\<exists>e. x = Inl e)"

lemma fails_simps [simp]:
  "fails (Inl e)" "\<not> fails (Inr v)" "fails (bindr x f) \<longleftrightarrow> fails x \<or> (\<exists>v. x = Inr v \<and> fails (f v))"
  by (auto simp: fails_def split: sum.splits) (cases x; auto)

lemma fails_if [simp]: "fails (if b then x else y) \<longleftrightarrow> (if b then fails x else fails y)"
  by simp

lemma not_fails: "\<not> fails x \<longleftrightarrow> (\<exists>v. x = Inr v)"
  by (cases x) (auto simp: fails_def)

lemma fails_mapr [simp]: "fails (mapr f xs) \<longleftrightarrow> (\<exists>x \<in> set xs. fails (f x))"
proof (induction xs)
  case (Cons x xs)
  then show ?case by (cases "f x"; cases "mapr f xs") (auto simp: fails_def)
qed simp

lemma statusText_fails [simp]: "fails (statusText st) \<longleftrightarrow> st \<in> set object_prototype_keys"
  using statusText_cases [of st] by (auto simp: fails_def split: if_splits)

lemma display_fails [simp]: "fails (providerDisplayName p ps) \<longleftrightarrow> p \<in> set object_prototype_keys"
  using providerDefinition_Inl_iff [of p "find (\<lambda>q. prov_id q = p) ps"]
  by (simp add: providerDisplayName_def) (simp add: fails_def)

lemma badge_fails [simp]: "fails (ProviderBadge p qs) \<longleftrightarrow> p \<in> set object_prototype_keys"
  using providerDefinition_Inl_iff [of p "find (\<lambda>q. prov_id q = p) qs"]
  by (simp add: ProviderBadge_def) (simp add: fails_def)

end
