(* ===== verification/TaskDetail.thy ===== *)
theory TaskDetail
  imports Tasks Mutation Failures
begin

text \<open>
  The task list and the detail dialog of pages/task-pages.tsx as they are shown, and the two requests the
  dialog can make about a task whose submission is uncertain. \<open>loc\<close> is \<open>toLocaleString\<close>, \<open>num\<close> prints a
  number in a template literal, \<open>when\<close> an instant; \<open>pretty\<close> and \<open>text\<close> are \<open>JSON.stringify\<close> with and
  without indentation.
\<close>

section \<open>The list\<close>

definition credit_providers :: "Provider list \<Rightarrow> CreditProvider list" where
  "credit_providers = map (\<lambda>p. \<lparr>cp_id = Some (prov_id p), cp_provider_id = None, cp_credit_unit = prov_credit_unit p\<rparr>)"

definition task_metrics :: "Provider list \<Rightarrow> jstr \<Rightarrow> int \<Rightarrow> Task list \<Rightarrow> (jstr \<times> jstr) list res" where
  "task_metrics ps providerFilter n data =
     bindr (if providerFilter = lit ''all'' then Inr (ulit ''%u4EFB%u52A1%u603B%u6570'')
        else bindr (providerDisplayName providerFilter ps) (\<lambda>name. Inr (name @ ulit ''%u4EFB%u52A1''))) (\<lambda>label.
     Inr [(label, num_str n), (ulit ''%u672C%u9875%u8FDB%u884C%u4E2D'', num_str (int (tasks_running data))), (ulit ''%u672C%u9875%u5931%u8D25'', num_str (int (tasks_failed data)))])"

text \<open>The table: with many rows on a wide screen those the virtual scroller asks for, by index.\<close>

definition task_table_heads :: "jstr list" where
  "task_table_heads = [ulit ''%u4EFB%u52A1'', ulit ''%u5E73%u53F0 / %u6A21%u578B'', ulit ''%u7ED3%u7B97 / %u9884%u7559'', ulit ''%u72B6%u6001'', ulit ''%u7ED3%u679C%u8BF4%u660E'', []]"

definition TaskTable ::
    "(int \<Rightarrow> int) \<Rightarrow> (int option \<Rightarrow> jstr) \<Rightarrow> (rat \<Rightarrow> jstr) \<Rightarrow> (rat \<Rightarrow> jstr) \<Rightarrow> Provider list \<Rightarrow> bool \<Rightarrow> nat list \<Rightarrow> Task list \<Rightarrow>
     ((jstr \<times> jstr) \<times> TaskRow) list res" where
  "TaskTable utc when loc num ps narrow visible data =
     mapr (\<lambda>t. bindr (ProviderBadge (task_provider_id t) ps) (\<lambda>badge.
         bindr (task_row utc when loc num (credit_providers ps) t) (\<lambda>row. Inr (badge, row))))
       (if table_virtualized data narrow then map (\<lambda>i. data ! i) visible else data)"

definition task_kinds :: "(jstr \<times> jstr) list" where
  "task_kinds = [(lit ''all'', ulit ''%u5168%u90E8''), (lit ''image'', ulit ''%u56FE%u50CF''), (lit ''video'', ulit ''%u89C6%u9891''), (lit ''audio'', ulit ''%u97F3%u9891'')]"

definition tasks_empty :: "bool \<Rightarrow> Task list \<Rightarrow> (jstr \<times> jstr) option" where
  "tasks_empty loading data = (if \<not> loading \<and> data = [] then Some (ulit ''%u6682%u65E0%u751F%u6210%u4EFB%u52A1'', ulit ''%u65B0%u4EFB%u52A1%u63D0%u4EA4%u540E%u4F1A%u663E%u793A%u5728%u8FD9%u91CC%u3002'') else None)"

text \<open>A line of the cleanup dialog.\<close>

definition cleanup_line ::
    "(int \<Rightarrow> int) \<Rightarrow> (int option \<Rightarrow> jstr) \<Rightarrow> Provider list \<Rightarrow> Task \<Rightarrow> ((jstr \<times> jstr) \<times> jstr \<times> jstr \<times> jstr \<times> jstr) res" where
  "cleanup_line utc when ps t =
     bindr (ProviderBadge (task_provider_id t) ps) (\<lambda>badge.
     bindr (reservationText (task_reservation_state t) (task_reservation_release_reason t)) (\<lambda>reservation.
     Inr (badge, task_kind_name (task_kind t) @ ulit '' %u00B7 '' @ task_model t, task_id t,
       when (date_time utc (task_created_at t)), reservation)))"

text \<open>The dialog: its title, its lines, and its button with whether it is disabled.\<close>

definition cleanup_dialog ::
    "(int \<Rightarrow> int) \<Rightarrow> (int option \<Rightarrow> jstr) \<Rightarrow> Provider list \<Rightarrow> TaskListPage \<Rightarrow>
     (jstr \<times> ((jstr \<times> jstr) \<times> jstr \<times> jstr \<times> jstr \<times> jstr) list \<times> jstr \<times> bool) option res" where
  "cleanup_dialog utc when ps s = (if \<not> tl_cleanupOpen s then Inr None else
     bindr (mapr (cleanup_line utc when ps) (tl_cleanupTasks s)) (\<lambda>rows.
     Inr (Some (ulit ''%u5C06 '' @ num_str (int (length (tl_cleanupTasks s))) @ ulit '' %u4E2A%u5F02%u5E38%u4EFB%u52A1%u6807%u8BB0%u4E3A%u5931%u8D25%uFF1F'', rows,
       (if tl_cleaning s then ulit ''%u6B63%u5728%u5904%u7406'' else ulit ''%u786E%u8BA4%u6807%u8BB0%u5931%u8D25''), tl_cleaning s \<or> tl_cleanupTasks s = []))))"

section \<open>The details of a task\<close>

text \<open>\<open>TaskDetailItem\<close> shows a dash for a text that is not there.\<close>

definition TaskDetailItem :: "jstr \<Rightarrow> jstr \<Rightarrow> jstr \<times> jstr" where
  "TaskDetailItem label value = (label, or_str value (ulit ''%u2014''))"

definition detail_grid ::
    "(int \<Rightarrow> int) \<Rightarrow> (int option \<Rightarrow> jstr) \<Rightarrow> (rat \<Rightarrow> jstr) \<Rightarrow> (rat \<Rightarrow> jstr) \<Rightarrow> Provider list \<Rightarrow> Task \<Rightarrow> (jstr \<times> jstr) list res" where
  "detail_grid utc when loc num ps t =
     (let unit = taskCreditUnit t (credit_providers ps) in
      bindr (providerDisplayName (task_provider_id t) ps) (\<lambda>name.
      bindr (reservationText (task_reservation_state t) (task_reservation_release_reason t)) (\<lambda>reservation.
      Inr [TaskDetailItem (ulit ''%u4EFB%u52A1 ID'') (task_id t), TaskDetailItem (ulit ''%u4E1A%u52A1%u5E73%u53F0'') name,
        TaskDetailItem (ulit ''%u4E0A%u6E38 Generation ID'') (opt_str (task_generation_id t)),
        TaskDetailItem (ulit ''%u7C7B%u578B / %u6A21%u578B'') (task_kind_name (task_kind t) @ ulit '' %u00B7 '' @ task_model t),
        TaskDetailItem (ulit ''%u4E0A%u6E38%u8FDB%u5EA6'') (upstream_progress t),
        TaskDetailItem (ulit ''%u6392%u961F%u4F4D%u7F6E'') (if nullish (task_queue_position t) 0 \<noteq> 0 then ulit ''%u7B2C '' @ num (the (task_queue_position t)) @ ulit '' %u4F4D'' else ulit ''%u2014''),
        TaskDetailItem (ulit ''%u9884%u8BA1 '' @ unit) (case task_estimated_tokens t of None \<Rightarrow> ulit ''%u2014'' | Some n \<Rightarrow> or_str (loc n) (ulit ''%u2014'')),
        TaskDetailItem (ulit ''%u672C%u5730%u7ED3%u7B97 '' @ unit) (tokenCost loc t),
        TaskDetailItem (ulit ''%u4E0A%u6E38%u62A5%u544A%u6210%u672C%uFF08%u4E0D%u5165%u8D26%uFF09'') (case task_upstream_reported_cost t of None \<Rightarrow> ulit ''%u4E0A%u6E38%u672A%u62A5%u544A'' | Some n \<Rightarrow> formatTokens loc n),
        TaskDetailItem (ulit ''%u9884%u7559%u72B6%u6001'') reservation, TaskDetailItem (ulit ''%u8DEF%u7531%u8D26%u53F7'') (or_str (opt_str (task_account_id t)) (ulit ''%u2014'')),
        TaskDetailItem (ulit ''%u6267%u884C%u8017%u65F6'') (taskDuration utc t),
        TaskDetailItem (ulit ''%u521B%u5EFA%u65F6%u95F4'') (when (date_time utc (task_created_at t))),
        TaskDetailItem (ulit ''%u5B8C%u6210%u65F6%u95F4'') (if opt_str (task_completed_at t) \<noteq> [] then when (date_time utc (opt_str (task_completed_at t))) else ulit ''%u2014'')])))"

definition timeline_row :: "(int \<Rightarrow> int) \<Rightarrow> (int option \<Rightarrow> jstr) \<Rightarrow> TaskEvent \<Rightarrow> (jstr \<times> jstr \<times> jstr) res" where
  "timeline_row utc when e = bindr (timeline_label e) (\<lambda>label.
     Inr (label, or_str (opt_str (te_message e)) (ulit ''%u72B6%u6001%u5DF2%u66F4%u65B0''), when (date_time utc (te_created_at e))))"

definition merged_note :: "Task \<Rightarrow> jstr option" where
  "merged_note t = (if mergedEventCount t > 0
     then Some (ulit ''%u5DF2%u5408%u5E76 '' @ num_str (int (mergedEventCount t)) @ ulit '' %u6761%u8FDE%u7EED%u91CD%u590D%u72B6%u6001%u4E8B%u4EF6'') else None)"

text \<open>The parameters sent upstream: what is shown, and what can be copied.\<close>

definition upstream_text :: "(json \<Rightarrow> jstr) \<Rightarrow> Task \<Rightarrow> jstr" where
  "upstream_text pretty t = (case task_upstream_request t of None \<Rightarrow> [] | Some kvs \<Rightarrow> pretty (JObj kvs))"

definition upstream_section :: "(json \<Rightarrow> jstr) \<Rightarrow> bool \<Rightarrow> jstr option \<Rightarrow> Task \<Rightarrow> jstr \<times> jstr option" where
  "upstream_section pretty loading problem t =
     ((if loading then ulit ''%u6B63%u5728%u8BFB%u53D6...'' else case problem of Some message \<Rightarrow> message
       | None \<Rightarrow> or_str (upstream_text pretty t) (ulit ''%u6B64%u4EFB%u52A1%u672A%u8BB0%u5F55%u4E0A%u6E38%u8BF7%u6C42%u53C2%u6570'')),
      (if upstream_text pretty t \<noteq> [] then Some (upstream_text pretty t) else None))"

text \<open>The notes of the provider about a failure, numbered where they have no type.\<close>

definition note_line :: "(json \<Rightarrow> jstr) \<Rightarrow> nat \<Rightarrow> TaskNote \<Rightarrow> jstr \<times> jstr" where
  "note_line text i note =
     (or_str (opt_str (tn_noteType note)) (lit ''Note '' @ num_str (int i + 1)),
      text (case tn_failureReason note of Some kvs \<Rightarrow> JObj kvs
        | None \<Rightarrow> (case tn_notePayload note of Some payload \<Rightarrow> if truthy payload then payload else JObj [] | None \<Rightarrow> JObj [])))"

definition failure_notes :: "(json \<Rightarrow> jstr) \<Rightarrow> Task \<Rightarrow> (jstr \<times> jstr) list \<times> jstr option" where
  "failure_notes text t = (if task_status t \<noteq> lit ''failed'' then ([], None) else case task_error_details t of
       None \<Rightarrow> ([], None)
     | Some d \<Rightarrow> (let notes = nullish (ted_notes d) [] in
         (map (\<lambda>(i, note). note_line text i note) (zip [0..<length notes] notes),
          if opt_str (ted_detail_error d) \<noteq> [] then Some (ulit ''%u8BE6%u60C5%u67E5%u8BE2%u5931%u8D25%uFF1A'' @ opt_str (ted_detail_error d)) else None)))"

text \<open>The results: number, description and link of each, or the text of an empty answer.\<close>

definition result_lines :: "(rat \<Rightarrow> jstr) \<Rightarrow> Task \<Rightarrow> ((jstr \<times> jstr \<times> jstr option) list + jstr) option" where
  "result_lines num t = (if task_status t \<noteq> lit ''succeeded'' then None else
     (let outputs = (case task_result t of None \<Rightarrow> [] | Some r \<Rightarrow> nullish (tr_data r) []) in
      Some (if outputs = [] then Inr (ulit ''%u4EFB%u52A1%u6210%u529F%uFF0C%u4F46%u54CD%u5E94%u4E2D%u6CA1%u6709%u53EF%u5C55%u793A%u7684%u8F93%u51FA%u6761%u76EE%u3002'')
        else Inl (map (\<lambda>(i, output). (ulit ''%u7ED3%u679C '' @ num_str (int i + 1), output_text num output, non_empty (to_url output)))
          (zip [0..<length outputs] outputs)))))"

section \<open>The dialog\<close>

text \<open>
  The dialog reads the task again while it runs; both requests are for the task it shows. A success asks for
  the list and the task again (\<open>td_refreshes\<close>); the dialog does not show a failure.
\<close>

datatype task_request = ReleaseReservation jstr | ConfirmNotCreated jstr

fun task_call :: "task_request \<Rightarrow> jstr \<times> jstr" where
  "task_call (ReleaseReservation i) = (lit ''POST'', lit ''/admin/api/tasks/'' @ i @ lit ''/reservation/release'')"
| "task_call (ConfirmNotCreated i) = (lit ''POST'', lit ''/admin/api/tasks/'' @ i @ lit ''/submission/not-created'')"

record TaskDetailPage =
  td_initial :: Task
  td_data :: "Task option"
  td_loading :: bool
  td_problem :: "jstr option"
  td_release :: "(task_request, unit) mutation"
  td_confirm :: "(task_request, unit) mutation"
  td_refreshes :: nat

definition open_task_detail :: "Task \<Rightarrow> TaskDetailPage" where
  "open_task_detail t = \<lparr>td_initial = t, td_data = None, td_loading = True, td_problem = None,
     td_release = new_mutation, td_confirm = new_mutation, td_refreshes = 0\<rparr>"

definition shown_task :: "TaskDetailPage \<Rightarrow> Task" where
  "shown_task s = (case td_data s of Some t \<Rightarrow> t | None \<Rightarrow> td_initial s)"

definition detail_actions :: "TaskDetailPage \<Rightarrow> TaskActions" where
  "detail_actions s = task_actions (shown_task s) (is_pending (td_release s)) (is_pending (td_confirm s))"

text \<open>The texts of the two buttons, and what they ask before they act.\<close>

definition action_labels :: "TaskDetailPage \<Rightarrow> jstr \<times> jstr" where
  "action_labels s = (if is_pending (td_release s) then ulit ''%u91CA%u653E%u4E2D'' else ulit ''%u4EC5%u91CA%u653E%u9884%u7559'',
     if is_pending (td_confirm s) then ulit ''%u5904%u7406%u4E2D'' else ulit ''%u786E%u8BA4%u672A%u63D0%u4EA4%u5E76%u6807%u8BB0%u5931%u8D25'')"

definition confirm_question :: "Provider list \<Rightarrow> Task \<Rightarrow> jstr res" where
  "confirm_question ps t = bindr (providerDisplayName (task_provider_id t) ps) (\<lambda>name.
     Inr (ulit ''%u8BF7%u5148%u786E%u8BA4 '' @ name @ ulit '' %u4E0A%u6E38%u6CA1%u6709%u5BF9%u5E94%u4EFB%u52A1%u3002%u6B64%u64CD%u4F5C%u4F1A%u628A%u4EFB%u52A1%u6807%u8BB0%u4E3A%u5931%u8D25%u5E76%u91CA%u653E%u5E73%u53F0%u4F59%u989D%u9884%u7559%uFF0C%u786E%u8BA4%u7EE7%u7EED%uFF1F''))"

datatype detail_event =
  DetailAnswer "jstr + Task"
| PressRelease bool
| PressConfirm bool
| ReleaseAnswer nat "jstr option"
| ConfirmAnswer nat "jstr option"

text \<open>\<open>PressRelease ok\<close>: the button, with the answer to the question it asks.\<close>

fun detail_step :: "TaskDetailPage \<Rightarrow> detail_event \<Rightarrow> TaskDetailPage" where
  "detail_step s (DetailAnswer answer) = (case answer of
       Inl message \<Rightarrow> s\<lparr>td_problem := Some message, td_loading := False\<rparr>
     | Inr t \<Rightarrow> s\<lparr>td_data := Some t, td_problem := None, td_loading := False\<rparr>)"
| "detail_step s (PressRelease ok) =
     (if ta_release (detail_actions s) \<and> ta_enabled (detail_actions s) \<and> ok
      then s\<lparr>td_release := mutate (ReleaseReservation (task_id (shown_task s))) (td_release s)\<rparr> else s)"
| "detail_step s (PressConfirm ok) =
     (if ta_confirm (detail_actions s) \<and> ta_enabled (detail_actions s) \<and> ok
      then s\<lparr>td_confirm := mutate (ConfirmNotCreated (task_id (shown_task s))) (td_confirm s)\<rparr> else s)"
| "detail_step s (ReleaseAnswer n err) = (case mu_state (td_release s) of
       MutationPending k r \<Rightarrow> if k \<noteq> n then s
         else s\<lparr>td_release := settle_mutation n (case err of Some m \<Rightarrow> Inl m | None \<Rightarrow> Inr ()) (td_release s),
                td_refreshes := td_refreshes s + (if err = None then 1 else 0)\<rparr>
     | _ \<Rightarrow> s)"
| "detail_step s (ConfirmAnswer n err) = (case mu_state (td_confirm s) of
       MutationPending k r \<Rightarrow> if k \<noteq> n then s
         else s\<lparr>td_confirm := settle_mutation n (case err of Some m \<Rightarrow> Inl m | None \<Rightarrow> Inr ()) (td_confirm s),
                td_refreshes := td_refreshes s + (if err = None then 1 else 0)\<rparr>
     | _ \<Rightarrow> s)"

text \<open>All the dialog shows, or the failure to show it.\<close>

record TaskDetailView =
  tdv_status :: jstr
  tdv_summary :: jstr
  tdv_grid :: "(jstr \<times> jstr) list"
  tdv_timeline :: "(jstr \<times> jstr \<times> jstr) list"
  tdv_merged :: "jstr option"
  tdv_prompt :: jstr
  tdv_upstream :: "jstr \<times> jstr option"
  tdv_failure :: "FailureDetail option"
  tdv_notes :: "(jstr \<times> jstr) list \<times> jstr option"
  tdv_warning :: "jstr option"
  tdv_results :: "((jstr \<times> jstr \<times> jstr option) list + jstr) option"
  tdv_actions :: TaskActions

definition task_detail_view ::
    "(int \<Rightarrow> int) \<Rightarrow> (int option \<Rightarrow> jstr) \<Rightarrow> (rat \<Rightarrow> jstr) \<Rightarrow> (rat \<Rightarrow> jstr) \<Rightarrow> (json \<Rightarrow> jstr) \<Rightarrow> (json \<Rightarrow> jstr) \<Rightarrow>
     Provider list \<Rightarrow> TaskDetailPage \<Rightarrow> TaskDetailView res" where
  "task_detail_view utc when loc num pretty text ps s =
     (let t = shown_task s in
      bindr (statusText (task_status t)) (\<lambda>status.
      bindr (taskResultSummary num t) (\<lambda>summary.
      bindr (detail_grid utc when loc num ps t) (\<lambda>grid.
      bindr (mapr (timeline_row utc when) (task_timeline t)) (\<lambda>timeline.
      bindr (failure_detail t ps) (\<lambda>failure.
      Inr \<lparr>tdv_status = status, tdv_summary = summary, tdv_grid = grid, tdv_timeline = timeline,
        tdv_merged = merged_note t, tdv_prompt = or_str (task_prompt t) (ulit ''%u672A%u586B%u5199%u63D0%u793A%u8BCD''),
        tdv_upstream = upstream_section pretty (td_loading s) (td_problem s) t,
        tdv_failure = failure, tdv_notes = failure_notes text t, tdv_warning = content_warning t,
        tdv_results = result_lines num t, tdv_actions = detail_actions s\<rparr>))))))"

section \<open>Lemmas\<close>

definition detail_ok :: "TaskDetailPage \<Rightarrow> bool" where
  "detail_ok s \<longleftrightarrow> \<not> (is_pending (td_release s) \<and> is_pending (td_confirm s))"

lemma settle_not_pending: "mu_state m = MutationPending n r \<Longrightarrow> \<not> is_pending (settle_mutation n answer m)"
  by (simp add: settle_mutation_def is_pending_def split: sum.split)

lemma detail_ok_step: "detail_ok s \<Longrightarrow> detail_ok (detail_step s e)"
  by (cases e) (auto simp: detail_ok_def detail_actions_def task_actions_def settle_not_pending split: sum.split mutation_state.split if_splits)

interpretation task_detail: guarded_machine detail_step detail_ok "\<lambda>_. True"
  by unfold_locales (rule detail_ok_step)

text \<open>When the texts of a task fail.\<close>

lemma reservation_fails [simp]: "fails (reservationText state reason) \<longleftrightarrow> opt_str state \<in> set object_prototype_keys"
proof -
  have "\<forall>k \<in> set object_prototype_keys. map_of reservation_labels k = None" "[] \<notin> set object_prototype_keys"
    by (simp_all add: object_prototype_keys_def reservation_labels_def)
  then show ?thesis by (auto simp: reservationText_def obj_get_def Let_def split: option.split)
qed

lemma own_status_names:
  "x \<in> set object_prototype_keys \<Longrightarrow> x \<noteq> lit ''failed'' \<and> x \<noteq> lit ''succeeded'' \<and> x \<noteq> lit ''cancelled'' \<and> x \<noteq> lit ''submission_uncertain'' \<and>
    x \<noteq> lit ''queued'' \<and> x \<noteq> lit ''created''"
  by (auto simp: object_prototype_keys_def)

lemma summary_fails [simp]: "fails (taskResultSummary num t) \<longleftrightarrow> task_status t \<in> set object_prototype_keys"
  using own_status_names [of "task_status t"] by (auto simp: taskResultSummary_def Let_def)

lemma timeline_fails [simp]: "fails (timeline_row utc when e) \<longleftrightarrow> te_status e \<in> set object_prototype_keys"
  using own_status_names [of "te_status e"] by (auto simp: timeline_row_def timeline_label_def)

lemma transition_statuses: "te_status ` set (transitionEvents es) = te_status ` set es"
  using arg_cong [OF transitionEvents_statuses [of es], of set] by simp

lemma timeline_statuses:
  "(\<exists>e \<in> set (task_timeline t). te_status e \<in> K) \<longleftrightarrow> lit ''created'' \<in> K \<or> te_status ` set (nullish (task_events t) []) \<inter> K \<noteq> {}"
proof -
  have "(\<exists>e \<in> set (transitionEvents es). te_status e \<in> K) \<longleftrightarrow> te_status ` set (transitionEvents es) \<inter> K \<noteq> {}" for es by auto
  then show ?thesis by (simp add: task_timeline_def transition_statuses)
qed

section \<open>Properties\<close>

text \<open>The details of a task are shown exactly when neither its status, its platform, its reservation state nor
  the status of one of its events is called like a property of Object.prototype; otherwise the page fails.\<close>

theorem task_detail_shown_iff:
  "(\<exists>v. task_detail_view utc when loc num pretty text ps s = Inr v) \<longleftrightarrow>
   (let t = shown_task s in
    ({task_status t, task_provider_id t, opt_str (task_reservation_state t)} \<union> te_status ` set (nullish (task_events t) [])) \<inter>
      set object_prototype_keys = {})"
proof -
  have created: "lit ''created'' \<notin> set object_prototype_keys" using own_status_names by blast
  have "fails (task_detail_view utc when loc num pretty text ps s) \<longleftrightarrow>
      task_status (shown_task s) \<in> set object_prototype_keys \<or> task_provider_id (shown_task s) \<in> set object_prototype_keys \<or>
      opt_str (task_reservation_state (shown_task s)) \<in> set object_prototype_keys \<or>
      te_status ` set (nullish (task_events (shown_task s)) []) \<inter> set object_prototype_keys \<noteq> {}"
    unfolding task_detail_view_def detail_grid_def failure_detail_def Let_def fails_simps fails_if fails_mapr statusText_fails
      summary_fails display_fails reservation_fails timeline_fails timeline_statuses
    using created by (auto simp: not_fails [symmetric])
  then show ?thesis unfolding not_fails [symmetric] Let_def by auto
qed

text \<open>C14: The dialog only asks to release or fail the task it shows, only when that is uncertain (and still holds
  its reservation), and never both at once, whatever is pressed and however the answers come.\<close>

theorem reconcile_only_uncertain:
  assumes "s = foldl detail_step (open_task_detail t) es"
  shows "\<not> (is_pending (td_release s) \<and> is_pending (td_confirm s)) \<and>
    (mutation_request (td_release (detail_step s e)) = Some r \<longrightarrow> mutation_request (td_release s) = Some r \<or>
       (r = ReleaseReservation (task_id (shown_task s)) \<and> task_status (shown_task s) = lit ''submission_uncertain'' \<and>
        task_reservation_state (shown_task s) = Some (lit ''held'') \<and> e = PressRelease True)) \<and>
    (mutation_request (td_confirm (detail_step s e)) = Some r \<longrightarrow> mutation_request (td_confirm s) = Some r \<or>
       (r = ConfirmNotCreated (task_id (shown_task s)) \<and> task_status (shown_task s) = lit ''submission_uncertain'' \<and> e = PressConfirm True))"
proof (intro conjI)
  have "detail_ok (open_task_detail t)" by (simp add: detail_ok_def open_task_detail_def)
  then have "detail_ok s" unfolding assms by (rule task_detail.ok_run) (simp add: list_all_iff)
  then show "\<not> (is_pending (td_release s) \<and> is_pending (td_confirm s))" by (simp add: detail_ok_def)
qed (cases e; auto simp: detail_actions_def task_actions_def dest!: settle_request
    split: sum.splits mutation_state.splits if_splits)+

lemma shown_task_update: "shown_task (s\<lparr>td_release := q\<rparr>) = shown_task s" "shown_task (s\<lparr>td_confirm := q\<rparr>) = shown_task s"
  by (simp_all add: shown_task_def split: option.split)

text \<open>A request that fails leaves no trace: after pressing either button and its failure the dialog shows what
  it showed before, with no error.\<close>

theorem reconcile_failure_unseen:
  assumes "ta_enabled (detail_actions s)"
    and "t = (if onRelease then detail_step (detail_step s (PressRelease True)) (ReleaseAnswer (mu_count (td_release s)) (Some m))
      else detail_step (detail_step s (PressConfirm True)) (ConfirmAnswer (mu_count (td_confirm s)) (Some m)))"
  shows "task_detail_view utc when loc num pretty text ps t = task_detail_view utc when loc num pretty text ps s \<and>
    action_labels t = action_labels s \<and> td_refreshes t = td_refreshes s"
proof -
  have idle: "\<not> is_pending (td_release s)" "\<not> is_pending (td_confirm s)"
    using assms(1) by (auto simp: detail_actions_def task_actions_def split: if_splits)
  have sent: "mu_state (mutate r q) = MutationPending (mu_count q) r" for r and q :: "(task_request, unit) mutation"
    by (simp add: mutate_def)
  have unsent: "detail_step s (ReleaseAnswer k (Some m)) = s" "detail_step s (ConfirmAnswer k (Some m)) = s" for k
    using idle by (auto simp: is_pending_def split: mutation_state.splits)
  have "t = s \<or> (\<exists>q. t = s\<lparr>td_release := q\<rparr> \<and> \<not> is_pending q) \<or> (\<exists>q. t = s\<lparr>td_confirm := q\<rparr> \<and> \<not> is_pending q)"
  proof (cases "if onRelease then ta_release (detail_actions s) else ta_confirm (detail_actions s)")
    case False
    then have "t = s" by (cases onRelease) (simp_all only: assms(2) detail_step.simps(2,3) unsent if_False if_True simp_thms)
    then show ?thesis by blast
  next
    case pressed: True
    show ?thesis
    proof (cases onRelease)
      case True
      with pressed have "t = s\<lparr>td_release := settle_mutation (mu_count (td_release s)) (Inl m)
          (mutate (ReleaseReservation (task_id (shown_task s))) (td_release s))\<rparr>" by (simp add: assms sent)
      with settle_not_pending [OF sent] show ?thesis by blast
    next
      case False
      with pressed have "t = s\<lparr>td_confirm := settle_mutation (mu_count (td_confirm s)) (Inl m)
          (mutate (ConfirmNotCreated (task_id (shown_task s))) (td_confirm s))\<rparr>" by (simp add: assms sent)
      with settle_not_pending [OF sent] show ?thesis by blast
    qed
  qed
  then show ?thesis using idle
    by (elim disjE exE conjE) (simp_all add: task_detail_view_def shown_task_update detail_actions_def action_labels_def)
qed

lemma find_skip: "\<forall>y \<in> set xs. \<not> P y \<Longrightarrow> find P (xs @ ys) = find P ys"
  by (induction xs) auto

text \<open>A task that is open in the dialog is taken from the page of the list: when a new task pushes it to the
  next page, its dialog closes by itself.\<close>

theorem opened_task_lost:
  assumes "tl_selectedID s = Some (task_id t)" "1 \<le> n" "n \<le> length L" "t = L ! (n - 1)" "distinct (map task_id (x # L))"
  shows "selected_task s (pageSlice 1 n L) = Some t \<and> selected_task s (pageSlice 1 n (x # L)) = None"
proof -
  have L: "take n L = take (n - 1) L @ [t]"
    using take_Suc_conv_app_nth [of "n - 1" L] assms(2,3,4) by simp
  have "distinct (map task_id (take n L))" using assms(5) by (simp add: distinct_take take_map [symmetric])
  then have "task_id t \<notin> task_id ` set (take (n - 1) L)" by (simp add: L)
  then have new: "\<forall>y \<in> set (take (n - 1) L). task_id y \<noteq> task_id t" by (metis imageI)
  moreover have "task_id x \<noteq> task_id t" using assms by (metis distinct.simps(2) imageI image_set list.simps(9) nth_mem
      One_nat_def Suc_le_D Suc_le_lessD diff_Suc_1)
  moreover have "pageSlice 1 n (x # L) = x # take (n - 1) L" "pageSlice 1 n L = take n L"
    using assms(2) by (simp_all add: pageSlice_def slice_def take_Cons')
  ultimately show ?thesis
    using assms(1) find_skip [OF new, of "[t]"] by (auto simp: selected_task_def L find_None_iff)
qed

theorem task_detail_shown_iff_witness:
  "\<exists>v. task_detail_view (\<lambda>t. t) (\<lambda>_. []) (\<lambda>_. []) (\<lambda>_. []) (\<lambda>_. []) (\<lambda>_. []) [] (open_task_detail (sample_task (lit ''t1''))) = Inr v"
proof -
  have "let t = shown_task (open_task_detail (sample_task (lit ''t1''))) in
    ({task_status t, task_provider_id t, opt_str (task_reservation_state t)} \<union> te_status ` set (nullish (task_events t) [])) \<inter>
      set object_prototype_keys = {}"
    by (simp add: shown_task_def open_task_detail_def sample_task_def object_prototype_keys_def)
  then show ?thesis using task_detail_shown_iff by blast
qed

theorem reconcile_only_uncertain_witness:
  "mutation_request (td_confirm (foldl detail_step (open_task_detail (sample_task (lit ''t1''))) [PressConfirm True])) =
     Some (ConfirmNotCreated (lit ''t1''))"
proof -
  let ?s = "foldl detail_step (open_task_detail (sample_task (lit ''t1''))) []"
  have "mutation_request (td_confirm (detail_step ?s (PressConfirm True))) \<noteq> None" "mutation_request (td_confirm ?s) = None"
    by (simp_all add: detail_actions_def task_actions_def shown_task_def open_task_detail_def sample_task_def)
  then obtain r where "mutation_request (td_confirm (detail_step ?s (PressConfirm True))) = Some r" by blast
  moreover note reconcile_only_uncertain [of ?s "sample_task (lit ''t1'')" "[]" "PressConfirm True" r]
  ultimately show ?thesis using \<open>mutation_request (td_confirm ?s) = None\<close>
    by (simp add: shown_task_def open_task_detail_def sample_task_def)
qed

theorem reconcile_failure_unseen_witness:
  "action_labels (detail_step (detail_step (open_task_detail (sample_task (lit ''t1''))) (PressConfirm True)) (ConfirmAnswer 0 (Some (lit ''down'')))) =
     action_labels (open_task_detail (sample_task (lit ''t1'')))"
proof -
  have e: "ta_enabled (detail_actions (open_task_detail (sample_task (lit ''t1''))))" "mu_count (td_confirm (open_task_detail (sample_task (lit ''t1'')))) = 0"
    by (simp add: detail_actions_def task_actions_def shown_task_def open_task_detail_def sample_task_def,
        simp add: open_task_detail_def new_mutation_def)
  show ?thesis
    using reconcile_failure_unseen [where onRelease = False and m = "lit ''down''", OF e(1) refl] unfolding if_False e(2) by blast
qed

theorem opened_task_lost_witness:
  "selected_task ((initial_task_list [])\<lparr>tl_selectedID := Some (lit ''a'')\<rparr>) (pageSlice 1 1 [sample_task (lit ''b''), sample_task (lit ''a'')]) = None"
  using opened_task_lost [of "(initial_task_list [])\<lparr>tl_selectedID := Some (lit ''a'')\<rparr>" "sample_task (lit ''a'')" 1 "[sample_task (lit ''a'')]" "sample_task (lit ''b'')"]
  by (simp add: sample_task_def)

end
