(* ===== verification/AdminFrame.thy ===== *)
theory AdminFrame
  imports Dashboard ApiKeys TaskDetail
begin

text \<open>
  What the frame of the administration and its overview show (main.tsx, components/overview-task-table.tsx),
  and which data the refresh button asks for again. \<open>loc\<close> is \<open>toLocaleString\<close>, \<open>num\<close> prints a number in a
  template literal, \<open>when\<close> an instant.
\<close>

section \<open>Before the session and outside it\<close>

text \<open>The session check: title, detail, and whether it can be tried again.\<close>

definition AdminSessionCheck :: "jstr option \<Rightarrow> bool \<Rightarrow> jstr \<times> jstr \<times> jstr option" where
  "AdminSessionCheck error retry =
     (if opt_str error \<noteq> [] then ulit ''%u540E%u53F0%u8FDE%u63A5%u5931%u8D25'' else ulit ''%u6B63%u5728%u6062%u590D%u7BA1%u7406%u4F1A%u8BDD'',
      or_str (opt_str error) (ulit ''%u6B63%u5728%u9A8C%u8BC1%u6D4F%u89C8%u5668%u4E2D%u5DF2%u6709%u7684%u767B%u5F55%u51ED%u636E%u3002''),
      if retry then Some (ulit ''%u91CD%u65B0%u8FDE%u63A5'') else None)"

definition admin_check :: "admin_view \<Rightarrow> (jstr \<times> jstr \<times> jstr option) option" where
  "admin_check v = (case v of
       CheckingSession \<Rightarrow> Some (AdminSessionCheck None False)
     | SessionFailed message \<Rightarrow> Some (AdminSessionCheck (Some message) True)
     | _ \<Rightarrow> None)"

text \<open>The public guide: title of the document and links.\<close>

definition document_title :: "jstr \<Rightarrow> jstr" where
  "document_title path = (if public_docs path then ulit ''AIV2API %u5F00%u53D1%u8005%u6587%u6863'' else ulit ''AIV2API %u7BA1%u7406%u540E%u53F0'')"

definition public_docs_links :: "(jstr \<times> jstr) list" where
  "public_docs_links = [(lit ''/docs'', ulit ''%u5F00%u53D1%u8005%u6587%u6863''), (lit ''#quickstart'', ulit ''%u5FEB%u901F%u5F00%u59CB''), (lit ''#errors'', ulit ''%u9519%u8BEF%u5904%u7406''),
     (lit ''/openapi.json'', lit ''OpenAPI JSON''), (lit ''/'', ulit ''%u7BA1%u7406%u540E%u53F0''), (lit ''/openapi.json'', ulit ''%u4E0B%u8F7D OpenAPI 3.1'')]"

section \<open>The frame\<close>

text \<open>The frame as it opens on an address, with the stored theme.\<close>

definition open_dashboard :: "jstr \<Rightarrow> params \<Rightarrow> jstr option \<Rightarrow> Dashboard" where
  "open_dashboard path ps theme = dashboard_step
     \<lparr>ds_path = path, ds_params = ps, ds_navOpen = False, ds_commandOpen = False, ds_commandQuery = [],
       ds_refreshing = False, ds_light = (theme = Some (lit ''light'')), ds_showAccount = False, ds_editingAccount = None,
       ds_newKey = []\<rparr> (Navigated path ps)"

text \<open>The queries of the frame: whether they are asked for on a page, and how often.\<close>

definition frame_queries :: "Tab \<Rightarrow> (jstr \<times> bool \<times> nat option) list" where
  "frame_queries t =
     [(lit ''overview'', True, Some 15000), (lit ''tasks'', t = Overview, Some 10000),
      (lit ''system-capacity'', True, Some (if t = Overview then 5000 else 15000)), (lit ''keys'', t = Overview, None)]"

datatype keys_answer = KeyArray "APIKeyRecord list" | KeyPage "APIKeyRecord list option"

definition keyRows :: "keys_answer option \<Rightarrow> APIKeyRecord list" where
  "keyRows answer = (case answer of None \<Rightarrow> []
     | Some (KeyArray rows) \<Rightarrow> rows | Some (KeyPage rows) \<Rightarrow> nullish rows [])"

text \<open>An entry of the side bar: its page, label, whether it is the current one, and its count.\<close>

record NavItem =
  ni_tab :: Tab
  ni_label :: jstr
  ni_active :: bool
  ni_count :: "jstr option"

definition nav_count :: "OverviewResponse option \<Rightarrow> int option \<Rightarrow> APIKeyRecord list \<Rightarrow> Tab \<Rightarrow> jstr option" where
  "nav_count overview tasks rows t = (case t of
       AccountsTab \<Rightarrow> map_option (\<lambda>ov. num_str (ov_accounts ov)) overview
     | TasksTab \<Rightarrow> map_option num_str tasks
     | Keys \<Rightarrow> Some (num_str (int (length rows)))
     | _ \<Rightarrow> None)"

definition side_bar :: "OverviewResponse option \<Rightarrow> int option \<Rightarrow> APIKeyRecord list \<Rightarrow> Dashboard \<Rightarrow> (jstr \<times> NavItem list) list" where
  "side_bar overview tasks rows s = map (\<lambda>(label, items). (label, map (\<lambda>(t, name).
     \<lparr>ni_tab = t, ni_label = name, ni_active = (t = ds_tab s), ni_count = nav_count overview tasks rows t\<rparr>) items)) navigation"

definition refresh_disabled :: "Dashboard \<Rightarrow> bool" where
  "refresh_disabled s \<longleftrightarrow> ds_refreshing s \<or> refreshScopes (ds_tab s) = []"

text \<open>The head of a page: title, description, and the button of the account page.\<close>

definition page_header :: "Dashboard \<Rightarrow> jstr \<times> jstr \<times> jstr option" where
  "page_header s = (fst (tab_labels (ds_tab s)), snd (tab_labels (ds_tab s)),
     if ds_tab s = AccountsTab then Some (ulit ''%u6DFB%u52A0%u8D26%u53F7'') else None)"

definition page_title :: "Dashboard \<Rightarrow> jstr" where
  "page_title s = fst (tab_labels (ds_tab s)) @ ulit '' %u00B7 AIV2API %u7BA1%u7406%u540E%u53F0''"

text \<open>The notice of a new key: the key, which can be copied, as long as it is there.\<close>

definition key_notice :: "Dashboard \<Rightarrow> (jstr \<times> jstr \<times> jstr) option" where
  "key_notice s = (if ds_newKey s = [] then None
     else Some (ulit ''%u65B0 API %u5BC6%u94A5'', ds_newKey s, ulit ''%u5B8C%u6574%u503C%u53EA%u663E%u793A%u4E00%u6B21%uFF0C%u8BF7%u7ACB%u5373%u590D%u5236%u4FDD%u5B58%u3002''))"

text \<open>
  \<open>refreshCurrent\<close> asks again for the cached queries whose key starts with a scope of the page;
  \<open>page_queries\<close> are the heads of the keys the pages use.
\<close>

definition refreshed_queries :: "Tab \<Rightarrow> jstr list list \<Rightarrow> jstr list list" where
  "refreshed_queries t cached = filter (\<lambda>key. \<exists>scope \<in> set (refreshScopes t). key \<noteq> [] \<and> hd key = scope) cached"

fun page_queries :: "Tab \<Rightarrow> jstr list" where
  "page_queries Overview = [lit ''overview'', lit ''tasks'', lit ''system-capacity'', lit ''keys'']"
| "page_queries AccountsTab = [lit ''accounts-page'', lit ''providers'', lit ''overview'']"
| "page_queries TasksTab = [lit ''tasks-page'', lit ''providers'', lit ''task-detail'']"
| "page_queries Capacity = [lit ''system-capacity'']"
| "page_queries Keys = [lit ''providers'', lit ''api-keys-page'']"
| "page_queries PlaygroundTab = [lit ''providers'', lit ''playground-image'', lit ''playground-video'', lit ''playground-audio'']"
| "page_queries Models = [lit ''providers'', lit ''platform-models'', lit ''cost-rules'', lit ''model-costs'', lit ''cf-quote-accounts'']"
| "page_queries Pricing = [lit ''providers'', lit ''cost-rules'', lit ''sale-pricing'', lit ''sale-pricing-quote'']"
| "page_queries Docs = [lit ''public-providers'', lit ''public-image-cost-matrix'']"
| "page_queries Security = [lit ''admin-settings'', lit ''system-capacity'']"
| "page_queries Requests = [lit ''providers'', lit ''request-logs'']"
| "page_queries Audit = [lit ''audit-page'']"

section \<open>The overview\<close>

text \<open>A figure: label, value, detail, and whether it is a warning.\<close>

definition ops_cards :: "(rat \<Rightarrow> jstr) \<Rightarrow> OpsMetrics \<Rightarrow> (jstr \<times> jstr \<times> jstr \<times> bool) list" where
  "ops_cards wait m =
     [(ulit ''%u5065%u5EB7%u8D26%u53F7'', num_str (om_active_accounts m) @ lit '' / '' @ num_str (om_accounts m),
       if 0 < om_unavailable m then num_str (om_unavailable m) @ ulit '' %u4E2A%u9700%u8981%u5173%u6CE8'' else ulit ''%u5F53%u524D%u53EF%u8C03%u5EA6'', 0 < om_unavailable m),
      (ulit ''%u6267%u884C%u69FD%u4F4D'', num_str (om_executing m) @ lit '' / '' @ num_str (om_executing_limit m),
       num_str (om_headroom m) @ ulit '' %u5168%u5C40%u4F59%u91CF'', False),
      (ulit ''%u7B49%u5F85%u961F%u5217'', num_str (om_queued m) @ lit '' / '' @ num_str (om_queued_limit m),
       if om_oldest_queued m \<noteq> 0 then ulit ''%u6700%u8001%u7B49%u5F85 '' @ wait (om_oldest_queued m) else ulit ''%u5F53%u524D%u65E0%u7B49%u5F85'', False),
      (ulit ''%u63A5%u5165%u5E73%u53F0'', num_str (om_platforms m), num_str (om_serving m) @ ulit '' %u4E2A%u6B63%u5728%u63A5%u5355'', False)]"

text \<open>The card of a platform.\<close>

record ProviderCard =
  pcd_badge :: "jstr \<times> jstr"
  pcd_health :: jstr
  pcd_available :: "jstr \<times> jstr"
  pcd_ledger :: "(jstr \<times> jstr) list"
  pcd_flow :: "(jstr \<times> jstr \<times> bool) list"
  pcd_inventory :: "(jstr \<times> jstr) list"
  pcd_links :: "params list"

definition provider_card :: "(rat \<Rightarrow> jstr) \<Rightarrow> Dashboard \<Rightarrow> ProviderOverview \<Rightarrow> ProviderCard res" where
  "provider_card loc s p =
     bindr (ProviderBadge (pov_provider_id p) []) (\<lambda>badge.
     Inr \<lparr>pcd_badge = badge, pcd_health = provider_health p,
       pcd_available = (loc (pov_available_credits p), providerCreditUnit (pov_provider_id p)
         [\<lparr>cp_id = None, cp_provider_id = Some (pov_provider_id p), cp_credit_unit = pov_credit_unit p\<rparr>]),
       pcd_ledger = [(ulit ''%u8D26%u9762%u4F59%u989D'', loc (pov_total_credits p)), (ulit ''%u5DF2%u9884%u7559'', loc (pov_reserved_credits p)),
         (ulit ''%u5065%u5EB7%u8D26%u53F7'', num_str (pov_active_accounts p) @ lit ''/'' @ num_str (pov_accounts p))],
       pcd_flow = [(ulit ''%u6267%u884C'', num_str (pov_executing_tasks p) @ lit ''/'' @ num_str (pov_execution_slots p), False),
         (ulit ''%u6392%u961F'', num_str (pov_queued_tasks p) @ lit ''/'' @ num_str (pov_queue_slots p), False),
         (ulit ''%u8FD1 1 %u5C0F%u65F6%u5931%u8D25'', num_str (pov_failed_last_hour p), pov_failed_last_hour p \<noteq> 0),
         (ulit ''%u5F85%u786E%u8BA4%u63D0%u4EA4'', num_str (pov_submission_uncertain p), pov_submission_uncertain p \<noteq> 0)],
       pcd_inventory = (if pov_provider_id p = lit ''leonardo'' then
         [(ulit ''720p %u00B7 15%u79D2'', num_str (nullish (pov_video_ready_720p_15s p) 0)),
          (ulit ''1080p %u00B7 8%u79D2'', num_str (nullish (pov_video_ready_1080p_8s p) 0)),
          (ulit ''%u89C6%u9891%u4FDD%u62A4%u79EF%u5206'', loc (nullish (pov_video_protected_credits p) 0))] else []),
       pcd_links = [ds_params (openAccounts (Some (pov_provider_id p)) False s), ds_params (openTasks (Some (pov_provider_id p)) s)]\<rparr>)"

definition queue_bar :: "(jstr \<times> int) list \<Rightarrow> jstr \<times> int \<Rightarrow> (jstr \<times> rat \<times> jstr) res" where
  "queue_bar segments segment = bindr (statusText (fst segment)) (\<lambda>label.
     Inr (label, segment_width segments segment, num_str (snd segment)))"

text \<open>What needs attention: title, detail and number, and the page it leads to.\<close>

definition attention_items :: "OpsMetrics \<Rightarrow> APIKeyRecord list \<Rightarrow> (jstr \<times> jstr \<times> int \<times> Tab) list" where
  "attention_items m rows =
     (let enabled = int (length (filter ak_enabled rows)) in
      [(if om_unavailable m \<noteq> 0 then num_str (om_unavailable m) @ ulit '' %u4E2A%u8D26%u53F7%u9700%u8981%u6062%u590D'' else ulit ''%u8D26%u53F7%u6C60%u8FD0%u884C%u6B63%u5E38'',
        ulit ''%u4F1A%u8BDD%u3001%u4F59%u989D%u548C%u4E0A%u6E38%u98CE%u63A7%u72B6%u6001'', om_unavailable m, AccountsTab),
       (if om_failed_last_hour m \<noteq> 0 then ulit ''%u8FC7%u53BB 1 %u5C0F%u65F6 '' @ num_str (om_failed_last_hour m) @ ulit '' %u4E2A%u4EFB%u52A1%u5931%u8D25'' else ulit ''%u8FC7%u53BB 1 %u5C0F%u65F6%u65E0%u5931%u8D25%u4EFB%u52A1'',
        ulit ''%u67E5%u770B%u5931%u8D25%u539F%u56E0%u548C%u4E0A%u6E38%u54CD%u5E94'', om_failed_last_hour m, TasksTab),
       (if om_uncertain m \<noteq> 0 then num_str (om_uncertain m) @ ulit '' %u4E2A%u4EFB%u52A1%u7B49%u5F85%u63D0%u4EA4%u786E%u8BA4'' else ulit ''%u6CA1%u6709%u5F85%u786E%u8BA4%u7684%u4E0A%u6E38%u63D0%u4EA4'',
        ulit ''%u63D0%u4EA4%u4E0D%u786E%u5B9A%u4EFB%u52A1%u4F1A%u7EE7%u7EED%u4FDD%u7559%u79EF%u5206'', om_uncertain m, TasksTab),
       (num_str enabled @ ulit '' %u4E2A API Key %u6B63%u5728%u4F7F%u7528'', ulit ''%u51ED%u636E%u5E76%u53D1%u548C%u901F%u7387%u9650%u5236'', enabled, Keys)])"

definition health_summary :: "OpsMetrics \<Rightarrow> jstr \<times> bool" where
  "health_summary m = (if om_failed_last_hour m \<noteq> 0
     then (ulit ''%u8FD1 1 %u5C0F%u65F6 '' @ num_str (om_failed_last_hour m) @ ulit '' %u4E2A%u5931%u8D25'', True) else (ulit ''%u8FD0%u884C%u7A33%u5B9A'', False))"

text \<open>A row of the recent tasks. Their platform is shown without the list of providers.\<close>

definition overview_row ::
    "(int \<Rightarrow> int) \<Rightarrow> (int option \<Rightarrow> jstr) \<Rightarrow> (rat \<Rightarrow> jstr) \<Rightarrow> (rat \<Rightarrow> jstr) \<Rightarrow> ProviderOverview list \<Rightarrow> Task \<Rightarrow>
     ((jstr \<times> jstr) \<times> TaskRow) res" where
  "overview_row utc when loc num summaries t =
     bindr (ProviderBadge (task_provider_id t) []) (\<lambda>badge.
     bindr (statusText (task_status t)) (\<lambda>status.
     bindr (overview_resultSummary num t) (\<lambda>summary.
     Inr (badge, \<lparr>row_prompt = or_str (task_prompt t) (ulit ''%u672A%u547D%u540D%u4EFB%u52A1''), row_created = when (date_time utc (task_created_at t)),
       row_kind = kind_badge (task_kind t), row_model = task_model t,
       row_cost = taskCreditUnit t (map (\<lambda>p. \<lparr>cp_id = None, cp_provider_id = Some (pov_provider_id p),
         cp_credit_unit = pov_credit_unit p\<rparr>) summaries) @ lit '' '' @ tokenCost loc t,
       row_status = status,
       row_position = (if task_status t \<noteq> lit ''queued'' then None
         else map_option (\<lambda>n. if n = 0 then num 0 else ulit ''%u7B2C '' @ num n @ ulit '' %u4F4D'') (task_queue_position t)),
       row_failed = (task_status t = lit ''failed''), row_summary = summary,
       row_error_code = (case task_error_details t of None \<Rightarrow> None | Some d \<Rightarrow> non_empty (ted_provider_error_code d))\<rparr>))))"

record OperationsView =
  opv_cards :: "(jstr \<times> jstr \<times> jstr \<times> bool) list"
  opv_providers :: "ProviderCard list"
  opv_bars :: "(jstr \<times> rat \<times> jstr) list"
  opv_attention :: "(jstr \<times> jstr \<times> int \<times> Tab) list"
  opv_health :: "jstr \<times> bool"
  opv_tasks :: "((jstr \<times> jstr) \<times> TaskRow) list"

definition Operations ::
    "(int \<Rightarrow> int) \<Rightarrow> (int option \<Rightarrow> jstr) \<Rightarrow> (rat \<Rightarrow> jstr) \<Rightarrow> (rat \<Rightarrow> jstr) \<Rightarrow> OverviewResponse option \<Rightarrow> Task list \<Rightarrow>
     APIKeyRecord list \<Rightarrow> SystemCapacity option \<Rightarrow> Dashboard \<Rightarrow> OperationsView res" where
  "Operations utc when loc num overview tasks rows capacity s =
     (let m = ops_metrics overview tasks capacity;
          summaries = nullish (map_option ov_provider_summaries overview) []; segments = queueSegments overview in
      bindr (mapr (provider_card loc s) summaries) (\<lambda>cards.
      bindr (mapr (queue_bar segments) segments) (\<lambda>bars.
      bindr (mapr (overview_row utc when loc num summaries) (take 6 tasks)) (\<lambda>recent.
      Inr \<lparr>opv_cards = ops_cards formatCapacityWait m, opv_providers = cards, opv_bars = bars,
        opv_attention = attention_items m rows, opv_health = health_summary m, opv_tasks = recent\<rparr>))))"

section \<open>Properties\<close>

lemma card_fails [simp]: "fails (provider_card loc s p) \<longleftrightarrow> pov_provider_id p \<in> set object_prototype_keys"
  by (simp add: provider_card_def)

lemma overview_row_fails [simp]:
  "fails (overview_row utc when loc num summaries t) \<longleftrightarrow>
   task_provider_id t \<in> set object_prototype_keys \<or> task_status t \<in> set object_prototype_keys"
proof (cases "task_provider_id t \<in> set object_prototype_keys")
  case True
  then show ?thesis by (simp add: overview_row_def)
next
  case False
  then obtain badge where "ProviderBadge (task_provider_id t) [] = Inr badge"
    using badge_fails not_fails by blast
  with False show ?thesis by (simp add: overview_row_def overview_summary_agrees) (auto simp: fails_def)
qed

text \<open>The overview is shown exactly when no platform, and no status or platform of one of the six recent tasks,
  is called like a property of Object.prototype.\<close>

theorem overview_shown_iff:
  "(\<exists>v. Operations utc when loc num overview tasks rows capacity s = Inr v) \<longleftrightarrow>
   (pov_provider_id ` set (nullish (map_option ov_provider_summaries overview) []) \<union>
    task_provider_id ` set (take 6 tasks) \<union> task_status ` set (take 6 tasks)) \<inter> set object_prototype_keys = {}"
proof -
  have "\<forall>k \<in> set [lit ''succeeded'', lit ''polling'', lit ''queued'', lit ''failed'', lit ''submission_uncertain'']. k \<notin> set object_prototype_keys"
    by (simp add: object_prototype_keys_def)
  then have bars: "\<not> (\<exists>x \<in> set (queueSegments overview). fails (queue_bar (queueSegments overview) x))"
    by (simp add: queueSegments_def queue_bar_def)
  let ?ps = "nullish (map_option ov_provider_summaries overview) []"
  have "fails (Operations utc when loc num overview tasks rows capacity s) \<longleftrightarrow>
      fails (mapr (provider_card loc s) ?ps) \<or> fails (mapr (overview_row utc when loc num ?ps) (take 6 tasks))"
    using bars unfolding Operations_def Let_def by (simp only: fails_simps fails_mapr) (auto simp: not_fails [symmetric])
  then have "\<not> fails (Operations utc when loc num overview tasks rows capacity s) \<longleftrightarrow>
      (\<forall>p \<in> set ?ps. pov_provider_id p \<notin> set object_prototype_keys) \<and>
      (\<forall>t \<in> set (take 6 tasks). task_provider_id t \<notin> set object_prototype_keys \<and> task_status t \<notin> set object_prototype_keys)"
    by simp
  then show ?thesis unfolding not_fails by blast
qed

theorem overview_shown_iff_witness:
  "\<exists>v. Operations (\<lambda>t. t) (\<lambda>_. []) (\<lambda>_. []) (\<lambda>_. []) None [sample_task (lit ''t1'')] [] None (open_dashboard (lit ''/'') [] None) = Inr v"
proof -
  have "(pov_provider_id ` set (nullish (map_option ov_provider_summaries None) []) \<union> task_provider_id ` set (take 6 [sample_task (lit ''t1'')]) \<union>
    task_status ` set (take 6 [sample_task (lit ''t1'')])) \<inter> set object_prototype_keys = {}"
    by (simp add: sample_task_def object_prototype_keys_def nullish_def)
  then show ?thesis by (rule overview_shown_iff [THEN iffD2])
qed

lemma refreshed_iff: "q # rest \<in> set (refreshed_queries t [q # rest]) \<longleftrightarrow> q \<in> set (refreshScopes t)"
  by (auto simp: refreshed_queries_def)

definition missed_queries :: "Tab \<Rightarrow> jstr list" where
  "missed_queries t = filter (\<lambda>q. q \<notin> set (refreshScopes t)) (page_queries t)"

lemma missed_queries_table:
  "missed_queries t = (case t of TasksTab \<Rightarrow> [lit ''providers''] | Keys \<Rightarrow> [lit ''providers'']
     | PlaygroundTab \<Rightarrow> [lit ''providers'', lit ''playground-image''] | Models \<Rightarrow> [lit ''providers'', lit ''cf-quote-accounts'']
     | Pricing \<Rightarrow> [lit ''sale-pricing-quote''] | Requests \<Rightarrow> [lit ''providers'']
     | Docs \<Rightarrow> [lit ''public-providers'', lit ''public-image-cost-matrix''] | _ \<Rightarrow> [])"
  by (cases t) (simp_all add: missed_queries_def)

lemma no_scopes_iff: "refreshScopes t = [] \<longleftrightarrow> t = Docs"
  by (cases t) simp_all

text \<open>The refresh button asks again for every query of the page it is on, except for the list of providers on
  the task, key, playground, model and request pages, the image task of the playground, the account list of
  the Creative Fabrica quote, the quote of the pricing page, and the two of the guide; it is disabled exactly
  on the guide or while it refreshes.\<close>

theorem refresh_reaches_page:
  assumes "q \<in> set (page_queries (ds_tab s))"
  shows "(q # rest \<notin> set (refreshed_queries (ds_tab s) [q # rest]) \<longleftrightarrow>
      q \<in> set (case ds_tab s of TasksTab \<Rightarrow> [lit ''providers''] | Keys \<Rightarrow> [lit ''providers'']
        | PlaygroundTab \<Rightarrow> [lit ''providers'', lit ''playground-image''] | Models \<Rightarrow> [lit ''providers'', lit ''cf-quote-accounts'']
        | Pricing \<Rightarrow> [lit ''sale-pricing-quote''] | Requests \<Rightarrow> [lit ''providers'']
        | Docs \<Rightarrow> [lit ''public-providers'', lit ''public-image-cost-matrix''] | _ \<Rightarrow> [])) \<and>
    (refresh_disabled s \<longleftrightarrow> ds_refreshing s \<or> ds_tab s = Docs)"
proof -
  have "q \<notin> set (refreshScopes (ds_tab s)) \<longleftrightarrow> q \<in> set (missed_queries (ds_tab s))"
    using assms by (simp add: missed_queries_def)
  then show ?thesis by (simp add: refreshed_iff refresh_disabled_def no_scopes_iff missed_queries_table)
qed

theorem refresh_reaches_page_witness:
  "[lit ''playground-image'', lit ''task''] \<notin> set (refreshed_queries PlaygroundTab [[lit ''playground-image'', lit ''task'']])"
proof -
  let ?s = "open_dashboard (lit ''/playground'') [] None"
  have at: "ds_tab ?s = PlaygroundTab" by code_simp
  then have "lit ''playground-image'' \<in> set (page_queries (ds_tab ?s))" by simp
  from refresh_reaches_page [OF this, of "[lit ''task'']"] at show ?thesis by simp
qed

end
