(* ===== verification/ModelViews.thy ===== *)
theory ModelViews
  imports ModelCatalog Calculators Failures
begin

text \<open>
  The model page as it is shown, the synchronisation of a catalog, and the dialog for cost rules with its two
  requests (pages/model-page.tsx). \<open>loc\<close> is \<open>toLocaleString\<close>, \<open>num\<close> prints a number in a template literal,
  \<open>when\<close> an instant, \<open>enc\<close> is \<open>encodeURIComponent\<close>.
\<close>

section \<open>Featured models and costs\<close>

text \<open>A card: public id, badge, and the line below.\<close>

definition FeaturedModels :: "PlatformModelRow list \<Rightarrow> jstr \<Rightarrow> Provider list \<Rightarrow> (jstr \<times> (jstr \<times> jstr) \<times> jstr) list res" where
  "FeaturedModels rows providerID providers = mapr (\<lambda>r.
     bindr (ProviderBadge providerID providers) (\<lambda>badge.
     bindr (if pm_provider (pmr_platform r) \<noteq> [] then Inr (pm_provider (pmr_platform r))
       else providerDisplayName providerID providers) (\<lambda>maker.
     Inr (pmr_public_id r, badge, maker @ ulit '' %u00B7 '' @ modelCost (pmr_platform r))))) rows"

text \<open>The effect that remembers the first table once there is one.\<close>

definition reference_effect :: "PlatformEstimate list \<Rightarrow> jstr \<Rightarrow> jstr" where
  "reference_effect estimates selected = (case active_estimate estimates selected of
       Some e \<Rightarrow> if selected = [] then pe_model e else selected | None \<Rightarrow> selected)"

datatype reference_body =
  ReferenceLoading
| ReferenceError jstr
| ReferenceTable "(jstr \<times> bool) list" estimate_table
| ReferenceEmpty

definition CostReference ::
    "(int \<Rightarrow> int) \<Rightarrow> (rat \<Rightarrow> jstr) \<Rightarrow> (rat \<Rightarrow> jstr) \<Rightarrow> PlatformModelRow list \<Rightarrow> ModelCostRecord list \<Rightarrow> CostRule list \<Rightarrow>
     MediaKind \<Rightarrow> jstr \<Rightarrow> jstr \<Rightarrow> bool \<Rightarrow> jstr option \<Rightarrow> jstr \<Rightarrow> (reference_body \<times> (jstr \<times> jstr \<times> CostLine) list) res" where
  "CostReference utc loc num rows costs rules kind providerID unit loading error selected =
     bindr (costEstimates utc rules kind) (\<lambda>estimates.
     Inr (if loading then ReferenceLoading
       else case error of Some message \<Rightarrow> ReferenceError message
       | None \<Rightarrow> (case active_estimate estimates selected of
           Some active \<Rightarrow> ReferenceTable (map (\<lambda>e. (pe_model e, pe_model active = pe_model e)) estimates) (EstimateTable loc active unit)
         | None \<Rightarrow> ReferenceEmpty),
       map (\<lambda>r. (pmr_public_id r, ulit ''%u76EE%u5F55%u57FA%u7840%uFF1A'' @ modelCost (pmr_platform r),
         cost_line loc num unit (observed_costs costs providerID kind r))) rows))"

section \<open>The page\<close>

text \<open>What the four queries of the page ask for.\<close>

definition models_queries :: "(jstr \<Rightarrow> jstr) \<Rightarrow> ModelsPage \<Rightarrow> (jstr list \<times> jstr) list" where
  "models_queries enc s =
     (let p = models_provider s; kind = kind_name (mp_media s) in
      [([lit ''providers''], lit ''/admin/api/providers''),
       ([lit ''platform-models'', p, kind], models_path (mp_media s) @ lit ''?provider='' @ enc p),
       ([lit ''cost-rules'', p, kind], lit ''/admin/api/cost-rules?provider='' @ enc p @ lit ''&kind='' @ kind),
       ([lit ''model-costs'', p, kind], lit ''/admin/api/model-costs?provider='' @ enc p @ lit ''&kind='' @ kind)])"

definition media_name :: "MediaKind \<Rightarrow> jstr" where
  "media_name media = (case media of Image \<Rightarrow> ulit ''%u56FE%u50CF'' | Video \<Rightarrow> ulit ''%u89C6%u9891'' | Audio \<Rightarrow> ulit ''%u97F3%u9891'')"

definition currentModelsProvider :: "Provider list option \<Rightarrow> ModelsPage \<Rightarrow> Provider option" where
  "currentModelsProvider providers s = Option.bind providers (find (\<lambda>p. prov_id p = models_provider s))"

text \<open>The unit of the provider, as the records of providers give it.\<close>

definition models_unit :: "Provider list option \<Rightarrow> ModelsPage \<Rightarrow> jstr" where
  "models_unit providers s = providerCreditUnit (models_provider s)
     (map (\<lambda>p. \<lparr>cp_id = Some (prov_id p), cp_provider_id = None, cp_credit_unit = prov_credit_unit p\<rparr>) (nullish providers []))"

text \<open>A tab: the kind, its label, whether it is chosen and whether it is disabled.\<close>

definition media_tabs :: "Provider option \<Rightarrow> ModelsPage \<Rightarrow> (MediaKind \<times> jstr \<times> bool \<times> bool) list" where
  "media_tabs provider s = map (\<lambda>k. (k, media_name k @ ulit ''%u6A21%u578B'', mp_media s = k,
     case provider of None \<Rightarrow> False | Some p \<Rightarrow> \<not> supports p k)) [Image, Video, Audio]"

definition models_metrics :: "Provider list option \<Rightarrow> PlatformModelsResponse option \<Rightarrow> ModelsPage \<Rightarrow> (jstr \<times> jstr) list res" where
  "models_metrics providers models s =
     (let rows = nullish (map_option pms_data models) [] in
      bindr (providerDisplayName (models_provider s) (nullish providers [])) (\<lambda>name.
      Inr [(name @ lit '' '' @ media_name (mp_media s) @ ulit ''%u6A21%u578B'', num_str (int (length rows))),
        (ulit ''%u5BF9%u5916%u5F00%u653E'', num_str (int (length (featured_models rows)))),
        (ulit ''%u76EE%u5F55%u6765%u6E90'', catalogSourceLabel (map_option pms_catalog_source models) (map_option pms_schema_version models))]))"

definition model_table_heads :: "MediaKind \<Rightarrow> jstr list" where
  "model_table_heads media = [ulit ''%u6A21%u578B'', ulit ''%u5E73%u53F0'', ulit ''%u8BA1%u4EF7%u65B9%u5F0F'',
     case media of Image \<Rightarrow> ulit ''%u8D28%u91CF'' | Video \<Rightarrow> ulit ''%u65F6%u957F / %u5206%u8FA8%u7387'' | Audio \<Rightarrow> ulit ''%u65F6%u957F / %u8BA1%u8D39'', ulit ''%u5F00%u653E%u72B6%u6001'']"

definition quality_text :: "PlatformModel \<Rightarrow> jstr" where
  "quality_text m = or_str (js_join (lit '' / '') (nullish (pm_quality_options m) [])) (ulit ''%u56FA%u5B9A'')"

text \<open>A row: name, id, maker, price, options, and the id it is open under.\<close>

definition model_table_row :: "MediaKind \<Rightarrow> PlatformModelRow \<Rightarrow> jstr \<times> jstr \<times> jstr \<times> jstr \<times> jstr \<times> jstr option" where
  "model_table_row media r =
     (pm_name (pmr_platform r), if pmr_exposed r then pmr_public_id r else ulit ''%u5185%u90E8%u5E73%u53F0%u76EE%u5F55'',
      or_str (pm_provider (pmr_platform r)) (ulit ''%u672A%u77E5''), modelCost (pmr_platform r),
      (case media of Image \<Rightarrow> quality_text (pmr_platform r) | Video \<Rightarrow> videoOptions (pmr_platform r)
         | Audio \<Rightarrow> audioOptions (pmr_platform r)),
      if pmr_exposed r then Some (pmr_public_id r) else None)"

text \<open>The line below the table, and whether the two buttons are disabled.\<close>

definition models_footer :: "ModelsPage \<Rightarrow> PlatformModelRow list \<Rightarrow> jstr \<times> bool \<times> bool" where
  "models_footer s rows =
     (let shown = length (visible_models s rows); pages = totalPages shown (mp_pageSize s) in
      (ulit ''%u5171 '' @ num_str (int shown) @ ulit '' %u4E2A%u6A21%u578B %u00B7 %u7B2C '' @ num_str (int (min (mp_page s) pages)) @ lit '' / '' @ num_str (int pages) @ ulit '' %u9875'',
       mp_page s \<le> 1, pages \<le> mp_page s))"

text \<open>The sheet of a model: title, fields, description and capabilities.\<close>

definition model_sheet :: "Provider list option \<Rightarrow> ModelsPage \<Rightarrow> (jstr \<times> (jstr \<times> jstr) list) option res" where
  "model_sheet providers s = (case mp_selectedModel s of
       None \<Rightarrow> Inr None
     | Some r \<Rightarrow> (let m = pmr_platform r in
         bindr (providerDisplayName (models_provider s) (nullish providers [])) (\<lambda>name.
         Inr (Some (or_str (pmr_public_id r) (or_str (pm_name m) (ulit ''%u6A21%u578B%u8BE6%u60C5'')),
           [(ulit ''%u6A21%u578B%u540D%u79F0'', pm_name m), (ulit ''%u63A5%u5165%u5E73%u53F0'', name), (ulit ''%u6A21%u578B%u5382%u5546'', or_str (pm_provider m) (ulit ''%u672A%u77E5'')),
            (ulit ''%u5BF9%u5916 ID'', or_str (pmr_public_id r) (ulit ''%u672A%u5F00%u653E'')), (ulit ''%u4E0A%u6E38 ID'', pm_id m), (ulit ''%u8BA1%u4EF7%u65B9%u5F0F'', modelCost m),
            (ulit ''%u5F00%u653E%u72B6%u6001'', if pmr_exposed r then ulit ''%u5BF9%u5916%u53EF%u7528'' else ulit ''%u4EC5%u5E73%u53F0''),
            (ulit ''%u80FD%u529B%u53C2%u6570'', or_str (pm_description m) (ulit ''%u5E73%u53F0%u672A%u63D0%u4F9B%u8BF4%u660E%u3002'')),
            (ulit ''%u8D28%u91CF'', quality_text m),
            (ulit ''%u65F6%u957F'', or_str (js_join (lit '' / '') (map num_str (nullish (pm_duration_options m) []))) (ulit ''%u7531%u6A21%u578B%u51B3%u5B9A'')),
            (ulit ''%u5206%u8FA8%u7387'', or_str (js_join (lit '' / '') (map (\<lambda>v. replace_first v (lit ''RESOLUTION_'') []) (nullish (pm_resolution_modes m) [])))
              (ulit ''%u7531%u6A21%u578B%u51B3%u5B9A''))])))))"

text \<open>The catalog of a provider, once it is loaded.\<close>

record CatalogView =
  cav_metrics :: "(jstr \<times> jstr) list"
  cav_featured :: "((jstr \<times> (jstr \<times> jstr) \<times> jstr) list \<times> reference_body \<times> (jstr \<times> jstr \<times> CostLine) list) option"
  cav_empty :: "(jstr \<times> jstr) option"
  cav_table :: "(jstr list \<times> (jstr \<times> jstr \<times> jstr \<times> jstr \<times> jstr \<times> jstr option) list \<times> (jstr \<times> bool \<times> bool)) option"
  cav_sheet :: "(jstr \<times> (jstr \<times> jstr) list) option"

datatype models_screen = ModelsLoading | ModelsError jstr | ModelsLoaded CatalogView

text \<open>The answers of the queries as the page has them: data, whether it is loading, the error.\<close>

record ModelsData =
  md_providers :: "Provider list option"
  md_models :: "PlatformModelsResponse option"
  md_models_loading :: bool
  md_models_error :: "jstr option"
  md_rules :: "CostRule list option"
  md_rules_loading :: bool
  md_rules_error :: "jstr option"
  md_costs :: "ModelCostRecord list option"

definition catalog_view ::
    "(int \<Rightarrow> int) \<Rightarrow> (rat \<Rightarrow> jstr) \<Rightarrow> (rat \<Rightarrow> jstr) \<Rightarrow> ModelsData \<Rightarrow> jstr \<Rightarrow> ModelsPage \<Rightarrow> CatalogView res" where
  "catalog_view utc loc num d selected s =
     (let rows = nullish (map_option pms_data (md_models d)) []; featured = featured_models rows;
          p = models_provider s; providers = nullish (md_providers d) [] in
      bindr (models_metrics (md_providers d) (md_models d) s) (\<lambda>metrics.
      bindr (if featured = [] then Inr None else
        bindr (FeaturedModels featured p providers) (\<lambda>cards.
        bindr (CostReference utc loc num featured (nullish (md_costs d) []) (nullish (md_rules d) []) (mp_media s) p
          (models_unit (md_providers d) s) (md_rules_loading d) (md_rules_error d) selected) (\<lambda>reference.
        Inr (Some (cards, reference))))) (\<lambda>featured.
      bindr (if rows = [] then Inr None else model_sheet (md_providers d) s) (\<lambda>sheet.
      Inr \<lparr>cav_metrics = metrics, cav_featured = featured,
        cav_empty = (if rows = [] then Some (ulit ''%u8FD8%u6CA1%u6709%u4FDD%u5B58%u6A21%u578B%u76EE%u5F55'',
            if map_option pms_sync_supported (md_models d) = Some True then ulit ''%u70B9%u51FB%u540C%u6B65%u6309%u94AE%u4ECE%u5F53%u524D%u5E73%u53F0%u83B7%u53D6%u5E76%u4FDD%u5B58%u76EE%u5F55%u3002'' else ulit ''%u5F53%u524D%u5E73%u53F0%u5C1A%u672A%u914D%u7F6E%u53EF%u7528%u6A21%u578B%u3002'')
          else if visible_models s rows = [] then Some (ulit ''%u6CA1%u6709%u5339%u914D%u7684%u6A21%u578B'', ulit ''%u8C03%u6574%u641C%u7D22%u8BCD%u6216%u7B5B%u9009%u6761%u4EF6%u3002'') else None),
        cav_table = (if rows = [] then None else Some (model_table_heads (mp_media s),
          map (model_table_row (mp_media s)) (paged_models s rows), models_footer s rows)),
        cav_sheet = sheet\<rparr>))))"

definition models_body ::
    "(int \<Rightarrow> int) \<Rightarrow> (rat \<Rightarrow> jstr) \<Rightarrow> (rat \<Rightarrow> jstr) \<Rightarrow> ModelsData \<Rightarrow> jstr \<Rightarrow> ModelsPage \<Rightarrow> models_screen res" where
  "models_body utc loc num d selected s =
     (if md_models_loading d then Inr ModelsLoading
      else case md_models_error d of Some message \<Rightarrow> Inr (ModelsError message)
      | None \<Rightarrow> bindr (catalog_view utc loc num d selected s) (\<lambda>v. Inr (ModelsLoaded v)))"

section \<open>Synchronising a catalog\<close>

text \<open>
  The cached catalogs by provider and kind, and the request for a synchronisation. The answer is stored by
  \<open>onSuccess\<close>, a closure over provider and kind; \<open>latest\<close> says whether the query library calls the closure of
  the last render, as it does while a request is pending, or that of the start.
\<close>

type_synonym catalog_id = "jstr \<times> MediaKind"

record CatalogSync =
  cs_page :: ModelsPage
  cs_cached :: "(catalog_id \<times> PlatformModelsResponse) list"
  cs_sync :: "(catalog_id, PlatformModelsResponse) mutation"

datatype sync_event =
  ModelsControl models_event
| CatalogLoaded catalog_id PlatformModelsResponse
| PressSync bool
| SyncAnswered nat "jstr + PlatformModelsResponse"

definition catalog_key :: "CatalogSync \<Rightarrow> catalog_id" where
  "catalog_key s = (models_provider (cs_page s), mp_media (cs_page s))"

definition shown_catalog :: "CatalogSync \<Rightarrow> PlatformModelsResponse option" where
  "shown_catalog s = map_of (cs_cached s) (catalog_key s)"

text \<open>The button: its label and whether it is disabled; and the question asked before.\<close>

definition sync_button :: "CatalogSync \<Rightarrow> (jstr \<times> bool) option" where
  "sync_button s = (if map_option pms_sync_supported (shown_catalog s) = Some True
     then Some (if is_pending (cs_sync s) then ulit ''%u540C%u6B65%u4E2D'' else ulit ''%u540C%u6B65%u5E73%u53F0'' @ media_name (mp_media (cs_page s)) @ ulit ''%u6A21%u578B'', is_pending (cs_sync s))
     else None)"

definition sync_question :: "CatalogSync \<Rightarrow> jstr" where
  "sync_question s = ulit ''%u540C%u6B65%u4F1A%u5237%u65B0%u5F53%u524D'' @ media_name (mp_media (cs_page s)) @ ulit ''%u6A21%u578B%u76EE%u5F55%u548C Schema %u7248%u672C%uFF0C%u786E%u8BA4%u7EE7%u7EED%uFF1F''"

definition sync_request :: "catalog_id \<Rightarrow> jstr \<times> jstr \<times> json" where
  "sync_request k = (lit ''POST'', lit ''/admin/api/platform-models/sync'',
     JObj [(lit ''provider_id'', JStr (fst k)), (lit ''media_type'', JStr (kind_name (snd k)))])"

definition sync_error :: "CatalogSync \<Rightarrow> jstr option" where
  "sync_error s = (case mu_state (cs_sync s) of MutationError m \<Rightarrow> Some m | _ \<Rightarrow> None)"

fun sync_step :: "bool \<Rightarrow> Provider list \<Rightarrow> CatalogSync \<Rightarrow> sync_event \<Rightarrow> CatalogSync" where
  "sync_step latest providers s (ModelsControl e) =
     s\<lparr>cs_page := models_step providers (nullish (map_option pms_data (shown_catalog s)) []) (cs_page s) e\<rparr>"
| "sync_step latest providers s (CatalogLoaded k a) = s\<lparr>cs_cached := map_set k a (cs_cached s)\<rparr>"
| "sync_step latest providers s (PressSync confirmed) =
     (case sync_button s of
        Some (_, disabled) \<Rightarrow> if confirmed \<and> \<not> disabled then s\<lparr>cs_sync := mutate (catalog_key s) (cs_sync s)\<rparr> else s
      | None \<Rightarrow> s)"
| "sync_step latest providers s (SyncAnswered n answer) =
     (case mu_state (cs_sync s) of
        MutationPending k asked \<Rightarrow>
          if k \<noteq> n then s
          else (case answer of
              Inr a \<Rightarrow> s\<lparr>cs_cached := map_set (if latest then catalog_key s else asked) a (cs_cached s),
                cs_sync := settle_mutation n answer (cs_sync s)\<rparr>
            | Inl e \<Rightarrow> s\<lparr>cs_sync := settle_mutation n answer (cs_sync s)\<rparr>)
      | _ \<Rightarrow> s)"

section \<open>The dialog for cost rules\<close>

record RuleDialog =
  rd_draft :: CostRuleDraft
  rd_save :: "(jstr \<times> jstr \<times> CostRuleDraft, CostRule) mutation"
  rd_remove :: "(jstr \<times> jstr, unit) mutation"
  rd_refreshes :: nat

definition open_rule_dialog :: "jstr \<Rightarrow> MediaKind \<Rightarrow> RuleDialog res" where
  "open_rule_dialog providerID kind = bindr (emptyCostRule providerID kind) (\<lambda>d.
     Inr \<lparr>rd_draft = d, rd_save = new_mutation, rd_remove = new_mutation, rd_refreshes = 0\<rparr>)"

datatype rule_dialog_event =
  EditRule rule_event
| SubmitRule
| RemoveRule
| SaveAnswered nat "jstr + CostRule"
| RemoveAnswered nat "jstr option"

text \<open>The controls that are offered: the rules of the list, and the kinds of the provider.\<close>

definition rule_control_offered :: "Provider option \<Rightarrow> CostRule list \<Rightarrow> rule_event \<Rightarrow> bool" where
  "rule_control_offered provider rules e = (case e of
       PickRule rule \<Rightarrow> rule \<in> set (current_rules rules)
     | PickKind k \<Rightarrow> k \<in> set (rule_kinds provider)
     | RuleSaved _ \<Rightarrow> False | RuleRemoved \<Rightarrow> False | _ \<Rightarrow> True)"

definition remove_path :: "CostRule \<Rightarrow> jstr" where
  "remove_path rule = lit ''/admin/api/cost-rules/'' @ num_str (cr_id rule)"

definition edit_draft :: "jstr \<Rightarrow> MediaKind \<Rightarrow> rule_event \<Rightarrow> RuleDialog \<Rightarrow> RuleDialog res" where
  "edit_draft providerID kind e s = bindr (rule_step providerID kind (rd_draft s) e) (\<lambda>d. Inr (s\<lparr>rd_draft := d\<rparr>))"

fun rule_dialog_step ::
    "jstr \<Rightarrow> Provider option \<Rightarrow> MediaKind \<Rightarrow> CostRule list \<Rightarrow> RuleDialog \<Rightarrow> rule_dialog_event \<Rightarrow> RuleDialog res" where
  "rule_dialog_step providerID provider kind rules s (EditRule e) =
     (if rule_control_offered provider rules e then edit_draft providerID kind e s else Inr s)"
| "rule_dialog_step providerID provider kind rules s SubmitRule =
     Inr (case save_request (is_pending (rd_save s)) (rd_draft s) of
        Some (verb, path) \<Rightarrow> s\<lparr>rd_save := mutate (verb, path, rd_draft s) (rd_save s)\<rparr> | None \<Rightarrow> s)"
| "rule_dialog_step providerID provider kind rules s RemoveRule =
     Inr (case cd_stored (rd_draft s) of
        Some rule \<Rightarrow> if is_pending (rd_remove s) then s
          else s\<lparr>rd_remove := mutate (lit ''DELETE'', remove_path rule) (rd_remove s)\<rparr>
      | None \<Rightarrow> s)"
| "rule_dialog_step providerID provider kind rules s (SaveAnswered n answer) =
     (case mu_state (rd_save s) of
        MutationPending k r \<Rightarrow>
          if k \<noteq> n then Inr s
          else (let t = s\<lparr>rd_save := settle_mutation n answer (rd_save s)\<rparr> in
            (case answer of
               Inl e \<Rightarrow> Inr t
             | Inr rule \<Rightarrow> edit_draft providerID kind (RuleSaved rule) (t\<lparr>rd_refreshes := rd_refreshes s + 1\<rparr>)))
      | _ \<Rightarrow> Inr s)"
| "rule_dialog_step providerID provider kind rules s (RemoveAnswered n failure) =
     (case mu_state (rd_remove s) of
        MutationPending k r \<Rightarrow>
          if k \<noteq> n then Inr s
          else (let t = s\<lparr>rd_remove := settle_mutation n (case failure of Some e \<Rightarrow> Inl e | None \<Rightarrow> Inr ()) (rd_remove s)\<rparr> in
            (case failure of
               Some e \<Rightarrow> Inr t
             | None \<Rightarrow> edit_draft providerID kind RuleRemoved (t\<lparr>rd_refreshes := rd_refreshes s + 1\<rparr>)))
      | _ \<Rightarrow> Inr s)"

text \<open>An entry of the list: model, dimensions, price, light with its title, and whether it is edited.\<close>

definition rule_entry ::
    "(rat \<Rightarrow> jstr) \<Rightarrow> (rat \<Rightarrow> jstr) \<Rightarrow> jstr \<Rightarrow> CostRuleDraft \<Rightarrow> CostRule \<Rightarrow> (jstr \<times> jstr \<times> jstr \<times> jstr \<times> jstr option \<times> bool) res" where
  "rule_entry loc num unit d rule = bindr (rule_line num rule) (\<lambda>line.
     Inr (cr_model rule, line, loc (cr_unit_tokens rule) @ lit '' '' @ unit, rule_light rule,
       if cr_drifted rule = Some True then Some (or_str (opt_str (cr_drift_reason rule)) (ulit ''%u68C0%u6D4B%u5230%u4EF7%u683C%u6F02%u79FB'')) else None,
       map_option cr_id (cd_stored d) = Some (cr_id rule)))"

text \<open>The fields of the form: labels, and what they show.\<close>

definition rule_fields :: "(rat \<Rightarrow> jstr) \<Rightarrow> jstr \<Rightarrow> jstr \<Rightarrow> CostRuleDraft \<Rightarrow> (jstr \<times> jstr) list" where
  "rule_fields num providerID unit d =
     [(ulit ''%u7C7B%u578B'', media_name (cd_kind d)), (ulit ''%u6A21%u578B'', cd_model d)] @
     (case cd_kind d of
        Image \<Rightarrow> [(ulit ''%u5C3A%u5BF8'', cd_size d), (ulit ''%u8D28%u91CF'', cd_quality d)]
      | Video \<Rightarrow> (if workflow_field providerID (cd_model d) then [(ulit ''%u5DE5%u4F5C%u6D41'', or_str (cd_quality d) (lit ''t2v''))] else []) @
          [(ulit ''%u5206%u8FA8%u7387'', cd_resolution d), (ulit ''%u65F6%u957F'', num (cd_duration d))]
      | Audio \<Rightarrow> [(ulit ''%u8BA1%u8D39%u7EF4%u5EA6'', num (cd_duration d))]) @
     [(ulit ''%u5355%u6B21%u6210%u672C%uFF08'' @ unit @ ulit ''%uFF09'', num (cd_unit_tokens d)), (ulit ''%u4EF7%u683C%u7248%u672C'', cd_price_version d), (ulit ''%u6765%u6E90'', cd_source d),
      (ulit ''%u72B6%u6001'', if cd_enabled d then ulit ''%u542F%u7528'' else ulit ''%u505C%u7528'')]"

record RuleDialogView =
  rdv_badge :: "jstr \<times> jstr"
  rdv_summary :: jstr
  rdv_entries :: "(jstr \<times> jstr \<times> jstr \<times> jstr \<times> jstr option \<times> bool) list"
  rdv_drift :: "jstr option"
  rdv_kinds :: "MediaKind list"
  rdv_fields :: "(jstr \<times> jstr) list"
  rdv_errors :: "jstr list"
  rdv_remove :: "bool option"
  rdv_save :: "jstr \<times> bool"

definition hook_error :: "('r, 'a) mutation \<Rightarrow> jstr list" where
  "hook_error m = (case mu_state m of MutationError e \<Rightarrow> [e] | _ \<Rightarrow> [])"

definition rule_dialog_view ::
    "(rat \<Rightarrow> jstr) \<Rightarrow> (rat \<Rightarrow> jstr) \<Rightarrow> jstr \<Rightarrow> Provider option \<Rightarrow> jstr \<Rightarrow> CostRule list \<Rightarrow> RuleDialog \<Rightarrow> RuleDialogView res" where
  "rule_dialog_view loc num providerID provider unit rules s =
     bindr (ProviderBadge providerID (case provider of Some p \<Rightarrow> [p] | None \<Rightarrow> [])) (\<lambda>badge.
     bindr (mapr (rule_entry loc num unit (rd_draft s)) (current_rules rules)) (\<lambda>entries.
     Inr \<lparr>rdv_badge = badge, rdv_summary = ulit ''%u5F53%u524D%u542F%u7528 '' @ num_str (int (length (filter cr_enabled rules))) @ ulit '' %u6761'',
       rdv_entries = entries, rdv_drift = drift_message (rd_draft s), rdv_kinds = rule_kinds provider,
       rdv_fields = rule_fields num providerID unit (rd_draft s),
       rdv_errors = hook_error (rd_save s) @ hook_error (rd_remove s),
       rdv_remove = (if cd_stored (rd_draft s) \<noteq> None then Some (is_pending (rd_remove s)) else None),
       rdv_save = (if is_pending (rd_save s) then ulit ''%u4FDD%u5B58%u4E2D'' else ulit ''%u4FDD%u5B58%u89C4%u5219'', is_pending (rd_save s))\<rparr>))"

section \<open>Properties\<close>

lemma workflow_fails [simp]: "fails (videoWorkflowLabel w) \<longleftrightarrow> w \<in> set object_prototype_keys"
proof -
  have "\<forall>k \<in> set object_prototype_keys. map_of workflow_labels k = None"
    by (simp add: object_prototype_keys_def workflow_labels_def)
  then show ?thesis by (auto simp: videoWorkflowLabel_def obj_get_def split: option.split)
qed

lemma nil_no_prototype_key [simp]: "[] \<notin> set object_prototype_keys"
  by (simp add: object_prototype_keys_def)

lemma featured_fails [simp]: "fails (FeaturedModels rows p ps) \<longleftrightarrow> rows \<noteq> [] \<and> p \<in> set object_prototype_keys"
  by (cases rows) (auto simp: FeaturedModels_def fails_def [of "if _ then _ else _"])

lemma reference_fails [simp]:
  "fails (CostReference utc loc num rows costs rules kind p unit loading error selected) \<longleftrightarrow> fails (costEstimates utc rules kind)"
  by (simp add: CostReference_def)

lemma metrics_fails [simp]: "fails (models_metrics ps m s) \<longleftrightarrow> models_provider s \<in> set object_prototype_keys"
  by (simp add: models_metrics_def Let_def)

lemma sheet_fails [simp]:
  "fails (model_sheet ps s) \<longleftrightarrow> mp_selectedModel s \<noteq> None \<and> models_provider s \<in> set object_prototype_keys"
  by (simp add: model_sheet_def Let_def split: option.split)

text \<open>The catalog of a provider is shown exactly when its name is not one of Object.prototype and, where there are
  open models, the price tables of its rules can be labelled.\<close>

theorem catalog_shown_iff:
  "(\<exists>v. catalog_view utc loc num d selected s = Inr v) \<longleftrightarrow>
   models_provider s \<notin> set object_prototype_keys \<and>
   (featured_models (nullish (map_option pms_data (md_models d)) []) = [] \<or>
    (\<exists>tables. costEstimates utc (nullish (md_rules d) []) (mp_media s) = Inr tables))"
proof -
  let ?featured = "featured_models (nullish (map_option pms_data (md_models d)) [])"
  have "fails (catalog_view utc loc num d selected s) \<longleftrightarrow> models_provider s \<in> set object_prototype_keys \<or>
      ?featured \<noteq> [] \<and> fails (costEstimates utc (nullish (md_rules d) []) (mp_media s))"
    unfolding catalog_view_def Let_def fails_simps metrics_fails
    by (cases "models_provider s \<in> set object_prototype_keys") (auto simp: not_fails [symmetric])
  then show ?thesis unfolding not_fails [symmetric] by blast
qed

lemma rule_line_fails [simp]:
  "fails (rule_line num rule) \<longleftrightarrow> cr_kind rule = Video \<and> cr_quality rule \<in> set object_prototype_keys"
  by (cases "cr_kind rule") (auto simp: rule_line_def)

text \<open>The dialog for cost rules is shown exactly when neither the provider nor the workflow of a listed video rule
  is called like a property of Object.prototype.\<close>

theorem rule_dialog_shown_iff:
  "(\<exists>v. rule_dialog_view loc num providerID provider unit rules s = Inr v) \<longleftrightarrow>
   providerID \<notin> set object_prototype_keys \<and>
   (\<forall>rule \<in> set (current_rules rules). cr_kind rule = Video \<longrightarrow> cr_quality rule \<notin> set object_prototype_keys)"
proof -
  have "fails (rule_dialog_view loc num providerID provider unit rules s) \<longleftrightarrow> providerID \<in> set object_prototype_keys \<or>
      (\<exists>rule \<in> set (current_rules rules). cr_kind rule = Video \<and> cr_quality rule \<in> set object_prototype_keys)"
  proof (cases "providerID \<in> set object_prototype_keys")
    case False
    then obtain badge where "ProviderBadge providerID (case provider of Some p \<Rightarrow> [p] | None \<Rightarrow> []) = Inr badge"
      using badge_fails not_fails by blast
    then show ?thesis unfolding rule_dialog_view_def using False by (simp add: rule_entry_def)
  qed (simp add: rule_dialog_view_def)
  then show ?thesis unfolding not_fails [symmetric] by blast
qed

lemma edit_keeps_hooks:
  "rule_dialog_step p q k rules s (EditRule e) = Inr t \<Longrightarrow> rd_save t = rd_save s \<and> rd_remove t = rd_remove s \<and> rd_refreshes t = rd_refreshes s"
  by (auto simp: edit_draft_def bindr_Inr_iff split: if_splits)

text \<open>Edits made one after the other, each with the rules that are listed then.\<close>

fun edit_run :: "jstr \<Rightarrow> Provider option \<Rightarrow> MediaKind \<Rightarrow> (CostRule list \<times> rule_event) list \<Rightarrow> RuleDialog \<Rightarrow> RuleDialog res" where
  "edit_run p q k [] s = Inr s"
| "edit_run p q k ((rules, e) # es) s = bindr (rule_dialog_step p q k rules s (EditRule e)) (edit_run p q k es)"

lemma edit_run_hooks:
  "edit_run p q k es s = Inr t \<Longrightarrow> rd_save t = rd_save s \<and> rd_remove t = rd_remove s \<and> rd_refreshes t = rd_refreshes s"
proof (induction es arbitrary: s)
  case (Cons e es)
  then obtain u where "rule_dialog_step p q k (fst e) s (EditRule (snd e)) = Inr u" "edit_run p q k es u = Inr t"
    by (cases e) (auto simp: bindr_Inr_iff simp del: rule_dialog_step.simps)
  with Cons.IH [of u] edit_keeps_hooks show ?case by metis
qed simp

text \<open>Saving a rule sends the form that is shown; a failure keeps what is in the form then and says why; but a
  success puts the saved rule into the form, whatever was picked or typed since the button was pressed.\<close>

theorem late_save_discards_edits:
  assumes "save_request (is_pending (rd_save s)) (rd_draft s) = Some (verb, path)"
    and "rule_dialog_step p q k rules s SubmitRule = Inr started" "edit_run p q k es started = Inr t"
  shows "mu_state (rd_save t) = MutationPending (mu_count (rd_save s)) (verb, path, rd_draft s) \<and>
    (\<exists>u. rule_dialog_step p q k rules t (SaveAnswered (mu_count (rd_save s)) (Inr rule)) = Inr u \<and>
      rd_draft u = draft_of rule \<and> rd_refreshes u = rd_refreshes s + 1 \<and> \<not> is_pending (rd_save u)) \<and>
    (\<exists>u. rule_dialog_step p q k rules t (SaveAnswered (mu_count (rd_save s)) (Inl m)) = Inr u \<and>
      rd_draft u = rd_draft t \<and> rd_refreshes u = rd_refreshes s \<and> hook_error (rd_save u) = [m])"
proof -
  have "started = s\<lparr>rd_save := mutate (verb, path, rd_draft s) (rd_save s)\<rparr>" using assms(1,2) by simp
  with edit_run_hooks [OF assms(3)] have h: "rd_save t = mutate (verb, path, rd_draft s) (rd_save s)" "rd_refreshes t = rd_refreshes s"
    by simp_all
  then show ?thesis
    by (simp add: mutate_def edit_draft_def settle_mutation_def is_pending_def hook_error_def Let_def)
qed

text \<open>What the dialog asks for is what it shows: a save is started only by its button, with the valid form as it is
  then, at the address of the rule that is edited; a deletion only by its button, for that rule.\<close>

theorem rule_requests_match_form:
  assumes "rule_dialog_step p q k rules s e = Inr t"
  shows "(mu_state (rd_save t) = MutationPending n (verb, path, d) \<longrightarrow> mu_state (rd_save s) = MutationPending n (verb, path, d) \<or>
      e = SubmitRule \<and> d = rd_draft s \<and> rd_draft t = rd_draft s \<and> rule_inputs_valid d \<and> \<not> is_pending (rd_save s) \<and>
      (case cd_stored d of Some rule \<Rightarrow> verb = lit ''PUT'' \<and> path = remove_path rule
        | None \<Rightarrow> verb = lit ''POST'' \<and> path = lit ''/admin/api/cost-rules/'')) \<and>
    (mu_state (rd_remove t) = MutationPending n r \<longrightarrow> mu_state (rd_remove s) = MutationPending n r \<or>
      e = RemoveRule \<and> \<not> is_pending (rd_remove s) \<and> (\<exists>rule. cd_stored (rd_draft s) = Some rule \<and> r = (lit ''DELETE'', remove_path rule)))"
proof (cases e)
  case (EditRule x)
  with assms edit_keeps_hooks show ?thesis by metis
next
  case SubmitRule
  with assms show ?thesis
    by (cases "save_request (is_pending (rd_save s)) (rd_draft s)")
      (auto simp: save_request_def mutate_def remove_path_def split: if_splits option.splits)
next
  case RemoveRule
  with assms show ?thesis by (auto simp: mutate_def split: if_splits option.splits)
next
  case (SaveAnswered m a)
  with assms show ?thesis
    by (auto simp: settle_mutation_def edit_draft_def Let_def split: mutation_state.splits if_splits sum.splits)
next
  case (RemoveAnswered m a)
  with assms show ?thesis
    by (auto simp: settle_mutation_def edit_draft_def bindr_Inr_iff Let_def split: mutation_state.splits if_splits option.splits)
qed


text \<open>A dialog that edits one of the stored rules.\<close>

definition sample_dialog :: RuleDialog where
  "sample_dialog = \<lparr>rd_draft = (draft_of (sample_rule 1 Image [] 10 []))\<lparr>cd_source := lit ''manual''\<rparr>, rd_save = new_mutation,
     rd_remove = new_mutation, rd_refreshes = 0\<rparr>"

lemma sample_dialog_saves:
  "save_request (is_pending (rd_save sample_dialog)) (rd_draft sample_dialog) = Some (lit ''PUT'', lit ''/admin/api/cost-rules/'' @ num_str 1)"
  by (simp add: sample_dialog_def save_request_def rule_inputs_valid_def draft_of_def sample_rule_def)

theorem late_save_discards_edits_witness:
  "\<exists>t u. edit_run (lit ''leonardo'') None Image [([], TypeSize (lit ''512x512''))]
      (sample_dialog\<lparr>rd_save := mutate (lit ''PUT'', lit ''/admin/api/cost-rules/'' @ num_str 1, rd_draft sample_dialog) new_mutation\<rparr>) = Inr t \<and>
    cd_size (rd_draft t) = lit ''512x512'' \<and>
    rule_dialog_step (lit ''leonardo'') None Image [] t (SaveAnswered 0 (Inr (sample_rule 1 Image [] 10 []))) = Inr u \<and>
    cd_size (rd_draft u) = lit ''1024x1024''"
proof -
  let ?started = "sample_dialog\<lparr>rd_save := mutate (lit ''PUT'', lit ''/admin/api/cost-rules/'' @ num_str 1, rd_draft sample_dialog) new_mutation\<rparr>"
  let ?t = "?started\<lparr>rd_draft := (rd_draft sample_dialog)\<lparr>cd_size := lit ''512x512''\<rparr>\<rparr>"
  have hooks: "rd_save sample_dialog = new_mutation" by (simp add: sample_dialog_def)
  have run: "edit_run (lit ''leonardo'') None Image [([], TypeSize (lit ''512x512''))] ?started = Inr ?t"
    by (simp add: edit_draft_def rule_control_offered_def sample_dialog_def draft_of_def sample_rule_def)
  have "rule_dialog_step (lit ''leonardo'') None Image [] sample_dialog SubmitRule = Inr ?started"
    using sample_dialog_saves by (simp add: hooks)
  from late_save_discards_edits [OF sample_dialog_saves this run, THEN conjunct2, THEN conjunct1, of "sample_rule 1 Image [] 10 []"]
  obtain u where "rule_dialog_step (lit ''leonardo'') None Image [] ?t (SaveAnswered 0 (Inr (sample_rule 1 Image [] 10 []))) = Inr u"
    "rd_draft u = draft_of (sample_rule 1 Image [] 10 [])"
    by (auto simp: hooks new_mutation_def)
  with run show ?thesis by (auto simp: draft_of_def sample_rule_def)
qed

theorem rule_requests_match_form_witness:
  "\<exists>t. rule_dialog_step (lit ''leonardo'') None Image [] sample_dialog RemoveRule = Inr t \<and>
     mu_state (rd_remove t) = MutationPending 0 (lit ''DELETE'', lit ''/admin/api/cost-rules/'' @ num_str 1)"
proof -
  let ?t = "sample_dialog\<lparr>rd_remove := mutate (lit ''DELETE'', remove_path (sample_rule 1 Image [] 10 [])) new_mutation\<rparr>"
  have step: "rule_dialog_step (lit ''leonardo'') None Image [] sample_dialog RemoveRule = Inr ?t"
    by (simp add: sample_dialog_def draft_of_def)
  have "mu_state (rd_remove ?t) = MutationPending 0 (lit ''DELETE'', remove_path (sample_rule 1 Image [] 10 []))"
    by (simp add: mutate_def new_mutation_def)
  with rule_requests_match_form [OF step, THEN conjunct2] step show ?thesis
    by (auto simp: sample_dialog_def draft_of_def remove_path_def sample_rule_def)
qed

definition sample_catalog :: PlatformModelsResponse where
  "sample_catalog = \<lparr>pms_provider_id = lit ''leonardo'', pms_provider = video_provider, pms_schema_version = [], pms_media_type = None,
     pms_synced_at = None, pms_catalog_source = UpstreamSchema, pms_sync_supported = True, pms_data = []\<rparr>"


end
