(* ===== verification/KeyDesk.thy ===== *)
theory KeyDesk
  imports ApiKeys Mutation
begin

text \<open>
  The API key page with its requests (pages/api-key-page.tsx): switching a key on and off, the dialog that
  creates one and the dialog that deletes one. \<open>enc\<close> is \<open>encodeURIComponent\<close>, \<open>num\<close> and \<open>loc\<close> print numbers.
\<close>

section \<open>Requests\<close>

datatype key_call = ToggleKey APIKeyRecord | CreateKey KeyForm | DeleteKey jstr

definition keys_url :: "(jstr \<Rightarrow> jstr) \<Rightarrow> KeysPage \<Rightarrow> jstr" where
  "keys_url enc s = lit ''/admin/api/api-keys?page='' @ num_str (int (kp_page s)) @ lit ''&page_size='' @ num_str (int (kp_pageSize s)) @
     lit ''&search='' @ enc (trim (kp_search s))"

definition key_form_json :: "KeyForm \<Rightarrow> json" where
  "key_form_json form = JObj [(lit ''name'', JStr (kf_name form)), (lit ''description'', JStr (kf_description form)),
     (lit ''concurrency_limit'', JNum (kf_concurrency_limit form)), (lit ''expires_in_days'', JNum (of_int (kf_expires_in_days form))),
     (lit ''allowed_models'', JArr (map JStr (kf_allowed_models form)))]"

fun key_request :: "key_call \<Rightarrow> jstr \<times> jstr \<times> json option" where
  "key_request (ToggleKey k) = (lit ''PATCH'', lit ''/admin/api/api-keys/'' @ ak_id k, Some (JObj [(lit ''enabled'', JBool (\<not> ak_enabled k))]))"
| "key_request (CreateKey form) = (lit ''POST'', lit ''/admin/api/api-keys'', Some (key_form_json form))"
| "key_request (DeleteKey i) = (lit ''DELETE'', lit ''/admin/api/api-keys/'' @ i, None)"

section \<open>The state\<close>

text \<open>
  The form is there while its dialog is open. Each hook numbers its requests; a dialog that is opened again
  starts with a fresh hook, which has forgotten the requests of the former one. \<open>kd_flight\<close> are the requests
  without an answer.
\<close>

record KeyDesk =
  kd_page :: KeysPage
  kd_form :: "KeyForm option"
  kd_toggle :: "(key_call, jstr) mutation"
  kd_create :: "(key_call, jstr) mutation"
  kd_delete :: "(key_call, jstr) mutation"
  kd_flight :: "(nat \<times> key_call) list"
  kd_refreshes :: nat

definition open_keys :: KeyDesk where
  "open_keys = \<lparr>kd_page = \<lparr>kp_page = 1, kp_pageSize = 10, kp_search = [], kp_showCreate = False, kp_deleteTarget = None, kp_newKey = []\<rparr>,
     kd_form = None, kd_toggle = new_mutation, kd_create = new_mutation, kd_delete = new_mutation, kd_flight = [], kd_refreshes = 0\<rparr>"

datatype desk_event =
  SearchDesk jstr
| TurnKeysPage nat
| SizeKeysPage nat
| KeysListed nat
| OpenKeyDialog
| CloseKeyDialog
| KeyControl key_event
| SubmitKey
| PressToggle APIKeyRecord
| AskDeleteKey APIKeyRecord
| CancelDeleteKey
| PressDelete
| KeyAnswered nat "jstr + jstr"
| CloseKeyNotice

text \<open>\<open>onSuccess\<close> of the three hooks: it runs for every answer, also when its dialog has been closed. The answer to a
  creation carries the key.\<close>

fun key_done :: "key_call \<Rightarrow> jstr \<Rightarrow> KeyDesk \<Rightarrow> KeyDesk" where
  "key_done (ToggleKey _) _ s = s\<lparr>kd_refreshes := kd_refreshes s + 1\<rparr>"
| "key_done (CreateKey _) key s = s\<lparr>kd_page := keys_step (kd_page s) (KeyWasCreated key), kd_form := None,
     kd_create := reset_mutation (kd_create s), kd_refreshes := kd_refreshes s + 1\<rparr>"
| "key_done (DeleteKey _) _ s = s\<lparr>kd_page := keys_step (kd_page s) KeyDeleted, kd_delete := reset_mutation (kd_delete s),
     kd_refreshes := kd_refreshes s + 1\<rparr>"

fun settle_key :: "nat \<Rightarrow> key_call \<Rightarrow> jstr + jstr \<Rightarrow> KeyDesk \<Rightarrow> KeyDesk" where
  "settle_key n (ToggleKey _) a s = s\<lparr>kd_toggle := settle_mutation n a (kd_toggle s)\<rparr>"
| "settle_key n (CreateKey _) a s = s\<lparr>kd_create := settle_mutation n a (kd_create s)\<rparr>"
| "settle_key n (DeleteKey _) a s = s\<lparr>kd_delete := settle_mutation n a (kd_delete s)\<rparr>"

definition answer_key :: "nat \<Rightarrow> jstr + jstr \<Rightarrow> KeyDesk \<Rightarrow> KeyDesk" where
  "answer_key i a s =
     (if i < length (kd_flight s) then
        (let (n, call) = kd_flight s ! i;
             t = settle_key n call a (s\<lparr>kd_flight := take i (kd_flight s) @ drop (Suc i) (kd_flight s)\<rparr>) in
         (case a of Inr key \<Rightarrow> key_done call key t | Inl _ \<Rightarrow> t))
      else s)"

text \<open>One event; \<open>groups\<close> are the models offered then, and \<open>old\<close> says whose keys have expired.\<close>

fun desk_step :: "KeyModelGroup list \<Rightarrow> (APIKeyRecord \<Rightarrow> bool) \<Rightarrow> KeyDesk \<Rightarrow> desk_event \<Rightarrow> KeyDesk" where
  "desk_step groups old s (SearchDesk q) = s\<lparr>kd_page := keys_step (kd_page s) (SearchKeys q)\<rparr>"
| "desk_step groups old s (TurnKeysPage n) = s\<lparr>kd_page := keys_step (kd_page s) (GoToKeysPage n)\<rparr>"
| "desk_step groups old s (SizeKeysPage n) = s\<lparr>kd_page := keys_step (kd_page s) (SetKeysPageSize n)\<rparr>"
| "desk_step groups old s (KeysListed n) = s\<lparr>kd_page := keys_step (kd_page s) (KeysAnswered n)\<rparr>"
| "desk_step groups old s OpenKeyDialog =
     (if kd_form s \<noteq> None then s
      else s\<lparr>kd_page := keys_step (kd_page s) OpenCreate, kd_form := Some (initial_key_form groups),
        kd_create := reset_mutation (kd_create s)\<rparr>)"
| "desk_step groups old s CloseKeyDialog =
     s\<lparr>kd_page := keys_step (kd_page s) CloseCreate, kd_form := None, kd_create := reset_mutation (kd_create s)\<rparr>"
| "desk_step groups old s (KeyControl e) = s\<lparr>kd_form := map_option (\<lambda>form. key_form_step groups form e) (kd_form s)\<rparr>"
| "desk_step groups old s SubmitKey =
     (case Option.bind (kd_form s) (submit_key (is_pending (kd_create s))) of
        Some form \<Rightarrow> s\<lparr>kd_create := mutate (CreateKey form) (kd_create s),
          kd_flight := kd_flight s @ [(mu_count (kd_create s), CreateKey form)]\<rparr>
      | None \<Rightarrow> s)"
| "desk_step groups old s (PressToggle k) =
     (if old k \<or> is_pending (kd_toggle s) then s
      else s\<lparr>kd_toggle := mutate (ToggleKey k) (kd_toggle s),
        kd_flight := kd_flight s @ [(mu_count (kd_toggle s), ToggleKey k)]\<rparr>)"
| "desk_step groups old s (AskDeleteKey k) = s\<lparr>kd_page := keys_step (kd_page s) (AskDelete k)\<rparr>"
| "desk_step groups old s CancelDeleteKey =
     s\<lparr>kd_page := keys_step (kd_page s) CancelDelete, kd_delete := reset_mutation (kd_delete s)\<rparr>"
| "desk_step groups old s PressDelete =
     (case kp_deleteTarget (kd_page s) of
        Some k \<Rightarrow> if is_pending (kd_delete s) then s
          else s\<lparr>kd_delete := mutate (DeleteKey (ak_id k)) (kd_delete s),
            kd_flight := kd_flight s @ [(mu_count (kd_delete s), DeleteKey (ak_id k))]\<rparr>
      | None \<Rightarrow> s)"
| "desk_step groups old s (KeyAnswered i a) = answer_key i a s"
| "desk_step groups old s CloseKeyNotice = s\<lparr>kd_page := (kd_page s)\<lparr>kp_newKey := []\<rparr>\<rparr>"

section \<open>What is shown\<close>

text \<open>The four figures of the list: label, value, detail.\<close>

definition key_metrics :: "(rat \<Rightarrow> jstr) \<Rightarrow> KeyStats \<Rightarrow> int \<Rightarrow> (jstr \<times> jstr \<times> jstr option) list" where
  "key_metrics loc stats all_keys =
     [(ulit ''%u5F53%u524D%u9875%u51ED%u636E'', num_str (int (ks_rows stats)), Some (ulit ''%u5168%u90E8 '' @ num_str all_keys @ ulit '' %u4E2A'')),
      (ulit ''%u5DF2%u542F%u7528'', num_str (int (ks_enabled stats)), None),
      (ulit ''%u5E76%u53D1%u989D%u5EA6'', num_str (ks_concurrency stats), Some (ulit ''%u5F53%u524D%u9875%u5408%u8BA1'')),
      (ulit ''%u7D2F%u8BA1%u8BF7%u6C42'', loc (of_int (ks_requests stats)), Some (ulit ''%u5F53%u524D%u9875%u5408%u8BA1''))]"

definition keys_empty :: "bool \<Rightarrow> APIKeyRecord list \<Rightarrow> KeysPage \<Rightarrow> (jstr \<times> jstr) option" where
  "keys_empty loading data s = (if loading \<or> data \<noteq> [] then None
     else if kp_search s \<noteq> [] then Some (ulit ''%u6CA1%u6709%u5339%u914D%u7684%u5BC6%u94A5'', ulit ''%u8C03%u6574%u641C%u7D22%u5185%u5BB9%u540E%u91CD%u8BD5%u3002'')
     else Some (ulit ''%u8FD8%u6CA1%u6709 API %u5BC6%u94A5'', ulit ''%u70B9%u51FB%u201C%u521B%u5EFA%u5BC6%u94A5%u201D%u914D%u7F6E%u7B2C%u4E00%u4E2A%u5BA2%u6237%u7AEF%u51ED%u636E%u3002''))"

record CreateKeyView =
  ckv_fields :: "(jstr \<times> jstr) list"
  ckv_expiries :: "(int \<times> jstr) list"
  ckv_count :: jstr
  ckv_boxes :: "(jstr \<times> (jstr \<times> bool) list) list"
  ckv_error :: "jstr option"
  ckv_submit :: "jstr \<times> bool"

definition key_hook_error :: "(key_call, jstr) mutation \<Rightarrow> jstr option" where
  "key_hook_error m = (case mu_state m of MutationError e \<Rightarrow> Some e | _ \<Rightarrow> None)"

definition create_key_view :: "(rat \<Rightarrow> jstr) \<Rightarrow> KeyModelGroup list \<Rightarrow> KeyDesk \<Rightarrow> CreateKeyView option" where
  "create_key_view num groups s = map_option (\<lambda>form.
     \<lparr>ckv_fields = [(ulit ''%u540D%u79F0'', kf_name form), (ulit ''%u7528%u9014%u8BF4%u660E'', kf_description form), (ulit ''%u5E76%u53D1%u4E0A%u9650'', num (kf_concurrency_limit form)),
        (ulit ''%u6709%u6548%u671F'', num_str (kf_expires_in_days form))],
      ckv_expiries = [(0, ulit ''%u6C38%u4E0D%u8FC7%u671F''), (7, ulit ''7 %u5929''), (30, ulit ''30 %u5929''), (90, ulit ''90 %u5929''), (365, ulit ''1 %u5E74'')],
      ckv_count = ulit ''%u5DF2%u9009%u62E9 '' @ num_str (int (length (kf_allowed_models form))) @ lit '' / '' @ num_str (int (length (allKeyModels groups))),
      ckv_boxes = map (\<lambda>g. (kmg_label g, map (\<lambda>m. (m, permissionID (kmg_provider_id g) m \<in> set (kf_allowed_models form)))
        (kmg_models g))) groups,
      ckv_error = key_hook_error (kd_create s),
      ckv_submit = (if is_pending (kd_create s) then ulit ''%u6B63%u5728%u521B%u5EFA'' else ulit ''%u786E%u8BA4%u521B%u5EFA'', create_disabled (is_pending (kd_create s)) form)\<rparr>)
   (kd_form s)"

text \<open>The deletion dialog: its sentence, its error, its button and whether that is disabled.\<close>

definition delete_key_view :: "KeyDesk \<Rightarrow> (jstr \<times> jstr option \<times> jstr \<times> bool) option" where
  "delete_key_view s = map_option (\<lambda>k.
     (ak_name k @ ulit ''%uFF08'' @ ak_prefix k @ ulit '' %u2026%uFF09%u5C06%u7ACB%u5373%u5931%u6548%uFF0C%u5DF2%u4EA7%u751F%u7684%u4EFB%u52A1%u3001%u7528%u91CF%u548C%u5BA1%u8BA1%u8BB0%u5F55%u4F1A%u4FDD%u7559%u3002'', key_hook_error (kd_delete s),
      if is_pending (kd_delete s) then ulit ''%u6B63%u5728%u5220%u9664'' else ulit ''%u5220%u9664%u5BC6%u94A5'', is_pending (kd_delete s)))
   (kp_deleteTarget (kd_page s))"

section \<open>Properties\<close>

definition key_call_ok :: "key_call \<Rightarrow> bool" where
  "key_call_ok call \<longleftrightarrow> (case call of CreateKey form \<Rightarrow> trim (kf_name form) \<noteq> [] \<and> length (kf_name form) \<le> 80 \<and>
       length (kf_description form) \<le> 240 \<and> 1 \<le> kf_concurrency_limit form \<and> kf_concurrency_limit form \<le> 1000 \<and>
       kf_allowed_models form \<noteq> [] \<and> expiry_ok form
     | _ \<Rightarrow> True)"

definition toggles :: "(nat \<times> key_call) list \<Rightarrow> (nat \<times> key_call) list" where
  "toggles flight = filter (\<lambda>(n, call). case call of ToggleKey _ \<Rightarrow> True | _ \<Rightarrow> False) flight"

text \<open>The request of the hook that switches keys is the one toggle without an answer.\<close>

definition toggle_ok :: "KeyDesk \<Rightarrow> bool" where
  "toggle_ok s \<longleftrightarrow> toggles (kd_flight s) = (case mu_state (kd_toggle s) of MutationPending n call \<Rightarrow> [(n, call)] | _ \<Rightarrow> [])"

definition desk_ok :: "KeyDesk \<Rightarrow> bool" where
  "desk_ok s \<longleftrightarrow> (kp_showCreate (kd_page s) \<longleftrightarrow> kd_form s \<noteq> None) \<and> (\<forall>form \<in> set_option (kd_form s). expiry_ok form) \<and>
     (\<forall>(n, call) \<in> set (kd_flight s). key_call_ok call) \<and> toggle_ok s"

lemma expiry_step: "expiry_ok form \<Longrightarrow> expiry_ok (key_form_step groups form e)"
  by (rule key_form.ok_step) simp_all

lemma expiry_initial [simp]: "expiry_ok (initial_key_form groups)"
  by (simp add: expiry_ok_def initial_key_form_def)

lemma toggles_drop:
  assumes "i < length fl"
  shows "toggles fl = toggles (take i fl) @ toggles [fl ! i] @ toggles (drop (Suc i) fl)"
  using assms id_take_nth_drop [of i fl] by (metis append_Cons append_Nil filter_append toggles_def)

lemma answer_key_ok:
  assumes "desk_ok s"
  shows "desk_ok (answer_key i a s)"
proof (cases "i < length (kd_flight s)")
  case True
  obtain n call where c: "kd_flight s ! i = (n, call)" by force
  let ?rest = "take i (kd_flight s) @ drop (Suc i) (kd_flight s)"
  have rest: "set ?rest \<subseteq> set (kd_flight s)" by (auto dest: in_set_takeD in_set_dropD)
  have t: "toggles (kd_flight s) = toggles (take i (kd_flight s)) @ toggles [(n, call)] @ toggles (drop (Suc i) (kd_flight s))"
    using toggles_drop [OF True] c by simp
  show ?thesis
  proof (cases call)
    case (ToggleKey k)
    with t have "toggles ?rest = []" "mu_state (kd_toggle s) = MutationPending n call"
      using assms by (auto simp: desk_ok_def toggle_ok_def toggles_def append_eq_Cons_conv split: mutation_state.splits)
    with assms rest ToggleKey True c show ?thesis
      by (auto simp: answer_key_def Let_def desk_ok_def toggle_ok_def settle_mutation_def split: sum.split)
  next
    case (CreateKey f)
    with t have "toggles ?rest = toggles (kd_flight s)" by (simp add: toggles_def)
    with assms rest CreateKey True c show ?thesis
      by (auto simp: answer_key_def Let_def desk_ok_def toggle_ok_def split: sum.split)
  next
    case (DeleteKey j)
    with t have "toggles ?rest = toggles (kd_flight s)" by (simp add: toggles_def)
    with assms rest DeleteKey True c show ?thesis
      by (auto simp: answer_key_def Let_def desk_ok_def toggle_ok_def split: sum.split)
  qed
qed (simp add: answer_key_def assms)

lemma desk_ok_step: "desk_ok s \<Longrightarrow> desk_ok (desk_step groups old s e)"
proof (cases e)
  case SubmitKey
  assume ok: "desk_ok s"
  show ?thesis
  proof (cases "Option.bind (kd_form s) (submit_key (is_pending (kd_create s)))")
    case (Some form)
    then have "key_call_ok (CreateKey form)"
      using ok by (auto simp: key_call_ok_def desk_ok_def submit_key_def create_disabled_def key_inputs_valid_def
          bind_eq_Some_conv split: if_splits)
    with ok Some SubmitKey show ?thesis by (auto simp: desk_ok_def toggle_ok_def toggles_def)
  qed (use ok SubmitKey in simp)
next
  case (PressToggle k)
  assume "desk_ok s"
  with PressToggle show ?thesis
    by (auto simp: desk_ok_def toggle_ok_def toggles_def key_call_ok_def mutate_def is_pending_def split: mutation_state.splits)
next
  case PressDelete
  assume "desk_ok s"
  with PressDelete show ?thesis
    by (auto simp: desk_ok_def toggle_ok_def toggles_def key_call_ok_def split: option.split)
next
  case (KeyAnswered i a)
  assume "desk_ok s"
  with KeyAnswered show ?thesis by (simp add: answer_key_ok)
qed (auto simp: desk_ok_def toggle_ok_def expiry_step)

interpretation key_desk: guarded_machine "\<lambda>s (groups, old, e). desk_step groups old s e" desk_ok "\<lambda>_. True"
  by unfold_locales (auto intro: desk_ok_step)

lemma open_keys_ok: "desk_ok open_keys"
  by (simp add: desk_ok_def open_keys_def toggle_ok_def toggles_def new_mutation_def)


text \<open>A key is shown whenever its creation is answered, even if the dialog was closed meanwhile; but the answer also
  closes the dialog that is open then, with what was typed in it, and takes the place of a key that is still shown.\<close>

theorem late_key_closes_dialog:
  assumes "i < length (kd_flight s)" "kd_flight s ! i = (n, CreateKey form)"
    and "t = desk_step groups old s (KeyAnswered i (Inr key))"
  shows "kp_newKey (kd_page t) = key \<and> kd_form t = None \<and> create_key_view num groups t = None \<and>
    kp_page (kd_page t) = 1 \<and> kd_refreshes t = kd_refreshes s + 1"
  using assms by (simp add: answer_key_def Let_def create_key_view_def)

definition typed_key :: "desk_event list" where
  "typed_key = [OpenKeyDialog, KeyControl (TypeKeyName (lit ''k'')), SubmitKey]"

lemma typed_key_sent:
  "\<exists>form. kd_flight (foldl (desk_step sample_groups (\<lambda>_. False)) open_keys typed_key) = [(0, CreateKey form)]"
  unfolding typed_key_def
  by (simp add: open_keys_def initial_key_form_def sample_groups_def allKeyModels_def permissionID_def submit_key_def
      create_disabled_def key_inputs_valid_def trim_def lit_def is_space_def new_mutation_def reset_mutation_def is_pending_def)


theorem late_key_closes_dialog_witness:
  "kd_form (foldl (desk_step sample_groups (\<lambda>_. False)) open_keys (typed_key @
     [CloseKeyDialog, OpenKeyDialog, KeyControl (TypeKeyName (lit ''lost'')), KeyAnswered 0 (Inr (lit ''sk''))])) = None"
proof -
  let ?t = "foldl (desk_step sample_groups (\<lambda>_. False)) open_keys (typed_key @ [CloseKeyDialog, OpenKeyDialog, KeyControl (TypeKeyName (lit ''lost''))])"
  obtain form where "kd_flight ?t = [(0, CreateKey form)]" using typed_key_sent by auto
  then show ?thesis
    using late_key_closes_dialog [of 0 ?t 0 form _ sample_groups "\<lambda>_. False" "lit ''sk''", OF _ _ refl] by simp
qed

end
