(* ===== verification/PricingDesk.thy ===== *)
theory PricingDesk
  imports SalePricing Failures Mutation
begin

text \<open>
  The resale price page as it is used (pages/sale-pricing-page.tsx): the stored profiles and their request, the
  debounced quote, and the tables that show it. \<open>loc\<close> is \<open>toLocaleString\<close>, \<open>fixed k\<close> is \<open>toFixed(k)\<close>, \<open>num\<close> prints a
  number in a template literal; \<open>currencyText\<close> is \<open>Intl.NumberFormat\<close> with a currency and a maximum of digits,
  \<open>None\<close> where it throws for a code it does not know.
\<close>

section \<open>The quote of the gateway\<close>

record SaleEconomics =
  se_usable_credits :: rat
  se_loaded_account_cost :: rat
  se_cost_per_credit :: rat
  se_sell_per_credit :: rat
  se_projected_revenue :: rat
  se_projected_profit :: rat

record SalePricingQuoteResponse =
  sqr_economics :: SaleEconomics
  sqr_manual_quotes :: "SaleMonetaryQuote list"
  sqr_items :: "SalePricingItemQuote list"
  sqr_video_rates :: "SalePricingVideoRateQuote list"

definition money :: "(jstr \<Rightarrow> nat \<Rightarrow> rat \<Rightarrow> jstr option) \<Rightarrow> (nat \<Rightarrow> rat \<Rightarrow> jstr) \<Rightarrow> rat \<Rightarrow> jstr \<Rightarrow> nat \<Rightarrow> jstr" where
  "money currencyText fixed v currency maxDigits =
     (case currencyText (to_upper currency) maxDigits v of Some t \<Rightarrow> t
      | None \<Rightarrow> to_upper currency @ lit '' '' @ fixed 2 v)"

definition shown_currency :: "PricingForm \<Rightarrow> jstr" where
  "shown_currency form = or_str (to_upper (trim (pf_currency form))) (lit ''CNY'')"

definition modifier_text :: "jstr \<Rightarrow> jstr res" where
  "modifier_text modifier = bindr (obj_get pricingModifierLabels modifier) (\<lambda>label. Inr (or_str (opt_str label) modifier))"

text \<open>The five cells of a quote: cost, price, fee, profit and margin. Prices per call have two digits.\<close>

definition quote_cells ::
    "(jstr \<Rightarrow> nat \<Rightarrow> rat \<Rightarrow> jstr option) \<Rightarrow> (nat \<Rightarrow> rat \<Rightarrow> jstr) \<Rightarrow> jstr \<Rightarrow> nat \<Rightarrow> SaleMonetaryQuote option \<Rightarrow> jstr list" where
  "quote_cells currencyText fixed currency priceDigits q = (case q of
       None \<Rightarrow> replicate 5 (ulit ''%u2014'')
     | Some q \<Rightarrow> [money currencyText fixed (smq_cost q) currency 4, money currencyText fixed (smq_price q) currency priceDigits,
         money currencyText fixed (smq_payment_fee q) currency 4, money currencyText fixed (smq_profit q) currency 4,
         fixed 1 (smq_margin q * 100) @ ulit ''%u0025''])"

text \<open>The amount of credits: one number, or both where a modifier changes it; the reason where there is none.\<close>

definition credits_cell :: "(rat \<Rightarrow> jstr) \<Rightarrow> bool \<Rightarrow> jstr option \<Rightarrow> rat \<Rightarrow> rat \<Rightarrow> jstr" where
  "credits_cell show_credits available error base effective =
     (if available then (if base = effective then show_credits effective else show_credits base @ ulit '' %u2192 '' @ show_credits effective)
      else or_str (opt_str error) (ulit ''%u6838%u7B97%u4E2D''))"

record QuoteRow =
  qrow_model :: jstr
  qrow_kind :: jstr
  qrow_parameters :: "jstr list"
  qrow_credits :: jstr
  qrow_cells :: "jstr list"

definition rule_row ::
    "(jstr \<Rightarrow> nat \<Rightarrow> rat \<Rightarrow> jstr option) \<Rightarrow> (nat \<Rightarrow> rat \<Rightarrow> jstr) \<Rightarrow> (rat \<Rightarrow> jstr) \<Rightarrow> jstr \<Rightarrow> CostRule \<Rightarrow> SalePricingItemQuote option \<Rightarrow> QuoteRow res" where
  "rule_row currencyText fixed loc currency rule result =
     bindr (mapr modifier_text (case result of None \<Rightarrow> [] | Some r \<Rightarrow> spi_applied_modifiers r)) (\<lambda>modifiers.
     Inr \<lparr>qrow_model = cr_model rule, qrow_kind = kindLabel (cr_kind rule), qrow_parameters = ruleParameters rule # modifiers,
       qrow_credits = (case result of None \<Rightarrow> ulit ''%u6838%u7B97%u4E2D''
         | Some r \<Rightarrow> credits_cell loc (spi_available r) (spi_error r) (spi_base_credits r) (spi_effective_credits r)),
       qrow_cells = quote_cells currencyText fixed currency 2 (Option.bind result spi_quote)\<rparr>)"

definition video_row ::
    "(jstr \<Rightarrow> nat \<Rightarrow> rat \<Rightarrow> jstr option) \<Rightarrow> (nat \<Rightarrow> rat \<Rightarrow> jstr) \<Rightarrow> (rat \<Rightarrow> jstr) \<Rightarrow> jstr \<Rightarrow> VideoRateGroup \<Rightarrow>
     SalePricingVideoRateQuote option \<Rightarrow> QuoteRow res" where
  "video_row currencyText fixed loc currency rates result =
     bindr (mapr modifier_text (case result of None \<Rightarrow> [] | Some r \<Rightarrow> spv_applied_modifiers r)) (\<lambda>modifiers.
     Inr \<lparr>qrow_model = vg_model rates, qrow_kind = ulit ''%u89C6%u9891'',
       qrow_parameters = vg_resolution rates # durationRange (case result of None \<Rightarrow> vg_durations rates | Some r \<Rightarrow> spv_durations r) # modifiers,
       qrow_credits = (case result of None \<Rightarrow> ulit ''%u6838%u7B97%u4E2D''
         | Some r \<Rightarrow> credits_cell (creditsPerSecond loc) (spv_available r) (spv_error r) (spv_base_credits_per_second r)
             (spv_effective_credits_per_second r)),
       qrow_cells = quote_cells currencyText fixed currency 4 (Option.bind result spv_quote)\<rparr>)"

text \<open>The maps from the answer to the rows: of several results for one key the last one counts.\<close>

definition itemQuotes :: "SalePricingQuoteResponse option \<Rightarrow> (int, SalePricingItemQuote) jmap" where
  "itemQuotes answer = fold (\<lambda>item m. map_set (spi_rule_id item) item m) (case answer of None \<Rightarrow> [] | Some q \<Rightarrow> sqr_items q) []"

definition videoRateQuotes :: "SalePricingQuoteResponse option \<Rightarrow> (jstr, SalePricingVideoRateQuote) jmap" where
  "videoRateQuotes answer = fold (\<lambda>item m. map_set (videoRateKey (spv_model item) (spv_resolution item)) item m)
     (case answer of None \<Rightarrow> [] | Some q \<Rightarrow> sqr_video_rates q) []"

section \<open>The state\<close>

text \<open>
  Besides the page there are the stored profiles, the hook that saves them, the debounced payload, the payloads
  whose quote is being fetched, and for every payload the error of the last answer and the last quote.
\<close>

record PricingDesk =
  pd_page :: PricingPage
  pd_params :: params
  pd_settings :: "SalePricingProfile list option"
  pd_save :: "(SalePricingProfile list, SalePricingProfile list) mutation"
  pd_debounced :: "QuotePayload option"
  pd_asking :: "QuotePayload list"
  pd_answers :: "(QuotePayload \<times> jstr option \<times> SalePricingQuoteResponse option) list"

text \<open>What the page is given: the providers and the cost rules that are loaded.\<close>

type_synonym pricing_env = "Provider list \<times> CostRule list"

definition desk_provider :: "pricing_env \<Rightarrow> PricingDesk \<Rightarrow> jstr" where
  "desk_provider env s = pricing_provider (fst env) (pd_params s)"

definition desk_profiles :: "PricingDesk \<Rightarrow> SalePricingProfile list" where
  "desk_profiles s = nullish (pd_settings s) []"

definition desk_rules :: "pricing_env \<Rightarrow> PricingDesk \<Rightarrow> CostRule list" where
  "desk_rules env s = activeRules (desk_provider env s) (snd env)"

definition desk_payload :: "(jstr \<Rightarrow> jstr \<Rightarrow> int) \<Rightarrow> pricing_env \<Rightarrow> PricingDesk \<Rightarrow> QuotePayload option" where
  "desk_payload localeCompare env s = quotePayload localeCompare (pd_page s) (desk_rules env s)"

definition desk_dirty :: "pricing_env \<Rightarrow> PricingDesk \<Rightarrow> bool" where
  "desk_dirty env s = pricing_dirty (desk_provider env s) (desk_profiles s) (pp_form (pd_page s))"

definition open_pricing :: "params \<Rightarrow> PricingDesk" where
  "open_pricing ps = \<lparr>pd_page = initial_pricing_page, pd_params = ps, pd_settings = None, pd_save = new_mutation,
     pd_debounced = None, pd_asking = [], pd_answers = []\<rparr>"

datatype pricing_desk_event =
  PricingControl pricing_event
| SwitchPricing jstr bool
| SettingsLoaded "SalePricingProfile list"
| PressSaveProfile
| PressRemoveProfile bool
| ProfileAnswered nat "jstr + SalePricingProfile list"
| QuoteDue
| QuoteAnswered QuotePayload "jstr + SalePricingQuoteResponse"

text \<open>The controls of the page; the profile and the provider change by the other events.\<close>

definition pricing_control :: "pricing_event \<Rightarrow> bool" where
  "pricing_control e = (case e of ProviderChanged _ \<Rightarrow> False | ProfileLoaded _ \<Rightarrow> False | _ \<Rightarrow> True)"

definition control_pricing :: "pricing_env \<Rightarrow> pricing_event \<Rightarrow> PricingDesk \<Rightarrow> PricingDesk" where
  "control_pricing env e s = s\<lparr>pd_page := pricing_step (fst env) (desk_profiles s) (pd_page s) e\<rparr>"

text \<open>New settings: the form is loaded again where the stored profile of the provider has changed.\<close>

definition settings_arrive :: "pricing_env \<Rightarrow> SalePricingProfile list \<Rightarrow> PricingDesk \<Rightarrow> PricingDesk" where
  "settings_arrive env profiles s =
     (let t = s\<lparr>pd_settings := Some profiles\<rparr>; p = desk_provider env s in
      if p \<noteq> [] \<and> (pd_settings s = None \<or> persistedProfile p (desk_profiles s) \<noteq> persistedProfile p profiles)
      then control_pricing env (ProfileLoaded p) t else t)"

text \<open>Another provider in the address: after the effect that corrects it, the filters and the form follow.\<close>

definition go_to_provider :: "pricing_env \<Rightarrow> jstr \<Rightarrow> PricingDesk \<Rightarrow> PricingDesk" where
  "go_to_provider env next s =
     (let ps = param_set (lit ''provider'') next (pd_params s); p = pricing_provider (fst env) ps;
          t = s\<lparr>pd_params := (if p = [] then ps else param_set (lit ''provider'') p ps)\<rparr> in
      if p = desk_provider env s then t else control_pricing env (ProviderChanged p) t)"

fun pricing_desk_step :: "(jstr \<Rightarrow> jstr \<Rightarrow> int) \<Rightarrow> pricing_env \<Rightarrow> PricingDesk \<Rightarrow> pricing_desk_event \<Rightarrow> PricingDesk" where
  "pricing_desk_step localeCompare env s (PricingControl e) = (if pricing_control e then control_pricing env e s else s)"
| "pricing_desk_step localeCompare env s (SwitchPricing next confirmed) =
     (if desk_dirty env s \<and> \<not> confirmed then s else go_to_provider env next s)"
| "pricing_desk_step localeCompare env s (SettingsLoaded profiles) = settings_arrive env profiles s"
| "pricing_desk_step localeCompare env s PressSaveProfile =
     (if \<not> validForm (pp_form (pd_page s)) \<or> \<not> desk_dirty env s \<or> is_pending (pd_save s) then s
      else s\<lparr>pd_save := mutate (saved_profiles (desk_provider env s) (desk_profiles s)
        (Some (profileFromForm (pp_form (pd_page s))))) (pd_save s)\<rparr>)"
| "pricing_desk_step localeCompare env s (PressRemoveProfile confirmed) =
     (if persistedProfile (desk_provider env s) (desk_profiles s) = None \<or> is_pending (pd_save s) \<or> \<not> confirmed then s
      else s\<lparr>pd_save := mutate (saved_profiles (desk_provider env s) (desk_profiles s) None) (pd_save s)\<rparr>)"
| "pricing_desk_step localeCompare env s (ProfileAnswered n answer) =
     (case mu_state (pd_save s) of
        MutationPending k _ \<Rightarrow>
          if k \<noteq> n then s
          else (let t = s\<lparr>pd_save := settle_mutation n answer (pd_save s)\<rparr> in
            (case answer of Inl _ \<Rightarrow> t | Inr profiles \<Rightarrow> settings_arrive env profiles t))
      | _ \<Rightarrow> s)"
| "pricing_desk_step localeCompare env s QuoteDue =
     (let p = desk_payload localeCompare env s in
      s\<lparr>pd_debounced := p,
        pd_asking := (case p of Some q \<Rightarrow> if p \<noteq> pd_debounced s \<and> q \<notin> set (pd_asking s) then q # pd_asking s else pd_asking s
          | None \<Rightarrow> pd_asking s)\<rparr>)"
| "pricing_desk_step localeCompare env s (QuoteAnswered q answer) =
     (if q \<in> set (pd_asking s)
      then s\<lparr>pd_asking := filter (\<lambda>x. x \<noteq> q) (pd_asking s), pd_answers := map_set q
        (case answer of Inr r \<Rightarrow> (None, Some r) | Inl e \<Rightarrow> (Some e, Option.bind (map_of (pd_answers s) q) snd)) (pd_answers s)\<rparr>
      else s)"

section \<open>What is shown\<close>

definition quote_fetching :: "PricingDesk \<Rightarrow> bool" where
  "quote_fetching s \<longleftrightarrow> (case pd_debounced s of None \<Rightarrow> False | Some q \<Rightarrow> q \<in> set (pd_asking s))"

definition quote_answer :: "PricingDesk \<Rightarrow> jstr option \<times> SalePricingQuoteResponse option" where
  "quote_answer s = nullish (Option.bind (pd_debounced s) (map_of (pd_answers s))) (None, None)"

definition shown_quote :: "(jstr \<Rightarrow> jstr \<Rightarrow> int) \<Rightarrow> pricing_env \<Rightarrow> PricingDesk \<Rightarrow> SalePricingQuoteResponse option" where
  "shown_quote localeCompare env s = quoteData (desk_payload localeCompare env s) (pd_debounced s) (quote_fetching s) (snd (quote_answer s))"

definition paged_rules :: "(jstr \<Rightarrow> jstr \<Rightarrow> int) \<Rightarrow> pricing_env \<Rightarrow> PricingDesk \<Rightarrow> CostRule list" where
  "paged_rules localeCompare env s = (let page = pd_page s; rules = desk_rules env s in
     pageSlice (pricing_currentPage localeCompare page rules) (pp_pageSize page) (filteredRules localeCompare page rules))"

definition paged_groups :: "(jstr \<Rightarrow> jstr \<Rightarrow> int) \<Rightarrow> pricing_env \<Rightarrow> PricingDesk \<Rightarrow> VideoRateGroup list" where
  "paged_groups localeCompare env s = (let page = pd_page s; rules = desk_rules env s in
     pageSlice (pricing_currentPage localeCompare page rules) (pp_pageSize page) (filteredVideoGroups localeCompare page rules))"

text \<open>The rows with the results that belong to them.\<close>

definition quoted_rows :: "(jstr \<Rightarrow> jstr \<Rightarrow> int) \<Rightarrow> pricing_env \<Rightarrow> PricingDesk \<Rightarrow> (CostRule \<times> SalePricingItemQuote option) list" where
  "quoted_rows localeCompare env s = map (\<lambda>rule. (rule, map_of (itemQuotes (shown_quote localeCompare env s)) (cr_id rule)))
     (paged_rules localeCompare env s)"

definition quoted_videos ::
    "(jstr \<Rightarrow> jstr \<Rightarrow> int) \<Rightarrow> pricing_env \<Rightarrow> PricingDesk \<Rightarrow> (VideoRateGroup \<times> SalePricingVideoRateQuote option) list" where
  "quoted_videos localeCompare env s = map (\<lambda>rates. (rates, map_of (videoRateQuotes (shown_quote localeCompare env s))
       (videoRateKey (vg_model rates) (vg_resolution rates)))) (paged_groups localeCompare env s)"

definition pricing_metrics ::
    "(jstr \<Rightarrow> nat \<Rightarrow> rat \<Rightarrow> jstr option) \<Rightarrow> (nat \<Rightarrow> rat \<Rightarrow> jstr) \<Rightarrow> (rat \<Rightarrow> jstr) \<Rightarrow> (rat \<Rightarrow> jstr) \<Rightarrow>
     SalePricingQuoteResponse option \<Rightarrow> PricingForm \<Rightarrow> (jstr \<times> jstr \<times> jstr) list" where
  "pricing_metrics currencyText fixed loc num answer form =
     (let currency = shown_currency form; economics = map_option sqr_economics answer;
          shown = (\<lambda>f. case economics of None \<Rightarrow> ulit ''%u5F85%u914D%u7F6E'' | Some e \<Rightarrow> f e) in
      [(ulit ''%u53EF%u552E%u79EF%u5206'', shown (\<lambda>e. loc (of_int (math_round (se_usable_credits e)))), ulit ''%u540D%u4E49%u79EF%u5206 '' @ loc (pf_included_credits form)),
       (ulit ''%u6BCF%u5343%u79EF%u5206%u6210%u672C'', shown (\<lambda>e. money currencyText fixed (se_cost_per_credit e * 1000) currency 4), ulit ''%u542B%u8D26%u53F7%u635F%u8017%u4E0E%u8FD0%u8425%u6210%u672C''),
       (ulit ''%u6BCF%u5343%u79EF%u5206%u552E%u4EF7'', (case Option.bind answer (\<lambda>a. find (\<lambda>q. smq_credits q = 1000) (sqr_manual_quotes a)) of
           None \<Rightarrow> ulit ''%u5F85%u914D%u7F6E'' | Some q \<Rightarrow> money currencyText fixed (smq_price q) currency 2),
         ulit ''%u76EE%u6807%u6BDB%u5229 '' @ num (pf_target_margin_percent form) @ ulit ''%u0025''),
       (ulit ''%u5355%u8D26%u53F7%u9884%u8BA1%u5229%u6DA6'', shown (\<lambda>e. money currencyText fixed (se_projected_profit e) currency 4),
         case economics of None \<Rightarrow> ulit ''%u586B%u5199%u6709%u6548%u6210%u672C%u540E%u8BA1%u7B97''
         | Some e \<Rightarrow> ulit ''%u9884%u8BA1%u6536%u5165 '' @ money currencyText fixed (se_projected_revenue e) currency 4)])"

text \<open>The quick quote for the number of credits that is typed.\<close>

definition manual_cells ::
    "(jstr \<Rightarrow> nat \<Rightarrow> rat \<Rightarrow> jstr option) \<Rightarrow> (nat \<Rightarrow> rat \<Rightarrow> jstr) \<Rightarrow> SalePricingQuoteResponse option \<Rightarrow> PricingPage \<Rightarrow> jstr list" where
  "manual_cells currencyText fixed answer s =
     (case Option.bind answer (\<lambda>a. find (\<lambda>q. smq_credits q = of_int (pp_manualCredits s)) (sqr_manual_quotes a)) of
        None \<Rightarrow> replicate 4 (ulit ''%u2014'')
      | Some q \<Rightarrow> (let currency = shown_currency (pp_form s) in
          [money currencyText fixed (smq_cost q) currency 4, money currencyText fixed (smq_price q) currency 2,
           money currencyText fixed (smq_profit q) currency 4, fixed 1 (smq_margin q * 100) @ ulit ''%u0025'']))"

definition quote_notes :: "(jstr \<Rightarrow> jstr \<Rightarrow> int) \<Rightarrow> pricing_env \<Rightarrow> PricingDesk \<Rightarrow> jstr list" where
  "quote_notes localeCompare env s =
     (let p = desk_payload localeCompare env s in
      (if quote_fetching s \<or> (p \<noteq> None \<and> p \<noteq> pd_debounced s) then [ulit ''%u6B63%u5728%u6309%u6700%u65B0%u8F93%u5165%u91CD%u65B0%u6838%u7B97''] else []) @
      (case fst (quote_answer s) of Some e \<Rightarrow> [ulit ''%u62A5%u4EF7%u6838%u7B97%u5931%u8D25%uFF1A'' @ e] | None \<Rightarrow> []))"

text \<open>The state of the profile, and its two buttons: shown and disabled.\<close>

definition profile_note :: "pricing_env \<Rightarrow> PricingDesk \<Rightarrow> jstr" where
  "profile_note env s = (if persistedProfile (desk_provider env s) (desk_profiles s) = None then ulit ''%u5F53%u524D%u5E73%u53F0%u5C1A%u672A%u4FDD%u5B58%u6210%u672C%u753B%u50CF''
     else if desk_dirty env s then ulit ''%u6709%u672A%u4FDD%u5B58%u4FEE%u6539'' else ulit ''%u5F53%u524D%u753B%u50CF%u5DF2%u4FDD%u5B58'')"

definition profile_buttons :: "pricing_env \<Rightarrow> PricingDesk \<Rightarrow> (jstr \<times> bool) list" where
  "profile_buttons env s =
     (if persistedProfile (desk_provider env s) (desk_profiles s) = None then [] else [(ulit ''%u5220%u9664%u753B%u50CF'', is_pending (pd_save s))]) @
     [(if is_pending (pd_save s) then ulit ''%u4FDD%u5B58%u4E2D'' else ulit ''%u4FDD%u5B58%u6210%u672C%u753B%u50CF'',
       \<not> validForm (pp_form (pd_page s)) \<or> \<not> desk_dirty env s \<or> is_pending (pd_save s))]"

definition profile_problems :: "PricingDesk \<Rightarrow> jstr list" where
  "profile_problems s =
     (if validForm (pp_form (pd_page s)) then []
      else [ulit ''%u8BF7%u586B%u5199%u8D26%u53F7%u91C7%u8D2D%u4EF7%u3001%u79EF%u5206%u548C%u6709%u6548%u8D39%u7387%uFF1B%u652F%u4ED8%u8D39%u7387%u4E0E%u76EE%u6807%u6BDB%u5229%u7387%u4E4B%u548C%u5FC5%u987B%u4F4E%u4E8E 99%u0025%u3002'']) @
     (case mu_state (pd_save s) of MutationError e \<Rightarrow> [ulit ''%u4FDD%u5B58%u5931%u8D25%uFF1A'' @ e] | _ \<Rightarrow> [])"

record PricingView =
  prv_description :: jstr
  prv_switcher :: "SwitcherButton list"
  prv_metrics :: "(jstr \<times> jstr \<times> jstr) list"
  prv_badge :: "jstr \<times> jstr"
  prv_manual :: "jstr list"
  prv_rows :: "QuoteRow list"

datatype pricing_screen = PricingLoading | PricingFailed | NoProviders | PricingShown PricingView

definition pricing_view ::
    "(jstr \<Rightarrow> nat \<Rightarrow> rat \<Rightarrow> jstr option) \<Rightarrow> (nat \<Rightarrow> rat \<Rightarrow> jstr) \<Rightarrow> (rat \<Rightarrow> jstr) \<Rightarrow> (rat \<Rightarrow> jstr) \<Rightarrow> (jstr \<Rightarrow> jstr \<Rightarrow> int) \<Rightarrow> pricing_env \<Rightarrow>
     PricingDesk \<Rightarrow> PricingView res" where
  "pricing_view currencyText fixed loc num localeCompare env s =
     (let providers = fst env; p = desk_provider env s; form = pp_form (pd_page s); currency = shown_currency form;
          answer = shown_quote localeCompare env s in
      bindr (providerDefinition p (find (\<lambda>q. prov_id q = p) providers)) (\<lambda>presentation.
      bindr (ProviderSwitcher providers p None False False False) (\<lambda>buttons.
      bindr (ProviderBadge p providers) (\<lambda>badge.
      bindr (if pp_kind (pd_page s) = Video
         then mapr (\<lambda>(rates, result). video_row currencyText fixed loc currency rates result) (quoted_videos localeCompare env s)
         else mapr (\<lambda>(rule, result). rule_row currencyText fixed loc currency rule result) (quoted_rows localeCompare env s)) (\<lambda>rows.
      Inr \<lparr>prv_description = pp_description presentation, prv_switcher = buttons,
        prv_metrics = pricing_metrics currencyText fixed loc num answer form, prv_badge = badge,
        prv_manual = manual_cells currencyText fixed answer (pd_page s), prv_rows = rows\<rparr>)))))"

text \<open>
  The three queries of the page. That for the rules is only made for a provider; until then it counts as pending.
\<close>

datatype 'a query = QueryPending | QueryFailed | QueryData 'a

definition query_data :: "'a query \<Rightarrow> 'a option" where
  "query_data q = (case q of QueryData a \<Rightarrow> Some a | _ \<Rightarrow> None)"

definition rules_query :: "Provider list query \<Rightarrow> params \<Rightarrow> CostRule list query \<Rightarrow> CostRule list query" where
  "rules_query providers ps answer =
     (if pricing_provider (nullish (query_data providers) []) ps = [] then QueryPending else answer)"

definition pricing_body ::
    "Provider list query \<Rightarrow> CostRule list query \<Rightarrow> SalePricingProfile list query \<Rightarrow> PricingDesk \<Rightarrow>
     (pricing_env \<Rightarrow> PricingDesk \<Rightarrow> PricingView res) \<Rightarrow> pricing_screen res" where
  "pricing_body providers answer settings s view =
     (let rules = rules_query providers (pd_params s) answer in
      if providers = QueryPending \<or> rules = QueryPending \<or> settings = QueryPending then Inr PricingLoading
      else if providers = QueryFailed \<or> rules = QueryFailed \<or> settings = QueryFailed then Inr PricingFailed
      else if nullish (query_data providers) [] = [] then Inr NoProviders
      else bindr (view (nullish (query_data providers) [], nullish (query_data rules) []) s) (\<lambda>v. Inr (PricingShown v)))"

section \<open>Properties\<close>

text \<open>Every quote that is known was answered to its payload.\<close>

definition answers_asked :: "pricing_desk_event list \<Rightarrow> PricingDesk \<Rightarrow> bool" where
  "answers_asked es s \<longleftrightarrow> (\<forall>q e r. map_of (pd_answers s) q = Some (e, Some r) \<longrightarrow> QuoteAnswered q (Inr r) \<in> set es)"

lemma control_pricing_answers [simp]: "pd_answers (control_pricing env e s) = pd_answers s" "pd_save (control_pricing env e s) = pd_save s"
  "pd_settings (control_pricing env e s) = pd_settings s" "pd_params (control_pricing env e s) = pd_params s"
  by (simp_all add: control_pricing_def)

lemma go_answers [simp]: "pd_answers (go_to_provider env next s) = pd_answers s"
  by (simp add: go_to_provider_def Let_def)

lemma arrive_answers [simp]: "pd_answers (settings_arrive env profiles s) = pd_answers s" "pd_save (settings_arrive env profiles s) = pd_save s"
  by (simp_all add: settings_arrive_def Let_def)

lemma answers_step: "answers_asked es s \<Longrightarrow> answers_asked (es @ [e]) (pricing_desk_step lc env s e)"
  by (cases e) (auto simp: answers_asked_def map_of_map_set Let_def bind_eq_Some_conv split: mutation_state.split sum.splits if_splits)

lemma itemQuotes_key:
  "map_of (fold (\<lambda>item m. map_set (spi_rule_id item) item m) items m) k = Some q \<Longrightarrow>
     q \<in> set items \<and> spi_rule_id q = k \<or> map_of m k = Some q"
  by (induction items arbitrary: m) (fastforce simp: map_of_map_set split: if_splits)+

lemma videoQuotes_key:
  "map_of (fold (\<lambda>item m. map_set (videoRateKey (spv_model item) (spv_resolution item)) item m) items m) k = Some q \<Longrightarrow>
     q \<in> set items \<and> videoRateKey (spv_model q) (spv_resolution q) = k \<or> map_of m k = Some q"
  by (induction items arbitrary: m) (fastforce simp: map_of_map_set split: if_splits)+

text \<open>C17: Whatever is done on the page and in whatever order the quotes arrive, a quote that is shown is the gateway's answer
  to what the page says now: profile, credits, rules and scenario. Every row that has a result has that of its own
  rule, or of its own model and resolution.\<close>

theorem shown_quote_is_current:
  assumes "s = foldl (\<lambda>s (env, e). pricing_desk_step localeCompare env s e) (open_pricing ps) es"
    and "shown_quote localeCompare env s = Some r"
  shows "\<exists>q. desk_payload localeCompare env s = Some q \<and> QuoteAnswered q (Inr r) \<in> snd ` set es \<and>
    (\<forall>(rule, result) \<in> set (quoted_rows localeCompare env s). \<forall>i. result = Some i \<longrightarrow> i \<in> set (sqr_items r) \<and> spi_rule_id i = cr_id rule) \<and>
    (\<forall>(rates, result) \<in> set (quoted_videos localeCompare env s). \<forall>i. result = Some i \<longrightarrow> i \<in> set (sqr_video_rates r) \<and>
       videoRateKey (spv_model i) (spv_resolution i) = videoRateKey (vg_model rates) (vg_resolution rates))"
proof -
  have "answers_asked (map snd es) s"
    unfolding assms(1)
  proof (induction es rule: rev_induct)
    case (snoc e es)
    then show ?case using answers_step by (cases e) auto
  qed (simp add: answers_asked_def open_pricing_def)
  moreover obtain q where "desk_payload localeCompare env s = Some q" "\<exists>e. map_of (pd_answers s) q = Some (e, Some r)"
    using assms(2) by (auto simp: shown_quote_def quoteData_def quote_answer_def nullish_def bind_eq_Some_conv split: if_splits option.splits)
  ultimately show ?thesis
    using assms(2) by (auto simp: answers_asked_def quoted_rows_def quoted_videos_def itemQuotes_def videoRateQuotes_def
        dest!: itemQuotes_key videoQuotes_key)
qed

text \<open>Saving sends the profiles of all providers with that of the one shown replaced by the form, once, and only where the
  form is valid and differs; a failure keeps the form and says why. A success loads the form again from the answer
  where the stored profile changes, so that what was typed since the button was pressed is lost.\<close>

theorem saved_profile_discards_edits:
  assumes "validForm (pp_form (pd_page s))" "desk_dirty env s" "\<not> is_pending (pd_save s)" "desk_provider env s \<noteq> []"
    and "\<forall>e \<in> set es. pricing_control e"
    and "t = foldl (pricing_desk_step localeCompare env) (pricing_desk_step localeCompare env s PressSaveProfile) (map PricingControl es)"
    and "persistedProfile (desk_provider env s) profiles \<noteq> persistedProfile (desk_provider env s) (desk_profiles s)"
  shows "mu_state (pd_save t) = MutationPending (mu_count (pd_save s)) (saved_profiles (desk_provider env s) (desk_profiles s)
      (Some (profileFromForm (pp_form (pd_page s))))) \<and>
    pd_page (pricing_desk_step localeCompare env t (ProfileAnswered (mu_count (pd_save s)) (Inl m))) = pd_page t \<and>
    profile_problems (pricing_desk_step localeCompare env t (ProfileAnswered (mu_count (pd_save s)) (Inl m))) =
      (if validForm (pp_form (pd_page t)) then [] else take 1 (profile_problems t)) @ [ulit ''%u4FDD%u5B58%u5931%u8D25%uFF1A'' @ m] \<and>
    pp_form (pd_page (pricing_desk_step localeCompare env t (ProfileAnswered (mu_count (pd_save s)) (Inr profiles)))) =
      formForProvider (desk_provider env s) (persistedProfile (desk_provider env s) profiles)"
proof -
  let ?started = "pricing_desk_step localeCompare env s PressSaveProfile"
  have started: "?started = s\<lparr>pd_save := mutate (saved_profiles (desk_provider env s) (desk_profiles s)
      (Some (profileFromForm (pp_form (pd_page s))))) (pd_save s)\<rparr>"
    using assms(1-3) by simp
  have kept: "pd_save (foldl (pricing_desk_step localeCompare env) x (map PricingControl es)) = pd_save x \<and>
      pd_settings (foldl (pricing_desk_step localeCompare env) x (map PricingControl es)) = pd_settings x \<and>
      pd_params (foldl (pricing_desk_step localeCompare env) x (map PricingControl es)) = pd_params x" for x
    by (induction es arbitrary: x) simp_all
  from kept [of ?started] started assms(6) have t: "pd_save t = mutate (saved_profiles (desk_provider env s) (desk_profiles s)
      (Some (profileFromForm (pp_form (pd_page s))))) (pd_save s)" "pd_settings t = pd_settings s" "pd_params t = pd_params s"
    by simp_all
  then have "desk_provider env t = desk_provider env s" "desk_profiles t = desk_profiles s"
    by (simp_all add: desk_provider_def desk_profiles_def)
  with t assms(4,7) show ?thesis
    by (simp add: mutate_def settle_mutation_def profile_problems_def settings_arrive_def Let_def control_pricing_def
        desk_provider_def desk_profiles_def)
qed

text \<open>Without a provider in the address, a gateway that has none leaves the page loading for ever: the message for that case
  needs the rules, which are not asked for.\<close>

theorem no_providers_loads_forever:
  assumes "trim (opt_str (param_get (pd_params s) (lit ''provider''))) = []"
  shows "pricing_body (QueryData []) answer settings s view = Inr PricingLoading"
proof -
  have "pricing_provider [] (pd_params s) = []"
    using assms by (simp add: pricing_provider_def or_str_def Let_def to_lower_def)
  then show ?thesis by (simp add: pricing_body_def rules_query_def query_data_def Let_def)
qed

theorem no_providers_loads_forever_witness:
  "pricing_body (QueryData []) (QueryData []) (QueryData []) (open_pricing []) view = Inr PricingLoading"
  using no_providers_loads_forever [of "open_pricing []"] by (simp add: open_pricing_def param_get_def trim_def)

definition sample_quote :: SalePricingQuoteResponse where
  "sample_quote = \<lparr>sqr_economics = \<lparr>se_usable_credits = 900, se_loaded_account_cost = 21, se_cost_per_credit = 1 / 40,
     se_sell_per_credit = 1 / 20, se_projected_revenue = 45, se_projected_profit = 20\<rparr>, sqr_manual_quotes = [], sqr_items = [],
     sqr_video_rates = []\<rparr>"

definition typed_pricing :: "pricing_desk_event list" where
  "typed_pricing = [PricingControl (TypeNumber AccountCost 20), PricingControl (TypeNumber IncludedCredits 1000)]"

theorem shown_quote_is_current_witness:
  "\<exists>q. shown_quote (\<lambda>_ _. 0) ([], []) (foldl (\<lambda>s (env, e). pricing_desk_step (\<lambda>_ _. 0) env s e) (open_pricing [])
      (map (Pair ([], [])) (typed_pricing @ [QuoteDue, QuoteAnswered q (Inr sample_quote)]))) = Some sample_quote \<and>
    qp_manual_credits q = [1000]"
proof -
  let ?lc = "\<lambda>_ _. 0 :: int" and ?env = "([], []) :: pricing_env"
  define run where "run = foldl (\<lambda>s (env, e). pricing_desk_step ?lc env s e) (open_pricing [])"
  define s where "s = run (map (Pair ?env) typed_pricing)"
  have page: "pp_form (pd_page s) = (formForProvider [] None)\<lparr>pf_account_cost := 20, pf_included_credits := 1000\<rparr>"
    "pp_manualCredits (pd_page s) = 1000" "pd_debounced s = None" "pd_asking s = []"
    by (simp_all add: s_def run_def typed_pricing_def pricing_control_def control_pricing_def open_pricing_def initial_pricing_page_def)
  then have "validForm (pp_form (pd_page s))"
    by (simp add: validForm_def formForProvider_def trim_def lit_def is_space_def ascii_letter_def)
  then obtain q where q: "desk_payload ?lc ?env s = Some q" "qp_manual_credits q = [1000]"
    using page by (simp add: desk_payload_def quotePayload_def Let_def dedup.simps)
  define t where "t = run (map (Pair ?env) (typed_pricing @ [QuoteDue, QuoteAnswered q (Inr sample_quote)]))"
  have t: "t = pricing_desk_step ?lc ?env (pricing_desk_step ?lc ?env s QuoteDue) (QuoteAnswered q (Inr sample_quote))"
    by (simp add: t_def s_def run_def)
  have "desk_payload ?lc ?env t = Some q"
    using q(1) page unfolding t by (simp add: desk_payload_def desk_rules_def desk_provider_def)
  then have shown: "shown_quote ?lc ?env t = Some sample_quote"
    using q(1) page unfolding t by (simp add: shown_quote_def quoteData_def quote_fetching_def quote_answer_def map_of_map_set)
  obtain asked where "desk_payload ?lc ?env t = Some asked" "QuoteAnswered asked (Inr sample_quote) \<in> snd ` set (map (Pair ?env)
      (typed_pricing @ [QuoteDue, QuoteAnswered q (Inr sample_quote)]))"
    using shown_quote_is_current [OF t_def [unfolded run_def] shown] by blast
  then have "asked = q" by (auto simp: typed_pricing_def)
  with shown q(2) have "shown_quote ?lc ?env t = Some sample_quote \<and> qp_manual_credits asked = [1000]" by simp
  with \<open>asked = q\<close> show ?thesis unfolding t_def run_def by blast
qed

theorem saved_profile_discards_edits_witness:
  "pf_account_cost (pp_form (pd_page (foldl (pricing_desk_step (\<lambda>_ _. 0) ([], []))
     ((open_pricing [(lit ''provider'', lit ''adobe'')])\<lparr>pd_page := initial_pricing_page\<lparr>pp_form := sample_form\<rparr>, pd_settings := Some []\<rparr>)
     [PressSaveProfile, PricingControl (TypeNumber AccountCost 30), ProfileAnswered 0 (Inr [profileFromForm sample_form])]))) = 20"
proof -
  let ?s = "(open_pricing [(lit ''provider'', lit ''adobe'')])\<lparr>pd_page := initial_pricing_page\<lparr>pp_form := sample_form\<rparr>, pd_settings := Some []\<rparr>"
  let ?env = "([], []) :: pricing_env" and ?step = "pricing_desk_step (\<lambda>_ _. 0)"
  have p: "desk_provider ?env ?s = lit ''adobe''"
    by (simp add: desk_provider_def pricing_provider_def open_pricing_def param_get_def or_str_def Let_def trim_def to_lower_def
        lit_def is_space_def lower_char_def)
  have form: "validForm sample_form" "pp_form (pd_page ?s) = sample_form" "\<not> is_pending (pd_save ?s)" "mu_count (pd_save ?s) = 0"
    "desk_profiles ?s = []"
    by (simp_all add: sample_form_def validForm_def formForProvider_def trim_def lit_def is_space_def ascii_letter_def
        open_pricing_def desk_profiles_def new_mutation_def is_pending_def)
  have stored: "persistedProfile (lit ''adobe'') [profileFromForm sample_form] = Some (profileFromForm sample_form)"
    by (simp add: persistedProfile_def profileFromForm_def sample_form_def formForProvider_def)
  have "desk_dirty ?env ?s"
    using p form by (simp add: desk_dirty_def pricing_dirty_def persistedProfile_def sample_form_def formForProvider_def)
  from saved_profile_discards_edits [of ?s ?env "[TypeNumber AccountCost 30]" _ "\<lambda>_ _. 0" "[profileFromForm sample_form]", OF _ this _ _ _ refl,
      THEN conjunct2, THEN conjunct2, THEN conjunct2] p form stored
  have "pp_form (pd_page (?step ?env (foldl (?step ?env) (?step ?env ?s PressSaveProfile) (map PricingControl [TypeNumber AccountCost 30]))
      (ProfileAnswered 0 (Inr [profileFromForm sample_form])))) = formForProvider (lit ''adobe'') (Some (profileFromForm sample_form))"
    by (simp only: p form stored pricing_control_def) (simp add: persistedProfile_def pricing_control_def)
  then have "pf_account_cost (pp_form (pd_page (?step ?env (foldl (?step ?env) (?step ?env ?s PressSaveProfile)
      (map PricingControl [TypeNumber AccountCost 30])) (ProfileAnswered 0 (Inr [profileFromForm sample_form]))))) = 20"
    by (simp only:) (simp add: formForProvider_def profileFromForm_def sample_form_def)
  then show ?thesis by (simp only: foldl.simps list.map)
qed

end
