(* ===== verification/PlaygroundViews.thy ===== *)
theory PlaygroundViews
  imports VideoForm ImageForm AudioForm ResultView Switcher
begin

text \<open>
  What the forms of the playground show (pages/playground-page.tsx): every select with its options, every
  field, the file inputs, the notes and the button. \<open>num\<close> prints a number in a template literal. The
  texts are those of the page; a form whose render fails is an error.
\<close>

section \<open>The parts of a form\<close>

text \<open>
  A file input: the two texts it shows, the types it accepts, how many files it keeps, whether several can
  be chosen at once, and the files it holds. \<open>mi_name\<close> is the text it shows without files.
\<close>

record MediaInput =
  mi_name :: jstr
  mi_title :: jstr
  mi_note :: jstr
  mi_accept :: jstr
  mi_max :: nat
  mi_multiple :: bool
  mi_files :: "jstr list"

definition FileInput :: "jstr list \<Rightarrow> MediaInput" where
  "FileInput files =
     \<lparr>mi_name = ulit ''%u9009%u62E9%u53C2%u8003%u56FE'',
      mi_title = (if files \<noteq> [] then ulit ''%u5DF2%u9009%u62E9 '' @ num_str (int (length files)) @ ulit '' %u5F20%u53C2%u8003%u56FE'' else ulit ''%u9009%u62E9%u53C2%u8003%u56FE''),
      mi_note = (if files \<noteq> [] then js_join (ulit ''%u3001'') files else ulit ''PNG%u3001JPEG %u6216 WebP%uFF0C%u6700%u591A 6 %u5F20''),
      mi_accept = lit ''image/png,image/jpeg,image/webp'', mi_max = 6, mi_multiple = True, mi_files = files\<rparr>"

definition VideoMediaInput :: "jstr \<Rightarrow> jstr \<Rightarrow> jstr \<Rightarrow> jstr list \<Rightarrow> nat \<Rightarrow> bool \<Rightarrow> MediaInput" where
  "VideoMediaInput label hint accept files most multiple =
     \<lparr>mi_name = label, mi_title = (if files \<noteq> [] then js_join (ulit ''%u3001'') files else label),
      mi_note = (if files \<noteq> [] then num_str (int (length files)) @ ulit '' %u4E2A%u6587%u4EF6%u5DF2%u9009%u62E9'' else hint),
      mi_accept = accept, mi_max = most, mi_multiple = multiple, mi_files = files\<rparr>"

text \<open>A select: its label, its value, and its options with their texts.\<close>

record FormSelect =
  fs_label :: jstr
  fs_value :: "jstr option"
  fs_options :: "(jstr \<times> jstr) list"

text \<open>
  The other parts. A mode button has a text, is active or not, and disabled or not; a number field has its
  range, its step and its value, and may be disabled.
\<close>

datatype form_part =
  HeadingPart jstr jstr
| ModePart "(jstr \<times> bool \<times> bool) list"
| LabelPart jstr jstr
| SelectPart FormSelect
| TextPart jstr jstr jstr
| NumberPart jstr rat rat rat rat bool
| FilePart MediaInput
| CheckPart jstr jstr bool
| NotePart jstr jstr
| ContractPart "(jstr \<times> jstr) list"
| ErrorPart jstr
| SubmitPart jstr bool

definition same_texts :: "jstr list \<Rightarrow> (jstr \<times> jstr) list" where
  "same_texts values = map (\<lambda>v. (v, v)) values"

definition model_options :: "jstr list \<Rightarrow> (jstr \<times> jstr) list res" where
  "model_options models = mapr (\<lambda>v. bindr (modelDisplayID v) (\<lambda>text. Inr (v, text))) models"

definition strength_options :: "(jstr \<times> jstr) list" where
  "strength_options = [(lit ''LOW'', ulit ''LOW %u00B7 %u5F31%u53C2%u8003''), (lit ''MID'', ulit ''MID %u00B7 %u5E73%u8861''), (lit ''HIGH'', ulit ''HIGH %u00B7 %u5F3A%u53C2%u8003'')]"

definition error_part :: "jstr option \<Rightarrow> form_part list" where
  "error_part error = (case error of Some message \<Rightarrow> [ErrorPart message] | None \<Rightarrow> [])"

definition async_contract :: form_part where
  "async_contract = ContractPart [(ulit ''%u8FD4%u56DE%u65B9%u5F0F'', ulit ''%u5F02%u6B65 Task''), (ulit ''%u8F6E%u8BE2%u95F4%u9694'', ulit ''3 %u79D2''), (lit ''public'', lit ''false''),
     (lit ''Idempotency-Key'', ulit ''%u81EA%u52A8%u751F%u6210'')]"

text \<open>The row of providers above a form.\<close>

definition GenerationProviderSelector :: "Provider list \<Rightarrow> jstr \<Rightarrow> MediaKind \<Rightarrow> SwitcherButton list res" where
  "GenerationProviderSelector providers v capability =
     ProviderSwitcher (providerOptions providers) v (Some capability) False False True"

section \<open>The video form\<close>

definition image_types :: jstr where
  "image_types = lit ''image/png,image/jpeg,image/webp''"

definition seconds_limit :: "rat option \<Rightarrow> rat" where
  "seconds_limit n = nullish n 15"

definition video_inputs :: "(rat \<Rightarrow> jstr) \<Rightarrow> VideoModelDoc \<Rightarrow> VideoForm \<Rightarrow> MediaInput list" where
  "video_inputs num spec v =
     (let images = maxImageReferences spec (vf_referenceVideos v \<noteq> []);
          videos = maxVideoReferences spec; audios = maxAudioReferences spec in
      (if 0 < vd_maxReferenceImages spec
       then [VideoMediaInput (ulit ''%u666E%u901A%u53C2%u8003%u56FE'') (ulit ''%u6700%u591A '' @ num_str (int images) @ ulit '' %u5F20 PNG%u3001JPEG %u6216 WebP'') image_types
              (vf_referenceImages v) images True] else []) @
      (if vd_supportsStartEnd spec
       then [VideoMediaInput (ulit ''%u9996%u5E27'') (ulit ''%u9501%u5B9A%u5F00%u573A%u753B%u9762%uFF0C%u6700%u591A 1 %u5F20'') image_types (vf_startFrame v) 1 False] @
         (if supportsVideoEndFrame spec
          then [VideoMediaInput (ulit ''%u5C3E%u5E27'') (ulit ''%u9501%u5B9A%u7ED3%u675F%u753B%u9762%uFF0C%u6700%u591A 1 %u5F20'') image_types (vf_endFrame v) 1 False] else [])
       else []) @
      (if 0 < videos
       then [VideoMediaInput (ulit ''%u53C2%u8003%u89C6%u9891'')
              (ulit ''%u6700%u591A '' @ num_str (int videos) @ ulit '' %u4E2A%uFF0C%u5408%u8BA1%u4E0D%u8D85%u8FC7 '' @ num (seconds_limit (vd_maxReferenceVideoDuration spec)) @ ulit '' %u79D2'')
              (lit ''video/mp4,video/quicktime,video/webm,.mp4,.mov,.webm'') (vf_referenceVideos v) videos True] else []) @
      (if 0 < audios
       then [VideoMediaInput (ulit ''%u53C2%u8003%u97F3%u9891'')
              (ulit ''%u9700%u540C%u65F6%u63D0%u4F9B%u53C2%u8003%u56FE%u6216%u89C6%u9891%uFF0C%u6700%u591A '' @ num_str (int audios) @ ulit '' %u4E2A%uFF0C%u5408%u8BA1%u4E0D%u8D85%u8FC7 '' @
               num (seconds_limit (vd_maxReferenceAudioDuration spec)) @ ulit '' %u79D2'')
              (lit ''audio/mpeg,audio/wav,audio/mp4,audio/aac,audio/ogg,.mp3,.wav,.m4a,.aac,.ogg'')
              (vf_referenceAudio v) audios (1 < audios)] else []))"

definition video_references :: "(rat \<Rightarrow> jstr) \<Rightarrow> VideoModelDoc \<Rightarrow> VideoForm \<Rightarrow> form_part list" where
  "video_references num spec v =
     (if \<not> referenceMode spec v then []
      else map FilePart (video_inputs num spec v) @
        (if vf_referenceImages v \<noteq> []
         then [SelectPart \<lparr>fs_label = ulit ''%u666E%u901A%u53C2%u8003%u56FE%u5F3A%u5EA6'', fs_value = Some (vf_strength v), fs_options = strength_options\<rparr>]
         else []))"

definition video_sound :: "VideoModelDoc \<Rightarrow> VideoForm \<Rightarrow> form_part list" where
  "video_sound spec v =
     (if vd_supportsGenerateAudio spec \<and> \<not> always_audio spec
      then [CheckPart (ulit ''%u751F%u6210%u539F%u751F%u97F3%u9891'') (ulit ''%u5BF9%u767D%u3001%u65C1%u767D%u3001%u97F3%u6548%u4E0E%u73AF%u5883%u58F0%uFF1B%u9ED8%u8BA4%u5F00%u542F%u5E76%u8BA1%u5165%u9884%u7559%u79EF%u5206'') (vf_generateAudio v)] else []) @
     (if always_audio spec
      then [NotePart (ulit ''%u539F%u751F%u97F3%u9891%u56FA%u5B9A%u5F00%u542F'') (ulit ''MiniMax H3 %u4E0A%u6E38%u5951%u7EA6%u4E0D%u652F%u6301%u5173%u95ED%u539F%u751F%u97F3%u9891'')] else [])"

definition video_heading :: "VideoModelDoc \<Rightarrow> VideoForm \<Rightarrow> form_part list" where
  "video_heading spec v =
     [HeadingPart (lit ''Video API'') (if requires_frame spec then ulit ''%u9996%u5E27%u751F%u89C6%u9891''
        else if \<not> referenceMode spec v then ulit ''%u6587%u751F%u89C6%u9891'' else ulit ''%u591A%u6A21%u6001%u53C2%u8003''),
      ModePart [(ulit ''%u6587%u751F%u89C6%u9891'', \<not> referenceMode spec v, requires_frame spec),
        (ulit ''%u591A%u6A21%u6001%u53C2%u8003'', referenceMode spec v, False)],
      LabelPart (ulit ''%u751F%u6210%u914D%u7F6E'') (ulit ''%u89C6%u9891%u4EFB%u52A1%u4E3A%u5F02%u6B65%u6267%u884C'')]"

definition video_selects :: "VideoForm \<Rightarrow> (FormSelect \<times> FormSelect list) res" where
  "video_selects v =
     bindr (video_effective v) (\<lambda>effectiveModel.
     bindr (video_doc effectiveModel) (\<lambda>spec.
     bindr (models_of videoModelsByProvider (vf_provider v)) (\<lambda>models.
     bindr (model_options models) (\<lambda>named.
     bindr (modelVideoSizes effectiveModel) (\<lambda>sizes.
     bindr (videoResolutionsForSize effectiveModel (vf_size v)) (\<lambda>resolutions.
     Inr (\<lparr>fs_label = ulit ''%u6A21%u578B'', fs_value = Some (vf_model v), fs_options = named\<rparr>,
       [\<lparr>fs_label = ulit ''%u753B%u5E45'', fs_value = Some (vf_size v), fs_options = map (\<lambda>s. (vs_value s, vs_label s)) sizes\<rparr>,
        \<lparr>fs_label = ulit ''%u5206%u8FA8%u7387'', fs_value = vf_resolution v, fs_options = same_texts resolutions\<rparr>,
        \<lparr>fs_label = ulit ''%u65F6%u957F'', fs_value = Some (num_str (vf_duration v)),
         fs_options = map (\<lambda>n. (num_str n, num_str n @ ulit '' %u79D2'')) (vd_durationValues spec)\<rparr>])))))))"

definition video_parts ::
    "(rat \<Rightarrow> jstr) \<Rightarrow> query_hook \<Rightarrow> VideoModelDoc \<Rightarrow> FormSelect \<Rightarrow> FormSelect list \<Rightarrow> VideoForm \<Rightarrow> PlaygroundRun \<Rightarrow>
     form_part list" where
  "video_parts num useQuery spec model options v r =
     video_heading spec v @
     [SelectPart model, TextPart (ulit ''%u63D0%u793A%u8BCD'') (vf_prompt v) (ulit ''%u63CF%u8FF0%u753B%u9762%u3001%u52A8%u4F5C%u3001%u8FD0%u955C%u3001%u8282%u594F%u548C%u6C1B%u56F4%u2026'')] @
     video_references num spec v @ map SelectPart options @ video_sound spec v @ [async_contract] @
     error_part (run_error r) @
     [SubmitPart (if run_isPending r then ulit ''%u6B63%u5728%u63D0%u4EA4%u2026'' else ulit ''%u751F%u6210%u89C6%u9891'') (submit_disabled Video useQuery r)]"

definition video_view ::
    "(rat \<Rightarrow> jstr) \<Rightarrow> query_hook \<Rightarrow> VideoForm \<Rightarrow> PlaygroundRun \<Rightarrow> form_part list res" where
  "video_view num useQuery v r =
     bindr (selectedVideoSpec v) (\<lambda>spec.
     bindr (video_selects v) (\<lambda>(model, options). Inr (video_parts num useQuery spec model options v r)))"

section \<open>The image form and the chat form\<close>

definition image_quality_shown :: "ImageForm \<Rightarrow> bool" where
  "image_quality_shown v \<longleftrightarrow> if_model v = lit ''gpt-image-2'' \<or> if_model v = lit ''adobe:gpt-image-2''"

definition image_view :: "query_hook \<Rightarrow> ImageForm \<Rightarrow> PlaygroundRun \<Rightarrow> form_part list res" where
  "image_view useQuery v r =
     bindr (image_effective v) (\<lambda>effectiveModel.
     bindr (models_of imageModelsByProvider (if_provider v)) (\<lambda>models.
     bindr (model_options models) (\<lambda>named.
     bindr (imageSizes effectiveModel) (\<lambda>sizes.
     let edit = (if_mode v = ImageEdit) in
     Inr ([HeadingPart (lit ''Image API'') (if edit then ulit ''%u56FE%u751F%u56FE'' else ulit ''%u6587%u751F%u56FE''),
        ModePart [(ulit ''%u6587%u751F%u56FE'', \<not> edit, False), (ulit ''%u56FE%u751F%u56FE'', edit, False)],
        LabelPart (ulit ''%u751F%u6210%u914D%u7F6E'') (ulit ''%u5FC5%u586B%u4E0E%u5E38%u7528%u53C2%u6570''),
        SelectPart \<lparr>fs_label = ulit ''%u6A21%u578B'', fs_value = Some (if_model v), fs_options = named\<rparr>,
        TextPart (ulit ''%u63D0%u793A%u8BCD'') (if_prompt v) (ulit ''%u63CF%u8FF0%u4E3B%u4F53%u3001%u573A%u666F%u3001%u5149%u7EBF%u3001%u6784%u56FE%u548C%u98CE%u683C%u2026'')] @
       (if edit then [FilePart (FileInput (if_files v)),
          SelectPart \<lparr>fs_label = ulit ''%u53C2%u8003%u5F3A%u5EA6'', fs_value = Some (if_strength v), fs_options = strength_options\<rparr>] else []) @
       [SelectPart \<lparr>fs_label = ulit ''%u5C3A%u5BF8'', fs_value = Some (if_size v), fs_options = same_texts sizes\<rparr>] @
       (if image_quality_shown v then [SelectPart \<lparr>fs_label = ulit ''%u8D28%u91CF'', fs_value = Some (if_quality v),
          fs_options = [(lit ''low'', lit ''Low''), (lit ''medium'', lit ''Medium''), (lit ''high'', lit ''High'')]\<rparr>] else []) @
       [NumberPart (ulit ''%u6570%u91CF'') 1 (if single_image v then 1 else 4) 1 (if single_image v then 1 else if_count v) (single_image v),
        LabelPart (ulit ''%u9AD8%u7EA7%u53C2%u6570'') (ulit ''%u5F02%u6B65%u4EA4%u4ED8%u4E0E%u80CC%u666F''),
        SelectPart \<lparr>fs_label = ulit ''%u80CC%u666F'', fs_value = Some (if_background v),
          fs_options = [(lit ''opaque'', ulit ''Opaque %u00B7 %u4E0D%u900F%u660E''), (lit ''auto'', ulit ''Auto %u00B7 %u5E73%u53F0%u51B3%u5B9A'')]\<rparr>,
        ContractPart [(lit ''response_format'', lit ''url''), (lit ''moderation'', lit ''auto''), (lit ''public'', lit ''false''), (lit ''Idempotency-Key'', ulit ''%u81EA%u52A8%u751F%u6210'')]] @
       error_part (run_error r) @
       [SubmitPart (if run_isPending r then ulit ''%u6B63%u5728%u63D0%u4EA4%u2026'' else ulit ''%u521B%u5EFA%u56FE%u50CF%u4EFB%u52A1'') (submit_disabled Image useQuery r)])))))"

text \<open>The chat form; its button is disabled without a key or a message.\<close>

definition chat_view :: "jstr \<Rightarrow> ChatForm \<Rightarrow> bool \<Rightarrow> jstr option \<Rightarrow> form_part list res" where
  "chat_view apiKey v isPending error =
     bindr (models_of imageModelsByProvider (cf_provider v)) (\<lambda>models.
     bindr (providerImageModel (cf_provider v) (cf_model v)) (\<lambda>effectiveModel.
     bindr (generationRoute effectiveModel) (\<lambda>route.
     bindr (model_options models) (\<lambda>named.
     Inr ([HeadingPart (lit ''Chat Compatibility'') (ulit ''Chat Completions %u6D4B%u8BD5''), NotePart (ulit ''%u4F1A%u6D88%u8017%u79EF%u5206'') [],
        SelectPart \<lparr>fs_label = ulit ''%u6A21%u578B'', fs_value = Some (cf_model v), fs_options = named\<rparr>,
        TextPart (ulit ''%u7528%u6237%u6D88%u606F'') (cf_prompt v) []] @
       error_part error @
       [SubmitPart (if isPending then ulit ''%u63D0%u4EA4%u4E2D'' else ulit ''%u63D0%u4EA4 Chat %u8BF7%u6C42'') (chat_disabled apiKey v isPending)])))))"

section \<open>The audio form\<close>

definition audio_placeholder :: "AudioForm \<Rightarrow> jstr" where
  "audio_placeholder v =
     (if is_dialogue v then ulit ''%u8F93%u5165%u9700%u8981%u6717%u8BFB%u7684%u6587%u672C%u2026''
      else if is_music v then ulit ''%u63CF%u8FF0%u66F2%u98CE%u3001%u60C5%u7EEA%u3001%u4E50%u5668%u3001%u8282%u594F%u548C%u662F%u5426%u6709%u6B4C%u8BCD%u2026''
      else ulit ''%u63CF%u8FF0%u58F0%u97F3%u6765%u6E90%u3001%u73AF%u5883%u3001%u6750%u8D28%u3001%u8282%u594F%u548C%u53D8%u5316%u2026'')"

definition audio_options :: "AudioForm \<Rightarrow> form_part list" where
  "audio_options v =
     (if is_dialogue v then
        [SelectPart \<lparr>fs_label = ulit ''%u8BED%u97F3'', fs_value = Some (au_voice v), fs_options = same_texts audioVoices\<rparr>,
         TextPart (ulit ''%u8BED%u8A00'') (au_language v) (lit ''en''),
         NumberPart (ulit ''%u63D0%u793A%u8BCD%u5F3A%u5EA6'') 0 1 (1 / 10) (au_promptInfluence v) False]
      else if is_music v then
        [NumberPart (ulit ''%u65F6%u957F%uFF08%u5206%u949F%uFF09'') 1 10 1 (au_durationMinutes v) False,
         CheckPart (ulit ''%u4EC5%u5668%u4E50'') (ulit ''%u4E0D%u751F%u6210%u6B4C%u8BCD%u6216%u4EBA%u58F0'') (au_forceInstrumental v)]
      else
        [NumberPart (ulit ''%u65F6%u957F%uFF08%u79D2%uFF09'') 1 22 1 (au_duration v) False,
         NumberPart (ulit ''%u63D0%u793A%u8BCD%u5F3A%u5EA6'') 0 1 (1 / 10) (au_promptInfluence v) False,
         CheckPart (ulit ''%u5FAA%u73AF'') (ulit ''%u9002%u5408%u65E0%u7F1D%u73AF%u5883%u58F0'') (au_loop v)])"

text \<open>The price of an inherited property of the table is undefined, and nothing is shown for it.\<close>

definition audio_price :: "AudioForm \<Rightarrow> jstr res" where
  "audio_price v = (case obj_get audioModelDocs (au_model v) of
       Inl _ \<Rightarrow> Inr [] | Inr None \<Rightarrow> Inl TypeError | Inr (Some doc) \<Rightarrow> Inr (ad_price doc))"

definition audio_view :: "query_hook \<Rightarrow> AudioForm \<Rightarrow> PlaygroundRun \<Rightarrow> form_part list res" where
  "audio_view useQuery v r =
     bindr (audio_price v) (\<lambda>price.
     Inr ([HeadingPart (lit ''Audio API'') (audio_title v), LabelPart (ulit ''%u751F%u6210%u914D%u7F6E'') (ulit ''%u97F3%u9891%u4EFB%u52A1%u4E3A%u5F02%u6B65%u6267%u884C''),
        SelectPart \<lparr>fs_label = ulit ''%u6A21%u578B'', fs_value = Some (au_model v), fs_options = same_texts (map fst audioModelDocs)\<rparr>,
        TextPart (ulit ''%u63D0%u793A%u8BCD'') (au_prompt v) (audio_placeholder v)] @
       audio_options v @
       [NumberPart (ulit ''%u6570%u91CF'') 1 4 1 (au_count v) False, NotePart price (ulit ''%u79EF%u5206%u7531%u540E%u7AEF%u89C4%u5219%u8BA1%u7B97%u5E76%u9884%u7559''), async_contract] @
       error_part (run_error r) @
       [SubmitPart (if run_isPending r then ulit ''%u6B63%u5728%u63D0%u4EA4%u2026'' else audio_title v) (submit_disabled Audio useQuery r)]))"

section \<open>What the video form shows is what it sends\<close>

definition part_selects :: "form_part list \<Rightarrow> FormSelect list" where
  "part_selects = List.map_filter (\<lambda>p. case p of SelectPart s \<Rightarrow> Some s | _ \<Rightarrow> None)"

definition part_inputs :: "form_part list \<Rightarrow> MediaInput list" where
  "part_inputs = List.map_filter (\<lambda>p. case p of FilePart i \<Rightarrow> Some i | _ \<Rightarrow> None)"

text \<open>A select with this label shows the value, which is one of its options.\<close>

definition select_shows :: "form_part list \<Rightarrow> jstr \<Rightarrow> jstr \<Rightarrow> bool" where
  "select_shows parts label x \<longleftrightarrow>
     (\<exists>s \<in> set (part_selects parts). fs_label s = label \<and> fs_value s = Some x \<and> x \<in> fst ` set (fs_options s))"

text \<open>The files the input with this name holds; none where it is not shown.\<close>

definition input_files :: "form_part list \<Rightarrow> jstr \<Rightarrow> jstr list" where
  "input_files parts name = concat (map mi_files (filter (\<lambda>i. mi_name i = name) (part_inputs parts)))"

lemma part_simps [simp]:
  "part_selects [] = []" "part_inputs [] = []"
  "part_selects (p # ps) = (case p of SelectPart s \<Rightarrow> [s] | _ \<Rightarrow> []) @ part_selects ps"
  "part_inputs (p # ps) = (case p of FilePart i \<Rightarrow> [i] | _ \<Rightarrow> []) @ part_inputs ps"
  "part_selects (ps @ qs) = part_selects ps @ part_selects qs"
  "part_inputs (ps @ qs) = part_inputs ps @ part_inputs qs"
  "part_selects (map SelectPart ss) = ss" "part_inputs (map SelectPart ss) = []"
  "part_inputs (map FilePart is) = is" "part_selects (map FilePart is) = []"
  by (simp_all add: part_selects_def part_inputs_def List.map_filter_def comp_def split: form_part.split)

lemma error_part_parts [simp]: "part_selects (error_part e) = []" "part_inputs (error_part e) = []"
  by (simp_all add: error_part_def split: option.split)

lemma sound_parts [simp]: "part_selects (video_sound spec v) = []" "part_inputs (video_sound spec v) = []"
  by (simp_all add: video_sound_def)

lemma heading_parts [simp]: "part_selects (video_heading spec v) = []" "part_inputs (video_heading spec v) = []"
  by (simp_all add: video_heading_def)

lemma media_input_simps [simp]:
  "mi_name (VideoMediaInput label hint accept files most multiple) = label"
  "mi_files (VideoMediaInput label hint accept files most multiple) = files"
  by (simp_all add: VideoMediaInput_def)

lemma video_parts_inputs:
  "input_files (video_parts num useQuery spec model options v r) name =
     (if referenceMode spec v
      then concat (map mi_files (filter (\<lambda>i. mi_name i = name) (video_inputs num spec v))) else [])"
  by (simp add: input_files_def video_parts_def video_references_def async_contract_def)

lemma video_parts_shows:
  assumes "c \<in> set (model # options)" "fs_value c = Some x" "x \<in> fst ` set (fs_options c)"
  shows "select_shows (video_parts num useQuery spec model options v r) (fs_label c) x"
proof -
  have "c \<in> set (part_selects (video_parts num useQuery spec model options v r))"
    using assms(1) by (auto simp: video_parts_def)
  with assms show ?thesis by (auto simp: select_shows_def)
qed

lemma video_parts_check:
  assumes "CheckPart title note b \<in> set (video_parts num useQuery spec model options v r)"
  shows "vd_supportsGenerateAudio spec \<and> \<not> always_audio spec \<and> b = vf_generateAudio v"
proof -
  from assms have "CheckPart title note b \<in> set (video_sound spec v)"
    by (auto simp: video_parts_def video_heading_def video_references_def async_contract_def error_part_def
        split: if_splits option.splits)
  then show ?thesis by (simp add: video_sound_def split: if_splits)
qed

text \<open>An id with a hyphen, or with an underscore that is not its first character.\<close>

definition hyphenated :: "jstr \<Rightarrow> bool" where
  "hyphenated d \<longleftrightarrow> 45 \<in> set d \<or> 95 \<in> set d \<and> hd d \<noteq> 95"

lemma prototype_not_hyphenated: "list_all (\<lambda>k. \<not> hyphenated k) object_prototype_keys"
  by code_simp

lemma displays_hyphenated:
  "list_all (\<lambda>m. hyphenated (bare_id (lit ''leonardo'') m)) (pp_models leonardo Video)"
  "list_all (\<lambda>m. hyphenated (bare_id (lit ''adobe'') m)) (pp_models adobe Video)"
  "list_all (\<lambda>m. hyphenated (bare_id (lit ''creativefabrica'') m)) (pp_models creativefabrica Video)"
  by code_simp+

lemma video_display_safe:
  assumes "offered Video p d m"
  shows "d \<notin> set object_prototype_keys"
proof -
  obtain P where P: "map_of providerRegistry p = Some P" "m \<in> set (pp_models P Video)" "modelDisplayID m = Inr d"
    using assms by (auto simp: offered_def)
  then have d: "d = bare_id p m" using listed_model_bare [OF P(1,2)] by (simp add: listed_as_def)
  have "hyphenated d" using displays_hyphenated P d by (auto simp: registry_map_of list_all_iff)
  then show ?thesis using prototype_not_hyphenated by (auto simp: list_all_iff)
qed

lemma model_options_total:
  assumes "set models \<inter> set object_prototype_keys = {}"
  shows "\<exists>named. model_options models = Inr named \<and> map fst named = models"
  using assms
proof (induction models)
  case (Cons m ms)
  then obtain d where "modelDisplayID m = Inr d" using modelDisplayID_Inl [of m] by (cases "modelDisplayID m") auto
  with Cons show ?case by (auto simp: model_options_def)
qed (simp add: model_options_def)

text \<open>The form of an offered, documented model always renders.\<close>

definition option_selects :: "VideoModelDoc \<Rightarrow> VideoSize \<Rightarrow> VideoForm \<Rightarrow> FormSelect list" where
  "option_selects doc s v =
     [\<lparr>fs_label = ulit ''%u753B%u5E45'', fs_value = Some (vf_size v), fs_options = map (\<lambda>s. (vs_value s, vs_label s)) (doc_sizes doc)\<rparr>,
      \<lparr>fs_label = ulit ''%u5206%u8FA8%u7387'', fs_value = vf_resolution v, fs_options = same_texts [size_resolution doc s]\<rparr>,
      \<lparr>fs_label = ulit ''%u65F6%u957F'', fs_value = Some (num_str (vf_duration v)),
       fs_options = map (\<lambda>n. (num_str n, num_str n @ ulit '' %u79D2'')) (vd_durationValues doc)\<rparr>]"

lemma video_view_ok:
  assumes o: "offered Video (vf_provider v) (vf_model v) m" and doc: "map_of videoModelDocs m = Some doc"
    and s: "s \<in> set (doc_sizes doc)" "vf_size v = vs_value s"
  shows "\<exists>named. vf_model v \<in> fst ` set named \<and> video_view num useQuery v r = Inr (video_parts num useQuery doc
    \<lparr>fs_label = ulit ''%u6A21%u578B'', fs_value = Some (vf_model v), fs_options = named\<rparr> (option_selects doc s v) v r)"
proof -
  obtain P where P: "map_of providerRegistry (vf_provider v) = Some P" using o by (auto simp: offered_def)
  obtain ds where ds: "models_of videoModelsByProvider (vf_provider v) = Inr ds"
    "\<forall>d. d \<in> set ds \<longleftrightarrow> (\<exists>m. offered Video (vf_provider v) d m)"
    using publicModels_listed [OF P, of Video] models_of_simps(2) [OF P] by auto
  then have "set ds \<inter> set object_prototype_keys = {}" using video_display_safe by blast
  then obtain named where named: "model_options ds = Inr named" "map fst named = ds" using model_options_total by blast
  have "vf_model v \<in> set ds" using ds(2) o by blast
  with named(2) have "vf_model v \<in> fst ` set named" by (metis set_map)
  then show ?thesis
    using ds(1) named(1) sizes_nonempty(2) [OF doc] videoResolutionsForSize_listed [OF doc s(1)]
    by (intro exI [of _ named])
       (simp add: video_view_def selectedVideoSpec_def video_selects_def video_effective_def
        effective_offered(2) [OF o] video_doc_Some [OF doc] s(2) option_selects_def)
qed

lemma input_names: "distinct [ulit ''%u666E%u901A%u53C2%u8003%u56FE'', ulit ''%u9996%u5E27'', ulit ''%u5C3E%u5E27'', ulit ''%u53C2%u8003%u89C6%u9891'', ulit ''%u53C2%u8003%u97F3%u9891'']"
  by code_simp

lemma input_names_differ:
  "ulit ''%u666E%u901A%u53C2%u8003%u56FE'' \<noteq> ulit ''%u9996%u5E27''" "ulit ''%u666E%u901A%u53C2%u8003%u56FE'' \<noteq> ulit ''%u5C3E%u5E27''" "ulit ''%u666E%u901A%u53C2%u8003%u56FE'' \<noteq> ulit ''%u53C2%u8003%u89C6%u9891''" "ulit ''%u666E%u901A%u53C2%u8003%u56FE'' \<noteq> ulit ''%u53C2%u8003%u97F3%u9891''"
  "ulit ''%u9996%u5E27'' \<noteq> ulit ''%u666E%u901A%u53C2%u8003%u56FE''" "ulit ''%u9996%u5E27'' \<noteq> ulit ''%u5C3E%u5E27''" "ulit ''%u9996%u5E27'' \<noteq> ulit ''%u53C2%u8003%u89C6%u9891''" "ulit ''%u9996%u5E27'' \<noteq> ulit ''%u53C2%u8003%u97F3%u9891''"
  "ulit ''%u5C3E%u5E27'' \<noteq> ulit ''%u666E%u901A%u53C2%u8003%u56FE''" "ulit ''%u5C3E%u5E27'' \<noteq> ulit ''%u9996%u5E27''" "ulit ''%u5C3E%u5E27'' \<noteq> ulit ''%u53C2%u8003%u89C6%u9891''" "ulit ''%u5C3E%u5E27'' \<noteq> ulit ''%u53C2%u8003%u97F3%u9891''"
  "ulit ''%u53C2%u8003%u89C6%u9891'' \<noteq> ulit ''%u666E%u901A%u53C2%u8003%u56FE''" "ulit ''%u53C2%u8003%u89C6%u9891'' \<noteq> ulit ''%u9996%u5E27''" "ulit ''%u53C2%u8003%u89C6%u9891'' \<noteq> ulit ''%u5C3E%u5E27''" "ulit ''%u53C2%u8003%u89C6%u9891'' \<noteq> ulit ''%u53C2%u8003%u97F3%u9891''"
  "ulit ''%u53C2%u8003%u97F3%u9891'' \<noteq> ulit ''%u666E%u901A%u53C2%u8003%u56FE''" "ulit ''%u53C2%u8003%u97F3%u9891'' \<noteq> ulit ''%u9996%u5E27''" "ulit ''%u53C2%u8003%u97F3%u9891'' \<noteq> ulit ''%u5C3E%u5E27''" "ulit ''%u53C2%u8003%u97F3%u9891'' \<noteq> ulit ''%u53C2%u8003%u89C6%u9891''"
  using input_names by auto

text \<open>The file inputs that are shown hold all the files of a form whose files fit its model.\<close>

lemma video_inputs_hold:
  assumes doc: "map_of videoModelDocs m = Some doc" and ok: "video_files_ok doc v" and mode: "referenceMode doc v"
  shows "vf_referenceImages v = concat (map mi_files (filter (\<lambda>i. mi_name i = ulit ''%u666E%u901A%u53C2%u8003%u56FE'') (video_inputs num doc v)))"
    "vf_startFrame v = concat (map mi_files (filter (\<lambda>i. mi_name i = ulit ''%u9996%u5E27'') (video_inputs num doc v)))"
    "vf_endFrame v = concat (map mi_files (filter (\<lambda>i. mi_name i = ulit ''%u5C3E%u5E27'') (video_inputs num doc v)))"
    "vf_referenceVideos v = concat (map mi_files (filter (\<lambda>i. mi_name i = ulit ''%u53C2%u8003%u89C6%u9891'') (video_inputs num doc v)))"
    "vf_referenceAudio v = concat (map mi_files (filter (\<lambda>i. mi_name i = ulit ''%u53C2%u8003%u97F3%u9891'') (video_inputs num doc v)))"
proof -
  have "vd_maxReferenceImages doc = 0 \<Longrightarrow> vf_referenceImages v = []"
    using maxImageReferences_le [OF doc, of "vf_referenceVideos v \<noteq> []"] ok
    by (simp add: video_files_ok_def maxImageReferences_def)
  moreover have "\<not> vd_supportsStartEnd doc \<Longrightarrow> vf_startFrame v = [] \<and> vf_endFrame v = []"
    using documented_ok [OF doc] ok by (auto simp: video_files_ok_def video_doc_ok_def)
  moreover have "\<not> supportsVideoEndFrame doc \<Longrightarrow> vf_endFrame v = []" "maxVideoReferences doc = 0 \<Longrightarrow> vf_referenceVideos v = []"
    "maxAudioReferences doc = 0 \<Longrightarrow> vf_referenceAudio v = []"
    using ok by (auto simp: video_files_ok_def)
  ultimately show
    "vf_referenceImages v = concat (map mi_files (filter (\<lambda>i. mi_name i = ulit ''%u666E%u901A%u53C2%u8003%u56FE'') (video_inputs num doc v)))"
    "vf_startFrame v = concat (map mi_files (filter (\<lambda>i. mi_name i = ulit ''%u9996%u5E27'') (video_inputs num doc v)))"
    "vf_endFrame v = concat (map mi_files (filter (\<lambda>i. mi_name i = ulit ''%u5C3E%u5E27'') (video_inputs num doc v)))"
    "vf_referenceVideos v = concat (map mi_files (filter (\<lambda>i. mi_name i = ulit ''%u53C2%u8003%u89C6%u9891'') (video_inputs num doc v)))"
    "vf_referenceAudio v = concat (map mi_files (filter (\<lambda>i. mi_name i = ulit ''%u53C2%u8003%u97F3%u9891'') (video_inputs num doc v)))"
    by (auto simp: video_inputs_def Let_def input_names_differ)
qed

lemma video_files_shown:
  assumes doc: "map_of videoModelDocs m = Some doc" and ok: "video_files_ok doc v"
    and body: "body = (if \<not> referenceMode doc v then JsonBody (defined_fields entries)
          else FormBody (text_fields entries @ video_files v))"
    and parts: "parts = video_parts num useQuery doc model options v r"
  shows "files_of body (lit ''image[]'') = input_files parts (ulit ''%u666E%u901A%u53C2%u8003%u56FE'')"
    "files_of body (lit ''start_frame'') = input_files parts (ulit ''%u9996%u5E27'')"
    "files_of body (lit ''end_frame'') = input_files parts (ulit ''%u5C3E%u5E27'')"
    "files_of body (lit ''video[]'') = input_files parts (ulit ''%u53C2%u8003%u89C6%u9891'')"
    "files_of body (lit ''audio[]'') = input_files parts (ulit ''%u53C2%u8003%u97F3%u9891'')"
proof -
  note held = video_inputs_hold [OF doc ok, of num]
  have one: "take (Suc 0) (vf_startFrame v) = vf_startFrame v" "take (Suc 0) (vf_endFrame v) = vf_endFrame v"
    using ok by (simp_all add: video_files_ok_def)
  show "files_of body (lit ''image[]'') = input_files parts (ulit ''%u666E%u901A%u53C2%u8003%u56FE'')"
    "files_of body (lit ''start_frame'') = input_files parts (ulit ''%u9996%u5E27'')"
    "files_of body (lit ''end_frame'') = input_files parts (ulit ''%u5C3E%u5E27'')"
    "files_of body (lit ''video[]'') = input_files parts (ulit ''%u53C2%u8003%u89C6%u9891'')"
    "files_of body (lit ''audio[]'') = input_files parts (ulit ''%u53C2%u8003%u97F3%u9891'')"
    using one
    by (cases "referenceMode doc v";
        simp add: body files_of_simps parts video_parts_inputs held [symmetric])+
qed



end
