(* ===== verification/Spec2Isabelle.thy ===== *)
theory Spec2Isabelle
  imports Paging AccountForm VideoForm ImageForm AudioForm PlaygroundRun SalePricing Tasks
    ClientCache Dashboard ApiKeys ModelCatalog CapacityPage Observability Settings CostQuote
    DocFollow DocsPage Calculators PlaygroundPage DocViews AccountList TaskDetail AdminFrame ModelViews KeyDesk
    PricingDesk PlaygroundViews
begin

text \<open>
  Verification of the admin client of avi2api (src/admin-web).

  The program. avi2api is a gateway that offers the image, video and audio models of several
  providers (Leonardo, Adobe, Creative Fabrica and what the gateway adds) behind one API. Its
  administrators work with a single-page client written in TypeScript: they add accounts of the
  providers, watch tasks and requests, set prices and capacities, hand out API keys, try the models in
  a playground and read the developer guide. This development models that client. The gateway
  itself is a Go program; its answers are arguments or events of the model, and no property
  assumes more of them than it states.

  How the code is modelled. A type of shared/types.ts is a record, an enumeration a datatype, a
  string a list of UTF-16 code units (theory JsPrelude), a parsed JSON value the datatype json (theory
  Json), an object used as a dictionary an insertion-ordered association list, a lookup in an object
  literal one that also finds Object.prototype. A thrown exception is the left value of a sum
  (type res, sequenced by bindr). A React component is a record of its state, a datatype of its
  events (the controls, the answers that arrive, the time that passes) and a step function; an effect
  is a function that the step applies where React would run it. An event a page does not offer in
  some state leaves the state as it is. Numbers that count are integers or naturals; amounts and
  numbers typed by the user are exact rationals where the code has doubles, so rounding of sums and
  products of fractions is not modelled. What belongs to the environment is a parameter: the time
  (now), the time zone (utc and localtime, with what a zone promises stated where it matters), number
  and date formatting (loc, num, when), localeCompare, JSON parsing and printing, the query library
  (useQuery with its placeholder data, in PlaygroundRun), the origin of the page, and the JSON catalog
  of Creative Fabrica. Files are named by strings.

  Theories and sources, by layer.
  Foundations: JsPrelude (strings, arrays, objects, maps, sorts, exceptions; the locales comparator,
  ordered_map and guarded_machine), Json, JsDate (Date.parse of the standard format), UrlParams
  (URLSearchParams), DateRange (toISOString and appendLocalDateRange of shared/status.ts), Mutation
  (useMutation; the locale calculator), Failures (which lookups fail), Types (shared/types.ts), Batches (the loops shared by the list
  pages; the locale batch_report; the scan loop is a partial function in the option monad, because
  it need not end).
  Registry and documents: Providers (shared/providers.ts), MediaSpecs (pages/media-specs.ts, entry by
  entry), Catalog (shared/catalog.ts), StatusText (shared/status.ts, shared/text.ts,
  components/account-status.tsx).
  Pages: Paging (components/ui/pagination.tsx), Accounts, BulkImport, AccountForm,
  AccountSheet and AccountList (pages/account-pages.tsx: the pieces of the list, the import, the form, the
  dialog with its request, and the page that composes them), Tasks and TaskDetail (pages/task-pages.tsx: the
  list and the dialog of one task), ApiKeys and KeyDesk
  (pages/api-key-page.tsx: lists and form, the page with its requests),
  ModelCatalog and ModelViews (pages/model-page.tsx: state, and requests
  and views), Calculators (pages/pricing-components.tsx and the video
  calculator of pages/docs-page.tsx), CostQuote (pages/creativefabrica-cost-quote.tsx), SalePricing
  and PricingDesk (pages/sale-pricing-page.tsx: rules and form, the page with its requests), Observability (pages/observability-pages.tsx), Settings
  (pages/security-page.tsx and the login of main.tsx), CapacityPage (pages/system-capacity-page.tsx),
  Dashboard and AdminFrame (main.tsx, components/command-palette.tsx, components/overview-task-table.tsx:
  the state of the frame, and what it and the overview show), Switcher
  (components/provider-switcher.tsx), ClientCache (shared/cache.ts, shared/api.ts).
  Playground: Playground (what the forms share, components/generation-provider-selector.tsx),
  VideoForm, ImageForm, AudioForm, PlaygroundRun (the life of a task), ResultView
  (components/playground-result.tsx, components/copy-code.tsx, components/ui/query-state.tsx),
  PlaygroundViews (what the forms show), PlaygroundPage (the frame), all of pages/playground-page.tsx.
  Guide: DocTables (tables and examples), DocsPage (which page is shown), DocViews (the blocks of a
  page), DocExamples and DocFollow (the guide against itself and against the playground), all of pages/docs-page.tsx.

  Contracts. comparator: a comparison that is antisymmetric and transitive up to its key makes the sort
  of the prelude a stable sort; interpreted on the order of the cost rules and on the order of
  numbers. ordered_map: what Map promises; interpreted on the association lists of the prelude.
  guarded_machine: a step function with an invariant kept by the events a guard lets through, giving the
  invariant of every run; interpreted on each page with an invariant of its own (forms, dialogs, lists, the
  guide, the caches). batch_report: merging the reports of batches keeps the account of ids;
  interpreted on archiving accounts and on failing uncertain tasks. calculator: a form that drops its
  answer whenever what it would ask changes; interpreted on both calculators and on the quote.
  The worker pool of the bulk import is an inductive step relation over all orders of answers.

  What the properties show. The forms of the playground, the account dialog and the guide keep what
  they show consistent through every sequence of controls, and what they send is what the documents
  allow. Every example of the guide can be sent from the playground, its parameter tables agree with
  its examples, its links open the form they stand for. The import's pool sends every file exactly
  once, whatever the order of the answers; scans and cleanups account for every row. The account page sends
  what its dialogs list, the dialogs of one account and of one task send what they show, once and about
  nothing else, and every page of the guide can be shown. Estimates and
  quotes on the page belong to what the form says. Edits of the capacity form survive polling until
  another revision arrives. Names, profiles, cached results and the fields that show them are read
  back as they were written. The error properties state behaviour that is hardly meant, each with the
  inputs that show it; the other findings are lemmas or notes of the manifest.

  Bounds. The scan loop takes no fuel: a property states exactly when it ends. Every other recursion is
  structural or has a measure. The video references of an example, and the prompt lengths it needs,
  are computed from the tables.

  Not modelled. The Go gateway, the maintenance scripts, the SQL migrations and the deployment, being
  other languages; the bundled copy of the client in internal/web/dist, being built from these
  sources; the primitives of components/ui beyond pagination and query status, which only wrap
  library components; markup, styling, icons, focus and scrolling.
\<close>

end
